(* ===== verification/Blink_Prelude.thy ===== *)
theory Blink_Prelude
  imports Main "HOL-Library.Word"
begin

unbundle bit_operations_syntax

text \<open>
  What every component of the emulator model shares: the C integer types as words, names for
  the C shifts and casts, the collections of rewrite rules the component theories extend
  (\<open>flag_simps\<close> for reading a flag word after an update, \<open>word_eval\<close> for evaluating ground
  words), and generic facts about words of any width: the carry, borrow, half carry and signed
  overflow of an addition or a subtraction, with and without a carry in.
\<close>

section \<open>Types and casts of the C code\<close>

type_synonym u8 = "8 word"
type_synonym u16 = "16 word"
type_synonym u32 = "32 word"
type_synonym u64 = "64 word"

text \<open>
  A C cast between unsigned types truncates or extends with zeros: \<open>ucast\<close>. A cast through a
  signed type of the same width followed by a widening extends the sign: \<open>scast\<close>.
  The shift counts of the C code are numbers here; the call sites keep them in range.
\<close>

abbreviation to_u8 :: "'a::len word \<Rightarrow> u8" where "to_u8 x \<equiv> ucast x"
abbreviation to_u16 :: "'a::len word \<Rightarrow> u16" where "to_u16 x \<equiv> ucast x"
abbreviation to_u32 :: "'a::len word \<Rightarrow> u32" where "to_u32 x \<equiv> ucast x"
abbreviation to_u64 :: "'a::len word \<Rightarrow> u64" where "to_u64 x \<equiv> ucast x"

abbreviation shl :: "'a::len word \<Rightarrow> nat \<Rightarrow> 'a word" where "shl x n \<equiv> push_bit n x"
abbreviation shr :: "'a::len word \<Rightarrow> nat \<Rightarrow> 'a word" where "shr x n \<equiv> drop_bit n x"
abbreviation sar :: "'a::len word \<Rightarrow> nat \<Rightarrow> 'a word" where "sar x n \<equiv> signed_drop_bit n x"

named_theorems flag_simps "reading a flag word after an update"
named_theorems word_eval "evaluation of ground words"

declare mask_numeral [word_eval]

section \<open>The sign bit\<close>

lemma two_halves: "(2::int) ^ LENGTH('a::len) = 2 * 2 ^ (LENGTH('a) - Suc 0)"
  by (metis Suc_pred len_gt_0 power_Suc)

lemma msb_iff_half:
  fixes x :: "'a::len word"
  shows "bit x (LENGTH('a) - Suc 0) \<longleftrightarrow> 2 ^ (LENGTH('a) - Suc 0) \<le> uint x"
proof -
  let ?H = "2 ^ (LENGTH('a) - Suc 0) :: int"
  have "uint x < 2 * ?H"
    using uint_lt2p [of x] by (simp add: two_halves)
  then have "uint x div ?H = (if ?H \<le> uint x then 1 else 0)"
    by (auto intro!: div_pos_pos_trivial
        simp: div_eq_0_iff int_div_pos_eq [where q = 1 and r = "uint x - ?H"])
  moreover have "bit x (LENGTH('a) - Suc 0) \<longleftrightarrow> bit (uint x) (LENGTH('a) - Suc 0)"
    by (simp add: bit_uint_iff)
  ultimately show ?thesis
    by (simp only: bit_iff_odd [of "uint x"]) simp
qed

lemma sint_cases:
  fixes x :: "'a::len word"
  shows "sint x = (if 2 ^ (LENGTH('a) - Suc 0) \<le> uint x then uint x - 2 ^ LENGTH('a) else uint x)"
proof -
  have "sint x = uint x - 2 ^ LENGTH('a) * of_bool (bit x (LENGTH('a) - Suc 0))"
    by (simp add: sint_uint signed_take_bit_eq_take_bit_minus bit_uint_iff)
      (use bintr_uint in fastforce)
  then show ?thesis by (simp add: msb_iff_half)
qed

section \<open>Bits of casts and shifted ones\<close>

lemma bit_shl_one: "bit (shl (1 :: 'a::len word) n) i \<longleftrightarrow> i = n \<and> n < LENGTH('a)"
  by (auto simp: bit_simps)

lemma bit_of_bool_word: "bit (of_bool b :: 'a::len word) i \<longleftrightarrow> b \<and> i = 0"
  by (cases b) (simp_all add: bit_1_iff)

lemma bit_shl_of_bool: "bit (shl (of_bool b :: 'a::len word) n) i \<longleftrightarrow> b \<and> i = n \<and> n < LENGTH('a)"
  by (cases b) (auto simp: bit_simps)

lemma and_one_bit: "(x :: 'a::len word) AND 1 \<noteq> 0 \<longleftrightarrow> bit x 0"
  by (simp add: and_one_eq odd_iff_mod_2_eq_one bit_0)

lemma and_one_of_bool: "(w :: 'a::len word) AND 1 = of_bool (bit w 0)"
  by (simp add: and_one_eq odd_iff_mod_2_eq_one bit_0)

lemma of_bool_xor: "(of_bool a :: 'a::len word) XOR of_bool b = of_bool (a \<noteq> b)"
  by (cases a; cases b) simp_all

lemma ucast_of_bool: "ucast (of_bool b :: 'a::len word) = of_bool b"
  by (cases b) simp_all

lemma ucast_back [simp]:
  fixes x :: "'a::len word"
  assumes "LENGTH('a) \<le> LENGTH('b::len)"
  shows "ucast (ucast x :: 'b word) = x"
  using assms by (intro bit_word_eqI) (auto simp: bit_simps)

lemma uint_copy: "LENGTH('a) \<le> 64 \<Longrightarrow> uint (to_u64 (z :: 'a::len word)) = uint z"
  by (simp add: unsigned_ucast_eq bintr_uint)

section \<open>Low nibbles\<close>

lemma uint_and_15:
  fixes x :: "'a::len word"
  shows "uint (x AND 15) = uint x mod 16"
proof -
  have "x AND 15 = take_bit 4 x"
    by (simp only: take_bit_eq_mask) (simp add: mask_numeral)
  moreover have "uint (take_bit 4 x) = take_bit 4 (uint x)"
    by (rule unsigned_take_bit_eq)
  moreover have "\<dots> = uint x mod 2 ^ 4"
    by (rule take_bit_eq_mod)
  ultimately show ?thesis by simp
qed

lemma mod_less_cases:
  fixes p q n :: int
  assumes "0 \<le> p" "p < n" "0 \<le> q" "q < n"
  shows "(p + q) mod n = (if p + q < n then p + q else p + q - n)"
    and "(p - q) mod n = (if q \<le> p then p - q else p - q + n)"
proof -
  show "(p + q) mod n = (if p + q < n then p + q else p + q - n)"
    using assms minus_mod_self2 [of "p + q" n] by (auto simp del: minus_mod_self2)
  show "(p - q) mod n = (if q \<le> p then p - q else p - q + n)"
    using assms mod_add_self2 [of "p - q" n] by (auto simp del: mod_add_self2)
qed

lemma mod16_add_less: "(a + b) mod 16 < b mod 16 \<longleftrightarrow> 16 \<le> a mod 16 + b mod (16::int)"
proof -
  have "(a + b) mod 16 = (a mod 16 + b mod 16) mod 16" by (simp add: mod_add_eq)
  also have "\<dots> = (if a mod 16 + b mod 16 < 16 then a mod 16 + b mod 16 else a mod 16 + b mod 16 - 16)"
    by (rule mod_less_cases) simp_all
  finally show ?thesis
    using pos_mod_bound [of 16 a] pos_mod_sign [of 16 a] by (auto split: if_splits)
qed

lemma mod16_sub_less: "a mod 16 < (a - b) mod 16 \<longleftrightarrow> a mod 16 < b mod (16::int)"
proof -
  have "(a - b) mod 16 = (a mod 16 - b mod 16) mod 16" by (simp add: mod_diff_eq)
  also have "\<dots> = (if b mod 16 \<le> a mod 16 then a mod 16 - b mod 16 else a mod 16 - b mod 16 + 16)"
    by (rule mod_less_cases) simp_all
  finally show ?thesis
    using pos_mod_bound [of 16 b] pos_mod_sign [of 16 b] by (auto split: if_splits)
qed

lemma uint_add_mod_16:
  fixes x y :: "'a::len word"
  assumes "4 \<le> LENGTH('a)"
  shows "uint (x + y) mod 16 = (uint x + uint y) mod 16"
    and "uint (x - y) mod 16 = (uint x - uint y) mod 16"
proof -
  have "(2::int) ^ 4 dvd 2 ^ LENGTH('a)"
    using assms by (rule le_imp_power_dvd)
  then have d: "(16::int) dvd 2 ^ LENGTH('a)" by simp
  show "uint (x + y) mod 16 = (uint x + uint y) mod 16"
    using d by (simp add: uint_word_ariths mod_mod_cancel)
  show "uint (x - y) mod 16 = (uint x - uint y) mod 16"
    using d by (simp add: uint_word_ariths mod_mod_cancel)
qed

section \<open>Carry, borrow, half carry and signed overflow\<close>

lemma half_carry_add:
  fixes x y :: "'a::len word"
  assumes "4 \<le> LENGTH('a)"
  shows "(x + y) AND 15 < y AND 15 \<longleftrightarrow> 16 \<le> uint x mod 16 + uint y mod 16"
  using assms by (simp add: word_less_def uint_and_15 uint_add_mod_16 mod16_add_less)

lemma half_borrow_sub:
  fixes x y :: "'a::len word"
  assumes "4 \<le> LENGTH('a)"
  shows "x AND 15 < (x - y) AND 15 \<longleftrightarrow> uint x mod 16 < uint y mod 16"
  using assms by (simp add: word_less_def uint_and_15 uint_add_mod_16 mod16_sub_less)

lemma carry_add:
  fixes x y :: "'a::len word"
  shows "x + y < y \<longleftrightarrow> 2 ^ LENGTH('a) \<le> uint x + uint y"
  using uint_lt2p [of x] uint_lt2p [of y]
  by (auto simp: word_less_def uint_plus_if')

lemma borrow_sub:
  fixes x y :: "'a::len word"
  shows "x < x - y \<longleftrightarrow> uint x < uint y"
  using uint_lt2p [of x] uint_lt2p [of y] uint_ge_0 [of x]  uint_ge_0 [of y]
  by (auto simp: word_less_def uint_sub_if')

text \<open>
  Signed overflow: on numbers first. \<open>H\<close> is half the range, \<open>k\<close> the carry or borrow in; the
  sum overflows when its sign differs from the signs of both operands, the difference when its
  sign and the subtrahend's sign both differ from the minuend's.
\<close>

lemma signed_overflow_int:
  fixes X Y k H :: int
  assumes "0 \<le> X" "X < 2 * H" "0 \<le> Y" "Y < 2 * H" "0 \<le> k" "k \<le> 1"
  shows "(let Z = (X + Y + k) mod (2 * H) in (H \<le> Z) \<noteq> (H \<le> X) \<and> (H \<le> Z) \<noteq> (H \<le> Y)) \<longleftrightarrow>
      \<not> (- H \<le> (if H \<le> X then X - 2 * H else X) + (if H \<le> Y then Y - 2 * H else Y) + k \<and>
        (if H \<le> X then X - 2 * H else X) + (if H \<le> Y then Y - 2 * H else Y) + k < H)"
    and "(let Z = (X - Y - k) mod (2 * H) in (H \<le> Z) \<noteq> (H \<le> X) \<and> (H \<le> X) \<noteq> (H \<le> Y)) \<longleftrightarrow>
      \<not> (- H \<le> (if H \<le> X then X - 2 * H else X) - (if H \<le> Y then Y - 2 * H else Y) - k \<and>
        (if H \<le> X then X - 2 * H else X) - (if H \<le> Y then Y - 2 * H else Y) - k < H)"
proof -
  have "(X + Y + k) mod (2 * H) = (if X + Y + k < 2 * H then X + Y + k else X + Y + k - 2 * H)"
  proof (cases "X + Y + k < 2 * H")
    case False
    then have "(X + Y + k - 2 * H) mod (2 * H) = X + Y + k - 2 * H"
      using assms by (intro mod_pos_pos_trivial) linarith+
    then show ?thesis using False by (simp add: minus_mod_self2)
  qed (use assms in simp)
  then show "(let Z = (X + Y + k) mod (2 * H) in (H \<le> Z) \<noteq> (H \<le> X) \<and> (H \<le> Z) \<noteq> (H \<le> Y)) \<longleftrightarrow>
      \<not> (- H \<le> (if H \<le> X then X - 2 * H else X) + (if H \<le> Y then Y - 2 * H else Y) + k \<and>
        (if H \<le> X then X - 2 * H else X) + (if H \<le> Y then Y - 2 * H else Y) + k < H)"
    using assms by (simp add: Let_def) linarith
  have "(X - Y - k) mod (2 * H) = (if 0 \<le> X - Y - k then X - Y - k else X - Y - k + 2 * H)"
  proof (cases "0 \<le> X - Y - k")
    case False
    then have "(X - Y - k + 2 * H) mod (2 * H) = X - Y - k + 2 * H"
      using assms by (intro mod_pos_pos_trivial) linarith+
    then show ?thesis using False by (simp add: mod_add_self2)
  qed (use assms in simp)
  then show "(let Z = (X - Y - k) mod (2 * H) in (H \<le> Z) \<noteq> (H \<le> X) \<and> (H \<le> X) \<noteq> (H \<le> Y)) \<longleftrightarrow>
      \<not> (- H \<le> (if H \<le> X then X - 2 * H else X) - (if H \<le> Y then Y - 2 * H else Y) - k \<and>
        (if H \<le> X then X - 2 * H else X) - (if H \<le> Y then Y - 2 * H else Y) - k < H)"
    using assms by (simp add: Let_def) linarith
qed

lemma signed_overflow_add:
  fixes x y z :: "'a::len word"
  assumes z: "uint z = (uint x + uint y + k) mod 2 ^ LENGTH('a)" and k: "0 \<le> k" "k \<le> 1"
  shows "bit ((z XOR x) AND (z XOR y)) (LENGTH('a) - Suc 0) \<longleftrightarrow>
    \<not> (- (2 ^ (LENGTH('a) - Suc 0)) \<le> sint x + sint y + k \<and>
        sint x + sint y + k < 2 ^ (LENGTH('a) - Suc 0))"
  using signed_overflow_int(1) [of "uint x" "2 ^ (LENGTH('a) - Suc 0)" "uint y" k]
    uint_lt2p [of x] uint_lt2p [of y] z k
  unfolding bit_and_iff bit_xor_iff
  by (simp only: msb_iff_half sint_cases two_halves Let_def uint_ge_0 simp_thms True_implies_equals)

lemma signed_overflow_sub:
  fixes x y z :: "'a::len word"
  assumes z: "uint z = (uint x - uint y - k) mod 2 ^ LENGTH('a)" and k: "0 \<le> k" "k \<le> 1"
  shows "bit ((z XOR x) AND (x XOR y)) (LENGTH('a) - Suc 0) \<longleftrightarrow>
    \<not> (- (2 ^ (LENGTH('a) - Suc 0)) \<le> sint x - sint y - k \<and>
        sint x - sint y - k < 2 ^ (LENGTH('a) - Suc 0))"
  using signed_overflow_int(2) [of "uint x" "2 ^ (LENGTH('a) - Suc 0)" "uint y" k]
    uint_lt2p [of x] uint_lt2p [of y] z k
  unfolding bit_and_iff bit_xor_iff
  by (simp only: msb_iff_half sint_cases two_halves Let_def uint_ge_0 simp_thms True_implies_equals)

end
