(* ===== verification/Flags.thy ===== *)
theory Flags
  imports Blink_Prelude
begin

text \<open>
  The flag word of the emulated processor (\<^verbatim>\<open>flags.h\<close>, \<^verbatim>\<open>flags.c\<close>). \<open>m->flags\<close> holds every
  flag of the x86 register at its architectural position but one: the parity flag is kept
  lazily, as the low byte of the last result in bits 24 to 31, and is computed from that byte
  when it is read. The lemmas show that this representation behaves as a register of
  independent flags, and that leaving and entering it (\<open>ExportFlags\<close>, \<open>ImportFlags\<close>) is
  faithful on the flags a program can see.
\<close>

section \<open>Flag numbers\<close>

abbreviation (input) FLAGS_CF :: nat where "FLAGS_CF \<equiv> 0"
abbreviation (input) FLAGS_PF :: nat where "FLAGS_PF \<equiv> 2"
abbreviation (input) FLAGS_F1 :: nat where "FLAGS_F1 \<equiv> 1"
abbreviation (input) FLAGS_AF :: nat where "FLAGS_AF \<equiv> 4"
abbreviation (input) FLAGS_ZF :: nat where "FLAGS_ZF \<equiv> 6"
abbreviation (input) FLAGS_SF :: nat where "FLAGS_SF \<equiv> 7"
abbreviation (input) FLAGS_TF :: nat where "FLAGS_TF \<equiv> 8"
abbreviation (input) FLAGS_IF :: nat where "FLAGS_IF \<equiv> 9"
abbreviation (input) FLAGS_DF :: nat where "FLAGS_DF \<equiv> 10"
abbreviation (input) FLAGS_OF :: nat where "FLAGS_OF \<equiv> 11"
abbreviation (input) FLAGS_IOPL :: nat where "FLAGS_IOPL \<equiv> 12"
abbreviation (input) FLAGS_NT :: nat where "FLAGS_NT \<equiv> 14"
abbreviation (input) FLAGS_F0 :: nat where "FLAGS_F0 \<equiv> 15"
abbreviation (input) FLAGS_RF :: nat where "FLAGS_RF \<equiv> 16"
abbreviation (input) FLAGS_AC :: nat where "FLAGS_AC \<equiv> 18"
abbreviation (input) FLAGS_ID :: nat where "FLAGS_ID \<equiv> 21"
abbreviation (input) FLAGS_LP :: nat where "FLAGS_LP \<equiv> 24"

section \<open>The lazy parity byte\<close>

definition GetParity :: "u8 \<Rightarrow> bool" where
  "GetParity b =
     (let b = b XOR shr b 4;
          b = b XOR shr b 2;
          b = b XOR shr b 1
      in NOT b AND 1 \<noteq> 0)"

definition GetLazyParityBool :: "'a::len word \<Rightarrow> bool" where
  "GetLazyParityBool f = GetParity (to_u8 (shr (0xff000000 AND f) FLAGS_LP))"

definition SetLazyParityByte :: "u32 \<Rightarrow> u32 \<Rightarrow> u32" where
  "SetLazyParityByte f x = (0x00ffffff AND f) OR shl (255 AND x) FLAGS_LP"

section \<open>Reading and writing one flag\<close>

definition GetFlag :: "u32 \<Rightarrow> nat \<Rightarrow> bool" where
  "GetFlag f b =
     (if b = FLAGS_PF then GetLazyParityBool f
      else shr f b AND 1 \<noteq> 0)"

definition SetFlag :: "u32 \<Rightarrow> nat \<Rightarrow> bool \<Rightarrow> u32" where
  "SetFlag f b v =
     (if b = FLAGS_PF then SetLazyParityByte f (of_bool (\<not> v))
      else (f AND NOT (shl 1 b)) OR shl (of_bool v) b)"

section \<open>The condition predicates of the branch instructions\<close>

definition IsParity :: "u32 \<Rightarrow> bool" where
  "IsParity f = GetFlag f FLAGS_PF"

definition IsBelowOrEqual :: "u32 \<Rightarrow> bool" where
  "IsBelowOrEqual f = ((shr f 6 OR f) AND 1 \<noteq> 0)"

definition IsAbove :: "u32 \<Rightarrow> bool" where
  "IsAbove f = ((shr (NOT f) 6 AND NOT f) AND 1 \<noteq> 0)"

definition IsLess :: "u32 \<Rightarrow> bool" where
  "IsLess f = (sint (to_u8 (f XOR shr f 4)) < 0)"

definition IsGreaterOrEqual :: "u32 \<Rightarrow> bool" where
  "IsGreaterOrEqual f = (sint (to_u8 (NOT (f XOR shr f 4))) < 0)"

definition IsLessOrEqual :: "u32 \<Rightarrow> bool" where
  "IsLessOrEqual f = (sint (to_u8 ((f XOR shr f 4) OR shl f 1)) < 0)"

definition IsGreater :: "u32 \<Rightarrow> bool" where
  "IsGreater f = (sint (to_u8 (NOT (f XOR shr f 4) AND NOT (shl f 1))) < 0)"

section \<open>Import and export\<close>

definition import_mask :: u64 where
  "import_mask =
     shl 1 FLAGS_CF OR shl 1 FLAGS_PF OR shl 1 FLAGS_AF OR shl 1 FLAGS_ZF OR
     shl 1 FLAGS_SF OR shl 1 FLAGS_TF OR shl 1 FLAGS_IF OR shl 1 FLAGS_DF OR
     shl 1 FLAGS_OF OR shl 1 FLAGS_NT OR shl 1 FLAGS_AC OR shl 1 FLAGS_ID"

definition ImportFlags :: "u32 \<Rightarrow> u64 \<Rightarrow> u32" where
  "ImportFlags mflags flags =
     (let f = to_u32 ((flags AND import_mask) OR (to_u64 mflags AND NOT import_mask));
          f = SetFlag f FLAGS_RF False
      in SetLazyParityByte f (of_bool (shr f FLAGS_PF AND 1 = 0)))"

text \<open>
  The C code passes 3 for the two bits of the I/O privilege level, but the parameter is a
  \<open>bool\<close>, so the value that arrives is \<open>true\<close>, and one bit is written.
\<close>

definition ExportFlags :: "u64 \<Rightarrow> u64" where
  "ExportFlags flags =
     (let flags = to_u64 (SetFlag (to_u32 flags) FLAGS_IOPL ((3::int) \<noteq> 0));
          flags = to_u64 (SetFlag (to_u32 flags) FLAGS_F1 True);
          flags = to_u64 (SetFlag (to_u32 flags) FLAGS_F0 False);
          flags = flags AND NOT (shl 1 FLAGS_PF)
      in flags OR shl (of_bool (GetLazyParityBool flags)) FLAGS_PF)"

section \<open>Parity\<close>

text \<open>The specification: the number of one bits of the byte is even.\<close>

definition even_parity :: "u8 \<Rightarrow> bool" where
  "even_parity b = even (length (filter (bit b) [0..<8]))"

lemma upt_8: "[0..<8] = [0, 1, 2, 3, 4, 5, 6, 7]"
  by (simp add: upt_rec)

lemma even_filter_Cons:
  "even (length (filter P (x # xs))) \<longleftrightarrow> (P x \<noteq> even (length (filter P xs)))"
  by simp

lemma even_parity_bits:
  "even_parity b \<longleftrightarrow> (bit b 0 \<noteq> (bit b 1 \<noteq> (bit b 2 \<noteq> (bit b 3 \<noteq>
      (bit b 4 \<noteq> (bit b 5 \<noteq> (bit b 6 \<noteq> (\<not> bit b 7))))))))"
  unfolding even_parity_def upt_8 even_filter_Cons by simp

lemma GetParity_even [flag_simps]: "GetParity b = even_parity b"
proof -
  have "GetParity b \<longleftrightarrow> \<not> (bit b 0 \<noteq> (bit b 1 \<noteq> (bit b 2 \<noteq> (bit b 3 \<noteq>
      (bit b 4 \<noteq> (bit b 5 \<noteq> (bit b 6 \<noteq> bit b 7)))))))"
    unfolding GetParity_def Let_def and_one_bit
    by (simp add: bit_simps del: One_nat_def) argo
  also have "\<dots> \<longleftrightarrow> even_parity b"
    unfolding even_parity_bits by argo
  finally show ?thesis .
qed

lemma lazy_byte [flag_simps]: "to_u8 (shr (0xff000000 AND f) 24) = to_u8 (shr (f :: 'a::len word) 24)"
proof (rule bit_word_eqI)
  fix n
  have m: "(0xff000000 :: 'a word) = push_bit 24 (mask 8)" by (simp add: mask_numeral)
  show "bit (to_u8 (shr (0xff000000 AND f) 24)) n = bit (to_u8 (shr f 24)) n"
    unfolding m using bit_imp_le_length [of f "24 + n"] by (auto simp: bit_simps)
qed

lemma GetLazyParityBool_eq [flag_simps]:
  "GetLazyParityBool f = even_parity (to_u8 (shr (f :: 'a::len word) 24))"
  by (simp only: GetLazyParityBool_def lazy_byte GetParity_even)

lemma even_parity_cong: "(\<And>i. i < 8 \<Longrightarrow> bit x i = bit y i) \<Longrightarrow> even_parity x = even_parity y"
  unfolding even_parity_def by (metis (mono_tags, lifting) atLeastLessThan_iff filter_cong set_upt)

lemma even_parity_0_1: "even_parity 0" "\<not> even_parity 1"
  unfolding even_parity_def upt_8 by (simp_all add: bit_1_iff)

section \<open>A register of independent flags\<close>

lemma GetFlag_bit: "b \<noteq> FLAGS_PF \<Longrightarrow> GetFlag f b = bit f b"
  by (simp add: GetFlag_def and_one_bit bit_simps del: One_nat_def)

lemma bit_SetFlag: "b \<noteq> FLAGS_PF \<Longrightarrow> bit (SetFlag f b v) i = (if i = b \<and> i < 32 then v else bit f i)"
  by (auto simp: SetFlag_def bit_simps dest: bit_imp_le_length)

lemma bit_SetLazyParityByte:
  "bit (SetLazyParityByte f x) i = (if i < 24 then bit f i else i < 32 \<and> bit x (i - 24))"
proof -
  have m: "(0x00ffffff :: u32) = mask 24" "(255 :: u32) = mask 8" by (simp_all add: mask_numeral)
  show ?thesis
    unfolding SetLazyParityByte_def m
    by (auto simp: bit_simps dest: bit_imp_le_length)
qed

lemma bit_SetFlag_PF: "bit (SetFlag f FLAGS_PF v) i = (if i < 24 then bit f i else i = 24 \<and> \<not> v)"
  by (auto simp: SetFlag_def bit_SetLazyParityByte bit_simps)

lemma GetFlag_PF: "GetFlag f FLAGS_PF = even_parity (to_u8 (shr f 24))"
  by (simp add: GetFlag_def GetLazyParityBool_eq)

lemma parity_byte_eq: "to_u8 (shr (SetLazyParityByte f x) 24) = to_u8 x"
  by (rule bit_word_eqI) (auto simp: bit_simps bit_SetLazyParityByte)

lemma GetFlag_SetFlag [flag_simps]:
  assumes "b < 24" "c < 24"
  shows "GetFlag (SetFlag f b v) c = (if c = b then v else GetFlag f c)"
proof (cases "c = FLAGS_PF")
  case True
  show ?thesis
  proof (cases "b = FLAGS_PF")
    case b: True
    have "to_u8 (shr (SetFlag f FLAGS_PF v) 24) = of_bool (\<not> v)"
      unfolding SetFlag_def if_P [OF refl] parity_byte_eq by simp
    then show ?thesis
      using even_parity_0_1 unfolding True b GetFlag_PF by simp
  next
    case False
    then have "to_u8 (shr (SetFlag f b v) 24) = to_u8 (shr f 24)"
      using assms by (intro bit_word_eqI) (simp add: bit_simps bit_SetFlag)
    with True False show ?thesis by (simp add: GetFlag_PF)
  qed
next
  case False
  then show ?thesis
    using assms by (cases "b = FLAGS_PF") (simp_all add: GetFlag_bit bit_SetFlag bit_SetFlag_PF)
qed

section \<open>The conditions decide what their names say\<close>

lemma sint_byte_neg: "sint (x :: u8) < 0 \<longleftrightarrow> bit x 7"
  using bit_last_iff [of x] by simp

lemma IsParity_iff [flag_simps]: "IsParity f \<longleftrightarrow> GetFlag f FLAGS_PF"
  by (simp add: IsParity_def)

lemma IsBelowOrEqual_iff [flag_simps]:
  "IsBelowOrEqual f \<longleftrightarrow> GetFlag f FLAGS_CF \<or> GetFlag f FLAGS_ZF"
  unfolding IsBelowOrEqual_def and_one_bit by (auto simp: bit_simps GetFlag_bit)

lemma IsAbove_iff [flag_simps]:
  "IsAbove f \<longleftrightarrow> \<not> GetFlag f FLAGS_CF \<and> \<not> GetFlag f FLAGS_ZF"
  unfolding IsAbove_def and_one_bit by (auto simp: bit_simps GetFlag_bit)

lemma IsLess_iff [flag_simps]:
  "IsLess f \<longleftrightarrow> GetFlag f FLAGS_SF \<noteq> GetFlag f FLAGS_OF"
  unfolding IsLess_def sint_byte_neg by (simp add: bit_simps GetFlag_bit)

lemma IsGreaterOrEqual_iff [flag_simps]:
  "IsGreaterOrEqual f \<longleftrightarrow> GetFlag f FLAGS_SF = GetFlag f FLAGS_OF"
  unfolding IsGreaterOrEqual_def sint_byte_neg by (simp add: bit_simps GetFlag_bit)

lemma IsLessOrEqual_iff [flag_simps]:
  "IsLessOrEqual f \<longleftrightarrow> GetFlag f FLAGS_ZF \<or> GetFlag f FLAGS_SF \<noteq> GetFlag f FLAGS_OF"
  unfolding IsLessOrEqual_def sint_byte_neg bit_unsigned_iff bit_or_iff bit_push_bit_iff
  by (auto simp: bit_simps GetFlag_bit)

lemma IsGreater_iff [flag_simps]:
  "IsGreater f \<longleftrightarrow> \<not> GetFlag f FLAGS_ZF \<and> GetFlag f FLAGS_SF = GetFlag f FLAGS_OF"
  unfolding IsGreater_def sint_byte_neg bit_unsigned_iff bit_and_iff bit_not_iff bit_push_bit_iff
  by (auto simp: bit_simps GetFlag_bit)

section \<open>Leaving and entering the lazy representation\<close>

text \<open>The flags a program can load: those of \<open>import_mask\<close>.\<close>

definition user_flags :: "nat list" where
  "user_flags = [FLAGS_CF, FLAGS_PF, FLAGS_AF, FLAGS_ZF, FLAGS_SF, FLAGS_TF, FLAGS_IF,
     FLAGS_DF, FLAGS_OF, FLAGS_NT, FLAGS_AC, FLAGS_ID]"

lemma bit_import_mask: "bit import_mask i \<longleftrightarrow> i \<in> set user_flags"
  unfolding import_mask_def bit_or_iff bit_shl_one by (auto simp: user_flags_def)

lemma bit_ImportFlags:
  assumes "i < 24"
  shows "bit (ImportFlags old flags) i =
    (if i = FLAGS_RF then False else if i \<in> set user_flags then bit flags i else bit old i)"
  using assms
  by (auto simp: ImportFlags_def Let_def bit_SetLazyParityByte bit_SetFlag bit_simps
      bit_import_mask user_flags_def)

lemma parity_ImportFlags: "GetFlag (ImportFlags old flags) FLAGS_PF = bit flags FLAGS_PF"
proof -
  have "shr (SetFlag f FLAGS_RF False) FLAGS_PF AND 1 = 0 \<longleftrightarrow> \<not> bit f FLAGS_PF" for f
    using and_one_bit [of "shr (SetFlag f FLAGS_RF False) FLAGS_PF"]
    by (auto simp: bit_simps bit_SetFlag)
  moreover have "bit (to_u32 ((flags AND import_mask) OR (to_u64 old AND NOT import_mask))) FLAGS_PF
      = bit flags FLAGS_PF"
    by (auto simp: bit_simps bit_import_mask user_flags_def)
  ultimately show ?thesis
    unfolding GetFlag_PF ImportFlags_def Let_def parity_byte_eq
    using even_parity_0_1 by simp
qed

lemma bit_ExportFlags:
  assumes "i < 24"
  shows "bit (ExportFlags (to_u64 f)) i =
    (if i = FLAGS_PF then GetFlag f FLAGS_PF
     else if i = FLAGS_IOPL \<or> i = FLAGS_F1 then True
     else if i = FLAGS_F0 then False else bit f i)"
proof -
  let ?g = "SetFlag (SetFlag (SetFlag f FLAGS_IOPL True) FLAGS_F1 True) FLAGS_F0 False"
  have p: "GetLazyParityBool (to_u64 ?g AND NOT (shl 1 FLAGS_PF)) = GetFlag f FLAGS_PF"
    unfolding GetLazyParityBool_eq GetFlag_PF
    by (rule even_parity_cong)
      (simp only: bit_unsigned_iff bit_drop_bit_eq o_def bit_and_iff bit_not_iff bit_shl_one,
        simp add: bit_simps bit_SetFlag)
  have e: "ExportFlags (to_u64 f) =
      (to_u64 ?g AND NOT (shl 1 FLAGS_PF)) OR shl (of_bool (GetFlag f FLAGS_PF)) FLAGS_PF"
    unfolding ExportFlags_def Let_def p [symmetric] by simp
  show ?thesis
    using assms unfolding e bit_or_iff bit_and_iff bit_not_iff bit_shl_one
    by (auto simp: bit_simps bit_SetFlag)
qed

text \<open>
  The laws of a register of independent one-bit flags, as an interface: what the handlers of
  single flags (\<open>stc\<close>, \<open>cld\<close>, the bit tests, the decimal adjustments) rely on.
\<close>

locale flag_register =
  fixes get :: "'f \<Rightarrow> nat \<Rightarrow> bool" and set_flag :: "'f \<Rightarrow> nat \<Rightarrow> bool \<Rightarrow> 'f"
    and flag :: "nat \<Rightarrow> bool"
  assumes get_set_same: "flag b \<Longrightarrow> get (set_flag f b v) b = v"
    and get_set_other: "flag b \<Longrightarrow> flag c \<Longrightarrow> c \<noteq> b \<Longrightarrow> get (set_flag f b v) c = get f c"
begin

text \<open>Several flags written in a row: the last write to a flag is what is read.\<close>

lemma get_fold_set:
  assumes "flag c" "\<And>b v. (b, v) \<in> set ws \<Longrightarrow> flag b"
  shows "get (fold (\<lambda>(b, v) f. set_flag f b v) ws f) c =
    (case map_of (rev ws) c of None \<Rightarrow> get f c | Some v \<Rightarrow> v)"
  using assms(2)
proof (induction ws arbitrary: f)
  case (Cons w ws)
  obtain b v where w: "w = (b, v)" by (cases w)
  then have b: "flag b" and ws: "\<And>b v. (b, v) \<in> set ws \<Longrightarrow> flag b"
    using Cons.prems by auto
  have "get (set_flag f b v) c = (if c = b then v else get f c)"
    using b assms(1) get_set_same get_set_other by simp
  then show ?case
    by (simp add: w Cons.IH [OF ws] map_add_def split: option.splits)
qed simp

lemma set_commute_read:
  assumes "flag a" "flag b" "flag c" "a \<noteq> b"
  shows "get (set_flag (set_flag f a v) b w) c = get (set_flag (set_flag f b w) a v) c"
  using assms get_set_same get_set_other by (metis (full_types))

end

interpretation flags: flag_register GetFlag SetFlag "\<lambda>b. b < 24"
  by unfold_locales (simp_all add: GetFlag_SetFlag)

end
