(* ===== verification/Alu.thy ===== *)
theory Alu
  imports Flags
begin

text \<open>
  The arithmetic and shift units of the processor (\<^verbatim>\<open>alu.c\<close>, and the four complement
  operations of \<^verbatim>\<open>uop.c\<close>). An operation of the C code has type \<open>aluop_f\<close>: it takes the
  machine and two 64-bit operands and returns the result, and of the machine it reads and
  writes the flag word only; here it takes and returns the flag word. The sections follow the
  file: the flag writers, then logic, addition and subtraction at each width, negation,
  increment and decrement, shifts, rotations, rotations through carry and double shifts.
\<close>

type_synonym aluop = "u32 \<Rightarrow> u64 \<Rightarrow> u64 \<Rightarrow> u64 \<times> u32"

section \<open>Flag writers\<close>

definition AluFlags :: "u32 \<Rightarrow> u64 \<Rightarrow> u32 \<Rightarrow> u32 \<Rightarrow> u32 \<Rightarrow> u32 \<Rightarrow> u64 \<times> u32" where
  "AluFlags m x af ov cf sf =
     (let m = m AND NOT (shl 1 FLAGS_CF OR shl 1 FLAGS_ZF OR shl 1 FLAGS_SF OR
                         shl 1 FLAGS_OF OR shl 1 FLAGS_AF OR 0xFF000000);
          m = m OR (shl sf FLAGS_SF OR shl cf FLAGS_CF OR shl (of_bool (x = 0)) FLAGS_ZF OR
                    shl ov FLAGS_OF OR shl af FLAGS_AF OR to_u32 (shl (x AND 0xFF) 24))
      in (x, m))"

definition AluFlags8 :: "u32 \<Rightarrow> u8 \<Rightarrow> u32 \<Rightarrow> u32 \<Rightarrow> u32 \<Rightarrow> u64 \<times> u32" where
  "AluFlags8 m z af ov cf = AluFlags m (to_u64 z) af ov cf (to_u32 (shr z 7))"

definition AluFlags16 :: "u32 \<Rightarrow> u16 \<Rightarrow> u32 \<Rightarrow> u32 \<Rightarrow> u32 \<Rightarrow> u64 \<times> u32" where
  "AluFlags16 m z af ov cf = AluFlags m (to_u64 z) af ov cf (to_u32 (shr z 15))"

definition AluFlags32 :: "u32 \<Rightarrow> u32 \<Rightarrow> u32 \<Rightarrow> u32 \<Rightarrow> u32 \<Rightarrow> u64 \<times> u32" where
  "AluFlags32 m z af ov cf = AluFlags m (to_u64 z) af ov cf (to_u32 (shr z 31))"

definition AluFlags64 :: "u32 \<Rightarrow> u64 \<Rightarrow> u32 \<Rightarrow> u32 \<Rightarrow> u32 \<Rightarrow> u64 \<times> u32" where
  "AluFlags64 m z af ov cf = AluFlags m (to_u64 z) af ov cf (to_u32 (shr z 63))"

definition BumpFlags :: "u32 \<Rightarrow> u64 \<Rightarrow> u32 \<Rightarrow> u32 \<Rightarrow> u32 \<Rightarrow> u64 \<times> u32" where
  "BumpFlags m x af ov sf = AluFlags m x af ov (of_bool (m AND shl 1 FLAGS_CF \<noteq> 0)) sf"

definition RotateFlags :: "u32 \<Rightarrow> u64 \<Rightarrow> u32 \<Rightarrow> u32 \<Rightarrow> u64 \<times> u32" where
  "RotateFlags m x cf ov =
     (let m = m AND NOT (shl 1 FLAGS_CF OR shl 1 FLAGS_OF);
          m = m OR (shl cf FLAGS_CF OR shl ov FLAGS_OF)
      in (x, m))"

section \<open>Logic\<close>

definition Xor8 :: aluop where
  "Xor8 m x y = AluFlags8 m (to_u8 (x XOR y)) 0 0 0"

definition Xor16 :: aluop where
  "Xor16 m x y = AluFlags16 m (to_u16 (x XOR y)) 0 0 0"

definition Xor32 :: aluop where
  "Xor32 m x y = AluFlags32 m (to_u32 (x XOR y)) 0 0 0"

definition Xor64 :: aluop where
  "Xor64 m x y = AluFlags64 m (x XOR y) 0 0 0"

definition Or8 :: aluop where
  "Or8 m x y = AluFlags8 m (to_u8 (x OR y)) 0 0 0"

definition Or16 :: aluop where
  "Or16 m x y = AluFlags16 m (to_u16 (x OR y)) 0 0 0"

definition Or32 :: aluop where
  "Or32 m x y = AluFlags32 m (to_u32 (x OR y)) 0 0 0"

definition Or64 :: aluop where
  "Or64 m x y = AluFlags64 m (x OR y) 0 0 0"

definition And8 :: aluop where
  "And8 m x y = AluFlags8 m (to_u8 (x AND y)) 0 0 0"

definition And16 :: aluop where
  "And16 m x y = AluFlags16 m (to_u16 (x AND y)) 0 0 0"

definition And32 :: aluop where
  "And32 m x y = AluFlags32 m (to_u32 (x AND y)) 0 0 0"

definition And64 :: aluop where
  "And64 m x y = AluFlags64 m (x AND y) 0 0 0"

definition Not8 :: aluop where
  "Not8 m x y = (NOT x AND 0xFF, m)"

definition Not16 :: aluop where
  "Not16 m x y = (NOT x AND 0xFFFF, m)"

definition Not32 :: aluop where
  "Not32 m x y = (NOT x AND 0xFFFFFFFF, m)"

definition Not64 :: aluop where
  "Not64 m x y = (NOT x AND 0xFFFFFFFFFFFFFFFF, m)"

section \<open>Addition and subtraction\<close>

definition Sub8 :: aluop where
  "Sub8 m x64 y64 =
     (let x = to_u8 x64; y = to_u8 y64; z = x - y;
          cf = x < z;
          af = x AND 15 < z AND 15;
          ov = shr ((x XOR y) AND (z XOR x)) 7 \<noteq> 0
      in AluFlags8 m z (of_bool af) (of_bool ov) (of_bool cf))"

definition Add8 :: aluop where
  "Add8 m x64 y64 =
     (let x = to_u8 x64; y = to_u8 y64; z = x + y;
          cf = z < y;
          af = z AND 15 < y AND 15;
          ov = shr ((z XOR x) AND (z XOR y)) 7 \<noteq> 0
      in AluFlags8 m z (of_bool af) (of_bool ov) (of_bool cf))"

definition Adc8 :: aluop where
  "Adc8 m x64 y64 =
     (let x = to_u8 x64; y = to_u8 y64; t = x + of_bool (m AND shl 1 FLAGS_CF \<noteq> 0);
          z = t + y;
          cf = t < x \<or> z < y;
          ov = shr ((z XOR x) AND (z XOR y)) 7 \<noteq> 0;
          af = t AND 15 < x AND 15 \<or> z AND 15 < y AND 15
      in AluFlags8 m z (of_bool af) (of_bool ov) (of_bool cf))"

definition Sbb8 :: aluop where
  "Sbb8 m x64 y64 =
     (let x = to_u8 x64; y = to_u8 y64; t = x - of_bool (m AND shl 1 FLAGS_CF \<noteq> 0);
          z = t - y;
          cf = x < t \<or> t < z;
          ov = shr ((z XOR x) AND (x XOR y)) 7 \<noteq> 0;
          af = x AND 15 < t AND 15 \<or> t AND 15 < z AND 15
      in AluFlags8 m z (of_bool af) (of_bool ov) (of_bool cf))"

definition Sub16 :: aluop where
  "Sub16 m x64 y64 =
     (let x = to_u16 x64; y = to_u16 y64; z = x - y;
          cf = x < z;
          af = x AND 15 < z AND 15;
          ov = shr ((x XOR y) AND (z XOR x)) 15 \<noteq> 0
      in AluFlags16 m z (of_bool af) (of_bool ov) (of_bool cf))"

definition Add16 :: aluop where
  "Add16 m x64 y64 =
     (let x = to_u16 x64; y = to_u16 y64; z = x + y;
          cf = z < y;
          af = z AND 15 < y AND 15;
          ov = shr ((z XOR x) AND (z XOR y)) 15 \<noteq> 0
      in AluFlags16 m z (of_bool af) (of_bool ov) (of_bool cf))"

definition Adc16 :: aluop where
  "Adc16 m x64 y64 =
     (let x = to_u16 x64; y = to_u16 y64; t = x + of_bool (m AND shl 1 FLAGS_CF \<noteq> 0);
          z = t + y;
          cf = t < x \<or> z < y;
          ov = shr ((z XOR x) AND (z XOR y)) 15 \<noteq> 0;
          af = t AND 15 < x AND 15 \<or> z AND 15 < y AND 15
      in AluFlags16 m z (of_bool af) (of_bool ov) (of_bool cf))"

definition Sbb16 :: aluop where
  "Sbb16 m x64 y64 =
     (let x = to_u16 x64; y = to_u16 y64; t = x - of_bool (m AND shl 1 FLAGS_CF \<noteq> 0);
          z = t - y;
          cf = x < t \<or> t < z;
          ov = shr ((z XOR x) AND (x XOR y)) 15 \<noteq> 0;
          af = x AND 15 < t AND 15 \<or> t AND 15 < z AND 15
      in AluFlags16 m z (of_bool af) (of_bool ov) (of_bool cf))"

definition Sub32 :: aluop where
  "Sub32 m x64 y64 =
     (let x = to_u32 x64; y = to_u32 y64; z = x - y;
          cf = x < z;
          af = x AND 15 < z AND 15;
          ov = shr ((x XOR y) AND (z XOR x)) 31 \<noteq> 0
      in AluFlags32 m z (of_bool af) (of_bool ov) (of_bool cf))"

definition Add32 :: aluop where
  "Add32 m x64 y64 =
     (let x = to_u32 x64; y = to_u32 y64; z = x + y;
          cf = z < y;
          af = z AND 15 < y AND 15;
          ov = shr ((z XOR x) AND (z XOR y)) 31 \<noteq> 0
      in AluFlags32 m z (of_bool af) (of_bool ov) (of_bool cf))"

definition Adc32 :: aluop where
  "Adc32 m x64 y64 =
     (let x = to_u32 x64; y = to_u32 y64; t = x + of_bool (m AND shl 1 FLAGS_CF \<noteq> 0);
          z = t + y;
          cf = t < x \<or> z < y;
          ov = shr ((z XOR x) AND (z XOR y)) 31 \<noteq> 0;
          af = t AND 15 < x AND 15 \<or> z AND 15 < y AND 15
      in AluFlags32 m z (of_bool af) (of_bool ov) (of_bool cf))"

definition Sbb32 :: aluop where
  "Sbb32 m x64 y64 =
     (let x = to_u32 x64; y = to_u32 y64; t = x - of_bool (m AND shl 1 FLAGS_CF \<noteq> 0);
          z = t - y;
          cf = x < t \<or> t < z;
          ov = shr ((z XOR x) AND (x XOR y)) 31 \<noteq> 0;
          af = x AND 15 < t AND 15 \<or> t AND 15 < z AND 15
      in AluFlags32 m z (of_bool af) (of_bool ov) (of_bool cf))"

definition Sub64 :: aluop where
  "Sub64 m x y =
     (let z = x - y;
          cf = x < z;
          af = x AND 15 < z AND 15;
          ov = shr ((x XOR y) AND (z XOR x)) 63 \<noteq> 0
      in AluFlags64 m z (of_bool af) (of_bool ov) (of_bool cf))"

definition Add64 :: aluop where
  "Add64 m x y =
     (let z = x + y;
          cf = z < y;
          af = z AND 15 < y AND 15;
          ov = shr ((z XOR x) AND (z XOR y)) 63 \<noteq> 0
      in AluFlags64 m z (of_bool af) (of_bool ov) (of_bool cf))"

definition Adc64 :: aluop where
  "Adc64 m x y =
     (let t = x + of_bool (m AND shl 1 FLAGS_CF \<noteq> 0);
          z = t + y;
          cf = t < x \<or> z < y;
          ov = shr ((z XOR x) AND (z XOR y)) 63 \<noteq> 0;
          af = t AND 15 < x AND 15 \<or> z AND 15 < y AND 15
      in AluFlags64 m z (of_bool af) (of_bool ov) (of_bool cf))"

definition Sbb64 :: aluop where
  "Sbb64 m x y =
     (let t = x - of_bool (m AND shl 1 FLAGS_CF \<noteq> 0);
          z = t - y;
          cf = x < t \<or> t < z;
          ov = shr ((z XOR x) AND (x XOR y)) 63 \<noteq> 0;
          af = x AND 15 < t AND 15 \<or> t AND 15 < z AND 15
      in AluFlags64 m z (of_bool af) (of_bool ov) (of_bool cf))"

section \<open>Negation, increment, decrement\<close>

definition Neg8 :: aluop where
  "Neg8 m x64 y =
     (let x = to_u8 x64; cf = x \<noteq> 0;
          af = cf;
          ov = x = 0x80;
          x = NOT x + 1
      in AluFlags8 m x (of_bool af) (of_bool ov) (of_bool cf))"

definition Neg16 :: aluop where
  "Neg16 m x64 y =
     (let x = to_u16 x64; cf = x \<noteq> 0;
          af = cf;
          ov = x = 0x8000;
          x = NOT x + 1
      in AluFlags16 m x (of_bool af) (of_bool ov) (of_bool cf))"

definition Neg32 :: aluop where
  "Neg32 m x64 y =
     (let x = to_u32 x64; cf = x \<noteq> 0;
          af = cf;
          ov = x = 0x80000000;
          x = NOT x + 1
      in AluFlags32 m x (of_bool af) (of_bool ov) (of_bool cf))"

definition Neg64 :: aluop where
  "Neg64 m x64 y =
     (let x = x64; cf = x \<noteq> 0;
          af = cf;
          ov = x = 0x8000000000000000;
          x = NOT x + 1
      in AluFlags64 m x (of_bool af) (of_bool ov) (of_bool cf))"

definition Inc8 :: aluop where
  "Inc8 m x64 y =
     (let x = to_u8 x64; z = x + 1;
          sf = to_u32 (shr z 7);
          af = of_bool (to_u64 z AND 15 < y AND 15);
          ov = to_u32 (shr ((z XOR x) AND (z XOR 1)) 7)
      in BumpFlags m (to_u64 z) af ov sf)"

definition Dec8 :: aluop where
  "Dec8 m x64 y =
     (let x = to_u8 x64; z = x - 1;
          sf = to_u32 (shr z 7);
          af = of_bool (x AND 15 < z AND 15);
          ov = to_u32 (shr ((z XOR x) AND (x XOR 1)) 7)
      in BumpFlags m (to_u64 z) af ov sf)"

definition Inc16 :: aluop where
  "Inc16 m x64 y =
     (let x = to_u16 x64; z = x + 1;
          sf = to_u32 (shr z 15);
          af = of_bool (to_u64 z AND 15 < y AND 15);
          ov = to_u32 (shr ((z XOR x) AND (z XOR 1)) 15)
      in BumpFlags m (to_u64 z) af ov sf)"

definition Dec16 :: aluop where
  "Dec16 m x64 y =
     (let x = to_u16 x64; z = x - 1;
          sf = to_u32 (shr z 15);
          af = of_bool (x AND 15 < z AND 15);
          ov = to_u32 (shr ((z XOR x) AND (x XOR 1)) 15)
      in BumpFlags m (to_u64 z) af ov sf)"

definition Inc32 :: aluop where
  "Inc32 m x64 y =
     (let x = to_u32 x64; z = x + 1;
          sf = to_u32 (shr z 31);
          af = of_bool (to_u64 z AND 15 < y AND 15);
          ov = to_u32 (shr ((z XOR x) AND (z XOR 1)) 31)
      in BumpFlags m (to_u64 z) af ov sf)"

definition Dec32 :: aluop where
  "Dec32 m x64 y =
     (let x = to_u32 x64; z = x - 1;
          sf = to_u32 (shr z 31);
          af = of_bool (x AND 15 < z AND 15);
          ov = to_u32 (shr ((z XOR x) AND (x XOR 1)) 31)
      in BumpFlags m (to_u64 z) af ov sf)"

definition Inc64 :: aluop where
  "Inc64 m x y =
     (let z = x + 1;
          sf = to_u32 (shr z 63);
          af = of_bool (to_u64 z AND 15 < y AND 15);
          ov = to_u32 (shr ((z XOR x) AND (z XOR 1)) 63)
      in BumpFlags m (to_u64 z) af ov sf)"

definition Dec64 :: aluop where
  "Dec64 m x y =
     (let z = x - 1;
          sf = to_u32 (shr z 63);
          af = of_bool (x AND 15 < z AND 15);
          ov = to_u32 (shr ((z XOR x) AND (x XOR 1)) 63)
      in BumpFlags m (to_u64 z) af ov sf)"

section \<open>Shifts\<close>

text \<open>
  The narrow shifts work on a 32-bit copy of the operand, as the C code does; \<open>k\<close> is the
  masked count.
\<close>

definition Shr8 :: aluop where
  "Shr8 m x64 y =
     (let x = to_u32 (x64 AND 0xff); y = y AND 31; k = unat y;
          cf = shr x (k - 1) AND 1
      in if y \<noteq> 0 then
           let x = shr x k
           in AluFlags8 m (to_u8 x) 0 (shr (shl x 1 XOR x) 7) cf
         else (to_u64 x, m))"

definition Shl8 :: aluop where
  "Shl8 m x64 y =
     (let x = to_u32 (x64 AND 0xff); y = y AND 31; k = unat y;
          cf = shr x (unat ((8 - y) AND 31)) AND 1
      in if y \<noteq> 0 then
           let x = shl x k AND 0xff
           in AluFlags8 m (to_u8 x) 0 (shr x 7 XOR cf) cf
         else (to_u64 x, m))"

definition Sar8 :: aluop where
  "Sar8 m x64 y =
     (let x = to_u32 (x64 AND 0xff); y = y AND 31; k = unat y;
          sx = scast (to_u8 x) :: u32;
          cf = sar sx (k - 1) AND 1
      in if y \<noteq> 0 then
           let x = sar sx k AND 0xff
           in AluFlags8 m (to_u8 x) 0 0 cf
         else (to_u64 x, m))"

definition Shr16 :: aluop where
  "Shr16 m x64 y =
     (let x = to_u32 (x64 AND 0xffff); y = y AND 31; k = unat y;
          cf = shr x (k - 1) AND 1
      in if y \<noteq> 0 then
           let x = shr x k
           in AluFlags16 m (to_u16 x) 0 (shr (shl x 1 XOR x) 15) cf
         else (to_u64 x, m))"

definition Shl16 :: aluop where
  "Shl16 m x64 y =
     (let x = to_u32 (x64 AND 0xffff); y = y AND 31; k = unat y;
          cf = shr x (unat ((16 - y) AND 31)) AND 1
      in if y \<noteq> 0 then
           let x = shl x k AND 0xffff
           in AluFlags16 m (to_u16 x) 0 (shr x 15 XOR cf) cf
         else (to_u64 x, m))"

definition Sar16 :: aluop where
  "Sar16 m x64 y =
     (let x = to_u32 (x64 AND 0xffff); y = y AND 31; k = unat y;
          sx = scast (to_u16 x) :: u32;
          cf = sar sx (k - 1) AND 1
      in if y \<noteq> 0 then
           let x = sar sx k AND 0xffff
           in AluFlags16 m (to_u16 x) 0 0 cf
         else (to_u64 x, m))"

definition Shr32 :: aluop where
  "Shr32 m x64 y =
     (let x = to_u32 x64; y = y AND 31; k = unat y;
          cf = shr x (k - 1) AND 1
      in if y \<noteq> 0 then
           let x = shr x k
           in AluFlags32 m (x) 0 (shr (shl x 1 XOR x) 31) cf
         else (to_u64 x, m))"

definition Shl32 :: aluop where
  "Shl32 m x64 y =
     (let x = to_u32 x64; y = y AND 31; k = unat y;
          cf = shr x (32 - k) AND 1
      in if y \<noteq> 0 then
           let x = shl x k
           in AluFlags32 m (x) 0 (shr x 31 XOR cf) cf
         else (to_u64 x, m))"

definition Sar32 :: aluop where
  "Sar32 m x64 y =
     (let x = to_u32 x64; y = y AND 31; k = unat y;
          sx = x;
          cf = sar sx (k - 1) AND 1
      in if y \<noteq> 0 then
           let x = sar sx k
           in AluFlags32 m (x) 0 0 cf
         else (to_u64 x, m))"

definition Shr64 :: aluop where
  "Shr64 m x64 y =
     (let x = x64; y = y AND 63; k = unat y;
          cf = to_u32 (shr x (k - 1) AND 1)
      in if y \<noteq> 0 then
           let x = shr x k
           in AluFlags64 m (x) 0 (to_u32 (shr (shl x 1 XOR x) 63)) cf
         else (x, m))"

definition Shl64 :: aluop where
  "Shl64 m x64 y =
     (let x = x64; y = y AND 63; k = unat y;
          cf = to_u32 (shr x (64 - k) AND 1)
      in if y \<noteq> 0 then
           let x = shl x k
           in AluFlags64 m (x) 0 (to_u32 (shr x 63) XOR cf) cf
         else (x, m))"

definition Sar64 :: aluop where
  "Sar64 m x64 y =
     (let x = x64; y = y AND 63; k = unat y;
          sx = x;
          cf = to_u32 (sar sx (k - 1) AND 1)
      in if y \<noteq> 0 then
           let x = sar sx k
           in AluFlags64 m (x) 0 0 cf
         else (x, m))"

section \<open>Rotations\<close>

definition Rol8 :: aluop where
  "Rol8 m x64 y =
     (let x = to_u8 x64; k = unat (y AND 7)
      in if y AND 31 \<noteq> 0 then
           let x = (if k \<noteq> 0 then shl x k OR shr x (8 - k) else x)
           in RotateFlags m (to_u64 x) (to_u32 (x AND 1)) (to_u32 ((shr x 7 XOR x) AND 1))
         else (to_u64 x, m))"

definition Ror8 :: aluop where
  "Ror8 m x64 y =
     (let x = to_u8 x64; k = unat (y AND 7)
      in if y AND 31 \<noteq> 0 then
           let x = (if k \<noteq> 0 then shr x k OR shl x (8 - k) else x)
           in RotateFlags m (to_u64 x) (to_u32 (shr x 7)) (to_u32 ((shr x 7 XOR shr x 6) AND 1))
         else (to_u64 x, m))"

definition Rol16 :: aluop where
  "Rol16 m x64 y =
     (let x = to_u16 x64; k = unat (y AND 15)
      in if y AND 31 \<noteq> 0 then
           let x = (if k \<noteq> 0 then shl x k OR shr x (16 - k) else x)
           in RotateFlags m (to_u64 x) (to_u32 (x AND 1)) (to_u32 ((shr x 15 XOR x) AND 1))
         else (to_u64 x, m))"

definition Ror16 :: aluop where
  "Ror16 m x64 y =
     (let x = to_u16 x64; k = unat (y AND 15)
      in if y AND 31 \<noteq> 0 then
           let x = (if k \<noteq> 0 then shr x k OR shl x (16 - k) else x)
           in RotateFlags m (to_u64 x) (to_u32 (shr x 15)) (to_u32 ((shr x 15 XOR shr x 14) AND 1))
         else (to_u64 x, m))"

definition Rol32 :: aluop where
  "Rol32 m x64 y =
     (let x = to_u32 x64; y = y AND 31; k = unat y
      in if y \<noteq> 0 then
           let x = shl x k OR shr x (32 - k)
           in RotateFlags m (to_u64 x) (x AND 1) ((shr x 31 XOR x) AND 1)
         else (to_u64 x, m))"

definition Ror32 :: aluop where
  "Ror32 m x64 y =
     (let x = to_u32 x64; y = y AND 31; k = unat y
      in if y \<noteq> 0 then
           let x = shr x k OR shl x (32 - k)
           in RotateFlags m (to_u64 x) (shr x 31) ((shr x 31 XOR shr x 30) AND 1)
         else (to_u64 x, m))"

definition Rol64 :: aluop where
  "Rol64 m x y =
     (let y = y AND 63; k = unat y
      in if y \<noteq> 0 then
           let x = shl x k OR shr x (64 - k)
           in RotateFlags m x (to_u32 (x AND 1)) (to_u32 ((shr x 63 XOR x) AND 1))
         else (x, m))"

definition Ror64 :: aluop where
  "Ror64 m x y =
     (let y = y AND 63; k = unat y
      in if y \<noteq> 0 then
           let x = shr x k OR shl x (64 - k)
           in RotateFlags m x (to_u32 (shr x 63)) (to_u32 ((shr x 63 XOR shr x 62) AND 1))
         else (x, m))"

text \<open>Rotations through the carry flag: \<open>k\<close> is the operand width, \<open>xm\<close> its mask.\<close>

definition Rcr :: "u32 \<Rightarrow> u64 \<Rightarrow> nat \<Rightarrow> u64 \<Rightarrow> nat \<Rightarrow> u64 \<times> u32" where
  "Rcr m x y xm k =
     (let x = x AND xm
      in if y \<noteq> 0 then
           let cf = of_bool (m AND shl 1 FLAGS_CF \<noteq> 0);
               ct = to_u32 (shr x (y - 1) AND 1);
               x = (if y = 1 then (shr x 1 OR shl cf (k - 1)) AND xm
                    else (shr x y OR shl cf (k - y) OR shl x (k + 1 - y)) AND xm)
           in RotateFlags m x ct (to_u32 (shr (shl x 1 XOR x) (k - 1) AND 1))
         else (x, m))"

definition Rcl :: "u32 \<Rightarrow> u64 \<Rightarrow> nat \<Rightarrow> u64 \<Rightarrow> nat \<Rightarrow> u64 \<times> u32" where
  "Rcl m x y xm k =
     (let x = x AND xm
      in if y \<noteq> 0 then
           let cf = of_bool (m AND shl 1 FLAGS_CF \<noteq> 0);
               ct = to_u32 (shr x (k - y) AND 1);
               x = (if y = 1 then (shl x 1 OR cf) AND xm
                    else (shl x y OR shl cf (y - 1) OR shr x (k + 1 - y)) AND xm)
           in RotateFlags m x ct (ct XOR to_u32 (shr x (k - 1) AND 1))
         else (x, m))"

definition Rcr8 :: aluop where
  "Rcr8 m x y = Rcr m x (unat (to_u32 y AND 31) mod 9) 0xff 8"

definition Rcr16 :: aluop where
  "Rcr16 m x y = Rcr m x (unat (to_u32 y AND 31) mod 17) 0xffff 16"

definition Rcr32 :: aluop where
  "Rcr32 m x y = Rcr m x (unat (y AND 31)) 0xffffffff 32"

definition Rcr64 :: aluop where
  "Rcr64 m x y = Rcr m x (unat (y AND 63)) 0xffffffffffffffff 64"

definition Rcl8 :: aluop where
  "Rcl8 m x y = Rcl m x (unat (to_u32 y AND 31) mod 9) 0xff 8"

definition Rcl16 :: aluop where
  "Rcl16 m x y = Rcl m x (unat (to_u32 y AND 31) mod 17) 0xffff 16"

definition Rcl32 :: aluop where
  "Rcl32 m x y = Rcl m x (unat (y AND 31)) 0xffffffff 32"

definition Rcl64 :: aluop where
  "Rcl64 m x y = Rcl m x (unat (y AND 63)) 0xffffffffffffffff 64"

section \<open>Double shifts\<close>

text \<open>
  A shift by the width of the promoted type or more is undefined in C. The double shift is the
  one operation of the file whose count can leave that range (a 16-bit operand with a count
  above 16 makes \<open>k - b\<close> wrap around), so its result is an option: \<open>None\<close> is that undefined
  behaviour.
\<close>

definition c_shl64 :: "u64 \<Rightarrow> u64 \<Rightarrow> u64 option" where
  "c_shl64 x n = (if n < 64 then Some (shl x (unat n)) else None)"

definition c_shr64 :: "u64 \<Rightarrow> u64 \<Rightarrow> u64 option" where
  "c_shr64 x n = (if n < 64 then Some (shr x (unat n)) else None)"

definition BsuDoubleShift ::
  "u32 \<Rightarrow> nat \<Rightarrow> u64 \<Rightarrow> u64 \<Rightarrow> u8 \<Rightarrow> bool \<Rightarrow> (u64 \<times> u32) option" where
  "BsuDoubleShift m w x y b isright =
     (let k = shl 8 w :: u64;
          s = shl 1 (unat (k - 1)) :: u64;
          M = s OR (s - 1);
          b = to_u64 (b AND (if w = 3 then 63 else 31));
          x = x AND M
      in if b \<noteq> 0 then
           if isright then
             case (c_shr64 x b, c_shl64 y (k - b), c_shr64 x (b - 1)) of
               (Some xb, Some yk, Some xc) \<Rightarrow>
                 let z = xb OR yk;
                     cf = xc AND 1 \<noteq> 0;
                     ov = b = 1 \<and> z AND s \<noteq> x AND s;
                     x = z AND M
                 in Some (AluFlags m x 0 (of_bool ov) (of_bool cf) (of_bool (x AND s \<noteq> 0)))
             | _ \<Rightarrow> None
           else
             case (c_shl64 x b, c_shr64 y (k - b), c_shr64 x (k - b)) of
               (Some xb, Some yk, Some xc) \<Rightarrow>
                 let z = xb OR yk;
                     cf = xc AND 1 \<noteq> 0;
                     ov = b = 1 \<and> z AND s \<noteq> x AND s;
                     x = z AND M
                 in Some (AluFlags m x 0 (of_bool ov) (of_bool cf) (of_bool (x AND s \<noteq> 0)))
             | _ \<Rightarrow> None
         else Some (x, m))"

section \<open>The dispatch tables\<close>

text \<open>
  \<open>kAlu\<close> is indexed by the operation (\<open>ALU_ADD\<close> is 0, up to \<open>ALU_DEC\<close>, 11) and by the logarithm of the
  operand width in bytes; \<open>kBsu\<close> likewise with the eight shift operations.
\<close>

definition kAlu :: "aluop list list" where
  "kAlu =
    [[Add8, Add16, Add32, Add64],
     [Or8, Or16, Or32, Or64],
     [Adc8, Adc16, Adc32, Adc64],
     [Sbb8, Sbb16, Sbb32, Sbb64],
     [And8, And16, And32, And64],
     [Sub8, Sub16, Sub32, Sub64],
     [Xor8, Xor16, Xor32, Xor64],
     [Sub8, Sub16, Sub32, Sub64],
     [Not8, Not16, Not32, Not64],
     [Neg8, Neg16, Neg32, Neg64],
     [Inc8, Inc16, Inc32, Inc64],
     [Dec8, Dec16, Dec32, Dec64]]"

definition kBsu :: "aluop list list" where
  "kBsu =
    [[Rol8, Rol16, Rol32, Rol64],
     [Ror8, Ror16, Ror32, Ror64],
     [Rcl8, Rcl16, Rcl32, Rcl64],
     [Rcr8, Rcr16, Rcr32, Rcr64],
     [Shl8, Shl16, Shl32, Shl64],
     [Shr8, Shr16, Shr32, Shr64],
     [Shl8, Shl16, Shl32, Shl64],
     [Sar8, Sar16, Sar32, Sar64]]"

abbreviation (input) ALU_ADD :: nat where "ALU_ADD \<equiv> 0"
abbreviation (input) ALU_OR :: nat where "ALU_OR \<equiv> 1"
abbreviation (input) ALU_ADC :: nat where "ALU_ADC \<equiv> 2"
abbreviation (input) ALU_SBB :: nat where "ALU_SBB \<equiv> 3"
abbreviation (input) ALU_AND :: nat where "ALU_AND \<equiv> 4"
abbreviation (input) ALU_SUB :: nat where "ALU_SUB \<equiv> 5"
abbreviation (input) ALU_XOR :: nat where "ALU_XOR \<equiv> 6"
abbreviation (input) ALU_CMP :: nat where "ALU_CMP \<equiv> 7"
abbreviation (input) ALU_NOT :: nat where "ALU_NOT \<equiv> 8"
abbreviation (input) ALU_NEG :: nat where "ALU_NEG \<equiv> 9"
abbreviation (input) ALU_INC :: nat where "ALU_INC \<equiv> 10"
abbreviation (input) ALU_DEC :: nat where "ALU_DEC \<equiv> 11"

abbreviation (input) BSU_ROL :: nat where "BSU_ROL \<equiv> 0"
abbreviation (input) BSU_ROR :: nat where "BSU_ROR \<equiv> 1"
abbreviation (input) BSU_RCL :: nat where "BSU_RCL \<equiv> 2"
abbreviation (input) BSU_RCR :: nat where "BSU_RCR \<equiv> 3"
abbreviation (input) BSU_SHL :: nat where "BSU_SHL \<equiv> 4"
abbreviation (input) BSU_SHR :: nat where "BSU_SHR \<equiv> 5"
abbreviation (input) BSU_SAL :: nat where "BSU_SAL \<equiv> 6"
abbreviation (input) BSU_SAR :: nat where "BSU_SAR \<equiv> 7"

end
