(* ===== verification/AluSpec.thy ===== *)
theory AluSpec
  imports Alu
begin

text \<open>
  What the arithmetic unit promises, stated on numbers: for operands of \<open>n\<close> bits the result
  is the exact sum or difference modulo \<open>2 ^ n\<close>, the carry flag says that the unsigned value
  left the range, the overflow flag that the signed value did, the half carry flag that the low
  nibbles did; zero, sign and parity describe the result; no other flag changes. The code of
  every width is checked against this one specification.
\<close>

section \<open>The specification\<close>

text \<open>The unsigned and the signed reading of the low \<open>n\<close> bits of a 64-bit operand.\<close>

definition ux :: "nat \<Rightarrow> u64 \<Rightarrow> int" where
  "ux n x = uint x mod 2 ^ n"

definition sx :: "nat \<Rightarrow> u64 \<Rightarrow> int" where
  "sx n x = signed_take_bit (n - 1) (uint x)"

definition arith_flags :: "nat list" where
  "arith_flags = [FLAGS_CF, FLAGS_PF, FLAGS_AF, FLAGS_ZF, FLAGS_SF, FLAGS_OF]"

definition flags_result :: "nat \<Rightarrow> u32 \<Rightarrow> u32 \<Rightarrow> u64 \<Rightarrow> bool \<Rightarrow> bool \<Rightarrow> bool \<Rightarrow> bool" where
  "flags_result n f f' z cf ov af \<longleftrightarrow>
     GetFlag f' FLAGS_CF = cf \<and> GetFlag f' FLAGS_OF = ov \<and> GetFlag f' FLAGS_AF = af \<and>
     GetFlag f' FLAGS_ZF = (z = 0) \<and> GetFlag f' FLAGS_SF = bit z (n - 1) \<and>
     GetFlag f' FLAGS_PF = even_parity (to_u8 z) \<and>
     list_all (\<lambda>b. b \<in> set arith_flags \<or> GetFlag f' b = GetFlag f b) [0..<24]"

definition arith_result :: "nat \<Rightarrow> u32 \<Rightarrow> int \<Rightarrow> int \<Rightarrow> bool \<Rightarrow> u64 \<times> u32 \<Rightarrow> bool" where
  "arith_result n f U S H r \<longleftrightarrow>
     uint (fst r) = U mod 2 ^ n \<and>
     flags_result n f (snd r) (fst r)
       (\<not> (0 \<le> U \<and> U < 2 ^ n)) (\<not> (- (2 ^ (n - 1)) \<le> S \<and> S < 2 ^ (n - 1))) H"

abbreviation (input) widths :: "nat list" where "widths \<equiv> [8, 16, 32, 64]"

section \<open>The flag writer\<close>

lemma bit_AluFlags:
  "bit (snd (AluFlags f x (of_bool af) (of_bool ov) (of_bool cf) (of_bool sf))) i =
    (if i = FLAGS_CF then cf else if i = FLAGS_AF then af else if i = FLAGS_ZF then x = 0
     else if i = FLAGS_SF then sf else if i = FLAGS_OF then ov
     else if i < 24 then bit f i else i < 32 \<and> bit x (i - 24))"
proof -
  have m: "(0xFF000000 :: u32) = push_bit 24 (mask 8)" "(0xFF :: u64) = mask 8"
    by (simp_all add: mask_numeral)
  have t: "bit (to_u32 (shl (x AND mask 8) 24)) i \<longleftrightarrow> 24 \<le> i \<and> i < 32 \<and> bit x (i - 24)"
    by (auto simp: bit_simps)
  have c: "bit (push_bit 24 (mask 8) :: u32) i \<longleftrightarrow> 24 \<le> i \<and> i < 32"
    by (auto simp: bit_simps)
  show ?thesis
    unfolding AluFlags_def Let_def snd_conv m bit_or_iff bit_and_iff bit_not_iff bit_shl_of_bool t c bit_shl_one
    using bit_imp_le_length [of f i] by auto
qed

lemma flags_result_AluFlags:
  assumes "sf = bit x (n - 1)"
  shows "flags_result n f (snd (AluFlags f x (of_bool af) (of_bool ov) (of_bool cf) (of_bool sf)))
    x cf ov af"
proof -
  let ?f = "snd (AluFlags f x (of_bool af) (of_bool ov) (of_bool cf) (of_bool sf))"
  have p: "GetFlag ?f FLAGS_PF = even_parity (to_u8 x)"
    unfolding GetFlag_PF
    by (rule even_parity_cong) (simp add: bit_unsigned_iff bit_drop_bit_eq bit_AluFlags)
  have r: "\<forall>b \<in> set [0..<24]. b \<in> set arith_flags \<or> GetFlag ?f b = GetFlag f b"
  proof
    fix b assume "b \<in> set [0..<24]"
    then show "b \<in> set arith_flags \<or> GetFlag ?f b = GetFlag f b"
      unfolding arith_flags_def
      by (cases "b = FLAGS_PF") (simp_all add: GetFlag_bit bit_AluFlags del: of_bool_eq_iff)
  qed
  show ?thesis
    using assms p r unfolding flags_result_def list_all_iff
    by (simp only: GetFlag_bit bit_AluFlags) simp
qed

lemma shr_top:
  fixes w :: "'a::len word"
  assumes "n = LENGTH('a) - Suc 0"
  shows "shr w n = of_bool (bit w n)"
proof (rule bit_word_eqI)
  fix i
  show "bit (shr w n) i = bit (of_bool (bit w n) :: 'a word) i"
    using assms bit_imp_le_length [of w "n + i"] by (cases i) (auto simp: bit_simps bit_1_iff)
qed

lemma shr_top_nz:
  fixes w :: "'a::len word"
  shows "n = LENGTH('a) - Suc 0 \<Longrightarrow> shr w n \<noteq> 0 \<longleftrightarrow> bit w (LENGTH('a) - Suc 0)"
  by (simp add: shr_top)

lemma fst_AluFlags [simp]: "fst (AluFlags f x af ov cf sf) = x"
  by (simp add: AluFlags_def Let_def)

section \<open>Operands read as numbers\<close>

lemma uint_cast_ux:
  "LENGTH('a) \<le> 64 \<Longrightarrow> uint (ucast x :: 'a::len word) = ux LENGTH('a) x"
  by (simp add: ux_def unsigned_ucast_eq take_bit_eq_mod)

lemma sint_cast_sx:
  "LENGTH('a) \<le> 64 \<Longrightarrow> sint (ucast x :: 'a::len word) = sx LENGTH('a) x"
  by (simp add: sx_def sint_uint unsigned_ucast_eq signed_take_bit_take_bit)

lemma operand_casts:
  "uint (to_u8 x) = ux 8 x" "sint (to_u8 x) = sx 8 x"
  "uint (to_u16 x) = ux 16 x" "sint (to_u16 x) = sx 16 x"
  "uint (to_u32 x) = ux 32 x" "sint (to_u32 x) = sx 32 x"
  "uint x = ux 64 x" "sint x = sx 64 x" for x :: u64
  using uint_cast_ux [where 'a = 8, of x] sint_cast_sx [where 'a = 8, of x]
    uint_cast_ux [where 'a = 16, of x] sint_cast_sx [where 'a = 16, of x]
    uint_cast_ux [where 'a = 32, of x] sint_cast_sx [where 'a = 32, of x]
    uint_cast_ux [where 'a = 64, of x] sint_cast_sx [where 'a = 64, of x]
  by simp_all

section \<open>Sums and differences of any width\<close>

lemma arith_resultI:
  fixes z :: "'a::len word"
  assumes "n = LENGTH('a)" "n \<le> 64" "p = n - 1" "uint z = U mod 2 ^ n"
    and "cf \<longleftrightarrow> \<not> (0 \<le> U \<and> U < 2 ^ n)"
    and "ov \<longleftrightarrow> \<not> (- (2 ^ (n - 1)) \<le> S \<and> S < 2 ^ (n - 1))"
    and "af \<longleftrightarrow> H"
  shows "arith_result n f U S H
    (AluFlags f (to_u64 z) (of_bool af) (of_bool ov) (of_bool cf) (to_u32 (shr z p)))"
proof -
  have u: "uint (to_u64 z) = uint z"
    using assms(1,2) by (simp add: unsigned_ucast_eq bintr_uint)
  have s: "to_u32 (shr z (n - 1)) = of_bool (bit (to_u64 z) (n - 1))"
    using assms(1,2) by (simp add: shr_top bit_unsigned_iff)
  show ?thesis
    using assms(4-7) flags_result_AluFlags [OF refl, of n f "to_u64 z" af ov cf] u
    unfolding arith_result_def assms(3) s by simp
qed

lemma nibble_carry:
  fixes A B :: int
  assumes "0 \<le> A" "A < 16" "0 \<le> B" "B < 16"
  shows "16 \<le> A + 1 \<or> 16 \<le> (if A = 15 then 0 else A + 1) + B \<longleftrightarrow> 16 \<le> A + B + 1"
  using assms by auto

lemma nibble_borrow:
  fixes A B :: int
  assumes "0 \<le> A" "A < 16" "0 \<le> B" "B < 16"
  shows "A < 1 \<or> (if A = 0 then 15 else A - 1) < B \<longleftrightarrow> A < B + 1"
  using assms by auto

lemma nibble_succ: "(A + 1) mod 16 = (if A mod 16 = 15 then 0 else A mod 16 + 1)" for A :: int
proof -
  have "(A + 1) mod 16 = (A mod 16 + 1) mod 16" by (simp add: mod_simps)
  moreover have "\<dots> = (if A mod 16 + 1 < 16 then A mod 16 + 1 else A mod 16 + 1 - 16)"
    by (rule mod_less_cases) simp_all
  ultimately show ?thesis using pos_mod_bound [of 16 A] by (simp split: if_splits)
qed

lemma nibble_pred: "(A - 1) mod 16 = (if A mod 16 = 0 then 15 else A mod 16 - 1)" for A :: int
proof -
  have "(A - 1) mod 16 = (A mod 16 - 1) mod 16" by (simp add: mod_simps)
  moreover have "\<dots> = (if 1 \<le> A mod 16 then A mod 16 - 1 else A mod 16 - 1 + 16)"
    by (rule mod_less_cases) simp_all
  ultimately show ?thesis using pos_mod_sign [of 16 A] by (simp split: if_splits)
qed

lemma adc_result:
  fixes a b z t :: "'a::len word"
  assumes n: "n = LENGTH('a)" "4 \<le> n" "n \<le> 64" and p: "p = n - 1" and t: "t = a + of_bool c" and z: "z = t + b"
  shows "arith_result n f (uint a + uint b + of_bool c) (sint a + sint b + of_bool c)
      (16 \<le> uint a mod 16 + uint b mod 16 + of_bool c)
    (AluFlags f (to_u64 z) (of_bool (t AND 15 < a AND 15 \<or> z AND 15 < b AND 15))
      (of_bool (shr ((z XOR a) AND (z XOR b)) p \<noteq> 0)) (of_bool (t < a \<or> z < b))
      (to_u32 (shr z p)))"
proof (rule arith_resultI [OF n(1) n(3) p])
  let ?M = "2 ^ LENGTH('a) :: int"
  have b: "0 \<le> uint a" "uint a < ?M" "0 \<le> uint b" "uint b < ?M" "1 < ?M" by simp_all
  have ut: "uint t = (if uint a + of_bool c < ?M then uint a + of_bool c else uint a + of_bool c - ?M)"
    unfolding t uint_plus_if' by simp
  have uz: "uint z = (uint t + uint b) mod ?M"
    unfolding z by (simp add: uint_word_ariths)
  then show zU: "uint z = (uint a + uint b + of_bool c) mod 2 ^ n"
    unfolding t n(1) by (simp add: uint_word_ariths mod_simps algebra_simps)
  show "(t < a \<or> z < b) \<longleftrightarrow> \<not> (0 \<le> uint a + uint b + of_bool c \<and> uint a + uint b + of_bool c < 2 ^ n)"
    using b ut carry_add [of t b] carry_add [of "of_bool c" a]
    unfolding z n(1) t
    by (cases c) (auto simp: add.commute, (use uint_lt2p [of b] uint_ge_0 [of b] b in linarith)+)
  show "(shr ((z XOR a) AND (z XOR b)) p \<noteq> 0) \<longleftrightarrow>
      \<not> (- (2 ^ (n - 1)) \<le> sint a + sint b + of_bool c \<and> sint a + sint b + of_bool c < 2 ^ (n - 1))"
    unfolding shr_top_nz [OF p [unfolded n(1) One_nat_def]] n(1) One_nat_def
    by (rule signed_overflow_add) (use zU n(1) in simp_all)
  show "(t AND 15 < a AND 15 \<or> z AND 15 < b AND 15) \<longleftrightarrow>
      16 \<le> uint a mod 16 + uint b mod 16 + of_bool c"
  proof (cases c)
    case False
    then show ?thesis using half_carry_add [of t b] n unfolding z t by simp
  next
    case True
    have l: "t AND 15 < a AND 15 \<longleftrightarrow> 16 \<le> uint a mod 16 + 1"
      using half_carry_add [of 1 a] n True unfolding t by (simp add: add.commute)
    have "uint t mod 16 = (uint a + 1) mod 16"
      using uint_add_mod_16(1) [of a 1] n True unfolding t by simp
    then have m: "uint t mod 16 = (if uint a mod 16 = 15 then 0 else uint a mod 16 + 1)"
      by (simp only: nibble_succ)
    have "z AND 15 < b AND 15 \<longleftrightarrow> 16 \<le> uint t mod 16 + uint b mod 16"
      using half_carry_add [of t b] n unfolding z by simp
    then show ?thesis
      unfolding l m using True nibble_carry [of "uint a mod 16" "uint b mod 16"] by simp
  qed
qed

lemma sbb_result:
  fixes a b z t :: "'a::len word"
  assumes n: "n = LENGTH('a)" "4 \<le> n" "n \<le> 64" and p: "p = n - 1" and t: "t = a - of_bool c" and z: "z = t - b"
  shows "arith_result n f (uint a - uint b - of_bool c) (sint a - sint b - of_bool c)
      (uint a mod 16 < uint b mod 16 + of_bool c)
    (AluFlags f (to_u64 z) (of_bool (a AND 15 < t AND 15 \<or> t AND 15 < z AND 15))
      (of_bool (shr ((z XOR a) AND (a XOR b)) p \<noteq> 0)) (of_bool (a < t \<or> t < z))
      (to_u32 (shr z p)))"
proof (rule arith_resultI [OF n(1) n(3) p])
  let ?M = "2 ^ LENGTH('a) :: int"
  have b: "0 \<le> uint a" "uint a < ?M" "0 \<le> uint b" "uint b < ?M" "1 < ?M" by simp_all
  have ut: "uint t = (if of_bool c \<le> uint a then uint a - of_bool c else uint a - of_bool c + ?M)"
    unfolding t uint_sub_if' by (auto simp: word_le_def)
  have uz: "uint z = (uint t - uint b) mod ?M"
    unfolding z by (simp add: uint_word_ariths)
  then show zU: "uint z = (uint a - uint b - of_bool c) mod 2 ^ n"
    unfolding t n(1) by (simp add: uint_word_ariths mod_simps algebra_simps)
  show "(a < t \<or> t < z) \<longleftrightarrow> \<not> (0 \<le> uint a - uint b - of_bool c \<and> uint a - uint b - of_bool c < 2 ^ n)"
    using b ut borrow_sub [of t b] borrow_sub [of a "of_bool c"]
    unfolding z n(1) t by (cases c) (auto, (use uint_ge_0 [of b] b in linarith)+)
  show "(shr ((z XOR a) AND (a XOR b)) p \<noteq> 0) \<longleftrightarrow>
      \<not> (- (2 ^ (n - 1)) \<le> sint a - sint b - of_bool c \<and> sint a - sint b - of_bool c < 2 ^ (n - 1))"
    unfolding shr_top_nz [OF p [unfolded n(1) One_nat_def]] n(1) One_nat_def
    by (rule signed_overflow_sub) (use zU n(1) in simp_all)
  show "(a AND 15 < t AND 15 \<or> t AND 15 < z AND 15) \<longleftrightarrow>
      uint a mod 16 < uint b mod 16 + of_bool c"
  proof (cases c)
    case False
    then show ?thesis using half_borrow_sub [of t b] n unfolding z t by simp
  next
    case True
    have l: "a AND 15 < t AND 15 \<longleftrightarrow> uint a mod 16 < 1"
      using half_borrow_sub [of a 1] n True unfolding t by simp
    have "uint t mod 16 = (uint a - 1) mod 16"
      using uint_add_mod_16(2) [of a 1] n True unfolding t by simp
    then have m: "uint t mod 16 = (if uint a mod 16 = 0 then 15 else uint a mod 16 - 1)"
      by (simp only: nibble_pred)
    have "t AND 15 < z AND 15 \<longleftrightarrow> uint t mod 16 < uint b mod 16"
      using half_borrow_sub [of t b] n unfolding z by simp
    then show ?thesis
      unfolding l m using True nibble_borrow [of "uint a mod 16" "uint b mod 16"] by simp
  qed
qed

lemma add_result:
  fixes a b z :: "'a::len word"
  assumes n: "n = LENGTH('a)" "4 \<le> n" "n \<le> 64" and p: "p = n - 1" and z: "z = a + b"
  shows "arith_result n f (uint a + uint b) (sint a + sint b) (16 \<le> uint a mod 16 + uint b mod 16)
    (AluFlags f (to_u64 z) (of_bool (z AND 15 < b AND 15))
      (of_bool (shr ((z XOR a) AND (z XOR b)) p \<noteq> 0)) (of_bool (z < b)) (to_u32 (shr z p)))"
  using adc_result [OF n p, of a a False z b f] z by simp

lemma sub_result:
  fixes a b z :: "'a::len word"
  assumes n: "n = LENGTH('a)" "4 \<le> n" "n \<le> 64" and p: "p = n - 1" and z: "z = a - b"
  shows "arith_result n f (uint a - uint b) (sint a - sint b) (uint a mod 16 < uint b mod 16)
    (AluFlags f (to_u64 z) (of_bool (a AND 15 < z AND 15))
      (of_bool (shr ((a XOR b) AND (z XOR a)) p \<noteq> 0)) (of_bool (a < z)) (to_u32 (shr z p)))"
  using sbb_result [OF n p, of a a False z b f] z by (simp add: and.commute)

section \<open>The four operations at the four widths\<close>

lemma carry_flag: "f AND shl 1 FLAGS_CF \<noteq> 0 \<longleftrightarrow> GetFlag f FLAGS_CF" for f :: u32
  by (simp add: and_one_bit GetFlag_bit)

lemmas alu_width_defs = AluFlags8_def AluFlags16_def AluFlags32_def AluFlags64_def

lemmas operand_reads = operand_casts [symmetric]

lemma Adc_result:
  "arith_result 8 f (ux 8 x + ux 8 y + of_bool (GetFlag f FLAGS_CF)) (sx 8 x + sx 8 y + of_bool (GetFlag f FLAGS_CF))
    (16 \<le> ux 8 x mod 16 + ux 8 y mod 16 + of_bool (GetFlag f FLAGS_CF)) (Adc8 f x y)"
  "arith_result 16 f (ux 16 x + ux 16 y + of_bool (GetFlag f FLAGS_CF)) (sx 16 x + sx 16 y + of_bool (GetFlag f FLAGS_CF))
    (16 \<le> ux 16 x mod 16 + ux 16 y mod 16 + of_bool (GetFlag f FLAGS_CF)) (Adc16 f x y)"
  "arith_result 32 f (ux 32 x + ux 32 y + of_bool (GetFlag f FLAGS_CF)) (sx 32 x + sx 32 y + of_bool (GetFlag f FLAGS_CF))
    (16 \<le> ux 32 x mod 16 + ux 32 y mod 16 + of_bool (GetFlag f FLAGS_CF)) (Adc32 f x y)"
  "arith_result 64 f (ux 64 x + ux 64 y + of_bool (GetFlag f FLAGS_CF)) (sx 64 x + sx 64 y + of_bool (GetFlag f FLAGS_CF))
    (16 \<le> ux 64 x mod 16 + ux 64 y mod 16 + of_bool (GetFlag f FLAGS_CF)) (Adc64 f x y)"
  unfolding Adc8_def Adc16_def Adc32_def Adc64_def Let_def alu_width_defs operand_reads carry_flag
  by (rule adc_result [OF _ _ _ _ refl refl]; simp)+

lemma Sbb_result:
  "arith_result 8 f (ux 8 x - ux 8 y - of_bool (GetFlag f FLAGS_CF)) (sx 8 x - sx 8 y - of_bool (GetFlag f FLAGS_CF))
    (ux 8 x mod 16 < ux 8 y mod 16 + of_bool (GetFlag f FLAGS_CF)) (Sbb8 f x y)"
  "arith_result 16 f (ux 16 x - ux 16 y - of_bool (GetFlag f FLAGS_CF)) (sx 16 x - sx 16 y - of_bool (GetFlag f FLAGS_CF))
    (ux 16 x mod 16 < ux 16 y mod 16 + of_bool (GetFlag f FLAGS_CF)) (Sbb16 f x y)"
  "arith_result 32 f (ux 32 x - ux 32 y - of_bool (GetFlag f FLAGS_CF)) (sx 32 x - sx 32 y - of_bool (GetFlag f FLAGS_CF))
    (ux 32 x mod 16 < ux 32 y mod 16 + of_bool (GetFlag f FLAGS_CF)) (Sbb32 f x y)"
  "arith_result 64 f (ux 64 x - ux 64 y - of_bool (GetFlag f FLAGS_CF)) (sx 64 x - sx 64 y - of_bool (GetFlag f FLAGS_CF))
    (ux 64 x mod 16 < ux 64 y mod 16 + of_bool (GetFlag f FLAGS_CF)) (Sbb64 f x y)"
  unfolding Sbb8_def Sbb16_def Sbb32_def Sbb64_def Let_def alu_width_defs operand_reads carry_flag
  by (rule sbb_result [OF _ _ _ _ refl refl]; simp)+

lemma Add_result:
  "arith_result 8 f (ux 8 x + ux 8 y) (sx 8 x + sx 8 y)
    (16 \<le> ux 8 x mod 16 + ux 8 y mod 16) (Add8 f x y)"
  "arith_result 16 f (ux 16 x + ux 16 y) (sx 16 x + sx 16 y)
    (16 \<le> ux 16 x mod 16 + ux 16 y mod 16) (Add16 f x y)"
  "arith_result 32 f (ux 32 x + ux 32 y) (sx 32 x + sx 32 y)
    (16 \<le> ux 32 x mod 16 + ux 32 y mod 16) (Add32 f x y)"
  "arith_result 64 f (ux 64 x + ux 64 y) (sx 64 x + sx 64 y)
    (16 \<le> ux 64 x mod 16 + ux 64 y mod 16) (Add64 f x y)"
  unfolding Add8_def Add16_def Add32_def Add64_def Let_def alu_width_defs operand_reads
  by (rule add_result [OF _ _ _ _ refl]; simp)+

lemma Sub_result:
  "arith_result 8 f (ux 8 x - ux 8 y) (sx 8 x - sx 8 y)
    (ux 8 x mod 16 < ux 8 y mod 16) (Sub8 f x y)"
  "arith_result 16 f (ux 16 x - ux 16 y) (sx 16 x - sx 16 y)
    (ux 16 x mod 16 < ux 16 y mod 16) (Sub16 f x y)"
  "arith_result 32 f (ux 32 x - ux 32 y) (sx 32 x - sx 32 y)
    (ux 32 x mod 16 < ux 32 y mod 16) (Sub32 f x y)"
  "arith_result 64 f (ux 64 x - ux 64 y) (sx 64 x - sx 64 y)
    (ux 64 x mod 16 < ux 64 y mod 16) (Sub64 f x y)"
  unfolding Sub8_def Sub16_def Sub32_def Sub64_def Let_def alu_width_defs operand_reads
  by (rule sub_result [OF _ _ _ _ refl]; simp)+

text \<open>C1: Addition, with and without carry in, is correct at every operand width: for any flag
  word and any 64-bit operands, the entry of the dispatch table for \<open>ADD\<close> (\<open>ADC\<close>) at width
  \<open>n\<close> returns the sum of the low \<open>n\<close> bits (and the carry) modulo \<open>2 ^ n\<close>, carry and overflow say
  exactly when the unsigned and the signed sum leave the range, the half carry is the carry out
  of the low nibbles, zero, sign and parity describe the result and every other flag is kept.\<close>

theorem alu_add_correct:
  "list_all (\<lambda>(n, add). arith_result n f (ux n x + ux n y) (sx n x + sx n y)
      (16 \<le> ux n x mod 16 + ux n y mod 16) (add f x y)) (zip widths (kAlu ! ALU_ADD)) \<and>
   list_all (\<lambda>(n, adc).
      let c = of_bool (GetFlag f FLAGS_CF)
      in arith_result n f (ux n x + ux n y + c) (sx n x + sx n y + c)
           (16 \<le> ux n x mod 16 + ux n y mod 16 + c) (adc f x y)) (zip widths (kAlu ! ALU_ADC))"
  by (simp_all add: kAlu_def Let_def Add_result Adc_result)

text \<open>C2: Subtraction, compare and subtraction with borrow are correct at every operand width:
  the result is the difference modulo \<open>2 ^ n\<close>, the carry flag is the borrow, the overflow flag
  signed overflow, the half carry the borrow of the low nibbles; \<open>CMP\<close> uses the same table row.\<close>

theorem alu_sub_correct:
  "list_all (\<lambda>(n, sub). arith_result n f (ux n x - ux n y) (sx n x - sx n y)
      (ux n x mod 16 < ux n y mod 16) (sub f x y)) (zip widths (kAlu ! ALU_SUB)) \<and>
   list_all (\<lambda>(n, sbb).
      let c = of_bool (GetFlag f FLAGS_CF)
      in arith_result n f (ux n x - ux n y - c) (sx n x - sx n y - c)
           (ux n x mod 16 < ux n y mod 16 + c) (sbb f x y)) (zip widths (kAlu ! ALU_SBB)) \<and>
   kAlu ! ALU_CMP = kAlu ! ALU_SUB"
  by (simp_all add: kAlu_def Let_def Sub_result Sbb_result)

end
