(* ===== verification/AluShift.thy ===== *)
theory AluShift
  imports AluSpec
begin

text \<open>
  The shift unit against reference operations on words: the rotations are the library's
  \<open>word_rotl\<close> and \<open>word_rotr\<close>, a rotation through carry is a rotation of the operand extended by
  the carry flag, the shifts are multiplication and (signed or unsigned) division by a power of
  two with the carry flag the last bit shifted out, and a double shift is a shift of the
  concatenation of its operands.
\<close>

section \<open>Rotations\<close>

lemma fst_RotateFlags [simp]: "fst (RotateFlags m x cf ov) = x"
  by (simp add: RotateFlags_def Let_def)

lemma bit_RotateFlags:
  "bit (snd (RotateFlags m x (of_bool cf) (of_bool ov))) i =
    (if i = FLAGS_CF then cf else if i = FLAGS_OF then ov else bit m i)"
proof -
  show ?thesis
    unfolding RotateFlags_def Let_def snd_conv bit_or_iff bit_and_iff bit_not_iff
      bit_shl_of_bool bit_shl_one
    using bit_imp_le_length [of m i] by auto
qed

lemma rotl_shifts:
  fixes x :: "'a::len word"
  assumes "0 < k" "k < LENGTH('a)"
  shows "shl x k OR shr x (LENGTH('a) - k) = word_rotl k x"
proof (rule bit_word_eqI)
  fix i assume i: "i < LENGTH('a)"
  show "bit (shl x k OR shr x (LENGTH('a) - k)) i = bit (word_rotl k x) i"
  proof (cases "i < k")
    case True
    then have "(i + (LENGTH('a) - k)) mod LENGTH('a) = i + (LENGTH('a) - k)"
      using assms by simp
    then show ?thesis using True assms i by (simp add: bit_simps bit_word_rotl_iff add.commute)
  next
    case False
    then have "(i + (LENGTH('a) - k)) mod LENGTH('a) = i - k"
      using assms i by (simp add: mod_if)
    then show ?thesis using False assms i bit_imp_le_length [of x "LENGTH('a) - k + i"]
      by (auto simp: bit_simps bit_word_rotl_iff add.commute)
  qed
qed

lemma rotr_shifts:
  fixes x :: "'a::len word"
  assumes "0 < k" "k < LENGTH('a)"
  shows "shr x k OR shl x (LENGTH('a) - k) = word_rotr k x"
proof (rule bit_word_eqI)
  fix i assume i: "i < LENGTH('a)"
  show "bit (shr x k OR shl x (LENGTH('a) - k)) i = bit (word_rotr k x) i"
  proof (cases "i + k < LENGTH('a)")
    case True
    then show ?thesis using assms i by (auto simp: bit_simps bit_word_rotr_iff add.commute)
  next
    case False
    then have "(i + k) mod LENGTH('a) = i + k - LENGTH('a)"
      using assms i by (simp add: mod_if)
    then show ?thesis using False assms i bit_imp_le_length [of x "k + i"]
      by (auto simp: bit_simps bit_word_rotr_iff add.commute)
  qed
qed

section \<open>Rotations through carry\<close>

text \<open>Bit \<open>i\<close> of the operand of \<open>n\<close> bits extended by the carry flag as bit \<open>n\<close>.\<close>

definition carry_ext :: "nat \<Rightarrow> u64 \<times> u32 \<Rightarrow> nat \<Rightarrow> bool" where
  "carry_ext n s i = (if i = n then GetFlag (snd s) FLAGS_CF else bit (fst s) i)"

definition carry_rotated :: "nat \<Rightarrow> (nat \<Rightarrow> nat) \<Rightarrow> u64 \<times> u32 \<Rightarrow> u64 \<times> u32 \<Rightarrow> bool" where
  "carry_rotated n src r s \<longleftrightarrow>
     list_all (\<lambda>i. carry_ext n r i = carry_ext n s (src i)) [0..<Suc n]"

text \<open>The two rotations through carry on the extended operand, for a reduced count \<open>y \<le> n\<close>.\<close>

lemma Rcl_carry_ext:
  assumes "0 < n" "n \<le> 64" "y \<le> n" "i \<le> n"
  shows "carry_ext n (Rcl f x y (mask n) n) i = carry_ext n (x, f) ((i + (n + 1) - y) mod (n + 1))"
proof (cases "y = 0")
  case True
  with assms have "(i + (n + 1) - y) mod (n + 1) = i" by (simp add: mod_if)
  with True assms show ?thesis
    by (simp add: Rcl_def carry_ext_def bit_simps)
next
  case False
  have m: "(i + (n + 1) - y) mod (n + 1) = (if y \<le> i then i - y else i + n + 1 - y)"
    using False assms by (auto simp: mod_if)
  let ?x = "x AND mask n"
  let ?z = "if y = 1 then (shl ?x 1 OR of_bool (GetFlag f FLAGS_CF)) AND mask n
    else (shl ?x y OR shl (of_bool (GetFlag f FLAGS_CF)) (y - 1) OR shr ?x (n + 1 - y)) AND mask n"
  have r: "Rcl f x y (mask n) n = RotateFlags f ?z (of_bool (bit ?x (n - y)))
      (of_bool (bit ?x (n - y) \<noteq> bit ?z (n - 1)))"
    using False unfolding Rcl_def Let_def and_one_of_bool [where 'a = 64] carry_flag
    by (simp only: not_False_eq_True if_True bit_drop_bit_eq comp_apply add_0_right ucast_of_bool
        of_bool_xor)
  have z: "bit ?z j = (j < n \<and> (if y \<le> j then bit x (j - y)
      else if j = y - 1 then GetFlag f FLAGS_CF else bit x (j + n + 1 - y)))" for j
  proof (cases "y = 1")
    case True
    then show ?thesis
      using assms unfolding if_P [OF True] bit_and_iff bit_or_iff bit_push_bit_iff bit_of_bool_word
      by (auto simp: bit_simps)
  next
    case f: False
    then show ?thesis
      using assms False unfolding if_not_P [OF f] bit_and_iff bit_or_iff bit_shl_of_bool
      by (auto simp: bit_simps add.commute)
  qed
  show ?thesis
    using False assms unfolding m r carry_ext_def fst_RotateFlags z
    by (auto simp: GetFlag_bit bit_RotateFlags bit_simps)
qed

lemma Rcr_carry_ext:
  assumes "0 < n" "n \<le> 64" "y \<le> n" "i \<le> n"
  shows "carry_ext n (Rcr f x y (mask n) n) i = carry_ext n (x, f) ((i + y) mod (n + 1))"
proof (cases "y = 0")
  case True
  with assms show ?thesis
    by (simp add: Rcr_def carry_ext_def bit_simps mod_if)
next
  case False
  have m: "(i + y) mod (n + 1) = (if i + y \<le> n then i + y else i + y - (n + 1))"
    using False assms by (auto simp: mod_if)
  let ?x = "x AND mask n"
  let ?z = "if y = 1 then (shr ?x 1 OR shl (of_bool (GetFlag f FLAGS_CF)) (n - 1)) AND mask n
    else (shr ?x y OR shl (of_bool (GetFlag f FLAGS_CF)) (n - y) OR shl ?x (n + 1 - y)) AND mask n"
  have r: "Rcr f x y (mask n) n = RotateFlags f ?z (of_bool (bit ?x (y - 1)))
      (of_bool (bit (shl ?z 1 XOR ?z) (n - 1)))"
    using False unfolding Rcr_def Let_def and_one_of_bool [where 'a = 64] carry_flag
    by (simp only: not_False_eq_True if_True bit_drop_bit_eq comp_apply add_0_right ucast_of_bool)
  have z: "bit ?z j = (j < n \<and> (if j + y < n then bit x (j + y)
      else if j + y = n then GetFlag f FLAGS_CF else bit x (j + y - (n + 1))))" for j
  proof (cases "y = 1")
    case True
    then show ?thesis
      using assms unfolding if_P [OF True] bit_and_iff bit_or_iff bit_shl_of_bool
      by (auto simp: bit_simps add.commute)
  next
    case f: False
    then show ?thesis
      using assms False unfolding if_not_P [OF f] bit_and_iff bit_or_iff bit_shl_of_bool
      by (auto simp: bit_simps add.commute)
  qed
  show ?thesis
    using False assms unfolding m r carry_ext_def fst_RotateFlags z
    by (auto simp: GetFlag_bit bit_RotateFlags bit_simps)
qed

section \<open>Shifts\<close>

text \<open>
  Reference shifts of a word of any width, with the flags they leave: the carry flag is the
  last bit shifted out, the overflow flag of a left shift says that the top bit differs from
  it, that of a right shift is the new second highest bit (for a shift by one, the old sign).
\<close>

definition shl_ref :: "u32 \<Rightarrow> 'a::len word \<Rightarrow> nat \<Rightarrow> u64 \<times> u32" where
  "shl_ref f a k =
     (let c = k \<le> LENGTH('a) \<and> bit a (LENGTH('a) - k);
          z = shl a k;
          s = bit z (LENGTH('a) - 1)
      in if k = 0 then (to_u64 a, f)
         else AluFlags f (to_u64 z) 0 (of_bool (s \<noteq> c)) (of_bool c) (of_bool s))"

definition shr_ref :: "u32 \<Rightarrow> 'a::len word \<Rightarrow> nat \<Rightarrow> u64 \<times> u32" where
  "shr_ref f a k =
     (let z = shr a k
      in if k = 0 then (to_u64 a, f)
         else AluFlags f (to_u64 z) 0 (of_bool (bit z (LENGTH('a) - 2))) (of_bool (bit a (k - 1)))
                (of_bool (bit z (LENGTH('a) - 1))))"

definition sar_ref :: "u32 \<Rightarrow> 'a::len word \<Rightarrow> nat \<Rightarrow> u64 \<times> u32" where
  "sar_ref f a k =
     (let z = sar a k
      in if k = 0 then (to_u64 a, f)
         else AluFlags f (to_u64 z) 0 0 (of_bool (bit a (min (k - 1) (LENGTH('a) - 1))))
                (of_bool (bit z (LENGTH('a) - 1))))"

lemma uint_and_31: "uint (y AND 31) = uint y mod 32" for y :: u64
proof -
  have "y AND 31 = take_bit 5 y"
    by (simp only: take_bit_eq_mask) (simp add: mask_numeral)
  moreover have "uint (take_bit 5 y) = take_bit 5 (uint y)"
    by (rule unsigned_take_bit_eq)
  moreover have "\<dots> = uint y mod 2 ^ 5"
    by (rule take_bit_eq_mod)
  ultimately show ?thesis by simp
qed

lemma uint_and_63: "uint (y AND 63) = uint y mod 64" for y :: u64
proof -
  have "y AND 63 = take_bit 6 y"
    by (simp only: take_bit_eq_mask) (simp add: mask_numeral)
  moreover have "uint (take_bit 6 y) = take_bit 6 (uint y)"
    by (rule unsigned_take_bit_eq)
  moreover have "\<dots> = uint y mod 2 ^ 6"
    by (rule take_bit_eq_mod)
  ultimately show ?thesis by simp
qed

lemma count_31: "unat (y AND 31) < 32" for y :: u64
  using uint_and_31 [of y] pos_mod_bound [of 32 "uint y"]
  by (simp add: unat_eq_nat_uint)

lemma count_63: "unat (y AND 63) < 64" for y :: u64
  using uint_and_63 [of y] pos_mod_bound [of 64 "uint y"]
  by (simp add: unat_eq_nat_uint)

lemma unat_nz: "y \<noteq> 0 \<longleftrightarrow> unat y \<noteq> 0" for y :: "'a::len word"
  by (simp add: unat_eq_zero)

lemma complement_count:
  assumes "j \<le> 31"
  shows "unat ((word_of_nat j - (y AND 31)) AND 31 :: u64) =
    (if unat (y AND 31) \<le> j then j - unat (y AND 31) else 32 + j - unat (y AND 31))"
proof -
  have d: "(32::int) dvd 2 ^ 64" by simp
  have "uint (word_of_nat j - (y AND 31)) mod 32 = (int j - uint y mod 32) mod 32"
    using assms d by (simp add: uint_word_ariths uint_and_31 mod_mod_cancel mod_simps
        unsigned_of_nat take_bit_nat_eq_self)
  also have "\<dots> = (if uint y mod 32 \<le> int j then int j - uint y mod 32 else int j - uint y mod 32 + 32)"
    by (rule mod_less_cases) (use assms in simp_all)
  finally show ?thesis
    using assms pos_mod_bound [of 32 "uint y"]
    by (auto simp: unat_eq_nat_uint uint_and_31 nat_diff_distrib nat_less_iff nat_le_iff
        split: if_splits)
qed

text \<open>The narrow operations work on a copy of the operand in a wider word \<open>'b\<close>.\<close>

lemma low_copy:
  "to_u32 (x AND 0xff) = to_u32 (to_u8 x)" "to_u32 (x AND 0xffff) = to_u32 (to_u16 x)" for x :: u64
proof -
  have m: "(0xff :: u64) = mask 8" "(0xffff :: u64) = mask 16" by (simp_all add: mask_numeral)
  show "to_u32 (x AND 0xff) = to_u32 (to_u8 x)" "to_u32 (x AND 0xffff) = to_u32 (to_u16 x)"
    unfolding m by (rule bit_word_eqI; auto simp: bit_simps)+
qed

lemma copy_shr:
  fixes a :: "'a::len word"
  assumes "LENGTH('a) \<le> LENGTH('b::len)"
  shows "shr (ucast a :: 'b word) k = ucast (shr a k)"
  using assms bit_imp_le_length [of a]
  by (intro bit_word_eqI) (fastforce simp: bit_simps)

lemma copy_shr_ov:
  fixes a :: "'a::len word"
  assumes "LENGTH('a) \<le> LENGTH('b::len)" "0 < k" "1 < LENGTH('a)" "n = LENGTH('a) - Suc 0"
  shows "shr (shl (ucast (shr a k) :: 'b word) 1 XOR ucast (shr a k)) n
    = of_bool (bit (shr a k) (LENGTH('a) - 2))"
proof (rule bit_word_eqI)
  fix i assume i: "i < LENGTH('b)"
  show "bit (shr (shl (ucast (shr a k) :: 'b word) 1 XOR ucast (shr a k)) n) i =
    bit (of_bool (bit (shr a k) (LENGTH('a) - 2)) :: 'b word) i"
  proof (cases "i = 0")
    case True
    then show ?thesis using assms bit_imp_le_length [of a "k + (LENGTH('a) - Suc 0)"] 
      unfolding bit_of_bool_word bit_drop_bit_eq comp_apply bit_xor_iff bit_push_bit_iff bit_unsigned_iff
      by (auto simp: numeral_2_eq_2)
  next
    case False
    then show ?thesis using assms bit_imp_le_length [of a "k + (LENGTH('a) - Suc 0 + i)"]
      bit_imp_le_length [of a "k + (LENGTH('a) - Suc 0 + i - 1)"] 
      unfolding bit_of_bool_word bit_drop_bit_eq comp_apply bit_xor_iff bit_push_bit_iff bit_unsigned_iff
      by (auto simp: )
  qed
qed

lemma copy_bit:
  fixes a :: "'a::len word"
  assumes "LENGTH('a) \<le> LENGTH('b::len)"
  shows "shr (ucast a :: 'b word) k AND 1 = of_bool (bit a k)"
  unfolding and_one_of_bool [where 'a = 'b] using assms bit_imp_le_length [of a k]
  by (auto simp: bit_simps)


lemma shr_ref_copy:
  fixes a :: "'a::len word" and f :: u32
  assumes "LENGTH('a) \<le> LENGTH('b::len)" "1 < LENGTH('a)" "n = LENGTH('a) - 1"
  defines "X \<equiv> ucast a :: 'b word"
  shows "(if k \<noteq> 0 then AluFlags f (to_u64 (ucast (shr X k) :: 'a word)) 0
      (ucast (shr (shl (shr X k) 1 XOR shr X k) n)) (ucast (shr X (k - 1) AND 1))
      (to_u32 (shr (ucast (shr X k) :: 'a word) n)) else (ucast X, f)) = shr_ref f a k"
proof (cases "k = 0")
  case True
  have "to_u64 X = to_u64 a" unfolding X_def using assms(1) by (intro bit_word_eqI) (auto simp: bit_simps dest: bit_imp_le_length)
  then show ?thesis using True by (simp add: shr_ref_def)
next
  case False
  have s: "shr X k = ucast (shr a k)" and b: "shr X (k - 1) AND 1 = of_bool (bit a (k - 1))"
    unfolding X_def using assms(1) by (simp_all only: copy_shr) (simp only: copy_shr [symmetric] copy_bit)
  have "shr (shl (ucast (shr a k) :: 'b word) 1 XOR ucast (shr a k)) n
    = of_bool (bit (shr a k) (LENGTH('a) - 2))" 
    using assms False by (intro copy_shr_ov) auto
  moreover have "shr (shr a k) n = of_bool (bit (shr a k) (LENGTH('a) - 1))"
    unfolding assms(3) by (rule shr_top) simp
  ultimately show ?thesis
    using False assms(1) unfolding s b shr_ref_def Let_def
    by (simp only: ucast_of_bool ucast_back if_False if_True simp_thms)
qed

lemma Shr_ref:
  "Shr8 f x y = shr_ref f (to_u8 x) (unat (y AND 31))"
  "Shr16 f x y = shr_ref f (to_u16 x) (unat (y AND 31))"
  "Shr32 f x y = shr_ref f (to_u32 x) (unat (y AND 31))"
  "Shr64 f x y = shr_ref f x (unat (y AND 63))"
  unfolding Shr8_def Shr16_def Shr32_def Shr64_def Let_def low_copy alu_width_defs unat_nz ucast_id
  by (rule shr_ref_copy [where 'a = 8 and 'b = 32, unfolded ucast_id]
        shr_ref_copy [where 'a = 16 and 'b = 32, unfolded ucast_id]
        shr_ref_copy [where 'a = 32 and 'b = 32, unfolded ucast_id]
        shr_ref_copy [where 'a = 64 and 'b = 64, unfolded ucast_id]; simp)+


lemma copy_shl:
  fixes a :: "'a::len word"
  assumes "LENGTH('a) \<le> LENGTH('b::len)"
  shows "shl (ucast a :: 'b word) k AND mask LENGTH('a) = ucast (shl a k)"
  using assms by (intro bit_word_eqI) (auto simp: bit_simps)

lemma shl_carry:
  fixes a :: "'a::len word"
  assumes "LENGTH('a) \<le> LENGTH('b::len)"
    and "j = LENGTH('a) - k \<or> LENGTH('a) < k \<and> j = LENGTH('b) + LENGTH('a) - k \<and> k < LENGTH('b)"
  shows "shr (ucast a :: 'b word) j AND 1 = of_bool (k \<le> LENGTH('a) \<and> bit a (LENGTH('a) - k) \<or> LENGTH('a) < k \<and> bit a 0 \<and> j = 0)"
  unfolding and_one_of_bool [where 'a = 'b] bit_drop_bit_eq comp_apply bit_unsigned_iff
  using assms bit_imp_le_length [of a "LENGTH('b) + LENGTH('a) - k"] bit_imp_le_length [of a "LENGTH('a) - k"]
  by auto

lemma shl_ref_copy:
  fixes a :: "'a::len word" and f :: u32
  assumes "LENGTH('a) \<le> LENGTH('b::len)" "1 < LENGTH('a)" "n = LENGTH('a) - 1" and L: "L = LENGTH('a)" and k: "k < LENGTH('b) \<or> k \<le> LENGTH('a)"
    and j: "j = (if k \<le> LENGTH('a) then LENGTH('a) - k else LENGTH('b) + LENGTH('a) - k)"
  defines "X \<equiv> ucast a :: 'b word"
  shows "(if k \<noteq> 0 then AluFlags f (to_u64 (ucast (shl X k AND mask L) :: 'a word)) 0
      (ucast (shr (shl X k AND mask L) n) XOR ucast (shr X j AND 1)) (ucast (shr X j AND 1))
      (to_u32 (shr (ucast (shl X k AND mask L) :: 'a word) n)) else (ucast X, f)) = shl_ref f a k"
proof (cases "k = 0")
  case True
  have "to_u64 X = to_u64 a" unfolding X_def using assms(1) by (intro bit_word_eqI) (auto simp: bit_simps dest: bit_imp_le_length)
  then show ?thesis using True by (simp add: shl_ref_def)
next
  case False
  have s: "shl X k AND mask LENGTH('a) = ucast (shl a k)" 
    unfolding X_def using assms(1) by (rule copy_shl)
  have c: "shr X j AND 1 = of_bool (k \<le> LENGTH('a) \<and> bit a (LENGTH('a) - k))"
    unfolding X_def using assms(1) k bit_imp_le_length [of a j]
    unfolding j and_one_of_bool [where 'a = 'b] bit_drop_bit_eq comp_apply bit_unsigned_iff
    by auto
  have t: "shr (shl a k) n = of_bool (bit (shl a k) (LENGTH('a) - 1))"
    unfolding assms(3) by (rule shr_top) simp
  have "shr (ucast (shl a k) :: 'b word) n = of_bool (bit (shl a k) (LENGTH('a) - 1))"
    using t assms(1) by (simp only: copy_shr ucast_of_bool)
  then show ?thesis
    using False assms(1) t unfolding L s c shl_ref_def Let_def
    by (simp only: ucast_of_bool ucast_back if_False if_True simp_thms of_bool_xor)
qed

lemma full_mask: "x AND mask 32 = x" "y AND mask 64 = y" for x :: u32 and y :: u64
  by (rule bit_word_eqI; simp add: bit_simps)+

lemma byte_masks: "x AND 0xff = x AND mask 8" "x AND 0xffff = x AND mask 16" for x :: u32
  by (simp_all add: mask_numeral)

lemma shl_count:
  "unat ((8 - (y AND 31)) AND 31) = (if unat (y AND 31) \<le> 8 then 8 - unat (y AND 31) else 32 + 8 - unat (y AND 31))"
  "unat ((16 - (y AND 31)) AND 31) = (if unat (y AND 31) \<le> 16 then 16 - unat (y AND 31) else 32 + 16 - unat (y AND 31))" for y :: u64
  using complement_count [of 8 y] complement_count [of 16 y] by simp_all

lemma Shl_ref:
  "Shl8 f x y = shl_ref f (to_u8 x) (unat (y AND 31))"
  "Shl16 f x y = shl_ref f (to_u16 x) (unat (y AND 31))"
  "Shl32 f x y = shl_ref f (to_u32 x) (unat (y AND 31))"
  "Shl64 f x y = shl_ref f x (unat (y AND 63))"
  unfolding Shl8_def Shl16_def Shl32_def Shl64_def Let_def low_copy alu_width_defs unat_nz byte_masks
    shl_count ucast_id
  by (rule shl_ref_copy [where 'a = 8 and 'b = 32 and L = 8, unfolded ucast_id]
        shl_ref_copy [where 'a = 16 and 'b = 32 and L = 16, unfolded ucast_id]
        shl_ref_copy [where 'a = 32 and 'b = 32 and L = 32, unfolded ucast_id full_mask]
        shl_ref_copy [where 'a = 64 and 'b = 64 and L = 64, unfolded ucast_id full_mask]; use count_31 [of y] count_63 [of y] in simp)+
lemma copy_sar:
  fixes a :: "'a::len word"
  assumes "LENGTH('a) \<le> LENGTH('b::len)"
  shows "sar (scast a :: 'b word) k AND mask LENGTH('a) = ucast (sar a k)"
    and "sar (scast a :: 'b word) k AND 1 = of_bool (bit a (min k (LENGTH('a) - 1)))"
proof -
  have sc: "bit (scast a :: 'b word) i \<longleftrightarrow> i < LENGTH('b) \<and> bit a (min i (LENGTH('a) - 1))" for i
    using bit_imp_le_length [of a i] assms
    by (cases "i = LENGTH('a) - Suc 0") (auto simp: bit_simps min_def)
  show "sar (scast a :: 'b word) k AND mask LENGTH('a) = ucast (sar a k)"
    using assms by (intro bit_word_eqI) (auto simp: bit_signed_drop_bit_iff sc bit_unsigned_iff bit_and_iff bit_mask_iff min_def dest: bit_imp_le_length)
  show "sar (scast a :: 'b word) k AND 1 = of_bool (bit a (min k (LENGTH('a) - 1)))"
    unfolding and_one_of_bool [where 'a = 'b] bit_signed_drop_bit_iff sc using assms
    by (auto simp: min_def dest: bit_imp_le_length intro: arg_cong [where f = of_bool])
qed

lemma sar_ref_copy:
  fixes a :: "'a::len word" and f :: u32
  assumes "LENGTH('a) \<le> LENGTH('b::len)" "n = LENGTH('a) - 1" and L: "L = LENGTH('a)"
  defines "X \<equiv> ucast a :: 'b word" and "S \<equiv> scast a :: 'b word"
  shows "(if k \<noteq> 0 then AluFlags f (to_u64 (ucast (sar S k AND mask L) :: 'a word)) 0 0
      (ucast (sar S (k - 1) AND 1))
      (to_u32 (shr (ucast (sar S k AND mask L) :: 'a word) n)) else (ucast X, f)) = sar_ref f a k"
proof (cases "k = 0")
  case True
  have "to_u64 X = to_u64 a" unfolding X_def using assms(1) by (intro bit_word_eqI) (auto simp: bit_simps dest: bit_imp_le_length)
  then show ?thesis using True by (simp add: sar_ref_def)
next
  case False
  have s: "sar S k AND mask LENGTH('a) = ucast (sar a k)"
    and b: "sar S (k - 1) AND 1 = of_bool (bit a (min (k - 1) (LENGTH('a) - 1)))"
    unfolding S_def using assms(1) by (rule copy_sar)+
  have "shr (sar a k) n = of_bool (bit (sar a k) (LENGTH('a) - 1))"
    unfolding assms(2) by (rule shr_top) simp
  then show ?thesis
    using False assms(1) unfolding L s b sar_ref_def Let_def
    by (simp only: ucast_of_bool ucast_back if_False if_True simp_thms)
qed

lemma low_back: "to_u8 (to_u32 (to_u8 x)) = to_u8 x" "to_u16 (to_u32 (to_u16 x)) = to_u16 x" for x :: u64
  by simp_all

lemma Sar_ref:
  "Sar8 f x y = sar_ref f (to_u8 x) (unat (y AND 31))"
  "Sar16 f x y = sar_ref f (to_u16 x) (unat (y AND 31))"
  "Sar32 f x y = sar_ref f (to_u32 x) (unat (y AND 31))"
  "Sar64 f x y = sar_ref f x (unat (y AND 63))"
  unfolding Sar8_def Sar16_def Sar32_def Sar64_def Let_def low_copy low_back alu_width_defs unat_nz byte_masks
    ucast_id
  by (rule sar_ref_copy [where 'a = 8 and 'b = 32 and L = 8, unfolded ucast_id]
        sar_ref_copy [where 'a = 16 and 'b = 32 and L = 16, unfolded ucast_id]
        sar_ref_copy [where 'a = 32 and 'b = 32 and L = 32, unfolded ucast_id scast_id full_mask]
        sar_ref_copy [where 'a = 64 and 'b = 64 and L = 64, unfolded ucast_id scast_id full_mask]; simp)+

section \<open>Shifts as arithmetic\<close>

definition shift_result :: "nat \<Rightarrow> u32 \<Rightarrow> u64 \<Rightarrow> nat \<Rightarrow> int \<Rightarrow> bool \<Rightarrow> bool \<Rightarrow> u64 \<times> u32 \<Rightarrow> bool" where
  "shift_result n f x k R cf ov r \<longleftrightarrow>
     (if k = 0 then r = (take_bit n x, f)
      else uint (fst r) = R \<and> flags_result n f (snd r) (fst r) cf ov False)"

lemma narrow_copy: "n = LENGTH('a) \<Longrightarrow> n \<le> 64 \<Longrightarrow> to_u64 (ucast x :: 'a::len word) = take_bit n x" for x :: u64
  by (intro bit_word_eqI) (auto simp: bit_simps)

lemma shl_ref_result:
  fixes x :: u64 and f :: u32 and k :: nat
  assumes n: "n = LENGTH('a::len)" "n \<le> 64"
  defines "r \<equiv> shl_ref f (ucast x :: 'a word) k"
  defines "cf \<equiv> odd (ux n x * 2 ^ k div 2 ^ n)"
  shows "shift_result n f x k (ux n x * 2 ^ k mod 2 ^ n) cf (bit (fst r) (n - 1) \<noteq> cf) r"
proof (cases "k = 0")
  case True
  then show ?thesis using narrow_copy [OF n, of x] by (simp add: shift_result_def r_def shl_ref_def)
next
  case False
  let ?a = "ucast x :: 'a word"
  have b: "bit ?a i = bit (ux n x) i" for i
    using n by (simp add: uint_cast_ux [symmetric] bit_uint_iff) (use bit_imp_le_length [of ?a i] in auto)
  have c: "(k \<le> LENGTH('a) \<and> bit ?a (LENGTH('a) - k)) = cf"
    unfolding cf_def b using n(1)
    by (auto simp: bit_iff_odd [symmetric] bit_push_bit_iff  push_bit_eq_mult [symmetric])
  have s: "bit (shl ?a k) (LENGTH('a) - 1) = bit (to_u64 (shl ?a k)) (n - 1)"
    using n by (simp add: bit_unsigned_iff)
  have u: "uint (shl ?a k) = ux n x * 2 ^ k mod 2 ^ n"
    using n by (simp only: unsigned_push_bit_eq push_bit_eq_mult [where 'a = int] take_bit_eq_mod uint_cast_ux)
  show ?thesis
    using False flags_result_AluFlags [OF refl, of n f "to_u64 (shl ?a k)" False "bit (to_u64 (shl ?a k)) (n - 1) \<noteq> cf" cf]
    unfolding shift_result_def r_def shl_ref_def Let_def c s
    using n u by (simp add: uint_copy)
qed

lemma shr_ref_result:
  fixes x :: u64 and f :: u32 and k :: nat
  assumes n: "n = LENGTH('a::len)" "n \<le> 64"
  defines "r \<equiv> shr_ref f (ucast x :: 'a word) k"
  shows "shift_result n f x k (ux n x div 2 ^ k) (odd (ux n x div 2 ^ (k - 1))) (bit (fst r) (n - 2)) r"
proof (cases "k = 0")
  case True
  then show ?thesis using narrow_copy [OF n, of x] by (simp add: shift_result_def r_def shr_ref_def)
next
  case False
  let ?a = "ucast x :: 'a word"
  have c: "bit ?a (k - 1) = odd (ux n x div 2 ^ (k - 1))"
    using n by (simp add: uint_cast_ux [symmetric] bit_iff_odd [symmetric] bit_uint_iff)
       (use bit_imp_le_length [of ?a "k - 1"] in auto)
  have s: "bit (shr ?a k) i = bit (to_u64 (shr ?a k)) i" for i
    using n bit_imp_le_length [of "shr ?a k" i] by (auto simp: bit_unsigned_iff)
  have u: "uint (shr ?a k) = ux n x div 2 ^ k"
    using n by (simp add: uint_cast_ux [symmetric] drop_bit_eq_div [symmetric, where 'a = int]
        unsigned_drop_bit_eq bintr_uint)
  show ?thesis
    using False flags_result_AluFlags [OF refl, of n f "to_u64 (shr ?a k)" False "bit (to_u64 (shr ?a k)) (n - 2)"  "odd (ux n x div 2 ^ (k - 1))"]
    unfolding shift_result_def r_def shr_ref_def Let_def c s
    using n u by (simp add: uint_copy)
qed

lemma sar_ref_result:
  fixes x :: u64 and f :: u32 and k :: nat
  assumes n: "n = LENGTH('a::len)" "n \<le> 64"
  shows "shift_result n f x k (sx n x div 2 ^ k mod 2 ^ n) (odd (sx n x div 2 ^ (k - 1))) False
    (sar_ref f (ucast x :: 'a word) k)"
proof (cases "k = 0")
  case True
  then show ?thesis using narrow_copy [OF n, of x] by (simp add: shift_result_def sar_ref_def)
next
  case False
  let ?a = "ucast x :: 'a word"
  have c: "bit ?a (min (k - 1) (LENGTH('a) - 1)) = odd (sx n x div 2 ^ (k - 1))"
    using n by (simp add: sint_cast_sx [symmetric] bit_iff_odd [symmetric] bit_sint_iff min_def)
      (use bit_imp_le_length [of ?a "k - Suc 0"] in auto)
  have s: "bit (sar ?a k) i = bit (to_u64 (sar ?a k)) i" for i
    using n bit_imp_le_length [of "sar ?a k" i] by (auto simp: bit_unsigned_iff)
  have u: "uint (sar ?a k) = sx n x div 2 ^ k mod 2 ^ n"
    using n by (simp only: uint_sint sint_signed_drop_bit_eq sint_cast_sx take_bit_eq_mod
        drop_bit_eq_div [where 'a = int])
  show ?thesis
    using False flags_result_AluFlags [OF refl, of n f "to_u64 (sar ?a k)" False False  "odd (sx n x div 2 ^ (k - 1))"]
    unfolding shift_result_def sar_ref_def Let_def c s
    using n u by (simp add: uint_copy)
qed


text \<open>C4: Shifts are multiplication and division: for every width \<open>n\<close> and the count \<open>k\<close> that the
  processor takes from the count operand (its low five bits, six for quadwords), \<open>SHL\<close> gives the
  operand times \<open>2 ^ k\<close> modulo \<open>2 ^ n\<close>, \<open>SHR\<close> the unsigned and \<open>SAR\<close> the signed floor quotient by
  \<open>2 ^ k\<close>, also for counts beyond the operand; the carry flag is the last bit shifted out, a zero
  count changes neither operand nor flags, and \<open>SAL\<close> is \<open>SHL\<close>.\<close>

theorem bsu_shift_correct:
  "list_all (\<lambda>(n, c, shl).
      let k = unat (y AND c); r = shl f x y; cf = odd (ux n x * 2 ^ k div 2 ^ n)
      in shift_result n f x k (ux n x * 2 ^ k mod 2 ^ n) cf (bit (fst r) (n - 1) \<noteq> cf) r)
     (zip widths (zip [31, 31, 31, 63] (kBsu ! BSU_SHL))) \<and>
   list_all (\<lambda>(n, c, shr).
      let k = unat (y AND c); r = shr f x y
      in shift_result n f x k (ux n x div 2 ^ k) (odd (ux n x div 2 ^ (k - 1))) (bit (fst r) (n - 2)) r)
     (zip widths (zip [31, 31, 31, 63] (kBsu ! BSU_SHR))) \<and>
   list_all (\<lambda>(n, c, sar).
      let k = unat (y AND c)
      in shift_result n f x k (sx n x div 2 ^ k mod 2 ^ n) (odd (sx n x div 2 ^ (k - 1))) False (sar f x y))
     (zip widths (zip [31, 31, 31, 63] (kBsu ! BSU_SAR))) \<and>
   kBsu ! BSU_SAL = kBsu ! BSU_SHL"
  using shl_ref_result [where 'a = 8] shl_ref_result [where 'a = 16]
    shl_ref_result [where 'a = 32] shl_ref_result [where 'a = 64]
    shr_ref_result [where 'a = 8] shr_ref_result [where 'a = 16]
    shr_ref_result [where 'a = 32] shr_ref_result [where 'a = 64]
    sar_ref_result [where 'a = 8] sar_ref_result [where 'a = 16]
    sar_ref_result [where 'a = 32] sar_ref_result [where 'a = 64]
  by (simp add: kBsu_def Let_def Shl_ref Shr_ref Sar_ref)

section \<open>Rotations at the four widths\<close>

definition rotate_result :: "nat \<Rightarrow> u32 \<Rightarrow> u64 \<Rightarrow> nat \<Rightarrow> (nat \<Rightarrow> nat) \<Rightarrow> bool \<Rightarrow> bool \<Rightarrow> u64 \<times> u32 \<Rightarrow> bool" where
  "rotate_result n f x k src cf ov r \<longleftrightarrow>
     (if k = 0 then r = (take_bit n x, f)
      else list_all (\<lambda>i. bit (fst r) i = (i < n \<and> bit x (src i))) [0..<64] \<and>
        list_all (\<lambda>b. GetFlag (snd r) b =
          (if b = FLAGS_CF then cf else if b = FLAGS_OF then ov else GetFlag f b)) [0..<24])"

lemma GetFlag_RotateFlags:
  "b < 24 \<Longrightarrow> GetFlag (snd (RotateFlags m x (of_bool cf) (of_bool ov))) b =
    (if b = FLAGS_CF then cf else if b = FLAGS_OF then ov else GetFlag m b)"
proof (cases "b = FLAGS_PF")
  case True
  have "to_u8 (shr (snd (RotateFlags m x (of_bool cf) (of_bool ov))) 24) = to_u8 (shr m 24)"
    by (rule bit_word_eqI) (simp add: bit_unsigned_iff bit_drop_bit_eq bit_RotateFlags)
  then show ?thesis using True by (simp add: GetFlag_PF)
qed (simp add: GetFlag_bit bit_RotateFlags)

lemma rotate_resultI:
  fixes z :: "'a::len word" and x :: u64
  assumes "n = LENGTH('a)" "n \<le> 64" "\<And>i. i < n \<Longrightarrow> bit z i = bit x (src i)" "k \<noteq> 0"
  shows "rotate_result n f x k src cf ov (RotateFlags f (to_u64 z) (of_bool cf) (of_bool ov))"
  using assms by (auto simp: rotate_result_def list_all_iff bit_unsigned_iff GetFlag_RotateFlags dest: bit_imp_le_length)


text \<open>Reference rotations of a word of any width, by any count.\<close>

definition rol_ref :: "u32 \<Rightarrow> 'a::len word \<Rightarrow> nat \<Rightarrow> u64 \<times> u32" where
  "rol_ref f a k =
     (let z = word_rotl k a
      in if k = 0 then (to_u64 a, f)
         else RotateFlags f (to_u64 z) (of_bool (bit z 0)) (of_bool (bit z (LENGTH('a) - 1) \<noteq> bit z 0)))"

definition ror_ref :: "u32 \<Rightarrow> 'a::len word \<Rightarrow> nat \<Rightarrow> u64 \<times> u32" where
  "ror_ref f a k =
     (let z = word_rotr k a
      in if k = 0 then (to_u64 a, f)
         else RotateFlags f (to_u64 z) (of_bool (bit z (LENGTH('a) - 1)))
                (of_bool (bit z (LENGTH('a) - 1) \<noteq> bit z (LENGTH('a) - 2))))"

lemma rotate_mod:
  fixes a :: "'a::len word"
  shows "word_rotl (k mod LENGTH('a)) a = word_rotl k a" "word_rotr (k mod LENGTH('a)) a = word_rotr k a"
  by (intro bit_word_eqI; simp add: bit_word_rotl_iff bit_word_rotr_iff mod_simps)+

lemma rotate_shifts_mod:
  fixes a :: "'a::len word"
  assumes "j = k mod LENGTH('a)" "L = LENGTH('a)"
  shows "(if j \<noteq> 0 then shl a j OR shr a (L - j) else a) = word_rotl k a"
    and "(if j \<noteq> 0 then shr a j OR shl a (L - j) else a) = word_rotr k a"
  using rotl_shifts [of j a] rotr_shifts [of j a] assms rotate_mod [of k a]
  by (auto intro!: bit_word_eqI simp: bit_word_rotl_iff bit_word_rotr_iff)

lemma rotate_flag_bits:
  fixes z :: "'a::len word"
  assumes "p = LENGTH('a) - 1"
  shows "to_u32 (z AND 1) = of_bool (bit z 0)"
    and "to_u32 (shr z p) = of_bool (bit z (LENGTH('a) - 1))"
    and "to_u32 ((shr z p XOR z) AND 1) = of_bool (bit z (LENGTH('a) - 1) \<noteq> bit z 0)"
    and "to_u32 ((shr z p XOR shr z q) AND 1) = of_bool (bit z (LENGTH('a) - 1) \<noteq> bit z q)"
  unfolding and_one_of_bool [where 'a = 'a] ucast_of_bool bit_xor_iff bit_drop_bit_eq assms
  by (simp_all add: shr_top ucast_of_bool)

lemma rol_ref_copy:
  fixes a :: "'a::len word"
  assumes "j = k mod LENGTH('a)" "L = LENGTH('a)" "p = LENGTH('a) - 1"
  defines "z \<equiv> if j \<noteq> 0 then shl a j OR shr a (L - j) else a"
  shows "(if k \<noteq> 0 then RotateFlags f (to_u64 z) (to_u32 (z AND 1)) (to_u32 ((shr z p XOR z) AND 1))
    else (to_u64 a, f)) = rol_ref f a k"
  unfolding z_def rotate_shifts_mod [OF assms(1,2)] rotate_flag_bits(3,4) [OF assms(3)]
  unfolding rotate_flag_bits(1,2) [OF assms(3)] rol_ref_def Let_def
  by simp

lemma ror_ref_copy:
  fixes a :: "'a::len word"
  assumes "j = k mod LENGTH('a)" "L = LENGTH('a)" "p = LENGTH('a) - 1" "q = LENGTH('a) - 2"
  defines "z \<equiv> if j \<noteq> 0 then shr a j OR shl a (L - j) else a"
  shows "(if k \<noteq> 0 then RotateFlags f (to_u64 z) (to_u32 (shr z p)) (to_u32 ((shr z p XOR shr z q) AND 1))
    else (to_u64 a, f)) = ror_ref f a k"
  unfolding z_def rotate_shifts_mod [OF assms(1,2)] rotate_flag_bits(3,4) [OF assms(3)]
  unfolding rotate_flag_bits(1,2) [OF assms(3)] ror_ref_def Let_def
    assms(4)
  by simp

lemma rol_ref_full:
  fixes a :: "'a::len word"
  assumes "k < LENGTH('a)" "L = LENGTH('a)" "p = LENGTH('a) - 1"
  defines "z \<equiv> shl a k OR shr a (L - k)"
  shows "(if k \<noteq> 0 then RotateFlags f (to_u64 z) (to_u32 (z AND 1)) (to_u32 ((shr z p XOR z) AND 1))
    else (to_u64 a, f)) = rol_ref f a k"
  using rol_ref_copy [where j = k and k = k and L = L and p = p and a = a and f = f] assms(1-3) by (simp add: z_def split del: if_split cong: if_cong)

lemma ror_ref_full:
  fixes a :: "'a::len word"
  assumes "k < LENGTH('a)" "L = LENGTH('a)" "p = LENGTH('a) - 1" "q = LENGTH('a) - 2"
  defines "z \<equiv> shr a k OR shl a (L - k)"
  shows "(if k \<noteq> 0 then RotateFlags f (to_u64 z) (to_u32 (shr z p)) (to_u32 ((shr z p XOR shr z q) AND 1))
    else (to_u64 a, f)) = ror_ref f a k"
  using ror_ref_copy [where j = k and k = k and L = L and p = p and q = q and a = a and f = f] assms(1-4) by (simp add: z_def split del: if_split cong: if_cong)

lemma rol_ref_result:
  fixes x :: u64 and f :: u32 and k :: nat
  assumes n: "n = LENGTH('a::len)" "n \<le> 64"
  defines "r \<equiv> rol_ref f (ucast x :: 'a word) k"
  shows "rotate_result n f x k (\<lambda>i. (i + n - k mod n) mod n)
    (bit (fst r) 0) (bit (fst r) (n - 1) \<noteq> bit (fst r) 0) r"
proof (cases "k = 0")
  case True
  then show ?thesis using narrow_copy [OF n, of x] by (simp add: rotate_result_def r_def rol_ref_def)
next
  case False
  let ?z = "word_rotl k (ucast x :: 'a word)"
  have b: "bit (to_u64 ?z) i = bit ?z i" if "i < n" for i
    using n that by (simp add: bit_unsigned_iff)
  have "rotate_result n f x k (\<lambda>i. (i + n - k mod n) mod n) (bit ?z 0) (bit ?z (n - 1) \<noteq> bit ?z 0)
    (RotateFlags f (to_u64 ?z) (of_bool (bit ?z 0)) (of_bool (bit ?z (n - 1) \<noteq> bit ?z 0)))"
    using n False by (intro rotate_resultI) (simp_all add: bit_word_rotl_iff bit_unsigned_iff)
  then show ?thesis
    using False b [of 0] b [of "n - 1"] n by (simp add: r_def rol_ref_def Let_def)
qed

lemma ror_ref_result:
  fixes x :: u64 and f :: u32 and k :: nat
  assumes n: "n = LENGTH('a::len)" "n \<le> 64" "2 \<le> n"
  defines "r \<equiv> ror_ref f (ucast x :: 'a word) k"
  shows "rotate_result n f x k (\<lambda>i. (i + k) mod n)
    (bit (fst r) (n - 1)) (bit (fst r) (n - 1) \<noteq> bit (fst r) (n - 2)) r"
proof (cases "k = 0")
  case True
  then show ?thesis using narrow_copy [OF n(1,2), of x] by (simp add: rotate_result_def r_def ror_ref_def)
next
  case False
  let ?z = "word_rotr k (ucast x :: 'a word)"
  have b: "bit (to_u64 ?z) i = bit ?z i" if "i < n" for i
    using n that by (simp add: bit_unsigned_iff)
  have "rotate_result n f x k (\<lambda>i. (i + k) mod n) (bit ?z (n - 1)) (bit ?z (n - 1) \<noteq> bit ?z (n - 2))
    (RotateFlags f (to_u64 ?z) (of_bool (bit ?z (n - 1))) (of_bool (bit ?z (n - 1) \<noteq> bit ?z (n - 2))))"
    using n False by (intro rotate_resultI) (simp_all add: bit_word_rotr_iff bit_unsigned_iff)
  then show ?thesis
    using False b [of "n - 2"] b [of "n - 1"] n by (simp add: r_def ror_ref_def Let_def)
qed

lemma low_counts:
  "unat (y AND 7) = unat (y AND 31) mod 8" "unat (y AND 15) = unat (y AND 31) mod 16"
  "unat (y AND 31) = unat (y AND 31) mod 32" "unat (y AND 63) = unat (y AND 63) mod 64" for y :: u64
proof -
  have m: "y AND mask i = take_bit i y" for i by (simp add: take_bit_eq_mask)
  have "(7 :: u64) = mask 3" "(15 :: u64) = mask 4" "(31 :: u64) = mask 5" "(63 :: u64) = mask 6"
    by (simp_all add: mask_numeral)
  then have a: "y AND 7 = take_bit 3 y" "y AND 15 = take_bit 4 y" "y AND 31 = take_bit 5 y" "y AND 63 = take_bit 6 y"
    by (simp_all only: m)
  have u: "unat (take_bit i y) = unat y mod 2 ^ i" for i
    by (simp only: unsigned_take_bit_eq take_bit_eq_mod [where 'a = nat])
  show "unat (y AND 7) = unat (y AND 31) mod 8" "unat (y AND 15) = unat (y AND 31) mod 16"
    "unat (y AND 31) = unat (y AND 31) mod 32" "unat (y AND 63) = unat (y AND 63) mod 64"
    unfolding a u by (simp_all add: mod_mod_cancel)
qed


lemma Rol_ref:
  "Rol8 f x y = rol_ref f (to_u8 x) (unat (y AND 31))"
  "Rol16 f x y = rol_ref f (to_u16 x) (unat (y AND 31))"
  "Rol32 f x y = rol_ref f (to_u32 x) (unat (y AND 31))"
  "Rol64 f x y = rol_ref f x (unat (y AND 63))"
  unfolding Rol8_def Rol16_def Rol32_def Rol64_def Let_def unat_nz low_counts(1,2) ucast_id
  by (rule rol_ref_copy [where 'a = 8] rol_ref_copy [where 'a = 16]
      rol_ref_full [where 'a = 32, unfolded ucast_id] rol_ref_full [where 'a = 64, unfolded ucast_id];
      use count_31 [of y] count_63 [of y] in simp)+

lemma Ror_ref:
  "Ror8 f x y = ror_ref f (to_u8 x) (unat (y AND 31))"
  "Ror16 f x y = ror_ref f (to_u16 x) (unat (y AND 31))"
  "Ror32 f x y = ror_ref f (to_u32 x) (unat (y AND 31))"
  "Ror64 f x y = ror_ref f x (unat (y AND 63))"
  unfolding Ror8_def Ror16_def Ror32_def Ror64_def Let_def unat_nz low_counts(1,2) ucast_id
  by (rule ror_ref_copy [where 'a = 8] ror_ref_copy [where 'a = 16]
      ror_ref_full [where 'a = 32, unfolded ucast_id] ror_ref_full [where 'a = 64, unfolded ucast_id];
      use count_31 [of y] count_63 [of y] in simp)+

text \<open>C5: Rotations are rotations of the operand's \<open>n\<close> bits by the masked count modulo \<open>n\<close>:
  \<open>ROL\<close> moves bit \<open>i\<close> up, \<open>ROR\<close> down, cyclically; the carry flag is the bit that wrapped last, the
  overflow flag compares the top bit with it (or with its neighbour), a zero masked count changes
  nothing, and no other flag changes.\<close>

theorem bsu_rotate_correct:
  "list_all (\<lambda>(n, c, rol).
      let k = unat (y AND c); r = rol f x y
      in rotate_result n f x k (\<lambda>i. (i + n - k mod n) mod n)
           (bit (fst r) 0) (bit (fst r) (n - 1) \<noteq> bit (fst r) 0) r)
     (zip widths (zip [31, 31, 31, 63] (kBsu ! BSU_ROL))) \<and>
   list_all (\<lambda>(n, c, ror).
      let k = unat (y AND c); r = ror f x y
      in rotate_result n f x k (\<lambda>i. (i + k) mod n)
           (bit (fst r) (n - 1)) (bit (fst r) (n - 1) \<noteq> bit (fst r) (n - 2)) r)
     (zip widths (zip [31, 31, 31, 63] (kBsu ! BSU_ROR)))"
  using rol_ref_result [where 'a = 8] rol_ref_result [where 'a = 16]
    rol_ref_result [where 'a = 32] rol_ref_result [where 'a = 64]
    ror_ref_result [where 'a = 8] ror_ref_result [where 'a = 16]
    ror_ref_result [where 'a = 32] ror_ref_result [where 'a = 64]
  by (simp add: kBsu_def Let_def Rol_ref Ror_ref)

text \<open>C6: A rotation through carry rotates the \<open>n + 1\<close> bits made of the operand and the carry flag:
  with the masked count modulo \<open>n + 1\<close>, \<open>RCL\<close> moves them up and \<open>RCR\<close> down, cyclically, at every
  width, and rotating back by the same count restores both the operand and the carry.\<close>

theorem bsu_rotate_carry_correct:
  "list_all (\<lambda>(n, c, rcl, rcr).
      let k = unat (y AND c) mod (n + 1)
      in carry_rotated n (\<lambda>i. (i + (n + 1) - k) mod (n + 1)) (rcl f x y) (x, f) \<and>
         carry_rotated n (\<lambda>i. (i + k) mod (n + 1)) (rcr f x y) (x, f) \<and>
         carry_rotated n (\<lambda>i. i) (rcr (snd (rcl f x y)) (fst (rcl f x y)) y) (x, f))
     (zip widths (zip [31, 31, 31, 63] (zip (kBsu ! BSU_RCL) (kBsu ! BSU_RCR))))"
proof -
  have u: "unat (to_u32 y AND 31) = unat (y AND 31)"
  proof -
    have "to_u32 y AND mask 5 = to_u32 (y AND mask 5)" by (rule bit_word_eqI) (auto simp: bit_simps)
    then have "to_u32 y AND 31 = to_u32 (y AND 31)" by (simp add: mask_numeral)
    then show ?thesis by (simp add: unsigned_ucast_eq take_bit_nat_eq_self count_31 [THEN less_trans])
  qed
  have b: "(\<forall>i \<le> n. carry_ext n (Rcl f x k (mask n) n) i = carry_ext n (x, f) ((i + (n + 1) - k) mod (n + 1))) \<and>
         (\<forall>i \<le> n. carry_ext n (Rcr f x k (mask n) n) i = carry_ext n (x, f) ((i + k) mod (n + 1))) \<and>
         (\<forall>i \<le> n. carry_ext n (Rcr (snd (Rcl f x k (mask n) n)) (fst (Rcl f x k (mask n) n)) k (mask n) n) i
            = carry_ext n (x, f) i)" if "0 < n" "n \<le> 64" "k \<le> n" for n k
  proof (intro conjI allI impI)
    fix i assume "i \<le> n"
    then show "carry_ext n (Rcl f x k (mask n) n) i = carry_ext n (x, f) ((i + (n + 1) - k) mod (n + 1))"
      and "carry_ext n (Rcr f x k (mask n) n) i = carry_ext n (x, f) ((i + k) mod (n + 1))"
      using that Rcl_carry_ext Rcr_carry_ext by simp_all
    have m: "(i + k) mod (n + 1) \<le> n" by (simp add: less_Suc_eq_le [symmetric])
    have "((i + k) mod (n + 1) + (n + 1) - k) mod (n + 1) = i"
      using that \<open>i \<le> n\<close> by (auto simp: mod_if)
    then show "carry_ext n (Rcr (snd (Rcl f x k (mask n) n)) (fst (Rcl f x k (mask n) n)) k (mask n) n) i
            = carry_ext n (x, f) i"
      using that \<open>i \<le> n\<close> m
      by (simp only: Rcr_carry_ext Rcl_carry_ext prod.collapse)
  qed
  have m: "(0xff :: u64) = mask 8" "(0xffff :: u64) = mask 16" "(0xffffffff :: u64) = mask 32"
    "(0xffffffffffffffff :: u64) = mask 64" by (simp_all add: mask_numeral)
  have c: "unat (y AND 31) = unat (y AND 31) mod (32 + 1)" "unat (y AND 63) = unat (y AND 63) mod (64 + 1)"
    using count_31 [of y] count_63 [of y] by simp_all
  have r: "Rcl8 g v y = Rcl g v (unat (y AND 31) mod (8 + 1)) (mask 8) 8"
    "Rcl16 g v y = Rcl g v (unat (y AND 31) mod (16 + 1)) (mask 16) 16"
    "Rcl32 g v y = Rcl g v (unat (y AND 31) mod (32 + 1)) (mask 32) 32"
    "Rcl64 g v y = Rcl g v (unat (y AND 63) mod (64 + 1)) (mask 64) 64"
    "Rcr8 g v y = Rcr g v (unat (y AND 31) mod (8 + 1)) (mask 8) 8"
    "Rcr16 g v y = Rcr g v (unat (y AND 31) mod (16 + 1)) (mask 16) 16"
    "Rcr32 g v y = Rcr g v (unat (y AND 31) mod (32 + 1)) (mask 32) 32"
    "Rcr64 g v y = Rcr g v (unat (y AND 63) mod (64 + 1)) (mask 64) 64" for g v
    unfolding c [symmetric]
    by (simp_all only: Rcl8_def Rcl16_def Rcl32_def Rcl64_def Rcr8_def Rcr16_def Rcr32_def Rcr64_def m u)
      simp_all
  have le: "j mod (n + 1) \<le> n" for j n :: nat by (simp add: less_Suc_eq_le [symmetric])
  show ?thesis
    using b [of 8, OF _ _ le] b [of 16, OF _ _ le] b [of 32, OF _ _ le] b [of 64, OF _ _ le]
    by (simp add: kBsu_def Let_def r add.commute carry_rotated_def list_all_iff less_Suc_eq_le
        del: upt_Suc)
qed

section \<open>Double shifts\<close>

lemma double_shift_bits:
  fixes x y :: u64
  assumes "0 < k" "k \<le> n" "n \<le> 64" and y: "y = take_bit n y"
  shows "uint ((shl (x AND mask n) k OR shr y (n - k)) AND mask n) =
      (ux n x * 2 ^ n + ux n y) * 2 ^ k div 2 ^ n mod 2 ^ n"
    and "uint ((shr (x AND mask n) k OR shl y (n - k)) AND mask n) =
      (ux n y * 2 ^ n + ux n x) div 2 ^ k mod 2 ^ n"
proof -
  have c: "ux n a * 2 ^ n + ux n b = concat_bit n (uint b) (ux n a)" for a b
    by (simp add: concat_bit_eq ux_def take_bit_eq_mod push_bit_eq_mult)
  have b: "bit (ux n a) i \<longleftrightarrow> i < n \<and> bit a i" for a i
    using assms by (auto simp: ux_def take_bit_eq_mod [symmetric] bit_take_bit_iff bit_uint_iff dest: bit_imp_le_length)
  have yb: "bit y i \<longleftrightarrow> i < n \<and> bit y i" for i
    by (subst y, subst bit_take_bit_iff) simp
  have l: "bit ((shl (x AND mask n) k OR shr y (n - k)) AND mask n) i \<longleftrightarrow>
      i < n \<and> (if k \<le> i then bit x (i - k) else bit y (n + i - k))" for i
  proof (cases "k \<le> i")
    case True
    then show ?thesis using assms(1-3) yb [of "n - k + i"] by (auto simp: bit_simps)
  next
    case False
    then have "n - k + i = n + i - k" using assms(2) by simp
    then show ?thesis using False assms(1-3) by (auto simp: bit_simps)
  qed
  have r: "bit ((shr (x AND mask n) k OR shl y (n - k)) AND mask n) i \<longleftrightarrow>
      i < n \<and> (if i + k < n then bit x (i + k) else bit y (i + k - n))" for i
  proof (cases "i + k < n")
    case True
    then show ?thesis using assms(1-3) by (auto simp: bit_simps add.commute)
  next
    case False
    then have "i - (n - k) = i + k - n" using assms(2) by simp
    then show ?thesis using False assms(1-3) by (auto simp: bit_simps)
  qed
  show "uint ((shl (x AND mask n) k OR shr y (n - k)) AND mask n) =
      (ux n x * 2 ^ n + ux n y) * 2 ^ k div 2 ^ n mod 2 ^ n"
    unfolding c unfolding push_bit_eq_mult [symmetric] drop_bit_eq_div [symmetric] take_bit_eq_mod [symmetric]
  proof (rule bit_eqI)
    fix i
    show "bit (uint ((shl (x AND mask n) k OR shr y (n - k)) AND mask n)) i =
      bit (take_bit n (drop_bit n (push_bit k (concat_bit n (uint y) (ux n x))))) i"
      unfolding bit_uint_iff l bit_take_bit_iff bit_drop_bit_eq comp_apply bit_push_bit_iff
        bit_concat_bit_iff b 
      using assms(1-3) bit_imp_le_length [of y]
      by (cases "i < n"; cases "k \<le> i") auto
  qed
  show "uint ((shr (x AND mask n) k OR shl y (n - k)) AND mask n) =
      (ux n y * 2 ^ n + ux n x) div 2 ^ k mod 2 ^ n"
    unfolding c unfolding push_bit_eq_mult [symmetric] drop_bit_eq_div [symmetric] take_bit_eq_mod [symmetric]
  proof (rule bit_eqI)
    fix i
    show "bit (uint ((shr (x AND mask n) k OR shl y (n - k)) AND mask n)) i =
      bit (take_bit n (drop_bit k (concat_bit n (uint x) (ux n y)))) i"
      unfolding bit_uint_iff r bit_take_bit_iff bit_drop_bit_eq comp_apply bit_push_bit_iff
        bit_concat_bit_iff b 
      using assms(1-3) bit_imp_le_length [of x]
      by (cases "i < n"; cases "i + k < n") (auto simp: add.commute)
  qed
qed

lemma and_top_bit: "z AND shl 1 j \<noteq> 0 \<longleftrightarrow> bit z j" if "j < LENGTH('a)" for z :: "'a::len word"
  using that unfolding bit_eq_iff [where 'a = "'a word"] bit_and_iff bit_shl_one by auto

lemma and_top_bit_eq: "z AND shl 1 j \<noteq> v AND shl 1 j \<longleftrightarrow> bit z j \<noteq> bit v j" if "j < LENGTH('a)"
  for z v :: "'a::len word"
  using that unfolding bit_eq_iff [where 'a = "'a word"] bit_and_iff bit_shl_one by auto

definition double_result :: "nat \<Rightarrow> u32 \<Rightarrow> u64 \<Rightarrow> u64 \<Rightarrow> nat \<Rightarrow> bool \<Rightarrow> u64 \<times> u32 \<Rightarrow> bool" where
  "double_result n f x y k isright r \<longleftrightarrow>
     (let ov = (k = 1 \<and> bit (fst r) (n - 1) \<noteq> bit x (n - 1))
      in if isright
         then shift_result n f x k ((ux n y * 2 ^ n + ux n x) div 2 ^ k mod 2 ^ n)
                (odd (ux n x div 2 ^ (k - 1))) ov r
         else shift_result n f x k ((ux n x * 2 ^ n + ux n y) * 2 ^ k div 2 ^ n mod 2 ^ n)
                (odd (ux n x * 2 ^ k div 2 ^ n)) ov r)"

lemma double_result_core:
  fixes x y z :: u64
  assumes k: "0 < k" "k \<le> n" "n \<le> 64" and y: "y = take_bit n y"
    and z: "z = (if isright then shr (x AND mask n) k OR shl y (n - k) else shl (x AND mask n) k OR shr y (n - k))"
    and c: "c = (if isright then shr (x AND mask n) (k - 1) else shr (x AND mask n) (n - k))"
    and s: "s = shl 1 (n - 1)"
  shows "double_result n f x y k isright
    (AluFlags f (z AND mask n) 0 (of_bool (k = 1 \<and> z AND s \<noteq> (x AND mask n) AND s))
      (of_bool (c AND 1 \<noteq> 0)) (of_bool ((z AND mask n) AND s \<noteq> 0)))"
proof -
  let ?r = "z AND mask n"
  have b: "bit (ux n a) i \<longleftrightarrow> i < n \<and> bit a i" for a i
    using k by (auto simp: ux_def take_bit_eq_mod [symmetric] bit_take_bit_iff bit_uint_iff dest: bit_imp_le_length)
  have o: "bit ?r (n - 1) \<longleftrightarrow> bit z (n - 1)" using k bit_imp_le_length [of z "n - 1"] by (auto simp: bit_simps)
  have v: "(z AND s \<noteq> (x AND mask n) AND s) = (bit ?r (n - 1) \<noteq> bit x (n - 1))"
    unfolding s o using k and_top_bit_eq [where 'a = 64, of "n - 1" z "x AND mask n"] by (simp add: bit_simps)
  have t: "((z AND mask n) AND s \<noteq> 0) = bit ?r (n - 1)"
    unfolding s using k and_top_bit [where 'a = 64, of "n - 1"] by simp
  have cf: "(c AND 1 \<noteq> 0) = (if isright then odd (ux n x div 2 ^ (k - 1)) else odd (ux n x * 2 ^ k div 2 ^ n))"
    unfolding c and_one_bit bit_iff_odd [symmetric] push_bit_eq_mult [symmetric] bit_push_bit_iff b
    using k by (auto simp: bit_simps b)
  have u: "uint ?r = (if isright then (ux n y * 2 ^ n + ux n x) div 2 ^ k mod 2 ^ n
      else (ux n x * 2 ^ n + ux n y) * 2 ^ k div 2 ^ n mod 2 ^ n)"
    unfolding z using double_shift_bits [OF k y] by simp
  have "flags_result n f (snd (AluFlags f ?r (of_bool False) (of_bool (k = 1 \<and> bit ?r (n - 1) \<noteq> bit x (n - 1)))
      (of_bool (c AND 1 \<noteq> 0)) (of_bool (bit ?r (n - 1)))))
    ?r (c AND 1 \<noteq> 0) (k = 1 \<and> bit ?r (n - 1) \<noteq> bit x (n - 1)) False"
    by (rule flags_result_AluFlags) (rule refl)
  then show ?thesis
    using k u unfolding double_result_def Let_def shift_result_def v t cf fst_AluFlags
    by (cases isright) (simp_all del: of_bool_eq_iff)
qed

lemma count_byte:
  "(b AND 31 :: u8) = 0 \<longleftrightarrow> unat (b AND 31) = 0" "unat (b AND 31 :: u8) \<le> 31"
  "(b AND 63 :: u8) = 0 \<longleftrightarrow> unat (b AND 63) = 0" "unat (b AND 63 :: u8) \<le> 63"
proof -
  have m: "(31 :: u8) = mask 5" "(63 :: u8) = mask 6" by (simp_all add: mask_numeral)
  have "unat (take_bit i b) = unat b mod 2 ^ i" for i
    by (simp only: unsigned_take_bit_eq take_bit_eq_mod [where 'a = nat])
  then show "unat (b AND 31 :: u8) \<le> 31" "unat (b AND 63 :: u8) \<le> 63"
    unfolding m take_bit_eq_mask [symmetric] by (simp_all add: less_Suc_eq_le [symmetric])
qed (simp_all add: unat_eq_zero)

lemma unat_to_u64 [simp]:
  fixes w :: "'a::len word"
  assumes "LENGTH('a) \<le> 64"
  shows "unat (to_u64 w) = unat w"
  unfolding unat_eq_nat_uint uint_copy [OF assms] ..

lemma c_shift_some: "unat j < 64 \<Longrightarrow> c_shl64 x j = Some (shl x (unat j))" "unat j < 64 \<Longrightarrow> c_shr64 x j = Some (shr x (unat j))"
  by (simp_all add: c_shl64_def c_shr64_def word_less_nat_alt)

lemma c_shift_none: "64 \<le> unat j \<Longrightarrow> c_shl64 x j = None" "64 \<le> unat j \<Longrightarrow> c_shr64 x j = None"
  by (simp_all add: c_shl64_def c_shr64_def word_less_nat_alt)

lemma BsuDoubleShift_word:
  fixes w :: nat
  defines "n \<equiv> 8 * 2 ^ w"
  assumes w: "w \<in> {1, 2, 3}" and k: "k = unat (b AND (if w = 3 then 63 else 31))"
  shows "BsuDoubleShift f w x (take_bit n y) b isright =
    (if n < k then None
     else if k = 0 then Some (take_bit n x, f)
     else let z = (if isright then shr (x AND mask n) k OR shl (take_bit n y) (n - k)
                   else shl (x AND mask n) k OR shr (take_bit n y) (n - k));
              c = (if isright then shr (x AND mask n) (k - 1) else shr (x AND mask n) (n - k));
              s = shl 1 (n - 1)
          in Some (AluFlags f (z AND mask n) 0 (of_bool (k = 1 \<and> z AND s \<noteq> (x AND mask n) AND s))
      (of_bool (c AND 1 \<noteq> 0)) (of_bool ((z AND mask n) AND s \<noteq> 0))))"
proof -
  let ?b = "to_u64 (b AND (if w = 3 then 63 else 31))"
  have kb: "unat ?b = k" unfolding k by simp
  have k64: "k < 64" using count_byte(2,4) [of b] k by (auto split: if_splits)
  have n: "n \<le> 64" "1 < n" using w by (auto simp: n_def)
  have kn: "shl 8 w = (of_nat n :: u64)" using w by (auto simp: n_def)
  have M: "shl 1 (n - 1) OR (shl 1 (n - 1) - 1) = (mask n :: u64)"
    using w by (auto simp: n_def mask_numeral)
  have u: "unat (of_nat n - 1 :: u64) = n - 1" using w by (auto simp: n_def)
  have nz: "?b \<noteq> 0 \<longleftrightarrow> k \<noteq> 0" unfolding kb [symmetric] unat_nz ..
  have one: "?b = 1 \<longleftrightarrow> k = 1" unfolding kb [symmetric] by (metis unat_1 unsigned_word_eqI)
  have le: "?b \<le> of_nat n \<longleftrightarrow> k \<le> n" 
    using n unfolding word_le_nat_alt kb by (simp add: take_bit_nat_eq_self unsigned_of_nat)
  have d: "unat (of_nat n - ?b) = (if k \<le> n then n - k else n + 2 ^ 64 - k)"
    using n k64 unfolding unat_sub_if' kb by (simp add: take_bit_nat_eq_self unsigned_of_nat)
  have p: "0 < k \<Longrightarrow> unat (?b - 1) = k - 1"
    unfolding unat_sub_if' kb by simp
  have s: "c_shl64 a ?b = Some (shl a k)" "c_shr64 a ?b = Some (shr a k)"
    "0 < k \<Longrightarrow> c_shr64 a (?b - 1) = Some (shr a (k - 1))"
    "c_shl64 a (of_nat n - ?b) = (if k = 0 \<and> n = 64 \<or> n < k then None else Some (shl a (n - k)))"
    "c_shr64 a (of_nat n - ?b) = (if k = 0 \<and> n = 64 \<or> n < k then None else Some (shr a (n - k)))" for a
    using k64 n kb d p by (auto simp: c_shift_some c_shift_none)
  show ?thesis
    unfolding BsuDoubleShift_def Let_def kn u M nz one s
    using s(3) by (auto simp: take_bit_eq_mask)
qed


text \<open>C7: A double shift is a shift of the concatenation of its operands: for words, doublewords
  and quadwords (\<open>w = 1, 2, 3\<close>) of \<open>n\<close> bits and a masked count \<open>k \<le> n\<close>, \<open>SHLD\<close> gives the high and
  \<open>SHRD\<close> the low half of the shifted \<open>2 * n\<close> bits, with carry the last bit out of the
  destination, overflow a changed sign for a count of one, and a zero count changing nothing. The
  C code's shifts are defined exactly when \<open>k \<le> n\<close>: a word shifted by more than 16 is undefined
  behaviour (\<open>None\<close>).\<close>

theorem bsu_double_shift_correct:
  "list_all (\<lambda>w.
      let n = 8 * 2 ^ w; k = unat (b AND (if w = 3 then 63 else 31))
      in case BsuDoubleShift f w x (take_bit n y) b isright of
           None \<Rightarrow> n < k \<and> n = 16
         | Some r \<Rightarrow> k \<le> n \<and> double_result n f x y k isright r) [1, 2, 3]"
proof -
  have c: "case BsuDoubleShift f w x (take_bit n y) b isright of
           None \<Rightarrow> n < k \<and> n = 16
         | Some r \<Rightarrow> k \<le> n \<and> double_result n f x y k isright r"
    if w: "w \<in> {1, 2, 3}" and n: "n = 8 * 2 ^ w" and k: "k = unat (b AND (if w = 3 then 63 else 31))"
    for w n k
  proof -
    have u: "ux n (take_bit n y) = ux n y"
      by (auto simp: ux_def take_bit_eq_mod [symmetric] unsigned_take_bit_eq)
    have d: "double_result n f x (take_bit n y) k isright r = double_result n f x y k isright r" for r
      by (simp add: double_result_def u)
    have le: "n < k \<Longrightarrow> n = 16" "n \<le> 64"
      using w n k count_byte(2,4) [of b] by (auto split: if_splits)
    have z: "k = 0 \<Longrightarrow> double_result n f x y k isright (take_bit n x, f)"
      by (simp add: double_result_def shift_result_def)
    show ?thesis
      unfolding n BsuDoubleShift_word [OF w k] unfolding n [symmetric] Let_def
      using le z double_result_core [OF _ _ le(2), of k "take_bit n y" _ isright x _ _ f, unfolded d, OF _ _ _ refl refl refl]
      by auto
  qed
  show ?thesis
    unfolding list_all_iff Let_def by (intro ballI c) simp_all
qed

section \<open>Logic, negation, increment and decrement\<close>

lemma logic_flags_width:
  fixes v :: "'b::len word"
  assumes "n = LENGTH('b)" "n \<le> 64" "p = n - 1"
  shows "flags_result n f (snd (AluFlags f (to_u64 v) 0 0 0 (to_u32 (shr v p)))) (to_u64 v) False False False"
proof -
  have "to_u32 (shr v p) = of_bool (bit (to_u64 v) (n - 1))"
    using assms by (simp add: shr_top ucast_of_bool bit_unsigned_iff)
  then show ?thesis
    using flags_result_AluFlags [OF refl, of n f "to_u64 v" False False False] by simp
qed

lemma logic_flags:
  "flags_result 8 f (snd (AluFlags8 f a 0 0 0)) (to_u64 a) False False False"
  "flags_result 16 f (snd (AluFlags16 f b 0 0 0)) (to_u64 b) False False False"
  "flags_result 32 f (snd (AluFlags32 f c 0 0 0)) (to_u64 c) False False False"
  "flags_result 64 f (snd (AluFlags64 f d 0 0 0)) d False False False"
  unfolding alu_width_defs ucast_id
  by (rule logic_flags_width [where 'b = 8] logic_flags_width [where 'b = 16]
      logic_flags_width [where 'b = 32, unfolded ucast_id]
      logic_flags_width [where 'b = 64, unfolded ucast_id]; simp)+

lemma fst_width_flags [simp]:
  "fst (AluFlags8 f z8 a b c) = to_u64 z8" "fst (AluFlags16 f z16 a b c) = to_u64 z16"
  "fst (AluFlags32 f z32 a b c) = to_u64 z32" "fst (AluFlags64 f z64 a b c) = z64"
  by (simp_all add: alu_width_defs)

lemma low_bits:
  "to_u64 (to_u8 z) = take_bit 8 z" "to_u64 (to_u16 z) = take_bit 16 z"
  "to_u64 (to_u32 z) = take_bit 32 z" "take_bit 64 z = z" for z :: u64
  by (simp_all add: narrow_copy) (rule bit_word_eqI; simp add: bit_simps)

lemma logic_op:
  "fst (AluFlags8 f (to_u8 z) 0 0 0) = take_bit 8 z \<and>
    flags_result 8 f (snd (AluFlags8 f (to_u8 z) 0 0 0)) (take_bit 8 z) False False False"
  "fst (AluFlags16 f (to_u16 z) 0 0 0) = take_bit 16 z \<and>
    flags_result 16 f (snd (AluFlags16 f (to_u16 z) 0 0 0)) (take_bit 16 z) False False False"
  "fst (AluFlags32 f (to_u32 z) 0 0 0) = take_bit 32 z \<and>
    flags_result 32 f (snd (AluFlags32 f (to_u32 z) 0 0 0)) (take_bit 32 z) False False False"
  "fst (AluFlags64 f z 0 0 0) = take_bit 64 z \<and>
    flags_result 64 f (snd (AluFlags64 f z 0 0 0)) (take_bit 64 z) False False False" for z :: u64
  unfolding fst_width_flags low_bits(1-3)
  by (simp_all only: logic_flags low_bits(1-3) [symmetric]) (simp_all only: low_bits logic_flags simp_thms)

text \<open>The logical operations act on the low \<open>n\<close> bits of their operands, clear carry, overflow and
  half carry, and set zero, sign and parity from the result; \<open>NOT\<close> complements the low \<open>n\<close> bits and
  changes no flag.\<close>

theorem alu_logic_correct:
  "list_all (\<lambda>(n, or', and', xor', not').
      list_all (\<lambda>(op, z). let r = op f x y
          in fst r = take_bit n z \<and> flags_result n f (snd r) (fst r) False False False)
        [(or', x OR y), (and', x AND y), (xor', x XOR y)] \<and>
      not' f x y = (take_bit n (NOT x), f))
     (zip widths (zip (kAlu ! ALU_OR) (zip (kAlu ! ALU_AND) (zip (kAlu ! ALU_XOR) (kAlu ! ALU_NOT)))))"
proof -
  have m: "NOT x AND 0xff = take_bit 8 (NOT x)" "NOT x AND 0xffff = take_bit 16 (NOT x)"
    "NOT x AND 0xffffffff = take_bit 32 (NOT x)"
    "NOT x AND 0xffffffffffffffff = take_bit 64 (NOT x)"
    by (simp_all add: take_bit_eq_mask mask_numeral)
  have rows: "kAlu ! ALU_OR = [Or8, Or16, Or32, Or64]" "kAlu ! ALU_AND = [And8, And16, And32, And64]"
    "kAlu ! ALU_XOR = [Xor8, Xor16, Xor32, Xor64]" "kAlu ! ALU_NOT = [Not8, Not16, Not32, Not64]"
    by (simp_all add: kAlu_def)
  show ?thesis
    by (simp only: rows zip_Cons_Cons zip_Nil list.pred_inject prod.case Let_def m logic_op simp_thms
        Or8_def Or16_def Or32_def Or64_def And8_def And16_def And32_def And64_def
        Xor8_def Xor16_def Xor32_def Xor64_def Not8_def Not16_def Not32_def Not64_def)
qed


lemma neg_result:
  fixes a z :: "'a::len word"
  assumes n: "n = LENGTH('a)" "4 \<le> n" "n \<le> 64" and p: "p = n - 1"
    and z: "z = NOT a + 1" and h: "h = shl 1 p"
  shows "arith_result n f (0 - uint a) (0 - sint a) (uint a \<noteq> 0)
    (AluFlags f (to_u64 z) (of_bool (a \<noteq> 0)) (of_bool (a = h)) (of_bool (a \<noteq> 0)) (to_u32 (shr z p)))"
proof (rule arith_resultI [OF n(1) n(3) p])
  have z: "z = - a" unfolding z by (simp add: minus_eq_not_plus_1)
  then show "uint z = (0 - uint a) mod 2 ^ n" using n(1) by (simp add: uint_word_ariths)
  show "(a \<noteq> 0) = (\<not> (0 \<le> 0 - uint a \<and> 0 - uint a < 2 ^ n))"
    using n(1) uint_ge_0 [of a] by (auto simp: uint_0_iff order_le_less_trans [of "- uint a" 0 "2 ^ n"] simp del: uint_ge_0)
  have "uint h = 2 ^ (n - 1)"
    unfolding h p unsigned_push_bit_eq push_bit_eq_mult [where 'a = int] take_bit_eq_mod n(1)
    by simp
  then have "a = h \<longleftrightarrow> uint a = 2 ^ (n - 1)" by (metis word_uint_eq_iff)
  then show "(a = h) = (\<not> (- (2 ^ (n - 1)) \<le> 0 - sint a \<and> 0 - sint a < 2 ^ (n - 1)))"
    using sint_cases [of a] two_halves [where 'a = 'a] uint_lt2p [of a] uint_ge_0 [of a]
    unfolding n(1) One_nat_def by (auto split: if_splits, (use uint_ge_0 [of a] in linarith)+)
  show "(a \<noteq> 0) = (uint a \<noteq> 0)" by (simp add: uint_0_iff)
qed

lemma Neg_result:
  "arith_result 8 f (0 - ux 8 x) (0 - sx 8 x) (ux 8 x \<noteq> 0) (Neg8 f x y)"
  "arith_result 16 f (0 - ux 16 x) (0 - sx 16 x) (ux 16 x \<noteq> 0) (Neg16 f x y)"
  "arith_result 32 f (0 - ux 32 x) (0 - sx 32 x) (ux 32 x \<noteq> 0) (Neg32 f x y)"
  "arith_result 64 f (0 - ux 64 x) (0 - sx 64 x) (ux 64 x \<noteq> 0) (Neg64 f x y)"
  unfolding Neg8_def Neg16_def Neg32_def Neg64_def Let_def alu_width_defs operand_reads
  by (rule neg_result [OF _ _ _ _ refl]; simp)+

lemma bump_result:
  fixes a z d :: "'a::len word"
  assumes n: "n = LENGTH('a)" "4 \<le> n" "n \<le> 64" and p: "p = n - 1"
  shows "z = a + 1 \<Longrightarrow> q = ((z XOR a) AND (z XOR 1)) \<Longrightarrow> 
      r = BumpFlags f (to_u64 z) (of_bool h) (to_u32 (shr q p)) (to_u32 (shr z p)) \<Longrightarrow>
      uint (fst r) = (uint a + 1) mod 2 ^ n \<and> flags_result n f (snd r) (fst r) (GetFlag f FLAGS_CF)
      (\<not> (- (2 ^ (n - 1)) \<le> sint a + 1 \<and> sint a + 1 < 2 ^ (n - 1))) h"
   and "z = a - 1 \<Longrightarrow> q = ((z XOR a) AND (a XOR 1)) \<Longrightarrow> 
      r = BumpFlags f (to_u64 z) (of_bool h) (to_u32 (shr q p)) (to_u32 (shr z p)) \<Longrightarrow>
      uint (fst r) = (uint a - 1) mod 2 ^ n \<and> flags_result n f (snd r) (fst r) (GetFlag f FLAGS_CF)
      (\<not> (- (2 ^ (n - 1)) \<le> sint a - 1 \<and> sint a - 1 < 2 ^ (n - 1))) h"
proof -
  have one: "sint (1 :: 'a word) = 1" "uint (1 :: 'a word) = 1" using n by auto
  have t: "to_u32 (shr w p) = of_bool (bit w (n - 1))" for w :: "'a word"
    using n p by (simp add: shr_top ucast_of_bool)
  have s: "of_bool (bit z (n - 1)) = of_bool (bit (to_u64 z) (n - 1))" for z :: "'a word"
    using n by (simp add: bit_unsigned_iff)
  note fr = flags_result_AluFlags [OF refl]
  show "uint (fst r) = (uint a + 1) mod 2 ^ n \<and> flags_result n f (snd r) (fst r) (GetFlag f FLAGS_CF)
      (\<not> (- (2 ^ (n - 1)) \<le> sint a + 1 \<and> sint a + 1 < 2 ^ (n - 1))) h"
    if z: "z = a + 1" and q: "q = ((z XOR a) AND (z XOR 1))" 
      and r: "r = BumpFlags f (to_u64 z) (of_bool h) (to_u32 (shr q p)) (to_u32 (shr z p))"
  proof -
    have u: "uint z = (uint a + 1) mod 2 ^ n" unfolding z using n one by (simp add: uint_word_ariths)
    have "bit q (n - 1) \<longleftrightarrow> \<not> (- (2 ^ (n - 1)) \<le> sint a + 1 \<and> sint a + 1 < 2 ^ (n - 1))"
      using signed_overflow_add [of z a 1 0] u n one unfolding q by simp
    then show ?thesis
      unfolding r BumpFlags_def carry_flag t s [of z] fst_AluFlags
      using fr [of n f "to_u64 z" h "bit q (n - 1)" "GetFlag f FLAGS_CF"] u n by (simp add: uint_copy)
  qed
  show "uint (fst r) = (uint a - 1) mod 2 ^ n \<and> flags_result n f (snd r) (fst r) (GetFlag f FLAGS_CF)
      (\<not> (- (2 ^ (n - 1)) \<le> sint a - 1 \<and> sint a - 1 < 2 ^ (n - 1))) h"
    if z: "z = a - 1" and q: "q = ((z XOR a) AND (a XOR 1))" 
      and r: "r = BumpFlags f (to_u64 z) (of_bool h) (to_u32 (shr q p)) (to_u32 (shr z p))"
  proof -
    have u: "uint z = (uint a - 1) mod 2 ^ n" unfolding z using n one by (simp add: uint_word_ariths)
    have "bit q (n - 1) \<longleftrightarrow> \<not> (- (2 ^ (n - 1)) \<le> sint a - 1 \<and> sint a - 1 < 2 ^ (n - 1))"
      using signed_overflow_sub [of z a 1 0] u n one unfolding q by simp
    then show ?thesis
      unfolding r BumpFlags_def carry_flag t s [of z] fst_AluFlags
      using fr [of n f "to_u64 z" h "bit q (n - 1)" "GetFlag f FLAGS_CF"] u n by (simp add: uint_copy)
  qed
qed


definition bump_result_spec :: "nat \<Rightarrow> u32 \<Rightarrow> int \<Rightarrow> int \<Rightarrow> bool \<Rightarrow> u64 \<times> u32 \<Rightarrow> bool" where
  "bump_result_spec n f U S h r \<longleftrightarrow>
     uint (fst r) = U mod 2 ^ n \<and>
     flags_result n f (snd r) (fst r) (GetFlag f FLAGS_CF)
       (\<not> (- (2 ^ (n - 1)) \<le> S \<and> S < 2 ^ (n - 1))) h"

lemma dec_nibble:
  fixes a :: "'a::len word"
  assumes "4 \<le> LENGTH('a)"
  shows "(uint a mod 16 < 1) = (a AND 15 < a - 1 AND 15)"
  using half_borrow_sub [OF assms, of a 1] assms by simp

lemma Dec_result:
  "bump_result_spec 8 f (ux 8 x - 1) (sx 8 x - 1) (ux 8 x mod 16 < 1) (Dec8 f x y)"
  "bump_result_spec 16 f (ux 16 x - 1) (sx 16 x - 1) (ux 16 x mod 16 < 1) (Dec16 f x y)"
  "bump_result_spec 32 f (ux 32 x - 1) (sx 32 x - 1) (ux 32 x mod 16 < 1) (Dec32 f x y)"
  "bump_result_spec 64 f (ux 64 x - 1) (sx 64 x - 1) (ux 64 x mod 16 < 1) (Dec64 f x y)"
  unfolding bump_result_spec_def Dec8_def Dec16_def Dec32_def Dec64_def Let_def operand_reads
    dec_nibble [where 'a = 8, simplified] dec_nibble [where 'a = 16, simplified]
    dec_nibble [where 'a = 32, simplified] dec_nibble [where 'a = 64, simplified]
  by (rule bump_result(2) [OF _ _ _ _ refl refl refl]; simp)+

lemma Inc_result:
  "bump_result_spec 8 f (ux 8 x + 1) (sx 8 x + 1) False (Inc8 f x 0)"
  "bump_result_spec 16 f (ux 16 x + 1) (sx 16 x + 1) False (Inc16 f x 0)"
  "bump_result_spec 32 f (ux 32 x + 1) (sx 32 x + 1) False (Inc32 f x 0)"
  "bump_result_spec 64 f (ux 64 x + 1) (sx 64 x + 1) False (Inc64 f x 0)"
proof -
  have h: "of_bool (z AND 15 < 0 AND 15) = (of_bool False :: u32)" for z :: u64 by simp
  show "bump_result_spec 8 f (ux 8 x + 1) (sx 8 x + 1) False (Inc8 f x 0)"
    "bump_result_spec 16 f (ux 16 x + 1) (sx 16 x + 1) False (Inc16 f x 0)"
    "bump_result_spec 32 f (ux 32 x + 1) (sx 32 x + 1) False (Inc32 f x 0)"
    "bump_result_spec 64 f (ux 64 x + 1) (sx 64 x + 1) False (Inc64 f x 0)"
    unfolding bump_result_spec_def Inc8_def Inc16_def Inc32_def Inc64_def Let_def operand_reads h
    by (rule bump_result(1) [OF _ _ _ _ refl refl refl]; simp)+
qed

text \<open>Negation is subtraction from zero, except that the code sets the half carry for every
  nonzero operand; increment and decrement add and subtract one modulo \<open>2 ^ n\<close>, keep the carry
  flag, and set overflow, zero, sign and parity as an addition or subtraction of one does. The
  half carry of a decrement is the borrow of the low nibble; an increment, which every caller
  invokes with a zero second operand, always clears it.\<close>

theorem alu_unary_correct:
  "list_all (\<lambda>(n, neg, inc, dec).
      arith_result n f (0 - ux n x) (0 - sx n x) (ux n x \<noteq> 0) (neg f x y) \<and>
      bump_result_spec n f (ux n x + 1) (sx n x + 1) False (inc f x 0) \<and>
      bump_result_spec n f (ux n x - 1) (sx n x - 1) (ux n x mod 16 < 1) (dec f x y))
     (zip widths (zip (kAlu ! ALU_NEG) (zip (kAlu ! ALU_INC) (kAlu ! ALU_DEC))))"
proof -
  have rows: "kAlu ! ALU_NEG = [Neg8, Neg16, Neg32, Neg64]" "kAlu ! ALU_INC = [Inc8, Inc16, Inc32, Inc64]"
    "kAlu ! ALU_DEC = [Dec8, Dec16, Dec32, Dec64]"
    by (simp_all add: kAlu_def)
  show ?thesis
    unfolding rows
    by (simp only: zip_Cons_Cons zip_Nil list.pred_inject prod.case Neg_result Inc_result Dec_result simp_thms)
qed


end
