(* ===== verification/AluCmp.thy ===== *)
theory AluCmp
  imports AluShift
begin

text \<open>
  What spans the flag word and the arithmetic unit: a compare leaves flags from which the branch
  conditions of \<^verbatim>\<open>flags.h\<close> read off the order of the operands, and the flag word survives
  its export to, and import from, the architectural representation.
\<close>

section \<open>Comparing and branching\<close>

lemma sx_range:
  assumes "0 < n"
  shows "- (2 ^ (n - 1)) \<le> sx n x" "sx n x < 2 ^ (n - 1)"
  using assms signed_take_bit_int_greater_eq_minus_exp [of "n - 1" "uint x"]
    signed_take_bit_int_less_exp [of "n - 1" "uint x"] by (simp_all add: sx_def)

lemma sx_ux_mod:
  assumes "0 < n"
  shows "(sx n x - sx n y) mod 2 ^ n = (ux n x - ux n y) mod 2 ^ n"
proof -
  have "sx n a mod 2 ^ n = uint a mod 2 ^ n" for a
    using assms take_bit_signed_take_bit [of n "n - 1" "uint a"]
    by (simp add: sx_def take_bit_eq_mod)
  then show ?thesis by (metis mod_diff_eq mod_mod_trivial ux_def)
qed

lemma sign_overflow_less:
  fixes S H :: int
  assumes "- (2 * H) < S" "S < 2 * H" "0 < H"
  shows "((H \<le> S mod (2 * H)) \<noteq> (\<not> (- H \<le> S \<and> S < H))) \<longleftrightarrow> S < 0"
proof (cases "0 \<le> S")
  case True
  then show ?thesis using assms by (auto simp: mod_pos_pos_trivial)
next
  case False
  then have "S mod (2 * H) = S + 2 * H"
    using assms mod_add_self2 [of S "2 * H"] mod_pos_pos_trivial [of "S + 2 * H" "2 * H"] by simp
  then show ?thesis using False assms by auto
qed

text \<open>What the flags of a compare of \<open>n\<close>-bit operands say to the branch conditions.\<close>

definition compare_conditions :: "nat \<Rightarrow> u64 \<Rightarrow> u64 \<Rightarrow> u32 \<Rightarrow> bool" where
  "compare_conditions n x y f \<longleftrightarrow>
     GetFlag f FLAGS_ZF = (ux n x = ux n y) \<and>
     GetFlag f FLAGS_CF = (ux n x < ux n y) \<and>
     IsBelowOrEqual f = (ux n x \<le> ux n y) \<and>
     IsAbove f = (ux n y < ux n x) \<and>
     IsLess f = (sx n x < sx n y) \<and>
     IsGreaterOrEqual f = (sx n y \<le> sx n x) \<and>
     IsLessOrEqual f = (sx n x \<le> sx n y) \<and>
     IsGreater f = (sx n y < sx n x)"

lemma bit_top_uint: "uint z = U mod 2 ^ n \<Longrightarrow> 0 < n \<Longrightarrow> n \<le> 64 \<Longrightarrow>
    bit z (n - 1) \<longleftrightarrow> 2 ^ (n - 1) \<le> U mod 2 ^ n" for z :: u64
proof -
  assume u: "uint z = U mod 2 ^ n" and n: "0 < n" "n \<le> 64"
  let ?H = "2 ^ (n - 1) :: int"
  have H: "2 ^ n = 2 * ?H" using n by (metis Suc_diff_1 power_Suc)
  have b: "0 \<le> U mod 2 ^ n" "U mod 2 ^ n < 2 * ?H" unfolding H by simp_all
  have "bit z (n - 1) = odd (U mod 2 ^ n div ?H)"
    using n bit_imp_le_length [of z "n - 1"] by (auto simp: u [symmetric] bit_iff_odd [symmetric] bit_uint_iff)
  also have "U mod 2 ^ n div ?H = (if ?H \<le> U mod 2 ^ n then 1 else 0)"
    using b by (auto intro!: div_pos_pos_trivial simp: div_eq_0_iff int_div_pos_eq [where q = 1 and r = "U mod 2 ^ n - ?H"])
  finally show "bit z (n - 1) \<longleftrightarrow> ?H \<le> U mod 2 ^ n" by (simp split: if_splits)
qed

lemma compare_conditionsI:
  assumes r: "arith_result n f (ux n x - ux n y) (sx n x - sx n y) h r" and n: "0 < n" "n \<le> 64"
  shows "compare_conditions n x y (snd r)"
proof -
  let ?H = "2 ^ (n - 1) :: int" let ?S = "sx n x - sx n y"
  have H: "2 ^ n = 2 * ?H" using n by (metis Suc_diff_1 power_Suc)
  have b: "0 \<le> ux n x" "ux n x < 2 ^ n" "0 \<le> ux n y" "ux n y < 2 ^ n" by (simp_all add: ux_def)
  have u: "uint (fst r) = (ux n x - ux n y) mod 2 ^ n"
    and cf: "GetFlag (snd r) FLAGS_CF = (\<not> (0 \<le> ux n x - ux n y \<and> ux n x - ux n y < 2 ^ n))"
    and ov: "GetFlag (snd r) FLAGS_OF = (\<not> (- ?H \<le> ?S \<and> ?S < ?H))"
    and zf: "GetFlag (snd r) FLAGS_ZF = (fst r = 0)" and sf: "GetFlag (snd r) FLAGS_SF = bit (fst r) (n - 1)"
    using r by (simp_all add: arith_result_def flags_result_def)
  have c: "GetFlag (snd r) FLAGS_CF = (ux n x < ux n y)" using cf b by auto
  have "fst r = 0 \<longleftrightarrow> (ux n x - ux n y) mod 2 ^ n = 0"
    using u by (simp add: uint_0_iff [symmetric])
  also have "\<dots> \<longleftrightarrow> ux n x = ux n y"
    using b by (metis mod_eq_0_iff_dvd mod_eq_dvd_iff mod_pos_pos_trivial)
  finally have z: "GetFlag (snd r) FLAGS_ZF = (ux n x = ux n y)" using zf by simp
  have "bit (fst r) (n - 1) \<longleftrightarrow> ?H \<le> ?S mod (2 * ?H)"
    using bit_top_uint [OF u n] sx_ux_mod [OF n(1)] H by simp
  then have l: "GetFlag (snd r) FLAGS_SF \<noteq> GetFlag (snd r) FLAGS_OF \<longleftrightarrow> sx n x < sx n y"
    using sign_overflow_less [of ?H ?S] sx_range [OF n(1), of x] sx_range [OF n(1), of y] sf ov by simp
  have e: "ux n x = ux n y \<longleftrightarrow> sx n x = sx n y"
  proof
    assume "ux n x = ux n y"
    then have "?S mod (2 * ?H) = 0" using sx_ux_mod [OF n(1), of x y] H by simp
    then have "(sx n x + ?H) mod (2 * ?H) = (sx n y + ?H) mod (2 * ?H)"
      by (simp add: mod_eq_dvd_iff mod_eq_0_iff_dvd)
    then show "sx n x = sx n y"
      using sx_range [OF n(1), of x] sx_range [OF n(1), of y] by (simp add: mod_pos_pos_trivial)
  next
    assume "sx n x = sx n y"
    then have "(ux n x - ux n y) mod 2 ^ n = 0" using sx_ux_mod [OF n(1), of x y] by simp
    then show "ux n x = ux n y"
      using z zf u by (simp add: uint_0_iff [symmetric])
  qed
  show ?thesis
    unfolding compare_conditions_def flag_simps c z using l e by auto
qed

text \<open>C3: A conditional branch after a compare decides the order of the operands: for every width
  \<open>n\<close>, after \<open>CMP\<close> of any two operands the zero flag says that their low \<open>n\<close> bits are equal, the
  carry flag, \<open>IsBelowOrEqual\<close> and \<open>IsAbove\<close> decide the unsigned order, and \<open>IsLess\<close>,
  \<open>IsGreaterOrEqual\<close>, \<open>IsLessOrEqual\<close> and \<open>IsGreater\<close> the signed order, also when the
  difference overflows.\<close>

theorem compare_branch_correct:
  "list_all (\<lambda>(n, cmp). compare_conditions n x y (snd (cmp f x y))) (zip widths (kAlu ! ALU_CMP))"
proof -
  have "kAlu ! ALU_CMP = [Sub8, Sub16, Sub32, Sub64]" by (simp add: kAlu_def)
  then show ?thesis
    by (simp add: compare_conditionsI [OF Sub_result(1)] compare_conditionsI [OF Sub_result(2)]
        compare_conditionsI [OF Sub_result(3)] compare_conditionsI [OF Sub_result(4)])
qed


end
