(* ===== verification/Endian.thy ===== *)
theory Endian
  imports Blink_Prelude
begin

text \<open>
  The little-endian accessors of \<^verbatim>\<open>endian.h\<close>, on a byte store: a function from addresses to
  bytes that stands for whatever the C pointers of a component point into (the vector register
  file, a page, an instruction buffer). The laws of the accessors are the interface \<open>lane\<close>, which
  the accessor of each width provides and the lane loops of the vector kernels rely on.
\<close>

type_synonym ram = "nat \<Rightarrow> u8"

section \<open>The accessors\<close>

definition Get8 :: "ram \<Rightarrow> nat \<Rightarrow> u8" where
  "Get8 s p = s p"

definition Get16 :: "ram \<Rightarrow> nat \<Rightarrow> u16" where
  "Get16 s p = shl (to_u16 (s (p + 1))) 8 OR to_u16 (s p)"

definition Get32 :: "ram \<Rightarrow> nat \<Rightarrow> u32" where
  "Get32 s p =
     shl (to_u32 (s p)) 0 OR shl (to_u32 (s (p + 1))) 8 OR
     shl (to_u32 (s (p + 2))) 16 OR shl (to_u32 (s (p + 3))) 24"

definition Get64 :: "ram \<Rightarrow> nat \<Rightarrow> u64" where
  "Get64 s p =
     shl (to_u64 (s p)) 0 OR shl (to_u64 (s (p + 1))) 8 OR
     shl (to_u64 (s (p + 2))) 16 OR shl (to_u64 (s (p + 3))) 24 OR
     shl (to_u64 (s (p + 4))) 32 OR shl (to_u64 (s (p + 5))) 40 OR
     shl (to_u64 (s (p + 6))) 48 OR shl (to_u64 (s (p + 7))) 56"

definition Put8 :: "nat \<Rightarrow> u8 \<Rightarrow> ram \<Rightarrow> ram" where
  "Put8 p v s = s(p := v)"

definition Put16 :: "nat \<Rightarrow> u16 \<Rightarrow> ram \<Rightarrow> ram" where
  "Put16 p v s = s(p := to_u8 v, p + 1 := to_u8 (shr v 8))"

definition Put32 :: "nat \<Rightarrow> u32 \<Rightarrow> ram \<Rightarrow> ram" where
  "Put32 p v s =
     s(p := to_u8 v, p + 1 := to_u8 (shr v 8), p + 2 := to_u8 (shr v 16),
       p + 3 := to_u8 (shr v 24))"

definition Put64 :: "nat \<Rightarrow> u64 \<Rightarrow> ram \<Rightarrow> ram" where
  "Put64 p v s =
     s(p := to_u8 v, p + 1 := to_u8 (shr v 8), p + 2 := to_u8 (shr v 16),
       p + 3 := to_u8 (shr v 24), p + 4 := to_u8 (shr v 32), p + 5 := to_u8 (shr v 40),
       p + 6 := to_u8 (shr v 48), p + 7 := to_u8 (shr v 56))"

section \<open>The laws\<close>

text \<open>
  What the accessor of a lane of \<open>w\<close> bytes promises: a write is read back, it changes the bytes of
  its lane only, and a read depends on those bytes only.
\<close>

locale lane =
  fixes w :: nat and get :: "ram \<Rightarrow> nat \<Rightarrow> 'v" and put :: "nat \<Rightarrow> 'v \<Rightarrow> ram \<Rightarrow> ram"
  assumes w_pos: "0 < w"
    and get_put: "get (put p v s) p = v"
    and put_get: "put p (get s p) s = s"
    and put_frame: "a < p \<or> p + w \<le> a \<Longrightarrow> put p v s a = s a"
    and get_cong: "(\<And>a. p \<le> a \<Longrightarrow> a < p + w \<Longrightarrow> s a = t a) \<Longrightarrow> get s p = get t p"
begin

lemma get_put_other: "q + w \<le> p \<or> p + w \<le> q \<Longrightarrow> get (put p v s) q = get s q"
  by (rule get_cong) (auto intro: put_frame)

end

lemma bit_byte_shl:
  "bit (shl (to_u16 (b :: u8)) k) i \<longleftrightarrow> k \<le> i \<and> i < 16 \<and> bit b (i - k)"
  "bit (shl (to_u32 b) k) i \<longleftrightarrow> k \<le> i \<and> i < 32 \<and> bit b (i - k)"
  "bit (shl (to_u64 b) k) i \<longleftrightarrow> k \<le> i \<and> i < 64 \<and> bit b (i - k)"
  using bit_imp_le_length [of b "i - k"] by (auto simp: bit_simps)

lemma byte_high: "8 \<le> i \<Longrightarrow> \<not> bit (b :: u8) i"
  using bit_imp_le_length [of b i] by auto

text \<open>Bit \<open>i\<close> of a little-endian number is bit \<open>i mod 8\<close> of byte \<open>i div 8\<close>.\<close>

lemma byte_index: "i < 8 * n \<Longrightarrow> i div 8 \<in> set [0..<n]" for i :: nat
  by auto

lemma bit_Get16: "bit (Get16 s p) i \<longleftrightarrow> i < 16 \<and> bit (s (p + i div 8)) (i mod 8)"
proof (cases "i < 16")
  case True
  then consider "i < 8" | "8 \<le> i" "i < 16" by linarith
  then show ?thesis
  proof cases
    case 2
    then have "i div 8 = 1" "i mod 8 = i - 8" by (auto simp: div_nat_eqI mod_if)
    then show ?thesis using 2 by (simp add: Get16_def bit_or_iff bit_byte_shl byte_high bit_unsigned_iff)
  qed (simp add: Get16_def bit_or_iff bit_byte_shl bit_unsigned_iff)
qed (simp add: Get16_def bit_or_iff bit_byte_shl bit_unsigned_iff)

lemma bit_shifted_byte:
  assumes "i = 8 * q + r" "r < 8" "k = 8 * j"
  shows "k \<le> i \<and> bit (b :: u8) (i - k) \<longleftrightarrow> j = q \<and> bit b r"
proof (cases "j = q")
  case False
  then consider "j < q" | "q < j" by linarith
  then show ?thesis
  proof cases
    case 1
    then have "8 \<le> i - k" using assms by linarith
    then show ?thesis using False byte_high by simp
  qed (use assms in auto)
qed (use assms in simp)

lemma byte_digits: "i < 8 * n \<Longrightarrow> \<exists>q r. i = 8 * q + r \<and> r < 8 \<and> q < n" for i n :: nat
  by (intro exI [of _ "i div 8"] exI [of _ "i mod 8"]) auto

lemma bit_Get32: "bit (Get32 s p) i \<longleftrightarrow> i < 32 \<and> bit (s (p + i div 8)) (i mod 8)"
proof (cases "i < 32")
  case True
  then obtain q r where i: "i = 8 * q + r" "r < 8" "q < 4" using byte_digits [of i 4] by auto
  have q: "q = 0 \<or> q = 1 \<or> q = 2 \<or> q = 3" using i by linarith
  have "bit (shl (to_u32 (b :: u8)) k) i \<longleftrightarrow> k = 8 * q \<and> bit b r" if "k = 8 * j" for k j b
    using bit_shifted_byte [OF i(1,2) that, of b] True that by (auto simp: bit_byte_shl)
  from this [of 0 0] this [of 8 1] this [of 16 2] this [of 24 3]
  show ?thesis using i q True by (auto simp: Get32_def bit_or_iff simp del: push_bit_0_id)
qed (simp add: Get32_def bit_or_iff bit_byte_shl bit_unsigned_iff)

lemma bit_Get64: "bit (Get64 s p) i \<longleftrightarrow> i < 64 \<and> bit (s (p + i div 8)) (i mod 8)"
proof (cases "i < 64")
  case True
  then obtain q r where i: "i = 8 * q + r" "r < 8" "q < 8" using byte_digits [of i 8] by auto
  have q: "q = 0 \<or> q = 1 \<or> q = 2 \<or> q = 3 \<or> q = 4 \<or> q = 5 \<or> q = 6 \<or> q = 7" using i by linarith
  have "bit (shl (to_u64 (b :: u8)) k) i \<longleftrightarrow> k = 8 * q \<and> bit b r" if "k = 8 * j" for k j b
    using bit_shifted_byte [OF i(1,2) that, of b] True that by (auto simp: bit_byte_shl)
  from this [of 0 0] this [of 8 1] this [of 16 2] this [of 24 3]
     this [of 32 4] this [of 40 5] this [of 48 6] this [of 56 7]
  have b: "bit (Get64 s p) i \<longleftrightarrow> (q = 0 \<and> bit (s p) r) \<or> (q = 1 \<and> bit (s (p + 1)) r) \<or>
      (q = 2 \<and> bit (s (p + 2)) r) \<or> (q = 3 \<and> bit (s (p + 3)) r) \<or> (q = 4 \<and> bit (s (p + 4)) r) \<or>
      (q = 5 \<and> bit (s (p + 5)) r) \<or> (q = 6 \<and> bit (s (p + 6)) r) \<or> (q = 7 \<and> bit (s (p + 7)) r)"
    unfolding Get64_def bit_or_iff by (simp del: push_bit_0_id)
  have "i div 8 = q" "i mod 8 = r" using i by auto
  with True show ?thesis unfolding b using q by (elim disjE) simp_all
qed (simp add: Get64_def bit_or_iff bit_byte_shl bit_unsigned_iff)

lemma Put_byte:
  "j < 2 \<Longrightarrow> Put16 p v s (p + j) = to_u8 (shr v (8 * j))"
  "j < 4 \<Longrightarrow> Put32 p v' s (p + j) = to_u8 (shr v' (8 * j))"
  "j < 8 \<Longrightarrow> Put64 p v'' s (p + j) = to_u8 (shr v'' (8 * j))"
  unfolding Put16_def Put32_def Put64_def numeral_eq_Suc pred_numeral_simps BitM.simps
    less_Suc_eq
  by (auto simp: eval_nat_numeral)

lemma bit_byte_of:
  fixes v :: "'a::len word"
  shows "bit (to_u8 (shr v (8 * (i div 8)))) (i mod 8) \<longleftrightarrow> bit v i"
  by (simp add: bit_simps mult.commute)

lemma Get_Put:
  "Get16 (Put16 p v s) p = v" "Get32 (Put32 p v' s) p = v'" "Get64 (Put64 p v'' s) p = v''"
  by (intro bit_word_eqI; simp add: bit_Get16 bit_Get32 bit_Get64 Put_byte bit_byte_of less_mult_imp_div_less)+

lemma Put_frame:
  "a < p \<or> p + 2 \<le> a \<Longrightarrow> Put16 p v s a = s a"
  "a < p \<or> p + 4 \<le> a \<Longrightarrow> Put32 p v' s a = s a"
  "a < p \<or> p + 8 \<le> a \<Longrightarrow> Put64 p v'' s a = s a"
  unfolding Put16_def Put32_def Put64_def by auto

lemma Get_cong:
  "(\<And>a. p \<le> a \<Longrightarrow> a < p + 2 \<Longrightarrow> s a = t a) \<Longrightarrow> Get16 s p = Get16 t p"
  "(\<And>a. p \<le> a \<Longrightarrow> a < p + 4 \<Longrightarrow> s a = t a) \<Longrightarrow> Get32 s p = Get32 t p"
  "(\<And>a. p \<le> a \<Longrightarrow> a < p + 8 \<Longrightarrow> s a = t a) \<Longrightarrow> Get64 s p = Get64 t p"
  unfolding Get16_def Get32_def Get64_def by simp_all

lemma byte_of_Get:
  "j < 2 \<Longrightarrow> to_u8 (shr (Get16 s p) (8 * j)) = s (p + j)"
  "j < 4 \<Longrightarrow> to_u8 (shr (Get32 s p) (8 * j)) = s (p + j)"
  "j < 8 \<Longrightarrow> to_u8 (shr (Get64 s p) (8 * j)) = s (p + j)"
  by (intro bit_word_eqI; simp add: bit_unsigned_iff bit_drop_bit_eq bit_Get16 bit_Get32 bit_Get64
      div_mult_self1 mod_mult_self1 add.commute; fail)+

lemma Put_Get: "Put16 p (Get16 s p) s = s" "Put32 p (Get32 s p) s = s" "Put64 p (Get64 s p) s = s"
proof -
  have eq: "f = s" if "\<And>a. a < p \<or> p + n \<le> a \<Longrightarrow> f a = s a" "\<And>j. j < n \<Longrightarrow> f (p + j) = s (p + j)"
    for f :: ram and n
  proof
    fix a show "f a = s a"
      using that(1) [of a] that(2) [of "a - p"] by (cases "a < p \<or> p + n \<le> a") auto
  qed
  show "Put16 p (Get16 s p) s = s"
    by (rule eq [of 2]) (simp_all add: Put_frame Put_byte byte_of_Get)
  show "Put32 p (Get32 s p) s = s"
    by (rule eq [of 4]) (simp_all add: Put_frame Put_byte byte_of_Get)
  show "Put64 p (Get64 s p) s = s"
    by (rule eq [of 8]) (simp_all add: Put_frame Put_byte byte_of_Get)
qed

interpretation lane8: lane 1 Get8 Put8
  by unfold_locales (auto simp: Get8_def Put8_def)

interpretation lane16: lane 2 Get16 Put16
  by unfold_locales (auto simp: Get_Put Put_Get Put_frame intro: Get_cong)

interpretation lane32: lane 4 Get32 Put32
  by unfold_locales (auto simp: Get_Put Put_Get Put_frame intro: Get_cong)

interpretation lane64: lane 8 Get64 Put64
  by unfold_locales (auto simp: Get_Put Put_Get Put_frame intro: Get_cong)

text \<open>Little-endian round trip and byte order: at every width, a number written to memory is read
  back, byte \<open>j\<close> of the number is stored at the \<open>j\<close>-th address, and the number read is the sum of
  its bytes with weights \<open>256 ^ j\<close>.\<close>

theorem endian_roundtrip:
  "Get16 (Put16 p v s) p = v \<and> Get32 (Put32 p v' s) p = v' \<and> Get64 (Put64 p v'' s) p = v'' \<and>
   list_all (\<lambda>j. Put16 p v s (p + j) = to_u8 (shr v (8 * j))) [0..<2] \<and>
   list_all (\<lambda>j. Put32 p v' s (p + j) = to_u8 (shr v' (8 * j))) [0..<4] \<and>
   list_all (\<lambda>j. Put64 p v'' s (p + j) = to_u8 (shr v'' (8 * j))) [0..<8] \<and>
   uint (Get16 s p) = (\<Sum>j<2. uint (s (p + j)) * 256 ^ j) \<and>
   uint (Get32 s p) = (\<Sum>j<4. uint (s (p + j)) * 256 ^ j) \<and>
   uint (Get64 s p) = (\<Sum>j<8. uint (s (p + j)) * 256 ^ j)"
proof -
  define V where "V n = (\<Sum>j<n. uint (s (p + j)) * 256 ^ j)" for n
  have V: "0 \<le> V n \<and> V n < 256 ^ n \<and> (\<forall>i. bit (V n) i \<longleftrightarrow> i < 8 * n \<and> bit (s (p + i div 8)) (i mod 8))" for n
  proof (induction n)
    case 0
    then show ?case by (simp add: V_def)
  next
    case (Suc n)
    let ?b = "uint (s (p + n))"
    have V: "V (Suc n) = concat_bit (8 * n) (V n) ?b"
      using Suc by (simp add: V_def concat_bit_eq take_bit_int_eq_self push_bit_eq_mult power_mult)
    have b: "?b < 256" using uint_lt2p [of "s (p + n)"] by simp
    have "V (Suc n) = V n + ?b * 256 ^ n" by (simp add: V_def)
    moreover have "?b * 256 ^ n \<le> 255 * 256 ^ n" using b by (intro mult_right_mono) simp_all
    moreover have "0 \<le> ?b * 256 ^ n" by simp
    moreover have "0 \<le> V n" "V n < 256 ^ n" using Suc by simp_all
    ultimately have "0 \<le> V (Suc n) \<and> V (Suc n) < 256 ^ Suc n" unfolding power_Suc by linarith
    moreover have "bit (V (Suc n)) i \<longleftrightarrow> i < 8 * Suc n \<and> bit (s (p + i div 8)) (i mod 8)" for i
    proof (cases "i < 8 * n")
      case True
      then show ?thesis using Suc unfolding V bit_concat_bit_iff by simp
    next
      case False
      show ?thesis
      proof (cases "i < 8 * Suc n")
        case True
        then have "i div 8 = n" using False by (auto intro: div_nat_eqI)
        then have "i mod 8 = i - 8 * n" using div_mult_mod_eq [of i 8] by simp
        note idx = \<open>i div 8 = n\<close> this
        show ?thesis using True False idx less_diff_conv2 [of "8 * n" i 8] unfolding V bit_concat_bit_iff by (auto simp: bit_uint_iff)
      next
        case f: False
        then show ?thesis using False byte_high [of "i - 8 * n" "s (p + n)"]
          unfolding V bit_concat_bit_iff by (simp add: bit_uint_iff)
      qed
    qed
    ultimately show ?case by blast
  qed
  have "uint (Get16 s p) = V 2" "uint (Get32 s p) = V 4" "uint (Get64 s p) = V 8"
    using V by (auto intro!: bit_eqI simp: bit_uint_iff bit_Get16 bit_Get32 bit_Get64)
  then show ?thesis by (simp add: Get_Put Put_byte list_all_iff V_def del: upt_Suc)
qed

end
