(* ===== verification/Simd.thy ===== *)
theory Simd
  imports Endian
begin

text \<open>
  The integer vector kernels of \<^verbatim>\<open>sse.c\<close> and \<^verbatim>\<open>mmx.c\<close>, which instructions such as
  \<open>paddusb\<close>, \<open>psrlw\<close> or \<open>punpcklbw\<close> run on the vector register file. A kernel gets two byte
  pointers, the destination \<open>x\<close> and the source \<open>y\<close>, which is a register (possibly the same one),
  guest memory or a stash; here they are addresses in one byte store, so that what a kernel does
  when both are the same register is what the C code does, store by store. Arithmetic of C type
  \<open>int\<close> is done on integers and converted to the lane when it is stored; no intermediate
  value leaves the range of \<open>int\<close>, but for the sum of two products of \<open>-32768\<close> in \<open>pmaddwd\<close>, where
  the conversion stands for the usual wrap-around. The inline assembly of hosts with
  these instructions is not modelled; the portable code beside it is.
\<close>

type_synonym kernel = "nat \<Rightarrow> nat \<Rightarrow> ram \<Rightarrow> ram"
type_synonym kernel_imm = "nat \<Rightarrow> u32 \<Rightarrow> ram \<Rightarrow> ram"

section \<open>Loops, copies and the macros\<close>

text \<open>\<^verbatim>\<open>for (i = 0; i < n; ++i)\<close> with the store as its state.\<close>

definition for_loop :: "nat \<Rightarrow> (nat \<Rightarrow> ram \<Rightarrow> ram) \<Rightarrow> ram \<Rightarrow> ram" where
  "for_loop n f s = fold f [0..<n] s"

text \<open>\<^verbatim>\<open>memcpy\<close> into the store \<open>s\<close> at \<open>x\<close>, from \<open>p\<close> in the store \<open>t\<close>; \<^verbatim>\<open>memset\<close>; a local array.\<close>

definition memcpy :: "nat \<Rightarrow> ram \<Rightarrow> nat \<Rightarrow> nat \<Rightarrow> ram \<Rightarrow> ram" where
  "memcpy x t p n s = (\<lambda>a. if x \<le> a \<and> a < x + n then t (p + (a - x)) else s a)"

definition memset :: "nat \<Rightarrow> u8 \<Rightarrow> nat \<Rightarrow> ram \<Rightarrow> ram" where
  "memset x v n s = (\<lambda>a. if x \<le> a \<and> a < x + n then v else s a)"

definition local_array :: ram where
  "local_array = (\<lambda>_. 0)"

definition c_abs :: "int \<Rightarrow> int" where
  "c_abs v = (if 0 \<le> v then v else - v)"

abbreviation (input) clamp :: "int \<Rightarrow> int \<Rightarrow> int \<Rightarrow> int" where
  "clamp lo hi v \<equiv> max lo (min hi v)"

section \<open>Lane-wise arithmetic of the quadword kernels\<close>

definition MmxPaddusb :: kernel where
  "MmxPaddusb x y s =
     for_loop 8 (\<lambda>i s. Put8 (x + i) (word_of_int (min 255 (uint (s (x + i)) + uint (s (y + i))))) s) s"

definition MmxPsubusb :: kernel where
  "MmxPsubusb x y s =
     for_loop 8 (\<lambda>i s. Put8 (x + i) (word_of_int (min 255 (max 0 (uint (s (x + i)) - uint (s (y + i)))))) s) s"

definition MmxPsubsb :: kernel where
  "MmxPsubsb x y s =
     for_loop 8 (\<lambda>i s. Put8 (x + i) (word_of_int (clamp (-128) 127 (sint (s (x + i)) - sint (s (y + i))))) s) s"

definition MmxPaddsb :: kernel where
  "MmxPaddsb x y s =
     for_loop 8 (\<lambda>i s. Put8 (x + i) (word_of_int (clamp (-128) 127 (sint (s (x + i)) + sint (s (y + i))))) s) s"

definition MmxPmulhrsw :: kernel where
  "MmxPmulhrsw x y s =
     for_loop 4 (\<lambda>i s. Put16 (x + i * 2)
       (word_of_int (drop_bit 1 (drop_bit 14 (sint (Get16 s (x + i * 2)) * sint (Get16 s (y + i * 2))) + 1))) s) s"

definition MmxPmaddubsw :: kernel where
  "MmxPmaddubsw x y s =
     for_loop 4 (\<lambda>i s. Put16 (x + i * 2)
       (word_of_int (clamp (-32768) 32767
          (uint (s (x + (i * 2 + 0))) * sint (s (y + (i * 2 + 0))) +
           uint (s (x + (i * 2 + 1))) * sint (s (y + (i * 2 + 1)))))) s) s"

definition MmxPsubd :: kernel where
  "MmxPsubd x y s =
     for_loop 2 (\<lambda>i s. Put32 (x + i * 4)
       (Get32 s (x + i * 4) - Get32 s (y + i * 4)) s) s"

definition MmxPaddd :: kernel where
  "MmxPaddd x y s =
     for_loop 2 (\<lambda>i s. Put32 (x + i * 4)
       (Get32 s (x + i * 4) + Get32 s (y + i * 4)) s) s"

definition MmxPaddq :: kernel where
  "MmxPaddq x y s =
     Put64 x (Get64 s x + Get64 s y) s"

definition MmxPsubq :: kernel where
  "MmxPsubq x y s =
     Put64 x (Get64 s x - Get64 s y) s"

definition MmxPsubusw :: kernel where
  "MmxPsubusw x y s =
     for_loop 4 (\<lambda>i s. Put16 (x + i * 2)
       (word_of_int (min 65535 (max 0 (uint (Get16 s (x + i * 2)) - uint (Get16 s (y + i * 2)))))) s) s"

definition MmxPminsw :: kernel where
  "MmxPminsw x y s =
     for_loop 4 (\<lambda>i s. Put16 (x + i * 2)
       (word_of_int (min (sint (Get16 s (x + i * 2))) (sint (Get16 s (y + i * 2))))) s) s"

definition MmxPmaxsw :: kernel where
  "MmxPmaxsw x y s =
     for_loop 4 (\<lambda>i s. Put16 (x + i * 2)
       (word_of_int (max (sint (Get16 s (x + i * 2))) (sint (Get16 s (y + i * 2))))) s) s"

definition MmxPcmpgtd :: kernel where
  "MmxPcmpgtd x y s =
     for_loop 2 (\<lambda>i s. Put32 (x + i * 4)
       (- of_bool (sint (Get32 s (y + i * 4)) < sint (Get32 s (x + i * 4)))) s) s"

definition MmxPcmpeqd :: kernel where
  "MmxPcmpeqd x y s =
     for_loop 2 (\<lambda>i s. Put32 (x + i * 4)
       (- of_bool (Get32 s (x + i * 4) = Get32 s (y + i * 4))) s) s"

definition MmxPmaddwd :: kernel where
  "MmxPmaddwd x y s =
     for_loop 2 (\<lambda>i s. Put32 (x + i * 4)
       (word_of_int (sint (Get16 s (x + i * 4 + 0)) * sint (Get16 s (y + i * 4 + 0)) +
                     sint (Get16 s (x + i * 4 + 2)) * sint (Get16 s (y + i * 4 + 2)))) s) s"

definition MmxPmulhuw :: kernel where
  "MmxPmulhuw x y s =
     for_loop 4 (\<lambda>i s.
       let v = to_u32 (Get16 s (x + i * 2));
           v = v * to_u32 (Get16 s (y + i * 2));
           v = shr v 16
       in Put16 (x + i * 2) (to_u16 v) s) s"

definition MmxPmuludq :: kernel where
  "MmxPmuludq x y s =
     Put64 x (to_u64 (Get32 s x) * to_u64 (Get32 s y)) s"

definition MmxPmulld :: kernel where
  "MmxPmulld x y s =
     for_loop 2 (\<lambda>i s. Put32 (x + i * 4)
       (Get32 s (x + i * 4) * Get32 s (y + i * 4)) s) s"

definition MmxPsignb :: kernel where
  "MmxPsignb x y s =
     for_loop 8 (\<lambda>i s.
       let v = sint (s (y + i))
       in if v = 0 then Put8 (x + i) 0 s
          else if v < 0 then Put8 (x + i) (word_of_int (- sint (s (x + i)))) s
          else s) s"

definition MmxPsignw :: kernel where
  "MmxPsignw x y s =
     for_loop 4 (\<lambda>i s.
       let v = sint (Get16 s (y + i * 2))
       in if v = 0 then Put16 (x + i * 2) 0 s
          else if v < 0 then Put16 (x + i * 2) (word_of_int (- sint (Get16 s (x + i * 2)))) s
          else s) s"

definition MmxPsignd :: kernel where
  "MmxPsignd x y s =
     for_loop 2 (\<lambda>i s.
       let v = sint (Get32 s (y + i * 4))
       in if v = 0 then Put32 (x + i * 4) 0 s
          else if v < 0 then Put32 (x + i * 4) (- Get32 s (x + i * 4)) s
          else s) s"

definition MmxPabsw :: kernel where
  "MmxPabsw x y s =
     for_loop 4 (\<lambda>i s. Put16 (x + i * 2)
       (word_of_int (c_abs (sint (Get16 s (y + i * 2))))) s) s"

definition MmxPabsd :: kernel where
  "MmxPabsd x y s =
     for_loop 2 (\<lambda>i s. Put32 (x + i * 4)
       (if 0 \<le> sint (Get32 s (y + i * 4)) then Get32 s (y + i * 4) else - Get32 s (y + i * 4)) s) s"

section \<open>Byte and word kernels of mmx.c\<close>

definition MmxPsubb :: kernel where
  "MmxPsubb x y s =
     for_loop 8 (\<lambda>i s. Put8 (x + i) (s (x + i) - s (y + i)) s) s"

definition MmxPaddb :: kernel where
  "MmxPaddb x y s =
     for_loop 8 (\<lambda>i s. Put8 (x + i) (s (x + i) + s (y + i)) s) s"

definition MmxPavgb :: kernel where
  "MmxPavgb x y s =
     for_loop 8 (\<lambda>i s. Put8 (x + i) (word_of_int (drop_bit 1 (uint (s (x + i)) + uint (s (y + i)) + 1))) s) s"

definition MmxPabsb :: kernel where
  "MmxPabsb x y s =
     for_loop 8 (\<lambda>i s. Put8 (x + i) (word_of_int (c_abs (sint (s (y + i))))) s) s"

definition MmxPminub :: kernel where
  "MmxPminub x y s =
     for_loop 8 (\<lambda>i s. Put8 (x + i) (min (s (x + i)) (s (y + i))) s) s"

definition MmxPmaxub :: kernel where
  "MmxPmaxub x y s =
     for_loop 8 (\<lambda>i s. Put8 (x + i) (max (s (x + i)) (s (y + i))) s) s"

definition MmxPcmpeqb :: kernel where
  "MmxPcmpeqb x y s =
     for_loop 8 (\<lambda>i s. Put8 (x + i) (- of_bool (s (x + i) = s (y + i))) s) s"

definition MmxPcmpgtb :: kernel where
  "MmxPcmpgtb x y s =
     for_loop 8 (\<lambda>i s. Put8 (x + i) (- of_bool (sint (s (y + i)) < sint (s (x + i)))) s) s"

definition MmxPsubw :: kernel where
  "MmxPsubw x y s =
     for_loop 4 (\<lambda>i s. Put16 (x + i * 2)
       (Get16 s (x + i * 2) - Get16 s (y + i * 2)) s) s"

definition MmxPaddw :: kernel where
  "MmxPaddw x y s =
     for_loop 4 (\<lambda>i s. Put16 (x + i * 2)
       (Get16 s (x + i * 2) + Get16 s (y + i * 2)) s) s"

definition MmxPaddsw :: kernel where
  "MmxPaddsw x y s =
     for_loop 4 (\<lambda>i s. Put16 (x + i * 2)
       (word_of_int (clamp (-32768) 32767 (sint (Get16 s (x + i * 2)) + sint (Get16 s (y + i * 2))))) s) s"

definition MmxPsubsw :: kernel where
  "MmxPsubsw x y s =
     for_loop 4 (\<lambda>i s. Put16 (x + i * 2)
       (word_of_int (clamp (-32768) 32767 (sint (Get16 s (x + i * 2)) - sint (Get16 s (y + i * 2))))) s) s"

definition MmxPaddusw :: kernel where
  "MmxPaddusw x y s =
     for_loop 4 (\<lambda>i s. Put16 (x + i * 2)
       (word_of_int (min 65535 (uint (Get16 s (x + i * 2)) + uint (Get16 s (y + i * 2))))) s) s"

definition MmxPcmpgtw :: kernel where
  "MmxPcmpgtw x y s =
     for_loop 4 (\<lambda>i s. Put16 (x + i * 2)
       (- of_bool (sint (Get16 s (y + i * 2)) < sint (Get16 s (x + i * 2)))) s) s"

definition MmxPcmpeqw :: kernel where
  "MmxPcmpeqw x y s =
     for_loop 4 (\<lambda>i s. Put16 (x + i * 2)
       (- of_bool (Get16 s (x + i * 2) = Get16 s (y + i * 2))) s) s"

definition MmxPavgw :: kernel where
  "MmxPavgw x y s =
     for_loop 4 (\<lambda>i s. Put16 (x + i * 2)
       (word_of_int (drop_bit 1 (uint (Get16 s (x + i * 2)) + uint (Get16 s (y + i * 2)) + 1))) s) s"

definition MmxPmulhw :: kernel where
  "MmxPmulhw x y s =
     for_loop 4 (\<lambda>i s. Put16 (x + i * 2)
       (word_of_int (drop_bit 16 (sint (Get16 s (x + i * 2)) * sint (Get16 s (y + i * 2))))) s) s"

definition MmxPmullw :: kernel where
  "MmxPmullw x y s =
     for_loop 4 (\<lambda>i s. Put16 (x + i * 2)
       (word_of_int (sint (Get16 s (x + i * 2)) * sint (Get16 s (y + i * 2)))) s) s"

section \<open>Shifts by an immediate count\<close>

definition MmxPsraw :: kernel_imm where
  "MmxPsraw x k s =
     (let k = if 15 < k then 15 else k
      in for_loop 4 (\<lambda>i s. Put16 (x + i * 2) (sar (Get16 s (x + i * 2)) (unat k)) s) s)"

definition MmxPsrad :: kernel_imm where
  "MmxPsrad x k s =
     (let k = if 31 < k then 31 else k
      in for_loop 2 (\<lambda>i s. Put32 (x + i * 4) (sar (Get32 s (x + i * 4)) (unat k)) s) s)"

definition MmxPsrlw :: kernel_imm where
  "MmxPsrlw x k s =
     (if k < 16
      then for_loop 4 (\<lambda>i s. Put16 (x + i * 2) (shr (Get16 s (x + i * 2)) (unat k)) s) s
      else memset x 0 8 s)"

definition MmxPsllw :: kernel_imm where
  "MmxPsllw x k s =
     (if k \<le> 15
      then for_loop 4 (\<lambda>i s. Put16 (x + i * 2) (shl (Get16 s (x + i * 2)) (unat k)) s) s
      else memset x 0 8 s)"

definition MmxPsrld :: kernel_imm where
  "MmxPsrld x k s =
     (if k \<le> 31
      then for_loop 2 (\<lambda>i s. Put32 (x + i * 4) (shr (Get32 s (x + i * 4)) (unat k)) s) s
      else memset x 0 8 s)"

definition MmxPslld :: kernel_imm where
  "MmxPslld x k s =
     (if k \<le> 31
      then for_loop 2 (\<lambda>i s. Put32 (x + i * 4) (shl (Get32 s (x + i * 4)) (unat k)) s) s
      else memset x 0 8 s)"

definition MmxPsrlq :: kernel_imm where
  "MmxPsrlq x k s =
     (if k \<le> 63
      then Put64 x (shr (Get64 s x) (unat k)) s
      else memset x 0 8 s)"

definition MmxPsllq :: kernel_imm where
  "MmxPsllq x k s =
     (if k \<le> 63
      then Put64 x (shl (Get64 s x) (unat k)) s
      else memset x 0 8 s)"

section \<open>Shifts by a count read from the source\<close>

definition MmxPsrawv :: kernel where
  "MmxPsrawv x y s =
     (let k = Get64 s y; k = if 15 < k then 15 else k
      in for_loop 4 (\<lambda>i s. Put16 (x + i * 2) (sar (Get16 s (x + i * 2)) (unat k)) s) s)"

definition MmxPsradv :: kernel where
  "MmxPsradv x y s =
     (let k = Get64 s y; k = if 31 < k then 31 else k
      in for_loop 2 (\<lambda>i s. Put32 (x + i * 4) (sar (Get32 s (x + i * 4)) (unat k)) s) s)"

definition MmxPsrlwv :: kernel where
  "MmxPsrlwv x y s =
     (let k = Get64 s y
      in if k < 16 then for_loop 4 (\<lambda>i s. Put16 (x + i * 2) (shr (Get16 s (x + i * 2)) (unat k)) s) s
         else memset x 0 8 s)"

definition MmxPsllwv :: kernel where
  "MmxPsllwv x y s =
     (let k = Get64 s y
      in if k < 16 then for_loop 4 (\<lambda>i s. Put16 (x + i * 2) (shl (Get16 s (x + i * 2)) (unat k)) s) s
         else memset x 0 8 s)"

definition MmxPsrldv :: kernel where
  "MmxPsrldv x y s =
     (let k = Get64 s y
      in if k < 32 then for_loop 2 (\<lambda>i s. Put32 (x + i * 4) (shr (Get32 s (x + i * 4)) (unat k)) s) s
         else memset x 0 8 s)"

definition MmxPslldv :: kernel where
  "MmxPslldv x y s =
     (let k = Get64 s y
      in if k < 32 then for_loop 2 (\<lambda>i s. Put32 (x + i * 4) (shl (Get32 s (x + i * 4)) (unat k)) s) s
         else memset x 0 8 s)"

definition MmxPsrlqv :: kernel where
  "MmxPsrlqv x y s =
     (let k = Get64 s y
      in if k < 64 then Put64 x (shr (Get64 s x) (unat k)) s
         else memset x 0 8 s)"

definition MmxPsllqv :: kernel where
  "MmxPsllqv x y s =
     (let k = Get64 s y
      in if k < 64 then Put64 x (shl (Get64 s x) (unat k)) s
         else memset x 0 8 s)"

section \<open>Byte shifts, alignment and shuffles\<close>

definition MmxPslldq :: kernel_imm where
  "MmxPslldq x k s =
     (let k = unat (if 8 < k then 8 else k);
          t = for_loop k (\<lambda>i t. Put8 i 0 t) local_array;
          t = for_loop (8 - k) (\<lambda>i t. Put8 (k + i) (s (x + i)) t) t
      in memcpy x t 0 8 s)"

definition MmxPsrldq :: kernel_imm where
  "MmxPsrldq x k s =
     (let k = unat (if 8 < k then 8 else k);
          t = memcpy 0 s (x + k) (8 - k) local_array;
          t = memset (8 - k) 0 k t
      in memcpy x t 0 8 s)"

definition MmxPalignr :: "nat \<Rightarrow> nat \<Rightarrow> u32 \<Rightarrow> ram \<Rightarrow> ram" where
  "MmxPalignr x y k s =
     (let t = memcpy 0 s y 8 local_array;
          t = memcpy 8 s x 8 t;
          t = memset 16 0 8 t
      in memcpy x t (unat (min k 16)) 8 s)"

definition MmxPshufb :: kernel where
  "MmxPshufb x y s =
     (let t = for_loop 8 (\<lambda>i t. Put8 i
            (if s (y + i) AND 128 \<noteq> 0 then 0 else s (x + unat (s (y + i) AND 7))) t) local_array
      in memcpy x t 0 8 s)"

definition SsePslldq :: kernel_imm where
  "SsePslldq x k s =
     (let k = unat (if 16 < k then 16 else k);
          t = for_loop k (\<lambda>i t. Put8 i 0 t) local_array;
          t = for_loop (16 - k) (\<lambda>i t. Put8 (k + i) (s (x + i)) t) t
      in memcpy x t 0 16 s)"

definition SsePsrldq :: kernel_imm where
  "SsePsrldq x k s =
     (let k = unat (if 16 < k then 16 else k);
          t = memcpy 0 s (x + k) (16 - k) local_array;
          t = memset (16 - k) 0 k t
      in memcpy x t 0 16 s)"

definition SsePalignr :: "nat \<Rightarrow> nat \<Rightarrow> u32 \<Rightarrow> ram \<Rightarrow> ram" where
  "SsePalignr x y k s =
     (let t = memcpy 0 s y 16 local_array;
          t = memcpy 16 s x 16 t;
          t = memset 32 0 16 t
      in memcpy x t (unat (min k 32)) 16 s)"

definition SsePshufb :: kernel where
  "SsePshufb x y s =
     (let t = for_loop 16 (\<lambda>i t. Put8 i
            (if s (y + i) AND 128 \<noteq> 0 then 0 else s (x + unat (s (y + i) AND 15))) t) local_array
      in memcpy x t 0 16 s)"

section \<open>Packing, horizontal sums and interleaving\<close>

definition MmxPackuswb :: kernel where
  "MmxPackuswb x y s =
     (let t = for_loop 4 (\<lambda>i t. Put8 (i + 0)
            (word_of_int (min 255 (max 0 (sint (Get16 s (x + i * 2)))))) t) local_array;
          t = for_loop 4 (\<lambda>i t. Put8 (i + 4)
            (word_of_int (min 255 (max 0 (sint (Get16 s (y + i * 2)))))) t) t
      in memcpy x t 0 8 s)"

definition MmxPacksswb :: kernel where
  "MmxPacksswb x y s =
     (let t = for_loop 4 (\<lambda>i t. Put8 (i + 0)
            (word_of_int (clamp (-128) 127 (sint (Get16 s (x + i * 2))))) t) local_array;
          t = for_loop 4 (\<lambda>i t. Put8 (i + 4)
            (word_of_int (clamp (-128) 127 (sint (Get16 s (y + i * 2))))) t) t
      in memcpy x t 0 8 s)"

definition MmxPackssdw :: kernel where
  "MmxPackssdw x y s =
     (let t = for_loop 2 (\<lambda>i t. Put16 (i * 2 + 0)
            (word_of_int (clamp (-32768) 32767 (sint (Get32 s (x + i * 4))))) t) local_array;
          t = for_loop 2 (\<lambda>i t. Put16 (i * 2 + 4)
            (word_of_int (clamp (-32768) 32767 (sint (Get32 s (y + i * 4))))) t) t
      in memcpy x t 0 8 s)"

definition MmxPhaddw :: kernel where
  "MmxPhaddw x y s =
     (let t = Put16 (0 * 2) (Get16 s (x + 0 * 2) + Get16 s (x + 1 * 2)) local_array;
          t = Put16 (1 * 2) (Get16 s (x + 2 * 2) + Get16 s (x + 3 * 2)) t;
          t = Put16 (2 * 2) (Get16 s (y + 0 * 2) + Get16 s (y + 1 * 2)) t;
          t = Put16 (3 * 2) (Get16 s (y + 2 * 2) + Get16 s (y + 3 * 2)) t
      in memcpy x t 0 8 s)"

definition MmxPhsubw :: kernel where
  "MmxPhsubw x y s =
     (let t = Put16 (0 * 2) (Get16 s (x + 0 * 2) - Get16 s (x + 1 * 2)) local_array;
          t = Put16 (1 * 2) (Get16 s (x + 2 * 2) - Get16 s (x + 3 * 2)) t;
          t = Put16 (2 * 2) (Get16 s (y + 0 * 2) - Get16 s (y + 1 * 2)) t;
          t = Put16 (3 * 2) (Get16 s (y + 2 * 2) - Get16 s (y + 3 * 2)) t
      in memcpy x t 0 8 s)"

definition MmxPhaddd :: kernel where
  "MmxPhaddd x y s =
     (let t = Put32 (0 * 4) (Get32 s (x + 0 * 4) + Get32 s (x + 1 * 4)) local_array;
          t = Put32 (1 * 4) (Get32 s (y + 0 * 4) + Get32 s (y + 1 * 4)) t
      in memcpy x t 0 8 s)"

definition MmxPhsubd :: kernel where
  "MmxPhsubd x y s =
     (let t = Put32 (0 * 4) (Get32 s (x + 0 * 4) - Get32 s (x + 1 * 4)) local_array;
          t = Put32 (1 * 4) (Get32 s (y + 0 * 4) - Get32 s (y + 1 * 4)) t
      in memcpy x t 0 8 s)"

definition SsePackuswb :: kernel where
  "SsePackuswb x y s =
     (let t = for_loop 8 (\<lambda>i t. Put8 (i + 0)
            (word_of_int (min 255 (max 0 (sint (Get16 s (x + i * 2)))))) t) local_array;
          t = for_loop 8 (\<lambda>i t. Put8 (i + 8)
            (word_of_int (min 255 (max 0 (sint (Get16 s (y + i * 2)))))) t) t
      in memcpy x t 0 16 s)"

definition SsePacksswb :: kernel where
  "SsePacksswb x y s =
     (let t = for_loop 8 (\<lambda>i t. Put8 (i + 0)
            (word_of_int (clamp (-128) 127 (sint (Get16 s (x + i * 2))))) t) local_array;
          t = for_loop 8 (\<lambda>i t. Put8 (i + 8)
            (word_of_int (clamp (-128) 127 (sint (Get16 s (y + i * 2))))) t) t
      in memcpy x t 0 16 s)"

definition SsePackssdw :: kernel where
  "SsePackssdw x y s =
     (let t = for_loop 4 (\<lambda>i t. Put16 (i * 2 + 0)
            (word_of_int (clamp (-32768) 32767 (sint (Get32 s (x + i * 4))))) t) local_array;
          t = for_loop 4 (\<lambda>i t. Put16 (i * 2 + 8)
            (word_of_int (clamp (-32768) 32767 (sint (Get32 s (y + i * 4))))) t) t
      in memcpy x t 0 16 s)"

definition SsePhaddw :: kernel where
  "SsePhaddw x y s =
     (let t = Put16 (0 * 2) (Get16 s (x + 0 * 2) + Get16 s (x + 1 * 2)) local_array;
          t = Put16 (1 * 2) (Get16 s (x + 2 * 2) + Get16 s (x + 3 * 2)) t;
          t = Put16 (2 * 2) (Get16 s (x + 4 * 2) + Get16 s (x + 5 * 2)) t;
          t = Put16 (3 * 2) (Get16 s (x + 6 * 2) + Get16 s (x + 7 * 2)) t;
          t = Put16 (4 * 2) (Get16 s (y + 0 * 2) + Get16 s (y + 1 * 2)) t;
          t = Put16 (5 * 2) (Get16 s (y + 2 * 2) + Get16 s (y + 3 * 2)) t;
          t = Put16 (6 * 2) (Get16 s (y + 4 * 2) + Get16 s (y + 5 * 2)) t;
          t = Put16 (7 * 2) (Get16 s (y + 6 * 2) + Get16 s (y + 7 * 2)) t
      in memcpy x t 0 16 s)"

definition SsePhsubw :: kernel where
  "SsePhsubw x y s =
     (let t = Put16 (0 * 2) (Get16 s (x + 0 * 2) - Get16 s (x + 1 * 2)) local_array;
          t = Put16 (1 * 2) (Get16 s (x + 2 * 2) - Get16 s (x + 3 * 2)) t;
          t = Put16 (2 * 2) (Get16 s (x + 4 * 2) - Get16 s (x + 5 * 2)) t;
          t = Put16 (3 * 2) (Get16 s (x + 6 * 2) - Get16 s (x + 7 * 2)) t;
          t = Put16 (4 * 2) (Get16 s (y + 0 * 2) - Get16 s (y + 1 * 2)) t;
          t = Put16 (5 * 2) (Get16 s (y + 2 * 2) - Get16 s (y + 3 * 2)) t;
          t = Put16 (6 * 2) (Get16 s (y + 4 * 2) - Get16 s (y + 5 * 2)) t;
          t = Put16 (7 * 2) (Get16 s (y + 6 * 2) - Get16 s (y + 7 * 2)) t
      in memcpy x t 0 16 s)"

definition SsePhaddd :: kernel where
  "SsePhaddd x y s =
     (let t = Put32 (0 * 4) (Get32 s (x + 0 * 4) + Get32 s (x + 1 * 4)) local_array;
          t = Put32 (1 * 4) (Get32 s (x + 2 * 4) + Get32 s (x + 3 * 4)) t;
          t = Put32 (2 * 4) (Get32 s (y + 0 * 4) + Get32 s (y + 1 * 4)) t;
          t = Put32 (3 * 4) (Get32 s (y + 2 * 4) + Get32 s (y + 3 * 4)) t
      in memcpy x t 0 16 s)"

definition SsePhsubd :: kernel where
  "SsePhsubd x y s =
     (let t = Put32 (0 * 4) (Get32 s (x + 0 * 4) - Get32 s (x + 1 * 4)) local_array;
          t = Put32 (1 * 4) (Get32 s (x + 2 * 4) - Get32 s (x + 3 * 4)) t;
          t = Put32 (2 * 4) (Get32 s (y + 0 * 4) - Get32 s (y + 1 * 4)) t;
          t = Put32 (3 * 4) (Get32 s (y + 2 * 4) - Get32 s (y + 3 * 4)) t
      in memcpy x t 0 16 s)"

definition MmxPunpcklbw :: kernel where
  "MmxPunpcklbw x y s =
     (let s = Put8 (x + 7) (s (y + 3)) s;
          s = Put8 (x + 6) (s (x + 3)) s;
          s = Put8 (x + 5) (s (y + 2)) s;
          s = Put8 (x + 4) (s (x + 2)) s;
          s = Put8 (x + 3) (s (y + 1)) s;
          s = Put8 (x + 2) (s (x + 1)) s;
          s = Put8 (x + 1) (s (y + 0)) s;
          s = Put8 (x + 0) (s (x + 0)) s
      in s)"

definition MmxPunpckhbw :: kernel where
  "MmxPunpckhbw x y s =
     (let s = Put8 (x + 0) (s (x + 4)) s;
          s = Put8 (x + 1) (s (y + 4)) s;
          s = Put8 (x + 2) (s (x + 5)) s;
          s = Put8 (x + 3) (s (y + 5)) s;
          s = Put8 (x + 4) (s (x + 6)) s;
          s = Put8 (x + 5) (s (y + 6)) s;
          s = Put8 (x + 6) (s (x + 7)) s;
          s = Put8 (x + 7) (s (y + 7)) s
      in s)"

definition MmxPunpcklwd :: kernel where
  "MmxPunpcklwd x y s =
     (let s = Put8 (x + 6) (s (y + 2)) s;
          s = Put8 (x + 7) (s (y + 3)) s;
          s = Put8 (x + 4) (s (x + 2)) s;
          s = Put8 (x + 5) (s (x + 3)) s;
          s = Put8 (x + 2) (s (y + 0)) s;
          s = Put8 (x + 3) (s (y + 1)) s;
          s = Put8 (x + 0) (s (x + 0)) s;
          s = Put8 (x + 1) (s (x + 1)) s
      in s)"

definition MmxPunpckldq :: kernel where
  "MmxPunpckldq x y s =
     (let s = Put8 (x + 4) (s (y + 0)) s;
          s = Put8 (x + 5) (s (y + 1)) s;
          s = Put8 (x + 6) (s (y + 2)) s;
          s = Put8 (x + 7) (s (y + 3)) s;
          s = Put8 (x + 0) (s (x + 0)) s;
          s = Put8 (x + 1) (s (x + 1)) s;
          s = Put8 (x + 2) (s (x + 2)) s;
          s = Put8 (x + 3) (s (x + 3)) s
      in s)"

definition MmxPunpckhwd :: kernel where
  "MmxPunpckhwd x y s =
     (let s = Put8 (x + 0) (s (x + 4)) s;
          s = Put8 (x + 1) (s (x + 5)) s;
          s = Put8 (x + 2) (s (y + 4)) s;
          s = Put8 (x + 3) (s (y + 5)) s;
          s = Put8 (x + 4) (s (x + 6)) s;
          s = Put8 (x + 5) (s (x + 7)) s;
          s = Put8 (x + 6) (s (y + 6)) s;
          s = Put8 (x + 7) (s (y + 7)) s
      in s)"

definition MmxPunpckhdq :: kernel where
  "MmxPunpckhdq x y s =
     (let s = Put8 (x + 0) (s (x + 4)) s;
          s = Put8 (x + 1) (s (x + 5)) s;
          s = Put8 (x + 2) (s (x + 6)) s;
          s = Put8 (x + 3) (s (x + 7)) s;
          s = Put8 (x + 4) (s (y + 4)) s;
          s = Put8 (x + 5) (s (y + 5)) s;
          s = Put8 (x + 6) (s (y + 6)) s;
          s = Put8 (x + 7) (s (y + 7)) s
      in s)"

definition MmxPunpcklqdq :: kernel where
  "MmxPunpcklqdq x y s =
     s"

definition MmxPunpckhqdq :: kernel where
  "MmxPunpckhqdq x y s =
     s"

definition SsePunpcklbw :: kernel where
  "SsePunpcklbw x y s =
     (let s = Put8 (x + 15) (s (y + 7)) s;
          s = Put8 (x + 14) (s (x + 7)) s;
          s = Put8 (x + 13) (s (y + 6)) s;
          s = Put8 (x + 12) (s (x + 6)) s;
          s = Put8 (x + 11) (s (y + 5)) s;
          s = Put8 (x + 10) (s (x + 5)) s;
          s = Put8 (x + 9) (s (y + 4)) s;
          s = Put8 (x + 8) (s (x + 4)) s;
          s = Put8 (x + 7) (s (y + 3)) s;
          s = Put8 (x + 6) (s (x + 3)) s;
          s = Put8 (x + 5) (s (y + 2)) s;
          s = Put8 (x + 4) (s (x + 2)) s;
          s = Put8 (x + 3) (s (y + 1)) s;
          s = Put8 (x + 2) (s (x + 1)) s;
          s = Put8 (x + 1) (s (y + 0)) s;
          s = Put8 (x + 0) (s (x + 0)) s
      in s)"

definition SsePunpckhbw :: kernel where
  "SsePunpckhbw x y s =
     (let s = Put8 (x + 0) (s (x + 8)) s;
          s = Put8 (x + 1) (s (y + 8)) s;
          s = Put8 (x + 2) (s (x + 9)) s;
          s = Put8 (x + 3) (s (y + 9)) s;
          s = Put8 (x + 4) (s (x + 10)) s;
          s = Put8 (x + 5) (s (y + 10)) s;
          s = Put8 (x + 6) (s (x + 11)) s;
          s = Put8 (x + 7) (s (y + 11)) s;
          s = Put8 (x + 8) (s (x + 12)) s;
          s = Put8 (x + 9) (s (y + 12)) s;
          s = Put8 (x + 10) (s (x + 13)) s;
          s = Put8 (x + 11) (s (y + 13)) s;
          s = Put8 (x + 12) (s (x + 14)) s;
          s = Put8 (x + 13) (s (y + 14)) s;
          s = Put8 (x + 14) (s (x + 15)) s;
          s = Put8 (x + 15) (s (y + 15)) s
      in s)"

definition SsePunpcklwd :: kernel where
  "SsePunpcklwd x y s =
     (let s = Put8 (x + 14) (s (y + 6)) s;
          s = Put8 (x + 15) (s (y + 7)) s;
          s = Put8 (x + 12) (s (x + 6)) s;
          s = Put8 (x + 13) (s (x + 7)) s;
          s = Put8 (x + 10) (s (y + 4)) s;
          s = Put8 (x + 11) (s (y + 5)) s;
          s = Put8 (x + 8) (s (x + 4)) s;
          s = Put8 (x + 9) (s (x + 5)) s;
          s = Put8 (x + 6) (s (y + 2)) s;
          s = Put8 (x + 7) (s (y + 3)) s;
          s = Put8 (x + 4) (s (x + 2)) s;
          s = Put8 (x + 5) (s (x + 3)) s;
          s = Put8 (x + 2) (s (y + 0)) s;
          s = Put8 (x + 3) (s (y + 1)) s;
          s = Put8 (x + 0) (s (x + 0)) s;
          s = Put8 (x + 1) (s (x + 1)) s
      in s)"

definition SsePunpckldq :: kernel where
  "SsePunpckldq x y s =
     (let s = Put8 (x + 12) (s (y + 4)) s;
          s = Put8 (x + 13) (s (y + 5)) s;
          s = Put8 (x + 14) (s (y + 6)) s;
          s = Put8 (x + 15) (s (y + 7)) s;
          s = Put8 (x + 8) (s (x + 4)) s;
          s = Put8 (x + 9) (s (x + 5)) s;
          s = Put8 (x + 10) (s (x + 6)) s;
          s = Put8 (x + 11) (s (x + 7)) s;
          s = Put8 (x + 4) (s (y + 0)) s;
          s = Put8 (x + 5) (s (y + 1)) s;
          s = Put8 (x + 6) (s (y + 2)) s;
          s = Put8 (x + 7) (s (y + 3)) s;
          s = Put8 (x + 0) (s (x + 0)) s;
          s = Put8 (x + 1) (s (x + 1)) s;
          s = Put8 (x + 2) (s (x + 2)) s;
          s = Put8 (x + 3) (s (x + 3)) s
      in s)"

definition SsePunpckhwd :: kernel where
  "SsePunpckhwd x y s =
     (let s = Put8 (x + 0) (s (x + 8)) s;
          s = Put8 (x + 1) (s (x + 9)) s;
          s = Put8 (x + 2) (s (y + 8)) s;
          s = Put8 (x + 3) (s (y + 9)) s;
          s = Put8 (x + 4) (s (x + 10)) s;
          s = Put8 (x + 5) (s (x + 11)) s;
          s = Put8 (x + 6) (s (y + 10)) s;
          s = Put8 (x + 7) (s (y + 11)) s;
          s = Put8 (x + 8) (s (x + 12)) s;
          s = Put8 (x + 9) (s (x + 13)) s;
          s = Put8 (x + 10) (s (y + 12)) s;
          s = Put8 (x + 11) (s (y + 13)) s;
          s = Put8 (x + 12) (s (x + 14)) s;
          s = Put8 (x + 13) (s (x + 15)) s;
          s = Put8 (x + 14) (s (y + 14)) s;
          s = Put8 (x + 15) (s (y + 15)) s
      in s)"

definition SsePunpckhdq :: kernel where
  "SsePunpckhdq x y s =
     (let s = Put8 (x + 0) (s (x + 8)) s;
          s = Put8 (x + 1) (s (x + 9)) s;
          s = Put8 (x + 2) (s (x + 10)) s;
          s = Put8 (x + 3) (s (x + 11)) s;
          s = Put8 (x + 4) (s (y + 8)) s;
          s = Put8 (x + 5) (s (y + 9)) s;
          s = Put8 (x + 6) (s (y + 10)) s;
          s = Put8 (x + 7) (s (y + 11)) s;
          s = Put8 (x + 8) (s (x + 12)) s;
          s = Put8 (x + 9) (s (x + 13)) s;
          s = Put8 (x + 10) (s (x + 14)) s;
          s = Put8 (x + 11) (s (x + 15)) s;
          s = Put8 (x + 12) (s (y + 12)) s;
          s = Put8 (x + 13) (s (y + 13)) s;
          s = Put8 (x + 14) (s (y + 14)) s;
          s = Put8 (x + 15) (s (y + 15)) s
      in s)"

definition SsePunpcklqdq :: kernel where
  "SsePunpcklqdq x y s =
     (let s = Put8 (x + 8) (s (y + 0)) s;
          s = Put8 (x + 9) (s (y + 1)) s;
          s = Put8 (x + 10) (s (y + 2)) s;
          s = Put8 (x + 11) (s (y + 3)) s;
          s = Put8 (x + 12) (s (y + 4)) s;
          s = Put8 (x + 13) (s (y + 5)) s;
          s = Put8 (x + 14) (s (y + 6)) s;
          s = Put8 (x + 15) (s (y + 7)) s;
          s = Put8 (x + 0) (s (x + 0)) s;
          s = Put8 (x + 1) (s (x + 1)) s;
          s = Put8 (x + 2) (s (x + 2)) s;
          s = Put8 (x + 3) (s (x + 3)) s;
          s = Put8 (x + 4) (s (x + 4)) s;
          s = Put8 (x + 5) (s (x + 5)) s;
          s = Put8 (x + 6) (s (x + 6)) s;
          s = Put8 (x + 7) (s (x + 7)) s
      in s)"

definition SsePunpckhqdq :: kernel where
  "SsePunpckhqdq x y s =
     (let s = Put8 (x + 0) (s (x + 8)) s;
          s = Put8 (x + 1) (s (x + 9)) s;
          s = Put8 (x + 2) (s (x + 10)) s;
          s = Put8 (x + 3) (s (x + 11)) s;
          s = Put8 (x + 4) (s (x + 12)) s;
          s = Put8 (x + 5) (s (x + 13)) s;
          s = Put8 (x + 6) (s (x + 14)) s;
          s = Put8 (x + 7) (s (x + 15)) s;
          s = Put8 (x + 8) (s (y + 8)) s;
          s = Put8 (x + 9) (s (y + 9)) s;
          s = Put8 (x + 10) (s (y + 10)) s;
          s = Put8 (x + 11) (s (y + 11)) s;
          s = Put8 (x + 12) (s (y + 12)) s;
          s = Put8 (x + 13) (s (y + 13)) s;
          s = Put8 (x + 14) (s (y + 14)) s;
          s = Put8 (x + 15) (s (y + 15)) s
      in s)"

section \<open>The octoword kernels\<close>

definition SsePsubd :: kernel where
  "SsePsubd x y s =
     for_loop 4 (\<lambda>i s. Put32 (x + i * 4)
       (Get32 s (x + i * 4) - Get32 s (y + i * 4)) s) s"

definition SsePaddd :: kernel where
  "SsePaddd x y s =
     for_loop 4 (\<lambda>i s. Put32 (x + i * 4)
       (Get32 s (x + i * 4) + Get32 s (y + i * 4)) s) s"

definition SsePaddq :: kernel where
  "SsePaddq x y s =
     for_loop 2 (\<lambda>i s. Put64 (x + i * 8)
       (Get64 s (x + i * 8) + Get64 s (y + i * 8)) s) s"

definition SsePsubq :: kernel where
  "SsePsubq x y s =
     for_loop 2 (\<lambda>i s. Put64 (x + i * 8)
       (Get64 s (x + i * 8) - Get64 s (y + i * 8)) s) s"

definition MmxPsadbw :: kernel where
  "MmxPsadbw x y s =
     (let u = fold (\<lambda>i u. u + word_of_int (c_abs (uint (s (x + i)) - uint (s (y + i))))) [0..<4] 0;
          t = fold (\<lambda>i u. u + word_of_int (c_abs (uint (s (x + i)) - uint (s (y + i))))) [4..<8] 0;
          s = Put32 (x + 0) u s
      in Put32 (x + 4) t s)"

definition SsePsadbw :: kernel where
  "SsePsadbw x y s =
     (let u = fold (\<lambda>i u. u + word_of_int (c_abs (uint (s (x + i)) - uint (s (y + i))))) [0..<8] (0 :: u32);
          t = fold (\<lambda>i u. u + word_of_int (c_abs (uint (s (x + i)) - uint (s (y + i))))) [8..<16] (0 :: u32);
          s = Put64 (x + 0) (to_u64 u) s
      in Put64 (x + 8) (to_u64 t) s)"

definition SsePmuludq :: kernel where
  "SsePmuludq x y s =
     for_loop 2 (\<lambda>i s. Put64 (x + i * 8)
       (to_u64 (Get32 s (x + i * 8)) * to_u64 (Get32 s (y + i * 8))) s) s"

definition SsePsrlw :: kernel_imm where
  "SsePsrlw x k s =
     MmxPsrlw (x + 8) k (MmxPsrlw (x + 0) k s)"

definition SsePsraw :: kernel_imm where
  "SsePsraw x k s =
     MmxPsraw (x + 8) k (MmxPsraw (x + 0) k s)"

definition SsePsllw :: kernel_imm where
  "SsePsllw x k s =
     MmxPsllw (x + 8) k (MmxPsllw (x + 0) k s)"

definition SsePsrld :: kernel_imm where
  "SsePsrld x k s =
     MmxPsrld (x + 8) k (MmxPsrld (x + 0) k s)"

definition SsePsrad :: kernel_imm where
  "SsePsrad x k s =
     MmxPsrad (x + 8) k (MmxPsrad (x + 0) k s)"

definition SsePslld :: kernel_imm where
  "SsePslld x k s =
     MmxPslld (x + 8) k (MmxPslld (x + 0) k s)"

definition SsePsrlq :: kernel_imm where
  "SsePsrlq x k s =
     MmxPsrlq (x + 8) k (MmxPsrlq (x + 0) k s)"

definition SsePsllq :: kernel_imm where
  "SsePsllq x k s =
     MmxPsllq (x + 8) k (MmxPsllq (x + 0) k s)"

definition SsePsubsb :: kernel where
  "SsePsubsb x y s =
     (let X = memcpy 0 s x 16 local_array;
          Y = memcpy 0 s y 16 local_array;
          X = for_loop 16 (\<lambda>i X. Put8 i (word_of_int (clamp (-128) 127 (sint (X i) - sint (Y i)))) X) X
      in memcpy x X 0 16 s)"

definition SsePaddsb :: kernel where
  "SsePaddsb x y s =
     (let X = memcpy 0 s x 16 local_array;
          Y = memcpy 0 s y 16 local_array;
          X = for_loop 16 (\<lambda>i X. Put8 i (word_of_int (clamp (-128) 127 (sint (X i) + sint (Y i)))) X) X
      in memcpy x X 0 16 s)"

definition SsePaddusb :: kernel where
  "SsePaddusb x y s =
     (let X = memcpy 0 s x 16 local_array;
          Y = memcpy 0 s y 16 local_array;
          X = for_loop 16 (\<lambda>i X. Put8 i (word_of_int (min 255 (uint (X i) + uint (Y i)))) X) X
      in memcpy x X 0 16 s)"

definition SsePsubusb :: kernel where
  "SsePsubusb x y s =
     (let X = memcpy 0 s x 16 local_array;
          Y = memcpy 0 s y 16 local_array;
          X = for_loop 16 (\<lambda>i X. Put8 i (word_of_int (min 255 (max 0 (uint (X i) - uint (Y i))))) X) X
      in memcpy x X 0 16 s)"

definition SsePsubusw :: kernel where
  "SsePsubusw x y s =
     MmxPsubusw (x + 8) (y + 8) (MmxPsubusw (x + 0) (y + 0) s)"

definition SsePminsw :: kernel where
  "SsePminsw x y s =
     MmxPminsw (x + 8) (y + 8) (MmxPminsw (x + 0) (y + 0) s)"

definition SsePmaxsw :: kernel where
  "SsePmaxsw x y s =
     MmxPmaxsw (x + 8) (y + 8) (MmxPmaxsw (x + 0) (y + 0) s)"

definition SsePsignb :: kernel where
  "SsePsignb x y s =
     MmxPsignb (x + 8) (y + 8) (MmxPsignb (x + 0) (y + 0) s)"

definition SsePsignw :: kernel where
  "SsePsignw x y s =
     MmxPsignw (x + 8) (y + 8) (MmxPsignw (x + 0) (y + 0) s)"

definition SsePsignd :: kernel where
  "SsePsignd x y s =
     MmxPsignd (x + 8) (y + 8) (MmxPsignd (x + 0) (y + 0) s)"

definition SsePmulhrsw :: kernel where
  "SsePmulhrsw x y s =
     MmxPmulhrsw (x + 8) (y + 8) (MmxPmulhrsw (x + 0) (y + 0) s)"

definition SsePabsw :: kernel where
  "SsePabsw x y s =
     MmxPabsw (x + 8) (y + 8) (MmxPabsw (x + 0) (y + 0) s)"

definition SsePabsd :: kernel where
  "SsePabsd x y s =
     MmxPabsd (x + 8) (y + 8) (MmxPabsd (x + 0) (y + 0) s)"

definition SsePcmpgtd :: kernel where
  "SsePcmpgtd x y s =
     MmxPcmpgtd (x + 8) (y + 8) (MmxPcmpgtd (x + 0) (y + 0) s)"

definition SsePcmpeqd :: kernel where
  "SsePcmpeqd x y s =
     MmxPcmpeqd (x + 8) (y + 8) (MmxPcmpeqd (x + 0) (y + 0) s)"

definition SsePmaddwd :: kernel where
  "SsePmaddwd x y s =
     MmxPmaddwd (x + 8) (y + 8) (MmxPmaddwd (x + 0) (y + 0) s)"

definition SsePmulhuw :: kernel where
  "SsePmulhuw x y s =
     MmxPmulhuw (x + 8) (y + 8) (MmxPmulhuw (x + 0) (y + 0) s)"

definition SsePmaddubsw :: kernel where
  "SsePmaddubsw x y s =
     MmxPmaddubsw (x + 8) (y + 8) (MmxPmaddubsw (x + 0) (y + 0) s)"

definition SsePsrawv :: kernel where
  "SsePsrawv x y s =
     MmxPsrawv (x + 8) y (MmxPsrawv (x + 0) y s)"

definition SsePsradv :: kernel where
  "SsePsradv x y s =
     MmxPsradv (x + 8) y (MmxPsradv (x + 0) y s)"

definition SsePsrlwv :: kernel where
  "SsePsrlwv x y s =
     MmxPsrlwv (x + 8) y (MmxPsrlwv (x + 0) y s)"

definition SsePsllwv :: kernel where
  "SsePsllwv x y s =
     MmxPsllwv (x + 8) y (MmxPsllwv (x + 0) y s)"

definition SsePsrldv :: kernel where
  "SsePsrldv x y s =
     MmxPsrldv (x + 8) y (MmxPsrldv (x + 0) y s)"

definition SsePslldv :: kernel where
  "SsePslldv x y s =
     MmxPslldv (x + 8) y (MmxPslldv (x + 0) y s)"

definition SsePsrlqv :: kernel where
  "SsePsrlqv x y s =
     MmxPsrlqv (x + 8) y (MmxPsrlqv (x + 0) y s)"

definition SsePsllqv :: kernel where
  "SsePsllqv x y s =
     MmxPsllqv (x + 8) y (MmxPsllqv (x + 0) y s)"

definition SsePmulld :: kernel where
  "SsePmulld x y s =
     (let X = [Get32 s x, Get32 s (x + 4), Get32 s (x + 8), Get32 s (x + 12)];
          Y = [Get32 s y, Get32 s (y + 4), Get32 s (y + 8), Get32 s (y + 12)];
          X = fold (\<lambda>i X. X[i := X ! i * Y ! i]) [0..<4] X
      in for_loop 4 (\<lambda>i s. Put32 (x + i * 4) (X ! i) s) s)"

section \<open>Saturating horizontal sums of mmx.c\<close>

definition Clamp16 :: "int \<Rightarrow> int" where
  "Clamp16 x = max (-32768) (min 32767 x)"

definition Phsw :: "nat \<Rightarrow> nat \<Rightarrow> (int \<Rightarrow> int \<Rightarrow> int) \<Rightarrow> ram \<Rightarrow> ram" where
  "Phsw x y Op s =
     (let t = for_loop 2 (\<lambda>i t. Put16 (i * 2)
            (word_of_int (Clamp16 (Op (sint (Get16 s (x + (i * 2) * 2))) (sint (Get16 s (x + (i * 2 + 1) * 2)))))) t) local_array;
          t = for_loop 2 (\<lambda>i t. Put16 ((2 + i) * 2)
            (word_of_int (Clamp16 (Op (sint (Get16 s (y + (i * 2) * 2))) (sint (Get16 s (y + (i * 2 + 1) * 2)))))) t) t
      in memcpy x t 0 8 s)"

definition MmxPhaddsw :: kernel where
  "MmxPhaddsw x y s =
     Phsw x y (\<lambda>a b. a + b) s"

definition MmxPhsubsw :: kernel where
  "MmxPhsubsw x y s =
     Phsw x y (\<lambda>a b. a - b) s"

end
