(* ===== verification/SimdSpec.thy ===== *)
theory SimdSpec
  imports Simd
begin

text \<open>
  The lane-wise arithmetic kernels: a loop over lanes with an accessor that obeys the laws of
  \<open>lane\<close> computes every lane from the old contents, also when both operands are the same
  register; the quadword kernels are instances, and an octoword kernel that runs a quadword kernel
  on both halves inherits its lane function.
\<close>

section \<open>Lane loops\<close>

text \<open>
  What it means for a kernel to compute \<open>n\<close> lanes of \<open>w\<close> bytes by \<open>F\<close>: whenever destination and
  source are the same or disjoint, every lane of the destination becomes \<open>F\<close> of the old lanes, and
  no other byte changes.
\<close>

definition computes :: "(ram \<Rightarrow> nat \<Rightarrow> 'v) \<Rightarrow> nat \<Rightarrow> nat \<Rightarrow> ('v \<Rightarrow> 'v \<Rightarrow> 'v) \<Rightarrow> kernel \<Rightarrow> bool" where
  "computes get w n F k \<longleftrightarrow> (\<forall>x y s. x = y \<or> x + n * w \<le> y \<or> y + n * w \<le> x \<longrightarrow>
     (\<forall>j<n. get (k x y s) (x + j * w) = F (get s (x + j * w)) (get s (y + j * w))) \<and>
     (\<forall>a. a < x \<or> x + n * w \<le> a \<longrightarrow> k x y s a = s a))"

context lane
begin

text \<open>
  A loop that updates lane after lane of \<open>x\<close> from the same lane of \<open>x\<close> and \<open>y\<close> computes every lane
  from the old contents, when both arrays are the same or disjoint, and writes nothing else.
\<close>

lemma lanes_loop:
  assumes body: "\<And>i s. i < n \<Longrightarrow> f i s = put (x + i * w) (F (get s (x + i * w)) (get s (y + i * w))) s"
    and al: "x = y \<or> x + n * w \<le> y \<or> y + n * w \<le> x" and m: "m \<le> n"
  shows "(\<forall>j<n. get (for_loop m f s) (x + j * w) =
      (if j < m then F (get s (x + j * w)) (get s (y + j * w)) else get s (x + j * w))) \<and>
    (\<forall>a. a < x \<or> x + m * w \<le> a \<longrightarrow> for_loop m f s a = s a)"
  using m
proof (induction m)
  case 0
  then show ?case by (simp add: for_loop_def)
next
  case (Suc m)
  let ?s = "for_loop m f s"
  have IH: "\<And>j. j < n \<Longrightarrow> get ?s (x + j * w) =
      (if j < m then F (get s (x + j * w)) (get s (y + j * w)) else get s (x + j * w))"
    and fr: "\<And>a. a < x \<or> x + m * w \<le> a \<Longrightarrow> ?s a = s a"
    using Suc by auto
  have step: "for_loop (Suc m) f s = put (x + m * w) (F (get ?s (x + m * w)) (get ?s (y + m * w))) ?s"
    using Suc.prems body [of m ?s] by (simp add: for_loop_def)
  have gx: "get ?s (x + m * w) = get s (x + m * w)" using IH [of m] Suc.prems by simp
  have gy: "get ?s (y + m * w) = get s (y + m * w)"
  proof (cases "x = y")
    case False
    have mw: "m * w + w \<le> n * w" using Suc.prems by (metis Suc_le_eq add.commute mult_Suc mult_le_mono1 Suc.prems)
    show ?thesis
      by (rule get_cong, rule fr) (use al False mw in auto)
  qed (use gx in simp)
  have other: "get (put (x + m * w) v ?s) (x + j * w) = get ?s (x + j * w)" if "j \<noteq> m" for j v
  proof -
    have "j * w + w \<le> m * w \<or> m * w + w \<le> j * w"
      using that by (metis Suc_leI add.commute linorder_neqE_nat mult_Suc mult_le_mono1)
    then show ?thesis by (intro get_put_other) auto
  qed
  show ?case
  proof (intro conjI allI impI)
    fix j assume "j < n"
    then show "get (for_loop (Suc m) f s) (x + j * w) =
      (if j < Suc m then F (get s (x + j * w)) (get s (y + j * w)) else get s (x + j * w))"
      unfolding step gx gy using other [of j] IH [of j] by (cases "j = m") (auto simp: get_put)
  next
    fix a assume "a < x \<or> x + Suc m * w \<le> a"
    then show "for_loop (Suc m) f s a = s a"
      unfolding step using fr [of a] by (subst put_frame) auto
  qed
qed

lemma computes_loop:
  assumes "\<And>x y s. k x y s = for_loop n (f x y) s"
    and "\<And>x y i s. f x y i s = put (x + i * w) (F (get s (x + i * w)) (get s (y + i * w))) s"
  shows "computes get w n F k"
  unfolding computes_def assms(1)
proof (intro allI impI)
  fix x y s
  assume "x = y \<or> x + n * w \<le> y \<or> y + n * w \<le> x"
  then show "(\<forall>j<n. get (for_loop n (f x y) s) (x + j * w) = F (get s (x + j * w)) (get s (y + j * w))) \<and>
      (\<forall>a. a < x \<or> x + n * w \<le> a \<longrightarrow> for_loop n (f x y) s a = s a)"
    using lanes_loop [where n = n and m = n and f = "f x y" and x = x and y = y and F = F and s = s]
      assms(2) by auto
qed

lemma computes_single:
  assumes "\<And>x y s. k x y s = put x (F (get s x) (get s y)) s"
  shows "computes get w 1 F k"
  unfolding computes_def assms by (auto simp: get_put put_frame)

text \<open>A loop that stores values computed beforehand.\<close>

lemma values_loop:
  "(\<forall>j<n. get (for_loop n (\<lambda>i. put (x + i * w) (V i)) s) (x + j * w) = V j) \<and>
    (\<forall>a. a < x \<or> x + n * w \<le> a \<longrightarrow> for_loop n (\<lambda>i. put (x + i * w) (V i)) s a = s a)"
proof (induction n)
  case 0
  then show ?case by (simp add: for_loop_def)
next
  case (Suc n)
  let ?s = "for_loop n (\<lambda>i. put (x + i * w) (V i)) s"
  have step: "for_loop (Suc n) (\<lambda>i. put (x + i * w) (V i)) s = put (x + n * w) (V n) ?s"
    by (simp add: for_loop_def)
  have "get (put (x + n * w) (V n) ?s) (x + j * w) = V j" if "j < Suc n" for j
  proof (cases "j = n")
    case False
    then have "j * w + w \<le> n * w" using that by (metis Suc_leI add.commute less_SucE mult_Suc mult_le_mono1)
    then show ?thesis using False that Suc get_put_other by (auto simp: less_Suc_eq)
  qed (simp add: get_put)
  moreover have "put (x + n * w) (V n) ?s a = s a" if "a < x \<or> x + Suc n * w \<le> a" for a
    using Suc that by (subst put_frame) auto
  ultimately show ?case unfolding step by blast
qed

text \<open>Two halves of eight bytes make a kernel of sixteen bytes.\<close>

lemma computes_halves:
  assumes k: "computes get w n F k" and h: "h = n * w" and K: "\<And>x y s. K x y s = k (x + h) (y + h) (k (x + 0) (y + 0) s)"
  shows "computes get w (2 * n) F K"
  unfolding computes_def
proof (intro allI impI)
  fix x y s
  assume al: "x = y \<or> x + 2 * n * w \<le> y \<or> y + 2 * n * w \<le> x"
  let ?t = "k x y s"
  have lo: "\<And>j. j < n \<Longrightarrow> get ?t (x + j * w) = F (get s (x + j * w)) (get s (y + j * w))"
    and lof: "\<And>a. a < x \<or> x + n * w \<le> a \<Longrightarrow> ?t a = s a"
    using k al unfolding computes_def by auto
  have "x + h = y + h \<or> x + h + n * w \<le> y + h \<or> y + h + n * w \<le> x + h" using al h by auto
  then have hi: "\<And>j. j < n \<Longrightarrow> get (k (x + h) (y + h) ?t) (x + h + j * w) = F (get ?t (x + h + j * w)) (get ?t (y + h + j * w))"
    and hif: "\<And>a. a < x + h \<or> x + h + n * w \<le> a \<Longrightarrow> k (x + h) (y + h) ?t a = ?t a"
    using k unfolding computes_def by auto
  have same: "get ?t (x + h + j * w) = get s (x + h + j * w)" for j
    by (rule get_cong, rule lof) (use h in auto)
  have same_y: "get ?t (y + h + j * w) = get s (y + h + j * w)" if "j < n" for j
  proof (cases "x = y")
    case False
    have "j * w + w \<le> n * w" using that by (metis Suc_leI add.commute mult_Suc mult_le_mono1)
    then show ?thesis
      by (intro get_cong lof) (use al h False in auto)
  qed (use same in simp)
  show "(\<forall>j<2 * n. get (K x y s) (x + j * w) = F (get s (x + j * w)) (get s (y + j * w))) \<and>
      (\<forall>a. a < x \<or> x + 2 * n * w \<le> a \<longrightarrow> K x y s a = s a)"
  proof (intro conjI allI impI)
    fix j assume j: "j < 2 * n"
    show "get (K x y s) (x + j * w) = F (get s (x + j * w)) (get s (y + j * w))"
    proof (cases "j < n")
      case True
      have "j * w + w \<le> n * w" using True by (metis Suc_leI add.commute mult_Suc mult_le_mono1)
      then have "get (k (x + h) (y + h) ?t) (x + j * w) = get ?t (x + j * w)"
        by (intro get_cong hif) (use h in auto)
      then show ?thesis using lo [OF True] by (simp add: K)
    next
      case False
      then obtain i where "j = n + i" "i < n" using j less_diff_conv2 by (metis add_diff_inverse_nat mult_2 nat_add_left_cancel_less)
      then show ?thesis using hi [of i] same [of i] same_y [of i] by (simp add: K h algebra_simps)
    qed
  next
    fix a assume "a < x \<or> x + 2 * n * w \<le> a"
    then show "K x y s a = s a" using hif [of a] lof [of a] by (auto simp: K h)
  qed
qed

end


section \<open>The lane functions\<close>

text \<open>Saturation of a number to the unsigned and the signed range of a lane.\<close>

definition sat_u :: "int \<Rightarrow> 'a::len word" where
  "sat_u v = word_of_int (max 0 (min (2 ^ LENGTH('a) - 1) v))"

definition sat_s :: "int \<Rightarrow> 'a::len word" where
  "sat_s v = word_of_int (max (- (2 ^ (LENGTH('a) - 1))) (min (2 ^ (LENGTH('a) - 1) - 1) v))"

definition cmp_mask :: "bool \<Rightarrow> 'a::len word" where
  "cmp_mask b = (if b then - 1 else 0)"

abbreviation (input) low_byte :: "'a::len word \<Rightarrow> u8" where "low_byte a \<equiv> to_u8 a"
abbreviation (input) high_byte :: "'a::len word \<Rightarrow> u8" where "high_byte a \<equiv> to_u8 (shr a 8)"

lemma byte_offsets:
  "(8 + n) div 8 = n div 8 + 1" "(16 + n) div 8 = n div 8 + 2" "(8 + n) mod 8 = n mod 8" "(16 + n) mod 8 = n mod 8"
  for n :: nat
  by presburger+

lemma get_parts:
  "to_u8 (Get16 s p) = s p" "to_u8 (shr (Get16 s p) 8) = s (p + 1)"
  "to_u16 (Get32 s p) = Get16 s p" "to_u16 (shr (Get32 s p) 16) = Get16 s (p + 2)"
  "to_u32 (Get64 s p) = Get32 s p"
  by (intro bit_word_eqI; simp add: bit_unsigned_iff bit_drop_bit_eq bit_Get16 bit_Get32 bit_Get64
      byte_offsets add.assoc add.left_commute)+

lemma sat_8:
  "word_of_int (min 255 (max 0 v)) = (sat_u v :: u8)" "word_of_int (clamp (-128) 127 v) = (sat_s v :: u8)"
  by (auto simp: sat_u_def sat_s_def min_def max_def)

lemma sat_16:
  "word_of_int (min 65535 (max 0 v)) = (sat_u v :: u16)" "word_of_int (clamp (-32768) 32767 v) = (sat_s v :: u16)"
  by (auto simp: sat_u_def sat_s_def min_def max_def)

lemma cmp_mask_of_bool: "- of_bool b = cmp_mask b"
  by (simp add: cmp_mask_def)

lemma sat_sum:
  "word_of_int (min 255 (uint a + uint b)) = (sat_u (uint a + uint b) :: u8)"
  "word_of_int (min 65535 (uint c + uint d)) = (sat_u (uint c + uint d) :: u16)" for a b :: u8 and c d :: u16
  by (simp_all add: sat_u_def min_def max_def)

lemma c_abs_abs: "c_abs v = \<bar>v\<bar>" by (simp add: c_abs_def)


lemmas computes_lane8 = lane8.computes_loop [unfolded mult_1_right Get8_def]

lemma put_back: "Put8 p (s p) s = s"
  by (simp add: Put8_def)

lemma psign_lane:
  "(if sint b = 0 then Put8 p 0 s else if sint b < 0 then Put8 p (word_of_int (- sint (s p))) s else s)
    = Put8 p (word_of_int (sgn (sint b) * sint (s p))) s" for b :: u8
  by (auto simp: sgn_if put_back)

lemma psignw_lane:
  "(if sint b = 0 then Put16 p 0 s else if sint b < 0 then Put16 p (word_of_int (- sint (Get16 s p))) s else s)
    = Put16 p (word_of_int (sgn (sint b) * sint (Get16 s p))) s" for b :: u16
  by (auto simp: sgn_if Put_Get)

lemma psignd_lane:
  "(if sint b = 0 then Put32 p 0 s else if sint b < 0 then Put32 p (- Get32 s p) s else s)
    = Put32 p (word_of_int (sgn (sint b) * sint (Get32 s p))) s" for b :: u32
  by (auto simp: sgn_if Put_Get)

lemma pabsd_lane: "(if 0 \<le> sint b then b else - b) = word_of_int \<bar>sint b\<bar>" for b :: u32
  by (auto simp: abs_if)

lemma pmulhuw_lane: "to_u16 (shr (to_u32 a * to_u32 b) 16) = word_of_int (uint a * uint b div 65536)" for a b :: u16
proof -
  have "uint a * uint b < 2 ^ 16 * 2 ^ 16"
    using uint_lt2p [of a] uint_lt2p [of b] by (intro mult_strict_mono) simp_all
  then have P: "uint a * uint b < 2 ^ 32" by simp
  have u: "uint (to_u32 a * to_u32 b) = uint a * uint b"
    using P by (simp add: uint_word_ariths unsigned_ucast_eq bintr_uint)
  show ?thesis
    by (rule bit_word_eqI)
      (simp only: bit_unsigned_iff bit_drop_bit_eq comp_apply bit_word_of_int_iff u [symmetric],
        simp add: drop_bit_eq_div [of 16, simplified, symmetric] bit_drop_bit_eq bit_uint_iff)
qed

lemma pmuludq_lane: "to_u64 (to_u32 a) * to_u64 (to_u32 b) = word_of_int ((uint a mod 2 ^ 32) * (uint b mod 2 ^ 32))"
  for a b :: u64
proof -
  have "to_u64 (to_u32 v) = word_of_int (uint v mod 2 ^ 32)" for v :: u64
  proof -
    have "uint v mod 2 ^ 32 = uint (to_u64 (to_u32 v))"
      by (subst uint_copy, simp, simp add: unsigned_ucast_eq take_bit_eq_mod)
    then show ?thesis by simp
  qed
  then show ?thesis by simp
qed

lemma pmullw_lane: "word_of_int (sint a * sint b) = a * b" for a b :: u16
  by simp

lemmas lane_simps = Get8_def sat_8 sat_16 sat_sum Let_def psign_lane psignw_lane psignd_lane pabsd_lane
  pmulhuw_lane pmullw_lane drop_bit_eq_div [where 'a = int] c_abs_abs cmp_mask_of_bool get_parts

lemma MmxPaddusb_lanes: "computes Get8 1 8 (\<lambda>a b. sat_u (uint a + uint b)) MmxPaddusb"
  by (rule lane8.computes_loop, rule MmxPaddusb_def) (simp add: lane_simps)

lemma MmxPsubusb_lanes: "computes Get8 1 8 (\<lambda>a b. sat_u (uint a - uint b)) MmxPsubusb"
  by (rule lane8.computes_loop, rule MmxPsubusb_def) (simp add: lane_simps)

lemma MmxPaddsb_lanes: "computes Get8 1 8 (\<lambda>a b. sat_s (sint a + sint b)) MmxPaddsb"
  by (rule lane8.computes_loop, rule MmxPaddsb_def) (simp add: lane_simps)

lemma MmxPsubsb_lanes: "computes Get8 1 8 (\<lambda>a b. sat_s (sint a - sint b)) MmxPsubsb"
  by (rule lane8.computes_loop, rule MmxPsubsb_def) (simp add: lane_simps)

lemma MmxPsignb_lanes: "computes Get8 1 8 (\<lambda>a b. word_of_int (sgn (sint b) * sint a)) MmxPsignb"
  by (rule lane8.computes_loop, rule MmxPsignb_def) (simp add: lane_simps)

lemma MmxPaddb_lanes: "computes Get8 1 8 (\<lambda>a b. a + b) MmxPaddb"
  by (rule lane8.computes_loop, rule MmxPaddb_def) (simp add: lane_simps)

lemma MmxPsubb_lanes: "computes Get8 1 8 (\<lambda>a b. a - b) MmxPsubb"
  by (rule lane8.computes_loop, rule MmxPsubb_def) (simp add: lane_simps)

lemma MmxPavgb_lanes: "computes Get8 1 8 (\<lambda>a b. word_of_int ((uint a + uint b + 1) div 2)) MmxPavgb"
  by (rule lane8.computes_loop, rule MmxPavgb_def) (simp add: lane_simps)

lemma MmxPabsb_lanes: "computes Get8 1 8 (\<lambda>a b. word_of_int \<bar>sint b\<bar>) MmxPabsb"
  by (rule lane8.computes_loop, rule MmxPabsb_def) (simp add: lane_simps)

lemma MmxPminub_lanes: "computes Get8 1 8 (\<lambda>a b. min a b) MmxPminub"
  by (rule lane8.computes_loop, rule MmxPminub_def) (simp add: lane_simps)

lemma MmxPmaxub_lanes: "computes Get8 1 8 (\<lambda>a b. max a b) MmxPmaxub"
  by (rule lane8.computes_loop, rule MmxPmaxub_def) (simp add: lane_simps)

lemma MmxPcmpeqb_lanes: "computes Get8 1 8 (\<lambda>a b. cmp_mask (a = b)) MmxPcmpeqb"
  by (rule lane8.computes_loop, rule MmxPcmpeqb_def) (simp add: lane_simps)

lemma MmxPcmpgtb_lanes: "computes Get8 1 8 (\<lambda>a b. cmp_mask (sint a > sint b)) MmxPcmpgtb"
  by (rule lane8.computes_loop, rule MmxPcmpgtb_def) (simp add: lane_simps)

lemma MmxPsubusw_lanes: "computes Get16 2 4 (\<lambda>a b. sat_u (uint a - uint b)) MmxPsubusw"
  by (rule lane16.computes_loop, rule MmxPsubusw_def) (simp add: lane_simps)

lemma MmxPminsw_lanes: "computes Get16 2 4 (\<lambda>a b. word_of_int (min (sint a) (sint b))) MmxPminsw"
  by (rule lane16.computes_loop, rule MmxPminsw_def) (simp add: lane_simps)

lemma MmxPmaxsw_lanes: "computes Get16 2 4 (\<lambda>a b. word_of_int (max (sint a) (sint b))) MmxPmaxsw"
  by (rule lane16.computes_loop, rule MmxPmaxsw_def) (simp add: lane_simps)

lemma MmxPsignw_lanes: "computes Get16 2 4 (\<lambda>a b. word_of_int (sgn (sint b) * sint a)) MmxPsignw"
  by (rule lane16.computes_loop, rule MmxPsignw_def) (simp add: lane_simps)

lemma MmxPabsw_lanes: "computes Get16 2 4 (\<lambda>a b. word_of_int \<bar>sint b\<bar>) MmxPabsw"
  by (rule lane16.computes_loop, rule MmxPabsw_def) (simp add: lane_simps)

lemma MmxPmulhuw_lanes: "computes Get16 2 4 (\<lambda>a b. word_of_int (uint a * uint b div 2 ^ 16)) MmxPmulhuw"
  by (rule lane16.computes_loop, rule MmxPmulhuw_def) (simp add: lane_simps)

lemma MmxPmulhrsw_lanes: "computes Get16 2 4 (\<lambda>a b. word_of_int ((sint a * sint b div 2 ^ 14 + 1) div 2)) MmxPmulhrsw"
  by (rule lane16.computes_loop, rule MmxPmulhrsw_def) (simp add: lane_simps)

lemma MmxPmaddubsw_lanes: "computes Get16 2 4 (\<lambda>a b. sat_s (uint (low_byte a) * sint (low_byte b) + uint (high_byte a) * sint (high_byte b))) MmxPmaddubsw"
  by (rule lane16.computes_loop, rule MmxPmaddubsw_def) (simp add: lane_simps)

lemma MmxPaddw_lanes: "computes Get16 2 4 (\<lambda>a b. a + b) MmxPaddw"
  by (rule lane16.computes_loop, rule MmxPaddw_def) (simp add: lane_simps)

lemma MmxPsubw_lanes: "computes Get16 2 4 (\<lambda>a b. a - b) MmxPsubw"
  by (rule lane16.computes_loop, rule MmxPsubw_def) (simp add: lane_simps)

lemma MmxPaddsw_lanes: "computes Get16 2 4 (\<lambda>a b. sat_s (sint a + sint b)) MmxPaddsw"
  by (rule lane16.computes_loop, rule MmxPaddsw_def) (simp add: lane_simps)

lemma MmxPsubsw_lanes: "computes Get16 2 4 (\<lambda>a b. sat_s (sint a - sint b)) MmxPsubsw"
  by (rule lane16.computes_loop, rule MmxPsubsw_def) (simp add: lane_simps)

lemma MmxPaddusw_lanes: "computes Get16 2 4 (\<lambda>a b. sat_u (uint a + uint b)) MmxPaddusw"
  by (rule lane16.computes_loop, rule MmxPaddusw_def) (simp add: lane_simps)

lemma MmxPavgw_lanes: "computes Get16 2 4 (\<lambda>a b. word_of_int ((uint a + uint b + 1) div 2)) MmxPavgw"
  by (rule lane16.computes_loop, rule MmxPavgw_def) (simp add: lane_simps)

lemma MmxPcmpeqw_lanes: "computes Get16 2 4 (\<lambda>a b. cmp_mask (a = b)) MmxPcmpeqw"
  by (rule lane16.computes_loop, rule MmxPcmpeqw_def) (simp add: lane_simps)

lemma MmxPcmpgtw_lanes: "computes Get16 2 4 (\<lambda>a b. cmp_mask (sint a > sint b)) MmxPcmpgtw"
  by (rule lane16.computes_loop, rule MmxPcmpgtw_def) (simp add: lane_simps)

lemma MmxPmulhw_lanes: "computes Get16 2 4 (\<lambda>a b. word_of_int (sint a * sint b div 2 ^ 16)) MmxPmulhw"
  by (rule lane16.computes_loop, rule MmxPmulhw_def) (simp add: lane_simps)

lemma MmxPmullw_lanes: "computes Get16 2 4 (\<lambda>a b. a * b) MmxPmullw"
  by (rule lane16.computes_loop, rule MmxPmullw_def) (simp add: lane_simps)

lemma MmxPaddd_lanes: "computes Get32 4 2 (\<lambda>a b. a + b) MmxPaddd"
  by (rule lane32.computes_loop, rule MmxPaddd_def) (simp add: lane_simps)

lemma MmxPsubd_lanes: "computes Get32 4 2 (\<lambda>a b. a - b) MmxPsubd"
  by (rule lane32.computes_loop, rule MmxPsubd_def) (simp add: lane_simps)

lemma MmxPmulld_lanes: "computes Get32 4 2 (\<lambda>a b. a * b) MmxPmulld"
  by (rule lane32.computes_loop, rule MmxPmulld_def) (simp add: lane_simps)

lemma MmxPcmpeqd_lanes: "computes Get32 4 2 (\<lambda>a b. cmp_mask (a = b)) MmxPcmpeqd"
  by (rule lane32.computes_loop, rule MmxPcmpeqd_def) (simp add: lane_simps)

lemma MmxPcmpgtd_lanes: "computes Get32 4 2 (\<lambda>a b. cmp_mask (sint a > sint b)) MmxPcmpgtd"
  by (rule lane32.computes_loop, rule MmxPcmpgtd_def) (simp add: lane_simps)

lemma MmxPsignd_lanes: "computes Get32 4 2 (\<lambda>a b. word_of_int (sgn (sint b) * sint a)) MmxPsignd"
  by (rule lane32.computes_loop, rule MmxPsignd_def) (simp add: lane_simps)

lemma MmxPabsd_lanes: "computes Get32 4 2 (\<lambda>a b. word_of_int \<bar>sint b\<bar>) MmxPabsd"
  by (rule lane32.computes_loop, rule MmxPabsd_def) (simp add: lane_simps)

lemma MmxPmaddwd_lanes: "computes Get32 4 2 (\<lambda>a b. word_of_int (sint (to_u16 a) * sint (to_u16 b) + sint (to_u16 (shr a 16)) * sint (to_u16 (shr b 16)))) MmxPmaddwd"
  by (rule lane32.computes_loop, rule MmxPmaddwd_def) (simp add: lane_simps)

lemma MmxPaddq_lanes: "computes Get64 8 1 (\<lambda>a b. a + b) MmxPaddq"
  by (rule lane64.computes_single) (simp add: MmxPaddq_def)

lemma MmxPsubq_lanes: "computes Get64 8 1 (\<lambda>a b. a - b) MmxPsubq"
  by (rule lane64.computes_single) (simp add: MmxPsubq_def)

lemma MmxPmuludq_lanes:
  "computes Get64 8 1 (\<lambda>a b. word_of_int ((uint a mod 2 ^ 32) * (uint b mod 2 ^ 32))) MmxPmuludq"
  by (rule lane64.computes_single) (simp only: MmxPmuludq_def pmuludq_lane [symmetric] get_parts)


lemma SsePsignb_lanes: "computes Get8 1 16 (\<lambda>a b. word_of_int (sgn (sint b) * sint a)) SsePsignb"
  using lane8.computes_halves [OF MmxPsignb_lanes _ SsePsignb_def] by simp

lemma SsePsubusw_lanes: "computes Get16 2 8 (\<lambda>a b. sat_u (uint a - uint b)) SsePsubusw"
  using lane16.computes_halves [OF MmxPsubusw_lanes _ SsePsubusw_def] by simp

lemma SsePminsw_lanes: "computes Get16 2 8 (\<lambda>a b. word_of_int (min (sint a) (sint b))) SsePminsw"
  using lane16.computes_halves [OF MmxPminsw_lanes _ SsePminsw_def] by simp

lemma SsePmaxsw_lanes: "computes Get16 2 8 (\<lambda>a b. word_of_int (max (sint a) (sint b))) SsePmaxsw"
  using lane16.computes_halves [OF MmxPmaxsw_lanes _ SsePmaxsw_def] by simp

lemma SsePsignw_lanes: "computes Get16 2 8 (\<lambda>a b. word_of_int (sgn (sint b) * sint a)) SsePsignw"
  using lane16.computes_halves [OF MmxPsignw_lanes _ SsePsignw_def] by simp

lemma SsePabsw_lanes: "computes Get16 2 8 (\<lambda>a b. word_of_int \<bar>sint b\<bar>) SsePabsw"
  using lane16.computes_halves [OF MmxPabsw_lanes _ SsePabsw_def] by simp

lemma SsePmulhuw_lanes: "computes Get16 2 8 (\<lambda>a b. word_of_int (uint a * uint b div 2 ^ 16)) SsePmulhuw"
  using lane16.computes_halves [OF MmxPmulhuw_lanes _ SsePmulhuw_def] by simp

lemma SsePmulhrsw_lanes: "computes Get16 2 8 (\<lambda>a b. word_of_int ((sint a * sint b div 2 ^ 14 + 1) div 2)) SsePmulhrsw"
  using lane16.computes_halves [OF MmxPmulhrsw_lanes _ SsePmulhrsw_def] by simp

lemma SsePmaddubsw_lanes: "computes Get16 2 8 (\<lambda>a b. sat_s (uint (low_byte a) * sint (low_byte b) + uint (high_byte a) * sint (high_byte b))) SsePmaddubsw"
  using lane16.computes_halves [OF MmxPmaddubsw_lanes _ SsePmaddubsw_def] by simp

lemma SsePcmpeqd_lanes: "computes Get32 4 4 (\<lambda>a b. cmp_mask (a = b)) SsePcmpeqd"
  using lane32.computes_halves [OF MmxPcmpeqd_lanes _ SsePcmpeqd_def] by simp

lemma SsePcmpgtd_lanes: "computes Get32 4 4 (\<lambda>a b. cmp_mask (sint a > sint b)) SsePcmpgtd"
  using lane32.computes_halves [OF MmxPcmpgtd_lanes _ SsePcmpgtd_def] by simp

lemma SsePsignd_lanes: "computes Get32 4 4 (\<lambda>a b. word_of_int (sgn (sint b) * sint a)) SsePsignd"
  using lane32.computes_halves [OF MmxPsignd_lanes _ SsePsignd_def] by simp

lemma SsePabsd_lanes: "computes Get32 4 4 (\<lambda>a b. word_of_int \<bar>sint b\<bar>) SsePabsd"
  using lane32.computes_halves [OF MmxPabsd_lanes _ SsePabsd_def] by simp

lemma SsePmaddwd_lanes: "computes Get32 4 4 (\<lambda>a b. word_of_int (sint (to_u16 a) * sint (to_u16 b) + sint (to_u16 (shr a 16)) * sint (to_u16 (shr b 16)))) SsePmaddwd"
  using lane32.computes_halves [OF MmxPmaddwd_lanes _ SsePmaddwd_def] by simp

lemma SsePaddd_lanes: "computes Get32 4 4 (\<lambda>a b. a + b) SsePaddd"
  by (rule lane32.computes_loop, rule SsePaddd_def) (simp add: lane_simps)

lemma SsePsubd_lanes: "computes Get32 4 4 (\<lambda>a b. a - b) SsePsubd"
  by (rule lane32.computes_loop, rule SsePsubd_def) (simp add: lane_simps)

lemma SsePaddq_lanes: "computes Get64 8 2 (\<lambda>a b. a + b) SsePaddq"
  by (rule lane64.computes_loop, rule SsePaddq_def) (simp add: lane_simps)

lemma SsePsubq_lanes: "computes Get64 8 2 (\<lambda>a b. a - b) SsePsubq"
  by (rule lane64.computes_loop, rule SsePsubq_def) (simp add: lane_simps)

lemma SsePmuludq_lanes:
  "computes Get64 8 2 (\<lambda>a b. word_of_int ((uint a mod 2 ^ 32) * (uint b mod 2 ^ 32))) SsePmuludq"
  by (rule lane64.computes_loop, rule SsePmuludq_def) (simp only: pmuludq_lane [symmetric] get_parts)

text \<open>Byte kernels that work on local copies of both operands.\<close>

lemma for_loop_bytes:
  "for_loop n (\<lambda>i X. Put8 (p + i) (H i (X (p + i))) X) X a =
    (if p \<le> a \<and> a < p + n then H (a - p) (X a) else X a)"
proof (induction n)
  case (Suc n)
  then show ?case by (cases "a = p + n") (auto simp: for_loop_def Put8_def less_Suc_eq)
qed (auto simp: for_loop_def)

lemma computes_copies:
  assumes "\<And>x y s. k x y s =
    (let X = memcpy 0 s x n local_array; Y = memcpy 0 s y n local_array;
         X = for_loop n (\<lambda>i X. Put8 i (F (X i) (Y i)) X) X
     in memcpy x X 0 n s)"
  shows "computes Get8 1 n F k"
  unfolding computes_def assms Let_def
  using for_loop_bytes [where p = 0 and H = "\<lambda>i v. F v (memcpy 0 _ _ n local_array i)"]
  by (auto simp: Get8_def memcpy_def)

lemma SsePaddusb_lanes: "computes Get8 1 16 (\<lambda>a b. sat_u (uint a + uint b)) SsePaddusb"
  by (rule computes_copies) (simp add: SsePaddusb_def sat_8 sat_sum)

lemma SsePsubusb_lanes: "computes Get8 1 16 (\<lambda>a b. sat_u (uint a - uint b)) SsePsubusb"
  by (rule computes_copies) (simp add: SsePsubusb_def sat_8 sat_sum)

lemma SsePaddsb_lanes: "computes Get8 1 16 (\<lambda>a b. sat_s (sint a + sint b)) SsePaddsb"
  by (rule computes_copies) (simp add: SsePaddsb_def sat_8 sat_sum)

lemma SsePsubsb_lanes: "computes Get8 1 16 (\<lambda>a b. sat_s (sint a - sint b)) SsePsubsb"
  by (rule computes_copies) (simp add: SsePsubsb_def sat_8 sat_sum)

lemma upt_4: "[0..<4] = [0, 1, 2, 3]"
  by (simp add: upt_rec)

lemma SsePmulld_lanes: "computes Get32 4 4 (\<lambda>a b. a * b) SsePmulld"
proof -
  have "SsePmulld x y s = for_loop 4 (\<lambda>i t. Put32 (x + i * 4)
      (Get32 s (x + i * 4) * Get32 s (y + i * 4)) t) s" for x y s
    unfolding SsePmulld_def Let_def for_loop_def upt_4 by (simp add: numeral_2_eq_2 numeral_3_eq_3)
  then show ?thesis
    unfolding computes_def
    using lane32.values_loop [where n = 4] by simp
qed

section \<open>The vector arithmetic of both register files\<close>

text \<open>The quadword vector kernels compute their architectural lane functions: for a destination and
  a source register that are the same or disjoint, every lane of the result is the given function of
  the old lanes (saturating or wrapping sum and difference, averages, minima, comparisons, sign
  transfer, absolute values, high, low, rounded and summed products), and no byte outside the destination
  changes.\<close>

theorem mmx_lane_kernels:
  "list_all (\<lambda>(F, k). computes Get8 1 8 F k)
     [(\<lambda>a b. sat_u (uint a + uint b), MmxPaddusb),
      (\<lambda>a b. sat_u (uint a - uint b), MmxPsubusb),
      (\<lambda>a b. sat_s (sint a + sint b), MmxPaddsb),
      (\<lambda>a b. sat_s (sint a - sint b), MmxPsubsb),
      (\<lambda>a b. word_of_int (sgn (sint b) * sint a), MmxPsignb),
      (\<lambda>a b. a + b, MmxPaddb),
      (\<lambda>a b. a - b, MmxPsubb),
      (\<lambda>a b. word_of_int ((uint a + uint b + 1) div 2), MmxPavgb),
      (\<lambda>a b. word_of_int \<bar>sint b\<bar>, MmxPabsb),
      (\<lambda>a b. min a b, MmxPminub),
      (\<lambda>a b. max a b, MmxPmaxub),
      (\<lambda>a b. cmp_mask (a = b), MmxPcmpeqb),
      (\<lambda>a b. cmp_mask (sint a > sint b), MmxPcmpgtb)] \<and>
   list_all (\<lambda>(F, k). computes Get16 2 4 F k)
     [(\<lambda>a b. sat_u (uint a - uint b), MmxPsubusw),
      (\<lambda>a b. word_of_int (min (sint a) (sint b)), MmxPminsw),
      (\<lambda>a b. word_of_int (max (sint a) (sint b)), MmxPmaxsw),
      (\<lambda>a b. word_of_int (sgn (sint b) * sint a), MmxPsignw),
      (\<lambda>a b. word_of_int \<bar>sint b\<bar>, MmxPabsw),
      (\<lambda>a b. word_of_int (uint a * uint b div 2 ^ 16), MmxPmulhuw),
      (\<lambda>a b. word_of_int ((sint a * sint b div 2 ^ 14 + 1) div 2), MmxPmulhrsw),
      (\<lambda>a b. sat_s (uint (low_byte a) * sint (low_byte b) + uint (high_byte a) * sint (high_byte b)), MmxPmaddubsw),
      (\<lambda>a b. a + b, MmxPaddw),
      (\<lambda>a b. a - b, MmxPsubw),
      (\<lambda>a b. sat_s (sint a + sint b), MmxPaddsw),
      (\<lambda>a b. sat_s (sint a - sint b), MmxPsubsw),
      (\<lambda>a b. sat_u (uint a + uint b), MmxPaddusw),
      (\<lambda>a b. word_of_int ((uint a + uint b + 1) div 2), MmxPavgw),
      (\<lambda>a b. cmp_mask (a = b), MmxPcmpeqw),
      (\<lambda>a b. cmp_mask (sint a > sint b), MmxPcmpgtw),
      (\<lambda>a b. word_of_int (sint a * sint b div 2 ^ 16), MmxPmulhw),
      (\<lambda>a b. a * b, MmxPmullw)] \<and>
   list_all (\<lambda>(F, k). computes Get32 4 2 F k)
     [(\<lambda>a b. a + b, MmxPaddd),
      (\<lambda>a b. a - b, MmxPsubd),
      (\<lambda>a b. a * b, MmxPmulld),
      (\<lambda>a b. cmp_mask (a = b), MmxPcmpeqd),
      (\<lambda>a b. cmp_mask (sint a > sint b), MmxPcmpgtd),
      (\<lambda>a b. word_of_int (sgn (sint b) * sint a), MmxPsignd),
      (\<lambda>a b. word_of_int \<bar>sint b\<bar>, MmxPabsd),
      (\<lambda>a b. word_of_int (sint (to_u16 a) * sint (to_u16 b) + sint (to_u16 (shr a 16)) * sint (to_u16 (shr b 16))), MmxPmaddwd)] \<and>
   list_all (\<lambda>(F, k). computes Get64 8 1 F k)
     [(\<lambda>a b. a + b, MmxPaddq),
      (\<lambda>a b. a - b, MmxPsubq),
      (\<lambda>a b. word_of_int ((uint a mod 2 ^ 32) * (uint b mod 2 ^ 32)), MmxPmuludq)]"
  by (simp only: list.pred_inject prod.case simp_thms MmxPaddusb_lanes MmxPsubusb_lanes MmxPaddsb_lanes MmxPsubsb_lanes MmxPsignb_lanes MmxPaddb_lanes MmxPsubb_lanes MmxPavgb_lanes MmxPabsb_lanes MmxPminub_lanes MmxPmaxub_lanes MmxPcmpeqb_lanes MmxPcmpgtb_lanes MmxPsubusw_lanes MmxPminsw_lanes MmxPmaxsw_lanes MmxPsignw_lanes MmxPabsw_lanes MmxPmulhuw_lanes MmxPmulhrsw_lanes MmxPmaddubsw_lanes MmxPaddw_lanes MmxPsubw_lanes MmxPaddsw_lanes MmxPsubsw_lanes MmxPaddusw_lanes MmxPavgw_lanes MmxPcmpeqw_lanes MmxPcmpgtw_lanes MmxPmulhw_lanes MmxPmullw_lanes MmxPaddd_lanes MmxPsubd_lanes MmxPmulld_lanes MmxPcmpeqd_lanes MmxPcmpgtd_lanes MmxPsignd_lanes MmxPabsd_lanes MmxPmaddwd_lanes MmxPaddq_lanes MmxPsubq_lanes MmxPmuludq_lanes)

text \<open>The octoword vector kernels compute the same lane functions on sixteen bytes: those that run a
  quadword kernel on both halves, those that loop themselves and those that work on local copies, also
  when destination and source are the same register.\<close>

theorem sse_lane_kernels:
  "list_all (\<lambda>(F, k). computes Get8 1 16 F k)
     [(\<lambda>a b. word_of_int (sgn (sint b) * sint a), SsePsignb),
      (\<lambda>a b. sat_u (uint a + uint b), SsePaddusb),
      (\<lambda>a b. sat_u (uint a - uint b), SsePsubusb),
      (\<lambda>a b. sat_s (sint a + sint b), SsePaddsb),
      (\<lambda>a b. sat_s (sint a - sint b), SsePsubsb)] \<and>
   list_all (\<lambda>(F, k). computes Get16 2 8 F k)
     [(\<lambda>a b. sat_u (uint a - uint b), SsePsubusw),
      (\<lambda>a b. word_of_int (min (sint a) (sint b)), SsePminsw),
      (\<lambda>a b. word_of_int (max (sint a) (sint b)), SsePmaxsw),
      (\<lambda>a b. word_of_int (sgn (sint b) * sint a), SsePsignw),
      (\<lambda>a b. word_of_int \<bar>sint b\<bar>, SsePabsw),
      (\<lambda>a b. word_of_int (uint a * uint b div 2 ^ 16), SsePmulhuw),
      (\<lambda>a b. word_of_int ((sint a * sint b div 2 ^ 14 + 1) div 2), SsePmulhrsw),
      (\<lambda>a b. sat_s (uint (low_byte a) * sint (low_byte b) + uint (high_byte a) * sint (high_byte b)), SsePmaddubsw)] \<and>
   list_all (\<lambda>(F, k). computes Get32 4 4 F k)
     [(\<lambda>a b. cmp_mask (a = b), SsePcmpeqd),
      (\<lambda>a b. cmp_mask (sint a > sint b), SsePcmpgtd),
      (\<lambda>a b. word_of_int (sgn (sint b) * sint a), SsePsignd),
      (\<lambda>a b. word_of_int \<bar>sint b\<bar>, SsePabsd),
      (\<lambda>a b. word_of_int (sint (to_u16 a) * sint (to_u16 b) + sint (to_u16 (shr a 16)) * sint (to_u16 (shr b 16))), SsePmaddwd),
      (\<lambda>a b. a + b, SsePaddd),
      (\<lambda>a b. a - b, SsePsubd),
      (\<lambda>a b. a * b, SsePmulld)] \<and>
   list_all (\<lambda>(F, k). computes Get64 8 2 F k)
     [(\<lambda>a b. a + b, SsePaddq),
      (\<lambda>a b. a - b, SsePsubq),
      (\<lambda>a b. word_of_int ((uint a mod 2 ^ 32) * (uint b mod 2 ^ 32)), SsePmuludq)]"
  by (simp only: list.pred_inject prod.case simp_thms SsePsignb_lanes SsePaddusb_lanes SsePsubusb_lanes SsePaddsb_lanes SsePsubsb_lanes SsePsubusw_lanes SsePminsw_lanes SsePmaxsw_lanes SsePsignw_lanes SsePabsw_lanes SsePmulhuw_lanes SsePmulhrsw_lanes SsePmaddubsw_lanes SsePcmpeqd_lanes SsePcmpgtd_lanes SsePsignd_lanes SsePabsd_lanes SsePmaddwd_lanes SsePaddd_lanes SsePsubd_lanes SsePmulld_lanes SsePaddq_lanes SsePsubq_lanes SsePmuludq_lanes)

end
