(* ===== verification/SimdShift.thy ===== *)
theory SimdShift
  imports SimdSpec
begin

text \<open>
  The vector shifts: by an immediate and by a register, on numbers for counts of any size, with the
  one case where the code departs from the architecture, a count register that is also the destination.
\<close>

section \<open>Shifts\<close>

definition shifts :: "(ram \<Rightarrow> nat \<Rightarrow> 'v) \<Rightarrow> nat \<Rightarrow> nat \<Rightarrow> (nat \<Rightarrow> 'v \<Rightarrow> 'v) \<Rightarrow> kernel_imm \<Rightarrow> bool" where
  "shifts get w n F K \<longleftrightarrow> (\<forall>x c s.
     (\<forall>j<n. get (K x c s) (x + j * w) = F (unat c) (get s (x + j * w))) \<and>
     (\<forall>a. a < x \<or> x + n * w \<le> a \<longrightarrow> K x c s a = s a))"

definition shifts_by :: "(ram \<Rightarrow> nat \<Rightarrow> 'v) \<Rightarrow> nat \<Rightarrow> nat \<Rightarrow> (nat \<Rightarrow> 'v \<Rightarrow> 'v) \<Rightarrow> kernel \<Rightarrow> bool" where
  "shifts_by get w n F K \<longleftrightarrow> (\<forall>x y s. x + n * w \<le> y \<or> y + 8 \<le> x \<longrightarrow>
     (\<forall>j<n. get (K x y s) (x + j * w) = F (unat (Get64 s y)) (get s (x + j * w))) \<and>
     (\<forall>a. a < x \<or> x + n * w \<le> a \<longrightarrow> K x y s a = s a))"

context lane
begin

lemma unary_loop:
  "(\<forall>j<n. get (for_loop n (\<lambda>i s. put (x + i * w) (G (get s (x + i * w))) s) s) (x + j * w) = G (get s (x + j * w))) \<and>
   (\<forall>a. a < x \<or> x + n * w \<le> a \<longrightarrow>
      for_loop n (\<lambda>i s. put (x + i * w) (G (get s (x + i * w))) s) s a = s a)"
  using lanes_loop [where n = n and m = n and x = x and y = x and F = "\<lambda>a b. G a"
      and f = "\<lambda>i s. put (x + i * w) (G (get s (x + i * w))) s" and s = s] by simp

lemma shift_kernel:
  assumes K: "K x c s = (if ok then for_loop n (\<lambda>i s. put (x + i * w) (G (get s (x + i * w))) s) s
      else memset x 0 8 s)"
    and n: "n * w = 8" and z: "\<And>j t. j < n \<Longrightarrow> get (memset x 0 8 t) (x + j * w) = z"
    and G: "\<And>a. ok \<Longrightarrow> G a = F c a" "\<And>a. \<not> ok \<Longrightarrow> F c a = z"
  shows "(\<forall>j<n. get (K x c s) (x + j * w) = F c (get s (x + j * w))) \<and>
     (\<forall>a. a < x \<or> x + n * w \<le> a \<longrightarrow> K x c s a = s a)"
proof (cases ok)
  case True
  then show ?thesis unfolding K using unary_loop [of n x G s] G(1) by simp
next
  case False
  then show ?thesis unfolding K using z G(2) n by (simp add: memset_def)
qed

lemma shifts_halves:
  assumes k: "shifts get w n F k" and n: "n * w = 8" and K: "\<And>x c s. K x c s = k (x + 8) c (k (x + 0) c s)"
  shows "shifts get w (2 * n) F K"
  unfolding shifts_def
proof (intro allI conjI impI)
  fix x c s
  let ?t = "k x c s"
  have lo: "\<And>j. j < n \<Longrightarrow> get ?t (x + j * w) = F (unat c) (get s (x + j * w))"
    and lof: "\<And>a. a < x \<or> x + 8 \<le> a \<Longrightarrow> ?t a = s a"
    and hi: "\<And>j. j < n \<Longrightarrow> get (k (x + 8) c ?t) (x + 8 + j * w) = F (unat c) (get ?t (x + 8 + j * w))"
    and hif: "\<And>a. a < x + 8 \<or> x + 16 \<le> a \<Longrightarrow> k (x + 8) c ?t a = ?t a"
    using k unfolding shifts_def n by auto
  show "get (K x c s) (x + j * w) = F (unat c) (get s (x + j * w))" if "j < 2 * n" for j
  proof (cases "j < n")
    case True
    then have "j * w + w \<le> 8" unfolding n [symmetric] by (metis Suc_leI add.commute mult_Suc mult_le_mono1)
    then have "get (k (x + 8) c ?t) (x + j * w) = get ?t (x + j * w)"
      by (intro get_cong hif) auto
    then show ?thesis using lo [OF True] by (simp add: K)
  next
    case False
    define i where "i = j - n"
    with False that have i: "j = n + i" "i < n" by auto
    have "get ?t (x + 8 + i * w) = get s (x + 8 + i * w)"
      by (rule get_cong, rule lof) auto
    moreover have "x + j * w = x + 8 + i * w" using i n by (simp add: distrib_right)
    ultimately show ?thesis using hi [OF i(2)] by (simp add: K add.assoc)
  qed
  show "K x c s a = s a" if "a < x \<or> x + 2 * n * w \<le> a" for a
    using that hif [of a] lof [of a] n by (auto simp: K)
qed

lemma shifts_by_halves:
  assumes k: "shifts_by get w n F k" and n: "n * w = 8" and K: "\<And>x y s. K x y s = k (x + 8) y (k (x + 0) y s)"
  shows "shifts_by get w (2 * n) F K"
  unfolding shifts_by_def
proof (intro allI impI)
  fix x y s
  assume al: "x + 2 * n * w \<le> y \<or> y + 8 \<le> x"
  let ?t = "k x y s" let ?c = "unat (Get64 s y)"
  have al': "x + 8 \<le> y \<or> y + 8 \<le> x" "x + 8 + 8 \<le> y \<or> y + 8 \<le> x + 8" using al n by auto
  have lo: "\<And>j. j < n \<Longrightarrow> get ?t (x + j * w) = F ?c (get s (x + j * w))"
    and lof: "\<And>a. a < x \<or> x + 8 \<le> a \<Longrightarrow> ?t a = s a"
    and hi: "\<And>j. j < n \<Longrightarrow> get (k (x + 8) y ?t) (x + 8 + j * w) = F (unat (Get64 ?t y)) (get ?t (x + 8 + j * w))"
    and hif: "\<And>a. a < x + 8 \<or> x + 16 \<le> a \<Longrightarrow> k (x + 8) y ?t a = ?t a"
    using k al' unfolding shifts_by_def n by auto
  have c: "Get64 ?t y = Get64 s y"
    by (rule lane64.get_cong, rule lof) (use al' in auto)
  have lane: "get (K x y s) (x + j * w) = F ?c (get s (x + j * w))" if "j < 2 * n" for j
  proof (cases "j < n")
    case True
    then have "j * w + w \<le> 8" unfolding n [symmetric] by (metis Suc_leI add.commute mult_Suc mult_le_mono1)
    then have "get (k (x + 8) y ?t) (x + j * w) = get ?t (x + j * w)"
      by (intro get_cong hif) auto
    then show ?thesis using lo [OF True] by (simp add: K)
  next
    case False
    define i where "i = j - n"
    with False that have i: "j = n + i" "i < n" by auto
    have "get ?t (x + 8 + i * w) = get s (x + 8 + i * w)"
      by (rule get_cong, rule lof) auto
    moreover have "x + j * w = x + 8 + i * w" using i n by (simp add: distrib_right)
    ultimately show ?thesis using hi [OF i(2)] by (simp add: K c add.assoc)
  qed
  show "(\<forall>j<2 * n. get (K x y s) (x + j * w) = F ?c (get s (x + j * w))) \<and>
    (\<forall>a. a < x \<or> x + 2 * n * w \<le> a \<longrightarrow> K x y s a = s a)"
    using lane hif lof n by (auto simp: K)
qed

end

lemma Get_memset:
  "j < 4 \<Longrightarrow> Get16 (memset x 0 8 s) (x + j * 2) = 0" "j < 2 \<Longrightarrow> Get32 (memset x 0 8 s) (x + j * 4) = 0"
  "Get64 (memset x 0 8 s) x = 0"
  by (simp_all add: Get16_def Get32_def Get64_def memset_def)

text \<open>The lane functions of the shifts, on numbers, for counts of any size.\<close>

abbreviation (input) lane_shr :: "nat \<Rightarrow> 'a::len word \<Rightarrow> 'a word" where
  "lane_shr c a \<equiv> word_of_int (uint a div 2 ^ c)"
abbreviation (input) lane_shl :: "nat \<Rightarrow> 'a::len word \<Rightarrow> 'a word" where
  "lane_shl c a \<equiv> word_of_int (uint a * 2 ^ c)"
abbreviation (input) lane_sar :: "nat \<Rightarrow> 'a::len word \<Rightarrow> 'a word" where
  "lane_sar c a \<equiv> word_of_int (sint a div 2 ^ c)"

lemma lane_shr_eq: "lane_shr c a = shr a c" for a :: "'a::len word"
  by (simp add: drop_bit_eq_div [symmetric, where 'a = int] word_uint_eq_iff unsigned_drop_bit_eq bintr_uint
     unsigned_of_int) (metis bintr_uint drop_bit_take_bit le_refl take_bit_drop_bit unsigned_drop_bit_eq)

lemma lane_shl_eq: "lane_shl c a = shl a c" for a :: "'a::len word"
  by (simp add: push_bit_eq_mult)

lemma bit_sar: "i < LENGTH('a) \<Longrightarrow> bit (sar a m) i = bit a (min (m + i) (LENGTH('a) - 1))" for a :: "'a::len word"
proof -
  assume i: "i < LENGTH('a)"
  consider "m + i < LENGTH('a) - 1" | "m + i = LENGTH('a) - 1" | "LENGTH('a) - 1 < m + i" by linarith
  then show ?thesis
    using i by cases (auto simp: bit_signed_drop_bit_iff)
qed

lemma lane_sar_eq: "lane_sar c a = sar a (min c (LENGTH('a) - 1))" for a :: "'a::len word"
proof (rule bit_word_eqI)
  fix i assume i: "i < LENGTH('a)"
  have "bit (word_of_int (sint a div 2 ^ c) :: 'a word) i = bit (sint a) (c + i)"
    using i by (simp add: drop_bit_eq_div [symmetric, where 'a = int] bit_word_of_int_iff bit_drop_bit_eq)
  also have "\<dots> = bit a (min (c + i) (LENGTH('a) - 1))"
    using bit_imp_le_length [of a "c + i"] by (auto simp: bit_sint_iff min_def)
  also have "min (c + i) (LENGTH('a) - 1) = min (min c (LENGTH('a) - 1) + i) (LENGTH('a) - 1)" by simp
  finally show "bit (word_of_int (sint a div 2 ^ c) :: 'a word) i = bit (sar a (min c (LENGTH('a) - 1))) i"
    using bit_sar [OF i] by simp
qed

lemma shift_out: "LENGTH('a) \<le> c \<Longrightarrow> shr a c = 0" "LENGTH('a) \<le> c \<Longrightarrow> shl a c = 0" for a :: "'a::len word"
  by (auto intro!: bit_word_eqI simp: bit_simps dest: bit_imp_le_length)


lemma memset_frame: "a < x \<or> x + n \<le> a \<Longrightarrow> memset x v n s a = s a"
  by (auto simp: memset_def)

lemma MmxPsrlw_shifts: "shifts Get16 2 4 lane_shr MmxPsrlw"
  unfolding shifts_def lane_shr_eq
  by (intro allI, rule lane16.shift_kernel, rule MmxPsrlw_def)
    (use Get_memset(1) in \<open>auto simp: word_less_nat_alt word_le_nat_alt shift_out\<close>)

lemma MmxPsrlwv_shifts: "shifts_by Get16 2 4 lane_shr MmxPsrlwv"
  unfolding shifts_by_def lane_shr_eq
  by (intro allI impI, rule lane16.shift_kernel, unfold MmxPsrlwv_def Let_def, rule refl)
    (use Get_memset(1) in \<open>auto simp: word_less_nat_alt shift_out\<close>)

lemma MmxPsllw_shifts: "shifts Get16 2 4 lane_shl MmxPsllw"
  unfolding shifts_def lane_shl_eq
  by (intro allI, rule lane16.shift_kernel, rule MmxPsllw_def)
    (use Get_memset(1) in \<open>auto simp: word_less_nat_alt word_le_nat_alt shift_out\<close>)

lemma MmxPsllwv_shifts: "shifts_by Get16 2 4 lane_shl MmxPsllwv"
  unfolding shifts_by_def lane_shl_eq
  by (intro allI impI, rule lane16.shift_kernel, unfold MmxPsllwv_def Let_def, rule refl)
    (use Get_memset(1) in \<open>auto simp: word_less_nat_alt shift_out\<close>)

lemma MmxPsrld_shifts: "shifts Get32 4 2 lane_shr MmxPsrld"
  unfolding shifts_def lane_shr_eq
  by (intro allI, rule lane32.shift_kernel, rule MmxPsrld_def)
    (use Get_memset(2) in \<open>auto simp: word_less_nat_alt word_le_nat_alt shift_out\<close>)

lemma MmxPsrldv_shifts: "shifts_by Get32 4 2 lane_shr MmxPsrldv"
  unfolding shifts_by_def lane_shr_eq
  by (intro allI impI, rule lane32.shift_kernel, unfold MmxPsrldv_def Let_def, rule refl)
    (use Get_memset(2) in \<open>auto simp: word_less_nat_alt shift_out\<close>)

lemma MmxPslld_shifts: "shifts Get32 4 2 lane_shl MmxPslld"
  unfolding shifts_def lane_shl_eq
  by (intro allI, rule lane32.shift_kernel, rule MmxPslld_def)
    (use Get_memset(2) in \<open>auto simp: word_less_nat_alt word_le_nat_alt shift_out\<close>)

lemma MmxPslldv_shifts: "shifts_by Get32 4 2 lane_shl MmxPslldv"
  unfolding shifts_by_def lane_shl_eq
  by (intro allI impI, rule lane32.shift_kernel, unfold MmxPslldv_def Let_def, rule refl)
    (use Get_memset(2) in \<open>auto simp: word_less_nat_alt shift_out\<close>)

lemma MmxPsraw_shifts: "shifts Get16 2 4 lane_sar MmxPsraw"
proof -
  have c: "unat (if 15 < c then 15 else c) = min (unat c) (15)" for c :: u32
    by (simp add: word_less_nat_alt min_def)
  show ?thesis
    unfolding shifts_def MmxPsraw_def Let_def lane_sar_eq c using lane16.unary_loop by simp
qed

lemma MmxPsrawv_shifts: "shifts_by Get16 2 4 lane_sar MmxPsrawv"
proof -
  have c: "unat (if 15 < c then 15 else c) = min (unat c) (15)" for c :: u64
    by (simp add: word_less_nat_alt min_def)
  show ?thesis
    unfolding shifts_by_def MmxPsrawv_def Let_def lane_sar_eq c using lane16.unary_loop by simp
qed

lemma MmxPsrad_shifts: "shifts Get32 4 2 lane_sar MmxPsrad"
proof -
  have c: "unat (if 31 < c then 31 else c) = min (unat c) (31)" for c :: u32
    by (simp add: word_less_nat_alt min_def)
  show ?thesis
    unfolding shifts_def MmxPsrad_def Let_def lane_sar_eq c using lane32.unary_loop by simp
qed

lemma MmxPsradv_shifts: "shifts_by Get32 4 2 lane_sar MmxPsradv"
proof -
  have c: "unat (if 31 < c then 31 else c) = min (unat c) (31)" for c :: u64
    by (simp add: word_less_nat_alt min_def)
  show ?thesis
    unfolding shifts_by_def MmxPsradv_def Let_def lane_sar_eq c using lane32.unary_loop by simp
qed

lemma MmxPsrlq_shifts: "shifts Get64 8 1 lane_shr MmxPsrlq"
  unfolding shifts_def MmxPsrlq_def lane_shr_eq
  by (auto simp: Get_Put Put_frame Get_memset shift_out word_le_nat_alt memset_frame)

lemma MmxPsrlqv_shifts: "shifts_by Get64 8 1 lane_shr MmxPsrlqv"
  unfolding shifts_by_def MmxPsrlqv_def Let_def lane_shr_eq
  by (auto simp: Get_Put Put_frame Get_memset shift_out word_less_nat_alt memset_frame)

lemma MmxPsllq_shifts: "shifts Get64 8 1 lane_shl MmxPsllq"
  unfolding shifts_def MmxPsllq_def lane_shl_eq
  by (auto simp: Get_Put Put_frame Get_memset shift_out word_le_nat_alt memset_frame)

lemma MmxPsllqv_shifts: "shifts_by Get64 8 1 lane_shl MmxPsllqv"
  unfolding shifts_by_def MmxPsllqv_def Let_def lane_shl_eq
  by (auto simp: Get_Put Put_frame Get_memset shift_out word_less_nat_alt memset_frame)

lemma SsePsrlw_shifts: "shifts Get16 2 8 lane_shr SsePsrlw"
  using lane16.shifts_halves [OF MmxPsrlw_shifts _ SsePsrlw_def] by simp

lemma SsePsrlwv_shifts: "shifts_by Get16 2 8 lane_shr SsePsrlwv"
  using lane16.shifts_by_halves [OF MmxPsrlwv_shifts _ SsePsrlwv_def] by simp

lemma SsePsllw_shifts: "shifts Get16 2 8 lane_shl SsePsllw"
  using lane16.shifts_halves [OF MmxPsllw_shifts _ SsePsllw_def] by simp

lemma SsePsllwv_shifts: "shifts_by Get16 2 8 lane_shl SsePsllwv"
  using lane16.shifts_by_halves [OF MmxPsllwv_shifts _ SsePsllwv_def] by simp

lemma SsePsrld_shifts: "shifts Get32 4 4 lane_shr SsePsrld"
  using lane32.shifts_halves [OF MmxPsrld_shifts _ SsePsrld_def] by simp

lemma SsePsrldv_shifts: "shifts_by Get32 4 4 lane_shr SsePsrldv"
  using lane32.shifts_by_halves [OF MmxPsrldv_shifts _ SsePsrldv_def] by simp

lemma SsePslld_shifts: "shifts Get32 4 4 lane_shl SsePslld"
  using lane32.shifts_halves [OF MmxPslld_shifts _ SsePslld_def] by simp

lemma SsePslldv_shifts: "shifts_by Get32 4 4 lane_shl SsePslldv"
  using lane32.shifts_by_halves [OF MmxPslldv_shifts _ SsePslldv_def] by simp

lemma SsePsraw_shifts: "shifts Get16 2 8 lane_sar SsePsraw"
  using lane16.shifts_halves [OF MmxPsraw_shifts _ SsePsraw_def] by simp

lemma SsePsrawv_shifts: "shifts_by Get16 2 8 lane_sar SsePsrawv"
  using lane16.shifts_by_halves [OF MmxPsrawv_shifts _ SsePsrawv_def] by simp

lemma SsePsrad_shifts: "shifts Get32 4 4 lane_sar SsePsrad"
  using lane32.shifts_halves [OF MmxPsrad_shifts _ SsePsrad_def] by simp

lemma SsePsradv_shifts: "shifts_by Get32 4 4 lane_sar SsePsradv"
  using lane32.shifts_by_halves [OF MmxPsradv_shifts _ SsePsradv_def] by simp

lemma SsePsrlq_shifts: "shifts Get64 8 2 lane_shr SsePsrlq"
  using lane64.shifts_halves [OF MmxPsrlq_shifts _ SsePsrlq_def] by simp

lemma SsePsrlqv_shifts: "shifts_by Get64 8 2 lane_shr SsePsrlqv"
  using lane64.shifts_by_halves [OF MmxPsrlqv_shifts _ SsePsrlqv_def] by simp

lemma SsePsllq_shifts: "shifts Get64 8 2 lane_shl SsePsllq"
  using lane64.shifts_halves [OF MmxPsllq_shifts _ SsePsllq_def] by simp

lemma SsePsllqv_shifts: "shifts_by Get64 8 2 lane_shl SsePsllqv"
  using lane64.shifts_by_halves [OF MmxPsllqv_shifts _ SsePsllqv_def] by simp

text \<open>Vector shifts by an immediate multiply and divide: every lane of the destination is shifted left,
  right or arithmetically right by the count, for counts of any size (a logical shift by the lane width
  or more gives zero, an arithmetic one the sign), and no other byte changes.\<close>

theorem simd_shift_immediate:
  "list_all (\<lambda>(F, k). shifts Get16 2 4 F k)
     [(lane_shr, MmxPsrlw), (lane_shl, MmxPsllw), (lane_sar, MmxPsraw)] \<and>
   list_all (\<lambda>(F, k). shifts Get16 2 8 F k)
     [(lane_shr, SsePsrlw), (lane_shl, SsePsllw), (lane_sar, SsePsraw)] \<and>
   list_all (\<lambda>(F, k). shifts Get32 4 2 F k)
     [(lane_shr, MmxPsrld), (lane_shl, MmxPslld), (lane_sar, MmxPsrad)] \<and>
   list_all (\<lambda>(F, k). shifts Get32 4 4 F k)
     [(lane_shr, SsePsrld), (lane_shl, SsePslld), (lane_sar, SsePsrad)] \<and>
   list_all (\<lambda>(F, k). shifts Get64 8 1 F k)
     [(lane_shr, MmxPsrlq), (lane_shl, MmxPsllq)] \<and>
   list_all (\<lambda>(F, k). shifts Get64 8 2 F k)
     [(lane_shr, SsePsrlq), (lane_shl, SsePsllq)]"
  by (simp only: list.pred_inject prod.case simp_thms MmxPsrlw_shifts MmxPsllw_shifts MmxPsrld_shifts MmxPslld_shifts MmxPsraw_shifts MmxPsrad_shifts MmxPsrlq_shifts MmxPsllq_shifts SsePsrlw_shifts SsePsllw_shifts SsePsrld_shifts SsePslld_shifts SsePsraw_shifts SsePsrad_shifts SsePsrlq_shifts SsePsllq_shifts)

text \<open>Vector shifts by a register shift every lane by the low quadword of the source, as an immediate
  of that value would, when the source does not overlap the destination.\<close>

theorem simd_shift_register:
  "list_all (\<lambda>(F, k). shifts_by Get16 2 4 F k)
     [(lane_shr, MmxPsrlwv), (lane_shl, MmxPsllwv), (lane_sar, MmxPsrawv)] \<and>
   list_all (\<lambda>(F, k). shifts_by Get16 2 8 F k)
     [(lane_shr, SsePsrlwv), (lane_shl, SsePsllwv), (lane_sar, SsePsrawv)] \<and>
   list_all (\<lambda>(F, k). shifts_by Get32 4 2 F k)
     [(lane_shr, MmxPsrldv), (lane_shl, MmxPslldv), (lane_sar, MmxPsradv)] \<and>
   list_all (\<lambda>(F, k). shifts_by Get32 4 4 F k)
     [(lane_shr, SsePsrldv), (lane_shl, SsePslldv), (lane_sar, SsePsradv)] \<and>
   list_all (\<lambda>(F, k). shifts_by Get64 8 1 F k)
     [(lane_shr, MmxPsrlqv), (lane_shl, MmxPsllqv)] \<and>
   list_all (\<lambda>(F, k). shifts_by Get64 8 2 F k)
     [(lane_shr, SsePsrlqv), (lane_shl, SsePsllqv)]"
  by (simp only: list.pred_inject prod.case simp_thms MmxPsrlwv_shifts MmxPsllwv_shifts MmxPsrldv_shifts MmxPslldv_shifts MmxPsrawv_shifts MmxPsradv_shifts MmxPsrlqv_shifts MmxPsllqv_shifts SsePsrlwv_shifts SsePsllwv_shifts SsePsrldv_shifts SsePslldv_shifts SsePsrawv_shifts SsePsradv_shifts SsePsrlqv_shifts SsePsllqv_shifts)


end
