(* ===== verification/SimdMove.thy ===== *)
theory SimdMove
  imports SimdSpec
begin

text \<open>
  The vector kernels that move bytes: interleaving, packing with saturation, horizontal sums,
  shuffles and byte shifts, as functions from the old byte lists of the two registers to the new one.
\<close>

section \<open>Kernels as functions of byte lists\<close>

definition bytes :: "nat \<Rightarrow> ram \<Rightarrow> nat \<Rightarrow> u8 list" where
  "bytes n s p = map (\<lambda>i. s (p + i)) [0..<n]"

text \<open>
  A kernel on registers of \<open>n\<close> bytes turns the old byte lists of destination and source, which are
  the same register or disjoint, into a new one by \<open>F\<close>, and changes no other byte.
\<close>

definition moves :: "nat \<Rightarrow> (u8 list \<Rightarrow> u8 list \<Rightarrow> u8 list) \<Rightarrow> kernel \<Rightarrow> bool" where
  "moves n F K \<longleftrightarrow> (\<forall>x y s. x = y \<or> x + n \<le> y \<or> y + n \<le> x \<longrightarrow>
     bytes n (K x y s) x = F (bytes n s x) (bytes n s y) \<and>
     (\<forall>a. a < x \<or> x + n \<le> a \<longrightarrow> K x y s a = s a))"

section \<open>Interleaving\<close>

text \<open>Units of \<open>k\<close> bytes of two lists in turn.\<close>

definition interleave :: "nat \<Rightarrow> 'a list \<Rightarrow> 'a list \<Rightarrow> 'a list" where
  "interleave k xs ys =
     concat (map (\<lambda>i. take k (drop (i * k) xs) @ take k (drop (i * k) ys)) [0..<length xs div k])"

definition unpack_low :: "nat \<Rightarrow> u8 list \<Rightarrow> u8 list \<Rightarrow> u8 list" where
  "unpack_low k xs ys = interleave k (take (length xs div 2) xs) (take (length ys div 2) ys)"

definition unpack_high :: "nat \<Rightarrow> u8 list \<Rightarrow> u8 list \<Rightarrow> u8 list" where
  "unpack_high k xs ys = interleave k (drop (length xs div 2) xs) (drop (length ys div 2) ys)"

lemma upts:
  "[0..<2] = [0, 1]" "[0..<1] = [0]" "[0..<4] = [0, 1, 2, 3]" "[0..<8] = [0, 1, 2, 3, 4, 5, 6, 7]"
  "[0..<16] = [0, 1, 2, 3, 4, 5, 6, 7, 8, 9, 10, 11, 12, 13, 14, 15]"
  by (simp_all add: upt_rec)

text \<open>
  An interleaving kernel is a sequence of byte moves within \<open>x\<close> or from \<open>y\<close> to \<open>x\<close>. Where no
  move reads an offset written before it, every byte written is the old byte read, whether the
  registers are disjoint or the same.
\<close>

fun move :: "nat \<Rightarrow> nat \<Rightarrow> nat \<times> bool \<times> nat \<Rightarrow> ram \<Rightarrow> ram" where
  "move x y (d, from_y, o') s = Put8 (x + d) (s ((if from_y then y else x) + o')) s"

fun unclobbered :: "nat list \<Rightarrow> (nat \<times> bool \<times> nat) list \<Rightarrow> bool" where
  "unclobbered ds [] = True"
| "unclobbered ds ((d, c, o') # ms) = (d \<notin> set ds \<and> o' \<notin> set ds \<and> unclobbered (d # ds) ms)"

lemma moves_sequence:
  assumes "x = y \<or> x + n \<le> y \<or> y + n \<le> x" "unclobbered ds ms" "\<forall>(d, c, o') \<in> set ms. d < n \<and> o' < n"
    "set ds \<subseteq> {..<n}"
    and "\<And>a. (\<forall>d \<in> set ds. a \<noteq> x + d) \<Longrightarrow> t a = s a"
  shows "(\<forall>(d, c, o') \<in> set ms. fold (move x y) ms t (x + d) = s ((if c then y else x) + o')) \<and>
    (\<forall>a. (\<forall>(d, c, o') \<in> set ms. a \<noteq> x + d) \<longrightarrow> fold (move x y) ms t a = t a)"
  using assms(2-)
proof (induction ms arbitrary: ds t)
  case (Cons m ms)
  obtain d c o' where m: "m = (d, c, o')" by (cases m)
  let ?u = "move x y m t"
  have o': "d \<notin> set ds" "o' \<notin> set ds" "d < n" "o' < n" "unclobbered (d # ds) ms" using Cons.prems m by auto
  have v: "t ((if c then y else x) + o') = s ((if c then y else x) + o')"
  proof (intro Cons.prems(4) ballI)
    fix e assume "e \<in> set ds"
    then have "e < n" "e \<noteq> o'" using Cons.prems(3) o' by auto
    then show "(if c then y else x) + o' \<noteq> x + e" using assms(1) o' by auto
  qed
  have u: "?u a = s a" if "\<forall>e \<in> set (d # ds). a \<noteq> x + e" for a
    using that Cons.prems(4) [of a] by (simp add: m Put8_def)
  have IH: "(\<forall>(d, c, o') \<in> set ms. fold (move x y) ms ?u (x + d) = s ((if c then y else x) + o')) \<and>
    (\<forall>a. (\<forall>(d, c, o') \<in> set ms. a \<noteq> x + d) \<longrightarrow> fold (move x y) ms ?u a = ?u a)"
    using Cons.prems o' by (intro Cons.IH [of "d # ds"] u) auto
  have "d' \<noteq> d" if "(d', c', o'') \<in> set ms" for d' c' o''
  proof -
    have "unclobbered es ms \<Longrightarrow> (d', c', o'') \<in> set ms \<Longrightarrow> d' \<notin> set es" for es
      by (induction ms arbitrary: es) (auto, fastforce)
    from this [OF o'(5) that] show ?thesis by auto
  qed
  then have "\<forall>(d', c', o'') \<in> set ms. x + d \<noteq> x + d'" by auto
  with IH have "fold (move x y) ms ?u (x + d) = ?u (x + d)" by blast
  then show ?case using IH v by (auto simp: m Put8_def split: if_splits)
qed simp

lemma moves_by_sequence:
  assumes K: "\<And>x y s. K x y s = fold (move x y) ms s" and "unclobbered [] ms"
    and "\<forall>(d, c, o') \<in> set ms. d < n \<and> o' < n"
    and F: "\<And>X Y. length X = n \<Longrightarrow> length Y = n \<Longrightarrow>
       length (F X Y) = n \<and> list_all (\<lambda>i. case map_of ms i of Some (c, o') \<Rightarrow> F X Y ! i = (if c then Y else X) ! o' | None \<Rightarrow> F X Y ! i = X ! i) [0..<n]"
  shows "moves n F K"
  unfolding moves_def K
proof (intro allI impI conjI)
  fix x y s a
  assume al: "x = y \<or> x + n \<le> y \<or> y + n \<le> x"
  have S: "(\<forall>(d, c, o') \<in> set ms. fold (move x y) ms s (x + d) = s ((if c then y else x) + o')) \<and>
    (\<forall>a. (\<forall>(d, c, o') \<in> set ms. a \<noteq> x + d) \<longrightarrow> fold (move x y) ms s a = s a)"
    by (rule moves_sequence [OF al assms(2,3)]) auto
  show "fold (move x y) ms s a = s a" if "a < x \<or> x + n \<le> a"
  proof -
    have "\<forall>(d, c, o') \<in> set ms. a \<noteq> x + d" using that assms(3) by auto
    then show ?thesis using S by blast
  qed
  let ?F = "F (bytes n s x) (bytes n s y)"
  have F': "length ?F = n" "\<And>i. i < n \<Longrightarrow> case map_of ms i of Some (c, o') \<Rightarrow> ?F ! i = (if c then bytes n s y else bytes n s x) ! o'
      | None \<Rightarrow> ?F ! i = bytes n s x ! i"
    using F [of "bytes n s x" "bytes n s y"] by (auto simp: list_all_iff bytes_def)
  show "bytes n (fold (move x y) ms s) x = ?F"
  proof (rule nth_equalityI)
    fix i assume "i < length (bytes n (fold (move x y) ms s) x)"
    then have i: "i < n" by (simp add: bytes_def)
    show "bytes n (fold (move x y) ms s) x ! i = ?F ! i"
    proof (cases "map_of ms i")
      case None
      then have "\<forall>(d, c, o') \<in> set ms. x + i \<noteq> x + d" by (auto simp: map_of_eq_None_iff image_iff)
      then show ?thesis using S None F'(2) [OF i] i by (simp add: bytes_def)
    next
      case (Some p)
      then obtain c o' where p: "p = (c, o')" "(i, c, o') \<in> set ms" by (metis map_of_SomeD surj_pair)
      from S p(2) have "fold (move x y) ms s (x + i) = s ((if c then y else x) + o')" by auto
      moreover from assms(3) p(2) have "o' < n" by auto
      ultimately show ?thesis using Some p(1) F'(2) [OF i] i by (auto simp: bytes_def)
    qed
  qed (use F' in \<open>simp add: bytes_def\<close>)
qed

lemma fold_Let: "fold f (m # ms) s = (let s = f m s in fold f ms s)" "fold f [] s = s"
  by simp_all

lemmas move_simps = fold_Let move.simps if_True if_False

text \<open>A list of known length, element by element.\<close>

lemma list_8: "length X = 8 \<Longrightarrow> \<exists>a b c d e f g h. X = [a, b, c, d, e, f, g, h]"
  by (auto simp: length_Suc_conv eval_nat_numeral)

lemma list_16: "length X = 16 \<Longrightarrow> \<exists>a b c d e f g h i j k l m n p q. X = [a, b, c, d, e, f, g, h, i, j, k, l, m, n, p, q]"
  by (auto simp: length_Suc_conv eval_nat_numeral)

lemma MmxPunpcklbw_moves: "moves 8 (unpack_low 1) MmxPunpcklbw"
  by (rule moves_by_sequence [where ms = "[(7, True, 3), (6, False, 3), (5, True, 2), (4, False, 2), (3, True, 1), (2, False, 1), (1, True, 0), (0, False, 0)]"], unfold move_simps, rule MmxPunpcklbw_def, simp, simp,
      drule list_8, drule list_8, elim exE) (simp add: unpack_low_def unpack_high_def interleave_def upts)

lemma MmxPunpckhbw_moves: "moves 8 (unpack_high 1) MmxPunpckhbw"
  by (rule moves_by_sequence [where ms = "[(0, False, 4), (1, True, 4), (2, False, 5), (3, True, 5), (4, False, 6), (5, True, 6), (6, False, 7), (7, True, 7)]"], unfold move_simps, rule MmxPunpckhbw_def, simp, simp,
      drule list_8, drule list_8, elim exE) (simp add: unpack_low_def unpack_high_def interleave_def upts)

lemma MmxPunpcklwd_moves: "moves 8 (unpack_low 2) MmxPunpcklwd"
  by (rule moves_by_sequence [where ms = "[(6, True, 2), (7, True, 3), (4, False, 2), (5, False, 3), (2, True, 0), (3, True, 1), (0, False, 0), (1, False, 1)]"], unfold move_simps, rule MmxPunpcklwd_def, simp, simp,
      drule list_8, drule list_8, elim exE) (simp add: unpack_low_def unpack_high_def interleave_def upts)

lemma MmxPunpckhwd_moves: "moves 8 (unpack_high 2) MmxPunpckhwd"
  by (rule moves_by_sequence [where ms = "[(0, False, 4), (1, False, 5), (2, True, 4), (3, True, 5), (4, False, 6), (5, False, 7), (6, True, 6), (7, True, 7)]"], unfold move_simps, rule MmxPunpckhwd_def, simp, simp,
      drule list_8, drule list_8, elim exE) (simp add: unpack_low_def unpack_high_def interleave_def upts)

lemma MmxPunpckldq_moves: "moves 8 (unpack_low 4) MmxPunpckldq"
  by (rule moves_by_sequence [where ms = "[(4, True, 0), (5, True, 1), (6, True, 2), (7, True, 3), (0, False, 0), (1, False, 1), (2, False, 2), (3, False, 3)]"], unfold move_simps, rule MmxPunpckldq_def, simp, simp,
      drule list_8, drule list_8, elim exE) (simp add: unpack_low_def unpack_high_def interleave_def upts)

lemma MmxPunpckhdq_moves: "moves 8 (unpack_high 4) MmxPunpckhdq"
  by (rule moves_by_sequence [where ms = "[(0, False, 4), (1, False, 5), (2, False, 6), (3, False, 7), (4, True, 4), (5, True, 5), (6, True, 6), (7, True, 7)]"], unfold move_simps, rule MmxPunpckhdq_def, simp, simp,
      drule list_8, drule list_8, elim exE) (simp add: unpack_low_def unpack_high_def interleave_def upts)

lemma SsePunpcklbw_moves: "moves 16 (unpack_low 1) SsePunpcklbw"
  by (rule moves_by_sequence [where ms = "[(15, True, 7), (14, False, 7), (13, True, 6), (12, False, 6), (11, True, 5), (10, False, 5), (9, True, 4), (8, False, 4), (7, True, 3), (6, False, 3), (5, True, 2), (4, False, 2), (3, True, 1), (2, False, 1), (1, True, 0), (0, False, 0)]"], unfold move_simps, rule SsePunpcklbw_def, simp, simp,
      drule list_16, drule list_16, elim exE) (simp add: unpack_low_def unpack_high_def interleave_def upts)

lemma SsePunpckhbw_moves: "moves 16 (unpack_high 1) SsePunpckhbw"
  by (rule moves_by_sequence [where ms = "[(0, False, 8), (1, True, 8), (2, False, 9), (3, True, 9), (4, False, 10), (5, True, 10), (6, False, 11), (7, True, 11), (8, False, 12), (9, True, 12), (10, False, 13), (11, True, 13), (12, False, 14), (13, True, 14), (14, False, 15), (15, True, 15)]"], unfold move_simps, rule SsePunpckhbw_def, simp, simp,
      drule list_16, drule list_16, elim exE) (simp add: unpack_low_def unpack_high_def interleave_def upts)

lemma SsePunpcklwd_moves: "moves 16 (unpack_low 2) SsePunpcklwd"
  by (rule moves_by_sequence [where ms = "[(14, True, 6), (15, True, 7), (12, False, 6), (13, False, 7), (10, True, 4), (11, True, 5), (8, False, 4), (9, False, 5), (6, True, 2), (7, True, 3), (4, False, 2), (5, False, 3), (2, True, 0), (3, True, 1), (0, False, 0), (1, False, 1)]"], unfold move_simps, rule SsePunpcklwd_def, simp, simp,
      drule list_16, drule list_16, elim exE) (simp add: unpack_low_def unpack_high_def interleave_def upts)

lemma SsePunpckhwd_moves: "moves 16 (unpack_high 2) SsePunpckhwd"
  by (rule moves_by_sequence [where ms = "[(0, False, 8), (1, False, 9), (2, True, 8), (3, True, 9), (4, False, 10), (5, False, 11), (6, True, 10), (7, True, 11), (8, False, 12), (9, False, 13), (10, True, 12), (11, True, 13), (12, False, 14), (13, False, 15), (14, True, 14), (15, True, 15)]"], unfold move_simps, rule SsePunpckhwd_def, simp, simp,
      drule list_16, drule list_16, elim exE) (simp add: unpack_low_def unpack_high_def interleave_def upts)

lemma SsePunpckldq_moves: "moves 16 (unpack_low 4) SsePunpckldq"
  by (rule moves_by_sequence [where ms = "[(12, True, 4), (13, True, 5), (14, True, 6), (15, True, 7), (8, False, 4), (9, False, 5), (10, False, 6), (11, False, 7), (4, True, 0), (5, True, 1), (6, True, 2), (7, True, 3), (0, False, 0), (1, False, 1), (2, False, 2), (3, False, 3)]"], unfold move_simps, rule SsePunpckldq_def, simp, simp,
      drule list_16, drule list_16, elim exE) (simp add: unpack_low_def unpack_high_def interleave_def upts)

lemma SsePunpckhdq_moves: "moves 16 (unpack_high 4) SsePunpckhdq"
  by (rule moves_by_sequence [where ms = "[(0, False, 8), (1, False, 9), (2, False, 10), (3, False, 11), (4, True, 8), (5, True, 9), (6, True, 10), (7, True, 11), (8, False, 12), (9, False, 13), (10, False, 14), (11, False, 15), (12, True, 12), (13, True, 13), (14, True, 14), (15, True, 15)]"], unfold move_simps, rule SsePunpckhdq_def, simp, simp,
      drule list_16, drule list_16, elim exE) (simp add: unpack_low_def unpack_high_def interleave_def upts)

lemma SsePunpcklqdq_moves: "moves 16 (unpack_low 8) SsePunpcklqdq"
  by (rule moves_by_sequence [where ms = "[(8, True, 0), (9, True, 1), (10, True, 2), (11, True, 3), (12, True, 4), (13, True, 5), (14, True, 6), (15, True, 7), (0, False, 0), (1, False, 1), (2, False, 2), (3, False, 3), (4, False, 4), (5, False, 5), (6, False, 6), (7, False, 7)]"], unfold move_simps, rule SsePunpcklqdq_def, simp, simp,
      drule list_16, drule list_16, elim exE) (simp add: unpack_low_def unpack_high_def interleave_def upts)

lemma SsePunpckhqdq_moves: "moves 16 (unpack_high 8) SsePunpckhqdq"
  by (rule moves_by_sequence [where ms = "[(0, False, 8), (1, False, 9), (2, False, 10), (3, False, 11), (4, False, 12), (5, False, 13), (6, False, 14), (7, False, 15), (8, True, 8), (9, True, 9), (10, True, 10), (11, True, 11), (12, True, 12), (13, True, 13), (14, True, 14), (15, True, 15)]"], unfold move_simps, rule SsePunpckhqdq_def, simp, simp,
      drule list_16, drule list_16, elim exE) (simp add: unpack_low_def unpack_high_def interleave_def upts)

section \<open>Kernels that assemble their result in a local array\<close>

definition words_of :: "u8 list \<Rightarrow> u16 list" where
  "words_of xs = map (\<lambda>i. Get16 (nth xs) (i * 2)) [0..<length xs div 2]"

definition dwords_of :: "u8 list \<Rightarrow> u32 list" where
  "dwords_of xs = map (\<lambda>i. Get32 (nth xs) (i * 4)) [0..<length xs div 4]"

definition word_bytes :: "u16 list \<Rightarrow> u8 list" where
  "word_bytes ws = concat (map (\<lambda>w. [to_u8 w, to_u8 (shr w 8)]) ws)"

definition dword_bytes :: "u32 list \<Rightarrow> u8 list" where
  "dword_bytes ws = concat (map (\<lambda>w. [to_u8 w, to_u8 (shr w 8), to_u8 (shr w 16), to_u8 (shr w 24)]) ws)"

definition pairs :: "('a \<Rightarrow> 'a \<Rightarrow> 'a) \<Rightarrow> 'a list \<Rightarrow> 'a list" where
  "pairs f xs = map (\<lambda>i. f (xs ! (2 * i)) (xs ! (2 * i + 1))) [0..<length xs div 2]"

definition shuffle :: "u8 list \<Rightarrow> u8 list \<Rightarrow> u8 list" where
  "shuffle xs ys = map (\<lambda>c. if bit c 7 then 0 else xs ! (unat c mod length xs)) ys"

definition align :: "nat \<Rightarrow> u8 list \<Rightarrow> u8 list \<Rightarrow> u8 list" where
  "align k xs ys =
     map (\<lambda>j. if k + j < 2 * length xs then (ys @ xs) ! (k + j) else 0) [0..<length xs]"

definition bytes_up :: "nat \<Rightarrow> u8 list \<Rightarrow> u8 list" where
  "bytes_up k xs = map (\<lambda>j. if j < k then 0 else xs ! (j - k)) [0..<length xs]"

definition bytes_down :: "nat \<Rightarrow> u8 list \<Rightarrow> u8 list" where
  "bytes_down k xs = map (\<lambda>j. if j + k < length xs then xs ! (j + k) else 0) [0..<length xs]"

lemma moves_memcpy:
  assumes "\<And>x y s. K x y s = memcpy x (T x y s) 0 n s"
    and "\<And>x y s. map (T x y s) [0..<n] = F (bytes n s x) (bytes n s y)"
  shows "moves n F K"
proof -
  have "bytes n (memcpy x t 0 n s) x = map t [0..<n]" for x s t
    unfolding bytes_def by (rule map_cong) (auto simp: memcpy_def)
  then show ?thesis
    unfolding moves_def assms(1) using assms(2) by (auto simp: memcpy_def)
qed

lemma words_of_bytes_upt:
  "words_of (bytes n s p) = map (\<lambda>i. Get16 s (p + i * 2)) [0..<n div 2]"
  "dwords_of (bytes n s p) = map (\<lambda>i. Get32 s (p + i * 4)) [0..<n div 4]"
proof -
  show "words_of (bytes n s p) = map (\<lambda>i. Get16 s (p + i * 2)) [0..<n div 2]"
    unfolding words_of_def by (rule map_cong) (auto simp: bytes_def Get16_def)
  show "dwords_of (bytes n s p) = map (\<lambda>i. Get32 s (p + i * 4)) [0..<n div 4]"
    unfolding dwords_of_def
  proof (rule map_cong)
    fix i assume "i \<in> set [0..<n div 4]"
    then have "i * 4 + 3 < n" by auto
    then show "Get32 ((!) (bytes n s p)) (i * 4) = Get32 s (p + i * 4)"
      by (simp add: bytes_def Get32_def add.assoc)
  qed (simp add: bytes_def)
qed

lemmas words_of_bytes = words_of_bytes_upt [of 8, simplified, unfolded upts] words_of_bytes_upt [of 16, simplified, unfolded upts]

lemmas assemble = for_loop_def upts Let_def words_of_bytes word_bytes_def dword_bytes_def
  Put8_def Put16_def Put32_def sat_8 sat_16 pairs_def Clamp16_def Phsw_def

lemma MmxPackuswb_moves: "moves 8 (\<lambda>X Y. map (\<lambda>w. sat_u (sint w)) (words_of X @ words_of Y)) MmxPackuswb"
  by (rule moves_memcpy, unfold MmxPackuswb_def Let_def, rule refl) (simp add: assemble)

lemma SsePackuswb_moves: "moves 16 (\<lambda>X Y. map (\<lambda>w. sat_u (sint w)) (words_of X @ words_of Y)) SsePackuswb"
  by (rule moves_memcpy, unfold SsePackuswb_def Let_def, rule refl) (simp add: assemble)

lemma MmxPacksswb_moves: "moves 8 (\<lambda>X Y. map (\<lambda>w. sat_s (sint w)) (words_of X @ words_of Y)) MmxPacksswb"
  by (rule moves_memcpy, unfold MmxPacksswb_def Let_def, rule refl) (simp add: assemble)

lemma SsePacksswb_moves: "moves 16 (\<lambda>X Y. map (\<lambda>w. sat_s (sint w)) (words_of X @ words_of Y)) SsePacksswb"
  by (rule moves_memcpy, unfold SsePacksswb_def Let_def, rule refl) (simp add: assemble)

lemma MmxPackssdw_moves:
  "moves 8 (\<lambda>X Y. word_bytes (map (\<lambda>w. sat_s (sint w)) (dwords_of X @ dwords_of Y))) MmxPackssdw"
  by (rule moves_memcpy, unfold MmxPackssdw_def Let_def, rule refl) (simp add: assemble)

lemma SsePackssdw_moves:
  "moves 16 (\<lambda>X Y. word_bytes (map (\<lambda>w. sat_s (sint w)) (dwords_of X @ dwords_of Y))) SsePackssdw"
  by (rule moves_memcpy, unfold SsePackssdw_def Let_def, rule refl) (simp add: assemble)

lemma MmxPhaddw_moves: "moves 8 (\<lambda>X Y. word_bytes (pairs (\<lambda>a b. a + b) (words_of X @ words_of Y))) MmxPhaddw"
  by (rule moves_memcpy, unfold MmxPhaddw_def Let_def, rule refl) (simp add: assemble)

lemma SsePhaddw_moves: "moves 16 (\<lambda>X Y. word_bytes (pairs (\<lambda>a b. a + b) (words_of X @ words_of Y))) SsePhaddw"
  by (rule moves_memcpy, unfold SsePhaddw_def Let_def, rule refl) (simp add: assemble)

lemma MmxPhsubw_moves: "moves 8 (\<lambda>X Y. word_bytes (pairs (\<lambda>a b. a - b) (words_of X @ words_of Y))) MmxPhsubw"
  by (rule moves_memcpy, unfold MmxPhsubw_def Let_def, rule refl) (simp add: assemble)

lemma SsePhsubw_moves: "moves 16 (\<lambda>X Y. word_bytes (pairs (\<lambda>a b. a - b) (words_of X @ words_of Y))) SsePhsubw"
  by (rule moves_memcpy, unfold SsePhsubw_def Let_def, rule refl) (simp add: assemble)

lemma MmxPhaddd_moves: "moves 8 (\<lambda>X Y. dword_bytes (pairs (\<lambda>a b. a + b) (dwords_of X @ dwords_of Y))) MmxPhaddd"
  by (rule moves_memcpy, unfold MmxPhaddd_def Let_def, rule refl) (simp add: assemble)

lemma SsePhaddd_moves: "moves 16 (\<lambda>X Y. dword_bytes (pairs (\<lambda>a b. a + b) (dwords_of X @ dwords_of Y))) SsePhaddd"
  by (rule moves_memcpy, unfold SsePhaddd_def Let_def, rule refl) (simp add: assemble)

lemma MmxPhsubd_moves: "moves 8 (\<lambda>X Y. dword_bytes (pairs (\<lambda>a b. a - b) (dwords_of X @ dwords_of Y))) MmxPhsubd"
  by (rule moves_memcpy, unfold MmxPhsubd_def Let_def, rule refl) (simp add: assemble)

lemma SsePhsubd_moves: "moves 16 (\<lambda>X Y. dword_bytes (pairs (\<lambda>a b. a - b) (dwords_of X @ dwords_of Y))) SsePhsubd"
  by (rule moves_memcpy, unfold SsePhsubd_def Let_def, rule refl) (simp add: assemble)

lemma MmxPhaddsw_moves:
  "moves 8 (\<lambda>X Y. word_bytes (pairs (\<lambda>a b. sat_s (sint a + sint b)) (words_of X @ words_of Y))) MmxPhaddsw"
  by (rule moves_memcpy, unfold MmxPhaddsw_def Phsw_def Let_def, rule refl) (simp add: assemble add.commute)

lemma MmxPhsubsw_moves:
  "moves 8 (\<lambda>X Y. word_bytes (pairs (\<lambda>a b. sat_s (sint a - sint b)) (words_of X @ words_of Y))) MmxPhsubsw"
  by (rule moves_memcpy, unfold MmxPhsubsw_def Phsw_def Let_def, rule refl) (simp add: assemble add.commute)


lemma for_loop_Put8:
  "for_loop n (\<lambda>i. Put8 (p + i) (f i)) t a = (if p \<le> a \<and> a < p + n then f (a - p) else t a)"
  using for_loop_bytes [where n = n and p = p and H = "\<lambda>i _. f i" and X = t] by simp

lemmas for_loop_Put8_0 = for_loop_Put8 [where p = 0, simplified]

lemma low_index: "unat (c AND 7 :: u8) = unat c mod 8" "unat (c AND 15 :: u8) = unat c mod 16"
proof -
  have "unat (take_bit i c) = unat c mod 2 ^ i" for i
    by (simp only: unsigned_take_bit_eq take_bit_eq_mod [where 'a = nat])
  from this [of 3] this [of 4] show "unat (c AND 7 :: u8) = unat c mod 8" "unat (c AND 15 :: u8) = unat c mod 16"
    by (simp_all add: take_bit_eq_mask mask_numeral)
qed

lemma and_128: "(c :: u8) AND 128 \<noteq> 0 \<longleftrightarrow> bit c 7"
proof -
  have "c AND 128 = c AND push_bit 7 1" by simp
  then show ?thesis unfolding bit_eq_iff [where 'a = u8] by (auto simp: bit_and_iff bit_shl_one simp del: push_bit_of_1)
qed

lemma MmxPshufb_moves: "moves 8 shuffle MmxPshufb"
proof (rule moves_memcpy, unfold MmxPshufb_def Let_def, rule refl)
  fix x y s
  show "map (for_loop 8 (\<lambda>i. Put8 i (if s (y + i) AND 128 \<noteq> 0 then 0 else s (x + unat (s (y + i) AND 7)))) local_array) [0..<8]
    = shuffle (bytes 8 s x) (bytes 8 s y)"
    unfolding shuffle_def for_loop_Put8_0 low_index and_128 bytes_def list.map_comp
    by (rule map_cong) auto
qed

lemma SsePshufb_moves: "moves 16 shuffle SsePshufb"
proof (rule moves_memcpy, unfold SsePshufb_def Let_def, rule refl)
  fix x y s
  show "map (for_loop 16 (\<lambda>i. Put8 i (if s (y + i) AND 128 \<noteq> 0 then 0 else s (x + unat (s (y + i) AND 15)))) local_array) [0..<16]
    = shuffle (bytes 16 s x) (bytes 16 s y)"
    unfolding shuffle_def for_loop_Put8_0 low_index and_128 bytes_def list.map_comp
    by (rule map_cong) auto
qed

lemma align_moves:
  "moves 8 (align (unat k)) (\<lambda>x y. MmxPalignr x y k)"
  "moves 16 (align (unat k)) (\<lambda>x y. SsePalignr x y k)"
proof -
  have c: "unat (min k 16) = min (unat k) 16" "unat (min k 32) = min (unat k) 32"
    by (simp_all add: min_def word_le_nat_alt)
  have "map (\<lambda>j. memset (2 * n) 0 n (memcpy n s x n (memcpy 0 s y n local_array)) (min (unat k) (2 * n) + j)) [0..<n]
    = align (unat k) (bytes n s x) (bytes n s y)" for x y s n
    unfolding align_def bytes_def
    by (rule map_cong) (auto simp: memset_def memcpy_def nth_append min_def)
  note al = this
  have m: "bytes n (memcpy x t p n s) x = map (\<lambda>j. t (p + j)) [0..<n]" for x s t n p
    unfolding bytes_def by (rule map_cong) (auto simp: memcpy_def)
  show "moves 8 (align (unat k)) (\<lambda>x y. MmxPalignr x y k)"
    unfolding moves_def MmxPalignr_def Let_def m c using al [of 8] by (auto simp: memcpy_def)
  show "moves 16 (align (unat k)) (\<lambda>x y. SsePalignr x y k)"
    unfolding moves_def SsePalignr_def Let_def m c using al [of 16] by (auto simp: memcpy_def)
qed

lemma byte_shift_moves:
  "moves 8 (\<lambda>X Y. bytes_up (unat k) X) (\<lambda>x y. MmxPslldq x k)"
  "moves 16 (\<lambda>X Y. bytes_up (unat k) X) (\<lambda>x y. SsePslldq x k)"
  "moves 8 (\<lambda>X Y. bytes_down (unat k) X) (\<lambda>x y. MmxPsrldq x k)"
  "moves 16 (\<lambda>X Y. bytes_down (unat k) X) (\<lambda>x y. SsePsrldq x k)"
proof -
  have c: "unat (if 8 < k then 8 else k) = min (unat k) 8" "unat (if 16 < k then 16 else k) = min (unat k) 16"
    by (simp_all add: min_def word_less_nat_alt)
  have up: "map (for_loop (n - min q n) (\<lambda>i. Put8 (min q n + i) (s (x + i))) (for_loop (min q n) (\<lambda>i. Put8 i 0) local_array)) [0..<n]
      = bytes_up q (bytes n s x)" for n q s x
    unfolding bytes_up_def bytes_def for_loop_Put8 for_loop_Put8_0
    by (rule map_cong) (auto simp: min_def)
  have down: "map (memset (n - min q n) 0 (min q n) (memcpy 0 s (x + min q n) (n - min q n) local_array)) [0..<n]
      = bytes_down q (bytes n s x)" for n q s x
    unfolding bytes_down_def bytes_def
    by (rule map_cong) (auto simp: min_def memset_def memcpy_def local_array_def add.commute add.left_commute)
  show "moves 8 (\<lambda>X Y. bytes_up (unat k) X) (\<lambda>x y. MmxPslldq x k)"
    by (rule moves_memcpy, unfold MmxPslldq_def Let_def c, rule refl, rule up)
  show "moves 16 (\<lambda>X Y. bytes_up (unat k) X) (\<lambda>x y. SsePslldq x k)"
    by (rule moves_memcpy, unfold SsePslldq_def Let_def c, rule refl, rule up)
  show "moves 8 (\<lambda>X Y. bytes_down (unat k) X) (\<lambda>x y. MmxPsrldq x k)"
    by (rule moves_memcpy, unfold MmxPsrldq_def Let_def c, rule refl, rule down)
  show "moves 16 (\<lambda>X Y. bytes_down (unat k) X) (\<lambda>x y. SsePsrldq x k)"
    by (rule moves_memcpy, unfold SsePsrldq_def Let_def c, rule refl, rule down)
qed

section \<open>Sums of absolute differences\<close>

definition sad :: "ram \<Rightarrow> nat \<Rightarrow> nat \<Rightarrow> nat list \<Rightarrow> int" where
  "sad s x y js = (\<Sum>i\<leftarrow>js. \<bar>uint (s (x + i)) - uint (s (y + i))\<bar>)"

lemma fold_sad:
  "fold (\<lambda>i u. u + word_of_int (c_abs (uint (s (x + i)) - uint (s (y + i))))) js (a :: 'a::len word)
    = a + word_of_int (sad s x y js)"
  by (induction js arbitrary: a) (simp_all add: sad_def c_abs_abs algebra_simps)

lemma sad_bound: "0 \<le> sad s x y js \<and> sad s x y js \<le> 255 * int (length js)"
proof (induction js)
  case (Cons j js)
  have "\<bar>uint (s (x + j)) - uint (s (y + j))\<bar> \<le> 255"
    using uint_lt2p [of "s (x + j)"] uint_lt2p [of "s (y + j)"] uint_ge_0 [of "s (x + j)"] uint_ge_0 [of "s (y + j)"]
    unfolding abs_le_iff by (simp, linarith)
  then show ?case using Cons by (simp add: sad_def algebra_simps)
qed (simp add: sad_def)


text \<open>The interleaving kernels interleave: for every element size and both register sizes, the result of
  \<open>punpckl\<close> (\<open>punpckh\<close>) alternates the elements of the low (high) halves of destination and source,
  whether these are disjoint or the same register, although the code stores byte by byte in place.\<close>

theorem simd_unpack:
  "list_all (\<lambda>(n, F, K). moves n F K)
     [(8, unpack_low 1, MmxPunpcklbw),
      (8, unpack_high 1, MmxPunpckhbw),
      (8, unpack_low 2, MmxPunpcklwd),
      (8, unpack_high 2, MmxPunpckhwd),
      (8, unpack_low 4, MmxPunpckldq),
      (8, unpack_high 4, MmxPunpckhdq),
      (16, unpack_low 1, SsePunpcklbw),
      (16, unpack_high 1, SsePunpckhbw),
      (16, unpack_low 2, SsePunpcklwd),
      (16, unpack_high 2, SsePunpckhwd),
      (16, unpack_low 4, SsePunpckldq),
      (16, unpack_high 4, SsePunpckhdq),
      (16, unpack_low 8, SsePunpcklqdq),
      (16, unpack_high 8, SsePunpckhqdq)]"
  by (simp only: list.pred_inject prod.case simp_thms MmxPunpcklbw_moves MmxPunpckhbw_moves MmxPunpcklwd_moves MmxPunpckhwd_moves MmxPunpckldq_moves MmxPunpckhdq_moves SsePunpcklbw_moves SsePunpckhbw_moves SsePunpcklwd_moves SsePunpckhwd_moves SsePunpckldq_moves SsePunpckhdq_moves SsePunpcklqdq_moves SsePunpckhqdq_moves)

text \<open>Packing, horizontal and shuffling kernels: the result is the packed, saturated elements of
  destination and source, the sums or differences of their adjacent elements, or the shuffled, shifted or
  aligned bytes, at both register sizes, and nothing outside the destination changes.\<close>

theorem simd_assemble:
  "list_all (\<lambda>(n, F, K). moves n F K)
     [(8, \<lambda>X Y. map (\<lambda>w. sat_u (sint w)) (words_of X @ words_of Y), MmxPackuswb),
      (16, \<lambda>X Y. map (\<lambda>w. sat_u (sint w)) (words_of X @ words_of Y), SsePackuswb),
      (8, \<lambda>X Y. map (\<lambda>w. sat_s (sint w)) (words_of X @ words_of Y), MmxPacksswb),
      (16, \<lambda>X Y. map (\<lambda>w. sat_s (sint w)) (words_of X @ words_of Y), SsePacksswb),
      (8, \<lambda>X Y. word_bytes (map (\<lambda>w. sat_s (sint w)) (dwords_of X @ dwords_of Y)), MmxPackssdw),
      (16, \<lambda>X Y. word_bytes (map (\<lambda>w. sat_s (sint w)) (dwords_of X @ dwords_of Y)), SsePackssdw),
      (8, \<lambda>X Y. word_bytes (pairs (\<lambda>a b. a + b) (words_of X @ words_of Y)), MmxPhaddw),
      (16, \<lambda>X Y. word_bytes (pairs (\<lambda>a b. a + b) (words_of X @ words_of Y)), SsePhaddw),
      (8, \<lambda>X Y. word_bytes (pairs (\<lambda>a b. a - b) (words_of X @ words_of Y)), MmxPhsubw),
      (16, \<lambda>X Y. word_bytes (pairs (\<lambda>a b. a - b) (words_of X @ words_of Y)), SsePhsubw),
      (8, \<lambda>X Y. dword_bytes (pairs (\<lambda>a b. a + b) (dwords_of X @ dwords_of Y)), MmxPhaddd),
      (16, \<lambda>X Y. dword_bytes (pairs (\<lambda>a b. a + b) (dwords_of X @ dwords_of Y)), SsePhaddd),
      (8, \<lambda>X Y. dword_bytes (pairs (\<lambda>a b. a - b) (dwords_of X @ dwords_of Y)), MmxPhsubd),
      (16, \<lambda>X Y. dword_bytes (pairs (\<lambda>a b. a - b) (dwords_of X @ dwords_of Y)), SsePhsubd),
      (8, \<lambda>X Y. word_bytes (pairs (\<lambda>a b. sat_s (sint a + sint b)) (words_of X @ words_of Y)), MmxPhaddsw),
      (8, \<lambda>X Y. word_bytes (pairs (\<lambda>a b. sat_s (sint a - sint b)) (words_of X @ words_of Y)), MmxPhsubsw),
      (8, shuffle, MmxPshufb), (16, shuffle, SsePshufb),
      (8, align (unat k), \<lambda>x y. MmxPalignr x y k), (16, align (unat k), \<lambda>x y. SsePalignr x y k),
      (8, \<lambda>X Y. bytes_up (unat k) X, \<lambda>x y. MmxPslldq x k), (16, \<lambda>X Y. bytes_up (unat k) X, \<lambda>x y. SsePslldq x k),
      (8, \<lambda>X Y. bytes_down (unat k) X, \<lambda>x y. MmxPsrldq x k), (16, \<lambda>X Y. bytes_down (unat k) X, \<lambda>x y. SsePsrldq x k)]"
  by (simp only: list.pred_inject prod.case simp_thms MmxPackuswb_moves SsePackuswb_moves MmxPacksswb_moves SsePacksswb_moves MmxPackssdw_moves SsePackssdw_moves MmxPhaddw_moves SsePhaddw_moves MmxPhsubw_moves SsePhsubw_moves MmxPhaddd_moves SsePhaddd_moves MmxPhsubd_moves SsePhsubd_moves MmxPhaddsw_moves MmxPhsubsw_moves
      MmxPshufb_moves SsePshufb_moves align_moves byte_shift_moves)

text \<open>The octoword sum of absolute differences is the sum over each half, as a quadword. The quadword kernel
  is not the same function of eight bytes: it leaves the sums of the low and the high four bytes in its
  two doublewords, where the architecture has one sum, as it is at the low half of the octoword.\<close>

theorem simd_sad:
  "uint (Get64 (SsePsadbw x y s) x) = sad s x y [0..<8] \<and>
   uint (Get64 (SsePsadbw x y s) (x + 8)) = sad s x y [8..<16] \<and>
   uint (Get32 (MmxPsadbw x y s) x) = sad s x y [0..<4] \<and>
   uint (Get32 (MmxPsadbw x y s) (x + 4)) = sad s x y [4..<8]"
proof -
  have u: "uint (word_of_int (sad s x y [a..<b]) :: u32) = sad s x y [a..<b]" if "b - a \<le> 8" for a b
  proof -
    have "255 * int (b - a) < 2 ^ 32" using that by simp
    then have "sad s x y [a..<b] < 2 ^ 32" using sad_bound [of s x y "[a..<b]"] by simp
    then show ?thesis using sad_bound [of s x y "[a..<b]"]
      by (simp add: unsigned_of_int take_bit_int_eq_self)
  qed
  have f64: "Get64 (Put64 (x + 8) v t) x = Get64 t x" for v t by (rule lane64.get_put_other) simp
  have f32: "Get32 (Put32 (x + 4) v t) x = Get32 t x" for v t by (rule lane32.get_put_other) simp
  show ?thesis
    using u [of 8 0] u [of 16 8] u [of 4 0] u [of 8 4]
    unfolding SsePsadbw_def MmxPsadbw_def Let_def fold_sad
    by (simp add: f64 f32 Get_Put uint_copy del: upt_Suc)
qed

end
