(* ===== verification/Bits.thy ===== *)
theory Bits
  imports Blink_Prelude
begin

text \<open>
  The bit-manipulation routines: the bit scans of \<^verbatim>\<open>bitscan.c\<close> (a de Bruijn table and a binary
  search, for compilers without builtins) and the parallel deposit and extract of \<^verbatim>\<open>bmi2.c\<close>,
  whose loops run until the mask is empty.
\<close>

section \<open>Bit scans\<close>

definition kDebruijn :: "nat list" where
  "kDebruijn =
    [0,  47, 1,  56, 48, 27, 2,  60, 57, 49, 41, 37, 28, 16, 3,  61,
     54, 58, 35, 52, 50, 42, 21, 44, 38, 32, 29, 23, 17, 11, 4,  62,
     46, 55, 26, 59, 40, 36, 15, 53, 34, 51, 20, 43, 31, 22, 10, 45,
     25, 39, 14, 33, 19, 30, 9,  24, 13, 18, 8,  12, 7,  6,  5,  63]"

definition bsr :: "u64 \<Rightarrow> nat" where
  "bsr x =
     (let x = x OR shr x 1;
          x = x OR shr x 2;
          x = x OR shr x 4;
          x = x OR shr x 8;
          x = x OR shr x 16;
          x = x OR shr x 32
      in kDebruijn ! unat (shr (x * 0x03f79d71b4cb0a89) 58))"

definition bsf :: "u64 \<Rightarrow> u32" where
  "bsf x =
     (let x = x AND - x;
          l = to_u32 (x OR shr x 32);
          r = of_bool (shr x 32 \<noteq> 0); r = shl r 1;
          r = r + of_bool (l AND 0xffff0000 \<noteq> 0); r = shl r 1;
          r = r + of_bool (l AND 0xff00ff00 \<noteq> 0); r = shl r 1;
          r = r + of_bool (l AND 0xf0f0f0f0 \<noteq> 0); r = shl r 1;
          r = r + of_bool (l AND 0xcccccccc \<noteq> 0); r = shl r 1
      in r + of_bool (l AND 0xaaaaaaaa \<noteq> 0))"

definition smear :: "u64 \<Rightarrow> nat \<Rightarrow> u64" where
  "smear y k = y OR shr y k"

lemma smear_step:
  fixes x y :: u64
  assumes "\<And>i. bit y i \<longleftrightarrow> (\<exists>j<k. bit x (i + j))" "n = 2 * k"
  shows "bit (smear y k) i \<longleftrightarrow> (\<exists>j<n. bit x (i + j))"
proof -
  have "(\<exists>j<n. bit x (i + j)) \<longleftrightarrow> (\<exists>j<k. bit x (i + j)) \<or> (\<exists>j<k. bit x (k + i + j))"
  proof (intro iffI; elim exE conjE disjE)
    fix j assume j: "j < n" "bit x (i + j)"
    then show "(\<exists>j<k. bit x (i + j)) \<or> (\<exists>j<k. bit x (k + i + j))"
    proof (cases "j < k")
      case False
      then show ?thesis using j assms(2) by (intro disjI2 exI [of _ "j - k"]) (simp add: ac_simps)
    qed (use j in blast)
  next
    fix j assume "j < k" "bit x (k + i + j)"
    then show "\<exists>j<n. bit x (i + j)" using assms(2) by (intro exI [of _ "k + j"]) (simp add: ac_simps)
  next
    fix j assume "j < k" "bit x (i + j)"
    then show "\<exists>j<n. bit x (i + j)" using assms(2) by (intro exI [of _ j]) simp
  qed
  then show ?thesis using assms(1) by (simp add: smear_def bit_or_iff bit_drop_bit_eq)
qed

text \<open>The number of bits up to the highest one, zero for zero.\<close>

definition bit_length :: "u64 \<Rightarrow> nat" where
  "bit_length x = (LEAST n. \<forall>i\<ge>n. \<not> bit x i)"

lemma bit_length: "\<forall>i\<ge>bit_length x. \<not> bit x i" "bit_length x \<le> 64"
  "i < bit_length x \<Longrightarrow> \<exists>j\<ge>i. bit x j"
proof -
  have 64: "\<forall>i\<ge>64. \<not> bit x i" using bit_imp_le_length [of x] by fastforce
  then show "\<forall>i\<ge>bit_length x. \<not> bit x i" unfolding bit_length_def by (rule LeastI)
  show "bit_length x \<le> 64" unfolding bit_length_def using 64 by (rule Least_le)
  show "\<exists>j\<ge>i. bit x j" if "i < bit_length x" using that not_less_Least unfolding bit_length_def by blast
qed

lemma smears: "smear (smear (smear (smear (smear (smear x 1) 2) 4) 8) 16) 32 = mask (bit_length x)"
proof (rule bit_word_eqI)
  fix i assume i: "i < LENGTH(64)"
  have 0: "bit x i \<longleftrightarrow> (\<exists>j<1. bit x (i + j))" for i by simp
  note 1 = smear_step [OF 0, of 2]
  note 2 = smear_step [OF 1, of 4]
  note 3 = smear_step [OF 2, of 8]
  note 4 = smear_step [OF 3, of 16]
  note 5 = smear_step [OF 4, of 32]
  note 6 = smear_step [OF 5, of 64]
  have "(\<exists>j<64. bit x (i + j)) \<longleftrightarrow> i < bit_length x"
  proof
    assume "\<exists>j<64. bit x (i + j)"
    then show "i < bit_length x" using bit_length(1) by (meson le_add1 le_trans not_le_imp_less)
  next
    assume "i < bit_length x"
    then obtain j where "i \<le> j" "bit x j" using bit_length(3) by blast
    then show "\<exists>j<64. bit x (i + j)" using bit_imp_le_length [of x j] by (intro exI [of _ "j - i"]) auto
  qed
  then show "bit (smear (smear (smear (smear (smear (smear x 1) 2) 4) 8) 16) 32) i = bit (mask (bit_length x) :: u64) i"
    using 6 [of i] i by (simp add: bit_mask_iff)
qed

lemma kDebruijn_masks:
  "list_all (\<lambda>k. kDebruijn ! unat (shr ((mask (Suc k) :: u64) * 0x03f79d71b4cb0a89) 58) = k) [0..<64]"
  by code_simp

lemma bsr_bit_length:
  assumes "x \<noteq> 0"
  shows "bsr x = bit_length x - 1"
proof -
  obtain j where "bit x j" using assms bit_eq_iff [of x 0] by auto
  then have "0 < bit_length x" using bit_length(1) [of x] by (metis not_gr_zero zero_le)
  then obtain k where k: "bit_length x = Suc k" by (metis gr0_implies_Suc)
  then have "k \<in> set [0..<64]" using bit_length(2) [of x] by simp
  then have "kDebruijn ! unat (shr ((mask (Suc k) :: u64) * 0x03f79d71b4cb0a89) 58) = k"
    using kDebruijn_masks unfolding list_all_iff by blast
  then show ?thesis
    unfolding bsr_def Let_def smear_def [symmetric] smears k by simp
qed

lemma bsr_bits: "x \<noteq> 0 \<Longrightarrow> bit x (bsr x) \<and> bsr x < 64 \<and> (\<forall>i>bsr x. \<not> bit x i)"
proof -
  assume "x \<noteq> 0"
  then obtain j where "bit x j" using bit_eq_iff [of x 0] by auto
  then have p: "0 < bit_length x" using bit_length(1) [of x] by (metis not_gr_zero zero_le)
  then have "bit x (bit_length x - 1)"
    using bit_length(1) [of x] bit_length(3) [of "bit_length x - 1" x] by (metis One_nat_def Suc_pred le_Suc_eq diff_less le_antisym lessI linorder_not_le not_less_eq_eq)
  then show ?thesis
    using p bit_length(1,2) [of x] bsr_bit_length [OF \<open>x \<noteq> 0\<close>] by auto
qed

lemma lowest_bit:
  fixes x :: u64
  assumes "bit x k" "\<forall>i<k. \<not> bit x i"
  shows "x AND - x = push_bit k 1"
proof -
  let ?q = "push_bit (Suc k) (drop_bit (Suc k) x)"
  have k: "k < 64" using assms(1) bit_imp_le_length [of x k] by simp
  have h: "Suc (k + (n - Suc k)) = n" if "k < n" for n using that by simp
  have x: "x = ?q OR push_bit k 1"
    by (rule bit_word_eqI) (use assms k h in \<open>auto simp: bit_or_iff bit_push_bit_iff bit_drop_bit_eq bit_1_iff
      le_less Suc_le_eq not_less_eq simp del: push_bit_of_1 push_bit_Suc\<close>)
  have "?q OR mask k = ?q + mask k" "?q OR push_bit k 1 = ?q + push_bit k 1"
    by (rule disjunctive_add [symmetric], auto simp: bit_push_bit_iff bit_mask_iff bit_1_iff simp del: push_bit_of_1 push_bit_Suc)+
  moreover have "push_bit k 1 = mask k + (1 :: u64)"
    by (simp add: mask_eq_exp_minus_1)
  ultimately have "x - 1 = ?q OR mask k" by (subst x) simp
  then have m: "- x = NOT (?q OR mask k)" by (simp add: minus_eq_not_minus_1)
  show ?thesis
    unfolding m
    by (rule bit_word_eqI) (use assms k in \<open>auto simp: bit_and_iff bit_or_iff bit_not_iff bit_push_bit_iff
      bit_drop_bit_eq bit_1_iff bit_mask_iff Suc_le_eq simp del: push_bit_of_1 push_bit_Suc\<close>)
qed

lemma bsf_powers_16:
  "list_all (\<lambda>k. bsf (push_bit k 1) = word_of_nat k) [0..<16]"
  by (simp add: upt_rec bsf_def Let_def)

lemma bsf_powers_32:
  "list_all (\<lambda>k. bsf (push_bit k 1) = word_of_nat k) [16..<32]"
  by (simp add: upt_rec bsf_def Let_def)

lemma bsf_powers_48:
  "list_all (\<lambda>k. bsf (push_bit k 1) = word_of_nat k) [32..<48]"
  by (simp add: upt_rec bsf_def Let_def)

lemma bsf_powers_64:
  "list_all (\<lambda>k. bsf (push_bit k 1) = word_of_nat k) [48..<64]"
  by (simp add: upt_rec bsf_def Let_def)

lemma bsf_powers: "k < 64 \<Longrightarrow> bsf (push_bit k 1) = word_of_nat k"
  using bsf_powers_16 bsf_powers_32 bsf_powers_48 bsf_powers_64
  unfolding list_all_iff set_upt
  by (cases "k < 16"; cases "k < 32"; cases "k < 48") simp_all

lemma bsf_bits: "x \<noteq> 0 \<Longrightarrow> bit x (unat (bsf x)) \<and> bsf x < 64 \<and> (\<forall>i<unat (bsf x). \<not> bit x i)"
proof -
  assume "x \<noteq> 0"
  then obtain j where "bit x j" using bit_eq_iff [of x 0] by auto
  define k where "k = (LEAST k. bit x k)"
  have k: "bit x k" "\<forall>i<k. \<not> bit x i"
    unfolding k_def using \<open>bit x j\<close> by (rule LeastI) (use not_less_Least in blast)
  have "k < 64" using k(1) bit_imp_le_length [of x k] by simp
  have "(push_bit k 1 :: u64) AND - push_bit k 1 = push_bit k 1"
    by (rule lowest_bit) (use \<open>k < 64\<close> in \<open>auto simp: bit_push_bit_iff bit_1_iff simp del: push_bit_of_1\<close>)
  then have "bsf x = bsf (push_bit k 1)"
    unfolding bsf_def using lowest_bit [OF k] by simp
  also have "\<dots> = word_of_nat k" using bsf_powers \<open>k < 64\<close> by simp
  finally show ?thesis using k \<open>k < 64\<close>
    by (simp add: unsigned_of_nat take_bit_nat_eq_self word_less_nat_alt)
qed


section \<open>Parallel deposit and extract\<close>

lemma shr_one_less:
  fixes m :: u64
  assumes "m \<noteq> 0"
  shows "unat (shr m (Suc 0)) < unat m"
proof -
  have "0 < unat m" using assms by (simp add: unat_gt_0)
  moreover have "take_bit 64 (unat m) = unat m"
    by (rule take_bit_nat_eq_self) (use unsigned_less [of m] in simp)
  then have "unat (shr m 1) = unat m div 2"
    by (simp add: drop_bit_eq_div [where 'a = nat] unsigned_drop_bit_eq)
  ultimately show ?thesis by simp
qed

text \<open>The loops run while the mask is not zero; \<open>r\<close> is the result so far, \<open>b\<close> the next bit of it.\<close>

function pdep_loop :: "u64 \<Rightarrow> u64 \<Rightarrow> u64 \<Rightarrow> u64 \<Rightarrow> u64" where
  "pdep_loop x mask' r b =
     (if mask' \<noteq> 0 then
        if mask' AND 1 \<noteq> 0 then
          pdep_loop (shr x 1) (shr mask' 1) (if x AND 1 \<noteq> 0 then r OR b else r) (shl b 1)
        else pdep_loop x (shr mask' 1) r (shl b 1)
      else r)"
  by pat_completeness auto

termination by (relation "measure (\<lambda>(x, m, r, b). unat m)") (auto intro: shr_one_less)

declare pdep_loop.simps [simp del]

definition Pdep :: "u64 \<Rightarrow> u64 \<Rightarrow> u64" where
  "Pdep x mask' = pdep_loop x mask' 0 1"

function pext_loop :: "u64 \<Rightarrow> u64 \<Rightarrow> u64 \<Rightarrow> u64 \<Rightarrow> u64" where
  "pext_loop x mask' r b =
     (if mask' \<noteq> 0 then
        if mask' AND 1 \<noteq> 0 then
          pext_loop (shr x 1) (shr mask' 1) (if x AND 1 \<noteq> 0 then r OR b else r) (shl b 1)
        else pext_loop (shr x 1) (shr mask' 1) r b
      else r)"
  by pat_completeness auto

termination by (relation "measure (\<lambda>(x, m, r, b). unat m)") (auto intro: shr_one_less)

declare pext_loop.simps [simp del]

definition Pext :: "u64 \<Rightarrow> u64 \<Rightarrow> u64" where
  "Pext x mask' = pext_loop x mask' 0 1"

text \<open>How many mask bits are set below \<open>i\<close>, and where they are.\<close>

definition rank :: "u64 \<Rightarrow> nat \<Rightarrow> nat" where
  "rank m i = length (filter (bit m) [0..<i])"

definition mask_bits :: "u64 \<Rightarrow> nat list" where
  "mask_bits m = filter (bit m) [0..<64]"

lemma rank_Suc: "rank m (Suc i) = of_bool (bit m 0) + rank (shr m 1) i"
proof -
  have "[0..<Suc i] = 0 # map Suc [0..<i]" by (simp add: map_Suc_upt upt_conv_Cons)
  moreover have "length (filter (bit m) (map Suc xs)) = length (filter (bit (shr m 1)) xs)" for xs
    by (induction xs) (simp_all add: bit_drop_bit_eq)
  ultimately show ?thesis by (simp add: rank_def del: upt_Suc)
qed

lemma bit_next: "bit (if c then r OR push_bit k 1 else r) i \<longleftrightarrow> bit r i \<or> (c \<and> i = k \<and> i < 64)" for r :: u64
  unfolding if_distrib [of "\<lambda>w. bit w i"] bit_or_iff bit_shl_one by auto

lemma pdep_loop_bit:
  assumes "b = push_bit k 1"
  shows "bit (pdep_loop x m r b) i \<longleftrightarrow>
    bit r i \<or> (k \<le> i \<and> i < 64 \<and> bit m (i - k) \<and> bit x (rank m (i - k)))"
  using assms
proof (induction x m r b arbitrary: k rule: pdep_loop.induct)
  case (1 x m r b)
  have b: "shl b 1 = push_bit (Suc k) 1" using 1(3) by (simp add: push_bit_double)
  have rk: "k < i \<Longrightarrow> rank m (i - k) = of_bool (bit m 0) + rank (shr m 1) (i - Suc k)"
    using rank_Suc [of m "i - Suc k"] by (simp add: Suc_diff_Suc)
  have sh: "k < i \<Longrightarrow> bit (shr m 1) (i - Suc k) = bit m (i - k)"
    by (simp add: bit_drop_bit_eq Suc_diff_Suc)
  have r0: "rank m 0 = 0" by (simp add: rank_def)
  have xs: "bit (shr x 1) n = bit x (Suc n)" for n by (simp add: bit_drop_bit_eq)
  consider "m = 0" | "m \<noteq> 0" "bit m 0" | "m \<noteq> 0" "\<not> bit m 0" by blast
  then show ?case
  proof cases
    case 1
    then show ?thesis by (simp add: pdep_loop.simps [of x 0])
  next
    case 2
    then show ?thesis
      using 1(1) [OF _ _ b] unfolding pdep_loop.simps [of x m] and_one_bit
      unfolding 1(3) bit_next xs
      using rk sh r0 by (cases "i = k") auto
  next
    case 3
    then show ?thesis
      using 1(2) [OF _ _ b] unfolding pdep_loop.simps [of x m] and_one_bit
      using rk sh r0 by (cases "i = k") auto
  qed
qed

lemma bit_Pdep: "bit (Pdep x m) i \<longleftrightarrow> i < 64 \<and> bit m i \<and> bit x (rank m i)"
  using pdep_loop_bit [of 1 0 x m 0 i] by (simp add: Pdep_def)

text \<open>Extraction puts the bit below the \<open>n\<close>-th set mask bit at position \<open>n\<close>.\<close>

lemma pext_loop_bit:
  assumes "b = push_bit k 1"
  shows "bit (pext_loop x m r b) i \<longleftrightarrow>
    bit r i \<or> (k \<le> i \<and> i < 64 \<and> (\<exists>j. bit m j \<and> rank m j = i - k \<and> bit x j))"
  using assms
proof (induction x m r b arbitrary: k rule: pext_loop.induct)
  case (1 x m r b)
  have b: "shl b 1 = push_bit (Suc k) 1" using 1(3) by (simp add: push_bit_double)
  have xs: "bit (shr y (Suc 0)) n = bit y (Suc n)" for n and y :: u64 by (simp add: bit_drop_bit_eq)
  have r0: "rank m 0 = 0" by (simp add: rank_def)
  have split: "(\<exists>j. P j) \<longleftrightarrow> P 0 \<or> (\<exists>j. P (Suc j))" for P :: "nat \<Rightarrow> bool"
    by (metis not0_implies_Suc)
  have e: "(\<exists>j. bit m j \<and> rank m j = n \<and> bit x j) \<longleftrightarrow>
      (bit m 0 \<and> n = 0 \<and> bit x 0) \<or>
      (\<exists>j. bit (shr m 1) j \<and> of_bool (bit m 0) + rank (shr m 1) j = n \<and> bit (shr x 1) j)" for n
    by (subst split) (auto simp: r0 rank_Suc xs)
  consider "m = 0" | "m \<noteq> 0" "bit m 0" | "m \<noteq> 0" "\<not> bit m 0" by blast
  then show ?case
  proof cases
    case 1
    then show ?thesis by (simp add: pext_loop.simps [of x 0])
  next
    case 2
    have s: "(\<exists>j. bit (shr m 1) j \<and> 1 + rank (shr m 1) j = i - k \<and> bit (shr x 1) j) \<longleftrightarrow>
      k < i \<and> (\<exists>j. bit (shr m 1) j \<and> rank (shr m 1) j = i - Suc k \<and> bit (shr x 1) j)" by auto
    show ?thesis
      using 2 1(1) [OF 2(1) _ b] unfolding pext_loop.simps [of x m] and_one_bit e
      unfolding 1(3) bit_next
      using s by auto
  next
    case 3
    then show ?thesis
      using 1(2) [OF _ _ 1(3)] unfolding pext_loop.simps [of x m] and_one_bit e by auto
  qed
qed

lemma bit_Pext: "bit (Pext x m) i \<longleftrightarrow> i < 64 \<and> (\<exists>j. bit m j \<and> rank m j = i \<and> bit x j)"
  using pext_loop_bit [of 1 0 x m 0 i] by (simp add: Pext_def)

lemma rank_mono: "i < j \<Longrightarrow> bit m i \<Longrightarrow> rank m i < rank m j"
proof (induction j)
  case (Suc j)
  then show ?case by (cases "i = j") (auto simp: rank_def)
qed simp

lemma rank_inj: "bit m i \<Longrightarrow> bit m j \<Longrightarrow> rank m i = rank m j \<Longrightarrow> i = j"
  by (cases i j rule: linorder_cases) (auto dest: rank_mono)

lemma rank_le: "rank m i \<le> i"
  unfolding rank_def by (metis length_filter_le length_upt minus_nat.diff_0)

text \<open>C13: Parallel deposit and extract: \<open>Pdep\<close> puts bit \<open>n\<close> of the source at the \<open>n\<close>-th set position of
  the mask and zero elsewhere, depositing what was extracted under the same mask
  restores the masked bits, and extracting what was deposited restores the low bits of the source, as
  many as the mask has; both loops terminate for every mask.\<close>

theorem pdep_pext_correct:
  "list_all (\<lambda>i. bit (Pdep x m) i = (bit m i \<and> bit x (rank m i))) [0..<64] \<and>
   Pdep (Pext x m) m = x AND m \<and>
   Pext (Pdep x m) m = take_bit (rank m 64) x"
proof (intro conjI)
  show "list_all (\<lambda>i. bit (Pdep x m) i = (bit m i \<and> bit x (rank m i))) [0..<64]"
    by (simp add: list_all_iff bit_Pdep)
  show "Pdep (Pext x m) m = x AND m"
  proof (rule bit_word_eqI)
    fix i assume i: "i < LENGTH(64)"
    then have "rank m i < 64" using rank_le [of m i] by simp
    then show "bit (Pdep (Pext x m) m) i = bit (x AND m) i"
      using i by (auto simp: bit_Pdep bit_Pext bit_and_iff dest: rank_inj)
  qed
  show "Pext (Pdep x m) m = take_bit (rank m 64) x"
  proof (rule bit_word_eqI)
    fix i assume i: "i < LENGTH(64)"
    have "(\<exists>j. bit m j \<and> rank m j = i) \<longleftrightarrow> i < rank m 64"
    proof
      assume "\<exists>j. bit m j \<and> rank m j = i"
      then obtain j where j: "bit m j" "rank m j = i" by blast
      then have "j < 64" using bit_imp_le_length [of m j] by simp
      then show "i < rank m 64" using rank_mono [of j 64 m] j by simp
    next
      have "i < rank m n \<Longrightarrow> \<exists>j. bit m j \<and> rank m j = i" for n
        by (induction n) (auto simp: rank_def less_Suc_eq split: if_splits)
      then show "i < rank m 64 \<Longrightarrow> \<exists>j. bit m j \<and> rank m j = i" .
    qed
    then show "bit (Pext (Pdep x m) m) i = bit (take_bit (rank m 64) x) i"
      using i bit_imp_le_length [of m] by (auto simp: bit_Pdep bit_Pext bit_take_bit_iff)
  qed
qed

text \<open>Bit scans: for a nonzero argument \<open>bsr\<close> returns the position of the highest set bit, by smearing
  it downwards and a multiplication that makes the table index unique, and \<open>bsf\<close> the position of the
  lowest; on zero, where the builtins are undefined, both return 0.\<close>

theorem bit_scans:
  "if x = 0 then bsr x = 0 \<and> bsf x = 0
   else bsr x < 64 \<and> bit x (bsr x) \<and> list_all (\<lambda>i. \<not> bit x i) [Suc (bsr x)..<64] \<and>
     bsf x < 64 \<and> bit x (unat (bsf x)) \<and> list_all (\<lambda>i. \<not> bit x i) [0..<unat (bsf x)]"
proof (cases "x = 0")
  case True
  then show ?thesis by (simp add: bsr_def bsf_def kDebruijn_def)
next
  case False
  then show ?thesis using bsr_bits [OF False] bsf_bits [OF False] by (auto simp: list_all_iff)
qed

end
