(* ===== verification/Crc.thy ===== *)
theory Crc
  imports Bits
begin

text \<open>
  The CRC-32C instruction (\<open>crc32.c\<close>): the table, its static state and the byte loop, with the
  bit-serial shift register as the reference; and carry-less multiplication (\<open>clmul.c\<close>) and the
  population count (\<open>popcount.c\<close>).
\<close>

section \<open>CRC-32C\<close>

definition SWAP32 :: "u32 \<Rightarrow> u32" where
  "SWAP32 x =
     shl (0x000000ff AND x) 24 OR shl (0x0000ff00 AND x) 8 OR
     shr (0x00ff0000 AND x) 8 OR shr (0xff000000 AND x) 24"

definition InitializeCrc32 :: "u32 list \<Rightarrow> u32 \<Rightarrow> u32 list" where
  "InitializeCrc32 table polynomial =
     fold (\<lambda>d table.
       table[d := fold (\<lambda>i r. shr r 1 XOR (if r AND 1 \<noteq> 0 then polynomial else 0)) [0..<8]
                    (word_of_nat d)]) [0..<256] table"

definition ReverseBits32 :: "u32 \<Rightarrow> u32" where
  "ReverseBits32 x =
     (let x = SWAP32 x;
          x = shr (x AND 0xaaaaaaaa) 1 OR shl (x AND 0x55555555) 1;
          x = shr (x AND 0xcccccccc) 2 OR shl (x AND 0x33333333) 2
      in shr (x AND 0xf0f0f0f0) 4 OR shl (x AND 0x0f0f0f0f) 4)"

text \<open>The static state of the C function: whether the table is initialised, and the table.\<close>

type_synonym crc_state = "bool \<times> u32 list"

definition crc_start :: crc_state where
  "crc_start = (False, replicate 256 0)"

definition Castagnoli :: "crc_state \<Rightarrow> u32 \<Rightarrow> u64 \<Rightarrow> nat \<Rightarrow> u32 \<times> crc_state" where
  "Castagnoli st h w n =
     (let (once, table) = st;
          (once, table) = if \<not> once then (True, InitializeCrc32 table (ReverseBits32 0x1edc6f41))
                          else (once, table);
          (h, w) = fold (\<lambda>i (h, w).
            (shr h 8 XOR table ! unat (to_u64 (h AND 255) XOR (w AND 255)), shr w 8)) [0..<n] (h, w)
      in (h, (once, table)))"

text \<open>The specification: a shift register fed one message bit at a time, low bits first.\<close>

definition lfsr :: "u32 \<Rightarrow> u32 \<Rightarrow> bool \<Rightarrow> u32" where
  "lfsr p h b = shr h 1 XOR (if bit h 0 \<noteq> b then p else 0)"

definition crc_serial :: "u32 \<Rightarrow> u32 \<Rightarrow> u64 \<Rightarrow> nat \<Rightarrow> u32" where
  "crc_serial p h w n = fold (\<lambda>i h. lfsr p h (bit w i)) [0..<8 * n] h"

definition crc_step :: "u32 \<Rightarrow> u32 \<Rightarrow> u32" where
  "crc_step p r = shr r 1 XOR (if r AND 1 \<noteq> 0 then p else 0)"

lemma crc_step_xor: "crc_step p (a XOR b) = crc_step p a XOR crc_step p b"
proof -
  have "shr (a XOR b) 1 = shr a 1 XOR shr b 1" by (rule drop_bit_xor)
  then show ?thesis
    unfolding crc_step_def and_one_bit bit_xor_iff by (cases "bit a 0"; cases "bit b 0") (simp_all add: ac_simps)
qed

lemma crc_steps_xor: "(crc_step p ^^ k) (a XOR b) = (crc_step p ^^ k) a XOR (crc_step p ^^ k) b"
  by (induction k) (simp_all add: crc_step_xor)

lemma crc_steps_shifted: "k \<le> 31 \<Longrightarrow> u = take_bit (32 - k) u \<Longrightarrow> (crc_step p ^^ k) (push_bit k u) = u"
proof (induction k arbitrary: u)
  case (Suc k)
  have u: "i < 31 - k" if "bit u i" for i
    using that Suc.prems(2) bit_take_bit_iff [of "32 - Suc k" u i] by simp
  have "crc_step p (push_bit (Suc k) u) = push_bit k u"
  proof -
    have "\<not> bit (push_bit (Suc k) u) 0" by (simp add: bit_push_bit_iff del: push_bit_Suc)
    moreover have "shr (push_bit (Suc k) u) 1 = push_bit k u"
      by (rule bit_word_eqI) (auto simp: bit_drop_bit_eq bit_push_bit_iff simp del: push_bit_Suc dest: u)
    ultimately show ?thesis unfolding crc_step_def and_one_bit by simp
  qed
  moreover have "u = take_bit (32 - k) u"
    by (rule bit_word_eqI) (use u in \<open>fastforce simp: bit_take_bit_iff\<close>)
  ultimately show ?case using Suc.IH [of u] Suc.prems(1)
    by (simp add: funpow_swap1 del: push_bit_Suc)
qed simp


lemma lfsr_crc_step: "lfsr p h b = crc_step p (h XOR of_bool b)"
proof -
  have "shr (h XOR of_bool b) 1 = shr h 1"
    by (rule bit_word_eqI) (simp add: bit_drop_bit_eq bit_xor_iff bit_of_bool_word)
  then show ?thesis
    unfolding lfsr_def crc_step_def and_one_bit by (simp add: bit_xor_iff bit_of_bool_word)
qed

lemma serial_steps:
  "k \<le> 8 \<Longrightarrow> fold (\<lambda>i h. lfsr p h (bit c i)) [0..<k] h = (crc_step p ^^ k) (h XOR take_bit k (to_u32 c))"
  for c :: u64
proof (induction k)
  case (Suc k)
  have t: "take_bit (Suc k) (to_u32 c) = take_bit k (to_u32 c) XOR push_bit k (of_bool (bit c k))"
    using Suc.prems
    by (intro bit_word_eqI) (auto simp: bit_take_bit_iff bit_xor_iff bit_shl_of_bool bit_unsigned_iff less_Suc_eq)
  have "(crc_step p ^^ k) (push_bit k (of_bool (bit c k))) = of_bool (bit c k)"
    using Suc.prems by (intro crc_steps_shifted) (auto intro!: bit_word_eqI simp: bit_take_bit_iff bit_of_bool_word)
  then show ?case
    using Suc unfolding t xor.assoc [symmetric]
    by (simp add: lfsr_crc_step crc_steps_xor [where p = p and k = k and a = "h XOR take_bit k (to_u32 c)"
      and b = "push_bit k (of_bool (bit c k))"])
qed simp

lemma table_step:
  assumes T: "\<And>d. d < 256 \<Longrightarrow> T ! d = (crc_step p ^^ 8) (word_of_nat d)"
  shows "shr h 8 XOR T ! unat (to_u64 (h AND 255) XOR (w AND 255)) =
    fold (\<lambda>i h. lfsr p h (bit w i)) [0..<8] h"
proof -
  let ?v = "h XOR take_bit 8 (to_u32 w)"
  let ?d = "to_u64 (h AND 255) XOR (w AND 255)"
  have m: "h AND 255 = take_bit 8 h" "w AND 255 = take_bit 8 w"
    by (simp_all add: take_bit_eq_mask mask_numeral)
  have d: "?d = to_u64 (take_bit 8 ?v)"
    unfolding m by (rule bit_word_eqI) (auto simp: bit_simps)
  have u: "unat (take_bit 8 ?v) = unat ?v mod 256"
    by (simp only: unsigned_take_bit_eq take_bit_eq_mod [where 'a = nat]) simp
  have n: "unat ?d = unat (take_bit 8 ?v)"
    unfolding d unat_eq_nat_uint by (subst uint_copy) simp_all
  have "word_of_nat (unat ?d) = take_bit 8 ?v" unfolding n by simp
  moreover have "unat ?d < 256" unfolding n u by simp
  ultimately have "T ! unat ?d = (crc_step p ^^ 8) (take_bit 8 ?v)" using T by simp
  moreover have "(crc_step p ^^ 8) (push_bit 8 (shr h 8)) = shr h 8"
    by (rule crc_steps_shifted, simp)
      (rule bit_word_eqI, use bit_imp_le_length [of h] in \<open>fastforce simp: bit_take_bit_iff bit_drop_bit_eq\<close>)
  moreover have "?v = push_bit 8 (shr h 8) XOR take_bit 8 ?v"
    by (rule bit_word_eqI) (auto simp: bit_simps)
  ultimately show ?thesis
    unfolding serial_steps [OF order_refl] by (metis crc_steps_xor)
qed

lemma InitializeCrc32_nth:
  assumes "length t = 256" "d < 256"
  shows "InitializeCrc32 t p ! d = (crc_step p ^^ 8) (word_of_nat d)"
proof -
  have s: "fold (\<lambda>i. crc_step p) [0..<n] r = (crc_step p ^^ n) r" for n r
    by (induction n) simp_all
  have "length (fold (\<lambda>d t. t[d := f d]) [0..<n] t) = length t \<and>
      (\<forall>d<length t. fold (\<lambda>d t. t[d := f d]) [0..<n] t ! d = (if d < n then f d else t ! d))" for n f and t :: "u32 list"
    by (induction n) (simp_all add: nth_list_update less_Suc_eq conj_disj_distribL)
  then show ?thesis
    using assms s [of 8] unfolding InitializeCrc32_def crc_step_def [symmetric] by simp
qed

lemma crc_loop:
  assumes T: "\<And>d. d < 256 \<Longrightarrow> T ! d = (crc_step p ^^ 8) (word_of_nat d)"
  shows "fst (fold (\<lambda>i (h, w). (shr h 8 XOR T ! unat (to_u64 (h AND 255) XOR (w AND 255)), shr w 8)) [0..<n] (h, w))
    = crc_serial p h w n"
proof -
  let ?f = "\<lambda>i (h, w). (shr h 8 XOR T ! unat (to_u64 (h AND 255) XOR (w AND 255)), shr w 8)"
  have "fold ?f [0..<n] (h, w) = (crc_serial p h w n, shr w (8 * n))"
  proof (induction n)
    case (Suc n)
    have "[0..<8 * Suc n] = [0..<8 * n] @ map (\<lambda>i. 8 * n + i) [0..<8]"
      by (simp only: map_add_upt [of "8 * n" 8, unfolded add.commute [of _ "8 * n"]] upt_add_eq_append [symmetric, of 0]) (simp add: add.commute)
    then have "crc_serial p h w (Suc n) = fold (\<lambda>i h. lfsr p h (bit (shr w (8 * n)) i)) [0..<8] (crc_serial p h w n)"
      by (simp add: crc_serial_def fold_map comp_def bit_drop_bit_eq del: upt_Suc)
    then show ?case using Suc table_step [OF T] by (simp add: add.commute)
  qed (simp add: crc_serial_def)
  then show ?thesis by simp
qed

text \<open>C11: The table-driven CRC-32C is the bit-serial one: on the first call, which builds the table, and on
  every later call with the table of an earlier one, folding the low \<open>n\<close> bytes of \<open>w\<close> into \<open>h\<close> gives
  what the shift register with the reflected polynomial \<open>0x82f63b78\<close> gives for their bits, and the state
  is not changed again.\<close>

theorem crc32c_correct:
  "fst (Castagnoli crc_start h w n) = crc_serial 0x82f63b78 h w n \<and>
   (let st = snd (Castagnoli crc_start h0 w0 n0)
    in Castagnoli st h w n = (crc_serial 0x82f63b78 h w n, st))"
proof -
  let ?T = "InitializeCrc32 (replicate 256 0) 0x82f63b78"
  have p: "ReverseBits32 0x1edc6f41 = 0x82f63b78" by code_simp
  have T: "?T ! d = (crc_step 0x82f63b78 ^^ 8) (word_of_nat d)" if "d < 256" for d
    using InitializeCrc32_nth [of "replicate 256 0"] that by simp
  show ?thesis
    using crc_loop [OF T] unfolding Castagnoli_def crc_start_def Let_def prod.case p
    by (simp add: split_beta)
qed

section \<open>Carry-less multiplication\<close>

function clmul_loop :: "u64 \<Rightarrow> u64 \<Rightarrow> u64 \<Rightarrow> u64 \<Rightarrow> u64 \<Rightarrow> u64 \<times> u64" where
  "clmul_loop a b t x y =
     (if b \<noteq> 0 then
        let (x, y) = if b AND 1 \<noteq> 0 then (x XOR a, y XOR t) else (x, y);
            t = shl t 1 OR shr a 63
        in clmul_loop (shl a 1) (shr b 1) t x y
      else (x, y))"
  by pat_completeness auto

termination by (relation "measure (\<lambda>(a, b, t, x, y). unat b)") (auto intro: shr_one_less)

declare clmul_loop.simps [simp del]

definition clmul :: "u64 \<Rightarrow> u64 \<Rightarrow> u64 \<times> u64" where
  "clmul a b =
     (if a \<noteq> 0 \<and> b \<noteq> 0 then
        let (a, b) = if bsr a < bsr b then (b, a) else (a, b)
        in clmul_loop a b 0 0 0
      else (0, 0))"

text \<open>Bit \<open>i\<close> of a 128-bit pair, and of the polynomial product over GF(2).\<close>

definition pair_bit :: "u64 \<times> u64 \<Rightarrow> nat \<Rightarrow> bool" where
  "pair_bit p i = (if i < 64 then bit (fst p) i else bit (snd p) (i - 64))"

definition poly_bit :: "(nat \<Rightarrow> bool) \<Rightarrow> u64 \<Rightarrow> nat \<Rightarrow> bool" where
  "poly_bit f b i = odd (length (filter (\<lambda>k. bit b k \<and> f (i - k)) [0..<Suc i]))"

lemma poly_bit_zero: "poly_bit f 0 i = False"
  by (simp add: poly_bit_def del: upt_Suc)

lemma poly_bit_step:
  "poly_bit f b i = ((bit b 0 \<and> f i) \<noteq> poly_bit (\<lambda>j. 0 < j \<and> f (j - 1)) (shr b 1) i)"
proof -
  let ?g = "\<lambda>k. bit (shr b 1) k \<and> 0 < i - k \<and> f (i - k - 1)"
  have u: "[0..<Suc i] = 0 # map Suc [0..<i]" by (simp add: map_Suc_upt upt_conv_Cons)
  have m: "length (filter P (map Suc xs)) = length (filter (\<lambda>k. P (Suc k)) xs)" for P xs
    by (induction xs) simp_all
  have "filter (\<lambda>k. bit b (Suc k) \<and> f (i - Suc k)) [0..<i] = filter ?g [0..<i]"
    by (rule filter_cong) (auto simp: bit_drop_bit_eq)
  also have "\<dots> = filter ?g [0..<Suc i]" by simp
  finally have "length (filter (\<lambda>k. bit b k \<and> f (i - k)) (map Suc [0..<i])) = length (filter ?g [0..<Suc i])"
    unfolding m by (rule arg_cong)
  then have "poly_bit f b i = odd (of_bool (bit b 0 \<and> f i) + length (filter ?g [0..<Suc i]))"
    unfolding poly_bit_def u by simp
  also have "\<dots> = ((bit b 0 \<and> f i) \<noteq> poly_bit (\<lambda>j. 0 < j \<and> f (j - 1)) (shr b 1) i)"
    unfolding poly_bit_def by (cases "bit b 0"; cases "f i") simp_all
  finally show ?thesis .
qed

lemma poly_bit_cong: "(\<And>j. j \<le> i \<Longrightarrow> f j = g j) \<Longrightarrow> poly_bit f b i = poly_bit g b i"
  unfolding poly_bit_def by (intro arg_cong [where f = "\<lambda>l. odd (length l)"] filter_cong) auto

lemma clmul_loop_bits:
  "i < 128 \<Longrightarrow> pair_bit (clmul_loop a b t x y) i =
     (pair_bit (x, y) i \<noteq> poly_bit (pair_bit (a, t)) b i)"
proof (induction a b t x y rule: clmul_loop.induct)
  case (1 a b t x y)
  show ?case
  proof (cases "b = 0")
    case True
    then show ?thesis by (simp add: clmul_loop.simps [of a 0] poly_bit_zero)
  next
    case False
    let ?t = "shl t 1 OR shr a 63"
    have s: "pair_bit (shl a 1, ?t) j = (0 < j \<and> pair_bit (a, t) (j - 1))" if "j \<le> i" for j
    proof -
      have l: "bit (shl w 1) n \<longleftrightarrow> 0 < n \<and> n < 64 \<and> bit w (n - 1)" for w :: u64 and n
        by (simp only: bit_push_bit_iff) auto
      have r: "bit (shr a 63) n \<longleftrightarrow> n = 0 \<and> bit a 63" for n
        using bit_imp_le_length [of a "63 + n"] by (auto simp: bit_drop_bit_eq)
      consider "j < 64" | "j = 64" | "64 < j" by linarith
      then show ?thesis
        using that 1(2) unfolding pair_bit_def bit_or_iff fst_conv snd_conv l r by cases (auto simp: diff_diff_add)
    qed
    have p: "poly_bit (pair_bit (shl a 1, ?t)) (shr b 1) i = poly_bit (\<lambda>j. 0 < j \<and> pair_bit (a, t) (j - 1)) (shr b 1) i"
      by (rule poly_bit_cong) (rule s)
    have x: "pair_bit (x XOR a, y XOR t) i = (pair_bit (x, y) i \<noteq> pair_bit (a, t) i)"
      by (simp add: pair_bit_def bit_xor_iff)
    show ?thesis
      using False 1 unfolding clmul_loop.simps [of a b] and_one_bit
      unfolding poly_bit_step [of _ b] p [symmetric]
      by (cases "bit b 0") (auto simp: x)
  qed
qed

lemma poly_bit_commute: "poly_bit (\<lambda>j. j < 64 \<and> bit a j) b i = poly_bit (\<lambda>j. j < 64 \<and> bit b j) a i"
proof -
  let ?A = "{k. k < Suc i \<and> bit b k \<and> bit a (i - k)}" and ?B = "{k. k < Suc i \<and> bit a k \<and> bit b (i - k)}"
  have l: "length (filter P [0..<Suc i]) = card {k. k < Suc i \<and> P k}" for P
    using length_filter_conv_card [of P "[0..<Suc i]"] by (auto simp del: upt_Suc intro!: arg_cong [where f = card])
  have "bij_betw (\<lambda>k. i - k) ?A ?B"
    by (rule bij_betw_byWitness [where f' = "\<lambda>k. i - k"]) auto
  then have "card ?A = card ?B" by (rule bij_betw_same_card)
  moreover have "(j < 64 \<and> bit w j) = bit w j" for w :: u64 and j
    using bit_imp_le_length [of w j] by auto
  ultimately show ?thesis unfolding poly_bit_def l by simp
qed

text \<open>C12: Carry-less multiplication: bit \<open>i\<close> of the 128-bit result is the parity of the products of bits
  \<open>k\<close> and \<open>i - k\<close> of the operands, also when the operands are swapped to loop over the shorter one;
  the loop terminates for all operands.\<close>

theorem clmul_correct:
  "list_all (\<lambda>i. pair_bit (clmul a b) i =
      odd (length (filter (\<lambda>k. bit a k \<and> bit b (i - k)) [0..<Suc i]))) [0..<128]"
proof -
  have "pair_bit (clmul a b) i = odd (length (filter (\<lambda>k. bit a k \<and> bit b (i - k)) [0..<Suc i]))" if "i < 128" for i
  proof -
    have z: "pair_bit (c, 0) = (\<lambda>j. j < 64 \<and> bit c j)" for c by (intro ext) (simp add: pair_bit_def)
    have l: "pair_bit (clmul_loop c d 0 0 0) i = poly_bit (\<lambda>j. j < 64 \<and> bit c j) d i" for c d
      using clmul_loop_bits [OF that, of c d 0 0 0] by (simp add: z) 
    have "pair_bit (clmul a b) i = poly_bit (\<lambda>j. j < 64 \<and> bit b j) a i"
      using l [of b a] l [of a b] poly_bit_commute [of a b i]
      by (auto simp: clmul_def poly_bit_zero pair_bit_def [of "(0, 0)"] poly_bit_def simp del: upt_Suc)
    moreover have "(j < 64 \<and> bit b j) = bit b j" for j using bit_imp_le_length [of b j] by auto
    ultimately show ?thesis by (simp add: poly_bit_def del: upt_Suc)
  qed
  then show ?thesis by (simp add: list_all_iff)
qed

end
