(* ===== verification/Rde.thy ===== *)
theory Rde
  imports Blink_Prelude
begin

text \<open>
  The register dispatch encoding (\<open>rde.h\<close>, \<open>modrm.h\<close>): the 64-bit word in which the decoder packs the
  fields of an instruction, and the accessor macros, each a mask and a shift. The collection
  \<open>rde_field\<close> rewrites every accessor to one slice operation \<open>field\<close>, whose laws on shifted and
  combined words the decoder proofs use. The accessors \<open>Mode\<close>, \<open>Eamode\<close> and \<open>Lock\<close> are those of a build with
  the mode and lock fields; a build without them fixes \<open>Mode\<close> to long mode and \<open>Lock\<close> to zero.
\<close>

named_theorems rde_field "instruction fields as slices of the encoding"

section \<open>The accessors\<close>

definition RexbRm :: "u64 \<Rightarrow> nat" where
  "RexbRm x = unat (shr (x AND 0x780) 7)"

definition RexrReg :: "u64 \<Rightarrow> nat" where
  "RexrReg x = unat (shr (x AND 0xf) 0)"

definition Oplength :: "u64 \<Rightarrow> nat" where
  "Oplength x = unat (shr (x AND 0x1e0000000000000) 53)"

definition RexbSrm :: "u64 \<Rightarrow> nat" where
  "RexbSrm x = unat (shr (x AND 0xf000) 12)"

definition Rex :: "u64 \<Rightarrow> nat" where
  "Rex x = unat (shr (x AND 0x10) 4)"

definition Osz :: "u64 \<Rightarrow> nat" where
  "Osz x = unat (shr (x AND 0x20) 5)"

definition Asz :: "u64 \<Rightarrow> nat" where
  "Asz x = unat (shr (x AND 0x200000) 21)"

definition Srm :: "u64 \<Rightarrow> nat" where
  "Srm x = unat (shr (x AND 0x7000) 12)"

definition Rexr :: "u64 \<Rightarrow> nat" where
  "Rexr x = unat (shr (x AND 0x8) 3)"

definition Rexw :: "u64 \<Rightarrow> nat" where
  "Rexw x = unat (shr (x AND 0x40) 6)"

definition Rexx :: "u64 \<Rightarrow> nat" where
  "Rexx x = unat (shr (x AND 0x20000) 17)"

definition Rexb :: "u64 \<Rightarrow> nat" where
  "Rexb x = unat (shr (x AND 0x400) 10)"

definition Sego :: "u64 \<Rightarrow> nat" where
  "Sego x = unat (shr (x AND 0x1c0000) 18)"

definition Ymm :: "u64 \<Rightarrow> nat" where
  "Ymm x = unat (shr (x AND 0x40000000) 30)"

definition RegLog2 :: "u64 \<Rightarrow> nat" where
  "RegLog2 x = unat (shr (x AND 0x30000000) 28)"

definition ModrmRm :: "u64 \<Rightarrow> nat" where
  "ModrmRm x = unat (shr (x AND 0x380) 7)"

definition ModrmReg :: "u64 \<Rightarrow> nat" where
  "ModrmReg x = unat (shr (x AND 0x7) 0)"

definition ModrmSrm :: "u64 \<Rightarrow> nat" where
  "ModrmSrm x = unat (shr (x AND 0x7000) 12)"

definition ModrmMod :: "u64 \<Rightarrow> nat" where
  "ModrmMod x = unat (shr (x AND 0xc00000) 22)"

definition RexRexr :: "u64 \<Rightarrow> nat" where
  "RexRexr x = unat (shr (x AND 0x1f) 0)"

definition RexRexb :: "u64 \<Rightarrow> nat" where
  "RexRexb x = unat (shr (x AND 0xf80) 7)"

definition RexRexbSrm :: "u64 \<Rightarrow> nat" where
  "RexRexbSrm x = unat (shr (x AND 0x1f000) 12)"

definition SibBase :: "u64 \<Rightarrow> nat" where
  "SibBase x = unat (shr (x AND 0x700000000) 32)"

definition SibIndex :: "u64 \<Rightarrow> nat" where
  "SibIndex x = unat (shr (x AND 0x3800000000) 35)"

definition SibScale :: "u64 \<Rightarrow> nat" where
  "SibScale x = unat (shr (x AND 0xc000000000) 38)"

definition Opcode :: "u64 \<Rightarrow> nat" where
  "Opcode x = unat (shr (x AND 0xff0000000000) 40)"

definition Opmap :: "u64 \<Rightarrow> nat" where
  "Opmap x = unat (shr (x AND 0x7000000000000) 48)"

definition Mopcode :: "u64 \<Rightarrow> nat" where
  "Mopcode x = unat (shr (x AND 0x7ff0000000000) 40)"

definition Rep :: "u64 \<Rightarrow> nat" where
  "Rep x = unat (shr (x AND 0x18000000000000) 51)"

definition WordLog2 :: "u64 \<Rightarrow> nat" where
  "WordLog2 x = unat (shr (x AND 0x600000000000000) 57)"

definition Vreg :: "u64 \<Rightarrow> nat" where
  "Vreg x = unat (shr (x AND 0xf000000000000000) 60)"

definition Mode :: "u64 \<Rightarrow> nat" where
  "Mode x = unat (shr (x AND 0xc000000) 26)"

definition Eamode :: "u64 \<Rightarrow> nat" where
  "Eamode x = unat (shr (x AND 0x3000000) 24)"

definition Lock :: "u64 \<Rightarrow> nat" where
  "Lock x = unat (shr (x AND 0x80000000) 31)"

definition Modrm :: "u64 \<Rightarrow> nat" where
  "Modrm x = push_bit 6 (ModrmMod x) OR push_bit 3 (ModrmReg x) OR ModrmRm x"

definition Bite :: "u64 \<Rightarrow> bool" where
  "Bite x = even (ModrmSrm x)"

definition RexbBase :: "u64 \<Rightarrow> nat" where
  "RexbBase x = push_bit 3 (Rexb x) OR SibBase x"

definition IsByteOp :: "u64 \<Rightarrow> bool" where
  "IsByteOp x = even (Srm x)"

definition SibExists :: "u64 \<Rightarrow> bool" where
  "SibExists x = (ModrmRm x = 4)"

definition IsModrmRegister :: "u64 \<Rightarrow> bool" where
  "IsModrmRegister x = (ModrmMod x = 3)"

definition SibHasIndex :: "u64 \<Rightarrow> bool" where
  "SibHasIndex x = (SibIndex x \<noteq> 4 \<or> Rexx x \<noteq> 0)"

definition SibHasBase :: "u64 \<Rightarrow> bool" where
  "SibHasBase x = (SibBase x \<noteq> 5 \<or> ModrmMod x \<noteq> 0)"

definition SibIsAbsolute :: "u64 \<Rightarrow> bool" where
  "SibIsAbsolute x = (\<not> SibHasBase x \<and> \<not> SibHasIndex x)"

definition IsRipRelative :: "u64 \<Rightarrow> bool" where
  "IsRipRelative x = (Eamode x \<noteq> 0 \<and> ModrmRm x = 5 \<and> ModrmMod x = 0)"

section \<open>Slices of a word\<close>

definition field :: "nat \<Rightarrow> nat \<Rightarrow> u64 \<Rightarrow> nat" where
  "field s w x = unat (take_bit w (shr x s))"

lemma mask_field: "c = shl (mask w) s \<Longrightarrow> unat (shr (x AND c) s) = field s w x"
proof -
  assume c: "c = shl (mask w) s"
  have "shr (x AND c) s = take_bit w (shr x s)"
    unfolding c by (rule bit_word_eqI)
      (use bit_imp_le_length [of x] in \<open>fastforce simp: bit_drop_bit_eq bit_and_iff bit_push_bit_iff bit_mask_iff bit_take_bit_iff\<close>)
  then show ?thesis by (simp add: field_def)
qed

lemma RexbRm_field [rde_field]: "RexbRm x = field 7 4 x"
  unfolding RexbRm_def by (rule mask_field) code_simp

lemma RexrReg_field [rde_field]: "RexrReg x = field 0 4 x"
  unfolding RexrReg_def by (rule mask_field) code_simp

lemma Oplength_field [rde_field]: "Oplength x = field 53 4 x"
  unfolding Oplength_def by (rule mask_field) code_simp

lemma RexbSrm_field [rde_field]: "RexbSrm x = field 12 4 x"
  unfolding RexbSrm_def by (rule mask_field) code_simp

lemma Rex_field [rde_field]: "Rex x = field 4 1 x"
  unfolding Rex_def by (rule mask_field) code_simp

lemma Osz_field [rde_field]: "Osz x = field 5 1 x"
  unfolding Osz_def by (rule mask_field) code_simp

lemma Asz_field [rde_field]: "Asz x = field 21 1 x"
  unfolding Asz_def by (rule mask_field) code_simp

lemma Srm_field [rde_field]: "Srm x = field 12 3 x"
  unfolding Srm_def by (rule mask_field) code_simp

lemma Rexr_field [rde_field]: "Rexr x = field 3 1 x"
  unfolding Rexr_def by (rule mask_field) code_simp

lemma Rexw_field [rde_field]: "Rexw x = field 6 1 x"
  unfolding Rexw_def by (rule mask_field) code_simp

lemma Rexx_field [rde_field]: "Rexx x = field 17 1 x"
  unfolding Rexx_def by (rule mask_field) code_simp

lemma Rexb_field [rde_field]: "Rexb x = field 10 1 x"
  unfolding Rexb_def by (rule mask_field) code_simp

lemma Sego_field [rde_field]: "Sego x = field 18 3 x"
  unfolding Sego_def by (rule mask_field) code_simp

lemma Ymm_field [rde_field]: "Ymm x = field 30 1 x"
  unfolding Ymm_def by (rule mask_field) code_simp

lemma RegLog2_field [rde_field]: "RegLog2 x = field 28 2 x"
  unfolding RegLog2_def by (rule mask_field) code_simp

lemma ModrmRm_field [rde_field]: "ModrmRm x = field 7 3 x"
  unfolding ModrmRm_def by (rule mask_field) code_simp

lemma ModrmReg_field [rde_field]: "ModrmReg x = field 0 3 x"
  unfolding ModrmReg_def by (rule mask_field) code_simp

lemma ModrmSrm_field [rde_field]: "ModrmSrm x = field 12 3 x"
  unfolding ModrmSrm_def by (rule mask_field) code_simp

lemma ModrmMod_field [rde_field]: "ModrmMod x = field 22 2 x"
  unfolding ModrmMod_def by (rule mask_field) code_simp

lemma RexRexr_field [rde_field]: "RexRexr x = field 0 5 x"
  unfolding RexRexr_def by (rule mask_field) code_simp

lemma RexRexb_field [rde_field]: "RexRexb x = field 7 5 x"
  unfolding RexRexb_def by (rule mask_field) code_simp

lemma RexRexbSrm_field [rde_field]: "RexRexbSrm x = field 12 5 x"
  unfolding RexRexbSrm_def by (rule mask_field) code_simp

lemma SibBase_field [rde_field]: "SibBase x = field 32 3 x"
  unfolding SibBase_def by (rule mask_field) code_simp

lemma SibIndex_field [rde_field]: "SibIndex x = field 35 3 x"
  unfolding SibIndex_def by (rule mask_field) code_simp

lemma SibScale_field [rde_field]: "SibScale x = field 38 2 x"
  unfolding SibScale_def by (rule mask_field) code_simp

lemma Opcode_field [rde_field]: "Opcode x = field 40 8 x"
  unfolding Opcode_def by (rule mask_field) code_simp

lemma Opmap_field [rde_field]: "Opmap x = field 48 3 x"
  unfolding Opmap_def by (rule mask_field) code_simp

lemma Mopcode_field [rde_field]: "Mopcode x = field 40 11 x"
  unfolding Mopcode_def by (rule mask_field) code_simp

lemma Rep_field [rde_field]: "Rep x = field 51 2 x"
  unfolding Rep_def by (rule mask_field) code_simp

lemma WordLog2_field [rde_field]: "WordLog2 x = field 57 2 x"
  unfolding WordLog2_def by (rule mask_field) code_simp

lemma Vreg_field [rde_field]: "Vreg x = field 60 4 x"
  unfolding Vreg_def by (rule mask_field) code_simp

lemma Mode_field [rde_field]: "Mode x = field 26 2 x"
  unfolding Mode_def by (rule mask_field) code_simp

lemma Eamode_field [rde_field]: "Eamode x = field 24 2 x"
  unfolding Eamode_def by (rule mask_field) code_simp

lemma Lock_field [rde_field]: "Lock x = field 31 1 x"
  unfolding Lock_def by (rule mask_field) code_simp

lemma unat_take_bit_bits: "unat (take_bit w (x :: u64)) = unat (take_bit w y) \<longleftrightarrow> (\<forall>i<w. bit x i = bit (y :: u64) i)"
proof -
  have "unat (take_bit w x) = unat (take_bit w y) \<longleftrightarrow> take_bit w x = take_bit w y"
    by (auto dest: unsigned_word_eqI)
  also have "\<dots> \<longleftrightarrow> (\<forall>i<w. bit x i = bit y i)"
    using bit_imp_le_length [of x] bit_imp_le_length [of y]
    by (fastforce simp: bit_eq_iff [where 'a = "64 word"] bit_take_bit_iff)
  finally show ?thesis .
qed

lemma field_cong: "(\<And>i. i < w \<Longrightarrow> bit x (s + i) = bit y (s + i)) \<Longrightarrow> field s w x = field s w y"
  unfolding field_def unat_take_bit_bits by (simp add: bit_drop_bit_eq)

lemma field_less [simp]: "field s w x < 2 ^ w"
proof -
  have "unat (take_bit w (shr x s)) = take_bit w (unat (shr x s))" by (rule unsigned_take_bit_eq)
  then show ?thesis by (simp add: field_def)
qed

end
