(* ===== verification/X86.thy ===== *)
theory X86
  imports Rde Endian Bits
begin

text \<open>
  The instruction decoder (\<open>x86.c\<close>): the tables, one function per scanner (prefixes, VEX prefixes,
  opcode, ModR/M, SIB, displacement, immediate), and \<open>DecodeInstruction\<close>. The state is the C structure with its
  15-byte array; reading the array outside of the bytes copied from the instruction text gives
  whatever was in the structure before, so that independence from it is a theorem.
  Lengths are numbers: they are bounded by 15.
\<close>

section \<open>Tables\<close>

definition xed_prefix_table_bit :: "u32 list" where
  "xed_prefix_table_bit =
    [0x00000000, 0x40404040, 0x0000ffff, 0x000000f0,
     0x00000000, 0x00000000, 0x00000000, 0x000d0000]"

definition kXed_eamode :: "nat list list" where
  "kXed_eamode =
    [[0, 1, 2],
     [1, 0, 1]]"

definition kXed_has_sib_table :: "nat list list list" where
  "kXed_has_sib_table =
    [[[0, 0, 0, 0, 0, 0, 0, 0],
      [0, 0, 0, 0, 0, 0, 0, 0],
      [0, 0, 0, 0, 0, 0, 0, 0],
      [0, 0, 0, 0, 0, 0, 0, 0]],
     [[0, 0, 0, 0, 1, 0, 0, 0],
      [0, 0, 0, 0, 1, 0, 0, 0],
      [0, 0, 0, 0, 1, 0, 0, 0],
      [0, 0, 0, 0, 0, 0, 0, 0]],
     [[0, 0, 0, 0, 1, 0, 0, 0],
      [0, 0, 0, 0, 1, 0, 0, 0],
      [0, 0, 0, 0, 1, 0, 0, 0],
      [0, 0, 0, 0, 0, 0, 0, 0]]]"

definition kXed_has_disp_regular :: "nat list list list" where
  "kXed_has_disp_regular =
    [[[0, 0, 0, 0, 0, 0, 2, 0],
      [1, 1, 1, 1, 1, 1, 1, 1],
      [2, 2, 2, 2, 2, 2, 2, 2],
      [0, 0, 0, 0, 0, 0, 0, 0]],
     [[0, 0, 0, 0, 0, 4, 0, 0],
      [1, 1, 1, 1, 1, 1, 1, 1],
      [4, 4, 4, 4, 4, 4, 4, 4],
      [0, 0, 0, 0, 0, 0, 0, 0]],
     [[0, 0, 0, 0, 0, 4, 0, 0],
      [1, 1, 1, 1, 1, 1, 1, 1],
      [4, 4, 4, 4, 4, 4, 4, 4],
      [0, 0, 0, 0, 0, 0, 0, 0]]]"

definition kXed_imm_bits_2d :: "nat list list" where
  "kXed_imm_bits_2d =
    [[1, 1, 1, 1, 5, 7, 1, 1, 1, 1, 1, 1, 9, 7, 1, 0, 1, 1, 1, 1, 5, 7, 1, 1,
      1, 1, 1, 1, 5, 7, 1, 1, 1, 1, 1, 1, 5, 7, 0, 1, 1, 1, 1, 1, 5, 7, 0, 1,
      1, 1, 1, 1, 9, 7, 0, 1, 1, 1, 1, 1, 5, 7, 0, 1, 1, 1, 1, 1, 1, 1, 1, 1,
      1, 1, 1, 1, 1, 1, 1, 1, 1, 1, 1, 1, 1, 1, 1, 1, 1, 1, 1, 1, 1, 1, 1, 1,
      1, 1, 1, 1, 0, 0, 0, 0, 6, 7, 5, 5, 1, 1, 1, 1, 1, 1, 1, 1, 1, 1, 1, 1,
      1, 1, 1, 1, 1, 1, 1, 1, 5, 7, 5, 5, 1, 1, 1, 1, 1, 1, 1, 1, 1, 1, 1, 1,
      1, 1, 1, 1, 1, 1, 1, 1, 1, 1, 8, 1, 1, 1, 1, 1, 1, 1, 1, 1, 1, 1, 1, 1,
      5, 7, 1, 1, 1, 1, 1, 1, 9, 9, 9, 9, 9, 9, 9, 9, 10, 10, 10, 10, 10, 10, 10, 10,
      9, 9, 8, 1, 1, 1, 9, 2, 11, 1, 8, 1, 1, 9, 1, 1, 1, 1, 1, 1, 9, 9, 1, 1,
      1, 1, 1, 1, 1, 1, 1, 1, 1, 1, 1, 1, 9, 9, 9, 9, 1, 1, 8, 1, 1, 1, 1, 1,
      0, 1, 0, 0, 1, 1, 3, 4, 1, 1, 1, 1, 1, 1, 1, 1],
     [1, 1, 1, 1, 0, 1, 1, 1, 1, 1, 0, 1, 0, 1, 1, 0, 1, 1, 1, 1, 1, 1, 1, 1,
      1, 1, 1, 1, 1, 1, 1, 1, 1, 1, 1, 1, 0, 0, 0, 0, 1, 1, 1, 1, 1, 1, 1, 1,
      1, 1, 1, 1, 1, 1, 0, 1, 0, 0, 0, 0, 0, 0, 0, 0, 1, 1, 1, 1, 1, 1, 1, 1,
      1, 1, 1, 1, 1, 1, 1, 1, 1, 1, 1, 1, 1, 1, 1, 1, 1, 1, 1, 1, 1, 1, 1, 1,
      1, 1, 1, 1, 1, 1, 1, 1, 1, 1, 1, 1, 1, 1, 1, 1, 9, 9, 9, 9, 1, 1, 1, 1,
      12, 1, 1, 1, 1, 1, 1, 1, 1, 1, 1, 1, 1, 1, 1, 1, 1, 1, 1, 1, 1, 1, 1, 1,
      1, 1, 1, 1, 1, 1, 1, 1, 1, 1, 1, 1, 1, 1, 1, 1, 1, 1, 1, 1, 9, 1, 0, 0,
      1, 1, 1, 1, 9, 1, 1, 1, 1, 1, 1, 1, 1, 1, 1, 1, 1, 1, 9, 1, 1, 1, 1, 1,
      1, 1, 9, 1, 9, 9, 9, 1, 1, 1, 1, 1, 1, 1, 1, 1, 1, 1, 1, 1, 1, 1, 1, 1,
      1, 1, 1, 1, 1, 1, 1, 1, 1, 1, 1, 1, 1, 1, 1, 1, 1, 1, 1, 1, 1, 1, 1, 1,
      1, 1, 1, 1, 1, 1, 1, 1, 1, 1, 1, 1, 1, 1, 1, 1]]"

definition kXed_has_modrm_2d :: "nat list list" where
  "kXed_has_modrm_2d =
    [[1, 1, 1, 1, 0, 0, 0, 0, 1, 1, 1, 1, 0, 0, 0, 3, 1, 1, 1, 1, 0, 0, 0, 0,
      1, 1, 1, 1, 0, 0, 0, 0, 1, 1, 1, 1, 0, 0, 3, 0, 1, 1, 1, 1, 0, 0, 3, 0,
      1, 1, 1, 1, 0, 0, 3, 0, 1, 1, 1, 1, 0, 0, 3, 0, 0, 0, 0, 0, 0, 0, 0, 0,
      0, 0, 0, 0, 0, 0, 0, 0, 0, 0, 0, 0, 0, 0, 0, 0, 0, 0, 0, 0, 0, 0, 0, 0,
      0, 0, 1, 1, 3, 3, 3, 3, 0, 1, 0, 1, 0, 0, 0, 0, 0, 0, 0, 0, 0, 0, 0, 0,
      0, 0, 0, 0, 0, 0, 0, 0, 1, 1, 1, 1, 1, 1, 1, 1, 1, 1, 1, 1, 1, 1, 1, 1,
      0, 0, 0, 0, 0, 0, 0, 0, 0, 0, 0, 0, 0, 0, 0, 0, 0, 0, 0, 0, 0, 0, 0, 0,
      0, 0, 0, 0, 0, 0, 0, 0, 0, 0, 0, 0, 0, 0, 0, 0, 0, 0, 0, 0, 0, 0, 0, 0,
      1, 1, 0, 0, 1, 1, 1, 1, 0, 0, 0, 0, 0, 0, 0, 0, 1, 1, 1, 1, 0, 0, 0, 0,
      1, 1, 1, 1, 1, 1, 1, 1, 0, 0, 0, 0, 0, 0, 0, 0, 0, 0, 0, 0, 0, 0, 0, 0,
      3, 0, 3, 3, 0, 0, 1, 1, 0, 0, 0, 0, 0, 0, 1, 1],
     [1, 1, 1, 1, 3, 0, 0, 0, 0, 0, 3, 0, 3, 1, 0, 3, 1, 1, 1, 1, 1, 1, 1, 1,
      1, 1, 1, 1, 1, 1, 1, 1, 2, 2, 2, 2, 3, 3, 3, 3, 1, 1, 1, 1, 1, 1, 1, 1,
      0, 0, 0, 0, 0, 0, 3, 0, 3, 3, 3, 3, 3, 3, 3, 3, 1, 1, 1, 1, 1, 1, 1, 1,
      1, 1, 1, 1, 1, 1, 1, 1, 1, 1, 1, 1, 1, 1, 1, 1, 1, 1, 1, 1, 1, 1, 1, 1,
      1, 1, 1, 1, 1, 1, 1, 1, 1, 1, 1, 1, 1, 1, 1, 1, 1, 1, 1, 1, 1, 1, 1, 0,
      1, 1, 1, 1, 1, 1, 1, 1, 0, 0, 0, 0, 0, 0, 0, 0, 0, 0, 0, 0, 0, 0, 0, 0,
      1, 1, 1, 1, 1, 1, 1, 1, 1, 1, 1, 1, 1, 1, 1, 1, 0, 0, 0, 1, 1, 1, 3, 3,
      0, 0, 0, 1, 1, 1, 1, 1, 1, 1, 1, 1, 1, 1, 1, 1, 1, 1, 1, 1, 1, 1, 1, 1,
      1, 1, 1, 1, 1, 1, 1, 1, 0, 0, 0, 0, 0, 0, 0, 0, 1, 1, 1, 1, 1, 1, 1, 1,
      1, 1, 1, 1, 1, 1, 1, 1, 1, 1, 1, 1, 1, 1, 1, 1, 1, 1, 1, 1, 1, 1, 1, 1,
      1, 1, 1, 1, 1, 1, 1, 1, 1, 1, 1, 1, 1, 1, 1, 1]]"

definition kXed_disp_bits_2d :: "nat list list" where
  "kXed_disp_bits_2d =
    [[4, 4, 4, 4, 4, 4, 4, 4, 4, 4, 4, 4, 4, 4, 4, 0, 4, 4, 4, 4, 4, 4, 4, 4,
      4, 4, 4, 4, 4, 4, 4, 4, 4, 4, 4, 4, 4, 4, 0, 4, 4, 4, 4, 4, 4, 4, 0, 4,
      4, 4, 4, 4, 4, 4, 0, 4, 4, 4, 4, 4, 4, 4, 0, 4, 4, 4, 4, 4, 4, 4, 4, 4,
      4, 4, 4, 4, 4, 4, 4, 4, 4, 4, 4, 4, 4, 4, 4, 4, 4, 4, 4, 4, 4, 4, 4, 4,
      4, 4, 4, 4, 0, 0, 0, 0, 4, 4, 4, 4, 4, 4, 4, 4, 1, 1, 1, 1, 1, 1, 1, 1,
      1, 1, 1, 1, 1, 1, 1, 1, 4, 4, 4, 4, 4, 4, 4, 4, 4, 4, 4, 4, 4, 4, 4, 4,
      4, 4, 4, 4, 4, 4, 4, 4, 4, 4, 2, 4, 4, 4, 4, 4, 5, 5, 5, 5, 4, 4, 4, 4,
      4, 4, 4, 4, 4, 4, 4, 4, 4, 4, 4, 4, 4, 4, 4, 4, 4, 4, 4, 4, 4, 4, 4, 4,
      4, 4, 4, 4, 4, 4, 4, 6, 4, 4, 4, 4, 4, 4, 4, 4, 4, 4, 4, 4, 4, 4, 4, 4,
      4, 4, 4, 4, 4, 4, 4, 4, 1, 1, 1, 1, 4, 4, 4, 4, 3, 3, 2, 1, 4, 4, 4, 4,
      0, 4, 0, 0, 4, 4, 4, 4, 4, 4, 4, 4, 4, 4, 4, 4],
     [4, 4, 4, 4, 0, 4, 4, 4, 4, 4, 0, 4, 0, 4, 4, 0, 4, 4, 4, 4, 4, 4, 4, 4,
      4, 4, 4, 4, 4, 4, 4, 4, 4, 4, 4, 4, 0, 0, 0, 0, 4, 4, 4, 4, 4, 4, 4, 4,
      4, 4, 4, 4, 4, 4, 0, 4, 0, 0, 0, 0, 0, 0, 0, 0, 4, 4, 4, 4, 4, 4, 4, 4,
      4, 4, 4, 4, 4, 4, 4, 4, 4, 4, 4, 4, 4, 4, 4, 4, 4, 4, 4, 4, 4, 4, 4, 4,
      4, 4, 4, 4, 4, 4, 4, 4, 4, 4, 4, 4, 4, 4, 4, 4, 4, 4, 4, 4, 4, 4, 4, 4,
      4, 4, 4, 4, 4, 4, 4, 4, 3, 3, 3, 3, 3, 3, 3, 3, 3, 3, 3, 3, 3, 3, 3, 3,
      4, 4, 4, 4, 4, 4, 4, 4, 4, 4, 4, 4, 4, 4, 4, 4, 4, 4, 4, 4, 4, 4, 0, 0,
      4, 4, 4, 4, 4, 4, 4, 4, 4, 4, 4, 4, 4, 4, 4, 4, 4, 4, 4, 4, 4, 4, 4, 4,
      4, 4, 4, 4, 4, 4, 4, 4, 4, 4, 4, 4, 4, 4, 4, 4, 4, 4, 4, 4, 4, 4, 4, 4,
      4, 4, 4, 4, 4, 4, 4, 4, 4, 4, 4, 4, 4, 4, 4, 4, 4, 4, 4, 4, 4, 4, 4, 4,
      4, 4, 4, 4, 4, 4, 4, 4, 4, 4, 4, 4, 4, 4, 4, 4]]"

definition kXed_BRDISPz_BRDISP_WIDTH :: "nat list" where
  "kXed_BRDISPz_BRDISP_WIDTH =
    [0, 16, 32, 32]"

definition kXed_MEMDISPv_DISP_WIDTH :: "nat list" where
  "kXed_MEMDISPv_DISP_WIDTH =
    [0, 16, 32, 64]"

definition kXed_SIMMz_IMM_WIDTH :: "nat list" where
  "kXed_SIMMz_IMM_WIDTH =
    [0, 16, 32, 32]"

definition kXed_UIMMv_IMM_WIDTH :: "nat list" where
  "kXed_UIMMv_IMM_WIDTH =
    [0, 16, 32, 64]"

definition kXed_ASZ_NONTERM_EASZ :: "nat list list" where
  "kXed_ASZ_NONTERM_EASZ =
    [[1, 2, 3],
     [2, 1, 2]]"

definition kXed_OSZ_NONTERM_DF64_EOSZ :: "nat list list list" where
  "kXed_OSZ_NONTERM_DF64_EOSZ =
    [[[1, 2, 3],
      [2, 1, 1]],
     [[1, 2, 3],
      [2, 1, 3]]]"

definition kXed_OSZ_NONTERM_EOSZ :: "nat list list list" where
  "kXed_OSZ_NONTERM_EOSZ =
    [[[1, 2, 2],
      [2, 1, 1]],
     [[1, 2, 3],
      [2, 1, 3]]]"
section \<open>State and errors\<close>

abbreviation (input) XED_MODE_REAL :: nat where "XED_MODE_REAL \<equiv> 0"
abbreviation (input) XED_MODE_LEGACY :: nat where "XED_MODE_LEGACY \<equiv> 1"
abbreviation (input) XED_MODE_LONG :: nat where "XED_MODE_LONG \<equiv> 2"

abbreviation (input) XED_ILD_MAP0 :: nat where "XED_ILD_MAP0 \<equiv> 0"
abbreviation (input) XED_ILD_MAP1 :: nat where "XED_ILD_MAP1 \<equiv> 1"
abbreviation (input) XED_ILD_MAP2 :: nat where "XED_ILD_MAP2 \<equiv> 2"
abbreviation (input) XED_ILD_MAP3 :: nat where "XED_ILD_MAP3 \<equiv> 3"
abbreviation (input) XED_ILD_BAD_MAP :: nat where "XED_ILD_BAD_MAP \<equiv> 7"
abbreviation (input) XED_ILD_HASMODRM_IGNORE_MOD :: nat where "XED_ILD_HASMODRM_IGNORE_MOD \<equiv> 2"

datatype xed_error =
    XED_ERROR_NONE | XED_ERROR_BUFFER_TOO_SHORT | XED_ERROR_GENERAL_ERROR
  | XED_ERROR_BAD_REX_PREFIX | XED_ERROR_BAD_MAP | XED_ERROR_INSTR_TOO_LONG | XED_ERROR_INVALID_MODE

record XedDecodedInst =
  xlength :: nat
  xbytes :: ram
  op_rde :: u64
  op_uimm0 :: u64
  op_disp :: u64
  op_has_modrm :: nat
  op_pos_opcode :: nat
  op_max_bytes :: nat

section \<open>Scanners\<close>

definition xed_bits2bytes :: "nat \<Rightarrow> nat" where
  "xed_bits2bytes bits = drop_bit 3 bits"

definition xed_bytes2bits :: "nat \<Rightarrow> nat" where
  "xed_bytes2bits bytes = push_bit 3 bytes"

definition xed_get_prefix_table_bit :: "u8 \<Rightarrow> bool" where
  "xed_get_prefix_table_bit a =
     (shr (xed_prefix_table_bit ! unat (shr a 5)) (unat (a AND 0x1F)) AND 1 \<noteq> 0)"

definition xed_set_mopcode :: "nat \<Rightarrow> XedDecodedInst \<Rightarrow> XedDecodedInst" where
  "xed_set_mopcode mopcode x = x\<lparr>op_rde := op_rde x OR shl (word_of_nat mopcode) 40\<rparr>"

definition xed_too_short :: "XedDecodedInst \<Rightarrow> xed_error" where
  "xed_too_short x =
     (if op_max_bytes x \<ge> 15 then XED_ERROR_INSTR_TOO_LONG else XED_ERROR_BUFFER_TOO_SHORT)"

text \<open>The immediate width in bits and its signedness are passed by reference in C.\<close>

definition xed_set_simmz_imm_width_eosz ::
  "XedDecodedInst \<Rightarrow> nat list list list \<Rightarrow> nat \<times> nat" where
  "xed_set_simmz_imm_width_eosz x eosz =
     (kXed_SIMMz_IMM_WIDTH ! (eosz ! Rexw (op_rde x) ! Osz (op_rde x) ! Mode (op_rde x)), 1)"

definition xed_set_imm_bytes :: "XedDecodedInst \<Rightarrow> nat \<Rightarrow> nat \<Rightarrow> xed_error \<times> nat \<times> nat" where
  "xed_set_imm_bytes x imm_width imm_signed =
     (if imm_width = 0 \<and> Opmap (op_rde x) < XED_ILD_MAP2 then
        let k = kXed_imm_bits_2d ! Opmap (op_rde x) ! Opcode (op_rde x);
            reg = ModrmReg (op_rde x)
        in if k = 0 then (XED_ERROR_GENERAL_ERROR, imm_width, imm_signed)
           else if k = 1 then (XED_ERROR_NONE, 0, imm_signed)
           else if k = 2 then
             (if reg = 0 then (XED_ERROR_NONE, xed_set_simmz_imm_width_eosz x kXed_OSZ_NONTERM_EOSZ)
              else if reg = 7 then (XED_ERROR_NONE, 0, imm_signed)
              else (XED_ERROR_NONE, imm_width, imm_signed))
           else if k = 3 then
             (if reg \<le> 1 then (XED_ERROR_NONE, 8, 1)
              else if 2 \<le> reg \<and> reg \<le> 7 then (XED_ERROR_NONE, 0, imm_signed)
              else (XED_ERROR_NONE, imm_width, imm_signed))
           else if k = 4 then
             (if reg \<le> 1 then (XED_ERROR_NONE, xed_set_simmz_imm_width_eosz x kXed_OSZ_NONTERM_EOSZ)
              else if 2 \<le> reg \<and> reg \<le> 7 then (XED_ERROR_NONE, 0, imm_signed)
              else (XED_ERROR_NONE, imm_width, imm_signed))
           else if k = 5 then (XED_ERROR_NONE, 8, 1)
           else if k = 6 then (XED_ERROR_NONE, xed_set_simmz_imm_width_eosz x kXed_OSZ_NONTERM_DF64_EOSZ)
           else if k = 7 then (XED_ERROR_NONE, xed_set_simmz_imm_width_eosz x kXed_OSZ_NONTERM_EOSZ)
           else if k = 8 then (XED_ERROR_NONE, 16, imm_signed)
           else if k = 9 then (XED_ERROR_NONE, 8, imm_signed)
           else if k = 10 then
             (XED_ERROR_NONE, kXed_UIMMv_IMM_WIDTH ! (kXed_OSZ_NONTERM_EOSZ ! Rexw (op_rde x) !
                Osz (op_rde x) ! Mode (op_rde x)), imm_signed)
           else if k = 11 then (XED_ERROR_NONE, xed_bytes2bits 3, imm_signed)
           else (if Osz (op_rde x) \<noteq> 0 \<or> Rep (op_rde x) = 2
                 then (XED_ERROR_NONE, xed_bytes2bits 1, imm_signed)
                 else (XED_ERROR_NONE, imm_width, imm_signed))
      else (XED_ERROR_NONE, imm_width, imm_signed))"

definition xed_is_bound_instruction :: "XedDecodedInst \<Rightarrow> bool" where
  "xed_is_bound_instruction x =
     (Mode (op_rde x) \<noteq> XED_MODE_LONG \<and>
      xlength x + 1 < op_max_bytes x \<and>
      (xbytes x (xlength x + 1) AND 0xC0) \<noteq> 0xC0)"

text \<open>
  One prefix byte: the new encoding, repeat prefix and REX byte, or \<open>None\<close> where the C code
  leaves the loop. Any legacy prefix after a REX byte cancels it.
\<close>

definition xed_segment_prefix :: "u32 \<Rightarrow> u32 \<Rightarrow> u32" where
  "xed_segment_prefix rde k = (rde AND 0xFFE3FFFF) OR k"

definition xed_prefix_step :: "bool \<Rightarrow> u8 \<Rightarrow> u32 \<times> u8 \<times> u8 \<Rightarrow> (u32 \<times> u8 \<times> u8) option" where
  "xed_prefix_step islong b = (\<lambda>(rde, rep, rex).
     if \<not> xed_get_prefix_table_bit b then None
     else if b = 0x66 then Some (rde OR shl 1 5, rep, 0)
     else if b = 0x67 then Some (rde OR shl 1 21, rep, 0)
     else if b = 0x2E then Some (xed_segment_prefix rde 0x080000, rep, 0)
     else if b = 0x3E then Some (xed_segment_prefix rde 0x100000, rep, 0)
     else if b = 0x26 then Some (xed_segment_prefix rde 0x040000, rep, 0)
     else if b = 0x36 then Some (xed_segment_prefix rde 0x0C0000, rep, 0)
     else if b = 0x64 then Some (xed_segment_prefix rde 0x140000, rep, 0)
     else if b = 0x65 then Some (xed_segment_prefix rde 0x180000, rep, 0)
     else if b = 0xF0 then Some (rde OR 0x80000000, rep, 0)
     else if b = 0xF2 \<or> b = 0xF3 then Some (rde, b AND 3, 0)
     else if islong \<and> (b AND 0xf0) = 0x40 then Some (rde, rep, b)
     else None)"

function xed_prefix_loop ::
  "bool \<Rightarrow> ram \<Rightarrow> nat \<Rightarrow> nat \<Rightarrow> u32 \<times> u8 \<times> u8 \<Rightarrow> nat \<times> u32 \<times> u8 \<times> u8" where
  "xed_prefix_loop islong bytes max_bytes len st =
     (if len < max_bytes then
        case xed_prefix_step islong (bytes len) st of
          None \<Rightarrow> (len, st)
        | Some st' \<Rightarrow> xed_prefix_loop islong bytes max_bytes (len + 1) st'
      else (len, st))"
  by pat_completeness auto

termination by (relation "measure (\<lambda>(islong, bytes, n, len, st). n - len)") auto

declare xed_prefix_loop.simps [simp del]

definition xed_prefix_scanner :: "XedDecodedInst \<Rightarrow> xed_error \<times> XedDecodedInst" where
  "xed_prefix_scanner x =
     (let islong = Mode (ucast (to_u32 (op_rde x))) = XED_MODE_LONG;
          (len, rde, rep, rex) =
            xed_prefix_loop islong (xbytes x) (op_max_bytes x) 0 (to_u32 (op_rde x), 0, 0);
          rde =
            (if rex \<noteq> 0 then
               let rexw = shr rex 3 AND 1; rexr = shr rex 2 AND 1; rexx = shr rex 1 AND 1; rexb = rex AND 1;
                   rex = (1 :: u8)
               in rde OR (shl (to_u32 rexx) 17 OR shl (to_u32 rex) 16 OR shl (to_u32 rexb) 15 OR
                  shl (to_u32 rex) 11 OR shl (to_u32 rexb) 10 OR shl (to_u32 rexw) 6 OR
                  shl (to_u32 rex) 4 OR shl (to_u32 rexr) 3)
             else rde);
          x = x\<lparr>xlength := len, op_rde := shl (to_u64 rep) 51 OR to_u64 rde\<rparr>
      in if len < op_max_bytes x then (XED_ERROR_NONE, x) else (xed_too_short x, x))"

definition xed_set_vex_prefix :: "u8 \<Rightarrow> XedDecodedInst \<Rightarrow> XedDecodedInst" where
  "xed_set_vex_prefix prefix x =
     (if prefix = 0 then x
      else if prefix = 1 then x\<lparr>op_rde := (op_rde x AND NOT (shl 1 5)) OR shl 1 5\<rparr>
      else x\<lparr>op_rde := (op_rde x AND NOT (shl 3 51)) OR shl (to_u64 (prefix XOR 1)) 51\<rparr>)"

definition xed_vex_opcode_scanner :: "nat \<Rightarrow> XedDecodedInst \<Rightarrow> xed_error \<times> XedDecodedInst" where
  "xed_vex_opcode_scanner map' x =
     (let x = xed_set_mopcode (push_bit 8 map' OR unat (xbytes x (xlength x))) x;
          x = x\<lparr>op_pos_opcode := xlength x, xlength := xlength x + 1\<rparr>
      in if Mode (op_rde x) = XED_MODE_LONG \<and> Rex (op_rde x) \<noteq> 0 then (XED_ERROR_BAD_REX_PREFIX, x)
         else if Mode (op_rde x) = XED_MODE_REAL then (XED_ERROR_INVALID_MODE, x)
         else (XED_ERROR_NONE, x))"

text \<open>The VEX scanners also return the immediate width and whether a VEX prefix was found.\<close>

definition xed_vex_c4_scanner ::
  "XedDecodedInst \<Rightarrow> nat \<Rightarrow> bool \<Rightarrow> xed_error \<times> XedDecodedInst \<times> nat \<times> bool" where
  "xed_vex_c4_scanner x imm_width vexvalid =
     (if xed_is_bound_instruction x then (XED_ERROR_NONE, x, imm_width, vexvalid)
      else
        let len = xlength x + 1
        in if len + 2 < op_max_bytes x then
             let b1 = xbytes x len;
                 rexr = of_bool (b1 AND 128 = 0);
                 rexx = of_bool (b1 AND 64 = 0);
                 rexb = of_bool (Mode (op_rde x) = XED_MODE_LONG \<and> b1 AND 32 = 0);
                 b2 = xbytes x (len + 1);
                 rexw = of_bool (b2 AND 128 \<noteq> 0);
                 vrex = of_bool (b2 AND 64 = 0);
                 vexdest210 = shr (NOT b2) 3 AND 7;
                 ymm = of_bool (b2 AND 4 \<noteq> 0);
                 x = xed_set_vex_prefix (b2 AND 3) x;
                 map' = unat (b1 AND 31);
                 imm_width = (if b1 AND 3 = 3 then xed_bytes2bits 1 else imm_width);
                 x = x\<lparr>op_rde := op_rde x OR (shl vrex 63 OR shl rexx 17 OR shl rexb 15 OR shl rexb 10 OR
                        shl rexw 6 OR shl rexr 3)\<rparr>;
                 x = x\<lparr>op_rde := op_rde x OR shl ymm 30\<rparr>;
                 x = x\<lparr>op_rde := op_rde x OR shl (to_u64 vexdest210) 60\<rparr>;
                 (e, x) = xed_vex_opcode_scanner map' (x\<lparr>xlength := len + 2\<rparr>)
             in (e, x, imm_width, True)
           else let x = x\<lparr>xlength := len\<rparr> in (xed_too_short x, x, imm_width, vexvalid))"

definition xed_vex_c5_scanner ::
  "XedDecodedInst \<Rightarrow> nat \<Rightarrow> bool \<Rightarrow> xed_error \<times> XedDecodedInst \<times> nat \<times> bool" where
  "xed_vex_c5_scanner x imm_width vexvalid =
     (if xed_is_bound_instruction x then (XED_ERROR_NONE, x, imm_width, vexvalid)
      else
        let len = xlength x + 1
        in if len + 1 < op_max_bytes x then
             let b = xbytes x len;
                 rexr = of_bool (b AND 128 = 0);
                 vrex = of_bool (b AND 64 \<noteq> 0);
                 vexdest210 = shr (NOT b) 3 AND 7;
                 ymm = shr b 2 AND 1;
                 x = xed_set_vex_prefix (b AND 3) x;
                 x = x\<lparr>op_rde := op_rde x OR (shl vrex 63 OR shl rexr 3)\<rparr>;
                 x = x\<lparr>op_rde := op_rde x OR shl (to_u64 ymm) 30\<rparr>;
                 x = x\<lparr>op_rde := op_rde x OR shl (to_u64 vexdest210) 60\<rparr>;
                 (e, x) = xed_vex_opcode_scanner XED_ILD_MAP1 (x\<lparr>xlength := len + 1\<rparr>)
             in (e, x, imm_width, True)
           else let x = x\<lparr>xlength := len\<rparr> in (xed_too_short x, x, imm_width, vexvalid))"

definition xed_vex_scanner ::
  "XedDecodedInst \<Rightarrow> nat \<Rightarrow> bool \<Rightarrow> xed_error \<times> XedDecodedInst \<times> nat \<times> bool" where
  "xed_vex_scanner x imm_width vexvalid =
     (if Mode (op_rde x) \<noteq> XED_MODE_LONG then (XED_ERROR_NONE, x, imm_width, vexvalid)
      else if xbytes x (xlength x) = 0xC5 then xed_vex_c5_scanner x imm_width vexvalid
      else if xbytes x (xlength x) = 0xC4 then xed_vex_c4_scanner x imm_width vexvalid
      else (XED_ERROR_NONE, x, imm_width, vexvalid))"

definition xed_get_next_as_opcode :: "nat \<Rightarrow> XedDecodedInst \<Rightarrow> xed_error \<times> XedDecodedInst" where
  "xed_get_next_as_opcode map' x =
     (if xlength x < op_max_bytes x then
        let x = xed_set_mopcode (push_bit 8 map' OR unat (xbytes x (xlength x))) x
        in (XED_ERROR_NONE, x\<lparr>xlength := xlength x + 1\<rparr>)
      else (xed_too_short x, x))"

definition xed_opcode_scanner :: "XedDecodedInst \<Rightarrow> nat \<Rightarrow> xed_error \<times> XedDecodedInst \<times> nat" where
  "xed_opcode_scanner x imm_width =
     (let len = xlength x; b = xbytes x len
      in if b \<noteq> 0x0F then
           let x = xed_set_mopcode (push_bit 8 XED_ILD_MAP0 OR unat b) x
           in (XED_ERROR_NONE, x\<lparr>op_pos_opcode := len, xlength := xlength x + 1\<rparr>, imm_width)
         else
           let len = len + 1; x = x\<lparr>op_pos_opcode := len\<rparr>
           in if len < op_max_bytes x then
                let b = xbytes x len
                in if b = 0x38 then
                     let (e, x) = xed_get_next_as_opcode XED_ILD_MAP2 (x\<lparr>xlength := len + 1\<rparr>)
                     in (e, x, imm_width)
                   else if b = 0x3A then
                     let (e, x) = xed_get_next_as_opcode XED_ILD_MAP3 (x\<lparr>xlength := len + 1\<rparr>)
                     in (e, x, xed_bytes2bits 1)
                   else if b = 0x3B \<or> b = 0x39 \<or> b = 0x3C \<or> b = 0x3D \<or> b = 0x3E \<or> b = 0x3F \<or> b = 0x0F then
                     let (e, x) = xed_get_next_as_opcode XED_ILD_BAD_MAP (x\<lparr>xlength := len + 1\<rparr>)
                     in (XED_ERROR_BAD_MAP, x, imm_width)
                   else
                     let x = xed_set_mopcode (push_bit 8 XED_ILD_MAP1 OR unat b) x
                     in (XED_ERROR_NONE, x\<lparr>xlength := len + 1\<rparr>, imm_width)
              else (xed_too_short x, x, imm_width))"

definition xed_read_number :: "ram \<Rightarrow> nat \<Rightarrow> nat \<Rightarrow> nat \<Rightarrow> u64" where
  "xed_read_number bytes p n s =
     (let k = push_bit 2 s OR bsr (word_of_nat n)
      in if k = 0 then ucast (Get8 bytes p)
         else if k = 1 then ucast (Get16 bytes p)
         else if k = 2 then ucast (Get32 bytes p)
         else if k = 3 then Get64 bytes p
         else if k = 4 then scast (Get8 bytes p)
         else if k = 5 then scast (Get16 bytes p)
         else if k = 6 then scast (Get32 bytes p)
         else Get64 bytes p)"

definition xed_set_has_modrm :: "XedDecodedInst \<Rightarrow> XedDecodedInst" where
  "xed_set_has_modrm x =
     (if Opmap (op_rde x) < 2
      then x\<lparr>op_has_modrm := kXed_has_modrm_2d ! Opmap (op_rde x) ! Opcode (op_rde x)\<rparr>
      else x\<lparr>op_has_modrm := 1\<rparr>)"

definition xed_modrm_scanner ::
  "XedDecodedInst \<Rightarrow> nat \<Rightarrow> nat \<Rightarrow> xed_error \<times> XedDecodedInst \<times> nat \<times> nat" where
  "xed_modrm_scanner x disp_width has_sib =
     (let x = xed_set_has_modrm x; has_modrm = op_has_modrm x
      in if has_modrm \<noteq> 0 then
           let len = xlength x
           in if len < op_max_bytes x then
                let b = xbytes x len;
                    x = x\<lparr>xlength := xlength x + 1\<rparr>;
                    rm = b AND 0x07; reg = shr (b AND 0x38) 3; mod' = shr (b AND 0xC0) 6;
                    x = x\<lparr>op_rde := op_rde x AND NOT 1\<rparr>;
                    x = x\<lparr>op_rde := op_rde x OR (shl (to_u64 mod') 22 OR shl (to_u64 rm) 7 OR to_u64 reg)\<rparr>
                in if has_modrm \<noteq> XED_ILD_HASMODRM_IGNORE_MOD then
                     let eamode = kXed_eamode ! Asz (op_rde x) ! Mode (op_rde x)
                     in (XED_ERROR_NONE, x,
                         xed_bytes2bits (kXed_has_disp_regular ! eamode ! unat mod' ! unat rm),
                         kXed_has_sib_table ! eamode ! unat mod' ! unat rm)
                   else (XED_ERROR_NONE, x, disp_width, has_sib)
              else (xed_too_short x, x, disp_width, has_sib)
         else (XED_ERROR_NONE, x, disp_width, has_sib))"

definition xed_sib_scanner :: "XedDecodedInst \<Rightarrow> nat \<Rightarrow> xed_error \<times> XedDecodedInst \<times> nat" where
  "xed_sib_scanner x disp_width =
     (let len = xlength x
      in if len < op_max_bytes x then
           let b = xbytes x len;
               x = x\<lparr>op_rde := op_rde x OR shl (to_u64 b) 32\<rparr>;
               x = x\<lparr>xlength := xlength x + 1\<rparr>
           in (XED_ERROR_NONE, x,
               if b AND 7 = 5 \<and> ModrmMod (op_rde x) = 0 then xed_bytes2bits 4 else disp_width)
         else (xed_too_short x, x, disp_width))"

definition XED_LF_BRDISPz_BRDISP_WIDTH_OSZ_NONTERM_EOSZ_l2 :: "XedDecodedInst \<Rightarrow> nat" where
  "XED_LF_BRDISPz_BRDISP_WIDTH_OSZ_NONTERM_EOSZ_l2 x =
     kXed_BRDISPz_BRDISP_WIDTH ! (kXed_OSZ_NONTERM_EOSZ ! Rexw (op_rde x) ! Osz (op_rde x) ! Mode (op_rde x))"

text \<open>The switch of the displacement scanner: the width and whether it is unsigned, or the error.\<close>

definition xed_disp_width :: "XedDecodedInst \<Rightarrow> nat \<Rightarrow> (nat \<times> nat) option" where
  "xed_disp_width x disp_width =
     (if Opmap (op_rde x) < XED_ILD_MAP2 then
        let k = kXed_disp_bits_2d ! Opmap (op_rde x) ! Opcode (op_rde x)
        in if k = 0 then None
           else if k = 1 then Some (8, 0)
           else if k = 2 then Some (XED_LF_BRDISPz_BRDISP_WIDTH_OSZ_NONTERM_EOSZ_l2 x, 1)
           else if k = 3 then
             (if Mode (op_rde x) \<le> XED_MODE_LEGACY then Some (XED_LF_BRDISPz_BRDISP_WIDTH_OSZ_NONTERM_EOSZ_l2 x, 0)
              else if Mode (op_rde x) = XED_MODE_LONG then Some (0x20, 0)
              else Some (disp_width, 0))
           else if k = 4 then Some (disp_width, 0)
           else if k = 5 then
             Some (kXed_MEMDISPv_DISP_WIDTH ! (kXed_ASZ_NONTERM_EASZ ! Asz (op_rde x) ! Mode (op_rde x)), 1)
           else
             (if ModrmReg (op_rde x) = 7 then Some (XED_LF_BRDISPz_BRDISP_WIDTH_OSZ_NONTERM_EOSZ_l2 x, 1)
              else Some (disp_width, 0))
      else Some (disp_width, 0))"

definition xed_disp_scanner :: "XedDecodedInst \<Rightarrow> nat \<Rightarrow> xed_error \<times> XedDecodedInst" where
  "xed_disp_scanner x disp_width =
     (let len = xlength x
      in case xed_disp_width x disp_width of
           None \<Rightarrow> (XED_ERROR_GENERAL_ERROR, x)
         | Some (disp_width, disp_unsigned) \<Rightarrow>
             let disp_bytes = xed_bits2bytes disp_width
             in if disp_bytes = 0 then (XED_ERROR_NONE, x)
                else if len + disp_bytes \<le> op_max_bytes x then
                  (XED_ERROR_NONE,
                   x\<lparr>op_disp := xed_read_number (xbytes x) len disp_bytes (if disp_unsigned = 0 then 1 else 0),
                     xlength := len + disp_bytes\<rparr>)
                else (xed_too_short x, x))"

definition xed_imm_scanner :: "XedDecodedInst \<Rightarrow> nat \<Rightarrow> xed_error \<times> XedDecodedInst" where
  "xed_imm_scanner x imm_width =
     (let (e, imm_width, imm_signed) = xed_set_imm_bytes x imm_width 0
      in if e \<noteq> XED_ERROR_NONE then (e, x)
         else
           let i = xlength x; imm_bytes = xed_bits2bytes imm_width
           in if imm_bytes = 0 then (XED_ERROR_NONE, x)
              else if i + imm_bytes \<le> op_max_bytes x then
                (XED_ERROR_NONE,
                 x\<lparr>xlength := i + imm_bytes, op_uimm0 := xed_read_number (xbytes x) i imm_bytes imm_signed\<rparr>)
              else (xed_too_short x, x))"

section \<open>Decoding\<close>

definition xed_decode_instruction_length :: "XedDecodedInst \<Rightarrow> xed_error \<times> XedDecodedInst" where
  "xed_decode_instruction_length x =
     (let (e, x) = xed_prefix_scanner x
      in if e \<noteq> XED_ERROR_NONE then (e, x)
      else let (e, x, imm_width, vexvalid) = xed_vex_scanner x 0 False
      in if e \<noteq> XED_ERROR_NONE then (e, x)
      else let (e, x, imm_width) =
             if \<not> vexvalid then xed_opcode_scanner x imm_width else (XED_ERROR_NONE, x, imm_width)
      in if e \<noteq> XED_ERROR_NONE then (e, x)
      else let (e, x, disp_width, has_sib) = xed_modrm_scanner x 0 0
      in if e \<noteq> XED_ERROR_NONE then (e, x)
      else let (e, x, disp_width) =
             if has_sib \<noteq> 0 then xed_sib_scanner x disp_width else (XED_ERROR_NONE, x, disp_width)
      in if e \<noteq> XED_ERROR_NONE then (e, x)
      else let (e, x) = xed_disp_scanner x disp_width
      in if e \<noteq> XED_ERROR_NONE then (e, x)
      else xed_imm_scanner x imm_width)"

definition kLog2 :: "nat list list list" where
  "kLog2 = [[[2, 3], [1, 3]], [[0, 0], [0, 0]]]"

definition xed_simd_mopcode :: "nat \<Rightarrow> bool" where
  "xed_simd_mopcode mop =
     ((mop \<ge> 0x150 \<and> mop \<le> 0x176) \<or> (mop \<ge> 0x17C \<and> mop \<le> 0x17F) \<or>
      mop = 0x1C2 \<or> (mop \<ge> 0x1C4 \<and> mop \<le> 0x1C7) \<or> (mop \<ge> 0x1D0 \<and> mop \<le> 0x1FE))"

definition xed_finish :: "XedDecodedInst \<Rightarrow> XedDecodedInst" where
  "xed_finish x =
     (let rde = op_rde x;
          rde = rde OR shl (word_of_nat (Opcode rde) AND 7) 12;
          rde = (if Mode rde = XED_MODE_REAL then
                   if xed_simd_mopcode (Mopcode rde) then rde else rde XOR shl 1 5
                 else rde);
          rde = rde OR shl (word_of_nat (kLog2 ! of_bool (IsByteOp rde) ! Osz rde ! Rexw rde)) 28;
          rde = rde OR shl (word_of_nat (kLog2 ! 0 ! Osz rde ! Rexw rde)) 57;
          rde = rde OR shl (word_of_nat (kXed_eamode ! Asz rde ! Mode rde)) 24;
          rde = rde OR shl (word_of_nat (xlength x)) 53
      in x\<lparr>op_rde := rde\<rparr>)"

text \<open>\<open>None\<close> stands for the failed assertion on the mode.\<close>

definition DecodeInstruction ::
  "XedDecodedInst \<Rightarrow> ram \<Rightarrow> nat \<Rightarrow> nat \<Rightarrow> (xed_error \<times> XedDecodedInst) option" where
  "DecodeInstruction x itext bytes mode =
     (if \<not> (mode = XED_MODE_LONG \<or> mode = XED_MODE_LEGACY \<or> mode = XED_MODE_REAL) then None
      else
        let n = (if bytes \<ge> 15 then 15 else bytes);
            x = x\<lparr>op_rde := shl (word_of_nat mode) 26, op_disp := 0, op_uimm0 := 0, op_has_modrm := 0,
                  op_pos_opcode := 0, op_max_bytes := n,
                  xbytes := (\<lambda>i. if i < n then itext i else xbytes x i)\<rparr>;
            (rc, x) = xed_decode_instruction_length x
        in Some (rc, xed_finish x))"

end
