(* ===== verification/X86Cut.thy ===== *)
theory X86Cut
  imports X86
begin

text \<open>
  The decoder as a chain of stages, and what a stage does when the instruction text is cut or continued: it
  does the same as long as the bytes it consumed are there, and reports too few bytes otherwise.
\<close>


type_synonym xed_state = "XedDecodedInst \<times> nat \<times> bool \<times> nat \<times> nat"
type_synonym xed_stage = "xed_state \<Rightarrow> xed_error \<times> xed_state"

definition rebase :: "nat \<Rightarrow> ram \<Rightarrow> XedDecodedInst \<Rightarrow> XedDecodedInst" where
  "rebase m bs x = x\<lparr>xbytes := bs, op_max_bytes := m\<rparr>"

definition rebase_state :: "nat \<Rightarrow> ram \<Rightarrow> xed_state \<Rightarrow> xed_state" where
  "rebase_state m bs = (\<lambda>(x, r). (rebase m bs x, r))"

definition short :: "nat \<Rightarrow> xed_error" where
  "short m = (if m \<ge> 15 then XED_ERROR_INSTR_TOO_LONG else XED_ERROR_BUFFER_TOO_SHORT)"

lemma rebase_simps [simp]:
  "xlength (rebase m bs x) = xlength x" "xbytes (rebase m bs x) = bs" "op_rde (rebase m bs x) = op_rde x"
  "op_max_bytes (rebase m bs x) = m" "op_has_modrm (rebase m bs x) = op_has_modrm x"
  "rebase m bs (x\<lparr>xlength := k\<rparr>) = (rebase m bs x)\<lparr>xlength := k\<rparr>"
  "rebase m bs (x\<lparr>op_rde := r\<rparr>) = (rebase m bs x)\<lparr>op_rde := r\<rparr>"
  "rebase m bs (x\<lparr>op_pos_opcode := k\<rparr>) = (rebase m bs x)\<lparr>op_pos_opcode := k\<rparr>"
  "rebase m bs (x\<lparr>op_has_modrm := k\<rparr>) = (rebase m bs x)\<lparr>op_has_modrm := k\<rparr>"
  "rebase m bs (x\<lparr>op_disp := d\<rparr>) = (rebase m bs x)\<lparr>op_disp := d\<rparr>"
  "rebase m bs (x\<lparr>op_uimm0 := d\<rparr>) = (rebase m bs x)\<lparr>op_uimm0 := d\<rparr>"
  by (simp_all add: rebase_def)

text \<open>
  A stage runs between two predicates on the state and the number of bytes there are. It is a good stage when,
  replacing the text by one that agrees with it as far as the stage got and by another number of bytes,
  the stage does the same as far as the bytes suffice, and reports too few bytes otherwise.
\<close>

type_synonym xed_pred = "xed_state \<Rightarrow> nat \<Rightarrow> bool"

definition agree :: "nat \<Rightarrow> ram \<Rightarrow> ram \<Rightarrow> bool" where
  "agree k bs cs = (\<forall>i<k. bs i = cs i)"

definition good :: "xed_pred \<Rightarrow> xed_stage \<Rightarrow> xed_pred \<Rightarrow> bool" where
  "good P S Q = (\<forall>s s'. S s = (XED_ERROR_NONE, s') \<longrightarrow> P s (op_max_bytes (fst s)) \<longrightarrow>
     op_max_bytes (fst s') = op_max_bytes (fst s) \<and> xbytes (fst s') = xbytes (fst s) \<and>
     Q s' (op_max_bytes (fst s)) \<and> (\<forall>n. Q s' n \<longrightarrow> P s n) \<and>
     (\<forall>m k bs. P s m \<longrightarrow> Q s' k \<longrightarrow> agree (min m k) bs (xbytes (fst s)) \<longrightarrow>
       (if Q s' m then S (rebase_state m bs s) = (XED_ERROR_NONE, rebase_state m bs s')
        else fst (S (rebase_state m bs s)) = short m)))"

definition andthen :: "xed_stage \<Rightarrow> xed_stage \<Rightarrow> xed_stage" where
  "andthen S T s = (let (e, s) = S s in if e \<noteq> XED_ERROR_NONE then (e, s) else T s)"

lemma short_error [simp]: "short m \<noteq> XED_ERROR_NONE" "XED_ERROR_NONE \<noteq> short m"
  by (simp_all add: short_def)

lemma good_andthen:
  assumes S: "good P S Q" and T: "good Q T R"
  shows "good P (andthen S T) R"
  unfolding good_def
proof (intro allI impI)
  fix s s'
  assume a: "andthen S T s = (XED_ERROR_NONE, s')" and p: "P s (op_max_bytes (fst s))"
  obtain t where st: "S s = (XED_ERROR_NONE, t)" "T t = (XED_ERROR_NONE, s')"
    using a by (auto simp: andthen_def split: prod.splits if_splits)
  note s = S [unfolded good_def, rule_format, OF st(1) p]
  then have q: "Q t (op_max_bytes (fst t))" by simp
  note t = T [unfolded good_def, rule_format, OF st(2) q]
  have "if R s' m then andthen S T (rebase_state m bs s) = (XED_ERROR_NONE, rebase_state m bs s')
      else fst (andthen S T (rebase_state m bs s)) = short m"
    if m: "P s m" "R s' k" "agree (min m k) bs (xbytes (fst s))" for m k bs
  proof -
    have qk: "Q t k" using t m(2) by blast
    have 1: "if Q t m then S (rebase_state m bs s) = (XED_ERROR_NONE, rebase_state m bs t)
       else fst (S (rebase_state m bs s)) = short m"
      using s m qk by blast
    show ?thesis
    proof (cases "Q t m")
      case True
      then have "if R s' m then T (rebase_state m bs t) = (XED_ERROR_NONE, rebase_state m bs s')
         else fst (T (rebase_state m bs t)) = short m"
        using t s m by metis
      then show ?thesis using 1 True by (auto simp: andthen_def)
    next
      case False
      then have "\<not> R s' m" using t by blast
      then show ?thesis using 1 False by (auto simp: andthen_def split: prod.splits)
    qed
  qed
  then show "op_max_bytes (fst s') = op_max_bytes (fst s) \<and> xbytes (fst s') = xbytes (fst s) \<and>
     R s' (op_max_bytes (fst s)) \<and> (\<forall>n. R s' n \<longrightarrow> P s n) \<and>
     (\<forall>m k bs. P s m \<longrightarrow> R s' k \<longrightarrow> agree (min m k) bs (xbytes (fst s)) \<longrightarrow>
       (if R s' m then andthen S T (rebase_state m bs s) = (XED_ERROR_NONE, rebase_state m bs s')
        else fst (andthen S T (rebase_state m bs s)) = short m))"
    using s t by simp
qed

definition fits :: xed_pred where "fits s n = (xlength (fst s) \<le> n)"
definition fits_more :: xed_pred where "fits_more s n = (xlength (fst s) < n \<and> \<not> fst (snd (snd s)))"
definition fits_opcode :: xed_pred where
  "fits_opcode s n = (xlength (fst s) \<le> n \<and> (fst (snd (snd s)) \<or> xlength (fst s) < n))"

definition stage_prefix :: xed_stage where
  "stage_prefix = (\<lambda>(x, i, v, d, h). let (e, x) = xed_prefix_scanner x in (e, x, i, v, d, h))"
definition stage_vex :: xed_stage where
  "stage_vex = (\<lambda>(x, i, v, d, h). let (e, x, i, v) = xed_vex_scanner x i v in (e, x, i, v, d, h))"
definition stage_opcode :: xed_stage where
  "stage_opcode = (\<lambda>(x, i, v, d, h). let (e, x, i) = if \<not> v then xed_opcode_scanner x i else (XED_ERROR_NONE, x, i)
     in (e, x, i, v, d, h))"
definition stage_modrm :: xed_stage where
  "stage_modrm = (\<lambda>(x, i, v, d, h). let (e, x, d, h) = xed_modrm_scanner x d h in (e, x, i, v, d, h))"
definition stage_sib :: xed_stage where
  "stage_sib = (\<lambda>(x, i, v, d, h). let (e, x, d) = if h \<noteq> 0 then xed_sib_scanner x d else (XED_ERROR_NONE, x, d)
     in (e, x, i, v, d, h))"
definition stage_disp :: xed_stage where
  "stage_disp = (\<lambda>(x, i, v, d, h). let (e, x) = xed_disp_scanner x d in (e, x, i, v, d, h))"
definition stage_imm :: xed_stage where
  "stage_imm = (\<lambda>(x, i, v, d, h). let (e, x) = xed_imm_scanner x i in (e, x, i, v, d, h))"

definition stages :: xed_stage where
  "stages = andthen stage_prefix (andthen stage_vex (andthen stage_opcode (andthen stage_modrm
     (andthen stage_sib (andthen stage_disp stage_imm)))))"

lemma decode_stages:
  "xed_decode_instruction_length x =
     (let (e, s) = stages (x, 0, False, 0, 0) in (e, fst s))"
  unfolding xed_decode_instruction_length_def stages_def andthen_def stage_prefix_def stage_vex_def stage_opcode_def
    stage_modrm_def stage_sib_def stage_disp_def stage_imm_def
  by (simp add: split_beta Let_def)

lemma too_short_eq [simp]: "xed_too_short x = short (op_max_bytes x)"
  by (simp add: xed_too_short_def short_def)


lemma good_sib: "good fits stage_sib fits"
  unfolding good_def stage_sib_def fits_def rebase_state_def xed_sib_scanner_def Let_def agree_def
  by (auto split: if_splits)

lemma good_modrm: "good fits stage_modrm fits"
  unfolding good_def stage_modrm_def fits_def rebase_state_def xed_modrm_scanner_def xed_set_has_modrm_def Let_def agree_def
  by (auto split: if_splits)

lemma disp_width_rebase [simp]: "xed_disp_width (rebase m bs x) d = xed_disp_width x d"
  unfolding xed_disp_width_def XED_LF_BRDISPz_BRDISP_WIDTH_OSZ_NONTERM_EOSZ_l2_def rebase_simps ..

lemma imm_bytes_rebase [simp]: "xed_set_imm_bytes (rebase m bs x) i g = xed_set_imm_bytes x i g"
  unfolding xed_set_imm_bytes_def xed_set_simmz_imm_width_eosz_def rebase_simps ..

lemma imm_bytes_signed: "xed_set_imm_bytes x i 0 = (e, w, g) \<Longrightarrow> g \<le> 1"
  unfolding xed_set_imm_bytes_def xed_set_simmz_imm_width_eosz_def Let_def by (auto split: if_splits)

lemma small_bsr: "bsr 1 = 0" "bsr 2 = 1" "bsr 3 = 1" "bsr 4 = 2" "bsr 5 = 2" "bsr 6 = 2" "bsr 7 = 2"
  by code_simp+

lemma read_number_cong:
  assumes a: "\<And>i. p \<le> i \<Longrightarrow> i < p + n \<Longrightarrow> bs i = cs i" and n: "0 < n" and s: "s \<le> 1"
  shows "xed_read_number bs p n s = xed_read_number cs p n s"
proof -
  have 0: "bs p = cs p" using a n by simp
  have g: "1 < n \<Longrightarrow> Get16 bs p = Get16 cs p" "3 < n \<Longrightarrow> Get32 bs p = Get32 cs p" "7 < n \<Longrightarrow> Get64 bs p = Get64 cs p"
    using a by (simp_all add: Get16_def Get32_def Get64_def)
  consider "7 < n" | "n = 1" | "n = 2" | "n = 3" | "n = 4" | "n = 5" | "n = 6" | "n = 7" using n by linarith
  moreover have "s = 0 \<or> s = 1" using s by auto
  ultimately show ?thesis
    unfolding xed_read_number_def Let_def using g 0 small_bsr
    by cases (auto simp: Get8_def push_bit_nat_def)
qed

lemma read_agree:
  "agree (min m k) bs cs \<Longrightarrow> p + n \<le> k \<Longrightarrow> p + n \<le> m \<Longrightarrow> 0 < n \<Longrightarrow> s \<le> 1 \<Longrightarrow>
   xed_read_number bs p n s = xed_read_number cs p n s"
  by (rule read_number_cong) (simp_all add: agree_def)

lemma good_disp: "good fits stage_disp fits"
  unfolding good_def stage_disp_def fits_def rebase_state_def xed_disp_scanner_def Let_def
  by (auto split: if_splits option.splits)
    (subst read_agree, assumption, assumption, assumption, assumption, simp, rule refl)+

lemma good_imm: "good fits stage_imm fits"
  unfolding good_def stage_imm_def fits_def rebase_state_def xed_imm_scanner_def Let_def
  by (auto split: if_splits prod.splits dest!: imm_bytes_signed)
    (subst read_agree, assumption, assumption, assumption, assumption, simp, rule refl)+

lemma good_opcode: "good fits_opcode stage_opcode fits"
  unfolding good_def stage_opcode_def fits_def fits_opcode_def rebase_state_def xed_opcode_scanner_def xed_get_next_as_opcode_def
    xed_set_mopcode_def Let_def agree_def
  by (auto split: if_splits)


lemma vex_prefix_rebase [simp]:
  "xed_set_vex_prefix b (rebase m bs x) = rebase m bs (xed_set_vex_prefix b x)"
  "xlength (xed_set_vex_prefix b x) = xlength x" "xbytes (xed_set_vex_prefix b x) = xbytes x"
  "op_max_bytes (xed_set_vex_prefix b x) = op_max_bytes x"
  by (simp_all add: xed_set_vex_prefix_def)

lemma vex_opcode_rebase:
  "bs (xlength x) = xbytes x (xlength x) \<Longrightarrow>
   xed_vex_opcode_scanner k (rebase m bs x) =
     (fst (xed_vex_opcode_scanner k x), rebase m bs (snd (xed_vex_opcode_scanner k x)))"
  "xlength (snd (xed_vex_opcode_scanner k x)) = xlength x + 1"
  "xbytes (snd (xed_vex_opcode_scanner k x)) = xbytes x"
  "op_max_bytes (snd (xed_vex_opcode_scanner k x)) = op_max_bytes x"
  by (simp_all add: xed_vex_opcode_scanner_def xed_set_mopcode_def Let_def)

text \<open>Adding the fields of a VEX prefix and moving to the opcode byte.\<close>

definition vex_fields :: "u8 \<Rightarrow> u64 \<Rightarrow> u64 \<Rightarrow> u64 \<Rightarrow> nat \<Rightarrow> XedDecodedInst \<Rightarrow> XedDecodedInst" where
  "vex_fields p r y v l x = (let x = xed_set_vex_prefix p x;
     x = x\<lparr>op_rde := op_rde x OR r\<rparr>; x = x\<lparr>op_rde := op_rde x OR y\<rparr>; x = x\<lparr>op_rde := op_rde x OR v\<rparr>
     in x\<lparr>xlength := l\<rparr>)"

lemma vex_fields_rebase [simp]:
  "vex_fields p r y v l (rebase m bs x) = rebase m bs (vex_fields p r y v l x)"
  "xlength (vex_fields p r y v l x) = l" "xbytes (vex_fields p r y v l x) = xbytes x"
  "op_max_bytes (vex_fields p r y v l x) = op_max_bytes x"
  by (simp_all add: vex_fields_def Let_def)

lemma not_bound: "Mode (op_rde x) = 2 \<Longrightarrow> \<not> xed_is_bound_instruction x"
  by (simp add: xed_is_bound_instruction_def)

lemma c5_cases:
  assumes "Mode (op_rde x) = 2"
  shows "xed_vex_c5_scanner x i v =
    (let l = xlength x + 1; b = xbytes x l in
     if l + 1 < op_max_bytes x then
       let (e, y) = xed_vex_opcode_scanner 1 (vex_fields (b AND 3)
         (shl (of_bool (b AND 64 \<noteq> 0)) 63 OR shl (of_bool (b AND 128 = 0)) 3) (shl (to_u64 (shr b 2 AND 1)) 30)
         (shl (to_u64 (shr (NOT b) 3 AND 7)) 60) (l + 1) x)
       in (e, y, i, True)
     else (short (op_max_bytes x), x\<lparr>xlength := l\<rparr>, i, v))"
  using not_bound [OF assms]
  unfolding xed_vex_c5_scanner_def vex_fields_def Let_def by simp

lemma c4_cases:
  assumes "Mode (op_rde x) = 2"
  shows "xed_vex_c4_scanner x i v =
    (let l = xlength x + 1; b1 = xbytes x l; b2 = xbytes x (l + 1); rexb = of_bool (b1 AND 32 = 0) in
     if l + 2 < op_max_bytes x then
       let (e, y) = xed_vex_opcode_scanner (unat (b1 AND 31)) (vex_fields (b2 AND 3)
         (shl (of_bool (b2 AND 64 = 0)) 63 OR shl (of_bool (b1 AND 64 = 0)) 17 OR shl rexb 15 OR shl rexb 10 OR
          shl (of_bool (b2 AND 128 \<noteq> 0)) 6 OR shl (of_bool (b1 AND 128 = 0)) 3) (shl (of_bool (b2 AND 4 \<noteq> 0)) 30)
         (shl (to_u64 (shr (NOT b2) 3 AND 7)) 60) (l + 2) x)
       in (e, y, if b1 AND 3 = 3 then xed_bytes2bits 1 else i, True)
     else (short (op_max_bytes x), x\<lparr>xlength := l\<rparr>, i, v))"
  using not_bound [OF assms] assms
  unfolding xed_vex_c4_scanner_def vex_fields_def Let_def by simp

lemma good_vex: "good fits_more stage_vex fits_opcode"
  unfolding good_def stage_vex_def fits_more_def fits_opcode_def rebase_state_def xed_vex_scanner_def agree_def
  by (auto simp: c4_cases c5_cases Let_def vex_opcode_rebase split_beta split: if_splits)

lemma prefix_loop_bounds:
  "len \<le> n \<Longrightarrow> xed_prefix_loop il bs n len st = (l, st') \<Longrightarrow> len \<le> l \<and> l \<le> n"
proof (induction il bs n len st rule: xed_prefix_loop.induct)
  case (1 il bs n len st)
  then show ?case
    by (subst (asm) (2) xed_prefix_loop.simps) (auto split: if_splits option.splits)
qed

lemma prefix_loop_cut:
  "xed_prefix_loop il bs n len st = (l, st') \<Longrightarrow> l < n \<Longrightarrow> l < k \<Longrightarrow> (\<And>i. i < m \<Longrightarrow> i < k \<Longrightarrow> cs i = bs i) \<Longrightarrow> len \<le> n \<Longrightarrow>
   (if l < m then xed_prefix_loop il cs m len st = (l, st')
    else m \<le> fst (xed_prefix_loop il cs m len st))"
proof (induction il bs n len st rule: xed_prefix_loop.induct)
  case (1 il bs n len st)
  show ?case
  proof (cases "len < m \<and> len < n")
    case True
    have l: "len \<le> l" using 1 prefix_loop_bounds [of len n il bs st l st'] by simp
    have b: "cs len = bs len" using 1 l True by simp
    show ?thesis
      using 1 True b
      unfolding xed_prefix_loop.simps [of il cs m len] xed_prefix_loop.simps [of il bs n len st]
      by (auto split: option.splits)
  next
    case False
    then show ?thesis
      using 1 prefix_loop_bounds [of len n il bs st l st']
      unfolding xed_prefix_loop.simps [of il cs m len] xed_prefix_loop.simps [of il bs n len st]
      by (auto split: option.splits)
  qed
qed

definition any_vex :: xed_pred where "any_vex s n = (\<not> fst (snd (snd s)))"

lemma good_prefix: "good any_vex stage_prefix fits_more"
  unfolding good_def
proof (intro allI impI)
  fix s s'
  assume a: "stage_prefix s = (XED_ERROR_NONE, s')" and v: "any_vex s (op_max_bytes (fst s))"
  obtain x i v d h where s: "s = (x, i, v, d, h)" by (metis prod_cases5)
  let ?il = "Mode (ucast (to_u32 (op_rde x))) = 2" and ?st = "(to_u32 (op_rde x), 0 :: u8, 0 :: u8)"
  obtain l st where l: "xed_prefix_loop ?il (xbytes x) (op_max_bytes x) 0 ?st = (l, st)" by (rule prod.exhaust)
  note c = prefix_loop_cut [OF l]
  have lt: "l < op_max_bytes x"
    using a unfolding s stage_prefix_def xed_prefix_scanner_def Let_def
    by (auto simp: l split: prod.splits if_splits)
  have c: "if l < m then xed_prefix_loop ?il bs m 0 ?st = (l, st) else m \<le> fst (xed_prefix_loop ?il bs m 0 ?st)"
    if "l < k" "agree (min m k) bs (xbytes x)" for m k bs
    using c [OF lt that(1)] that(2) by (auto simp: agree_def)
  have c2: "\<not> fst (xed_prefix_loop ?il bs m 0 ?st) < m"
    if "agree m bs (xbytes x)" "\<not> l < m" for m bs
    using c [of "Suc l" m bs] that by (auto simp: agree_def not_less)
  show "op_max_bytes (fst s') = op_max_bytes (fst s) \<and> xbytes (fst s') = xbytes (fst s) \<and>
     fits_more s' (op_max_bytes (fst s)) \<and> (\<forall>n. fits_more s' n \<longrightarrow> any_vex s n) \<and>
     (\<forall>m k bs. any_vex s m \<longrightarrow> fits_more s' k \<longrightarrow> agree (min m k) bs (xbytes (fst s)) \<longrightarrow>
       (if fits_more s' m then stage_prefix (rebase_state m bs s) = (XED_ERROR_NONE, rebase_state m bs s')
        else fst (stage_prefix (rebase_state m bs s)) = short m))"
    using a v lt c unfolding s stage_prefix_def xed_prefix_scanner_def rebase_state_def fits_more_def any_vex_def
    by (auto simp: l Let_def split_beta c2 split: if_splits)
qed

definition local :: "xed_pred \<Rightarrow> xed_stage \<Rightarrow> xed_pred \<Rightarrow> bool" where
  "local P S Q = (\<forall>s. P s (op_max_bytes (fst s)) \<longrightarrow>
     (let (e, s') = S s; n = op_max_bytes (fst s) in
        op_max_bytes (fst s') = n \<and> xlength (fst s') \<le> n \<and> (e = XED_ERROR_NONE \<longrightarrow> Q s' n) \<and>
        (\<forall>bs. agree n bs (xbytes (fst s)) \<longrightarrow> S (rebase_state n bs s) = (e, rebase_state n bs s'))))"

lemma local_andthen:
  assumes S: "local P S Q" and T: "local Q T R"
    and xb: "\<And>s. P s (op_max_bytes (fst s)) \<Longrightarrow> xbytes (fst (snd (S s))) = xbytes (fst s)"
  shows "local P (andthen S T) R"
  unfolding local_def
proof (intro allI impI)
  fix s assume p: "P s (op_max_bytes (fst s))"
  obtain e t where s: "S s = (e, t)" by (rule prod.exhaust)
  obtain e' u where t: "T t = (e', u)" by (rule prod.exhaust)
  note S' = S [unfolded local_def, rule_format, OF p, unfolded s Let_def prod.case]
  have "Q t (op_max_bytes (fst t))" if "e = XED_ERROR_NONE" using S' that by simp
  then have T': "e = XED_ERROR_NONE \<Longrightarrow> case T t of (e, s') \<Rightarrow>
      op_max_bytes (fst s') = op_max_bytes (fst t) \<and> xlength (fst s') \<le> op_max_bytes (fst t) \<and> (e = XED_ERROR_NONE \<longrightarrow> R s' (op_max_bytes (fst t))) \<and>
        (\<forall>bs. agree (op_max_bytes (fst t)) bs (xbytes (fst t)) \<longrightarrow> T (rebase_state (op_max_bytes (fst t)) bs t) = (e, rebase_state (op_max_bytes (fst t)) bs s'))"
    by (rule T [unfolded local_def Let_def, THEN spec, THEN mp])
  show "let (e, s') = andthen S T s; n = op_max_bytes (fst s) in
        op_max_bytes (fst s') = n \<and> xlength (fst s') \<le> n \<and> (e = XED_ERROR_NONE \<longrightarrow> R s' n) \<and>
        (\<forall>bs. agree n bs (xbytes (fst s)) \<longrightarrow> andthen S T (rebase_state n bs s) = (e, rebase_state n bs s'))"
    using S' T' xb [OF p] by (cases "e = XED_ERROR_NONE") (simp_all add: andthen_def s t Let_def)
qed

lemma local_sib: "local fits stage_sib fits"
  unfolding local_def stage_sib_def fits_def rebase_state_def xed_sib_scanner_def Let_def agree_def
  by (auto split: if_splits)

lemma local_modrm: "local fits stage_modrm fits"
  unfolding local_def stage_modrm_def fits_def rebase_state_def xed_modrm_scanner_def xed_set_has_modrm_def Let_def agree_def
  by (auto split: if_splits)

lemma local_opcode: "local fits_opcode stage_opcode fits"
  unfolding local_def stage_opcode_def fits_def fits_opcode_def rebase_state_def xed_opcode_scanner_def xed_get_next_as_opcode_def
    xed_set_mopcode_def Let_def agree_def
  by (auto split: if_splits)

lemma read_local:
  "agree k bs cs \<Longrightarrow> p + n \<le> k \<Longrightarrow> 0 < n \<Longrightarrow> s \<le> 1 \<Longrightarrow>
   xed_read_number bs p n s = xed_read_number cs p n s"
  by (rule read_number_cong) (simp_all add: agree_def)

lemma local_disp: "local fits stage_disp fits"
  unfolding local_def stage_disp_def fits_def rebase_state_def xed_disp_scanner_def Let_def
  by (auto split: if_splits option.splits)
    (subst read_local, assumption, assumption, assumption, simp, rule refl)+

lemma local_imm: "local fits stage_imm fits"
  unfolding local_def stage_imm_def fits_def rebase_state_def xed_imm_scanner_def Let_def
  by (auto split: if_splits prod.splits dest!: imm_bytes_signed)
    (subst read_local, assumption, assumption, assumption, simp, rule refl)+

lemma local_vex: "local fits_more stage_vex fits_opcode"
  unfolding local_def stage_vex_def fits_more_def fits_opcode_def rebase_state_def xed_vex_scanner_def agree_def
  by (auto simp: c4_cases c5_cases Let_def vex_opcode_rebase split_beta split: if_splits)

lemma prefix_loop_agree:
  "(\<And>i. i < n \<Longrightarrow> cs i = bs i) \<Longrightarrow> xed_prefix_loop il cs n len st = xed_prefix_loop il bs n len st"
proof (induction il bs n len st rule: xed_prefix_loop.induct)
  case (1 il bs n len st)
  then show ?case
    unfolding xed_prefix_loop.simps [of il cs n len] xed_prefix_loop.simps [of il bs n len st]
    by (auto split: option.splits)
qed

lemma local_prefix: "local any_vex stage_prefix fits_more"
  unfolding local_def
proof (intro allI impI)
  fix s assume v: "any_vex s (op_max_bytes (fst s))"
  obtain x i v d h where s: "s = (x, i, v, d, h)" by (metis prod_cases5)
  let ?il = "Mode (ucast (to_u32 (op_rde x))) = 2" and ?st = "(to_u32 (op_rde x), 0 :: u8, 0 :: u8)"
  obtain l st where l: "xed_prefix_loop ?il (xbytes x) (op_max_bytes x) 0 ?st = (l, st)" by (rule prod.exhaust)
  have b: "l \<le> op_max_bytes x" using prefix_loop_bounds [OF _ l] by simp
  have c: "xed_prefix_loop ?il bs (op_max_bytes x) 0 ?st = (l, st)" if "agree (op_max_bytes x) bs (xbytes x)" for bs
    using l prefix_loop_agree [of "op_max_bytes x" bs "xbytes x"] that by (simp add: agree_def)
  show "let (e, s') = stage_prefix s; n = op_max_bytes (fst s) in
        op_max_bytes (fst s') = n \<and> xlength (fst s') \<le> n \<and> (e = XED_ERROR_NONE \<longrightarrow> fits_more s' n) \<and>
        (\<forall>bs. agree n bs (xbytes (fst s)) \<longrightarrow> stage_prefix (rebase_state n bs s) = (e, rebase_state n bs s'))"
    using v c b unfolding s stage_prefix_def xed_prefix_scanner_def rebase_state_def fits_more_def any_vex_def
    by (auto simp: l Let_def split_beta split: if_splits)
qed

lemma stage_bytes:
  "xbytes (fst (snd (stage_prefix s))) = xbytes (fst s)"
  "fits_more s n \<Longrightarrow> xbytes (fst (snd (stage_vex s))) = xbytes (fst s)"
  "xbytes (fst (snd (stage_opcode s))) = xbytes (fst s)"
  "xbytes (fst (snd (stage_modrm s))) = xbytes (fst s)"
  "xbytes (fst (snd (stage_sib s))) = xbytes (fst s)"
  "xbytes (fst (snd (stage_disp s))) = xbytes (fst s)"
  by (simp_all add: stage_prefix_def xed_prefix_scanner_def stage_opcode_def
      xed_opcode_scanner_def xed_get_next_as_opcode_def xed_set_mopcode_def stage_modrm_def xed_modrm_scanner_def
      xed_set_has_modrm_def stage_sib_def xed_sib_scanner_def stage_disp_def xed_disp_scanner_def Let_def
      stage_vex_def xed_vex_scanner_def c4_cases c5_cases vex_opcode_rebase
      split_beta split: option.splits)

lemma stages_good: "good any_vex stages fits"
  unfolding stages_def
  by (intro good_andthen [OF good_prefix] good_andthen [OF good_vex] good_andthen [OF good_opcode]
      good_andthen [OF good_modrm] good_andthen [OF good_sib] good_andthen [OF good_disp] good_imm)

lemma stages_local: "local any_vex stages fits"
  unfolding stages_def
  by (intro local_andthen [OF local_prefix] local_andthen [OF local_vex] local_andthen [OF local_opcode]
      local_andthen [OF local_modrm] local_andthen [OF local_sib] local_andthen [OF local_disp] local_imm stage_bytes)

definition spare :: "nat list" where
  "spare = [12, 13, 14, 24, 25, 26, 27, 28, 29, 53, 54, 55, 56, 57, 58, 59]"

definition keeps :: "u64 \<Rightarrow> u64 \<Rightarrow> bool" where
  "keeps r r' = list_all (\<lambda>i. bit r' i = bit r i) spare"

lemma keeps_trans: "keeps a b \<Longrightarrow> keeps b c \<Longrightarrow> keeps a c"
  by (simp add: keeps_def list_all_iff)

lemma keeps_refl [simp]: "keeps a a"
  by (simp add: keeps_def list_all_iff)

lemma mopcode_less:
  assumes "m < 32"
  shows "push_bit 8 m OR unat (b :: u8) < 2 ^ 13"
proof -
  have "push_bit 8 m = take_bit 13 (push_bit 8 m)" "unat b = take_bit 13 (unat b)"
    using assms unsigned_less [of b, where 'a = nat] by (simp_all add: take_bit_nat_eq_self push_bit_nat_def)
  then have "push_bit 8 m OR unat b = take_bit 13 (push_bit 8 m OR unat b)"
    by (metis take_bit_or)
  then show ?thesis by (metis take_bit_nat_less_exp)
qed

lemma bit_small: "k < 2 ^ n \<Longrightarrow> n \<le> i \<Longrightarrow> \<not> bit (word_of_nat k :: u64) i"
proof -
  assume "k < 2 ^ n" "n \<le> i"
  then have "take_bit n k = k" by (simp add: take_bit_nat_eq_self)
  then have "\<not> bit k i" using bit_take_bit_iff [of n k i] \<open>n \<le> i\<close> by simp
  then show ?thesis by (simp add: bit_simps)
qed

lemma keeps_or:
  "list_all (\<lambda>i. \<not> bit v i) spare \<Longrightarrow> keeps r (r OR v)"
  by (simp add: keeps_def list_all_iff bit_or_iff)

lemma keeps_mopcode: "m < 32 \<Longrightarrow> keeps (op_rde x) (op_rde (xed_set_mopcode (push_bit 8 m OR unat (b :: u8)) x))"
proof -
  assume "m < 32"
  then have "\<not> bit (word_of_nat (push_bit 8 m OR unat b) :: u64) i" if "13 \<le> i" for i
    using bit_small [OF mopcode_less] that by blast
  then show ?thesis
    by (auto simp: xed_set_mopcode_def spare_def bit_push_bit_iff intro!: keeps_or)
qed

lemma bit_byte: "8 \<le> i \<Longrightarrow> \<not> bit (ucast (b :: u8) :: 'a::len word) i"
  using bit_imp_le_length [of b i] by (auto simp: bit_unsigned_iff)

lemma keeps_sib: "keeps (op_rde (fst s)) (op_rde (fst (snd (stage_sib s))))"
  by (auto simp: stage_sib_def xed_sib_scanner_def split_beta Let_def spare_def bit_push_bit_iff bit_byte intro!: keeps_or)

lemma keeps_disp: "keeps (op_rde (fst s)) (op_rde (fst (snd (stage_disp s))))"
  by (auto simp: stage_disp_def xed_disp_scanner_def split_beta Let_def split: option.splits)

lemma keeps_imm: "keeps (op_rde (fst s)) (op_rde (fst (snd (stage_imm s))))"
  by (auto simp: stage_imm_def xed_imm_scanner_def split_beta Let_def)

lemma keeps_modrm: "keeps (op_rde (fst s)) (op_rde (fst (snd (stage_modrm s))))"
proof -
  have m: "bit (- 2 :: u64) i \<longleftrightarrow> i \<noteq> 0 \<and> i < 64" for i
    using bit_not_iff [of "1 :: u64" i] by (auto simp: bit_1_iff)
  show ?thesis
    by (auto simp: stage_modrm_def xed_modrm_scanner_def xed_set_has_modrm_def split_beta Let_def spare_def keeps_def
        bit_push_bit_iff bit_byte bit_or_iff bit_and_iff m bit_unsigned_iff bit_drop_bit_eq)
qed

lemma keeps_opcode: "keeps (op_rde (fst s)) (op_rde (fst (snd (stage_opcode s))))"
  using keeps_mopcode [of 0 "fst s"] keeps_mopcode [of 1] keeps_mopcode [of 2] keeps_mopcode [of 3] keeps_mopcode [of 7]
  by (auto simp: stage_opcode_def xed_opcode_scanner_def xed_get_next_as_opcode_def split_beta Let_def xed_set_mopcode_def)


lemma and_three: "(w :: u8) AND 3 = take_bit 2 w"
  by (simp add: take_bit_eq_mask mask_numeral)

lemma keeps_vex_fields:
  "list_all (\<lambda>i. \<not> bit r i \<and> \<not> bit y i \<and> \<not> bit v i) spare \<Longrightarrow>
   keeps (op_rde x) (op_rde (vex_fields (w AND 3) r y v l x))"
proof -
  assume a: "list_all (\<lambda>i. \<not> bit r i \<and> \<not> bit y i \<and> \<not> bit v i) spare"
  have q: "\<not> bit (to_u64 (w AND 3 XOR 1)) i" if "2 \<le> i" for i
    using that by (simp add: and_three bit_unsigned_iff bit_xor_iff bit_take_bit_iff bit_1_iff)
  have "keeps (op_rde x) (op_rde (xed_set_vex_prefix (w AND 3) x))"
  proof -
    have m: "(3 :: u64) = mask 2" by (simp add: mask_numeral)
    have "\<not> bit (3 :: u64) i" if "2 \<le> i" for i unfolding m using that by (simp only: bit_mask_iff) simp
    then show ?thesis
    using q by (auto simp: xed_set_vex_prefix_def keeps_def spare_def bit_or_iff bit_and_iff bit_not_iff bit_push_bit_iff)
  qed
  moreover have "op_rde (vex_fields (w AND 3) r y v l x) = op_rde (xed_set_vex_prefix (w AND 3) x) OR r OR y OR v"
    by (simp add: vex_fields_def Let_def or.assoc)
  ultimately show ?thesis
    using a by (auto simp: keeps_def list_all_iff bit_or_iff)
qed


lemma keeps_vex_opcode:
  "k < 32 \<Longrightarrow> keeps (op_rde x) (op_rde (snd (xed_vex_opcode_scanner k x)))"
  using keeps_mopcode [of k x "xbytes x (xlength x)"]
  by (auto simp: xed_vex_opcode_scanner_def Let_def)

lemma bit_and_seven: "3 \<le> i \<Longrightarrow> \<not> bit ((w :: u8) AND 7) i"
proof -
  have "w AND 7 = take_bit 3 w" by (simp add: take_bit_eq_mask mask_numeral)
  then show "3 \<le> i \<Longrightarrow> \<not> bit (w AND 7) i" by (simp add: bit_take_bit_iff)
qed

lemma keeps_vex: "keeps (op_rde (fst s)) (op_rde (fst (snd (stage_vex s))))"
proof -
  obtain x i v d h where s: "s = (x, i, v, d, h)" by (metis prod_cases5)
  have u: "unat ((w :: u8) AND 31) < 32" for w
  proof -
    have "w AND 31 = take_bit 5 w" by (simp add: take_bit_eq_mask mask_numeral)
    then have "unat (w AND 31) = take_bit 5 (unat w)" by (simp only: unsigned_take_bit_eq)
    then show ?thesis using take_bit_nat_less_exp [of 5 "unat w"] by simp
  qed
  have o: "bit (shl (of_bool b :: u64) n) j \<longleftrightarrow> b \<and> j = n \<and> n < 64" for b n j by (simp add: bit_shl_of_bool)
  have "keeps (op_rde x) (op_rde (fst (snd (xed_vex_c5_scanner x i v))))"
    if "Mode (op_rde x) = 2"
    unfolding c5_cases [OF that] Let_def split_beta
    by (auto intro!: keeps_trans [OF keeps_vex_fields keeps_vex_opcode]
        simp: spare_def bit_or_iff o bit_push_bit_iff bit_unsigned_iff bit_and_seven and_one_of_bool bit_of_bool_word)
  moreover have "keeps (op_rde x) (op_rde (fst (snd (xed_vex_c4_scanner x i v))))"
    if "Mode (op_rde x) = 2"
    unfolding c4_cases [OF that] Let_def split_beta
    by (auto intro!: keeps_trans [OF keeps_vex_fields keeps_vex_opcode] u
        simp: spare_def bit_or_iff o bit_push_bit_iff bit_unsigned_iff bit_and_seven)
  ultimately show ?thesis
    by (simp add: s stage_vex_def split_beta xed_vex_scanner_def)
qed

lemma bit_segment_prefix:
  "bit (xed_segment_prefix r k) i \<longleftrightarrow> bit r i \<and> bit (0xFFE3FFFF :: u32) i \<or> bit k i"
  by (simp add: xed_segment_prefix_def bit_or_iff bit_and_iff)

definition keeps32 :: "u32 \<Rightarrow> u32 \<Rightarrow> bool" where
  "keeps32 r r' = list_all (\<lambda>i. bit r' i = bit r i) [12, 13, 14, 24, 25, 26, 27, 28, 29]"

lemma keeps32_trans: "keeps32 a b \<Longrightarrow> keeps32 b c \<Longrightarrow> keeps32 a c"
  by (simp add: keeps32_def)

lemma keeps32_or: "keeps32 0 v \<Longrightarrow> keeps32 r (r OR v)"
  by (simp add: keeps32_def bit_or_iff)

lemma keeps32_segment: "keeps32 0 k \<Longrightarrow> keeps32 r (xed_segment_prefix r k)"
proof -
  have "keeps32 (- 1) (0xFFE3FFFF)" by code_simp
  then show "keeps32 0 k \<Longrightarrow> keeps32 r (xed_segment_prefix r k)"
    by (simp add: keeps32_def bit_segment_prefix)
qed

lemma keeps32_prefixes:
  "keeps32 0 32" "keeps32 0 2097152" "keeps32 0 0x80000000" "keeps32 0 0x080000" "keeps32 0 0x100000"
  "keeps32 0 0x040000" "keeps32 0 0x0C0000" "keeps32 0 0x140000" "keeps32 0 0x180000"
  by code_simp+

lemma keeps32_refl: "keeps32 r r"
  by (simp add: keeps32_def)

definition prefix_spare :: "u32 \<Rightarrow> u32 \<times> u8 \<times> u8 \<Rightarrow> bool" where
  "prefix_spare r = (\<lambda>(rde, rep, rex). take_bit 2 rep = rep \<and> keeps32 r rde)"

lemma prefix_step_spare:
  assumes p: "prefix_spare r (rde, rep, rex)" and s: "xed_prefix_step il b (rde, rep, rex) = Some st'"
  shows "prefix_spare r st'"
proof -
  note k = keeps32_trans [of r rde]
  note u = k [OF _ keeps32_or [OF keeps32_prefixes(1)]] k [OF _ keeps32_or [OF keeps32_prefixes(2)]]
    k [OF _ keeps32_or [OF keeps32_prefixes(3)]] k [OF _ keeps32_segment]
  have r: "take_bit 2 (b AND 3) = b AND 3" by (simp add: and_three)
  show ?thesis
    using p s unfolding xed_prefix_step_def prefix_spare_def prod.case
    by (simp_all only: option.inject option.distinct(1) split: if_split_asm)
      (auto intro!: u keeps32_prefixes r)
qed

lemma keeps32_both: "keeps32 0 a \<Longrightarrow> keeps32 0 b \<Longrightarrow> keeps32 0 (a OR b)"
  by (simp add: keeps32_def bit_or_iff)

lemma keeps32_flag: "n \<notin> {12, 13, 14, 24, 25, 26, 27, 28, 29} \<Longrightarrow> keeps32 0 (shl (to_u32 ((w :: u8) AND 1)) n)"
  by (simp add: keeps32_def and_one_of_bool ucast_of_bool bit_shl_of_bool)

lemma prefix_loop_spare:
  "prefix_spare r st \<Longrightarrow> prefix_spare r (snd (xed_prefix_loop il bs n len st))"
proof (induction il bs n len st rule: xed_prefix_loop.induct)
  case (1 il bs n len st)
  then show ?case
    unfolding xed_prefix_loop.simps [of il bs n len st]
    by (cases st) (auto split: option.splits dest: prefix_step_spare)
qed

lemma bit_mode_word: "m \<le> 2 \<Longrightarrow> bit (shl (word_of_nat m) 26 :: u64) i \<longleftrightarrow> (m = 1 \<and> i = 26) \<or> (m = 2 \<and> i = 27)"
proof -
  have 2: "(2 :: u64) = push_bit 1 1" by simp
  assume "m \<le> 2"
  then consider "m = 0" | "m = 1" | "m = 2" by linarith
  then show ?thesis
  proof cases
    case 3
    show ?thesis unfolding 3 of_nat_numeral 2 push_bit_push_bit by (simp only: bit_shl_one) auto
  qed (simp_all add: bit_shl_one del: push_bit_of_1)
qed

lemma keeps_prefix:
  assumes r: "op_rde (fst s) = shl (word_of_nat m) 26" and m: "m \<le> 2"
  shows "keeps (op_rde (fst s)) (op_rde (fst (snd (stage_prefix s))))"
proof -
  obtain x i v d h where s: "s = (x, i, v, d, h)" by (metis prod_cases5)
  let ?il = "Mode (ucast (to_u32 (op_rde x))) = 2" and ?st = "(to_u32 (op_rde x), 0 :: u8, 0 :: u8)"
  obtain l rde rep rex where l: "xed_prefix_loop ?il (xbytes x) (op_max_bytes x) 0 ?st = (l, rde, rep, rex)"
    by (metis prod_cases4)
  have "prefix_spare (to_u32 (op_rde x)) ?st" by (simp add: prefix_spare_def keeps32_refl)
  from prefix_loop_spare [OF this, of ?il "xbytes x" "op_max_bytes x" 0]
  have p: "take_bit 2 rep = rep" "keeps32 (to_u32 (op_rde x)) rde"
    unfolding l by (simp_all add: prefix_spare_def)
  have rep: "\<not> bit rep i" if "2 \<le> i" for i
    using p(1) that bit_take_bit_iff [of 2 rep i] by simp
  have hi: "list_all (\<lambda>i. \<not> bit (op_rde x) i) [53, 54, 55, 56, 57, 58, 59]"
    using r m by (simp add: s bit_mode_word)
  define rde' where "rde' = op_rde (fst (snd (stage_prefix s)))"
  have "\<exists>v. keeps32 0 v \<and> rde' = shl (to_u64 rep) 51 OR to_u64 (rde OR v)"
  proof (cases "rex = 0")
    case True
    then show ?thesis
      unfolding rde'_def by (intro exI [of _ 0]) (simp add: s stage_prefix_def xed_prefix_scanner_def l Let_def keeps32_refl)
  next
    case False
    let ?v = "shl (to_u32 (shr rex 1 AND 1)) 17 OR shl (to_u32 (1 AND 1 :: u8)) 16 OR shl (to_u32 (rex AND 1)) 15 OR
      shl (to_u32 (1 AND 1 :: u8)) 11 OR shl (to_u32 (rex AND 1)) 10 OR shl (to_u32 (shr rex 3 AND 1)) 6 OR
      shl (to_u32 (1 AND 1 :: u8)) 4 OR shl (to_u32 (shr rex 2 AND 1)) 3"
    have "keeps32 0 ?v" by (intro keeps32_both keeps32_flag) simp_all
    then show ?thesis
      unfolding rde'_def using False
      by (intro exI [of _ ?v]) (simp add: s stage_prefix_def xed_prefix_scanner_def l Let_def)
  qed
  then obtain v where v: "keeps32 0 v" "rde' = shl (to_u64 rep) 51 OR to_u64 (rde OR v)" by blast
  have "keeps32 (to_u32 (op_rde x)) (rde OR v)" using keeps32_trans [OF p(2) keeps32_or [OF v(1)]] .
  then have "list_all (\<lambda>i. bit rde' i = bit (op_rde x) i) [12, 13, 14, 24, 25, 26, 27, 28, 29]"
    unfolding v(2) by (simp add: keeps32_def bit_or_iff bit_push_bit_iff bit_unsigned_iff)
  moreover have "list_all (\<lambda>i. bit rde' i = bit (op_rde x) i) [53, 54, 55, 56, 57, 58, 59]"
    using hi rep bit_imp_le_length [of rde] bit_imp_le_length [of v]
    unfolding v(2) by (fastforce simp: bit_or_iff bit_push_bit_iff bit_unsigned_iff)
  ultimately show ?thesis unfolding rde'_def by (simp add: s keeps_def spare_def)
qed


lemma keeps_andthen:
  "keeps (op_rde (fst s)) (op_rde (fst (snd (S s)))) \<Longrightarrow>
   (\<And>t. keeps (op_rde (fst t)) (op_rde (fst (snd (T t))))) \<Longrightarrow>
   keeps (op_rde (fst s)) (op_rde (fst (snd (andthen S T s))))"
proof -
  assume s: "keeps (op_rde (fst s)) (op_rde (fst (snd (S s))))"
    and "\<And>t. keeps (op_rde (fst t)) (op_rde (fst (snd (T t))))"
  then have "keeps (op_rde (fst (snd (S s)))) (op_rde (fst (snd (T (snd (S s))))))" by blast
  then show ?thesis using keeps_trans [OF s] s by (simp add: andthen_def split_beta Let_def)
qed

lemma keeps_stages:
  "op_rde (fst s) = shl (word_of_nat m) 26 \<Longrightarrow> m \<le> 2 \<Longrightarrow>
   keeps (op_rde (fst s)) (op_rde (fst (snd (stages s))))"
  unfolding stages_def
  by (intro keeps_andthen keeps_prefix keeps_vex keeps_opcode keeps_modrm keeps_sib keeps_disp keeps_imm)

section \<open>The final fields\<close>

lemma field_put:
  assumes "v < 2 ^ w" "s + w \<le> 64" "\<And>i. i < w \<Longrightarrow> \<not> bit r (s + i)"
  shows "field s w (r OR shl (word_of_nat v) s) = v"
proof -
  have "take_bit w (shr (r OR shl (word_of_nat v) s) s) = (word_of_nat v :: u64)"
  proof (rule bit_word_eqI)
    fix i assume "i < LENGTH(64)"
    then show "bit (take_bit w (shr (r OR shl (word_of_nat v) s) s)) i = bit (word_of_nat v :: u64) i"
      using assms bit_small [OF assms(1), of i]
      by (cases "i < w") (simp_all add: bit_take_bit_iff bit_drop_bit_eq bit_or_iff bit_push_bit_iff)
  qed
  moreover have "v < 2 ^ 64" using assms power_increasing [of w 64 "2 :: nat"] by simp
  ultimately show ?thesis
    by (simp add: field_def unsigned_of_nat take_bit_nat_eq_self)
qed

lemma field_skip:
  assumes "v < 2 ^ n" "s + w \<le> k \<or> k + n \<le> s"
  shows "field s w (r OR shl (word_of_nat v) k) = field s w r"
  by (rule field_cong) (use assms bit_small [OF assms(1)] in \<open>auto simp: bit_or_iff bit_push_bit_iff\<close>)

lemma field_flip: "k < s \<or> s + w \<le> k \<Longrightarrow> field s w (r XOR shl 1 k) = field s w r"
  by (rule field_cong) (auto simp: bit_xor_iff bit_shl_one simp del: push_bit_of_1)


lemma field_zero: "field s w r = 0 \<longleftrightarrow> (\<forall>i<w. s + i < 64 \<longrightarrow> \<not> bit r (s + i))"
  using unat_take_bit_bits [of w "shr r s" 0] bit_imp_le_length [of r] by (auto simp: field_def bit_drop_bit_eq)

lemma field_put0:
  "v < 2 ^ w \<Longrightarrow> s + w \<le> 64 \<Longrightarrow> field s w r = 0 \<Longrightarrow> field s w (r OR shl (word_of_nat v) s) = v"
  by (rule field_put) (auto simp: field_zero)

lemma field_zeroI: "list_all (\<lambda>i. \<not> bit r i) [s..<s + w] \<Longrightarrow> field s w r = 0"
  by (simp add: field_zero list_all_iff)

lemma log2_cases:
  "o' < 2 \<Longrightarrow> w < 2 \<Longrightarrow>
   kLog2 ! of_bool b ! o' ! w = (if b then 0 else if w \<noteq> 0 then 3 else if o' \<noteq> 0 then 1 else 2)"
  by (auto simp: kLog2_def less_2_cases_iff)

lemma eamode_less: "a < 2 \<Longrightarrow> m \<le> 2 \<Longrightarrow> kXed_eamode ! a ! m < 4"
proof -
  assume "a < 2" "m \<le> 2"
  then have "a = 0 \<or> a = 1" "m = 0 \<or> m = 1 \<or> m = 2" by linarith+
  then show ?thesis by (auto simp: kXed_eamode_def)
qed

lemma and_seven: "(word_of_nat k AND 7 :: u64) = word_of_nat (k mod 8)"
proof -
  have "(w :: u64) AND 7 = take_bit 3 w" for w by (simp add: take_bit_eq_mask mask_numeral)
  then have "word_of_nat k AND 7 = (word_of_nat (take_bit 3 k) :: u64)" by (simp only: take_bit_of_nat)
  then show ?thesis by (simp add: take_bit_eq_mod [where 'a = nat])
qed

lemma finish:
  assumes k: "keeps (shl (word_of_nat m) 26) (op_rde x)" and m: "m \<le> 2" and l: "xlength x \<le> 15"
  defines "r \<equiv> op_rde (xed_finish x)"
  shows "Mode r = m" "Oplength r = xlength x" "Srm r = Opcode r mod 8"
    "WordLog2 r = (if Rexw r \<noteq> 0 then 3 else if Osz r \<noteq> 0 then 1 else 2)"
    "RegLog2 r = (if IsByteOp r then 0 else WordLog2 r)"
    "Eamode r = kXed_eamode ! Asz r ! m"
proof -
  define a where "a = op_rde x"
  have "list_all (\<lambda>i. \<not> bit a i) [12, 13, 14, 24, 25, 28, 29, 53, 54, 55, 56, 57, 58, 59]"
    using k unfolding keeps_def spare_def bit_mode_word [OF m] a_def by simp
  moreover have "[12..<12 + 3] = [12, 13, 14::nat]" "[24..<24 + 2] = [24, 25::nat]" "[28..<28 + 2] = [28, 29::nat]"
    "[53..<53 + 4] = [53, 54, 55, 56::nat]" "[57..<57 + 2] = [57, 58::nat]"
    by (simp_all add: upt_rec)
  ultimately have z: "field 12 3 a = 0" "field 24 2 a = 0" "field 28 2 a = 0" "field 53 4 a = 0" "field 57 2 a = 0"
    by (auto intro!: field_zeroI)
  have b2: "bit a 26 = (m = 1)" "bit a 27 = (m = 2)"
    using k unfolding keeps_def spare_def bit_mode_word [OF m] a_def by simp_all
  have "field 26 2 a = field 26 2 (0 OR shl (word_of_nat m) 26)"
  proof (rule field_cong)
    fix i :: nat assume "i < 2"
    then have "i = 0 \<or> i = 1" by linarith
    then show "bit a (26 + i) = bit (0 OR shl (word_of_nat m) 26 :: u64) (26 + i)"
      unfolding or.left_neutral bit_mode_word [OF m] using b2 by auto
  qed
  also have "\<dots> = m" using m by (intro field_put) auto
  finally have mode: "field 26 2 a = m" .
  have lt: "Osz y < 2" "Rexw y < 2" "Asz y < 2" for y
    unfolding rde_field using field_less [of _ 1 y] by simp_all
  note log2 = log2_cases [OF lt(1,2)]
  define b where "b = a OR shl (word_of_nat (Opcode a mod 8)) 12"
  define c where "c = (if Mode b = 0 then if xed_simd_mopcode (Mopcode b) then b else b XOR shl 1 5 else b)"
  define d where "d = c OR shl (word_of_nat (kLog2 ! of_bool (IsByteOp c) ! Osz c ! Rexw c)) 28"
  define e where "e = d OR shl (word_of_nat (kLog2 ! 0 ! Osz d ! Rexw d)) 57"
  define f where "f = e OR shl (word_of_nat (kXed_eamode ! Asz e ! Mode e)) 24"
  have r: "r = f OR shl (word_of_nat (xlength x)) 53"
    unfolding r_def xed_finish_def Let_def and_seven f_def e_def d_def c_def b_def a_def by simp
  have fb: "field s w b = field s w a" if "s + w \<le> 12 \<or> 15 \<le> s" for s w
    unfolding b_def by (rule field_skip [where n = 3]) (use that in auto)
  have fc: "field s w c = field s w b" if "5 < s \<or> s + w \<le> 5" for s w
    unfolding c_def using field_flip [of 5 s w b] that by auto
  have log: "kLog2 ! of_bool q ! Osz y ! Rexw y < 4" for q y
    unfolding log2 by simp
  have fd: "field s w d = field s w c" if "s + w \<le> 28 \<or> 30 \<le> s" for s w
    unfolding d_def by (rule field_skip [where n = 2]) (use that log in auto)
  have fe: "field s w e = field s w d" if "s + w \<le> 57 \<or> 59 \<le> s" for s w
    unfolding e_def by (rule field_skip [where n = 2]) (use that log [of False] in auto)
  have me: "Mode e = m" unfolding rde_field by (simp add: fe fd fc fb mode)
  have ea: "kXed_eamode ! Asz e ! Mode e < 4"
    unfolding me by (rule eamode_less [OF lt(3) m])
  have ff: "field s w f = field s w e" if "s + w \<le> 24 \<or> 26 \<le> s" for s w
    unfolding f_def by (rule field_skip [where n = 2]) (use that ea in auto)
  have fr: "field s w r = field s w f" if "s + w \<le> 53 \<or> 57 \<le> s" for s w
    unfolding r by (rule field_skip [where n = 4]) (use that l in auto)
  note fs = fr ff fe fd
  show "Mode r = m" using me unfolding rde_field by (simp add: fs)
  show "Oplength r = xlength x"
    unfolding rde_field r by (rule field_put0) (use l z in \<open>auto simp: ff fe fd fc fb\<close>)
  have "field 12 3 b = Opcode a mod 8" unfolding b_def by (rule field_put0) (use z in auto)
  then show "Srm r = Opcode r mod 8" unfolding rde_field by (simp add: fs fc fb)
  have "field 57 2 e = kLog2 ! 0 ! Osz d ! Rexw d"
    unfolding e_def by (rule field_put0) (use z log [of False] in \<open>auto simp: fd fc fb\<close>)
  moreover have "Osz r = Osz d" "Rexw r = Rexw d" unfolding rde_field by (simp_all add: fs)
  ultimately show wl: "WordLog2 r = (if Rexw r \<noteq> 0 then 3 else if Osz r \<noteq> 0 then 1 else 2)"
    using log2 [of False d d] unfolding rde_field by (simp add: fr ff)
  have "field 28 2 d = kLog2 ! of_bool (IsByteOp c) ! Osz c ! Rexw c"
    unfolding d_def by (rule field_put0) (use z log in \<open>auto simp: fc fb\<close>)
  moreover have "Osz r = Osz c" "Rexw r = Rexw c" "IsByteOp r = IsByteOp c"
    unfolding rde_field IsByteOp_def by (simp_all add: fs)
  ultimately show "RegLog2 r = (if IsByteOp r then 0 else WordLog2 r)"
    unfolding wl using log2 [of "IsByteOp c" c c] unfolding rde_field by (simp add: fs)
  have "field 24 2 f = kXed_eamode ! Asz e ! Mode e"
    unfolding f_def by (rule field_put0) (use z ea in \<open>auto simp: fe fd fc fb\<close>)
  moreover have "Asz r = Asz e" unfolding rde_field by (simp add: fr ff)
  ultimately show "Eamode r = kXed_eamode ! Asz r ! m"
    using me unfolding rde_field by (simp add: fr)
qed

end
