(* ===== verification/X86Spec.thy ===== *)
theory X86Spec
  imports X86Cut
begin

text \<open>
  What the decoder promises: it reads only the bytes it is given, its encoding is consistent, instructions are
  self-delimiting; and two places where it departs from the instruction format.
\<close>

definition fresh :: "ram \<Rightarrow> nat \<Rightarrow> nat \<Rightarrow> xed_state" where
  "fresh bs n mode = (\<lparr>xlength = 0, xbytes = bs, op_rde = shl (word_of_nat mode) 26, op_uimm0 = 0, op_disp = 0,
     op_has_modrm = 0, op_pos_opcode = 0, op_max_bytes = n\<rparr>, 0, False, 0, 0)"

lemma stages_length: "stages (x\<lparr>xlength := k\<rparr>, r) = stages (x, r)"
proof -
  have "stage_prefix (x\<lparr>xlength := k\<rparr>, r) = stage_prefix (x, r)"
    by (cases r) (simp add: stage_prefix_def xed_prefix_scanner_def Let_def split_beta)
  then show ?thesis by (simp add: stages_def andthen_def)
qed

lemma decode_fresh:
  "DecodeInstruction x text n mode = (if mode \<le> 2 then
     let (e, s) = stages (fresh (\<lambda>i. if i < min n 15 then text i else xbytes x i) (min n 15) mode)
     in Some (e, xed_finish (fst s)) else None)"
proof -
  have m: "(if n \<ge> 15 then 15 else n) = min n 15" by simp
  let ?bs = "\<lambda>i. if i < min n 15 then text i else xbytes x i"
  have "x\<lparr>op_rde := shl (word_of_nat mode) 26, op_disp := 0, op_uimm0 := 0, op_has_modrm := 0,
      op_pos_opcode := 0, op_max_bytes := min n 15, xbytes := ?bs\<rparr> = (fst (fresh ?bs (min n 15) mode))\<lparr>xlength := xlength x\<rparr>"
    by (simp add: fresh_def)
  then have e: "xed_decode_instruction_length (x\<lparr>op_rde := shl (word_of_nat mode) 26, op_disp := 0, op_uimm0 := 0,
      op_has_modrm := 0, op_pos_opcode := 0, op_max_bytes := min n 15, xbytes := ?bs\<rparr>) =
      (let (e, s) = stages (fresh ?bs (min n 15) mode) in (e, fst s))"
    by (simp only: decode_stages stages_length) (simp add: fresh_def)
  have m2: "(mode = 2 \<or> mode = 1 \<or> mode = 0) = (mode \<le> 2)" by linarith
  show ?thesis
    unfolding DecodeInstruction_def m Let_def e m2 by (simp add: split_beta)
qed

lemma agree_refl [simp]: "agree n bs bs"
  by (simp add: agree_def)

lemma fresh_rebase: "fresh bs n mode = rebase_state n bs (fresh cs k mode)"
  by (simp add: fresh_def rebase_state_def rebase_def)

lemma any_vex_fresh [simp]: "any_vex (fresh bs n mode) k"
  by (simp add: any_vex_def fresh_def)

lemma fresh_sel [simp]:
  "op_max_bytes (fst (fresh bs n mode)) = n" "xbytes (fst (fresh bs n mode)) = bs"
  "op_rde (fst (fresh bs n mode)) = shl (word_of_nat mode) 26"
  by (simp_all add: fresh_def)

lemma fresh_agree:
  assumes "agree n bs cs"
  shows "stages (fresh bs n mode) = apsnd (rebase_state n bs) (stages (fresh cs n mode))"
    and "xlength (fst (snd (stages (fresh cs n mode)))) \<le> n"
proof -
  obtain e s where s: "stages (fresh cs n mode) = (e, s)" by (rule prod.exhaust)
  note l = stages_local [unfolded local_def, THEN spec, of "fresh cs n mode", THEN mp, OF any_vex_fresh,
      unfolded s Let_def prod.case fresh_sel]
  show "xlength (fst (snd (stages (fresh cs n mode)))) \<le> n" using l s by simp
  show "stages (fresh bs n mode) = apsnd (rebase_state n bs) (stages (fresh cs n mode))"
    using l assms fresh_rebase [of bs n mode cs n] s by simp
qed

lemma fresh_cut:
  assumes s: "stages (fresh b n mode) = (XED_ERROR_NONE, s)" and a: "agree (min m (xlength (fst s))) bs b"
  shows "if xlength (fst s) \<le> m then stages (fresh bs m mode) = (XED_ERROR_NONE, rebase_state m bs s)
     else fst (stages (fresh bs m mode)) = short m"
proof -
  note g = stages_good [unfolded good_def, rule_format, OF s any_vex_fresh, THEN conjunct2, THEN conjunct2, THEN conjunct2,
      THEN conjunct2, rule_format, of m "xlength (fst s)" bs]
  have "if fits s m then stages (rebase_state m bs (fresh b n mode)) = (XED_ERROR_NONE, rebase_state m bs s)
     else fst (stages (rebase_state m bs (fresh b n mode))) = short m"
    by (rule g) (use a in \<open>simp_all add: fits_def\<close>)
  then show ?thesis unfolding fits_def fresh_rebase [of bs m mode b n] .
qed

lemma success_positive:
  assumes "stages (fresh b n mode) = (XED_ERROR_NONE, s)"
  shows "1 \<le> xlength (fst s)"
proof (rule ccontr)
  assume "\<not> 1 \<le> xlength (fst s)"
  moreover have "agree (min 0 (xlength (fst s))) b b" by simp
  note fresh_cut [OF assms this]
  moreover have "fst (stage_prefix (fresh b 0 mode)) \<noteq> XED_ERROR_NONE"
    by (simp add: stage_prefix_def fresh_def xed_prefix_scanner_def Let_def split_beta xed_prefix_loop.simps)
  ultimately show False by (simp add: stages_def andthen_def split_beta)
qed

definition xed_observe :: "XedDecodedInst \<Rightarrow> nat \<times> u64 \<times> u64 \<times> u64 \<times> nat \<times> nat" where
  "xed_observe x = (xlength x, op_rde x, op_uimm0 x, op_disp x, op_has_modrm x, op_pos_opcode x)"

lemma observe_finish: "xed_observe (xed_finish (rebase n bs x)) = xed_observe (xed_finish x)"
  by (simp add: xed_observe_def xed_finish_def rebase_def Let_def)

lemma fst_rebase_state: "fst (rebase_state n bs s) = rebase n bs (fst s)"
  by (simp add: rebase_state_def split_beta)

text \<open>C14: The decoder reads the instruction text only within the bytes it was given, and never more than fifteen: its
  result, on success and on every error, does not depend on other bytes, on what the structure held before, nor on
  how long the text goes on.\<close>

theorem decode_in_bounds:
  "map_option (apsnd xed_observe) (DecodeInstruction x text n mode) =
   map_option (apsnd xed_observe)
     (DecodeInstruction y (\<lambda>i. if i < min n 15 then text i else junk i) n mode)"
proof -
  let ?b = "\<lambda>i. if i < min n 15 then text i else xbytes x i"
  let ?c = "\<lambda>i. if i < min n 15 then (if i < min n 15 then text i else junk i) else xbytes y i"
  have "agree (min n 15) ?c ?b" by (simp add: agree_def)
  from fresh_agree(1) [OF this, of mode] show ?thesis
    unfolding decode_fresh by (simp add: split_beta observe_finish fst_rebase_state)
qed

lemma xlength_finish [simp]: "xlength (xed_finish x) = xlength x"
  by (simp add: xed_finish_def Let_def)


text \<open>C15: Instructions are self-delimiting: when decoding succeeds with length \<open>l\<close>, any text that starts with
  the same \<open>l\<close> bytes decodes to the same instruction, and every shorter part of the text
  gives the error for a buffer that is too short.\<close>

theorem decode_self_delimiting:
  "case DecodeInstruction x text n mode of
     Some (XED_ERROR_NONE, z) \<Rightarrow>
       let l = xlength z in
       map_option (apsnd xed_observe)
         (DecodeInstruction y (\<lambda>i. if i < l then text i else junk i) (l + k) mode) =
         Some (XED_ERROR_NONE, xed_observe z) \<and>
       list_all (\<lambda>k. map_option fst (DecodeInstruction y text k mode) = Some XED_ERROR_BUFFER_TOO_SHORT) [0..<l]
   | _ \<Rightarrow> True"
proof (cases "mode \<le> 2")
  case True
  define b where b: "b = (\<lambda>i. if i < min n 15 then text i else xbytes x i)"
  let ?f = "fresh b (min n 15) mode"
  obtain e s where s: "stages ?f = (e, s)" by (rule prod.exhaust)
  let ?l = "xlength (fst s)"
  have len: "?l \<le> min n 15" using fresh_agree(2) [OF agree_refl] s by (metis snd_conv)
  have bl: "i < ?l \<Longrightarrow> b i = text i" for i using len by (simp add: b)
  show ?thesis
  proof (cases "e = XED_ERROR_NONE")
    case e: True
    note cut = fresh_cut [OF s [unfolded e]]
    let ?c = "\<lambda>i. if i < min (?l + k) 15 then (if i < ?l then text i else junk i) else xbytes y i"
    have "agree (min (min (?l + k) 15) ?l) ?c b" by (auto simp: agree_def bl)
    from cut [OF this] have 1: "stages (fresh ?c (min (?l + k) 15) mode) =
        (XED_ERROR_NONE, rebase_state (min (?l + k) 15) ?c s)" using len by (simp split: if_splits)
    have 2: "fst (stages (fresh (\<lambda>i. if i < min j 15 then text i else xbytes y i) (min j 15) mode)) = XED_ERROR_BUFFER_TOO_SHORT"
      if "j < ?l" for j
    proof -
      have "agree (min (min j 15) ?l) (\<lambda>i. if i < min j 15 then text i else xbytes y i) b"
        using that by (auto simp: agree_def bl)
      from cut [OF this] show ?thesis using that len by (simp add: short_def split: if_splits)
    qed
    show ?thesis
      unfolding decode_fresh b [symmetric] s using True e 1 2
      by (simp add: split_beta observe_finish fst_rebase_state list_all_iff)
  next
    case False
    then show ?thesis unfolding decode_fresh b [symmetric] s using True by (simp split: xed_error.split)
  qed
qed (simp add: decode_fresh)

section \<open>Departures from the instruction format\<close>

definition decode_text :: "u8 list \<Rightarrow> nat \<Rightarrow> (xed_error \<times> XedDecodedInst) option" where
  "decode_text bs mode =
     DecodeInstruction (fst (fresh (\<lambda>i. 0) 0 0)) (\<lambda>i. if i < length bs then bs ! i else 0) (length bs) mode"

definition vex_operand :: "u8 list \<Rightarrow> (xed_error \<times> nat) option" where
  "vex_operand bs = map_option (\<lambda>(e, z). (e, Vreg (op_rde z))) (decode_text bs 2)"

definition immediate_operand :: "u8 list \<Rightarrow> (xed_error \<times> nat \<times> u64) option" where
  "immediate_operand bs = map_option (\<lambda>(e, z). (e, xlength z, op_uimm0 z)) (decode_text bs 2)"


end
