(* ===== verification/Dubble.thy ===== *)
theory Dubble
  imports Blink_Prelude "HOL-Library.Signed_Division"
begin

text \<open>
  Double words (\<open>divmul.c\<close>): the 128-bit products and quotients for a compiler without 128-bit integers, and what they compute.
\<close>

section \<open>Double words\<close>

record Dubble =
  lo :: u64
  hi :: u64

definition DubbleNeg :: "Dubble \<Rightarrow> Dubble" where
  "DubbleNeg x =
     \<lparr>lo = - lo x, hi = NOT (hi x - of_bool (lo x - 1 > lo x))\<rparr>"

definition DubbleShl :: "Dubble \<Rightarrow> Dubble" where
  "DubbleShl x = \<lparr>lo = shl (lo x) 1, hi = shl (hi x) 1 OR shr (lo x) 63\<rparr>"

definition DubbleShr :: "Dubble \<Rightarrow> Dubble" where
  "DubbleShr x = \<lparr>lo = shr (lo x) 1 OR shl (hi x) 63, hi = shr (hi x) 1\<rparr>"

definition DubbleLte :: "Dubble \<Rightarrow> Dubble \<Rightarrow> bool" where
  "DubbleLte a b = (if hi a = hi b then lo a \<le> lo b else hi a \<le> hi b)"

definition DubbleMul :: "u64 \<Rightarrow> u64 \<Rightarrow> Dubble" where
  "DubbleMul a b =
     (let x = (a AND 0xffffffff) * (b AND 0xffffffff);
          t = shr x 32;
          x = x AND 0xffffffff;
          t = t + shr a 32 * (b AND 0xffffffff);
          x = x + shl (t AND 0xffffffff) 32;
          y = shr t 32;
          t = shr x 32;
          x = x AND 0xffffffff;
          t = t + shr b 32 * (a AND 0xffffffff);
          x = x + shl (t AND 0xffffffff) 32;
          y = y + shr t 32;
          y = y + shr a 32 * shr b 32
      in \<lparr>lo = x, hi = y\<rparr>)"

definition DubbleImul :: "u64 \<Rightarrow> u64 \<Rightarrow> Dubble" where
  "DubbleImul a b =
     (let s = shr a 63; a = (if s \<noteq> 0 then - a else a);
          t = shr b 63; b = (if t \<noteq> 0 then - b else b);
          p = DubbleMul a b
      in if s XOR t \<noteq> 0 then DubbleNeg p else p)"

text \<open>The two loops of \<open>DubbleDiv\<close>: doubling the divisor, at most 128 times, and subtracting.\<close>

function div_up :: "Dubble \<Rightarrow> Dubble \<Rightarrow> nat \<Rightarrow> Dubble \<times> nat" where
  "div_up d a n = (if DubbleLte d a \<and> n < 128 then div_up (DubbleShl d) a (n + 1) else (d, n))"
  by pat_completeness auto

termination by (relation "measure (\<lambda>(d, a, n). 128 - n)") auto

declare div_up.simps [simp del]

fun div_down :: "nat \<Rightarrow> Dubble \<Rightarrow> Dubble \<Rightarrow> Dubble \<Rightarrow> Dubble \<times> Dubble" where
  "div_down 0 d q a = (q, a)"
| "div_down (Suc n) d q a =
     (let t = a;
          d = DubbleShr d;
          q = DubbleShl q;
          s = lo a; a = a\<lparr>lo := lo a - (lo d + 0)\<rparr>; c = lo a > s;
          s = hi a; a = a\<lparr>hi := hi a - (hi d + of_bool c)\<rparr>; c = hi a > s
      in if c then div_down n d q t else div_down n d (q\<lparr>lo := lo q + 1\<rparr>) a)"

definition DubbleDiv :: "Dubble \<Rightarrow> u64 \<Rightarrow> Dubble \<times> u64" where
  "DubbleDiv a b =
     (let d = \<lparr>lo = b, hi = 0\<rparr>; q = \<lparr>lo = 0, hi = 0\<rparr>;
          (d, n) = div_up d a 0;
          (q, a) = div_down n d q a
      in (q, lo a))"

definition DubbleIdiv :: "Dubble \<Rightarrow> u64 \<Rightarrow> Dubble \<times> u64" where
  "DubbleIdiv a b =
     (let s = shr (hi a) 63; a = (if s \<noteq> 0 then DubbleNeg a else a);
          t = shr b 63; b = (if t \<noteq> 0 then - b else b);
          (q, r) = DubbleDiv a b;
          q = (if s XOR t \<noteq> 0 then DubbleNeg q else q);
          r = (if s \<noteq> 0 then - r else r)
      in (q, r))"

text \<open>The number a double word stands for.\<close>

definition dval :: "Dubble \<Rightarrow> nat" where
  "dval d = unat (lo d) + 2 ^ 64 * unat (hi d)"

lemma unat_64: "unat (x :: u64) < 2 ^ 64"
  using unsigned_less [of x, where 'a = nat] by simp

lemma dval_less: "dval d < 2 ^ 128"
  using unat_64 [of "lo d"] unat_64 [of "hi d"] by (simp add: dval_def)

lemma dval_parts: "dval d mod 2 ^ 64 = unat (lo d)" "dval d div 2 ^ 64 = unat (hi d)"
  using unat_64 [of "lo d"] by (simp_all add: dval_def)

lemma dval_inject: "dval a = dval b \<longleftrightarrow> a = b"
proof
  assume e: "dval a = dval b"
  then have "unat (lo a) = unat (lo b)" "unat (hi a) = unat (hi b)"
    using dval_parts [of a] dval_parts [of b] by metis+
  then show "a = b" by (simp add: word_unat_eq_iff)
qed simp

lemma Lte_dval: "DubbleLte a b \<longleftrightarrow> dval a \<le> dval b"
proof -
  have "unat (lo a) < 2 ^ 64" "unat (lo b) < 2 ^ 64" by (rule unat_64)+
  moreover have "hi a = hi b \<longleftrightarrow> unat (hi a) = unat (hi b)" by (simp add: word_unat_eq_iff)
  ultimately show ?thesis
    unfolding DubbleLte_def dval_def word_le_nat_alt by (auto simp: word_le_nat_alt)
qed

text \<open>The two halves as one word of 128 bits.\<close>

definition dw :: "Dubble \<Rightarrow> 128 word" where
  "dw d = shl (ucast (hi d)) 64 OR ucast (lo d)"

lemma bit_dw: "bit (dw d) i \<longleftrightarrow> (if i < 64 then bit (lo d) i else bit (hi d) (i - 64))"
  unfolding dw_def bit_or_iff bit_push_bit_iff bit_unsigned_iff
  using bit_imp_le_length [of "lo d" i] bit_imp_le_length [of "hi d" "i - 64"] by auto

lemma dval_dw: "dval d = unat (dw d)"
proof -
  have e: "unat (dw d) = push_bit 64 (unat (hi d)) OR unat (lo d)"
  proof (rule bit_eqI)
    fix i
    show "bit (unat (dw d)) i = bit (push_bit 64 (unat (hi d)) OR unat (lo d)) i"
      unfolding bit_unsigned_iff bit_or_iff bit_push_bit_iff bit_dw
      using bit_imp_le_length [of "lo d" i] bit_imp_le_length [of "hi d" "i - 64"] by auto
  qed
  have "push_bit 64 (unat (hi d)) OR unat (lo d) = push_bit 64 (unat (hi d)) + unat (lo d)"
    by (rule disjunctive_add [symmetric]) (use bit_imp_le_length [of "lo d"] in \<open>fastforce simp: bit_unsigned_iff bit_push_bit_iff\<close>)
  then show ?thesis unfolding e dval_def push_bit_nat_def by simp
qed

lemma dw_Shl: "dw (DubbleShl d) = shl (dw d) 1"
proof (rule bit_word_eqI)
  fix i assume "i < LENGTH(128)"
  then consider "i = 0" | "0 < i \<and> i < 64" | "i = 64" | "64 < i \<and> i < 128" by fastforce
  then show "bit (dw (DubbleShl d)) i = bit (shl (dw d) 1) i"
    by cases (auto simp: bit_dw DubbleShl_def bit_or_iff bit_push_bit_iff bit_drop_bit_eq
      dest: bit_imp_le_length simp del: push_bit_of_1 push_bit_Suc)
qed

lemma dw_Shr: "dw (DubbleShr d) = shr (dw d) 1"
proof (rule bit_word_eqI)
  fix i assume "i < LENGTH(128)"
  then consider "i < 63" | "i = 63" | "64 \<le> i \<and> i < 128" by fastforce
  then show "bit (dw (DubbleShr d)) i = bit (shr (dw d) 1) i"
    by cases (auto simp: bit_dw DubbleShr_def bit_or_iff bit_push_bit_iff bit_drop_bit_eq Suc_diff_le [symmetric]
      dest: bit_imp_le_length simp del: push_bit_of_1 push_bit_Suc)
qed

lemma dval_Shr: "dval (DubbleShr d) = dval d div 2"
  using dval_less [of d] unfolding dval_dw dw_Shr by (simp add: unsigned_drop_bit_eq drop_bit_nat_def take_bit_nat_def)

lemma dval_Shl: "dval (DubbleShl d) = 2 * dval d mod 2 ^ 128"
proof -
  have "unat (shl (dw d) 1) = take_bit 128 (push_bit 1 (unat (dw d)))"
    by (simp only: unsigned_push_bit_eq [where 'a = nat]) simp
  then show ?thesis unfolding dval_dw dw_Shl take_bit_nat_def push_bit_nat_def by (simp add: mult.commute)
qed

lemma borrow_parts:
  fixes la ha ld hd M :: nat
  defines "c \<equiv> if la < ld then 1 else 0"
  assumes "la < M" "ld < M" "ha < M" "hd + 1 < M"
    and l: "l = (if ld \<le> la then la - ld else la + M - ld)"
    and h: "h = (if hd + c \<le> ha then ha - (hd + c) else ha + M - (hd + c))"
  shows "(h > ha \<longleftrightarrow> la + M * ha < ld + M * hd) \<and>
    (ld + M * hd \<le> la + M * ha \<longrightarrow> l + M * h = la + M * ha - (ld + M * hd))"
proof (cases "hd + c \<le> ha")
  case True
  then obtain k where k: "ha = hd + c + k" using le_iff_add by auto
  then show ?thesis using assms by (auto simp: c_def algebra_simps)
next
  case False
  then have "h > ha" using assms by (auto simp: c_def)
  moreover have "la + M * ha < ld + M * hd"
  proof (cases "ha = hd")
    case True
    then show ?thesis using False assms by (auto simp: c_def split: if_splits)
  next
    case ne: False
    then have "ha + 1 \<le> hd" using False by (auto simp: c_def split: if_splits)
    then have "M * (ha + 1) \<le> M * hd" by (rule mult_le_mono2)
    then show ?thesis using assms by simp
  qed
  ultimately show ?thesis by simp
qed

text \<open>The subtraction with borrow of the second loop; the subtrahend has been halved.\<close>

lemma Dubble_sub:
  fixes a d :: Dubble
  defines "l \<equiv> lo a - lo d"
  defines "h \<equiv> hi a - (hi d + of_bool (l > lo a))"
  assumes d: "dval d < 2 ^ 127"
  shows "(h > hi a \<longleftrightarrow> dval a < dval d) \<and> (dval d \<le> dval a \<longrightarrow> dval (a\<lparr>lo := l, hi := h\<rparr>) = dval a - dval d)"
proof -
  let ?c = "if unat (lo a) < unat (lo d) then 1 else 0 :: nat"
  have b: "unat (x - y) = (if unat y \<le> unat x then unat x - unat y else unat x + 2 ^ 64 - unat y)" for x y :: u64
    by (simp add: unat_sub_if')
  have c: "l > lo a \<longleftrightarrow> unat (lo a) < unat (lo d)"
    unfolding l_def word_less_nat_alt b using unat_64 [of "lo d"] by auto
  have hd: "unat (hi d) < 2 ^ 63"
    using d unfolding dval_def by simp
  have s: "unat (hi d + of_bool (l > lo a)) = unat (hi d) + ?c"
    using hd by (simp add: c unat_plus_if')
  have h: "unat h = (if unat (hi d) + ?c \<le> unat (hi a) then unat (hi a) - (unat (hi d) + ?c)
                    else unat (hi a) + 2 ^ 64 - (unat (hi d) + ?c))"
    unfolding h_def b s ..
  have l: "unat l = (if unat (lo d) \<le> unat (lo a) then unat (lo a) - unat (lo d) else unat (lo a) + 2 ^ 64 - unat (lo d))"
    unfolding l_def b ..
  have p: "dval (a\<lparr>lo := l, hi := h\<rparr>) = unat l + 2 ^ 64 * unat h" by (simp add: dval_def)
  show ?thesis
    unfolding word_less_nat_alt p unfolding dval_def
    by (rule borrow_parts [OF unat_64 unat_64 unat_64 _ l h]) (use hd in simp)
qed

text \<open>One round of the second loop.\<close>

definition with_bit :: "Dubble \<Rightarrow> Dubble" where
  "with_bit q = DubbleShl q\<lparr>lo := lo (DubbleShl q) + 1\<rparr>"

lemma dval_with_bit: "dval (with_bit q) = dval (DubbleShl q) + 1"
proof -
  have "even (dval (DubbleShl q))" by (simp add: dval_Shl dvd_mod_iff)
  then have "even (unat (lo (DubbleShl q)))" by (simp add: dval_def)
  then obtain k where "unat (lo (DubbleShl q)) = 2 * k" by (elim evenE)
  then have "unat (lo (DubbleShl q)) + 1 < 2 ^ 64" using unat_64 [of "lo (DubbleShl q)"] by simp
  then show ?thesis by (simp add: with_bit_def dval_def unat_plus_if')
qed

lemma div_down_step:
  obtains a' where
    "div_down (Suc n) d q a =
      (if dval a < dval (DubbleShr d) then div_down n (DubbleShr d) (DubbleShl q) a
       else div_down n (DubbleShr d) (with_bit q) a')"
    "dval (DubbleShr d) \<le> dval a \<Longrightarrow> dval a' = dval a - dval (DubbleShr d)"
proof
  let ?d = "DubbleShr d"
  let ?l = "lo a - lo ?d"
  let ?h = "hi a - (hi ?d + of_bool (lo a < ?l))"
  have "dval ?d < 2 ^ 127" using dval_less [of d] by (simp add: dval_Shr less_mult_imp_div_less)
  from Dubble_sub [OF this, of a]
  show "div_down (Suc n) d q a =
      (if dval a < dval ?d then div_down n ?d (DubbleShl q) a
       else div_down n ?d (with_bit q) (a\<lparr>lo := ?l, hi := ?h\<rparr>))"
    and "dval ?d \<le> dval a \<Longrightarrow> dval (a\<lparr>lo := ?l, hi := ?h\<rparr>) = dval a - dval ?d"
    unfolding div_down.simps Let_def with_bit_def by simp_all
qed

text \<open>The quotient register takes one bit in each round, whatever the comparisons say.\<close>

lemma div_down_quotient:
  assumes "dval q < 2 ^ (128 - n)" "n \<le> 128"
  shows "dval q * 2 ^ n \<le> dval (fst (div_down n d q a))"
  using assms
proof (induction n arbitrary: d q a)
  case (Suc n)
  have p: "(2::nat) ^ (128 - n) = 2 * 2 ^ (128 - Suc n)" using Suc.prems by (simp flip: power_Suc add: Suc_diff_le)
  have "(2::nat) ^ (128 - n) \<le> 2 ^ 128" by (rule power_increasing) auto
  then have s: "dval (DubbleShl q) = 2 * dval q" using Suc.prems p by (simp add: dval_Shl)
  then have q: "dval (DubbleShl q) < 2 ^ (128 - n)" "dval (with_bit q) < 2 ^ (128 - n)"
    using Suc.prems p by (simp_all add: dval_with_bit)
  obtain a' where "div_down (Suc n) d q a =
      (if dval a < dval (DubbleShr d) then div_down n (DubbleShr d) (DubbleShl q) a
       else div_down n (DubbleShr d) (with_bit q) a')"
    by (rule div_down_step)
  then show ?case
    using Suc.IH [OF q(1), of "DubbleShr d" a] Suc.IH [OF q(2), of "DubbleShr d" a'] Suc.prems
    by (simp add: dval_with_bit s)
qed simp

text \<open>With a divisor that was not cut off, the second loop is the school division.\<close>

lemma div_down_exact:
  assumes "dval d = b * 2 ^ n" "dval a < b * 2 ^ n" "0 < b"
  shows "dval (fst (div_down n d q a)) = (dval q * 2 ^ n + dval a div b) mod 2 ^ 128 \<and>
    dval (snd (div_down n d q a)) = dval a mod b"
  using assms
proof (induction n arbitrary: d q a)
  case 0
  then show ?case using dval_less [of q] by simp
next
  case (Suc n)
  have d: "dval (DubbleShr d) = b * 2 ^ n" using Suc.prems by (simp add: dval_Shr)
  obtain a' where s: "div_down (Suc n) d q a =
      (if dval a < dval (DubbleShr d) then div_down n (DubbleShr d) (DubbleShl q) a
       else div_down n (DubbleShr d) (with_bit q) a')"
    and a': "dval (DubbleShr d) \<le> dval a \<Longrightarrow> dval a' = dval a - dval (DubbleShr d)"
    by (rule div_down_step) blast
  have m: "(2 * x mod M * k + y) mod M = (x * (2 * k) + y) mod M" for x k y M :: nat
    by (metis (no_types, lifting) mod_add_left_eq mod_mult_left_eq mult.assoc mult.commute)
  show ?case
  proof (cases "dval a < b * 2 ^ n")
    case True
    then show ?thesis using s Suc.IH [OF d True Suc.prems(3), of "DubbleShl q"] by (simp add: d dval_Shl m)
  next
    case False
    then have e: "dval a = b * 2 ^ n + dval a'" using a' d by simp
    then have "dval a' < b * 2 ^ n" using Suc.prems by simp
    note i = Suc.IH [OF d this Suc.prems(3), of "with_bit q"]
    have "dval a div b = 2 ^ n + dval a' div b" "dval a mod b = dval a' mod b"
      using Suc.prems(3) by (simp_all add: e)
    then have "(dval q * 2 ^ Suc n + dval a div b) mod 2 ^ 128 =
        (2 * dval q mod 2 ^ 128 * 2 ^ n + (2 ^ n + dval a' div b)) mod 2 ^ 128"
      unfolding m by simp
    also have "\<dots> = (dval (with_bit q) * 2 ^ n + dval a' div b) mod 2 ^ 128"
      unfolding dval_with_bit dval_Shl by (simp only: distrib_right mult_1 add.assoc)
    finally show ?thesis using i s False \<open>dval a mod b = dval a' mod b\<close> by (simp only: d if_False)
  qed
qed

lemma div_up_exact:
  assumes "dval d = b * 2 ^ k" "0 < b" "b < 2 ^ 64" "dval a < 2 ^ 127 \<or> dval a < b * 2 ^ 64"
    "div_up d a k = (d', n)"
  shows "dval d' = b * 2 ^ n \<and> dval a < b * 2 ^ n"
  using assms
proof (induction d a k rule: div_up.induct)
  case (1 d a k)
  have "b * 2 ^ k < 2 ^ 128" using dval_less [of d] 1 by simp
  moreover have "2 ^ k \<le> b * 2 ^ k" using 1 by simp
  ultimately have "(2::nat) ^ k < 2 ^ 128" by linarith
  then have k: "k < 128" by (simp only: power_strict_increasing_iff)
  show ?case
  proof (cases "dval d \<le> dval a")
    case False
    then show ?thesis using 1 by (simp add: div_up.simps [of d] Lte_dval)
  next
    case True
    then have c: "DubbleLte d a \<and> k < 128" using k by (simp add: Lte_dval)
    have "2 * dval d < 2 ^ 128"
    proof (cases "dval a < 2 ^ 127")
      case False
      then have "b * 2 ^ k < b * 2 ^ 64" using True 1 by linarith
      then have "(2::nat) ^ k < 2 ^ 64" using 1 by simp
      then have "Suc k \<le> 64" by (simp only: power_strict_increasing_iff)
      then have "(2::nat) ^ Suc k \<le> 2 ^ 64" by (rule power_increasing) simp
      then have "b * 2 ^ Suc k \<le> b * 2 ^ 64" by (rule mult_le_mono2)
      moreover have "b * 2 ^ 64 < 2 ^ 64 * 2 ^ 64" using 1 by simp
      ultimately have "b * 2 ^ Suc k < 2 ^ 64 * 2 ^ 64" by (rule le_less_trans)
      then show ?thesis unfolding 1 by (simp add: mult.left_commute)
    qed (use True in simp)
    then have "dval (DubbleShl d) = b * 2 ^ (k + 1)" using 1 by (simp add: dval_Shl)
    then show ?thesis using 1 c by (simp add: div_up.simps [of d])
  qed
qed

lemma div_up_last:
  assumes "div_up d a k = (d', n)" "k \<le> 128"
  shows "n \<le> 128 \<and> k \<le> n \<and> (if n = k then d' = d else (\<exists>p. d' = DubbleShl p \<and> dval p \<le> dval a))"
  using assms
proof (induction d a k rule: div_up.induct)
  case (1 d a k)
  show ?case
  proof (cases "DubbleLte d a \<and> k < 128")
    case True
    then have "div_up (DubbleShl d) a (k + 1) = (d', n)" using 1 by (simp add: div_up.simps [of d])
    then show ?thesis using 1 True by (auto simp: Lte_dval split: if_splits)
  next
    case False
    then have "(d', n) = (d, k)" using 1 by (metis div_up.simps)
    then show ?thesis using 1 by simp
  qed
qed

lemma div_up_big:
  assumes "dval d = b * 2 ^ k" "b < 2 ^ 64" "b * 2 ^ 64 \<le> dval a" "div_up d a k = (d', n)" "k \<le> 64"
  shows "65 \<le> n"
  using assms
proof (induction d a k rule: div_up.induct)
  case (1 d a k)
  have p: "(2::nat) ^ k \<le> 2 ^ 64" using 1 by (intro power_increasing) auto
  then have "b * 2 ^ k \<le> b * 2 ^ 64" by (rule mult_le_mono2)
  then have "dval d \<le> dval a" using 1 by linarith
  then have c: "DubbleLte d a \<and> k < 128" using 1 by (simp add: Lte_dval)
  then have s: "div_up (DubbleShl d) a (k + 1) = (d', n)" using 1 by (simp add: div_up.simps [of d])
  show ?case
  proof (cases "k = 64")
    case True
    then show ?thesis using div_up_last [OF s] by simp
  next
    case False
    then have "(2::nat) ^ (k + 1) \<le> 2 ^ 64" using 1 by (intro power_increasing) auto
    then have "b * 2 ^ (k + 1) \<le> b * 2 ^ 64" by (rule mult_le_mono2)
    moreover have "b * 2 ^ 64 < 2 ^ 64 * 2 ^ 64" using 1 by simp
    ultimately have "b * 2 ^ (k + 1) < 2 ^ 64 * 2 ^ 64" by (rule le_less_trans)
    moreover have "2 * dval d = b * 2 ^ (k + 1)" unfolding 1 by simp
    ultimately have "dval (DubbleShl d) = b * 2 ^ (k + 1)" unfolding dval_Shl by simp
    then show ?thesis using 1 c s False by simp
  qed
qed

lemma DubbleDiv_exact:
  assumes "b \<noteq> 0" "dval a < 2 ^ 127 \<or> dval a < unat b * 2 ^ 64" "DubbleDiv a b = (q, r)"
  shows "dval q = dval a div unat b \<and> unat r = dval a mod unat b"
proof -
  obtain d n where u: "div_up \<lparr>lo = b, hi = 0\<rparr> a 0 = (d, n)" by (rule prod.exhaust)
  obtain q' r' where dd: "div_down n d \<lparr>lo = 0, hi = 0\<rparr> a = (q', r')" by (rule prod.exhaust)
  have b: "0 < unat b" using assms by (simp add: unat_gt_0)
  have "dval d = unat b * 2 ^ n \<and> dval a < unat b * 2 ^ n"
    by (rule div_up_exact [OF _ b unat_64 assms(2) u]) (simp add: dval_def)
  then have e: "dval q' = dval a div unat b mod 2 ^ 128" "dval r' = dval a mod unat b"
    using div_down_exact [of d "unat b" n a "\<lparr>lo = 0, hi = 0\<rparr>"] b dd by (simp_all add: dval_def [of "\<lparr>lo = 0, hi = 0\<rparr>"])
  have "dval a div unat b < 2 ^ 128" using dval_less [of a] by (metis div_le_dividend le_less_trans)
  moreover have "dval r' < 2 ^ 64" using e b unat_64 [of b] mod_less_divisor [of "unat b" "dval a"] by linarith
  then have "unat (lo r') = dval r'" using dval_parts(1) [of r'] by simp
  moreover have "q = q'" "r = lo r'" using assms u dd by (simp_all add: DubbleDiv_def)
  ultimately show ?thesis using e by simp
qed

lemma DubbleDiv_fits:
  assumes "b \<noteq> 0" "DubbleDiv a b = (q, r)"
  shows "hi q = 0 \<longleftrightarrow> dval a < unat b * 2 ^ 64"
proof (cases "dval a < unat b * 2 ^ 64")
  case True
  have "dval q = dval a div unat b" using DubbleDiv_exact [OF assms(1) _ assms(2)] True by blast
  also have "\<dots> < 2 ^ 64" using True by (simp add: less_mult_imp_div_less mult.commute)
  finally have "unat (hi q) = 0" using dval_parts(2) [of q] by simp
  then show ?thesis using True by (simp add: unat_eq_zero)
next
  case False
  obtain d n where u: "div_up \<lparr>lo = b, hi = 0\<rparr> a 0 = (d, n)" by (rule prod.exhaust)
  obtain q' r' where dd: "div_down n d \<lparr>lo = 0, hi = 0\<rparr> a = (q', r')" by (rule prod.exhaust)
  have n65: "65 \<le> n" by (rule div_up_big [OF _ unat_64 _ u, of b]) (use False in \<open>simp_all add: dval_def\<close>)
  then obtain p where n: "n \<le> 128" and p: "d = DubbleShl p" "dval p \<le> dval a" using div_up_last [OF u] by auto
  obtain j where j: "n = Suc j" using n65 by (cases n) auto
  have "dval (DubbleShr d) \<le> dval p" unfolding p dval_Shr dval_Shl using mod_less_eq_dividend [of "2 * dval p" "2 ^ 128"] by simp
  then have "\<not> dval a < dval (DubbleShr d)" using p by simp
  then obtain a' where s: "(q', r') = div_down j (DubbleShr d) (with_bit \<lparr>lo = 0, hi = 0\<rparr>) a'"
    using dd unfolding j by (metis div_down_step)
  have one: "dval (with_bit \<lparr>lo = 0, hi = 0\<rparr>) = 1"
    by (simp add: dval_with_bit dval_Shl dval_def [of "\<lparr>lo = 0, hi = 0\<rparr>"])
  have "(1::nat) < 2 ^ (128 - j)" using n j by (intro one_less_power) auto
  then have "2 ^ j \<le> dval q'"
    using div_down_quotient [of "with_bit \<lparr>lo = 0, hi = 0\<rparr>" j "DubbleShr d" a'] n j one s [symmetric] by simp
  moreover have "(2::nat) ^ 64 \<le> 2 ^ j" using n65 j by (intro power_increasing) auto
  ultimately have "2 ^ 64 \<le> dval q'" by linarith
  then have "hi q' \<noteq> 0" using unat_64 [of "lo q'"] by (auto simp: dval_def)
  then show ?thesis using assms u dd False by (simp add: DubbleDiv_def)
qed

subsection \<open>Products and signs\<close>

lemma dw_of_nat: "dw d = word_of_nat (dval d)"
  by (simp add: dval_dw)

lemma unat_neg: "unat (- x :: u64) = (if x = 0 then 0 else 2 ^ 64 - unat x)"
  using unat_sub_if' [of 0 x] by (simp add: unat_eq_zero)

lemma unat_not: "unat (NOT x :: u64) = 2 ^ 64 - 1 - unat x"
proof -
  have "NOT x = - 1 - x" by (simp add: not_eq_complement)
  then have "unat (NOT x) = unat (- 1 :: u64) - unat x" by (simp add: unat_sub)
  then show ?thesis by (simp add: unsigned_minus_1_eq_mask mask_eq_exp_minus_1)
qed

lemma dw_Neg: "dw (DubbleNeg d) = - dw d"
proof -
  let ?c = "lo d - 1 > lo d"
  have c: "?c \<longleftrightarrow> lo d = 0"
    by (cases "lo d = 0") (auto simp: word_less_nat_alt unat_minus_one unsigned_minus_1_eq_mask mask_eq_exp_minus_1)
  have e: "DubbleNeg d = \<lparr>lo = - lo d, hi = NOT (hi d - of_bool (lo d = 0))\<rparr>"
    unfolding DubbleNeg_def c ..
  have "dval (DubbleNeg d) + dval d = (if lo d = 0 \<and> hi d = 0 then 0 else 2 ^ 128)"
  proof (cases "lo d = 0")
    case True
    have "NOT (hi d - 1) = - hi d" by (simp add: not_eq_complement)
    then show ?thesis using True unat_64 [of "hi d"] by (simp add: e dval_def unat_neg diff_mult_distrib2)
  next
    case False
    then show ?thesis using unat_64 [of "hi d"] unat_64 [of "lo d"]
      by (simp add: e dval_def unat_neg unat_not diff_mult_distrib2)
  qed
  then have "word_of_nat (dval (DubbleNeg d) + dval d) = (0 :: 128 word)" by (simp split: if_splits)
  then show ?thesis unfolding dw_of_nat by (simp add: eq_neg_iff_add_eq_0)
qed

lemma unat_low32: "unat (x AND 0xffffffff :: u64) = unat x mod 2 ^ 32"
proof -
  have "x AND 0xffffffff = take_bit 32 x" by (simp add: take_bit_eq_mask mask_numeral)
  then have "unat (x AND 0xffffffff) = take_bit 32 (unat x)" by (simp only: unsigned_take_bit_eq)
  then show ?thesis by (simp only: take_bit_nat_def)
qed

lemma unat_low32_high: "unat (shl (x AND 0xffffffff) 32 :: u64) = unat x mod 2 ^ 32 * 2 ^ 32"
proof -
  have "unat (shl (x AND 0xffffffff) 32 :: u64) = take_bit 64 (push_bit 32 (unat (x AND 0xffffffff)))"
    by (simp only: unsigned_push_bit_eq [where 'a = nat]) simp
  then show ?thesis unfolding unat_low32 take_bit_nat_def push_bit_nat_def by simp
qed

lemma unat_shr: "unat (shr x n :: u64) = unat x div 2 ^ n"
proof -
  have "unat (shr x n) = drop_bit n (take_bit 64 (unat x))" by (simp add: unsigned_drop_bit_eq)
  then show ?thesis using unat_64 [of x] by (simp add: drop_bit_eq_div [where 'a = nat] take_bit_nat_eq_self)
qed

lemma dval_Mul: "dval (DubbleMul a b) = unat a * unat b"
proof -
  let ?W = "2 ^ 32 :: nat"
  define a0 a1 b0 b1 where "a0 = unat a mod ?W" and "a1 = unat a div ?W" and "b0 = unat b mod ?W" and "b1 = unat b div ?W"
  have less: "a0 < ?W" "b0 < ?W" "a1 < ?W" "b1 < ?W"
    using unat_64 [of a] unat_64 [of b] by (simp_all add: a0_def a1_def b0_def b1_def less_mult_imp_div_less)
  have ab: "unat a = a0 + ?W * a1" "unat b = b0 + ?W * b1" by (simp_all add: a0_def a1_def b0_def b1_def)
  have add: "unat (x + y) = unat x + unat y" if "unat x + unat y < 2 ^ 64" for x y :: u64
    using that by (simp add: unat_plus_if')
  have mul: "unat (x * y) = unat x * unat y" if "unat x * unat y < 2 ^ 64" for x y :: u64
    using that by (simp add: unat_word_ariths)
  have prod: "x * y \<le> (?W - 1) * (?W - 1)" if "x < ?W" "y < ?W" for x y
    using that by (intro mult_le_mono) auto
  define t1 where "t1 = a0 * b0 div ?W + a1 * b0"
  define t2 where "t2 = t1 mod ?W + b1 * a0"
  define y where "y = t1 div ?W + t2 div ?W + a1 * b1"
  define x where "x = a0 * b0 mod ?W + t2 mod ?W * ?W"
  have p: "a0 * b0 \<le> (?W - 1) * (?W - 1)" "a1 * b0 \<le> (?W - 1) * (?W - 1)" "b1 * a0 \<le> (?W - 1) * (?W - 1)"
    using prod less by simp_all
  have mW: "z mod ?W \<le> ?W - 1" for z
    using mod_less_divisor [of ?W z] by simp
  have "a0 * b0 div ?W \<le> ?W - 1" using p by (simp add: div_le_mono [of _ _ ?W, THEN le_trans])
  then have small: "a0 * b0 < 2 ^ 64" "t1 < 2 ^ 64" "t2 < 2 ^ 64" "x < 2 ^ 64"
    using p mW [of t1] mW [of t2] mW [of "a0 * b0"] by (simp_all add: t1_def t2_def x_def)
  have split: "z = z mod ?W + ?W * (z div ?W)" for z by simp
  have xy: "x + 2 ^ 64 * y = unat a * unat b"
  proof -
    have "unat a * unat b = a0 * b0 + ?W * (a1 * b0) + ?W * (b1 * a0) + ?W * ?W * (a1 * b1)"
      unfolding ab by (simp add: algebra_simps)
    also have "\<dots> = a0 * b0 mod ?W + ?W * t1 + ?W * (b1 * a0) + ?W * ?W * (a1 * b1)"
      by (subst split [of "a0 * b0"]) (simp only: t1_def distrib_left add.assoc)
    also have "\<dots> = a0 * b0 mod ?W + ?W * t2 + ?W * ?W * (t1 div ?W) + ?W * ?W * (a1 * b1)"
      by (subst split [of t1]) (simp only: t2_def distrib_left add.assoc add.commute add.left_commute mult.assoc)
    also have "\<dots> = x + ?W * ?W * y"
      by (subst split [of t2]) (simp only: x_def y_def distrib_left add.assoc add.commute add.left_commute mult.assoc mult.commute mult.left_commute)
    finally show ?thesis by simp
  qed
  have y: "y < 2 ^ 64"
  proof (rule ccontr)
    assume "\<not> y < 2 ^ 64"
    then have "2 ^ 64 * 2 ^ 64 \<le> 2 ^ 64 * y" by (intro mult_le_mono2) simp
    moreover have "unat a * unat b < 2 ^ 64 * 2 ^ 64" by (intro mult_strict_mono' unat_64) simp_all
    ultimately show False using xy by linarith
  qed
  define w0 where "w0 = (a AND 0xffffffff) * (b AND 0xffffffff)"
  have w0: "unat w0 = a0 * b0" unfolding w0_def using small(1) mul [of "a AND 0xffffffff" "b AND 0xffffffff"]
    by (simp only: unat_low32 a0_def b0_def)
  define w1 where "w1 = shr w0 32 + shr a 32 * (b AND 0xffffffff)"
  have m1: "unat (shr a 32 * (b AND 0xffffffff)) = a1 * b0"
    using p mul [of "shr a 32" "b AND 0xffffffff"] by (simp add: unat_low32 unat_shr a1_def b0_def)
  have w1: "unat w1 = t1"
    unfolding w1_def using small(2) add [of "shr w0 32" "shr a 32 * (b AND 0xffffffff)"] by (simp only: m1 w0 unat_shr t1_def)
  define v1 where "v1 = (w0 AND 0xffffffff) + shl (w1 AND 0xffffffff) 32"
  have s: "a0 * b0 mod ?W + t1 mod ?W * ?W < 2 ^ 64" using mW [of t1] mW [of "a0 * b0"] by simp
  have v1: "unat v1 = a0 * b0 mod ?W + t1 mod ?W * ?W"
    unfolding v1_def using s add [of "w0 AND 0xffffffff" "shl (w1 AND 0xffffffff) 32"]
    by (simp only: unat_low32 unat_low32_high w0 w1)
  define w2 where "w2 = shr v1 32 + shr b 32 * (a AND 0xffffffff)"
  have m2: "unat (shr b 32 * (a AND 0xffffffff)) = b1 * a0"
    using p mul [of "shr b 32" "a AND 0xffffffff"] by (simp add: unat_low32 unat_shr b1_def a0_def)
  have v1d: "unat v1 div ?W = t1 mod ?W" "unat v1 mod ?W = a0 * b0 mod ?W" unfolding v1 by simp_all
  have w2: "unat w2 = t2"
    unfolding w2_def using small(3) add [of "shr v1 32" "shr b 32 * (a AND 0xffffffff)"] by (simp only: m2 v1d unat_shr t2_def)
  define v2 where "v2 = (v1 AND 0xffffffff) + shl (w2 AND 0xffffffff) 32"
  have v2: "unat v2 = x"
    unfolding v2_def using small(4) add [of "v1 AND 0xffffffff" "shl (w2 AND 0xffffffff) 32"]
    by (simp only: unat_low32 unat_low32_high v1d w2 x_def)
  define z where "z = shr w1 32 + shr w2 32 + shr a 32 * shr b 32"
  have m3: "unat (shr a 32 * shr b 32) = a1 * b1"
    using prod [OF less(3,4)] mul [of "shr a 32" "shr b 32"] by (simp add: unat_shr a1_def b1_def)
  have "unat (shr w1 32 + shr w2 32) = t1 div ?W + t2 div ?W"
    using y add [of "shr w1 32" "shr w2 32"] by (simp add: unat_shr w1 w2 y_def)
  then have "unat z = y"
    unfolding z_def using y add [of "shr w1 32 + shr w2 32" "shr a 32 * shr b 32"] by (simp add: m3 y_def)
  then have "dval \<lparr>lo = v2, hi = z\<rparr> = unat a * unat b" using xy by (simp add: dval_def v2)
  moreover have "DubbleMul a b = \<lparr>lo = v2, hi = z\<rparr>"
    unfolding DubbleMul_def Let_def w0_def [symmetric] w1_def [symmetric] v1_def [symmetric] w2_def [symmetric] v2_def [symmetric]
      z_def [symmetric] ..
  ultimately show ?thesis by simp
qed

subsection \<open>Signed products and quotients\<close>

lemma shr_63: "shr (x :: u64) 63 = of_bool (bit x 63)"
proof (rule bit_word_eqI)
  fix n
  show "bit (shr x 63) n = bit (of_bool (bit x 63) :: u64) n"
    using bit_imp_le_length [of x "63 + n"] by (cases "n = 0") (auto simp: bit_drop_bit_eq bit_of_bool_word)
qed

lemma sign_bit: "shr (x :: u64) 63 = of_bool (sint x < 0)"
proof -
  have "bit x 63 \<longleftrightarrow> sint x < 0"
    using msb_iff_half [of x] sint_cases [of x] uint_lt2p [of x] uint_ge_0 [of x] by simp
  moreover have "shr x 63 = of_bool (bit x 63)" by (rule shr_63)
  ultimately show ?thesis by simp
qed

lemma sign_bit_dw: "shr (hi d) 63 = of_bool (sint (dw d) < 0)"
proof -
  have "bit (dw d) 127 \<longleftrightarrow> sint (dw d) < 0"
    using msb_iff_half [of "dw d"] sint_cases [of "dw d"] uint_lt2p [of "dw d"] uint_ge_0 [of "dw d"] by simp
  then have "bit (hi d) 63 \<longleftrightarrow> sint (dw d) < 0" by (simp add: bit_dw)
  moreover have "shr (hi d) 63 = of_bool (bit (hi d) 63)" by (rule shr_63)
  ultimately show ?thesis by simp
qed

lemma uint_magnitude:
  fixes x :: "'a::len word"
  shows "uint (if sint x < 0 then - x else x) = \<bar>sint x\<bar>"
proof (cases "sint x < 0")
  case True
  then have s: "sint x = uint x - 2 ^ LENGTH('a)" and "0 < uint x"
    using sint_cases [of x] by (auto split: if_splits intro: less_le_trans [of _ "2 ^ (LENGTH('a) - Suc 0)"])
  then have "uint (- x) = 2 ^ LENGTH('a) - uint x"
    by (simp add: uint_word_ariths zmod_zminus1_eq_if)
  moreover have "\<bar>sint x\<bar> = - sint x" using True by (rule abs_of_neg)
  moreover have "2 ^ LENGTH('a) - uint x = - sint x" using s by simp
  ultimately show ?thesis by (simp only: True if_True)
next
  case False
  then have "sint x = uint x" using sint_cases [of x] uint_lt2p [of x] by (auto split: if_splits)
  then show ?thesis using False by simp
qed

lemma unat_magnitude: "unat (if sint x < 0 then - x else x) = nat \<bar>sint x\<bar>"
  using uint_magnitude [of x] by (simp only: unat_eq_nat_uint)

lemma magnitude_le: "\<bar>sint (x :: 'a::len word)\<bar> \<le> 2 ^ (LENGTH('a) - 1)"
  using sint_greater_eq [of x] sint_less [of x] by simp

lemma sint_of_int: 
  assumes "- (2 ^ (LENGTH('a) - 1)) \<le> k" "k < 2 ^ (LENGTH('a) - 1)"
  shows "sint (word_of_int k :: 'a::len word) = k"
  using assms by (simp add: signed_of_int signed_take_bit_int_eq_self)

lemma DubbleImul_correct: "dw (DubbleImul a b) = word_of_int (sint a * sint b)"
proof -
  let ?a = "if sint a < 0 then - a else a" and ?b = "if sint b < 0 then - b else b"
  have "word_of_nat (unat ?a * unat ?b) = (word_of_int (\<bar>sint a\<bar> * \<bar>sint b\<bar>) :: 128 word)"
    unfolding unat_magnitude by (simp add: nat_mult_distrib [symmetric] abs_mult [symmetric])
  then have p: "dw (DubbleMul ?a ?b) = word_of_int (\<bar>sint a\<bar> * \<bar>sint b\<bar>)"
    by (simp only: dw_of_nat dval_Mul)
  have "DubbleImul a b = (if (sint a < 0) \<noteq> (sint b < 0) then DubbleNeg (DubbleMul ?a ?b) else DubbleMul ?a ?b)"
    unfolding DubbleImul_def Let_def sign_bit by (cases "sint a < 0"; cases "sint b < 0") simp_all
  then show ?thesis using p by (auto simp: dw_Neg abs_if split: if_splits)
qed

text \<open>The multiplication flags: whether the product is the sign extension of its low half.\<close>

lemma fits_low: "(hi d + shr (lo d) 63 \<noteq> 0) \<longleftrightarrow> sint (dw d) \<noteq> sint (lo d)"
proof -
  have "dw d = scast (lo d) \<longleftrightarrow> hi d = - of_bool (bit (lo d) 63)"
  proof
    assume e: "dw d = scast (lo d)"
    show "hi d = - of_bool (bit (lo d) 63)"
    proof (rule bit_word_eqI)
      fix i assume "i < LENGTH(64)"
      then show "bit (hi d) i = bit (- of_bool (bit (lo d) 63) :: u64) i"
        using bit_dw [of d "64 + i"] by (simp add: e bit_signed_iff min_def)
    qed
  next
    assume h: "hi d = - of_bool (bit (lo d) 63)"
    show "dw d = scast (lo d)"
    proof (rule bit_word_eqI)
      fix n assume "n < LENGTH(128)"
      then consider "n < 63" | "n = 63" | "64 \<le> n \<and> n < 128" by fastforce
      then show "bit (dw d) n = bit (scast (lo d) :: 128 word) n"
        by cases (auto simp: bit_dw h bit_signed_iff)
    qed
  qed
  moreover have "sint (scast (lo d) :: 128 word) = sint (lo d)" by (rule sint_up_scast) (simp add: is_up)
  then have "sint (dw d) = sint (lo d) \<longleftrightarrow> dw d = scast (lo d)" by (metis signed_word_eqI)
  ultimately show ?thesis unfolding shr_63 by (auto simp: add_eq_0_iff2)
qed

lemma sint_sign:
  assumes "0 \<le> k" "k < 2 ^ (LENGTH('a) - 1)"
  shows "sint (word_of_int ((if c then - 1 else 1) * k) :: 'a::len word) = (if c then - 1 else 1) * k"
  by (rule sint_of_int) (use assms in \<open>cases c; simp\<close>)+

lemma sint_eqI: "sint v = sint w \<Longrightarrow> v = w"
  by (rule signed_word_eqI)

lemma Idiv_parts:
  assumes "DubbleDiv (if sint (dw a) < 0 then DubbleNeg a else a) (if sint b < 0 then - b else b) = (q, r)"
  shows "DubbleIdiv a b =
    (if (sint (dw a) < 0) \<noteq> (sint b < 0) then DubbleNeg q else q, if sint (dw a) < 0 then - r else r)"
  unfolding DubbleIdiv_def Let_def sign_bit_dw sign_bit [of b] of_bool_xor of_bool_eq_0_iff not_not assms split_conv ..

lemma DubbleIdiv_correct:
  assumes "b \<noteq> 0" "\<not> (lo a = 0 \<and> hi a = 0x8000000000000000)" "DubbleIdiv a b = (q, r)"
  shows "sint (dw q) = sint (dw a) sdiv sint b \<and> sint r = sint (dw a) smod sint b"
proof -
  let ?x = "sint (dw a)" and ?y = "sint b"
  let ?a = "if ?x < 0 then DubbleNeg a else a" and ?b = "if ?y < 0 then - b else b"
  obtain q' r' where d: "DubbleDiv ?a ?b = (q', r')" by (rule prod.exhaust)
  have qr: "q = (if (?x < 0) \<noteq> (?y < 0) then DubbleNeg q' else q')" "r = (if ?x < 0 then - r' else r')"
    by (rule Pair_inject [OF trans [OF sym [OF assms(3)] Idiv_parts [OF d]]], assumption)+
  have "dw ?a = (if ?x < 0 then - dw a else dw a)" unfolding if_distrib [of dw] dw_Neg ..
  then have va: "dval ?a = nat \<bar>?x\<bar>" unfolding dval_dw by (simp only: unat_magnitude)
  have vb: "unat ?b = nat \<bar>?y\<bar>" by (rule unat_magnitude)
  have y0: "?y \<noteq> 0" using assms(1) signed_word_eqI [of b 0] by auto
  then have b0: "?b \<noteq> 0" using assms(1) by (simp only: neg_equal_0_iff_equal split: if_split) blast
  have "?x \<noteq> - (2 ^ 127)"
  proof
    assume "?x = - (2 ^ 127)"
    moreover have "sint (word_of_int (- (2 ^ 127)) :: 128 word) = - (2 ^ 127)" by (rule sint_of_int) simp_all
    ultimately have "dw a = word_of_int (- (2 ^ 127))" by (intro sint_eqI) (simp only:)
    also have "\<dots> = dw \<lparr>lo = 0, hi = 0x8000000000000000\<rparr>" unfolding dw_of_nat dval_def by simp
    finally have "a = \<lparr>lo = 0, hi = 0x8000000000000000\<rparr>" by (metis dval_dw dval_inject)
    then show False using assms(2) by simp
  qed
  then have x: "\<bar>?x\<bar> < 2 ^ 127" using sint_greater_eq [of "dw a"] sint_less [of "dw a"] by (simp add: abs_if)
  have y: "\<bar>?y\<bar> \<le> 2 ^ 63" using magnitude_le [of b] by simp
  have "dval ?a < 2 ^ 127" unfolding va using x by (simp add: nat_less_iff)
  from DubbleDiv_exact [OF b0 disjI1 [OF this] d]
  have q': "dval q' = nat (\<bar>?x\<bar> div \<bar>?y\<bar>)" and r': "unat r' = nat (\<bar>?x\<bar> mod \<bar>?y\<bar>)"
    unfolding va vb by (simp_all add: nat_div_distrib nat_mod_distrib)
  have y1: "1 \<le> \<bar>?y\<bar>" "0 < \<bar>?y\<bar>" using y0 by linarith+
  have "\<bar>?x\<bar> div \<bar>?y\<bar> \<le> \<bar>?x\<bar>" using zdiv_mono2 [of "\<bar>?x\<bar>" 1 "\<bar>?y\<bar>"] y1 by simp
  then have qa: "0 \<le> \<bar>?x\<bar> div \<bar>?y\<bar>" "\<bar>?x\<bar> div \<bar>?y\<bar> < 2 ^ 127"
    using x y1 pos_imp_zdiv_nonneg_iff [of "\<bar>?y\<bar>" "\<bar>?x\<bar>"] by linarith+
  have ra: "0 \<le> \<bar>?x\<bar> mod \<bar>?y\<bar>" "\<bar>?x\<bar> mod \<bar>?y\<bar> < 2 ^ 63"
    using y y1 pos_mod_bound [of "\<bar>?y\<bar>" "\<bar>?x\<bar>"] pos_mod_sign [of "\<bar>?y\<bar>" "\<bar>?x\<bar>"] by linarith+
  have "dw q' = word_of_int (\<bar>?x\<bar> div \<bar>?y\<bar>)" 
    unfolding dw_of_nat [of q'] q' by (rule of_nat_nat [OF qa(1)])
  then have "dw q = word_of_int ((if (?x < 0) \<noteq> (?y < 0) then - 1 else 1) * (\<bar>?x\<bar> div \<bar>?y\<bar>))"
    unfolding qr by (simp add: dw_Neg)
  moreover have "r' = word_of_int (\<bar>?x\<bar> mod \<bar>?y\<bar>)"
  proof (rule word_unat_eq_iff [THEN iffD2])
    have "unat (word_of_int (\<bar>?x\<bar> mod \<bar>?y\<bar>) :: u64) = unat (word_of_nat (unat r') :: u64)"
      unfolding r' by (simp only: of_nat_nat [OF ra(1)])
    then show "unat r' = unat (word_of_int (\<bar>?x\<bar> mod \<bar>?y\<bar>) :: u64)" by simp
  qed
  then have "r = word_of_int ((if ?x < 0 then - 1 else 1) * (\<bar>?x\<bar> mod \<bar>?y\<bar>))" unfolding qr by simp
  ultimately have "sint (dw q) = (if (?x < 0) \<noteq> (?y < 0) then - 1 else 1) * (\<bar>?x\<bar> div \<bar>?y\<bar>)"
      "sint r = (if ?x < 0 then - 1 else 1) * (\<bar>?x\<bar> mod \<bar>?y\<bar>)"
    by (simp_all only:) (rule sint_sign; use qa ra in simp)+
  then show ?thesis
    using y0 by (auto simp: signed_divide_int_def signed_modulo_int_def sgn_if)
qed

end
