(* ===== verification/Bus.thy ===== *)
theory Bus
  imports Rde Endian
begin

text \<open>
  Loads, stores and operand accesses (\<open>bus.c\<close>): reading and writing a register or a memory operand
  of the size the encoding names.
\<close>

section \<open>Loads and stores\<close>

text \<open>
  With one thread the atomic accesses of \<open>bus.c\<close> are plain little-endian accesses: whether the pointer is aligned
  only chooses how the host performs them. The narrower loads return an extended value.
\<close>

definition Load8 :: "ram \<Rightarrow> nat \<Rightarrow> u64" where
  "Load8 s p = ucast (Get8 s p)"

definition Load16 :: "ram \<Rightarrow> nat \<Rightarrow> u64" where
  "Load16 s p = ucast (Get16 s p)"

definition Load32 :: "ram \<Rightarrow> nat \<Rightarrow> u64" where
  "Load32 s p = ucast (Get32 s p)"

definition Load64 :: "ram \<Rightarrow> nat \<Rightarrow> u64" where
  "Load64 s p = Get64 s p"

definition Load64Unlocked :: "ram \<Rightarrow> nat \<Rightarrow> u64" where
  "Load64Unlocked s p = Get64 s p"

definition Store8 :: "nat \<Rightarrow> u64 \<Rightarrow> ram \<Rightarrow> ram" where
  "Store8 p x = Put8 p (ucast x)"

definition Store16 :: "nat \<Rightarrow> u64 \<Rightarrow> ram \<Rightarrow> ram" where
  "Store16 p x = Put16 p (ucast x)"

definition Store32 :: "nat \<Rightarrow> u64 \<Rightarrow> ram \<Rightarrow> ram" where
  "Store32 p x = Put32 p (ucast x)"

definition Store64 :: "nat \<Rightarrow> u64 \<Rightarrow> ram \<Rightarrow> ram" where
  "Store64 p x = Put64 p x"

definition Store64Unlocked :: "nat \<Rightarrow> u64 \<Rightarrow> ram \<Rightarrow> ram" where
  "Store64Unlocked p x = Put64 p x"

section \<open>Operands of the size the encoding names\<close>

definition ReadRegister :: "u64 \<Rightarrow> ram \<Rightarrow> nat \<Rightarrow> u64" where
  "ReadRegister rde s p =
     (if Rexw rde \<noteq> 0 then Get64 s p
      else if Osz rde = 0 then ucast (Get32 s p)
      else ucast (Get16 s p))"

definition ReadRegisterSigned :: "u64 \<Rightarrow> ram \<Rightarrow> nat \<Rightarrow> u64" where
  "ReadRegisterSigned rde s p =
     (if Rexw rde \<noteq> 0 then Get64 s p
      else if Osz rde = 0 then scast (Get32 s p)
      else scast (Get16 s p))"

definition WriteRegister :: "u64 \<Rightarrow> nat \<Rightarrow> u64 \<Rightarrow> ram \<Rightarrow> ram" where
  "WriteRegister rde p x =
     (if Rexw rde \<noteq> 0 then Put64 p x
      else if Osz rde = 0 then Put64 p (x AND 0xffffffff)
      else Put16 p (ucast x))"

definition ReadMemory :: "u64 \<Rightarrow> ram \<Rightarrow> nat \<Rightarrow> u64" where
  "ReadMemory rde s p =
     (if Rexw rde \<noteq> 0 then Load64 s p
      else if Osz rde = 0 then Load32 s p
      else Load16 s p)"

definition ReadMemoryUnlocked :: "u64 \<Rightarrow> ram \<Rightarrow> nat \<Rightarrow> u64" where
  "ReadMemoryUnlocked rde s p =
     (if Rexw rde \<noteq> 0 then Load64Unlocked s p
      else if Osz rde = 0 then Load32 s p
      else Load16 s p)"

definition ReadMemorySigned :: "u64 \<Rightarrow> ram \<Rightarrow> nat \<Rightarrow> u64" where
  "ReadMemorySigned rde s p =
     (if Rexw rde \<noteq> 0 then Load64 s p
      else if Osz rde = 0 then scast (to_u32 (Load32 s p))
      else scast (to_u16 (Load16 s p)))"

definition WriteMemory :: "u64 \<Rightarrow> nat \<Rightarrow> u64 \<Rightarrow> ram \<Rightarrow> ram" where
  "WriteMemory rde p x =
     (if Rexw rde \<noteq> 0 then Store64 p x
      else if Osz rde = 0 then Store32 p x
      else Store16 p x)"

definition WriteRegisterOrMemory :: "u64 \<Rightarrow> nat \<Rightarrow> u64 \<Rightarrow> ram \<Rightarrow> ram" where
  "WriteRegisterOrMemory rde p x =
     (if IsModrmRegister rde then WriteRegister rde p x else WriteMemory rde p x)"

definition WriteRegisterBW :: "u64 \<Rightarrow> nat \<Rightarrow> u64 \<Rightarrow> ram \<Rightarrow> ram" where
  "WriteRegisterBW rde p x =
     (if RegLog2 rde = 3 then Put64 p x
      else if RegLog2 rde = 2 then Put64 p (x AND 0xffffffff)
      else if RegLog2 rde = 0 then Put8 p (ucast x)
      else Put16 p (ucast x))"

definition ReadRegisterBW :: "u64 \<Rightarrow> ram \<Rightarrow> nat \<Rightarrow> u64" where
  "ReadRegisterBW rde s p =
     (if RegLog2 rde = 3 then Get64 s p
      else if RegLog2 rde = 2 then ucast (Get32 s p)
      else if RegLog2 rde = 0 then ucast (Get8 s p)
      else ucast (Get16 s p))"

definition ReadMemoryBW :: "u64 \<Rightarrow> ram \<Rightarrow> nat \<Rightarrow> u64" where
  "ReadMemoryBW rde s p =
     (if RegLog2 rde = 3 then Load64 s p
      else if RegLog2 rde = 2 then Load32 s p
      else if RegLog2 rde = 0 then Load8 s p
      else Load16 s p)"

definition WriteMemoryBW :: "u64 \<Rightarrow> nat \<Rightarrow> u64 \<Rightarrow> ram \<Rightarrow> ram" where
  "WriteMemoryBW rde p x =
     (if RegLog2 rde = 3 then Store64 p x
      else if RegLog2 rde = 2 then Store32 p x
      else if RegLog2 rde = 0 then Store8 p x
      else Store16 p x)"

definition WriteRegisterOrMemoryBW :: "u64 \<Rightarrow> nat \<Rightarrow> u64 \<Rightarrow> ram \<Rightarrow> ram" where
  "WriteRegisterOrMemoryBW rde p x =
     (if IsModrmRegister rde then WriteRegisterBW rde p x else WriteMemoryBW rde p x)"

definition ReadRegisterOrMemoryBW :: "u64 \<Rightarrow> ram \<Rightarrow> nat \<Rightarrow> u64" where
  "ReadRegisterOrMemoryBW rde s p =
     (if IsModrmRegister rde then ReadRegisterBW rde s p else ReadMemoryBW rde s p)"

lemma bit_and_ffffffff: "bit (x AND 0xffffffff :: u64) i \<longleftrightarrow> i < 32 \<and> bit x i"
proof -
  have m: "(0xffffffff :: u64) = mask 32" by (simp add: mask_numeral)
  show ?thesis unfolding m by (auto simp: bit_and_iff bit_mask_iff)
qed

lemma Get64_Put8: "Get64 (Put8 p b s) p = (Get64 s p AND NOT (mask 8)) OR ucast b"
proof (rule bit_word_eqI)
  fix i assume i: "i < LENGTH(64)"
  show "bit (Get64 (Put8 p b s) p) i = bit ((Get64 s p AND NOT (mask 8)) OR ucast b) i"
  proof (cases "i < 8")
    case True
    then show ?thesis by (simp add: bit_Get64 Put8_def bit_or_iff bit_and_iff bit_not_iff bit_mask_iff bit_unsigned_iff)
  next
    case False
    then have "\<not> bit b i" using bit_imp_le_length [of b i] by auto
    then show ?thesis using False i
      by (simp add: bit_Get64 Put8_def bit_or_iff bit_and_iff bit_not_iff bit_mask_iff bit_unsigned_iff div_eq_0_iff)
  qed
qed

lemma Get64_Put16: "Get64 (Put16 p b s) p = (Get64 s p AND NOT (mask 16)) OR ucast b"
proof (rule bit_word_eqI)
  fix i assume i: "i < LENGTH(64)"
  show "bit (Get64 (Put16 p b s) p) i = bit ((Get64 s p AND NOT (mask 16)) OR ucast b) i"
  proof (cases "i < 16")
    case True
    then show ?thesis
      by (simp add: bit_Get64 Put_byte less_mult_imp_div_less bit_drop_bit_eq bit_or_iff bit_and_iff bit_not_iff bit_mask_iff bit_unsigned_iff)
  next
    case False
    then have "\<not> bit b i" using bit_imp_le_length [of b i] by auto
    moreover have "p + 2 \<le> p + i div 8" using False by auto
    ultimately show ?thesis using False i
      by (simp add: bit_Get64 Put_frame bit_or_iff bit_and_iff bit_not_iff bit_mask_iff bit_unsigned_iff)
  qed
qed

lemma Get32_Put64: "Get32 (Put64 p v s) p = ucast v"
  by (rule bit_word_eqI)
    (simp add: bit_Get32 Put_byte less_mult_imp_div_less bit_drop_bit_eq bit_unsigned_iff)

lemma take_bit_ucast_back: "LENGTH('a) \<le> 64 \<Longrightarrow> to_u64 (ucast x :: 'a::len word) = take_bit LENGTH('a) x"
  by (rule bit_word_eqI) (auto simp: bit_unsigned_iff bit_take_bit_iff)

text \<open>C18: Partial register writes: a 64-bit write replaces the register, a 32-bit write clears
  the upper half, a 16-bit and an 8-bit write keep the other bits of the register; a write to
  memory changes only the bytes of the operand; and reading back gives the written
  value at the operand's size, for registers and for memory.\<close>

theorem operand_write_read:
  "Get64 (WriteRegisterBW rde p x s) p =
     (if RegLog2 rde = 3 then x
      else if RegLog2 rde = 2 then take_bit 32 x
      else if RegLog2 rde = 0 then (Get64 s p AND NOT (mask 8)) OR take_bit 8 x
      else (Get64 s p AND NOT (mask 16)) OR take_bit 16 x) \<and>
   (let n = if RegLog2 rde = 3 then 8 else if RegLog2 rde = 2 then 4 else if RegLog2 rde = 0 then 1 else 2 in
      ReadRegisterOrMemoryBW rde (WriteRegisterOrMemoryBW rde p x s) p = take_bit (8 * n) x \<and>
      (\<lambda>a. if p \<le> a \<and> a < p + n then 0 else WriteMemoryBW rde p x s a) =
      (\<lambda>a. if p \<le> a \<and> a < p + n then 0 else s a))"
proof -
  have "(x AND 0xffffffff) = take_bit 32 x" for x :: u64
    by (rule bit_word_eqI) (simp add: bit_and_ffffffff bit_take_bit_iff)
  note w = this take_bit_ucast_back [where 'a = 32, simplified] take_bit_ucast_back [where 'a = 16, simplified] take_bit_ucast_back [where 'a = 8, simplified]
  have 1: "Get64 (WriteRegisterBW rde p x s) p =
     (if RegLog2 rde = 3 then x
      else if RegLog2 rde = 2 then take_bit 32 x
      else if RegLog2 rde = 0 then (Get64 s p AND NOT (mask 8)) OR take_bit 8 x
      else (Get64 s p AND NOT (mask 16)) OR take_bit 16 x)"
    by (simp add: WriteRegisterBW_def Get_Put Get64_Put8 Get64_Put16 w)
  have 2: "ReadRegisterOrMemoryBW rde (WriteRegisterOrMemoryBW rde p x s) p =
     take_bit (8 * (if RegLog2 rde = 3 then 8 else if RegLog2 rde = 2 then 4 else if RegLog2 rde = 0 then 1 else 2)) x"
    by (simp add: ReadRegisterOrMemoryBW_def WriteRegisterOrMemoryBW_def ReadRegisterBW_def WriteRegisterBW_def
        ReadMemoryBW_def WriteMemoryBW_def Load8_def Load16_def Load32_def Load64_def Store8_def Store16_def Store32_def
        Store64_def Get_Put Get32_Put64 w take_bit_word_eq_self) (simp add: Get8_def Put8_def w)
  have 3: "p \<le> a \<and> a < p + n \<or> WriteMemoryBW rde p x s a = s a"
    if "n = (if RegLog2 rde = 3 then 8 else if RegLog2 rde = 2 then 4 else if RegLog2 rde = 0 then 1 else 2)" for a n
    unfolding WriteMemoryBW_def Store8_def Store16_def Store32_def Store64_def that
    by (auto simp: Put8_def Put16_def Put32_def Put64_def)
  show ?thesis
    unfolding Let_def
  proof (intro conjI 1 2 ext)
    fix a
    let ?n = "if RegLog2 rde = 3 then 8 else if RegLog2 rde = 2 then 4 else if RegLog2 rde = 0 then 1 else 2"
    show "(if p \<le> a \<and> a < p + ?n then 0 else WriteMemoryBW rde p x s a) = (if p \<le> a \<and> a < p + ?n then 0 else s a)"
      using 3 [OF refl, of a] by presburger
  qed
qed

end
