(* ===== verification/Machine.thy ===== *)
theory Machine
  imports Bus Flags X86
begin

text \<open>
  The machine (\<open>machine.h\<close>, \<open>modrm.h\<close>, \<open>breg.c\<close>, \<open>throw.c\<close>): its state, pointers into it, the outcomes
  of an operation, sequencing, the register operands an encoding names, and the traps.
\<close>

section \<open>Outcomes\<close>

text \<open>
  An operation returns, halts the machine with a trap code (\<open>HaltMachine\<close> does not return), fails an assertion,
  exits the process, or does not end. The machine it leaves is part of every outcome.
\<close>

text \<open>The values of \<open>errno\<close> that the modelled code sets, by name: their numbers are the host's. \<open>EHOST\<close> stands for what a
  call to the host leaves.\<close>

datatype host_errno = EOK | EFAULT | EINVAL | ENOMEM | EBADF | EEXIST | EACCES | ENOTSUP | EOVERFLOW | EAGAIN | ENOBUFS
  | EINTR | EPERM | ESRCH | ENOSYS | EMFILE | ENOENT | EHOST

datatype 'a outcome = Return 'a | Trap int | Abort | Exit | Diverge


text \<open>
  The parts of \<open>struct Machine\<close>, \<open>struct OpCache\<close>, \<open>struct System\<close> and the allocator's static state that the modelled code
  uses. The register file \<open>m_beg\<close> is one array of 128 bytes, the vector registers one of 256;
  \<open>m_stash\<close> is the buffer of an access across pages, \<open>m_local\<close> the buffers of the caller of \<open>Load\<close>
  and \<open>BeginStore\<close>, \<open>m_icache\<close> the cache of decoded instructions, the pointer \<open>xedd\<close> an index into it, the
  fields \<open>f_\<close> those of \<open>struct MachineFpu\<close>, \<open>h_ram\<close> the memory of the host, and \<open>h_allocs\<close> the addresses the host's
  allocator will return, zero or the end of the list standing for failure; \<open>h_clock\<close> holds the times its clock will
  return, in seconds and nanoseconds, and \<open>h_random\<close> the words its random source will give.
\<close>

text \<open>
  A file mapped into the guest, an open file of the guest, and what the guest does about a signal. Of \<open>struct Fd\<close> the
  model keeps the descriptor, the flags it was opened with, the browser's type and handle, the kind of socket, whether its calls
  restart, and the path.
\<close>

record FileMap =
  fm_virt :: u64
  fm_size :: u64
  fm_pages :: u64
  fm_offset :: u64
  fm_path :: string
  fm_present :: "u64 list"

record Fd =
  fd_fildes :: int
  fd_oflags :: int
  fd_atua_type :: int
  fd_atua_host_handle :: int
  fd_socktype :: int
  fd_norestart :: bool
  fd_path :: "string option"

record sigaction_linux =
  sa_handler :: u64
  sa_flags :: u64
  sa_restorer :: u64
  sa_mask :: u64

text \<open>
  The machine. \<open>h_reads\<close> holds what the host's \<open>pread\<close> will return, and \<open>h_rcs\<close> the results of its calls that return
  a status.
\<close>

record Machine =
  m_ip :: u64
  m_oplen :: nat
  m_omode :: nat
  m_genmode :: nat
  m_flags :: u32
  m_stashaddr :: u64
  m_beg :: ram
  m_xmm :: ram
  m_readaddr :: u64
  m_writeaddr :: u64
  m_readsize :: nat
  m_writesize :: nat
  m_seg_sel :: "nat \<Rightarrow> u16"
  m_seg_base :: "nat \<Rightarrow> u64"
  m_mxcsr :: u32
  m_freelist :: "nat list"
  m_pagelocks :: "(u64 \<times> nat \<times> int) list"
  m_faultaddr :: u64
  m_sysdepth :: int
  m_invalidated :: bool
  m_reserving :: bool
  m_insyscall :: bool
  m_nofault :: bool
  m_metal :: bool
  m_traprdtsc :: bool
  m_trapcpuid :: bool
  m_trapno :: int
  m_segvcode :: int
  m_tlb :: "nat \<Rightarrow> u64 \<times> u64"
  m_stash :: ram
  m_codevirt :: u64
  m_codehost :: nat
  m_stashsize :: nat
  m_writable :: bool
  m_local :: ram
  m_icache :: "nat \<Rightarrow> XedDecodedInst"
  m_xedd :: nat
  m_opinvalidated :: bool
  m_bofram :: "u64 \<times> u64"
  m_signals :: u64
  m_sigmask :: u64
  m_sigdepth :: int
  m_attention :: bool
  m_killed :: bool
  m_restored :: bool
  m_interrupted :: bool
  m_issigsuspend :: bool
  m_sigaltstack :: ram
  m_robust_list :: u64
  m_ctid :: u64
  m_tid :: int
  m_vfork_exec_pending :: bool
  m_vfork_child_pid :: int
  m_vfork_saved_ip :: u64
  m_vfork_saved_regs :: ram
  f_st :: ram
  f_sw :: u32
  f_tw :: u32
  f_op :: u32
  f_ip :: u64
  f_cw :: u32
  f_dp :: u64
  s_real :: nat
  s_gdt_base :: u64
  s_gdt_limit :: u16
  s_cr0 :: u64
  s_cr3 :: u64
  s_rss :: int
  s_vss :: int
  s_tables :: int
  s_reserved :: int
  s_committed :: int
  s_memchurn :: int
  s_filemaps :: "FileMap list"
  s_fds :: "Fd list"
  s_brk :: u64
  s_automap :: u64
  s_brkchanged :: bool
  s_iscosmo :: bool
  s_hands :: "nat \<Rightarrow> sigaction_linux"
  s_rlim :: "nat \<Rightarrow> u64 \<times> u64"
  s_pid :: int
  s_blinksigs :: u64
  g_hostpages_n :: nat
  g_hostpages_p :: "nat \<Rightarrow> nat"
  g_allocator_pages :: "nat list"
  g_pagepool_base :: nat
  g_pagepool_capacity :: nat
  g_pagepool_next_page :: nat
  g_crc32c :: "bool \<times> u32 list"
  g_rdrand_state :: u64
  g_rdrand_count :: u32
  g_errno :: host_errno
  g_nextPidCounter :: int
  h_allocs :: "nat list"
  h_reads :: "u8 list list"
  h_rcs :: "int list"
  h_clock :: "(u64 \<times> u64) list"
  h_random :: "u64 list"
  h_ram :: ram

type_synonym 'a exec = "Machine \<Rightarrow> 'a outcome \<times> Machine"

named_theorems exec_simps "running operations"

type_synonym nexgen32e_f = "u64 \<Rightarrow> u64 \<Rightarrow> u64 \<Rightarrow> unit exec"

definition ret :: "'a \<Rightarrow> 'a exec" where
  "ret a m = (Return a, m)"

fun seq :: "'a exec \<Rightarrow> ('a \<Rightarrow> 'b exec) \<Rightarrow> 'b exec" where
  "seq f g m = (case f m of
     (Return a, m) \<Rightarrow> g a m
   | (Trap c, m) \<Rightarrow> (Trap c, m)
   | (Abort, m) \<Rightarrow> (Abort, m)
   | (Exit, m) \<Rightarrow> (Exit, m)
   | (Diverge, m) \<Rightarrow> (Diverge, m))"

abbreviation thn :: "unit exec \<Rightarrow> 'b exec \<Rightarrow> 'b exec" where
  "thn f g \<equiv> seq f (\<lambda>_. g)"

definition gets :: "(Machine \<Rightarrow> 'a) \<Rightarrow> 'a exec" where
  "gets f m = (Return (f m), m)"

definition modify :: "(Machine \<Rightarrow> Machine) \<Rightarrow> unit exec" where
  "modify f m = (Return (), f m)"

definition diverge :: "'a exec" where
  "diverge m = (Diverge, m)"

definition leave :: "'a exec" where
  "leave m = (Exit, m)"

definition unassert :: "bool \<Rightarrow> unit exec" where
  "unassert b m = (if b then Return () else Abort, m)"

declare ret_def [exec_simps] gets_def [exec_simps] modify_def [exec_simps] diverge_def [exec_simps]
  leave_def [exec_simps] unassert_def [exec_simps]

lemma seq_ret [simp]: "seq (ret a) f = f a" "seq g ret = g"
  by (intro ext; simp add: ret_def split: outcome.splits prod.splits)+

lemma seq_assoc: "seq (seq f g) h = seq f (\<lambda>a. seq (g a) h)"
  by (intro ext) (simp split: outcome.splits prod.splits)

lemma seq_gets: "seq (gets f) g m = g (f m) m"
  by (simp add: gets_def)

lemma seq_modify: "seq (modify f) g m = g () (f m)"
  by (simp add: modify_def)

lemma seq_unassert: "seq (unassert b) g m = (if b then g () m else (Abort, m))"
  by (simp add: unassert_def)

lemmas seq_steps [exec_simps] = seq_gets seq_modify seq_unassert

lemma seq_if: "seq (if b then f else g) h = (if b then seq f h else seq g h)"
  by simp

section \<open>Pointers\<close>

text \<open>A C pointer is a place in one of the machine's arrays or in the memory of the host.\<close>

datatype ptr = Beg nat | Xmm nat | Stash nat | Local nat | Host nat

fun region :: "ptr \<Rightarrow> Machine \<Rightarrow> ram" where
  "region (Beg i) m = m_beg m"
| "region (Xmm i) m = m_xmm m"
| "region (Stash i) m = m_stash m"
| "region (Local i) m = m_local m"
| "region (Host i) m = h_ram m"

fun offset :: "ptr \<Rightarrow> nat" where
  "offset (Beg i) = i"
| "offset (Xmm i) = i"
| "offset (Stash i) = i"
| "offset (Local i) = i"
| "offset (Host i) = i"

fun at :: "ptr \<Rightarrow> nat \<Rightarrow> ptr" where
  "at (Beg i) k = Beg (i + k)"
| "at (Xmm i) k = Xmm (i + k)"
| "at (Stash i) k = Stash (i + k)"
| "at (Local i) k = Local (i + k)"
| "at (Host i) k = Host (i + k)"

fun update_region :: "ptr \<Rightarrow> (ram \<Rightarrow> ram) \<Rightarrow> Machine \<Rightarrow> Machine" where
  "update_region (Beg i) f m = m\<lparr>m_beg := f (m_beg m)\<rparr>"
| "update_region (Xmm i) f m = m\<lparr>m_xmm := f (m_xmm m)\<rparr>"
| "update_region (Stash i) f m = m\<lparr>m_stash := f (m_stash m)\<rparr>"
| "update_region (Local i) f m = m\<lparr>m_local := f (m_local m)\<rparr>"
| "update_region (Host i) f m = m\<lparr>h_ram := f (h_ram m)\<rparr>"

definition rd :: "(ram \<Rightarrow> nat \<Rightarrow> 'a) \<Rightarrow> ptr \<Rightarrow> 'a exec" where
  "rd f p = gets (\<lambda>m. f (region p m) (offset p))"

definition wr :: "(nat \<Rightarrow> 'a \<Rightarrow> ram \<Rightarrow> ram) \<Rightarrow> ptr \<Rightarrow> 'a \<Rightarrow> unit exec" where
  "wr f p x = modify (update_region p (f (offset p) x))"

definition copy_bytes :: "ptr \<Rightarrow> ptr \<Rightarrow> nat \<Rightarrow> unit exec" where
  "copy_bytes p q n = modify (\<lambda>m. update_region p
     (\<lambda>s i. if offset p \<le> i \<and> i < offset p + n then region q m (offset q + (i - offset p)) else s i) m)"

text \<open>Setting a flag, and replacing the flag word.\<close>

definition set_flag :: "nat \<Rightarrow> bool \<Rightarrow> unit exec" where
  "set_flag f b = modify (\<lambda>m. m\<lparr>m_flags := SetFlag (m_flags m) f b\<rparr>)"

definition put_flags :: "u32 \<Rightarrow> unit exec" where
  "put_flags f = modify (m_flags_update (\<lambda>_. f))"

section \<open>Registers\<close>

abbreviation AX :: ptr where "AX \<equiv> Beg 0"
abbreviation AH :: ptr where "AH \<equiv> Beg 1"
abbreviation CX :: ptr where "CX \<equiv> Beg 8"
abbreviation DX :: ptr where "DX \<equiv> Beg 16"
abbreviation BX :: ptr where "BX \<equiv> Beg 24"
abbreviation SP :: ptr where "SP \<equiv> Beg 32"
abbreviation BP :: ptr where "BP \<equiv> Beg 40"
abbreviation SI :: ptr where "SI \<equiv> Beg 48"
abbreviation DI :: ptr where "DI \<equiv> Beg 56"

definition kByteReg :: "nat list" where
  "kByteReg = [0, 8, 16, 24, 1, 9, 17, 25, 0, 8, 16, 24, 1, 9, 17, 25,
               0, 8, 16, 24, 32, 40, 48, 56, 64, 72, 80, 88, 96, 104, 112, 120]"

definition weg :: "nat \<Rightarrow> ptr" where "weg i = Beg (8 * i)"
definition RegRexbSrm :: "u64 \<Rightarrow> ptr" where "RegRexbSrm x = weg (RexbSrm x)"
definition AddrByteReg :: "nat \<Rightarrow> ptr" where "AddrByteReg k = Beg (kByteReg ! k)"
definition ByteRexrReg :: "u64 \<Rightarrow> ptr" where "ByteRexrReg x = AddrByteReg (RexRexr x)"
definition ByteRexbRm :: "u64 \<Rightarrow> ptr" where "ByteRexbRm x = AddrByteReg (RexRexb x)"
definition ByteRexbSrm :: "u64 \<Rightarrow> ptr" where "ByteRexbSrm x = AddrByteReg (RexRexbSrm x)"
definition RegSrm :: "u64 \<Rightarrow> ptr" where "RegSrm x = weg (Srm x)"
definition RegVreg :: "u64 \<Rightarrow> ptr" where "RegVreg x = weg (Vreg x)"
definition RegRexbRm :: "u64 \<Rightarrow> ptr" where "RegRexbRm x = weg (RexbRm x)"
definition RegRexrReg :: "u64 \<Rightarrow> ptr" where "RegRexrReg x = weg (RexrReg x)"
definition RegRexbBase :: "u64 \<Rightarrow> ptr" where "RegRexbBase x = weg (RexbBase x)"
definition RegRexxIndex :: "u64 \<Rightarrow> ptr" where "RegRexxIndex x = weg (push_bit 3 (Rexx x) OR SibIndex x)"
definition MmRm :: "u64 \<Rightarrow> ptr" where "MmRm x = Xmm (16 * ModrmRm x)"
definition MmReg :: "u64 \<Rightarrow> ptr" where "MmReg x = Xmm (16 * ModrmReg x)"
definition XmmRexbRm :: "u64 \<Rightarrow> ptr" where "XmmRexbRm x = Xmm (16 * RexbRm x)"
definition XmmRexrReg :: "u64 \<Rightarrow> ptr" where "XmmRexrReg x = Xmm (16 * RexrReg x)"

abbreviation (input) SREG_ES :: nat where "SREG_ES \<equiv> 0"
abbreviation (input) SREG_CS :: nat where "SREG_CS \<equiv> 1"
abbreviation (input) SREG_SS :: nat where "SREG_SS \<equiv> 2"
abbreviation (input) SREG_DS :: nat where "SREG_DS \<equiv> 3"

section \<open>Traps\<close>

abbreviation (input) kMachineHalt :: int where "kMachineHalt \<equiv> -1"
abbreviation (input) kMachineDecodeError :: int where "kMachineDecodeError \<equiv> -2"
abbreviation (input) kMachineUndefinedInstruction :: int where "kMachineUndefinedInstruction \<equiv> -3"
abbreviation (input) kMachineSegmentationFault :: int where "kMachineSegmentationFault \<equiv> -4"
abbreviation (input) kMachineDivideError :: int where "kMachineDivideError \<equiv> -6"
abbreviation (input) kMachineFpuException :: int where "kMachineFpuException \<equiv> -7"
abbreviation (input) kMachineProtectionFault :: int where "kMachineProtectionFault \<equiv> -8"
abbreviation (input) kMachineSimdException :: int where "kMachineSimdException \<equiv> -9"
abbreviation (input) kMachineExitTrap :: int where "kMachineExitTrap \<equiv> -10"

definition RestoreIp :: "Machine \<Rightarrow> Machine" where
  "RestoreIp m = m\<lparr>m_ip := m_ip m - word_of_nat (m_oplen m), m_oplen := 0\<rparr>"

text \<open>What \<open>HaltMachine\<close> does to the machine; delivering the signal to the guest is not modelled.\<close>

definition HaltMachine :: "int \<Rightarrow> 'a exec" where
  "HaltMachine code m =
     (let m = m\<lparr>m_trapno := code\<rparr> in
      if code \<in> {kMachineDivideError, kMachineFpuException, kMachineSimdException, kMachineHalt, kMachineDecodeError,
                 kMachineUndefinedInstruction, kMachineProtectionFault}
      then let m = RestoreIp m in (Trap code, m\<lparr>m_faultaddr := m_ip m\<rparr>)
      else if code = kMachineSegmentationFault \<or> code = kMachineExitTrap then (Trap code, RestoreIp m)
      else if code = 1 \<or> code = 3 then (Trap code, m\<lparr>m_faultaddr := m_ip m - word_of_nat (m_oplen m)\<rparr>)
      else if code = 4 then (Trap code, m\<lparr>m_faultaddr := 0\<rparr>)
      else if code \<ge> 0 then
        (Trap code, if \<not> m_metal m then (RestoreIp m)\<lparr>m_faultaddr := 0\<rparr> else m)
      else (Abort, m))"

definition RaiseDivideError :: "'a exec" where
  "RaiseDivideError = HaltMachine kMachineDivideError"

definition ThrowProtectionFault :: "'a exec" where
  "ThrowProtectionFault = HaltMachine kMachineProtectionFault"

definition ThrowSegmentationFault :: "u64 \<Rightarrow> 'a exec" where
  "ThrowSegmentationFault va =
     thn (modify RestoreIp) (thn (modify (m_faultaddr_update (\<lambda>_. va))) (HaltMachine kMachineSegmentationFault))"

definition OpUdImpl :: "'a exec" where
  "OpUdImpl = thn (modify RestoreIp) (HaltMachine kMachineUndefinedInstruction)"

definition OpUd :: "u64 \<Rightarrow> u64 \<Rightarrow> u64 \<Rightarrow> unit exec" where
  "OpUd rde disp uimm0 = OpUdImpl"

definition Cpl :: "Machine \<Rightarrow> nat" where
  "Cpl m = (if \<not> m_metal m then 3
            else if m_genmode m \<noteq> 0 then unat (m_seg_sel m SREG_CS AND 3)
            else 0)"

definition OpHlt :: "u64 \<Rightarrow> u64 \<Rightarrow> u64 \<Rightarrow> unit exec" where
  "OpHlt rde disp uimm0 =
     seq (gets (\<lambda>m. Cpl m = 0 \<and> GetFlag (m_flags m) FLAGS_IF)) (\<lambda>b.
     if b then ret () else HaltMachine kMachineHalt)"

end
