(* ===== verification/Paging.thy ===== *)
theory Paging
  imports Machine
begin

text \<open>
  Physical pages and address translation (\<open>memory.c\<close>, \<open>memorymalloc.c\<close>, \<open>pte32.c\<close>), without linear mapping
  and with one thread: the page pool, host pages, faulting in reserved pages, page locks, the
  translation buffer and the page table walk.
\<close>

section \<open>Page table entries\<close>

abbreviation (input) PAGE_V :: u64 where "PAGE_V \<equiv> 0x0000000000000001"
abbreviation (input) PAGE_RW :: u64 where "PAGE_RW \<equiv> 0x0000000000000002"
abbreviation (input) PAGE_U :: u64 where "PAGE_U \<equiv> 0x0000000000000004"
abbreviation (input) PAGE_PS :: u64 where "PAGE_PS \<equiv> 0x0000000000000080"
abbreviation (input) PAGE_RSRV :: u64 where "PAGE_RSRV \<equiv> 0x0000000000000200"
abbreviation (input) PAGE_HOST :: u64 where "PAGE_HOST \<equiv> 0x0000000000000400"
abbreviation (input) PAGE_MAP :: u64 where "PAGE_MAP \<equiv> 0x0000000000000800"
abbreviation (input) PAGE_TA :: u64 where "PAGE_TA \<equiv> 0x0000fffffffff000"
abbreviation (input) PAGE_GROW :: u64 where "PAGE_GROW \<equiv> 0x0010000000000000"
abbreviation (input) PAGE_MUG :: u64 where "PAGE_MUG \<equiv> 0x0020000000000000"
abbreviation (input) PAGE_FILE :: u64 where "PAGE_FILE \<equiv> 0x0040000000000000"
abbreviation (input) PAGE_LOCK :: u64 where "PAGE_LOCK \<equiv> 0x0080000000000000"
abbreviation (input) PAGE_LOCKS :: u64 where "PAGE_LOCKS \<equiv> 0x7f80000000000000"
abbreviation (input) PAGE_XD :: u64 where "PAGE_XD \<equiv> 0x8000000000000000"

abbreviation (input) SEGV_MAPERR :: int where "SEGV_MAPERR \<equiv> 1"
abbreviation (input) SEGV_ACCERR :: int where "SEGV_ACCERR \<equiv> 2"

abbreviation (input) kRealSize :: nat where "kRealSize \<equiv> 16777216"
abbreviation (input) kBiosOptBase :: nat where "kBiosOptBase \<equiv> 0xC0000"
abbreviation (input) kBiosEnd :: nat where "kBiosEnd \<equiv> 0x100000"

definition LoadPte :: "nat \<Rightarrow> u64 exec" where
  "LoadPte pte = rd Get64 (Host pte)"

definition StorePte :: "nat \<Rightarrow> u64 \<Rightarrow> unit exec" where
  "StorePte pte val = wr Put64 (Host pte) val"

definition CasPte :: "nat \<Rightarrow> u64 \<Rightarrow> u64 \<Rightarrow> bool exec" where
  "CasPte pte oldval newval =
     seq (rd Get64 (Host pte)) (\<lambda>e.
     if e = oldval then thn (wr Put64 (Host pte) newval) (ret True) else ret False)"

section \<open>The page pool\<close>

text \<open>\<open>aligned_alloc\<close> is the host's: it returns the next of the given addresses, zero for failure.\<close>

definition aligned_alloc :: "nat exec" where
  "aligned_alloc m =
     (case h_allocs m of
        [] \<Rightarrow> (Return 0, m)
      | a # as \<Rightarrow> (Return a, m\<lparr>h_allocs := as\<rparr>))"

definition fill_bytes :: "nat \<Rightarrow> u8 \<Rightarrow> nat \<Rightarrow> unit exec" where
  "fill_bytes p c n = modify (h_ram_update (\<lambda>s i. if p \<le> i \<and> i < p + n then c else s i))"

definition InitPagePool :: "nat \<Rightarrow> unit exec" where
  "InitPagePool num_pages =
     thn (modify (g_pagepool_capacity_update (\<lambda>_. num_pages * 4096)))
     (seq aligned_alloc (\<lambda>base.
      thn (modify (g_pagepool_base_update (\<lambda>_. base)))
      (if base = 0 then leave
       else thn (fill_bytes base 0 (num_pages * 4096)) (modify (g_pagepool_next_page_update (\<lambda>_. 0))))))"

definition move_into :: "nat \<Rightarrow> nat \<Rightarrow> nat \<Rightarrow> nat \<Rightarrow> nat" where
  "move_into old_base old_cap new_base p =
     (if old_base \<le> p \<and> p - old_base < old_cap then new_base + (p - old_base) else p)"

text \<open>The old pool is freed: its bytes stay in \<open>h_ram\<close>, but belong to nobody.\<close>

definition GrowPagePool :: "nat \<Rightarrow> unit exec" where
  "GrowPagePool new_num_pages =
     (let new_cap = new_num_pages * 4096 in
      seq aligned_alloc (\<lambda>new_base.
      if new_base = 0 then leave
      else
        thn (fill_bytes new_base 0 new_cap)
        (seq (gets (\<lambda>m. (g_pagepool_base m, g_pagepool_capacity m, g_pagepool_next_page m))) (\<lambda>(old_base, old_cap, next_page).
         thn (copy_bytes (Host new_base) (Host old_base) (next_page * 4096))
         (modify (\<lambda>m. m\<lparr>
           g_hostpages_p := (\<lambda>i. if i < g_hostpages_n m then move_into old_base old_cap new_base (g_hostpages_p m i)
                                 else g_hostpages_p m i),
           g_allocator_pages := map (move_into old_base old_cap new_base) (g_allocator_pages m),
           g_pagepool_base := new_base,
           g_pagepool_capacity := new_cap\<rparr>))))))"

text \<open>
  The loop that grows the pool until \<open>count\<close> pages fit; the first argument bounds the rounds. A pool of at
  least one page doubles, so as many rounds as pages are wanted are enough; an empty pool loops forever.
\<close>

fun grow_until :: "nat \<Rightarrow> nat \<Rightarrow> unit exec" where
  "grow_until n count =
     seq (gets (\<lambda>m. (g_pagepool_next_page m + count) * 4096 > g_pagepool_capacity m)) (\<lambda>more.
     if \<not> more then ret ()
     else case n of
       0 \<Rightarrow> diverge
     | Suc n \<Rightarrow> thn (seq (gets (\<lambda>m. g_pagepool_capacity m div 4096 * 2)) GrowPagePool) (grow_until n count))"

definition AllocPoolPages :: "nat \<Rightarrow> nat exec" where
  "AllocPoolPages count =
     thn (seq (gets (\<lambda>m. g_pagepool_next_page m + count)) (\<lambda>n. grow_until n count))
     (seq (gets (\<lambda>m. g_pagepool_base m + g_pagepool_next_page m * 4096)) (\<lambda>base.
      thn (modify (\<lambda>m. m\<lparr>g_pagepool_next_page := g_pagepool_next_page m + count\<rparr>)) (ret base)))"

definition AllocPoolPage :: "nat exec" where
  "AllocPoolPage =
     thn (seq (gets (\<lambda>m. g_pagepool_next_page m * 4096 \<ge> g_pagepool_capacity m)) (\<lambda>full.
       if full then seq (gets (\<lambda>m. g_pagepool_capacity m div 4096 * 2)) GrowPagePool else ret ()))
     (seq (gets (\<lambda>m. g_pagepool_base m + g_pagepool_next_page m * 4096)) (\<lambda>page.
      thn (modify (\<lambda>m. m\<lparr>g_pagepool_next_page := g_pagepool_next_page m + 1\<rparr>)) (ret page)))"

definition IsPoolPage :: "Machine \<Rightarrow> nat \<Rightarrow> bool" where
  "IsPoolPage m p = (p \<ge> g_pagepool_base m \<and> p < g_pagepool_base m + g_pagepool_capacity m)"

section \<open>Host pages\<close>

definition FindHostPage :: "u64 \<Rightarrow> Machine \<Rightarrow> nat" where
  "FindHostPage entry m = g_hostpages_p m (unat (shr (entry AND PAGE_TA) 12))"

definition TrackHostPage :: "nat \<Rightarrow> u64 exec" where
  "TrackHostPage ptr =
     seq (gets g_hostpages_n) (\<lambda>entry.
     thn (modify (\<lambda>m. m\<lparr>g_hostpages_n := entry + 1, g_hostpages_p := (g_hostpages_p m)(entry := ptr)\<rparr>))
     (ret (shl (word_of_nat entry) 12)))"

definition FreeAnonymousPage :: "nat \<Rightarrow> unit exec" where
  "FreeAnonymousPage page = modify (\<lambda>m. m\<lparr>g_allocator_pages := page # g_allocator_pages m\<rparr>)"

definition AllocateAnonymousPage :: "u64 exec" where
  "AllocateAnonymousPage =
     seq (seq (gets g_allocator_pages) (\<lambda>pages.
       case pages of
         h # rest \<Rightarrow> thn (modify (g_allocator_pages_update (\<lambda>_. rest))) (ret h)
       | [] \<Rightarrow>
           seq (AllocPoolPages 64) (\<lambda>page.
           thn (modify (\<lambda>m. m\<lparr>g_allocator_pages := fold (\<lambda>i ps. (page + i * 4096) # ps) (rev [1..<64]) (g_allocator_pages m)\<rparr>))
           (ret page)))) (\<lambda>page.
     thn (modify (\<lambda>m. m\<lparr>s_rss := s_rss m + 1\<rparr>))
     (seq (TrackHostPage page) (\<lambda>i.
      thn (unassert (i AND NOT PAGE_TA = 0))
      (ret (i OR PAGE_HOST OR PAGE_U OR PAGE_RW OR PAGE_V)))))"

section \<open>Address translation\<close>

definition SetReadAddr :: "u64 \<Rightarrow> nat \<Rightarrow> unit exec" where
  "SetReadAddr addr size' =
     (if size' \<noteq> 0 then modify (\<lambda>m. m\<lparr>m_readaddr := addr, m_readsize := size'\<rparr>) else ret ())"

definition SetWriteAddr :: "u64 \<Rightarrow> nat \<Rightarrow> unit exec" where
  "SetWriteAddr addr size' =
     (if size' \<noteq> 0 then modify (\<lambda>m. m\<lparr>m_writeaddr := addr, m_writesize := size'\<rparr>) else ret ())"

text \<open>Zero is the null pointer.\<close>

definition GetPageAddress :: "u64 \<Rightarrow> bool \<Rightarrow> nat exec" where
  "GetPageAddress entry is_cr3 =
     thn (unassert (is_cr3 \<or> entry AND PAGE_V \<noteq> 0))
     (thn (unassert (NOT entry AND PAGE_RSRV \<noteq> 0))
     (if entry AND PAGE_HOST \<noteq> 0 then gets (FindHostPage entry)
      else
        seq (gets s_real) (\<lambda>real.
        thn (unassert (real \<noteq> 0))
        (if unat (entry AND PAGE_TA) + 4096 \<le> kRealSize then ret (real + unat (entry AND PAGE_TA)) else ret 0))))"

text \<open>
  The loop of \<open>HandlePageFault\<close>. A failed exchange is retried with the entry in memory. Three rounds are enough: the second
  exchange compares what was just loaded, unless growing the pool for a fresh page moved memory in
  between, and then the third finds the page that the second put back.
\<close>

fun fault_loop :: "nat \<Rightarrow> nat \<Rightarrow> u64 \<Rightarrow> u64 exec" where
  "fault_loop 0 pslot entry = diverge"
| "fault_loop (Suc n) pslot entry =
     seq
      (if entry AND (PAGE_HOST OR PAGE_MAP OR PAGE_MUG) \<noteq> 0 then
         thn (unassert (entry AND (PAGE_HOST OR PAGE_MAP) = (PAGE_HOST OR PAGE_MAP)))
         (let x = entry AND NOT PAGE_RSRV in
          seq (CasPte pslot entry x) (\<lambda>ok.
          if ok then
            thn (modify (\<lambda>m. m\<lparr>s_committed := s_committed m + 1, s_reserved := s_reserved m - 1, s_rss := s_rss m + 1\<rparr>))
            (ret x)
          else LoadPte pslot))
       else
         seq AllocateAnonymousPage (\<lambda>page.
         if page = - 1 then thn (modify (m_segvcode_update (\<lambda>_. SEGV_MAPERR))) (ret 0)
         else
           let x = (page AND (PAGE_TA OR PAGE_HOST)) OR (entry AND NOT (PAGE_TA OR PAGE_RSRV)) in
           seq (CasPte pslot entry x) (\<lambda>ok.
           if ok then
             thn (modify (\<lambda>m. m\<lparr>s_committed := s_committed m + 1, s_reserved := s_reserved m - 1\<rparr>)) (ret x)
           else
             thn (FreeAnonymousPage (unat (page AND PAGE_TA)))
             (seq (LoadPte pslot) (\<lambda>entry.
              thn (modify (\<lambda>m. m\<lparr>s_rss := s_rss m - 1\<rparr>)) (ret entry))))))
      (\<lambda>entry. if entry AND PAGE_RSRV \<noteq> 0 then fault_loop n pslot entry else ret entry)"

definition HandlePageFault :: "nat \<Rightarrow> u64 \<Rightarrow> u64 exec" where
  "HandlePageFault pslot entry =
     thn (unassert (entry AND PAGE_RSRV \<noteq> 0))
     (seq (gets m_nofault) (\<lambda>nofault.
      if nofault then thn (modify (\<lambda>m. m\<lparr>m_segvcode := SEGV_MAPERR, g_errno := ENOBUFS\<rparr>)) (ret 0)
      else fault_loop 3 pslot entry))"

definition HasPageLock :: "u64 \<Rightarrow> Machine \<Rightarrow> bool" where
  "HasPageLock page m = list_ex (\<lambda>(p, _, _). p = page) (m_pagelocks m)"

text \<open>Growing the array of page locks succeeds.\<close>

definition RecordPageLock :: "u64 \<Rightarrow> nat \<Rightarrow> bool exec" where
  "RecordPageLock page pslot =
     thn (seq (gets m_sysdepth) (\<lambda>d. unassert (d > 0)))
     (thn (seq (gets (\<lambda>m. case m_pagelocks m of [] \<Rightarrow> True | (_, _, d) # _ \<Rightarrow> d \<le> m_sysdepth m)) unassert)
     (thn (modify (\<lambda>m. m\<lparr>m_pagelocks := (page, pslot, m_sysdepth m) # m_pagelocks m\<rparr>)) (ret True)))"

definition ResetTlb :: "Machine \<Rightarrow> Machine" where
  "ResetTlb m = m\<lparr>m_tlb := (\<lambda>_. (0, 0)), m_codevirt := 0, m_codehost := 0\<rparr>"

text \<open>
  The walk through the four levels of the page table: the slot of the last entry and the entry, or \<open>None\<close>
  for the jump to \<open>MapError\<close>.
\<close>

fun walk_levels :: "u64 \<Rightarrow> nat list \<Rightarrow> u64 \<Rightarrow> nat \<Rightarrow> (nat \<times> u64) option exec" where
  "walk_levels page [] table pslot = ret (Some (pslot, table))"
| "walk_levels page (level # levels) table _ =
     seq (GetPageAddress table (level = 39)) (\<lambda>p.
     let pslot = p + unat (shr page level AND 511) * 8 in
     if pslot = 0 then ret None
     else
       seq (LoadPte pslot) (\<lambda>entry.
       if entry AND PAGE_V = 0 then ret None
       else
         seq (gets m_metal) (\<lambda>metal.
         let entry = (if metal then entry AND NOT (PAGE_RSRV OR PAGE_HOST OR PAGE_MAP OR PAGE_GROW OR PAGE_MUG OR PAGE_FILE)
                      else entry) in
         if entry AND PAGE_PS \<noteq> 0 \<and> level > 12 then
           let submask = shl 1 level - 4096 in
           ret (Some (pslot, (entry AND NOT submask) OR (page AND submask)))
         else walk_levels page levels entry pslot)))"

text \<open>
  A failed exchange while locking a page goes back to the walk; the page fault has been handled by then, so the walk
  finds the same entry, the exchange fails again, and so on: it does not end.
\<close>

definition LockPage :: "u64 \<Rightarrow> nat \<Rightarrow> u64 \<Rightarrow> u64 exec" where
  "LockPage page pslot entry =
     seq (gets (\<lambda>m. m_insyscall m \<and> \<not> m_nofault m \<and> \<not> HasPageLock page m)) (\<lambda>lock.
     if lock then
       if entry AND PAGE_LOCKS < PAGE_LOCKS then
         seq (CasPte pslot entry (entry + PAGE_LOCK)) (\<lambda>ok.
         if ok then
           thn (seq (LoadPte pslot) (\<lambda>e. unassert (e AND PAGE_LOCKS \<noteq> 0)))
           (thn (seq (RecordPageLock page pslot) (\<lambda>_. ret ()))
           (ret (entry + PAGE_LOCK)))
         else diverge)
       else thn (modify (\<lambda>m. m\<lparr>m_segvcode := SEGV_MAPERR, g_errno := EAGAIN\<rparr>)) (ret 0)
     else ret entry)"

definition MapError :: "u64 exec" where
  "MapError = thn (modify (\<lambda>m. m\<lparr>m_segvcode := SEGV_MAPERR, g_errno := EFAULT\<rparr>)) (ret 0)"

definition FindPageTableEntry :: "u64 \<Rightarrow> u64 exec" where
  "FindPageTableEntry page =
     thn (modify (\<lambda>m. if m_invalidated m then (ResetTlb m)\<lparr>m_invalidated := False\<rparr> else m))
     (let tlbkey = unat (shr page 12 AND 31) in
      seq (gets (\<lambda>m. m_tlb m tlbkey)) (\<lambda>(tpage, tentry).
      if tpage = page \<and> tentry AND PAGE_V \<noteq> 0 then ret tentry
      else
        thn (unassert (page AND 4095 = 0))
        (if \<not> (- 0x800000000000 \<le> sint page \<and> sint page < 0x800000000000) then MapError
         else
           seq (gets s_cr3) (\<lambda>cr3.
           thn (unassert (cr3 \<noteq> 0))
           (seq (walk_levels page [39, 30, 21, 12] cr3 0) (\<lambda>w.
            case w of
              None \<Rightarrow> MapError
            | Some (pslot, entry) \<Rightarrow>
                seq (if entry AND PAGE_RSRV \<noteq> 0 then HandlePageFault pslot entry else ret entry) (\<lambda>entry'.
                if entry AND PAGE_RSRV \<noteq> 0 \<and> entry' = 0 then ret 0
                else
                  seq (LockPage page pslot entry') (\<lambda>entry.
                  if entry = 0 then ret 0
                  else thn (modify (\<lambda>m. m\<lparr>m_tlb := (m_tlb m)(tlbkey := (page, entry))\<rparr>)) (ret entry)))))))))"

end
