(* ===== verification/Memory.thy ===== *)
theory Memory
  imports Paging
begin

text \<open>
  Guest memory (\<open>memory.c\<close>): looking up addresses with their protection, copying between guest and host,
  and the accesses that may cross a page.
\<close>

section \<open>Releasing page locks\<close>

text \<open>With one thread the exchange of \<open>ReleasePageLock\<close> succeeds at once.\<close>

definition ReleasePageLock :: "nat \<Rightarrow> unit exec" where
  "ReleasePageLock pslot =
     seq (LoadPte pslot) (\<lambda>entry.
     thn (unassert (entry AND PAGE_V \<noteq> 0))
     (thn (unassert (entry AND PAGE_LOCKS \<noteq> 0))
     (seq (CasPte pslot entry (entry - PAGE_LOCK)) (\<lambda>_. ret ()))))"

definition HasOutdatedPageLocks :: "Machine \<Rightarrow> bool" where
  "HasOutdatedPageLocks m = (case m_pagelocks m of [] \<Rightarrow> False | (_, _, d) # _ \<Rightarrow> d > m_sysdepth m)"

fun release_locks :: "(u64 \<times> nat \<times> int) list \<Rightarrow> unit exec" where
  "release_locks [] = ret ()"
| "release_locks ((page, pslot, d) # rest) =
     seq (gets HasOutdatedPageLocks) (\<lambda>b.
     if b then
       thn (modify (m_pagelocks_update (\<lambda>_. rest)))
       (thn (ReleasePageLock pslot) (release_locks rest))
     else ret ())"

definition CollectPageLocks :: "unit exec" where
  "CollectPageLocks = seq (gets m_pagelocks) release_locks"

section \<open>Lookup\<close>

definition IsRomAddress :: "nat \<Rightarrow> Machine \<Rightarrow> bool" where
  "IsRomAddress r m = (m_metal m \<and> s_real m + kBiosOptBase \<le> r \<and> r < s_real m + kBiosEnd)"

definition page_offset :: "u64 \<Rightarrow> nat" where
  "page_offset v = unat (v AND 4095)"

definition efault :: "int \<Rightarrow> nat exec" where
  "efault code = thn (modify (\<lambda>m. m\<lparr>m_segvcode := code, g_errno := EFAULT\<rparr>)) (ret 0)"

definition LookupAddress2 :: "u64 \<Rightarrow> u64 \<Rightarrow> u64 \<Rightarrow> nat exec" where
  "LookupAddress2 virt mask' need =
     seq (gets (\<lambda>m. \<not> m_metal m \<or> m_omode m = 2 \<or> (m_genmode m \<noteq> 0 \<and> s_cr0 m AND 0x80000000 \<noteq> 0))) (\<lambda>paged.
     if paged then
       seq (FindPageTableEntry (virt AND - 4096)) (\<lambda>entry.
       if entry = 0 then ret 0
       else if entry AND mask' \<noteq> need then efault SEGV_ACCERR
       else
         seq (GetPageAddress entry False) (\<lambda>host.
         if host \<noteq> 0 then ret (host + page_offset virt) else efault SEGV_MAPERR))
     else if 0 \<le> sint virt \<and> sint virt \<le> 0xffffffff \<and> unat (virt AND 0xffffffff) + 4095 < kRealSize then
       seq (gets s_real) (\<lambda>real. thn (unassert (real \<noteq> 0)) (ret (real + unat virt)))
     else efault SEGV_MAPERR)"

definition LookupAddress :: "u64 \<Rightarrow> nat exec" where
  "LookupAddress virt =
     seq (gets (\<lambda>m. if Cpl m = 3 then PAGE_U else 0)) (\<lambda>need. LookupAddress2 virt need need)"

definition GetAddress :: "u64 \<Rightarrow> nat exec" where
  "GetAddress v = LookupAddress v"

definition SpyAddress :: "u64 \<Rightarrow> nat exec" where
  "SpyAddress virt = LookupAddress2 virt 0 0"

definition ResolveAddress :: "u64 \<Rightarrow> nat exec" where
  "ResolveAddress v =
     seq (GetAddress v) (\<lambda>r. if r \<noteq> 0 then ret r else ThrowSegmentationFault v)"

text \<open>Sizes and protections are the C integers; the end of the range must not overflow 64 bits.\<close>

fun valid_pages :: "nat \<Rightarrow> int \<Rightarrow> int \<Rightarrow> u64 \<Rightarrow> u64 \<Rightarrow> bool exec" where
  "valid_pages 0 p pe mask' need = ret True"
| "valid_pages (Suc n) p pe mask' need =
     (if p < pe then
        seq (FindPageTableEntry (word_of_int p)) (\<lambda>pte.
        if pte = 0 then ret False
        else if pte AND mask' \<noteq> need then thn (modify (g_errno_update (\<lambda>_. EFAULT))) (ret False)
        else valid_pages n (p + 4096) pe mask' need)
      else ret True)"

definition IsValidMemory :: "u64 \<Rightarrow> int \<Rightarrow> u32 \<Rightarrow> bool exec" where
  "IsValidMemory virt size' prot =
     (let size' = size' + sint (virt AND 4095); virt = sint (virt AND - 4096) in
      thn (seq (gets m_omode) (\<lambda>mode. unassert (mode = 2)))
      (thn (unassert (prot \<noteq> 0 \<and> prot AND NOT 7 = 0))
      (let mask' = (if prot AND 1 \<noteq> 0 then PAGE_U else 0) OR (if prot AND 2 \<noteq> 0 then PAGE_RW else 0);
           need = mask';
           mask' = mask' OR (if prot AND 4 \<noteq> 0 then PAGE_XD else 0);
           pe = virt + size'
       in if pe \<ge> 0x8000000000000000 \<or> pe < - 0x8000000000000000 then thn (modify (g_errno_update (\<lambda>_. EOVERFLOW))) (ret False)
          else valid_pages (nat ((pe - virt + 4095) div 4096)) virt pe mask' need)))"

section \<open>Copying between the guest and the host\<close>

lemma page_offset_less [simp]: "page_offset v < 4096"
proof -
  have "v AND 4095 = take_bit 12 v" by (simp add: take_bit_eq_mask mask_numeral)
  then have "page_offset v = take_bit 12 (unat v)"
    unfolding page_offset_def by (simp only: unsigned_take_bit_eq)
  then show ?thesis using take_bit_nat_less_exp [of 12 "unat v"] by simp
qed

text \<open>After the first chunk the address is the start of a page, so the chunk size can be computed from it.\<close>

function VirtualCopy :: "u64 \<Rightarrow> ptr \<Rightarrow> nat \<Rightarrow> bool \<Rightarrow> bool exec" where
  "VirtualCopy v r n d =
     (if n = 0 then ret True
      else
        let k = min (4096 - page_offset v) n in
        seq (LookupAddress v) (\<lambda>p.
        if p = 0 then ret False
        else
          thn (if d then copy_bytes r (Host p) k
               else seq (gets (IsRomAddress p)) (\<lambda>rom. if \<not> rom then copy_bytes (Host p) r k else ret ()))
          (VirtualCopy (v + word_of_nat k) (at r k) (n - k) d)))"
  by pat_completeness auto

termination
  by (relation "measure (\<lambda>(v, r, n, d). n)") auto

declare VirtualCopy.simps [simp del]

definition CopyFromUser :: "ptr \<Rightarrow> u64 \<Rightarrow> nat \<Rightarrow> bool exec" where
  "CopyFromUser dst src n = VirtualCopy src dst n True"

definition CopyFromUserRead :: "ptr \<Rightarrow> u64 \<Rightarrow> nat \<Rightarrow> bool exec" where
  "CopyFromUserRead dst addr n =
     seq (CopyFromUser dst addr n) (\<lambda>ok. if \<not> ok then ret False else thn (SetReadAddr addr n) (ret True))"

definition CopyToUser :: "u64 \<Rightarrow> ptr \<Rightarrow> nat \<Rightarrow> bool exec" where
  "CopyToUser dst src n = VirtualCopy dst src n False"

definition CopyToUserWrite :: "u64 \<Rightarrow> ptr \<Rightarrow> nat \<Rightarrow> bool exec" where
  "CopyToUserWrite addr src n =
     seq (CopyToUser addr src n) (\<lambda>ok. if \<not> ok then ret False else thn (SetWriteAddr addr n) (ret True))"

section \<open>Accesses that may cross a page\<close>

definition CommitStash :: "unit exec" where
  "CommitStash =
     thn (seq (gets m_stashaddr) (\<lambda>a. unassert (a \<noteq> 0)))
     (thn (seq (gets (\<lambda>m. (m_writable m, m_stashaddr m, m_stashsize m))) (\<lambda>(writable, addr, size').
        if writable then seq (CopyToUser addr (Stash 0) size') (\<lambda>_. ret ()) else ret ()))
     (modify (m_stashaddr_update (\<lambda>_. 0))))"

definition use_stash :: "u64 \<Rightarrow> nat \<Rightarrow> bool \<Rightarrow> unit exec" where
  "use_stash v n writable =
     modify (\<lambda>m. m\<lparr>m_stashaddr := v, m_stashsize := n, m_writable := writable\<rparr>)"

definition ReserveAddress :: "u64 \<Rightarrow> nat \<Rightarrow> bool \<Rightarrow> ptr exec" where
  "ReserveAddress v n writable =
     thn (if writable then SetWriteAddr v n else SetReadAddr v n)
     (thn (modify (m_reserving_update (\<lambda>_. True)))
     (seq (gets (\<lambda>m. if Cpl m = 3 then if \<not> writable then PAGE_U else PAGE_U OR PAGE_RW else 0)) (\<lambda>need.
      if page_offset v + n \<le> 4096 then
        seq (LookupAddress2 v need need) (\<lambda>res.
        if res \<noteq> 0 then
          seq (gets (IsRomAddress res)) (\<lambda>rom.
          if \<not> rom then ret (Host res)
          else thn (use_stash v n writable) (thn (copy_bytes (Stash 0) (Host res) n) (ret (Stash 0))))
        else ThrowSegmentationFault v)
      else
        thn (unassert (n \<le> 4096))
        (thn (use_stash v n writable)
        (let k = 4096 - page_offset v in
         seq (LookupAddress2 v need need) (\<lambda>p1.
         if p1 \<noteq> 0 then
           seq (LookupAddress2 (v + word_of_nat k) need need) (\<lambda>p2.
           if p2 \<noteq> 0 then
             thn (copy_bytes (Stash 0) (Host p1) k)
             (thn (copy_bytes (Stash k) (Host p2) (n - k)) (ret (Stash 0)))
           else ThrowSegmentationFault (v + word_of_nat k))
         else ThrowSegmentationFault v))))))"

text \<open>
  \<open>AccessRam2\<close> returns the pointer to use and the pair of places to which \<open>EndStore\<close> will copy; the pair is only
  set for an access across pages.
\<close>

definition AccessRam2 :: "u64 \<Rightarrow> nat \<Rightarrow> ptr \<Rightarrow> bool \<Rightarrow> bool \<Rightarrow> (ptr \<times> nat \<times> nat) exec" where
  "AccessRam2 v n tmp copy protect_rom =
     thn (unassert (n \<le> 4096))
     (if page_offset v + n \<le> 4096 then
        seq (ResolveAddress v) (\<lambda>a.
        seq (gets (IsRomAddress a)) (\<lambda>rom.
        if \<not> protect_rom \<or> \<not> rom then ret (Host a, 0, 0)
        else thn (if copy then copy_bytes tmp (Host a) n else ret ()) (ret (tmp, 0, 0))))
      else
        let k = 4096 - page_offset v in
        seq (ResolveAddress v) (\<lambda>a.
        seq (ResolveAddress (v + word_of_nat k)) (\<lambda>b.
        thn (if copy then thn (copy_bytes tmp (Host a) k) (copy_bytes (at tmp k) (Host b) (n - k)) else ret ())
        (seq (gets (\<lambda>m. (protect_rom \<and> IsRomAddress a m, protect_rom \<and> IsRomAddress b m))) (\<lambda>(ra, rb).
         ret (tmp, if ra then 0 else a, if rb then 0 else b))))))"

definition AccessRam :: "u64 \<Rightarrow> nat \<Rightarrow> ptr \<Rightarrow> bool \<Rightarrow> (ptr \<times> nat \<times> nat) exec" where
  "AccessRam v n tmp d = AccessRam2 v n tmp d (\<not> d)"

definition Load :: "u64 \<Rightarrow> nat \<Rightarrow> ptr \<Rightarrow> ptr exec" where
  "Load v n b = thn (SetReadAddr v n) (seq (AccessRam v n b True) (\<lambda>(p, _). ret p))"

definition BeginStore :: "u64 \<Rightarrow> nat \<Rightarrow> ptr \<Rightarrow> (ptr \<times> nat \<times> nat) exec" where
  "BeginStore v n b = thn (SetWriteAddr v n) (AccessRam v n b False)"

definition BeginStoreNp :: "u64 \<Rightarrow> nat \<Rightarrow> ptr \<Rightarrow> (ptr \<times> nat \<times> nat) option exec" where
  "BeginStoreNp v n b = (if v = 0 then ret None else seq (BeginStore v n b) (\<lambda>p. ret (Some p)))"

definition EndStore :: "u64 \<Rightarrow> nat \<Rightarrow> nat \<times> nat \<Rightarrow> ptr \<Rightarrow> unit exec" where
  "EndStore v n p b =
     thn (unassert (n \<le> 4096))
     (if page_offset v + n \<le> 4096 then ret ()
      else
        let k = 4096 - page_offset v in
        thn (unassert (n > k))
        (thn (if fst p \<noteq> 0 then copy_bytes (Host (fst p)) b k else ret ())
        (if snd p \<noteq> 0 then copy_bytes (Host (snd p)) (at b k) (n - k) else ret ())))"

definition EndStoreNp :: "u64 \<Rightarrow> nat \<Rightarrow> nat \<times> nat \<Rightarrow> ptr \<Rightarrow> unit exec" where
  "EndStoreNp v n p b = (if v \<noteq> 0 then EndStore v n p b else ret ())"

section \<open>Borrowing guest memory\<close>

text \<open>
  \<open>malloc\<close> is the host's and hands out the next of the given addresses. What a system call borrowed is freed when it
  ends.
\<close>

definition malloc :: "nat \<Rightarrow> nat exec" where
  "malloc n = aligned_alloc"

definition AddToFreeList :: "nat \<Rightarrow> nat exec" where
  "AddToFreeList mem = thn (modify (\<lambda>m. m\<lparr>m_freelist := m_freelist m @ [mem]\<rparr>)) (ret mem)"

definition CollectGarbage :: "nat \<Rightarrow> unit exec" where
  "CollectGarbage mark = modify (\<lambda>m. m\<lparr>m_freelist := take mark (m_freelist m)\<rparr>)"

fun schlep_pages :: "nat \<Rightarrow> nat \<Rightarrow> u64 \<Rightarrow> nat \<Rightarrow> nat \<Rightarrow> u64 \<Rightarrow> u64 \<Rightarrow> bool exec" where
  "schlep_pages 0 copy addr have' n mask' need = ret True"
| "schlep_pages (Suc k) copy addr have' n mask' need =
     (if have' < n then
        seq (LookupAddress2 (addr + word_of_nat have') mask' need) (\<lambda>page.
        if page = 0 then ret False
        else
          thn (copy_bytes (Host (copy + have')) (Host page) (min 4096 (n - have')))
          (schlep_pages k copy addr (have' + 4096) n mask' need))
      else ret True)"

definition Schlep :: "u64 \<Rightarrow> nat \<Rightarrow> u64 \<Rightarrow> u64 \<Rightarrow> nat exec" where
  "Schlep addr n mask' need =
     (if n = 0 then ret 0
      else
        seq (LookupAddress2 addr mask' need) (\<lambda>page.
        if page = 0 then ret 0
        else
          let have' = 4096 - page_offset addr in
          if n \<le> have' then ret page
          else
            seq (malloc n) (\<lambda>copy.
            if copy = 0 then ret 0
            else
              thn (copy_bytes (Host copy) (Host page) have')
              (seq (schlep_pages n copy addr have' n mask' need) (\<lambda>ok.
               if \<not> ok then ret 0 else AddToFreeList copy)))))"

definition SchlepR :: "u64 \<Rightarrow> nat \<Rightarrow> nat exec" where
  "SchlepR addr n = thn (SetReadAddr addr n) (Schlep addr n PAGE_U PAGE_U)"

definition SchlepW :: "u64 \<Rightarrow> nat \<Rightarrow> nat exec" where
  "SchlepW addr n = thn (SetWriteAddr addr n) (Schlep addr n PAGE_RW PAGE_RW)"

definition SchlepRW :: "u64 \<Rightarrow> nat \<Rightarrow> nat exec" where
  "SchlepRW addr n =
     thn (SetReadAddr addr n)
     (thn (SetWriteAddr addr n) (Schlep addr n (PAGE_U OR PAGE_RW) (PAGE_U OR PAGE_RW)))"

text \<open>The first zero byte among the \<open>n\<close> at \<open>p\<close>.\<close>

primrec memchr0 :: "ram \<Rightarrow> nat \<Rightarrow> nat \<Rightarrow> nat option" where
  "memchr0 s p 0 = None"
| "memchr0 s p (Suc n) = (if s p = 0 then Some 0 else map_option Suc (memchr0 s (p + 1) n))"

text \<open>
  A string that spans pages is collected page by page, the zero included; the copy of what precedes it has
  been made. The size that is recorded is one more than that of the string, as the code has it. A copy of four gigabytes does not fit a host of 32 bits, so \<open>realloc\<close> has failed when the rounds are used up.
\<close>

fun load_str_pages :: "nat \<Rightarrow> nat \<Rightarrow> u64 \<Rightarrow> nat \<Rightarrow> nat exec" where
  "load_str_pages 0 copy addr have' = ret 0"
| "load_str_pages (Suc k) copy addr have' =
     seq (LookupAddress2 (addr + word_of_nat have') PAGE_U PAGE_U) (\<lambda>page.
     if page = 0 then ret 0
     else
       seq (gets (\<lambda>m. memchr0 (h_ram m) page 4096)) (\<lambda>z.
       case z of
         Some i \<Rightarrow>
           thn (copy_bytes (Host (copy + have')) (Host page) (i + 1))
           (thn (SetReadAddr addr (have' + i + 2))
           (AddToFreeList copy))
       | None \<Rightarrow>
           thn (copy_bytes (Host (copy + have')) (Host page) 4096)
           (seq (malloc (have' + 8192)) (\<lambda>p.
            if p = 0 then ret 0
            else thn (copy_bytes (Host p) (Host copy) (have' + 4096)) (load_str_pages k p addr (have' + 4096))))))"

definition LoadStr :: "u64 \<Rightarrow> nat exec" where
  "LoadStr addr =
     (let have' = 4096 - page_offset addr in
      if addr = 0 then ret 0
      else
        seq (LookupAddress2 addr PAGE_U PAGE_U) (\<lambda>page.
        if page = 0 then ret 0
        else
          seq (gets (\<lambda>m. memchr0 (h_ram m) page have')) (\<lambda>z.
          case z of
            Some i \<Rightarrow> thn (SetReadAddr addr (i + 1)) (ret page)
          | None \<Rightarrow>
              seq (malloc (have' + 4096)) (\<lambda>copy.
              if copy = 0 then ret 0
              else thn (copy_bytes (Host copy) (Host page) have') (load_str_pages 1048576 copy addr have')))))"

text \<open>The length of the string at \<open>p\<close>, which ends before the end of the memory of the host.\<close>

definition strlen :: "ram \<Rightarrow> nat \<Rightarrow> nat" where
  "strlen s p = (case memchr0 s p 4294967296 of None \<Rightarrow> 4294967296 | Some i \<Rightarrow> i)"

definition CopyStr :: "u64 \<Rightarrow> nat exec" where
  "CopyStr addr =
     seq (LoadStr addr) (\<lambda>s.
     if s = 0 then ret 0
     else
       seq (gets (\<lambda>m. strlen (h_ram m) s)) (\<lambda>n.
       seq (malloc (n + 1)) (\<lambda>d.
       thn (if d \<noteq> 0 then copy_bytes (Host d) (Host s) (n + 1) else ret ())
       (AddToFreeList d))))"

text \<open>
  The list of strings, its elements gathered in \<open>list\<close>. The buffer \<open>b\<close> of a failed read keeps the last pointer, so
  the loop then goes on with it, as long as there is memory; the rounds are bounded by the pointers that fit the host.
\<close>

fun copy_str_list :: "nat \<Rightarrow> nat \<Rightarrow> nat list \<Rightarrow> u64 \<Rightarrow> nat list option exec" where
  "copy_str_list 0 n list addr = ret None"
| "copy_str_list (Suc k) n list addr =
     seq (malloc ((n + 1) * 4)) (\<lambda>mem.
     if mem = 0 then ret None
     else
       seq (CopyFromUserRead (Local 0) (addr + word_of_nat (n * 8)) 8) (\<lambda>_.
       seq (rd Get64 (Local 0)) (\<lambda>b.
       if b \<noteq> 0 then
         seq (CopyStr b) (\<lambda>s. if s \<noteq> 0 then copy_str_list k (n + 1) (list @ [s]) addr else ret None)
       else seq (AddToFreeList mem) (\<lambda>_. ret (Some list)))))"

definition CopyStrList :: "u64 \<Rightarrow> nat list option exec" where
  "CopyStrList addr = copy_str_list 1073741824 0 [] addr"

end
