(* ===== verification/Address.thy ===== *)
theory Address
  imports Memory X86
begin

text \<open>
  Addresses and operands (\<open>address.c\<close>, \<open>modrm.c\<close>): segments, effective addresses, and the pointer to the register
  or memory operand an encoding names.
\<close>

section \<open>Segments and effective addresses\<close>

definition MaskAddress :: "nat \<Rightarrow> u64 \<Rightarrow> u64" where
  "MaskAddress mode x =
     (if mode \<noteq> XED_MODE_LONG then
        if mode = XED_MODE_REAL then x AND 0xffff else x AND 0xffffffff
      else x)"

definition GetIp :: "Machine \<Rightarrow> u64" where
  "GetIp m = MaskAddress (m_omode m) (m_ip m)"

definition GetPc :: "Machine \<Rightarrow> u64" where
  "GetPc m = m_seg_base m SREG_CS + GetIp m"

definition AddSegment :: "u64 \<Rightarrow> u64 \<Rightarrow> u64 \<Rightarrow> Machine \<Rightarrow> u64" where
  "AddSegment rde i s m =
     (if Sego rde = 0 then i + s else i + m_seg_base m (Sego rde - 1))"

definition AddressOb :: "u64 \<Rightarrow> u64 \<Rightarrow> u64 \<Rightarrow> Machine \<Rightarrow> u64" where
  "AddressOb rde disp uimm0 m = AddSegment rde disp (m_seg_base m SREG_DS) m"

definition GetSegmentBase :: "nat \<Rightarrow> u64 exec" where
  "GetSegmentBase s = (if s < 6 then gets (\<lambda>m. m_seg_base m s) else OpUdImpl)"

definition DataSegment :: "u64 \<Rightarrow> u64 \<Rightarrow> Machine \<Rightarrow> u64" where
  "DataSegment rde i m = AddSegment rde i (m_seg_base m SREG_DS) m"

abbreviation reg64 :: "nat \<Rightarrow> Machine \<Rightarrow> u64" where "reg64 i m \<equiv> Get64 (m_beg m) (8 * i)"
abbreviation reg32 :: "nat \<Rightarrow> Machine \<Rightarrow> u64" where "reg32 i m \<equiv> ucast (Get32 (m_beg m) (8 * i))"
abbreviation reg16 :: "nat \<Rightarrow> Machine \<Rightarrow> u64" where "reg16 i m \<equiv> ucast (Get16 (m_beg m) (8 * i))"

definition AddressSi :: "u64 \<Rightarrow> u64 \<Rightarrow> u64 \<Rightarrow> Machine \<Rightarrow> u64" where
  "AddressSi rde disp uimm0 m =
     (if Eamode rde = XED_MODE_LONG then DataSegment rde (reg64 6 m) m
      else if Eamode rde = XED_MODE_REAL then DataSegment rde (reg16 6 m) m
      else DataSegment rde (reg32 6 m) m)"

definition AddressDi :: "u64 \<Rightarrow> u64 \<Rightarrow> u64 \<Rightarrow> Machine \<Rightarrow> u64" where
  "AddressDi rde disp uimm0 m =
     (let i = m_seg_base m SREG_ES in
      if Eamode rde = XED_MODE_LONG then i + reg64 7 m
      else if Eamode rde = XED_MODE_REAL then i + reg16 7 m
      else i + reg32 7 m)"

text \<open>The offset and the segment base of a memory operand; an assertion fails for a register operand.\<close>

definition effective_index :: "u64 \<Rightarrow> u64 \<Rightarrow> Machine \<Rightarrow> u64 \<times> u64" where
  "effective_index rde disp m =
     (let i = disp; s = m_seg_base m SREG_DS; ss = m_seg_base m SREG_SS in
      if Eamode rde \<noteq> XED_MODE_REAL then
        let (i, s) =
          (if \<not> SibExists rde then
             if IsRipRelative rde then
               (if Mode rde = XED_MODE_LONG then i + m_ip m else i, s)
             else
               (i + reg64 (RexbRm rde) m, if RexbRm rde = 4 \<or> RexbRm rde = 5 then ss else s)
           else
             let (i, s) =
               (if SibHasBase rde then
                  (i + reg64 (RexbBase rde) m, if RexbBase rde = 4 \<or> RexbBase rde = 5 then ss else s)
                else (i, s))
             in (if SibHasIndex rde
                 then i + shl (reg64 (push_bit 3 (Rexx rde) OR SibIndex rde) m) (SibScale rde) else i, s))
        in (if Eamode rde = XED_MODE_LEGACY then i AND 0xffffffff else i, s)
      else
        let (i, s) =
          (if ModrmRm rde = 0 then (i + reg16 3 m + reg16 6 m, s)
           else if ModrmRm rde = 1 then (i + reg16 3 m + reg16 7 m, s)
           else if ModrmRm rde = 2 then (i + reg16 5 m + reg16 6 m, ss)
           else if ModrmRm rde = 3 then (i + reg16 5 m + reg16 7 m, ss)
           else if ModrmRm rde = 4 then (i + reg16 6 m, s)
           else if ModrmRm rde = 5 then (i + reg16 7 m, s)
           else if ModrmRm rde = 6 then
             if ModrmMod rde \<noteq> 0 then (i + reg16 5 m, ss) else (i, s)
           else (i + reg16 3 m, s))
        in (i AND 0xffff, s))"

definition LoadEffectiveAddress :: "u64 \<Rightarrow> u64 \<Rightarrow> u64 \<Rightarrow> (u64 \<times> u64) exec" where
  "LoadEffectiveAddress rde disp uimm0 =
     thn (unassert (\<not> IsModrmRegister rde)) (gets (effective_index rde disp))"

definition ComputeAddress :: "u64 \<Rightarrow> u64 \<Rightarrow> u64 \<Rightarrow> u64 exec" where
  "ComputeAddress rde disp uimm0 =
     seq (LoadEffectiveAddress rde disp uimm0) (\<lambda>(i, s). gets (AddSegment rde i s))"

section \<open>Operands\<close>

definition ComputeReserveAddressRead :: "u64 \<Rightarrow> u64 \<Rightarrow> u64 \<Rightarrow> nat \<Rightarrow> ptr exec" where
  "ComputeReserveAddressRead rde disp uimm0 n =
     seq (ComputeAddress rde disp uimm0) (\<lambda>v. ReserveAddress v n False)"

definition ComputeReserveAddressWrite :: "u64 \<Rightarrow> u64 \<Rightarrow> u64 \<Rightarrow> nat \<Rightarrow> ptr exec" where
  "ComputeReserveAddressWrite rde disp uimm0 n =
     seq (ComputeAddress rde disp uimm0) (\<lambda>v. ReserveAddress v n True)"

definition ComputeReserveAddressRead1 :: "u64 \<Rightarrow> u64 \<Rightarrow> u64 \<Rightarrow> ptr exec" where
  "ComputeReserveAddressRead1 rde disp uimm0 =
     ComputeReserveAddressRead rde disp uimm0 1"

definition ComputeReserveAddressRead4 :: "u64 \<Rightarrow> u64 \<Rightarrow> u64 \<Rightarrow> ptr exec" where
  "ComputeReserveAddressRead4 rde disp uimm0 =
     ComputeReserveAddressRead rde disp uimm0 4"

definition ComputeReserveAddressRead8 :: "u64 \<Rightarrow> u64 \<Rightarrow> u64 \<Rightarrow> ptr exec" where
  "ComputeReserveAddressRead8 rde disp uimm0 =
     ComputeReserveAddressRead rde disp uimm0 8"

definition ComputeReserveAddressWrite1 :: "u64 \<Rightarrow> u64 \<Rightarrow> u64 \<Rightarrow> ptr exec" where
  "ComputeReserveAddressWrite1 rde disp uimm0 =
     ComputeReserveAddressWrite rde disp uimm0 1"

definition ComputeReserveAddressWrite4 :: "u64 \<Rightarrow> u64 \<Rightarrow> u64 \<Rightarrow> ptr exec" where
  "ComputeReserveAddressWrite4 rde disp uimm0 =
     ComputeReserveAddressWrite rde disp uimm0 4"

definition ComputeReserveAddressWrite8 :: "u64 \<Rightarrow> u64 \<Rightarrow> u64 \<Rightarrow> ptr exec" where
  "ComputeReserveAddressWrite8 rde disp uimm0 =
     ComputeReserveAddressWrite rde disp uimm0 8"

definition GetModrmRegisterMmPointerRead :: "u64 \<Rightarrow> u64 \<Rightarrow> u64 \<Rightarrow> nat \<Rightarrow> ptr exec" where
  "GetModrmRegisterMmPointerRead rde disp uimm0 n =
     (if IsModrmRegister rde then ret (MmRm rde) else ComputeReserveAddressRead rde disp uimm0 n)"

definition GetModrmRegisterMmPointerRead8 :: "u64 \<Rightarrow> u64 \<Rightarrow> u64 \<Rightarrow> ptr exec" where
  "GetModrmRegisterMmPointerRead8 rde disp uimm0 =
     GetModrmRegisterMmPointerRead rde disp uimm0 8"

definition GetModrmRegisterMmPointerWrite :: "u64 \<Rightarrow> u64 \<Rightarrow> u64 \<Rightarrow> nat \<Rightarrow> ptr exec" where
  "GetModrmRegisterMmPointerWrite rde disp uimm0 n =
     (if IsModrmRegister rde then ret (MmRm rde) else ComputeReserveAddressWrite rde disp uimm0 n)"

definition GetModrmRegisterMmPointerWrite8 :: "u64 \<Rightarrow> u64 \<Rightarrow> u64 \<Rightarrow> ptr exec" where
  "GetModrmRegisterMmPointerWrite8 rde disp uimm0 =
     GetModrmRegisterMmPointerWrite rde disp uimm0 8"

definition GetModrmRegisterBytePointerRead1 :: "u64 \<Rightarrow> u64 \<Rightarrow> u64 \<Rightarrow> ptr exec" where
  "GetModrmRegisterBytePointerRead1 rde disp uimm0 =
     (if IsModrmRegister rde then ret (ByteRexbRm rde) else ComputeReserveAddressRead1 rde disp uimm0)"

definition GetModrmRegisterBytePointerWrite1 :: "u64 \<Rightarrow> u64 \<Rightarrow> u64 \<Rightarrow> ptr exec" where
  "GetModrmRegisterBytePointerWrite1 rde disp uimm0 =
     (if IsModrmRegister rde then ret (ByteRexbRm rde) else ComputeReserveAddressWrite1 rde disp uimm0)"

definition GetModrmRegisterWordPointerRead :: "u64 \<Rightarrow> u64 \<Rightarrow> u64 \<Rightarrow> nat \<Rightarrow> ptr exec" where
  "GetModrmRegisterWordPointerRead rde disp uimm0 n =
     (if IsModrmRegister rde then ret (RegRexbRm rde) else ComputeReserveAddressRead rde disp uimm0 n)"

definition GetModrmRegisterWordPointerRead2 :: "u64 \<Rightarrow> u64 \<Rightarrow> u64 \<Rightarrow> ptr exec" where
  "GetModrmRegisterWordPointerRead2 rde disp uimm0 =
     GetModrmRegisterWordPointerRead rde disp uimm0 2"

definition GetModrmRegisterWordPointerRead4 :: "u64 \<Rightarrow> u64 \<Rightarrow> u64 \<Rightarrow> ptr exec" where
  "GetModrmRegisterWordPointerRead4 rde disp uimm0 =
     GetModrmRegisterWordPointerRead rde disp uimm0 4"

definition GetModrmRegisterWordPointerRead8 :: "u64 \<Rightarrow> u64 \<Rightarrow> u64 \<Rightarrow> ptr exec" where
  "GetModrmRegisterWordPointerRead8 rde disp uimm0 =
     GetModrmRegisterWordPointerRead rde disp uimm0 8"

definition GetModrmRegisterWordPointerReadOsz :: "u64 \<Rightarrow> u64 \<Rightarrow> u64 \<Rightarrow> ptr exec" where
  "GetModrmRegisterWordPointerReadOsz rde disp uimm0 =
     (if Osz rde = 0 then GetModrmRegisterWordPointerRead8 rde disp uimm0
      else GetModrmRegisterWordPointerRead2 rde disp uimm0)"

definition GetModrmRegisterWordPointerReadOszRexw :: "u64 \<Rightarrow> u64 \<Rightarrow> u64 \<Rightarrow> ptr exec" where
  "GetModrmRegisterWordPointerReadOszRexw rde disp uimm0 =
     (if Rexw rde \<noteq> 0 then GetModrmRegisterWordPointerRead8 rde disp uimm0
      else if Osz rde = 0 then GetModrmRegisterWordPointerRead4 rde disp uimm0
      else GetModrmRegisterWordPointerRead2 rde disp uimm0)"

definition GetModrmRegisterWordPointerWrite :: "u64 \<Rightarrow> u64 \<Rightarrow> u64 \<Rightarrow> nat \<Rightarrow> ptr exec" where
  "GetModrmRegisterWordPointerWrite rde disp uimm0 n =
     (if IsModrmRegister rde then ret (RegRexbRm rde) else ComputeReserveAddressWrite rde disp uimm0 n)"

definition GetModrmRegisterWordPointerWrite2 :: "u64 \<Rightarrow> u64 \<Rightarrow> u64 \<Rightarrow> ptr exec" where
  "GetModrmRegisterWordPointerWrite2 rde disp uimm0 =
     GetModrmRegisterWordPointerWrite rde disp uimm0 2"

definition GetModrmRegisterWordPointerWrite4 :: "u64 \<Rightarrow> u64 \<Rightarrow> u64 \<Rightarrow> ptr exec" where
  "GetModrmRegisterWordPointerWrite4 rde disp uimm0 =
     GetModrmRegisterWordPointerWrite rde disp uimm0 4"

definition GetModrmRegisterWordPointerWrite8 :: "u64 \<Rightarrow> u64 \<Rightarrow> u64 \<Rightarrow> ptr exec" where
  "GetModrmRegisterWordPointerWrite8 rde disp uimm0 =
     GetModrmRegisterWordPointerWrite rde disp uimm0 8"

definition GetModrmRegisterWordPointerWriteOsz :: "u64 \<Rightarrow> u64 \<Rightarrow> u64 \<Rightarrow> ptr exec" where
  "GetModrmRegisterWordPointerWriteOsz rde disp uimm0 =
     (if Osz rde = 0 then GetModrmRegisterWordPointerWrite rde disp uimm0 8
      else GetModrmRegisterWordPointerWrite rde disp uimm0 2)"

definition GetModrmRegisterWordPointerWriteOszRexw :: "u64 \<Rightarrow> u64 \<Rightarrow> u64 \<Rightarrow> ptr exec" where
  "GetModrmRegisterWordPointerWriteOszRexw rde disp uimm0 =
     (if Rexw rde \<noteq> 0 then GetModrmRegisterWordPointerWrite rde disp uimm0 8
      else if Osz rde = 0 then GetModrmRegisterWordPointerWrite rde disp uimm0 4
      else GetModrmRegisterWordPointerWrite rde disp uimm0 2)"

definition GetModrmRegisterXmmPointerRead :: "u64 \<Rightarrow> u64 \<Rightarrow> u64 \<Rightarrow> nat \<Rightarrow> ptr exec" where
  "GetModrmRegisterXmmPointerRead rde disp uimm0 n =
     (if IsModrmRegister rde then ret (XmmRexbRm rde) else ComputeReserveAddressRead rde disp uimm0 n)"

definition GetModrmRegisterXmmPointerRead4 :: "u64 \<Rightarrow> u64 \<Rightarrow> u64 \<Rightarrow> ptr exec" where
  "GetModrmRegisterXmmPointerRead4 rde disp uimm0 =
     GetModrmRegisterXmmPointerRead rde disp uimm0 4"

definition GetModrmRegisterXmmPointerRead8 :: "u64 \<Rightarrow> u64 \<Rightarrow> u64 \<Rightarrow> ptr exec" where
  "GetModrmRegisterXmmPointerRead8 rde disp uimm0 =
     GetModrmRegisterXmmPointerRead rde disp uimm0 8"

definition GetModrmRegisterXmmPointerRead16 :: "u64 \<Rightarrow> u64 \<Rightarrow> u64 \<Rightarrow> ptr exec" where
  "GetModrmRegisterXmmPointerRead16 rde disp uimm0 =
     GetModrmRegisterXmmPointerRead rde disp uimm0 16"

definition GetModrmRegisterXmmPointerWrite :: "u64 \<Rightarrow> u64 \<Rightarrow> u64 \<Rightarrow> nat \<Rightarrow> ptr exec" where
  "GetModrmRegisterXmmPointerWrite rde disp uimm0 n =
     (if IsModrmRegister rde then ret (XmmRexbRm rde) else ComputeReserveAddressWrite rde disp uimm0 n)"

definition GetModrmRegisterXmmPointerWrite4 :: "u64 \<Rightarrow> u64 \<Rightarrow> u64 \<Rightarrow> ptr exec" where
  "GetModrmRegisterXmmPointerWrite4 rde disp uimm0 =
     GetModrmRegisterXmmPointerWrite rde disp uimm0 4"

definition GetModrmRegisterXmmPointerWrite8 :: "u64 \<Rightarrow> u64 \<Rightarrow> u64 \<Rightarrow> ptr exec" where
  "GetModrmRegisterXmmPointerWrite8 rde disp uimm0 =
     GetModrmRegisterXmmPointerWrite rde disp uimm0 8"

definition GetModrmRegisterXmmPointerWrite16 :: "u64 \<Rightarrow> u64 \<Rightarrow> u64 \<Rightarrow> ptr exec" where
  "GetModrmRegisterXmmPointerWrite16 rde disp uimm0 =
     GetModrmRegisterXmmPointerWrite rde disp uimm0 16"

definition GetVectorAddress :: "u64 \<Rightarrow> u64 \<Rightarrow> u64 \<Rightarrow> nat \<Rightarrow> ptr exec" where
  "GetVectorAddress rde disp uimm0 n =
     (if IsModrmRegister rde then ret (XmmRexbRm rde)
      else
        seq (ComputeAddress rde disp uimm0) (\<lambda>v.
        thn (SetReadAddr v n)
        (if v AND (word_of_nat n - 1) \<noteq> 0 then ThrowSegmentationFault v
         else seq (LookupAddress v) (\<lambda>p. if p = 0 then ThrowSegmentationFault v else ret (Host p)))))"

definition GetMmxAddress :: "u64 \<Rightarrow> u64 \<Rightarrow> u64 \<Rightarrow> ptr exec" where
  "GetMmxAddress rde disp uimm0 =
     GetVectorAddress rde disp uimm0 8"

definition GetXmmAddress :: "u64 \<Rightarrow> u64 \<Rightarrow> u64 \<Rightarrow> ptr exec" where
  "GetXmmAddress rde disp uimm0 =
     GetVectorAddress rde disp uimm0 16"

definition GetModrmReadBW :: "u64 \<Rightarrow> u64 \<Rightarrow> u64 \<Rightarrow> ptr exec" where
  "GetModrmReadBW rde disp uimm0 =
     (if IsModrmRegister rde then
        if RegLog2 rde = 0 then ret (ByteRexbRm rde) else ret (RegRexbRm rde)
      else ComputeReserveAddressRead rde disp uimm0 (push_bit (RegLog2 rde) 1))"

definition GetModrmWriteBW :: "u64 \<Rightarrow> u64 \<Rightarrow> u64 \<Rightarrow> ptr exec" where
  "GetModrmWriteBW rde disp uimm0 =
     (if IsModrmRegister rde then
        if RegLog2 rde = 0 then ret (ByteRexbRm rde) else ret (RegRexbRm rde)
      else ComputeReserveAddressWrite rde disp uimm0 (push_bit (RegLog2 rde) 1))"

end
