(* ===== verification/DivMul.thy ===== *)
theory DivMul
  imports Dubble Address
begin

text \<open>
  Division and multiplication (\<open>divmul.c\<close>, and the additions \<open>Adcx\<close> and \<open>Adox\<close> of \<open>uop.c\<close>): the instructions, in the version without 128-bit integers.
\<close>

section \<open>Division\<close>

text \<open>Signed quotients and remainders of the C code truncate toward zero: \<open>sdiv\<close> and \<open>smod\<close>.\<close>

abbreviation divide_error_if :: "bool \<Rightarrow> unit exec" where
  "divide_error_if b \<equiv> (if b then RaiseDivideError else ret ())"

definition OpDivAlAhAxEbSigned :: "u64 \<Rightarrow> u64 \<Rightarrow> u64 \<Rightarrow> unit exec" where
  "OpDivAlAhAxEbSigned rde disp uimm0 =
     seq (rd Get16 AX) (\<lambda>x.
     seq (GetModrmRegisterBytePointerRead1 rde disp uimm0) (\<lambda>p.
     seq (rd Load8 p) (\<lambda>y.
     let y = to_u8 y in
     thn (divide_error_if (y = 0))
     (thn (divide_error_if (x = 0x8000))
     (let q = (word_of_int (sint x sdiv sint y) :: u16);
          r = (word_of_int (sint x smod sint y) :: u8) in
      thn (divide_error_if (sint q \<noteq> sint (to_u8 q)))
      (thn (wr Put8 AX (to_u8 q)) (wr Put8 AH r)))))))"

definition OpDivAlAhAxEbUnsigned :: "u64 \<Rightarrow> u64 \<Rightarrow> u64 \<Rightarrow> unit exec" where
  "OpDivAlAhAxEbUnsigned rde disp uimm0 =
     seq (rd Get16 AX) (\<lambda>x.
     seq (GetModrmRegisterBytePointerRead1 rde disp uimm0) (\<lambda>p.
     seq (rd Load8 p) (\<lambda>y.
     let y = to_u8 y in
     thn (divide_error_if (y = 0))
     (let q = x div ucast y; r = to_u8 (x mod ucast y) in
      thn (divide_error_if (q > 0xff))
      (thn (wr Put8 AX (to_u8 q)) (wr Put8 AH r))))))"

definition OpDivRdxRaxEvqpSigned64 :: "ptr \<Rightarrow> unit exec" where
  "OpDivRdxRaxEvqpSigned64 p =
     seq (rd Get64 AX) (\<lambda>l.
     seq (rd Get64 DX) (\<lambda>h.
     seq (rd Load64 p) (\<lambda>d.
     let q = \<lparr>lo = l, hi = h\<rparr> in
     thn (divide_error_if (d = 0))
     (thn (divide_error_if (lo q = 0 \<and> hi q = 0x8000000000000000))
     (let (q, r) = DubbleIdiv q d in
      thn (divide_error_if (sint (lo q) < 0 \<and> sint (hi q) \<noteq> - 1))
      (thn (divide_error_if (sint (lo q) \<ge> 0 \<and> hi q \<noteq> 0))
      (thn (wr Put64 AX (lo q)) (wr Put64 DX r))))))))"

definition OpDivRdxRaxEvqpSigned32 :: "ptr \<Rightarrow> unit exec" where
  "OpDivRdxRaxEvqpSigned32 p =
     seq (rd Get32 DX) (\<lambda>h.
     seq (rd Get32 AX) (\<lambda>l.
     seq (rd Load32 p) (\<lambda>y.
     let x = shl (to_u64 h) 32 OR ucast l; y = to_u32 y in
     thn (divide_error_if (y = 0))
     (thn (divide_error_if (x = 0x8000000000000000))
     (let q = (word_of_int (sint x sdiv sint y) :: u64);
          r = (word_of_int (sint x smod sint y) :: u32) in
      thn (divide_error_if (sint q \<noteq> sint (to_u32 q)))
      (thn (wr Put64 AX (ucast (to_u32 q))) (wr Put64 DX (ucast r))))))))"

definition OpDivRdxRaxEvqpSigned16 :: "ptr \<Rightarrow> unit exec" where
  "OpDivRdxRaxEvqpSigned16 p =
     seq (rd Get16 DX) (\<lambda>h.
     seq (rd Get16 AX) (\<lambda>l.
     seq (rd Load16 p) (\<lambda>y.
     let x = shl (to_u32 h) 16 OR ucast l; y = to_u16 y in
     thn (divide_error_if (y = 0))
     (thn (divide_error_if (x = 0x80000000))
     (let q = (word_of_int (sint x sdiv sint y) :: u32);
          r = (word_of_int (sint x smod sint y) :: u16) in
      thn (divide_error_if (sint q \<noteq> sint (to_u16 q)))
      (thn (wr Put16 AX (to_u16 q)) (wr Put16 DX r)))))))"

definition OpDivRdxRaxEvqpUnsigned16 :: "ptr \<Rightarrow> unit exec" where
  "OpDivRdxRaxEvqpUnsigned16 p =
     seq (rd Get16 DX) (\<lambda>h.
     seq (rd Get16 AX) (\<lambda>l.
     seq (rd Load16 p) (\<lambda>y.
     let x = shl (to_u32 h) 16 OR ucast l; y = to_u16 y in
     thn (divide_error_if (y = 0))
     (let q = x div ucast y; r = to_u16 (x mod ucast y) in
      thn (divide_error_if (q > 0xffff))
      (thn (wr Put16 AX (to_u16 q)) (wr Put16 DX r))))))"

definition OpDivRdxRaxEvqpUnsigned32 :: "ptr \<Rightarrow> unit exec" where
  "OpDivRdxRaxEvqpUnsigned32 p =
     seq (rd Get32 DX) (\<lambda>h.
     seq (rd Get32 AX) (\<lambda>l.
     seq (rd Load32 p) (\<lambda>y.
     let x = shl (to_u64 h) 32 OR ucast l; y = to_u32 y in
     thn (divide_error_if (y = 0))
     (let q = x div ucast y; r = to_u32 (x mod ucast y) in
      thn (divide_error_if (q > 0xffffffff))
      (thn (wr Put64 AX (ucast (to_u32 q))) (wr Put64 DX (ucast r)))))))"

definition OpDivRdxRaxEvqpUnsigned64 :: "ptr \<Rightarrow> unit exec" where
  "OpDivRdxRaxEvqpUnsigned64 p =
     seq (rd Get64 AX) (\<lambda>l.
     seq (rd Get64 DX) (\<lambda>h.
     seq (rd Load64 p) (\<lambda>d.
     let q = \<lparr>lo = l, hi = h\<rparr> in
     thn (divide_error_if (d = 0))
     (let (q, r) = DubbleDiv q d in
      thn (divide_error_if (hi q \<noteq> 0))
      (thn (wr Put64 AX (lo q)) (wr Put64 DX r))))))"

definition OpDivRdxRaxEvqpSigned :: "u64 \<Rightarrow> u64 \<Rightarrow> u64 \<Rightarrow> unit exec" where
  "OpDivRdxRaxEvqpSigned rde disp uimm0 =
     seq (GetModrmRegisterWordPointerReadOszRexw rde disp uimm0) (\<lambda>p.
     if Rexw rde \<noteq> 0 then OpDivRdxRaxEvqpSigned64 p
     else if Osz rde = 0 then OpDivRdxRaxEvqpSigned32 p
     else OpDivRdxRaxEvqpSigned16 p)"

definition OpDivRdxRaxEvqpUnsigned :: "u64 \<Rightarrow> u64 \<Rightarrow> u64 \<Rightarrow> unit exec" where
  "OpDivRdxRaxEvqpUnsigned rde disp uimm0 =
     seq (GetModrmRegisterWordPointerReadOszRexw rde disp uimm0) (\<lambda>p.
     if Rexw rde \<noteq> 0 then OpDivRdxRaxEvqpUnsigned64 p
     else if Osz rde = 0 then OpDivRdxRaxEvqpUnsigned32 p
     else OpDivRdxRaxEvqpUnsigned16 p)"

section \<open>Multiplication\<close>

definition set_carry_overflow :: "bool \<Rightarrow> unit exec" where
  "set_carry_overflow b =
     thn (modify (\<lambda>m. m\<lparr>m_flags := SetFlag (m_flags m) FLAGS_CF b\<rparr>))
     (modify (\<lambda>m. m\<lparr>m_flags := SetFlag (m_flags m) FLAGS_OF b\<rparr>))"

definition OpMulAxAlEbSigned :: "u64 \<Rightarrow> u64 \<Rightarrow> u64 \<Rightarrow> unit exec" where
  "OpMulAxAlEbSigned rde disp uimm0 =
     seq (GetModrmRegisterBytePointerRead1 rde disp uimm0) (\<lambda>p.
     seq (rd Get8 AX) (\<lambda>x.
     seq (rd Load8 p) (\<lambda>y.
     let ax = (word_of_int (sint x * sint (to_u8 y)) :: u16) in
     thn (set_carry_overflow (sint ax \<noteq> sint (to_u8 ax))) (wr Put16 AX ax))))"

definition OpMulAxAlEbUnsigned :: "u64 \<Rightarrow> u64 \<Rightarrow> u64 \<Rightarrow> unit exec" where
  "OpMulAxAlEbUnsigned rde disp uimm0 =
     seq (GetModrmRegisterBytePointerRead1 rde disp uimm0) (\<lambda>p.
     seq (rd Get8 AX) (\<lambda>x.
     seq (rd Load8 p) (\<lambda>y.
     let ax = to_u32 x * to_u32 y in
     thn (set_carry_overflow (ax \<noteq> ucast (to_u8 ax))) (wr Put16 AX (to_u16 ax)))))"

definition OpMulRdxRaxEvqpSigned64 :: "u64 \<Rightarrow> unit exec" where
  "OpMulRdxRaxEvqpSigned64 x =
     seq (rd Get64 AX) (\<lambda>a.
     let rdxrax = DubbleImul a x;
         of' = hi rdxrax + shr (lo rdxrax) 63 \<noteq> 0 in
     thn (wr Put64 AX (lo rdxrax))
     (thn (wr Put64 DX (hi rdxrax))
     (set_carry_overflow of')))"

definition OpMulRdxRaxEvqpSigned :: "u64 \<Rightarrow> u64 \<Rightarrow> u64 \<Rightarrow> unit exec" where
  "OpMulRdxRaxEvqpSigned rde disp uimm0 =
     seq (GetModrmRegisterWordPointerReadOszRexw rde disp uimm0) (\<lambda>p.
     if Rexw rde \<noteq> 0 then seq (rd Load64 p) OpMulRdxRaxEvqpSigned64
     else if Osz rde = 0 then
       seq (rd Get32 AX) (\<lambda>a.
       seq (rd Load32 p) (\<lambda>x.
       let edxeax = (scast a :: u64) * scast (to_u32 x);
           of' = edxeax \<noteq> scast (to_u32 edxeax) in
       thn (wr Put64 AX (ucast (to_u32 edxeax)))
       (thn (wr Put64 DX (signed_drop_bit 32 edxeax))
       (set_carry_overflow of'))))
     else
       seq (rd Get16 AX) (\<lambda>a.
       seq (rd Load16 p) (\<lambda>x.
       let dxax = (scast a :: u32) * scast (to_u16 x);
           of' = dxax \<noteq> scast (to_u16 dxax) in
       thn (wr Put16 AX (to_u16 dxax))
       (thn (wr Put16 DX (to_u16 (signed_drop_bit 16 dxax)))
       (set_carry_overflow of')))))"

definition OpMulRdxRaxEvqpUnsigned64 :: "u64 \<Rightarrow> unit exec" where
  "OpMulRdxRaxEvqpUnsigned64 x =
     seq (rd Get64 AX) (\<lambda>a.
     let rdxrax = DubbleMul a x;
         of' = hi rdxrax \<noteq> 0 in
     thn (wr Put64 AX (lo rdxrax))
     (thn (wr Put64 DX (hi rdxrax))
     (set_carry_overflow of')))"

definition OpMulRdxRaxEvqpUnsigned32 :: "u64 \<Rightarrow> unit exec" where
  "OpMulRdxRaxEvqpUnsigned32 x =
     seq (rd Get32 AX) (\<lambda>a.
     let edxeax = to_u64 a * x;
         of' = to_u64 (to_u32 edxeax) \<noteq> edxeax in
     thn (wr Put64 AX (ucast (to_u32 edxeax)))
     (thn (wr Put64 DX (shr edxeax 32))
     (set_carry_overflow of')))"

definition OpMulRdxRaxEvqpUnsigned :: "u64 \<Rightarrow> u64 \<Rightarrow> u64 \<Rightarrow> unit exec" where
  "OpMulRdxRaxEvqpUnsigned rde disp uimm0 =
     seq (GetModrmRegisterWordPointerReadOszRexw rde disp uimm0) (\<lambda>p.
     if Rexw rde \<noteq> 0 then seq (rd Load64 p) OpMulRdxRaxEvqpUnsigned64
     else if Osz rde = 0 then seq (rd Load32 p) OpMulRdxRaxEvqpUnsigned32
     else
       seq (rd Get16 AX) (\<lambda>a.
       seq (rd Load16 p) (\<lambda>x.
       let dxax = to_u32 a * ucast (to_u16 x);
           of' = to_u32 (to_u16 dxax) \<noteq> dxax in
       thn (wr Put16 AX (to_u16 dxax))
       (thn (wr Put16 DX (to_u16 (shr dxax 16)))
       (set_carry_overflow of')))))"

definition AluImul :: "u64 \<Rightarrow> ptr \<Rightarrow> ptr \<Rightarrow> unit exec" where
  "AluImul rde a b =
     seq (if Rexw rde \<noteq> 0 then
            seq (rd Get64 a) (\<lambda>x. seq (rd Load64 b) (\<lambda>y.
            let p = DubbleImul x y; of' = hi p + shr (lo p) 63 \<noteq> 0 in
            thn (wr Put64 (RegRexrReg rde) (lo p)) (ret of')))
          else if Osz rde = 0 then
            seq (rd Get32 a) (\<lambda>x. seq (rd Load32 b) (\<lambda>y.
            let z = (scast x :: u64) * scast (to_u32 y); of' = z \<noteq> scast (to_u32 z) in
            thn (wr Put64 (RegRexrReg rde) (ucast (to_u32 z))) (ret of')))
          else
            seq (rd Get16 a) (\<lambda>x. seq (rd Load16 b) (\<lambda>y.
            let z = (scast x :: u32) * scast (to_u16 y); of' = z \<noteq> scast (to_u16 z) in
            thn (wr Put16 (RegRexrReg rde) (to_u16 z)) (ret of'))))
     set_carry_overflow"

definition OpImulGvqpEvqp :: "u64 \<Rightarrow> u64 \<Rightarrow> u64 \<Rightarrow> unit exec" where
  "OpImulGvqpEvqp rde disp uimm0 =
     seq (GetModrmRegisterWordPointerReadOszRexw rde disp uimm0) (\<lambda>p. AluImul rde (RegRexrReg rde) p)"

definition OpImulGvqpEvqpImm :: "u64 \<Rightarrow> u64 \<Rightarrow> u64 \<Rightarrow> unit exec" where
  "OpImulGvqpEvqpImm rde disp uimm0 =
     thn (wr Put64 (Local 0) uimm0)
     (seq (GetModrmRegisterWordPointerReadOszRexw rde disp uimm0) (\<lambda>p. AluImul rde p (Local 0)))"

section \<open>Carry chains and flagless multiplication\<close>

text \<open>The additions of \<open>uop.c\<close>: one flag, \<open>FLAGS_CF\<close> or \<open>FLAGS_OF\<close>, is both carry in and carry out.\<close>

definition flag_out :: "nat \<Rightarrow> bool \<Rightarrow> u32 \<Rightarrow> u32" where
  "flag_out i c f = (f AND NOT (shl 1 i)) OR shl (of_bool c) i"

definition Adcx32 :: "u64 \<Rightarrow> u64 \<Rightarrow> u32 \<Rightarrow> u64 \<times> u32" where
  "Adcx32 x y f =
     (let t = to_u32 (x + of_bool (f AND shl 1 FLAGS_CF \<noteq> 0));
          z = to_u32 (to_u64 t + y);
          c = to_u64 t < x \<or> to_u64 z < y
      in (ucast z, flag_out FLAGS_CF c f))"

definition Adcx64 :: "u64 \<Rightarrow> u64 \<Rightarrow> u32 \<Rightarrow> u64 \<times> u32" where
  "Adcx64 x y f =
     (let t = x + of_bool (f AND shl 1 FLAGS_CF \<noteq> 0);
          z = t + y;
          c = t < x \<or> z < y
      in (z, flag_out FLAGS_CF c f))"

definition Adox32 :: "u64 \<Rightarrow> u64 \<Rightarrow> u32 \<Rightarrow> u64 \<times> u32" where
  "Adox32 x y f =
     (let t = to_u32 (x + of_bool (f AND shl 1 FLAGS_OF \<noteq> 0));
          z = to_u32 (to_u64 t + y);
          c = to_u64 t < x \<or> to_u64 z < y
      in (ucast z, flag_out FLAGS_OF c f))"

definition Adox64 :: "u64 \<Rightarrow> u64 \<Rightarrow> u32 \<Rightarrow> u64 \<times> u32" where
  "Adox64 x y f =
     (let t = x + of_bool (f AND shl 1 FLAGS_OF \<noteq> 0);
          z = t + y;
          c = t < x \<or> z < y
      in (z, flag_out FLAGS_OF c f))"

definition OpAdx :: "u64 \<Rightarrow> u64 \<Rightarrow> u64 \<Rightarrow> (u64 \<Rightarrow> u64 \<Rightarrow> u32 \<Rightarrow> u64 \<times> u32) \<Rightarrow>
    (u64 \<Rightarrow> u64 \<Rightarrow> u32 \<Rightarrow> u64 \<times> u32) \<Rightarrow> unit exec" where
  "OpAdx rde disp uimm0 op64 op32 =
     (if Rexw rde \<noteq> 0 then
        seq (rd Get64 (RegRexrReg rde)) (\<lambda>x.
        seq (GetModrmRegisterWordPointerRead8 rde disp uimm0) (\<lambda>p.
        seq (rd Load64 p) (\<lambda>y.
        seq (gets (\<lambda>m. op64 x y (m_flags m))) (\<lambda>(z, f).
        thn (modify (m_flags_update (\<lambda>_. f))) (wr Put64 (RegRexrReg rde) z)))))
      else
        seq (rd Get32 (RegRexrReg rde)) (\<lambda>x.
        seq (GetModrmRegisterWordPointerRead4 rde disp uimm0) (\<lambda>p.
        seq (rd Load32 p) (\<lambda>y.
        seq (gets (\<lambda>m. op32 (ucast x) y (m_flags m))) (\<lambda>(z, f).
        thn (modify (m_flags_update (\<lambda>_. f))) (wr Put64 (RegRexrReg rde) (ucast (to_u32 z))))))))"

definition OpMulx :: "u64 \<Rightarrow> u64 \<Rightarrow> u64 \<Rightarrow> unit exec" where
  "OpMulx rde disp uimm0 =
     (if Rexw rde \<noteq> 0 then
        seq (GetModrmRegisterWordPointerRead8 rde disp uimm0) (\<lambda>p.
        seq (rd Load64 p) (\<lambda>x.
        seq (rd Get64 DX) (\<lambda>y.
        let z = DubbleMul y x in
        thn (wr Put64 (RegVreg rde) (lo z)) (wr Put64 (RegRexrReg rde) (hi z)))))
      else
        seq (GetModrmRegisterWordPointerRead4 rde disp uimm0) (\<lambda>p.
        seq (rd Load32 p) (\<lambda>x.
        seq (rd Get32 DX) (\<lambda>d.
        let x = x * ucast d in
        thn (wr Put64 (RegVreg rde) (ucast (to_u32 x))) (wr Put64 (RegRexrReg rde) (shr x 32))))))"

definition Op2f6 :: "u64 \<Rightarrow> u64 \<Rightarrow> u64 \<Rightarrow> unit exec" where
  "Op2f6 rde disp uimm0 =
     (if Osz rde \<noteq> 0 then OpAdx rde disp uimm0 Adcx64 Adcx32
      else if Rep rde = 3 then OpAdx rde disp uimm0 Adox64 Adox32
      else if Rep rde = 2 then OpMulx rde disp uimm0
      else OpUdImpl)"

end
