(* ===== verification/DivMulSpec.thy ===== *)
theory DivMulSpec
  imports DivMul
begin

text \<open>
  What the division and multiplication instructions compute, at every width, with their divide errors and flags.
\<close>

section \<open>What the divisions compute\<close>

definition unsigned_quotient :: "'b::len word \<Rightarrow> 'a::len word \<Rightarrow> ('a word \<times> 'a word) option" where
  "unsigned_quotient x y =
     (let q = unat x div unat y; r = unat x mod unat y in
      if y = 0 \<or> 2 ^ LENGTH('a) \<le> q then None else Some (word_of_nat q, word_of_nat r))"

definition signed_quotient :: "'b::len word \<Rightarrow> 'a::len word \<Rightarrow> ('a word \<times> 'a word) option" where
  "signed_quotient x y =
     (let q = sint x sdiv sint y; r = sint x smod sint y in
      if y = 0 \<or> q < - (2 ^ (LENGTH('a) - 1)) \<or> 2 ^ (LENGTH('a) - 1) \<le> q then None
      else Some (word_of_int q, word_of_int r))"

definition divide_or_trap :: "('a \<times> 'a) option \<Rightarrow> ('a \<Rightarrow> 'a \<Rightarrow> unit exec) \<Rightarrow> unit exec" where
  "divide_or_trap res f = (case res of None \<Rightarrow> RaiseDivideError | Some (q, r) \<Rightarrow> f q r)"

lemma seq_trap: "seq RaiseDivideError f = RaiseDivideError"
  by (rule ext) (simp add: RaiseDivideError_def HaltMachine_def Let_def)

lemma divide_or_trap_simps [simp]:
  "divide_or_trap None f = RaiseDivideError"
  "divide_or_trap (Some (q, r)) f = f q r"
  by (simp_all add: divide_or_trap_def)

lemma divide_error: "thn (divide_error_if b) f = (if b then RaiseDivideError else f)"
  by (simp add: seq_trap)

lemma ucast_nat: "ucast w = (word_of_nat (unat w) :: 'b::len word)"
  by simp

lemma unsigned_narrow:
  fixes x :: "'b::len word" and y :: "'a::len word"
  assumes "LENGTH('a) \<le> LENGTH('b)"
  shows "unsigned_quotient x y =
    (if y = 0 then None
     else let q = x div ucast y in
       if 2 ^ LENGTH('a) \<le> unat q then None else Some (ucast q, ucast (x mod ucast y)))"
proof -
  have y: "unat (ucast y :: 'b word) = unat y"
  proof -
    have "unat y < 2 ^ LENGTH('a)" by simp
    also have "\<dots> \<le> (2::nat) ^ LENGTH('b)" using assms by (intro power_increasing) simp_all
    finally show ?thesis by (simp add: unsigned_ucast_eq take_bit_nat_eq_self)
  qed
  have q: "unat (x div ucast y) = unat x div unat y" "unat (x mod ucast y) = unat x mod unat y"
    using y by (simp_all add: unat_div_distrib unat_mod_distrib)
  show ?thesis
    unfolding unsigned_quotient_def Let_def ucast_nat [where w = "x div ucast y"] ucast_nat [where w = "x mod ucast y"] q by simp
qed

lemma ucast_of_int: "LENGTH('a) \<le> LENGTH('b) \<Longrightarrow> (ucast (word_of_int k :: 'b::len word) :: 'a::len word) = word_of_int k"
  by (intro bit_word_eqI) (auto simp: bit_simps)

lemma sdiv_le: "\<bar>a sdiv b\<bar> \<le> \<bar>a :: int\<bar>"
proof (cases "b = 0")
  case False
  then have "\<bar>a\<bar> div \<bar>b\<bar> \<le> \<bar>a\<bar>" using zdiv_mono2 [of "\<bar>a\<bar>" 1 "\<bar>b\<bar>"] by auto
  then show ?thesis by (auto simp: signed_divide_int_def abs_mult sgn_if pos_imp_zdiv_nonneg_iff)
qed (simp add: signed_divide_int_def)

lemma sint_ucast_eq:
  fixes q :: "'b::len word"
  assumes "LENGTH('a) \<le> LENGTH('b)"
  shows "sint q = sint (ucast q :: 'a::len word) \<longleftrightarrow> - (2 ^ (LENGTH('a) - 1)) \<le> sint q \<and> sint q < 2 ^ (LENGTH('a) - 1)"
proof -
  have "sint (ucast q :: 'a word) = signed_take_bit (LENGTH('a) - 1) (sint q)"
  proof -
    have "(ucast q :: 'a word) = word_of_int (sint q)"
      using assms by (intro bit_word_eqI) (auto simp: bit_unsigned_iff bit_simps)
    then show ?thesis by (simp only: sint_sbintrunc')
  qed
  then show ?thesis by (metis signed_take_bit_int_eq_self_iff)
qed


lemma sdiv_magnitude: "\<bar>a sdiv b\<bar> = \<bar>a\<bar> div \<bar>b :: int\<bar>" if "b \<noteq> 0"
  using that by (auto simp: signed_divide_int_def abs_mult sgn_if pos_imp_zdiv_nonneg_iff)

lemma signed_narrow:
  fixes x :: "'b::len word" and y :: "'a::len word"
  assumes ab: "LENGTH('b) = 2 * LENGTH('a)"
  shows "signed_quotient x y =
    (if y = 0 then None
     else if sint x = - (2 ^ (LENGTH('b) - 1)) then None
     else let q = (word_of_int (sint x sdiv sint y) :: 'b word) in
       if sint q \<noteq> sint (ucast q :: 'a word) then None
       else Some (ucast q, word_of_int (sint x smod sint y)))"
proof (cases "y = 0")
  case False
  then have y: "sint y \<noteq> 0" using sint_eqI [of y 0] by auto
  let ?n = "LENGTH('a)" and ?q = "sint x sdiv sint y"
  show ?thesis
  proof (cases "sint x = - (2 ^ (LENGTH('b) - 1))")
    case True
    have p: "(2::int) ^ (LENGTH('b) - 1) = 2 ^ ?n * 2 ^ (?n - 1)"
      using ab by (simp flip: power_add)
    have "2 ^ ?n \<le> \<bar>sint x\<bar> div \<bar>sint y\<bar>"
    proof -
      have "2 ^ ?n * \<bar>sint y\<bar> \<le> 2 ^ ?n * (2::int) ^ (?n - 1)" using magnitude_le [of y] by (intro mult_left_mono) auto
      then have "2 ^ ?n * \<bar>sint y\<bar> \<le> \<bar>sint x\<bar>" unfolding True p [symmetric] by simp
      then show ?thesis using y zdiv_mono1 [of "2 ^ ?n * \<bar>sint y\<bar>" "\<bar>sint x\<bar>" "\<bar>sint y\<bar>"] by simp
    qed
    then have "2 ^ ?n \<le> \<bar>?q\<bar>" using sdiv_magnitude [OF y] by simp
    moreover have "(2::int) ^ (?n - 1) < 2 ^ ?n" by (intro power_strict_increasing) simp_all
    ultimately have "?q < - (2 ^ (?n - 1)) \<or> 2 ^ (?n - 1) \<le> ?q" by linarith
    then show ?thesis unfolding signed_quotient_def Let_def using True by simp
  next
    case ne: False
    then have "\<bar>sint x\<bar> < 2 ^ (LENGTH('b) - 1)" using sint_greater_eq [of x] sint_less [of x] by (simp add: abs_if)
    then have "\<bar>?q\<bar> < 2 ^ (LENGTH('b) - 1)" using sdiv_le [of "sint x" "sint y"] by linarith
    then have q: "sint (word_of_int ?q :: 'b word) = ?q" by (intro sint_of_int) linarith+
    have "(ucast (word_of_int ?q :: 'b word) :: 'a word) = word_of_int ?q"
      using ab by (intro ucast_of_int) simp
    then show ?thesis
      unfolding signed_quotient_def Let_def using False ne sint_ucast_eq [where q = "word_of_int ?q :: 'b word" and 'a = 'a] ab
      by (auto simp: q)
  qed
qed (simp add: signed_quotient_def)

lemma concat_word_cat:
  fixes h l :: "'a::len word"
  assumes "LENGTH('b) = 2 * LENGTH('a)"
  shows "shl (ucast h) LENGTH('a) OR ucast l = (word_cat h l :: 'b::len word)"
  using assms by (intro bit_word_eqI) (auto simp: bit_word_cat_iff bit_or_iff bit_push_bit_iff bit_unsigned_iff dest: bit_imp_le_length)

lemma concat_halves:
  "shl (to_u32 (h16 :: u16)) 16 OR ucast (l16 :: u16) = (word_cat h16 l16 :: u32)"
  "shl (to_u64 (h32 :: u32)) 32 OR ucast (l32 :: u32) = (word_cat h32 l32 :: u64)"
  using concat_word_cat [where 'a = 16 and 'b = 32, of h16 l16] concat_word_cat [where 'a = 32 and 'b = 64, of h32 l32] by simp_all

lemma dw_word_cat: "dw \<lparr>lo = l, hi = h\<rparr> = word_cat h l"
  by (rule bit_word_eqI) (auto simp: bit_dw bit_word_cat_iff)

lemma body_unsigned64:
  "thn (divide_error_if (d = 0)) (let (q, r) = DubbleDiv \<lparr>lo = l, hi = h\<rparr> d in thn (divide_error_if (hi q \<noteq> 0)) (f (lo q) r)) =
   divide_or_trap (unsigned_quotient (word_cat h l :: 128 word) d) f"
proof (cases "d = 0")
  case False
  let ?a = "\<lparr>lo = l, hi = h\<rparr>"
  obtain q r where qr: "DubbleDiv ?a d = (q, r)" by (rule prod.exhaust)
  have x: "unat (word_cat h l :: 128 word) = dval ?a" by (simp only: dval_dw dw_word_cat)
  have d: "0 < unat d" using False by (simp add: unat_gt_0)
  have fits: "hi q = 0 \<longleftrightarrow> dval ?a div unat d < 2 ^ 64"
    using DubbleDiv_fits [OF False qr] d by (simp add: div_less_iff_less_mult mult.commute)
  show ?thesis
  proof (cases "hi q = 0")
    case True
    then have "dval ?a < unat d * 2 ^ 64" using DubbleDiv_fits [OF False qr] by simp
    then have e: "dval q = dval ?a div unat d" "unat r = dval ?a mod unat d" using DubbleDiv_exact [OF False _ qr] by blast+
    have "unat (lo q) = dval ?a div unat d" using e(1) True by (simp add: dval_def [of q])
    then have "lo q = word_of_nat (dval ?a div unat d)" "r = word_of_nat (dval ?a mod unat d)"
      using e(2) by (metis of_nat_unat ucast_id)+
    then show ?thesis using True False fits by (simp add: unsigned_quotient_def Let_def x qr)
  qed (use False fits in \<open>simp add: unsigned_quotient_def Let_def x qr divide_error\<close>)
qed (simp add: divide_error seq_trap unsigned_quotient_def)

lemma body_unsigned:
  fixes x :: "'b::len word" and y :: "'a::len word"
  assumes "LENGTH('a) \<le> LENGTH('b)" and c: "\<And>q :: 'b word. c q \<longleftrightarrow> 2 ^ LENGTH('a) \<le> unat q"
  shows "thn (divide_error_if (y = 0)) (let q = x div ucast y; r = ucast (x mod ucast y) in
      thn (divide_error_if (c q)) (f (ucast q) r)) =
    divide_or_trap (unsigned_quotient x y) f"
  unfolding unsigned_narrow [OF assms(1)] Let_def by (simp add: divide_error c)

text \<open>C19: Unsigned division at every width: the operand divides the double-width dividend exactly; the
  divide error is raised, and no register changed, exactly when the divisor is zero or the quotient does
  not fit; otherwise quotient and remainder are written, at 32 bits clearing the upper halves. At 64 bits
  this holds for the bit-by-bit division of double words that the C code falls back to.\<close>

theorem divide_unsigned_correct:
  "OpDivAlAhAxEbUnsigned rde disp uimm0 =
     seq (rd Get16 AX) (\<lambda>x. seq (GetModrmRegisterBytePointerRead1 rde disp uimm0) (\<lambda>p. seq (rd Load8 p) (\<lambda>y.
     divide_or_trap (unsigned_quotient x (to_u8 y)) (\<lambda>q r. thn (wr Put8 AX q) (wr Put8 AH r))))) \<and>
   OpDivRdxRaxEvqpUnsigned16 p =
     seq (rd Get16 DX) (\<lambda>h. seq (rd Get16 AX) (\<lambda>l. seq (rd Load16 p) (\<lambda>y.
     divide_or_trap (unsigned_quotient (word_cat h l :: u32) (to_u16 y)) (\<lambda>q r. thn (wr Put16 AX q) (wr Put16 DX r))))) \<and>
   OpDivRdxRaxEvqpUnsigned32 p =
     seq (rd Get32 DX) (\<lambda>h. seq (rd Get32 AX) (\<lambda>l. seq (rd Load32 p) (\<lambda>y.
     divide_or_trap (unsigned_quotient (word_cat h l :: u64) (to_u32 y))
       (\<lambda>q r. thn (wr Put64 AX (ucast q)) (wr Put64 DX (ucast r)))))) \<and>
   OpDivRdxRaxEvqpUnsigned64 p =
     seq (rd Get64 AX) (\<lambda>l. seq (rd Get64 DX) (\<lambda>h. seq (rd Load64 p) (\<lambda>y.
     divide_or_trap (unsigned_quotient (word_cat h l :: 128 word) y) (\<lambda>q r. thn (wr Put64 AX q) (wr Put64 DX r)))))"
proof (intro conjI)
  have g: "q > 0xff \<longleftrightarrow> 2 ^ LENGTH(8) \<le> unat q" for q :: u16 by (auto simp: word_less_nat_alt)
  show "OpDivAlAhAxEbUnsigned rde disp uimm0 =
     seq (rd Get16 AX) (\<lambda>x. seq (GetModrmRegisterBytePointerRead1 rde disp uimm0) (\<lambda>p. seq (rd Load8 p) (\<lambda>y.
     divide_or_trap (unsigned_quotient x (to_u8 y)) (\<lambda>q r. thn (wr Put8 AX q) (wr Put8 AH r)))))"
    unfolding OpDivAlAhAxEbUnsigned_def
    by (subst body_unsigned [where c = "\<lambda>q. q > 0xff", symmetric, OF _ g]) (simp_all only: Let_def, simp)
  have g: "q > 0xffff \<longleftrightarrow> 2 ^ LENGTH(16) \<le> unat q" for q :: u32 by (auto simp: word_less_nat_alt)
  show "OpDivRdxRaxEvqpUnsigned16 p =
     seq (rd Get16 DX) (\<lambda>h. seq (rd Get16 AX) (\<lambda>l. seq (rd Load16 p) (\<lambda>y.
     divide_or_trap (unsigned_quotient (word_cat h l :: u32) (to_u16 y)) (\<lambda>q r. thn (wr Put16 AX q) (wr Put16 DX r)))))"
    unfolding OpDivRdxRaxEvqpUnsigned16_def
    by (subst body_unsigned [where c = "\<lambda>q. q > 0xffff", symmetric, OF _ g]) (simp_all only: Let_def concat_halves, simp)
  have g: "q > 0xffffffff \<longleftrightarrow> 2 ^ LENGTH(32) \<le> unat q" for q :: u64 by (auto simp: word_less_nat_alt)
  show "OpDivRdxRaxEvqpUnsigned32 p =
     seq (rd Get32 DX) (\<lambda>h. seq (rd Get32 AX) (\<lambda>l. seq (rd Load32 p) (\<lambda>y.
     divide_or_trap (unsigned_quotient (word_cat h l :: u64) (to_u32 y))
       (\<lambda>q r. thn (wr Put64 AX (ucast q)) (wr Put64 DX (ucast r))))))"
    unfolding OpDivRdxRaxEvqpUnsigned32_def
    by (subst body_unsigned [where c = "\<lambda>q. q > 0xffffffff", symmetric, OF _ g]) (simp_all only: Let_def concat_halves, simp)
  show "OpDivRdxRaxEvqpUnsigned64 p =
     seq (rd Get64 AX) (\<lambda>l. seq (rd Get64 DX) (\<lambda>h. seq (rd Load64 p) (\<lambda>y.
     divide_or_trap (unsigned_quotient (word_cat h l :: 128 word) y) (\<lambda>q r. thn (wr Put64 AX q) (wr Put64 DX r)))))"
    unfolding OpDivRdxRaxEvqpUnsigned64_def body_unsigned64 [symmetric] Let_def ..
qed

lemma body_signed:
  fixes x :: "'b::len word" and y :: "'a::len word"
  assumes "LENGTH('b) = 2 * LENGTH('a)" and c: "x = M \<longleftrightarrow> sint x = - (2 ^ (LENGTH('b) - 1))"
  shows "thn (divide_error_if (y = 0)) (thn (divide_error_if (x = M))
     (let q = (word_of_int (sint x sdiv sint y) :: 'b word); r = word_of_int (sint x smod sint y) in
      thn (divide_error_if (sint q \<noteq> sint (ucast q :: 'a word))) (f (ucast q) r))) =
    divide_or_trap (signed_quotient x y) f"
  unfolding signed_narrow [OF assms(1)] Let_def c by (simp add: divide_error)

lemma body_signed64:
  "thn (divide_error_if (d = 0)) (thn (divide_error_if (l = 0 \<and> h = 0x8000000000000000))
     (let (q, r) = DubbleIdiv \<lparr>lo = l, hi = h\<rparr> d in
      thn (divide_error_if (sint (lo q) < 0 \<and> sint (hi q) \<noteq> - 1))
      (thn (divide_error_if (sint (lo q) \<ge> 0 \<and> hi q \<noteq> 0)) (f (lo q) r)))) =
   divide_or_trap (signed_quotient (word_cat h l :: 128 word) d) f"
proof (cases "d = 0")
  case False
  let ?a = "\<lparr>lo = l, hi = h\<rparr>"
  have x: "word_cat h l = dw ?a" by (simp only: dw_word_cat)
  note narrow = signed_narrow [where 'a = 64 and 'b = 128, of "dw ?a" d, simplified]
  have M: "l = 0 \<and> h = 0x8000000000000000 \<longleftrightarrow> sint (dw ?a) = - (2 ^ 127)"
  proof -
    have s: "sint (word_of_int (- (2 ^ 127)) :: 128 word) = - (2 ^ 127)" by (rule sint_of_int) simp_all
    have m: "(word_of_int (- (2 ^ 127)) :: 128 word) = dw \<lparr>lo = 0, hi = 0x8000000000000000\<rparr>"
      unfolding dw_of_nat dval_def by simp
    have "sint (dw ?a) = - (2 ^ 127) \<longleftrightarrow> dw ?a = dw \<lparr>lo = 0, hi = 0x8000000000000000\<rparr>"
      using s unfolding m by (metis sint_eqI)
    also have "\<dots> \<longleftrightarrow> ?a = \<lparr>lo = 0, hi = 0x8000000000000000\<rparr>" by (metis dval_dw dval_inject)
    finally show ?thesis by simp
  qed
  show ?thesis
  proof (cases "l = 0 \<and> h = 0x8000000000000000")
    case True
    then have "signed_quotient (dw ?a) d = None" using narrow M False by simp
    then show ?thesis using True False unfolding x by (simp add: divide_error seq_trap)
  next
    case ne: False
    obtain q r where qr: "DubbleIdiv ?a d = (q, r)" by (rule prod.exhaust)
    have c: "sint (dw q) = sint (dw ?a) sdiv sint d" "sint r = sint (dw ?a) smod sint d"
      using DubbleIdiv_correct [OF False _ qr] ne by simp_all
    have fit: "(sint (lo q) < 0 \<and> sint (hi q) \<noteq> - 1) \<or> (sint (lo q) \<ge> 0 \<and> hi q \<noteq> 0) \<longleftrightarrow> sint (dw q) \<noteq> sint (lo q)"
    proof -
      have "sint (hi q) = - 1 \<longleftrightarrow> hi q + 1 = 0"
        using sint_eqI [of "hi q" "- 1"] by (auto simp: add_eq_0_iff2)
      then show ?thesis unfolding fits_low [symmetric] sign_bit by auto
    qed
    have l: "lo q = ucast (dw q)" by (rule bit_word_eqI) (simp add: bit_unsigned_iff bit_dw)
    have "sint (dw q) \<noteq> sint (lo q) \<longleftrightarrow> \<not> (- (2 ^ 63) \<le> sint (dw q) \<and> sint (dw q) < 2 ^ 63)"
      unfolding l using sint_ucast_eq [where 'a = 64, of "dw q"] by simp
    then have bad: "(sint (lo q) < 0 \<and> sint (hi q) \<noteq> - 1) \<or> (sint (lo q) \<ge> 0 \<and> hi q \<noteq> 0) \<longleftrightarrow>
        sint (dw ?a) sdiv sint d < - (2 ^ 63) \<or> 2 ^ 63 \<le> sint (dw ?a) sdiv sint d"
      unfolding fit c(1) by auto
    have r: "r = word_of_int (sint (dw ?a) smod sint d)" unfolding c(2) [symmetric] by simp
    have q: "lo q = word_of_int (sint (dw ?a) sdiv sint d)" unfolding c(1) [symmetric] l
      by (intro bit_word_eqI) (auto simp: bit_simps)
    have both: "thn (divide_error_if A) (thn (divide_error_if B) g) = (if A \<or> B then RaiseDivideError else g)" for A B g
      by (simp add: divide_error)
    have d: "(d = 0) = False" "(l = 0 \<and> h = 0x8000000000000000) = False" using False ne by simp_all
    show ?thesis
      unfolding x signed_quotient_def Let_def qr split_conv both bad unfolding q r d by simp
  qed
qed (simp add: divide_error seq_trap signed_quotient_def)

text \<open>C20: Signed division at every width truncates towards zero, the remainder taking the sign of the dividend;
  the divide error is raised, and no register changed, exactly when the divisor is zero or the quotient does not
  fit the operand, which includes the most negative dividend the code tests for separately.\<close>

theorem divide_signed_correct:
  "OpDivAlAhAxEbSigned rde disp uimm0 =
     seq (rd Get16 AX) (\<lambda>x. seq (GetModrmRegisterBytePointerRead1 rde disp uimm0) (\<lambda>p. seq (rd Load8 p) (\<lambda>y.
     divide_or_trap (signed_quotient x (to_u8 y)) (\<lambda>q r. thn (wr Put8 AX q) (wr Put8 AH r))))) \<and>
   OpDivRdxRaxEvqpSigned16 p =
     seq (rd Get16 DX) (\<lambda>h. seq (rd Get16 AX) (\<lambda>l. seq (rd Load16 p) (\<lambda>y.
     divide_or_trap (signed_quotient (word_cat h l :: u32) (to_u16 y)) (\<lambda>q r. thn (wr Put16 AX q) (wr Put16 DX r))))) \<and>
   OpDivRdxRaxEvqpSigned32 p =
     seq (rd Get32 DX) (\<lambda>h. seq (rd Get32 AX) (\<lambda>l. seq (rd Load32 p) (\<lambda>y.
     divide_or_trap (signed_quotient (word_cat h l :: u64) (to_u32 y))
       (\<lambda>q r. thn (wr Put64 AX (ucast q)) (wr Put64 DX (ucast r)))))) \<and>
   OpDivRdxRaxEvqpSigned64 p =
     seq (rd Get64 AX) (\<lambda>l. seq (rd Get64 DX) (\<lambda>h. seq (rd Load64 p) (\<lambda>y.
     divide_or_trap (signed_quotient (word_cat h l :: 128 word) y) (\<lambda>q r. thn (wr Put64 AX q) (wr Put64 DX r)))))"
proof (intro conjI)
  have m: "x = w \<longleftrightarrow> sint x = sint w" for x w :: "'a::len word" using sint_eqI by auto
  show "OpDivAlAhAxEbSigned rde disp uimm0 =
     seq (rd Get16 AX) (\<lambda>x. seq (GetModrmRegisterBytePointerRead1 rde disp uimm0) (\<lambda>p. seq (rd Load8 p) (\<lambda>y.
     divide_or_trap (signed_quotient x (to_u8 y)) (\<lambda>q r. thn (wr Put8 AX q) (wr Put8 AH r)))))"
    unfolding OpDivAlAhAxEbSigned_def
    by (subst body_signed [where M = "0x8000", symmetric]) (simp_all only: Let_def, simp_all add: m)
  show "OpDivRdxRaxEvqpSigned16 p =
     seq (rd Get16 DX) (\<lambda>h. seq (rd Get16 AX) (\<lambda>l. seq (rd Load16 p) (\<lambda>y.
     divide_or_trap (signed_quotient (word_cat h l :: u32) (to_u16 y)) (\<lambda>q r. thn (wr Put16 AX q) (wr Put16 DX r)))))"
    unfolding OpDivRdxRaxEvqpSigned16_def
    by (subst body_signed [where M = "0x80000000", symmetric]) (simp_all only: Let_def concat_halves, simp_all add: m)
  show "OpDivRdxRaxEvqpSigned32 p =
     seq (rd Get32 DX) (\<lambda>h. seq (rd Get32 AX) (\<lambda>l. seq (rd Load32 p) (\<lambda>y.
     divide_or_trap (signed_quotient (word_cat h l :: u64) (to_u32 y))
       (\<lambda>q r. thn (wr Put64 AX (ucast q)) (wr Put64 DX (ucast r))))))"
    unfolding OpDivRdxRaxEvqpSigned32_def
    by (subst body_signed [where M = "0x8000000000000000", symmetric]) (simp_all only: Let_def concat_halves, simp_all add: m)
  show "OpDivRdxRaxEvqpSigned64 p =
     seq (rd Get64 AX) (\<lambda>l. seq (rd Get64 DX) (\<lambda>h. seq (rd Load64 p) (\<lambda>y.
     divide_or_trap (signed_quotient (word_cat h l :: 128 word) y) (\<lambda>q r. thn (wr Put64 AX q) (wr Put64 DX r)))))"
    unfolding OpDivRdxRaxEvqpSigned64_def body_signed64 [symmetric] Let_def Dubble.select_convs ..
qed

section \<open>What the multiplications compute\<close>

definition signed_product :: "'a::len word \<Rightarrow> 'a word \<Rightarrow> 'a word \<times> bool" where
  "signed_product x y =
     (let p = sint x * sint y in
      (word_of_int p, p < - (2 ^ (LENGTH('a) - 1)) \<or> 2 ^ (LENGTH('a) - 1) \<le> p))"

lemma signed_wide:
  fixes x y :: "'a::len word"
  assumes ab: "LENGTH('b) = 2 * LENGTH('a)"
  defines "z \<equiv> scast x * scast y :: 'b::len word"
  shows "signed_product x y = (ucast z, z \<noteq> scast (ucast z :: 'a word))"
proof -
  let ?n = "LENGTH('a)" and ?p = "sint x * sint y"
  have z: "z = word_of_int ?p" by (simp add: z_def)
  have "\<bar>?p\<bar> \<le> 2 ^ (?n - 1) * 2 ^ (?n - 1)"
    unfolding abs_mult by (intro mult_mono magnitude_le) simp_all
  also have "\<dots> < (2::int) ^ (LENGTH('b) - 1)" 
  proof -
    have "(?n - 1) + (?n - 1) < LENGTH('b) - 1" using ab len_gt_0 [where 'a = 'a] by linarith
    then show ?thesis by (simp flip: power_add)
  qed
  finally have p: "sint z = ?p" unfolding z by (intro sint_of_int) linarith+
  have "z \<noteq> scast (ucast z :: 'a word) \<longleftrightarrow> sint z \<noteq> sint (ucast z :: 'a word)"
  proof -
    have "sint (scast (ucast z :: 'a word) :: 'b word) = sint (ucast z :: 'a word)"
      using ab by (intro sint_up_scast) (simp add: is_up)
    then show ?thesis by (metis sint_eqI)
  qed
  also have "\<dots> \<longleftrightarrow> ?p < - (2 ^ (?n - 1)) \<or> 2 ^ (?n - 1) \<le> ?p"
    using sint_ucast_eq [where 'a = 'a, of z] ab by (auto simp: p)
  moreover have "(ucast z :: 'a word) = word_of_int ?p"
    unfolding z using ab by (intro ucast_of_int) simp
  ultimately show ?thesis unfolding signed_product_def Let_def by simp
qed

lemma product_double:
  "signed_product x y = (let p = DubbleImul x y in (lo p, hi p + shr (lo p) 63 \<noteq> 0))"
proof -
  let ?p = "sint x * sint y" and ?d = "DubbleImul x y"
  have "\<bar>?p\<bar> \<le> 2 ^ 63 * 2 ^ 63"
    unfolding abs_mult using magnitude_le [of x] magnitude_le [of y] by (intro mult_mono) simp_all
  then have p: "sint (dw ?d) = ?p" unfolding DubbleImul_correct by (intro sint_of_int) simp_all
  have l: "lo ?d = ucast (dw ?d)" by (rule bit_word_eqI) (simp add: bit_unsigned_iff bit_dw)
  have "hi ?d + shr (lo ?d) 63 \<noteq> 0 \<longleftrightarrow> sint (dw ?d) \<noteq> sint (lo ?d)" by (rule fits_low)
  also have "\<dots> \<longleftrightarrow> ?p < - (2 ^ 63) \<or> 2 ^ 63 \<le> ?p"
    unfolding l using sint_ucast_eq [where 'a = 64, of "dw ?d"] by (auto simp: p)
  finally have "hi ?d + shr (lo ?d) 63 \<noteq> 0 \<longleftrightarrow> ?p < - (2 ^ 63) \<or> 2 ^ 63 \<le> ?p" .
  moreover have "lo ?d = word_of_int ?p"
    unfolding l DubbleImul_correct by (rule ucast_of_int) simp
  ultimately show ?thesis unfolding signed_product_def Let_def by simp
qed

text \<open>C21: Multiplication. The two-operand IMUL writes the low half of the signed product and sets the carry and the
  overflow flag exactly when the product does not fit, at every width; the 64-bit MUL and IMUL write both
  halves of the product, by the portable double-word multiplication, with the flags telling whether the
  high half is needed; MULX writes both halves and leaves the flags.\<close>

theorem multiply_correct:
  "AluImul rde a b =
     (if Rexw rde \<noteq> 0 then
        seq (rd Get64 a) (\<lambda>x. seq (rd Load64 b) (\<lambda>y.
        case signed_product x y of (z, big) \<Rightarrow> thn (wr Put64 (RegRexrReg rde) z) (set_carry_overflow big)))
      else if Osz rde = 0 then
        seq (rd Get32 a) (\<lambda>x. seq (rd Load32 b) (\<lambda>y.
        case signed_product x (to_u32 y) of (z, big) \<Rightarrow> thn (wr Put64 (RegRexrReg rde) (ucast z)) (set_carry_overflow big)))
      else
        seq (rd Get16 a) (\<lambda>x. seq (rd Load16 b) (\<lambda>y.
        case signed_product x (to_u16 y) of (z, big) \<Rightarrow> thn (wr Put16 (RegRexrReg rde) z) (set_carry_overflow big)))) \<and>
   OpMulRdxRaxEvqpSigned64 x =
     seq (rd Get64 AX) (\<lambda>a.
     let p = (word_of_int (sint a * sint x) :: 128 word) in
     thn (wr Put64 AX (ucast p)) (thn (wr Put64 DX (ucast (shr p 64)))
     (set_carry_overflow (sint a * sint x < - (2 ^ 63) \<or> 2 ^ 63 \<le> sint a * sint x)))) \<and>
   OpMulRdxRaxEvqpUnsigned64 x =
     seq (rd Get64 AX) (\<lambda>a.
     let p = (word_of_nat (unat a * unat x) :: 128 word) in
     thn (wr Put64 AX (ucast p)) (thn (wr Put64 DX (ucast (shr p 64)))
     (set_carry_overflow (2 ^ 64 \<le> unat a * unat x)))) \<and>
   (let f = m_flags (snd (set_carry_overflow big m)) in
      GetFlag f FLAGS_CF = big \<and> GetFlag f FLAGS_OF = big)"
proof (intro conjI)
  have halves: "lo d = ucast (dw d)" "hi d = ucast (shr (dw d) 64)" for d
    by (rule bit_word_eqI; simp add: bit_unsigned_iff bit_dw bit_drop_bit_eq)+
  have w32: "signed_product u (to_u32 v) = (let z = scast u * scast (to_u32 v) :: u64 in (ucast z, z \<noteq> scast (to_u32 z)))" for u v
    using signed_wide [where 'a = 32 and 'b = 64, of u "to_u32 v"] by (simp only: Let_def) simp
  have w16: "signed_product u (to_u16 v) = (let z = scast u * scast (to_u16 v) :: u32 in (ucast z, z \<noteq> scast (to_u16 z)))" for u v
    using signed_wide [where 'a = 16 and 'b = 32, of u "to_u16 v"] by (simp only: Let_def) simp
  show "AluImul rde a b =
     (if Rexw rde \<noteq> 0 then
        seq (rd Get64 a) (\<lambda>x. seq (rd Load64 b) (\<lambda>y.
        case signed_product x y of (z, big) \<Rightarrow> thn (wr Put64 (RegRexrReg rde) z) (set_carry_overflow big)))
      else if Osz rde = 0 then
        seq (rd Get32 a) (\<lambda>x. seq (rd Load32 b) (\<lambda>y.
        case signed_product x (to_u32 y) of (z, big) \<Rightarrow> thn (wr Put64 (RegRexrReg rde) (ucast z)) (set_carry_overflow big)))
      else
        seq (rd Get16 a) (\<lambda>x. seq (rd Load16 b) (\<lambda>y.
        case signed_product x (to_u16 y) of (z, big) \<Rightarrow> thn (wr Put16 (RegRexrReg rde) z) (set_carry_overflow big))))"
    unfolding AluImul_def w32 w16 product_double Let_def split_conv seq_if seq_assoc by (simp only: seq_ret)
  show "OpMulRdxRaxEvqpSigned64 x =
     seq (rd Get64 AX) (\<lambda>a.
     let p = (word_of_int (sint a * sint x) :: 128 word) in
     thn (wr Put64 AX (ucast p)) (thn (wr Put64 DX (ucast (shr p 64)))
     (set_carry_overflow (sint a * sint x < - (2 ^ 63) \<or> 2 ^ 63 \<le> sint a * sint x))))"
  proof -
    have "hi (DubbleImul a x) + shr (lo (DubbleImul a x)) 63 \<noteq> 0 \<longleftrightarrow>
        sint a * sint x < - (2 ^ 63) \<or> 2 ^ 63 \<le> sint a * sint x" for a
      using product_double [of a x] unfolding signed_product_def Let_def by simp
    then show ?thesis
      unfolding OpMulRdxRaxEvqpSigned64_def Let_def by (simp only: halves DubbleImul_correct)
  qed
  show "OpMulRdxRaxEvqpUnsigned64 x =
     seq (rd Get64 AX) (\<lambda>a.
     let p = (word_of_nat (unat a * unat x) :: 128 word) in
     thn (wr Put64 AX (ucast p)) (thn (wr Put64 DX (ucast (shr p 64)))
     (set_carry_overflow (2 ^ 64 \<le> unat a * unat x))))"
  proof -
    have "hi (DubbleMul a x) \<noteq> 0 \<longleftrightarrow> 2 ^ 64 \<le> unat a * unat x" for a
    proof -
      have "unat (hi (DubbleMul a x)) = unat a * unat x div 2 ^ 64"
        using dval_parts(2) [of "DubbleMul a x"] by (simp only: dval_Mul)
      then show ?thesis by (auto simp: unat_eq_zero [symmetric] div_eq_0_iff not_less)
    qed
    then show ?thesis
      unfolding OpMulRdxRaxEvqpUnsigned64_def Let_def by (simp only: halves dw_of_nat dval_Mul)
  qed
  show "let f = m_flags (snd (set_carry_overflow big m)) in
      GetFlag f FLAGS_CF = big \<and> GetFlag f FLAGS_OF = big"
    by (simp add: set_carry_overflow_def modify_def GetFlag_SetFlag)
qed

end
