(* ===== verification/Safe.thy ===== *)
theory Safe
  imports Memory
begin

text \<open>
  Total correctness of operations: a triple, and the rules for operations that end and keep an invariant.
\<close>

section \<open>Total correctness\<close>

text \<open>
  From a machine with \<open>P\<close> the operation does not diverge, and if it returns, \<open>Q\<close> holds. Stopping in a trap, a failed assertion
  or an exit of the process is allowed.
\<close>

definition triple :: "(Machine \<Rightarrow> bool) \<Rightarrow> 'a exec \<Rightarrow> ('a \<Rightarrow> Machine \<Rightarrow> bool) \<Rightarrow> bool" where
  "triple P f Q \<longleftrightarrow> (\<forall>m. P m \<longrightarrow> (case f m of
     (Return a, m') \<Rightarrow> Q a m'
   | (Diverge, _) \<Rightarrow> False
   | _ \<Rightarrow> True))"

definition safe :: "(Machine \<Rightarrow> bool) \<Rightarrow> 'a exec \<Rightarrow> bool" where
  "safe I f \<longleftrightarrow> triple I f (\<lambda>_. I)"

named_theorems safe_intros "operations that end and keep an invariant"

lemma triple_seq:
  assumes "triple P f R" "\<And>a. triple (R a) (g a) Q"
  shows "triple P (seq f g) Q"
  unfolding triple_def
proof (intro allI impI)
  fix m assume "P m"
  then show "case seq f g m of (Return a, m') \<Rightarrow> Q a m' | (Diverge, _) \<Rightarrow> False | _ \<Rightarrow> True"
    using assms by (fastforce simp: triple_def split: outcome.splits prod.splits)
qed

lemma triple_ret: "(\<And>m. P m \<Longrightarrow> Q a m) \<Longrightarrow> triple P (ret a) Q"
  by (simp add: triple_def ret_def)

lemma triple_gets: "(\<And>m. P m \<Longrightarrow> Q (f m) m) \<Longrightarrow> triple P (gets f) Q"
  by (simp add: triple_def gets_def)

lemma triple_modify: "(\<And>m. P m \<Longrightarrow> Q () (f m)) \<Longrightarrow> triple P (modify f) Q"
  by (simp add: triple_def modify_def)

lemma triple_unassert: "(\<And>m. P m \<Longrightarrow> b \<Longrightarrow> Q () m) \<Longrightarrow> triple P (unassert b) Q"
  by (simp add: triple_def unassert_def)

lemma triple_leave: "triple P leave Q"
  by (simp add: triple_def leave_def)

lemma triple_rd: "(\<And>m. P m \<Longrightarrow> Q (f (region p m) (offset p)) m) \<Longrightarrow> triple P (rd f p) Q"
  unfolding rd_def by (rule triple_gets)

lemma triple_weaken: "triple P f Q \<Longrightarrow> (\<And>m. P' m \<Longrightarrow> P m) \<Longrightarrow> (\<And>a m. Q a m \<Longrightarrow> Q' a m) \<Longrightarrow> triple P' f Q'"
  unfolding triple_def by (fastforce split: outcome.splits prod.splits)

lemma triple_pre: "triple P f Q \<Longrightarrow> (\<And>m. P' m \<Longrightarrow> P m) \<Longrightarrow> triple P' f Q"
  by (auto intro: triple_weaken)

lemma triple_if:
  "(b \<Longrightarrow> triple P f Q) \<Longrightarrow> (\<not> b \<Longrightarrow> triple P g Q) \<Longrightarrow> triple P (if b then f else g) Q"
  by simp

lemma triple_fixed: "(\<And>m. P m \<Longrightarrow> triple (\<lambda>k. k = m) f Q) \<Longrightarrow> triple P f Q"
  by (simp add: triple_def)

lemma triple_at: "triple (\<lambda>k. k = m) f Q \<longleftrightarrow> (case f m of
     (Return a, m') \<Rightarrow> Q a m' | (Diverge, _) \<Rightarrow> False | _ \<Rightarrow> True)"
  by (simp add: triple_def)

lemma triple_pure: "(c \<Longrightarrow> triple P f Q) \<Longrightarrow> triple (\<lambda>m. c \<and> P m) f Q"
  by (simp add: triple_def)

lemma triple_ex:
  assumes "\<And>c. A c \<Longrightarrow> triple (P c) f Q"
  shows "triple (\<lambda>m. \<exists>c. P c m \<and> A c) f Q"
proof (rule triple_fixed)
  fix m assume "\<exists>c. P c m \<and> A c"
  then obtain c where "P c m" "A c" by blast
  then show "triple (\<lambda>k. k = m) f Q" by (intro triple_pre [OF assms]) simp_all
qed

lemma triple_of_safe: "safe I f \<Longrightarrow> triple I f (\<lambda>_. I)"
  by (simp add: safe_def)

section \<open>Rules for invariants\<close>

lemma safe_seq [safe_intros]: "safe I f \<Longrightarrow> (\<And>a. safe I (g a)) \<Longrightarrow> safe I (seq f g)"
  unfolding safe_def by (rule triple_seq)

lemma safe_ret [safe_intros]: "safe I (ret a)"
  by (simp add: safe_def triple_ret)

lemma safe_gets [safe_intros]: "safe I (gets f)"
  by (simp add: safe_def triple_gets)

lemma safe_unassert [safe_intros]: "safe I (unassert b)"
  by (simp add: safe_def triple_unassert)

lemma safe_leave [safe_intros]: "safe I leave"
  by (simp add: safe_def triple_leave)

lemma safe_rd [safe_intros]: "safe I (rd f p)"
  by (simp add: safe_def triple_rd)

lemma safe_if [safe_intros]: "(b \<Longrightarrow> safe I f) \<Longrightarrow> (\<not> b \<Longrightarrow> safe I g) \<Longrightarrow> safe I (if b then f else g)"
  by simp

lemma safe_let [safe_intros]: "safe I (f x) \<Longrightarrow> safe I (Let x f)"
  by simp

lemma safe_prod [safe_intros]: "(\<And>a b. safe I (f a b)) \<Longrightarrow> safe I (case_prod f p)"
  by (simp split: prod.split)

lemma safe_option [safe_intros]: "safe I f \<Longrightarrow> (\<And>a. safe I (g a)) \<Longrightarrow> safe I (case_option f g x)"
  by (simp split: option.split)

lemma safe_modify: "(\<And>m. I m \<Longrightarrow> I (f m)) \<Longrightarrow> safe I (modify f)"
  by (simp add: safe_def triple_modify)

lemma safe_HaltMachine [safe_intros]: "safe I (HaltMachine c)"
  by (simp add: safe_def triple_def HaltMachine_def Let_def split: if_splits)

end
