(* ===== verification/PoolSpec.thy ===== *)
theory PoolSpec
  imports Safe
begin

text \<open>
  The page pool: what growing and handing out pages keeps and promises.
\<close>

section \<open>The page pool\<close>

text \<open>A pool holds whole pages, at least one, and no more are handed out than it holds.\<close>

definition pool_ok :: "Machine \<Rightarrow> bool" where
  "pool_ok m \<longleftrightarrow> 4096 \<le> g_pagepool_capacity m \<and> 4096 dvd g_pagepool_capacity m \<and>
     g_pagepool_next_page m * 4096 \<le> g_pagepool_capacity m"

text \<open>The machine without what finding and making a page may change.\<close>

definition outside :: "Machine \<Rightarrow> Machine" where
  "outside m = m\<lparr>m_segvcode := 0, g_errno := EOK,
     m_pagelocks := [], s_rss := 0, s_reserved := 0, s_committed := 0, g_hostpages_n := 0, g_hostpages_p := \<lambda>_. 0,
     g_allocator_pages := [], g_pagepool_base := 0, g_pagepool_capacity := 0, g_pagepool_next_page := 0,
     h_allocs := [], h_ram := \<lambda>_. 0\<rparr>"

definition live :: "(Machine \<Rightarrow> bool) \<Rightarrow> Machine \<Rightarrow> bool" where
  "live Z m \<longleftrightarrow> pool_ok m \<and> \<not> m_insyscall m \<and> Z (outside m)"

lemma live_modify:
  assumes "\<And>m. outside (f m) = outside m" "\<And>m. pool_ok (f m) = pool_ok m" "\<And>m. m_insyscall (f m) = m_insyscall m"
  shows "safe (live Z) (modify f)"
  by (rule safe_modify) (simp add: live_def assms)

lemma safe_aligned_alloc [safe_intros]: "safe (live Z) aligned_alloc"
  by (simp add: safe_def triple_def aligned_alloc_def live_def pool_ok_def outside_def split: list.split)

lemma grow_capacity: "4096 dvd (c::nat) \<Longrightarrow> c div 4096 * 2 * 4096 = 2 * c"
  by auto

lemma GrowPagePool_ok:
  assumes "4096 dvd c" "4096 \<le> c"
  shows "triple (\<lambda>m. live Z m \<and> g_pagepool_capacity m = c \<and> g_pagepool_next_page m = n)
           (GrowPagePool (c div 4096 * 2))
           (\<lambda>_ m. live Z m \<and> g_pagepool_capacity m = 2 * c \<and> g_pagepool_next_page m = n)"
proof -
  have "4096 \<le> 2 * c" "4096 dvd 2 * c" using assms by auto
  then show ?thesis
    unfolding GrowPagePool_def Let_def grow_capacity [OF assms(1)]
    by (simp add: triple_def aligned_alloc_def fill_bytes_def copy_bytes_def exec_simps live_def pool_ok_def outside_def
        split: list.split)
qed

declare seq.simps [simp del]

lemma triple_seq_gets: "(\<And>x. triple (\<lambda>m. P m \<and> f m = x) (g x) Q) \<Longrightarrow> triple P (seq (gets f) g) Q"
  by (simp add: triple_def seq_gets)

lemma grow_until_ok:
  assumes "(p + count) * 4096 \<le> c + n * 4096" "4096 dvd c" "4096 \<le> c"
  shows "triple (\<lambda>m. live Z m \<and> g_pagepool_capacity m = c \<and> g_pagepool_next_page m = p)
           (grow_until n count)
           (\<lambda>_ m. live Z m \<and> g_pagepool_next_page m = p \<and> (p + count) * 4096 \<le> g_pagepool_capacity m)"
  using assms
proof (induction n arbitrary: c)
  case 0
  then show ?case
    by (simp add: triple_def exec_simps)
next
  case (Suc n)
  have round: "triple (\<lambda>m. live Z m \<and> g_pagepool_capacity m = c \<and> g_pagepool_next_page m = p)
      (thn (seq (gets (\<lambda>m. g_pagepool_capacity m div 4096 * 2)) GrowPagePool) (grow_until n count))
      (\<lambda>_ m. live Z m \<and> g_pagepool_next_page m = p \<and> (p + count) * 4096 \<le> g_pagepool_capacity m)"
  proof (rule triple_seq)
    show "triple (\<lambda>m. live Z m \<and> g_pagepool_capacity m = c \<and> g_pagepool_next_page m = p)
        (seq (gets (\<lambda>m. g_pagepool_capacity m div 4096 * 2)) GrowPagePool)
        (\<lambda>_ m. live Z m \<and> g_pagepool_capacity m = 2 * c \<and> g_pagepool_next_page m = p)"
      using GrowPagePool_ok [OF Suc.prems(2,3), of Z p] by (simp add: triple_def seq_gets)
  next
    fix u
    show "triple (\<lambda>m. live Z m \<and> g_pagepool_capacity m = 2 * c \<and> g_pagepool_next_page m = p)
        (grow_until n count)
        (\<lambda>_ m. live Z m \<and> g_pagepool_next_page m = p \<and> (p + count) * 4096 \<le> g_pagepool_capacity m)"
      using Suc.prems by (intro Suc.IH) auto
  qed
  show ?case
  proof (cases "(p + count) * 4096 \<le> c")
    case True
    then show ?thesis by (auto simp: triple_def exec_simps)
  next
    case False
    have "triple (\<lambda>m. live Z m \<and> g_pagepool_capacity m = c \<and> g_pagepool_next_page m = p)
      (grow_until (Suc n) count) Q = triple (\<lambda>m. live Z m \<and> g_pagepool_capacity m = c \<and> g_pagepool_next_page m = p)
      (thn (seq (gets (\<lambda>m. g_pagepool_capacity m div 4096 * 2)) GrowPagePool) (grow_until n count)) Q" for Q
      using False by (auto simp: triple_def seq_gets)
    then show ?thesis using round by simp
  qed
qed

lemma AllocPoolPages_from:
  assumes m: "live Z m"
  shows "triple (\<lambda>k. k = m) (AllocPoolPages count)
     (\<lambda>page k. live Z k \<and> page = g_pagepool_base k + g_pagepool_next_page m * 4096 \<and>
        g_pagepool_next_page k = g_pagepool_next_page m + count)"
proof -
  let ?p = "g_pagepool_next_page m" and ?c = "g_pagepool_capacity m"
  have "4096 dvd ?c" "4096 \<le> ?c" using m by (auto simp: live_def pool_ok_def)
  then have *: "triple (\<lambda>k. live Z k \<and> g_pagepool_capacity k = ?c \<and> g_pagepool_next_page k = ?p)
      (grow_until (?p + count) count)
      (\<lambda>_ k. live Z k \<and> g_pagepool_next_page k = ?p \<and> (?p + count) * 4096 \<le> g_pagepool_capacity k)"
    by (intro grow_until_ok) simp_all
  show ?thesis
    unfolding AllocPoolPages_def
  proof (rule triple_seq)
    show "triple (\<lambda>k. k = m) (seq (gets (\<lambda>m. g_pagepool_next_page m + count)) (\<lambda>n. grow_until n count))
      (\<lambda>_ k. live Z k \<and> g_pagepool_next_page k = ?p \<and> (?p + count) * 4096 \<le> g_pagepool_capacity k)"
      using * m by (simp add: triple_def seq_gets del: grow_until.simps)
  next
    fix u
    show "triple (\<lambda>k. live Z k \<and> g_pagepool_next_page k = ?p \<and> (?p + count) * 4096 \<le> g_pagepool_capacity k)
       (seq (gets (\<lambda>m. g_pagepool_base m + g_pagepool_next_page m * 4096)) (\<lambda>base.
         thn (modify (\<lambda>m. m\<lparr>g_pagepool_next_page := g_pagepool_next_page m + count\<rparr>)) (ret base)))
       (\<lambda>page k. live Z k \<and> page = g_pagepool_base k + ?p * 4096 \<and> g_pagepool_next_page k = ?p + count)"
      by (simp add: triple_def exec_simps live_def pool_ok_def outside_def algebra_simps)
  qed
qed

lemma AllocPoolPages_ok:
  "triple (live Z) (AllocPoolPages count)
     (\<lambda>page m. live Z m \<and> page + count * 4096 = g_pagepool_base m + g_pagepool_next_page m * 4096)"
  by (rule triple_fixed) (auto intro!: triple_weaken [OF AllocPoolPages_from])

lemma AllocPoolPage_ok:
  "triple (live Z) AllocPoolPage
     (\<lambda>page m. live Z m \<and> page + 4096 = g_pagepool_base m + g_pagepool_next_page m * 4096)"
  unfolding AllocPoolPage_def
proof (rule triple_seq)
  show "triple (live Z)
      (seq (gets (\<lambda>m. g_pagepool_next_page m * 4096 \<ge> g_pagepool_capacity m)) (\<lambda>full.
       if full then seq (gets (\<lambda>m. g_pagepool_capacity m div 4096 * 2)) GrowPagePool else ret ()))
      (\<lambda>_ m. live Z m \<and> (g_pagepool_next_page m + 1) * 4096 \<le> g_pagepool_capacity m)"
  proof (rule triple_fixed)
    fix m assume m: "live Z m"
    let ?p = "g_pagepool_next_page m" and ?c = "g_pagepool_capacity m"
    have c: "4096 dvd ?c" "4096 \<le> ?c" "?p * 4096 \<le> ?c" using m by (auto simp: live_def pool_ok_def)
    have full: "(?p + 1) * 4096 \<le> 2 * ?c" "\<not> ?c \<le> ?p * 4096 \<Longrightarrow> (?p + 1) * 4096 \<le> ?c"
      using c by (auto elim!: dvdE)
    have grown: "triple (\<lambda>k. k = m) (GrowPagePool (?c div 4096 * 2))
        (\<lambda>_ m. live Z m \<and> (g_pagepool_next_page m + 1) * 4096 \<le> g_pagepool_capacity m)"
      by (rule triple_weaken [OF GrowPagePool_ok [OF c(1,2), of Z ?p]]) (use m full in auto)
    show "triple (\<lambda>k. k = m)
      (seq (gets (\<lambda>m. g_pagepool_next_page m * 4096 \<ge> g_pagepool_capacity m)) (\<lambda>full.
       if full then seq (gets (\<lambda>m. g_pagepool_capacity m div 4096 * 2)) GrowPagePool else ret ()))
      (\<lambda>_ m. live Z m \<and> (g_pagepool_next_page m + 1) * 4096 \<le> g_pagepool_capacity m)"
    proof (cases "?c \<le> ?p * 4096")
      case True
      then show ?thesis using grown by (simp only: triple_at seq_gets if_True)
    next
      case False
      then show ?thesis using m full(2) by (simp add: triple_at seq_gets ret_def)
    qed
  qed
next
  fix u
  show "triple (\<lambda>m. live Z m \<and> (g_pagepool_next_page m + 1) * 4096 \<le> g_pagepool_capacity m)
      (seq (gets (\<lambda>m. g_pagepool_base m + g_pagepool_next_page m * 4096)) (\<lambda>page.
      thn (modify (\<lambda>m. m\<lparr>g_pagepool_next_page := g_pagepool_next_page m + 1\<rparr>)) (ret page)))
      (\<lambda>page m. live Z m \<and> page + 4096 = g_pagepool_base m + g_pagepool_next_page m * 4096)"
    by (simp add: triple_def exec_simps live_def pool_ok_def outside_def algebra_simps)
qed

lemma TrackHostPage_ok:
  "triple (\<lambda>m. live Z m \<and> h_ram m = s) (TrackHostPage p) (\<lambda>_ m. live Z m \<and> h_ram m = s)"
  by (simp add: TrackHostPage_def triple_def exec_simps ret_def live_def pool_ok_def outside_def)

section \<open>Anonymous pages\<close>

lemma take_free_page:
  "triple (\<lambda>m. live Z m \<and> h_ram m = s \<and> g_allocator_pages m \<noteq> []) AllocateAnonymousPage
     (\<lambda>_ m. live Z m \<and> h_ram m = s)"
  unfolding AllocateAnonymousPage_def
proof (rule triple_seq)
  show "triple (\<lambda>m. live Z m \<and> h_ram m = s \<and> g_allocator_pages m \<noteq> [])
     (seq (gets g_allocator_pages) (\<lambda>pages.
       case pages of
         h # rest \<Rightarrow> thn (modify (g_allocator_pages_update (\<lambda>_. rest))) (ret h)
       | [] \<Rightarrow>
           seq (AllocPoolPages 64) (\<lambda>page.
           thn (modify (\<lambda>m. m\<lparr>g_allocator_pages := fold (\<lambda>i ps. (page + i * 4096) # ps) (rev [1..<64]) (g_allocator_pages m)\<rparr>))
           (ret page))))
     (\<lambda>_ m. live Z m \<and> h_ram m = s)"
    by (auto simp: triple_def seq_gets seq_modify ret_def live_def pool_ok_def outside_def neq_Nil_conv)
next
  fix page
  show "triple (\<lambda>m. live Z m \<and> h_ram m = s)
     (thn (modify (\<lambda>m. m\<lparr>s_rss := s_rss m + 1\<rparr>))
     (seq (TrackHostPage page) (\<lambda>i.
      thn (unassert (i AND NOT PAGE_TA = 0))
      (ret (i OR PAGE_HOST OR PAGE_U OR PAGE_RW OR PAGE_V)))))
     (\<lambda>_ m. live Z m \<and> h_ram m = s)"
    by (simp add: triple_def TrackHostPage_def exec_simps seq_assoc ret_def live_def pool_ok_def outside_def)
qed

lemma safe_AllocPoolPages [safe_intros]: "safe (live Z) (AllocPoolPages n)"
  unfolding safe_def by (rule triple_weaken [OF AllocPoolPages_ok]) auto

lemma safe_TrackHostPage [safe_intros]: "safe (live Z) (TrackHostPage p)"
  unfolding TrackHostPage_def by (intro safe_intros live_modify) (simp_all add: outside_def pool_ok_def)

lemma safe_list [safe_intros]: "safe I f \<Longrightarrow> (\<And>a b. safe I (g a b)) \<Longrightarrow> safe I (case_list f g x)"
  by (simp split: list.split)

lemma safe_AllocateAnonymousPage [safe_intros]: "safe (live Z) AllocateAnonymousPage"
  unfolding AllocateAnonymousPage_def
  by (intro safe_intros live_modify) (simp_all add: outside_def pool_ok_def)

lemma safe_LoadPte [safe_intros]: "safe I (LoadPte p)"
  unfolding LoadPte_def by (rule safe_rd)

lemma safe_live_wr: "safe (live Z) (wr f (Host p) x)"
  unfolding wr_def by (intro live_modify) (simp_all add: outside_def pool_ok_def)

lemma safe_CasPte [safe_intros]: "safe (live Z) (CasPte p x y)"
  unfolding CasPte_def by (intro safe_intros safe_live_wr)

lemma safe_FreeAnonymousPage [safe_intros]: "safe (live Z) (FreeAnonymousPage p)"
  unfolding FreeAnonymousPage_def by (intro live_modify) (simp_all add: outside_def pool_ok_def)

section \<open>Page faults\<close>

definition stores :: "nat \<Rightarrow> u64 \<Rightarrow> Machine \<Rightarrow> bool" where
  "stores p e m \<longleftrightarrow> Get64 (h_ram m) p = e"

lemma CasPte_hit:
  "triple (\<lambda>m. live Z m \<and> stores p e m) (CasPte p e x) (\<lambda>ok m. live Z m \<and> ok)"
  by (simp add: triple_def CasPte_def rd_def wr_def stores_def exec_simps seq_assoc ret_def live_def pool_ok_def outside_def)

lemma CasPte_miss:
  "triple (live Z) (CasPte p e x) (\<lambda>ok m. live Z m)"
  using safe_CasPte by (simp add: safe_def)

lemma LoadPte_stores:
  "triple P (LoadPte p) (\<lambda>e m. P m \<and> stores p e m)"
  by (simp add: LoadPte_def triple_def rd_def gets_def stores_def)

lemma FreeAnonymousPage_free:
  "triple (live Z) (FreeAnonymousPage p) (\<lambda>_ m. live Z m \<and> g_allocator_pages m \<noteq> [])"
  by (simp add: FreeAnonymousPage_def triple_def modify_def live_def pool_ok_def outside_def)

definition fault_step :: "nat \<Rightarrow> u64 \<Rightarrow> u64 exec" where
  "fault_step pslot entry =
      (if entry AND (PAGE_HOST OR PAGE_MAP OR PAGE_MUG) \<noteq> 0 then
         thn (unassert (entry AND (PAGE_HOST OR PAGE_MAP) = (PAGE_HOST OR PAGE_MAP)))
         (let x = entry AND NOT PAGE_RSRV in
          seq (CasPte pslot entry x) (\<lambda>ok.
          if ok then
            thn (modify (\<lambda>m. m\<lparr>s_committed := s_committed m + 1, s_reserved := s_reserved m - 1, s_rss := s_rss m + 1\<rparr>))
            (ret x)
          else LoadPte pslot))
       else
         seq AllocateAnonymousPage (\<lambda>page.
         if page = - 1 then thn (modify (m_segvcode_update (\<lambda>_. SEGV_MAPERR))) (ret 0)
         else
           let x = (page AND (PAGE_TA OR PAGE_HOST)) OR (entry AND NOT (PAGE_TA OR PAGE_RSRV)) in
           seq (CasPte pslot entry x) (\<lambda>ok.
           if ok then
             thn (modify (\<lambda>m. m\<lparr>s_committed := s_committed m + 1, s_reserved := s_reserved m - 1\<rparr>)) (ret x)
           else
             thn (FreeAnonymousPage (unat (page AND PAGE_TA)))
             (seq (LoadPte pslot) (\<lambda>entry.
              thn (modify (\<lambda>m. m\<lparr>s_rss := s_rss m - 1\<rparr>)) (ret entry))))))"

lemma fault_loop_step:
  "fault_loop (Suc n) pslot entry =
     seq (fault_step pslot entry) (\<lambda>e. if e AND PAGE_RSRV \<noteq> 0 then fault_loop n pslot e else ret e)"
  by (simp only: fault_loop.simps fault_step_def)

lemma unreserved [simp]:
  "(e AND - 513) AND PAGE_RSRV = (0::u64)"
  "((p AND 0xFFFFFFFFF400) OR (e AND - 0xFFFFFFFFF201)) AND PAGE_RSRV = (0::u64)"
  by (simp_all add: bit.conj_disj_distrib2 and.assoc)

lemma fault_step_mapped:
  assumes "triple P (CasPte p e (e AND NOT PAGE_RSRV)) (\<lambda>ok m. live Z m \<and> (ok \<or> stale))"
    "e AND (PAGE_HOST OR PAGE_MAP OR PAGE_MUG) \<noteq> 0"
  shows "triple P (fault_step p e) (\<lambda>r m. live Z m \<and> (r AND PAGE_RSRV \<noteq> 0 \<longrightarrow> stale \<and> stores p r m))"
  unfolding fault_step_def if_P [OF assms(2)] Let_def
proof (rule triple_seq [OF triple_unassert triple_seq [OF assms(1)]])
  fix ok
  show "triple (\<lambda>m. live Z m \<and> (ok \<or> stale))
     (if ok then
        thn (modify (\<lambda>m. m\<lparr>s_committed := s_committed m + 1, s_reserved := s_reserved m - 1, s_rss := s_rss m + 1\<rparr>))
        (ret (e AND NOT PAGE_RSRV))
      else LoadPte p)
     (\<lambda>r m. live Z m \<and> (r AND PAGE_RSRV \<noteq> 0 \<longrightarrow> stale \<and> stores p r m))"
    by (simp add: triple_def LoadPte_def rd_def stores_def seq_modify gets_def ret_def live_def pool_ok_def outside_def)
qed simp

lemma fault_step_anonymous:
  assumes "triple P AllocateAnonymousPage (\<lambda>_ m. live Z m \<and> (stores p e m \<or> stale))"
    "e AND (PAGE_HOST OR PAGE_MAP OR PAGE_MUG) = 0"
  shows "triple P (fault_step p e) (\<lambda>r m. live Z m \<and> (r AND PAGE_RSRV \<noteq> 0 \<longrightarrow> stale \<and> stores p r m \<and> g_allocator_pages m \<noteq> []))"
    (is "triple P _ ?Q")
  unfolding fault_step_def using assms(2)
proof (simp only: not_True_eq_False if_False simp_thms, intro triple_seq [OF assms(1)] triple_if)
  fix page assume "page = (- 1 :: u64)"
  show "triple (\<lambda>m. live Z m \<and> (stores p e m \<or> stale)) (thn (modify (m_segvcode_update (\<lambda>_. SEGV_MAPERR))) (ret 0)) ?Q"
    by (simp add: triple_def seq_modify ret_def live_def pool_ok_def outside_def)
next
  fix page :: u64
  let ?x = "(page AND (PAGE_TA OR PAGE_HOST)) OR (e AND NOT (PAGE_TA OR PAGE_RSRV))"
  have cas: "triple (\<lambda>m. live Z m \<and> (stores p e m \<or> stale)) (CasPte p e ?x) (\<lambda>ok m. live Z m \<and> (ok \<or> stale))"
    by (cases stale) (simp_all add: CasPte_hit CasPte_miss)
  show "triple (\<lambda>m. live Z m \<and> (stores p e m \<or> stale))
     (let x = ?x in
      seq (CasPte p e x) (\<lambda>ok.
      if ok then
        thn (modify (\<lambda>m. m\<lparr>s_committed := s_committed m + 1, s_reserved := s_reserved m - 1\<rparr>)) (ret x)
      else
        thn (FreeAnonymousPage (unat (page AND PAGE_TA)))
        (seq (LoadPte p) (\<lambda>entry.
         thn (modify (\<lambda>m. m\<lparr>s_rss := s_rss m - 1\<rparr>)) (ret entry))))) ?Q"
    unfolding Let_def
  proof (rule triple_seq [OF cas])
    fix ok
    show "triple (\<lambda>m. live Z m \<and> (ok \<or> stale))
     (if ok then
        thn (modify (\<lambda>m. m\<lparr>s_committed := s_committed m + 1, s_reserved := s_reserved m - 1\<rparr>)) (ret ?x)
      else
        thn (FreeAnonymousPage (unat (page AND PAGE_TA)))
        (seq (LoadPte p) (\<lambda>entry.
         thn (modify (\<lambda>m. m\<lparr>s_rss := s_rss m - 1\<rparr>)) (ret entry)))) ?Q"
      by (simp add: triple_def LoadPte_def FreeAnonymousPage_def rd_def stores_def seq_modify seq_gets gets_def ret_def
          live_def pool_ok_def outside_def)
  qed
qed

text \<open>Three rounds end: from a free page and the right entry one, from the right entry two.\<close>

lemma fault_loop_fresh:
  "triple (\<lambda>m. live Z m \<and> stores p e m \<and> g_allocator_pages m \<noteq> []) (fault_loop (Suc n) p e) (\<lambda>_. live Z)"
  unfolding fault_loop_step
proof (rule triple_seq)
  show "triple (\<lambda>m. live Z m \<and> stores p e m \<and> g_allocator_pages m \<noteq> []) (fault_step p e)
      (\<lambda>r m. live Z m \<and> r AND PAGE_RSRV = 0)"
  proof (cases "e AND (PAGE_HOST OR PAGE_MAP OR PAGE_MUG) = 0")
    case True
    have "triple (\<lambda>m. live Z m \<and> stores p e m \<and> g_allocator_pages m \<noteq> []) AllocateAnonymousPage
        (\<lambda>_ m. live Z m \<and> (stores p e m \<or> False))"
      using take_free_page [of Z] by (fastforce simp: triple_def stores_def split: outcome.splits prod.splits)
    from fault_step_anonymous [OF this True] show ?thesis
      by (rule triple_weaken) auto
  next
    case False
    have "triple (\<lambda>m. live Z m \<and> stores p e m \<and> g_allocator_pages m \<noteq> []) (CasPte p e (e AND NOT PAGE_RSRV))
        (\<lambda>ok m. live Z m \<and> (ok \<or> False))"
      by (rule triple_weaken [OF CasPte_hit]) auto
    from fault_step_mapped [OF this] False show ?thesis
      by (auto intro: triple_weaken)
  qed
qed (auto intro: triple_ret simp: triple_def ret_def)

lemma fault_loop_stored:
  "triple (\<lambda>m. live Z m \<and> stores p e m) (fault_loop (Suc (Suc n)) p e) (\<lambda>_. live Z)"
  unfolding fault_loop_step [of "Suc n"]
proof (rule triple_seq)
  show "triple (\<lambda>m. live Z m \<and> stores p e m) (fault_step p e)
      (\<lambda>r m. live Z m \<and> (r AND PAGE_RSRV \<noteq> 0 \<longrightarrow> stores p r m \<and> g_allocator_pages m \<noteq> []))"
  proof (cases "e AND (PAGE_HOST OR PAGE_MAP OR PAGE_MUG) = 0")
    case True
    have "triple (\<lambda>m. live Z m \<and> stores p e m) AllocateAnonymousPage (\<lambda>_ m. live Z m \<and> (stores p e m \<or> True))"
      by (rule triple_weaken [OF safe_AllocateAnonymousPage [THEN triple_of_safe]]) auto
    from fault_step_anonymous [OF this True] show ?thesis by simp
  next
    case False
    have "triple (\<lambda>m. live Z m \<and> stores p e m) (CasPte p e (e AND NOT PAGE_RSRV))
        (\<lambda>ok m. live Z m \<and> (ok \<or> False))"
      by (rule triple_weaken [OF CasPte_hit]) auto
    from fault_step_mapped [OF this] False show ?thesis
      by (auto intro: triple_weaken)
  qed
next
  fix r
  show "triple (\<lambda>m. live Z m \<and> (r AND PAGE_RSRV \<noteq> 0 \<longrightarrow> stores p r m \<and> g_allocator_pages m \<noteq> []))
      (if r AND PAGE_RSRV \<noteq> 0 then fault_loop (Suc n) p r else ret r) (\<lambda>_. live Z)"
    by (intro triple_if triple_pre [OF fault_loop_fresh] triple_ret) auto
qed

lemma fault_loop_ends: "triple (live Z) (fault_loop (Suc (Suc (Suc n))) p e) (\<lambda>_. live Z)"
  unfolding fault_loop_step [of "Suc (Suc n)"]
proof (rule triple_seq)
  show "triple (live Z) (fault_step p e) (\<lambda>r m. live Z m \<and> (r AND PAGE_RSRV \<noteq> 0 \<longrightarrow> stores p r m))"
  proof (cases "e AND (PAGE_HOST OR PAGE_MAP OR PAGE_MUG) = 0")
    case True
    have "triple (live Z) AllocateAnonymousPage (\<lambda>_ m. live Z m \<and> (stores p e m \<or> True))"
      by (rule triple_weaken [OF safe_AllocateAnonymousPage [THEN triple_of_safe]]) auto
    from fault_step_anonymous [OF this True] show ?thesis
      by (rule triple_weaken) auto
  next
    case False
    have "triple (live Z) (CasPte p e (e AND NOT PAGE_RSRV)) (\<lambda>ok m. live Z m \<and> (ok \<or> True))"
      by (rule triple_weaken [OF CasPte_miss]) auto
    from fault_step_mapped [OF this] False show ?thesis
      by (auto intro: triple_weaken)
  qed
next
  fix r
  show "triple (\<lambda>m. live Z m \<and> (r AND PAGE_RSRV \<noteq> 0 \<longrightarrow> stores p r m))
      (if r AND PAGE_RSRV \<noteq> 0 then fault_loop (Suc (Suc n)) p r else ret r) (\<lambda>_. live Z)"
    by (intro triple_if triple_pre [OF fault_loop_stored] triple_ret) auto
qed

lemma safe_fault_loop [safe_intros]: "safe (live Z) (fault_loop 3 p e)"
  using fault_loop_ends [of Z 0 p e] by (simp add: safe_def eval_nat_numeral del: fault_loop.simps)

lemma safe_HandlePageFault [safe_intros]: "safe (live Z) (HandlePageFault p e)"
  unfolding HandlePageFault_def
  by (intro safe_intros live_modify) (simp_all add: outside_def pool_ok_def del: fault_loop.simps)

section \<open>The page table walk\<close>

lemma safe_GetPageAddress [safe_intros]: "safe I (GetPageAddress e c)"
  unfolding GetPageAddress_def by (intro safe_intros)

lemma safe_walk_levels [safe_intros]: "safe I (walk_levels page levels table pslot)"
proof (induction levels arbitrary: table pslot)
  case Nil
  then show ?case by (simp add: safe_ret)
next
  case (Cons level levels)
  then show ?case unfolding walk_levels.simps by (intro safe_intros)
qed

lemma safe_LockPage [safe_intros]: "safe (live Z) (LockPage page p e)"
  by (simp add: safe_def triple_def LockPage_def seq_gets ret_def live_def)

lemma safe_MapError [safe_intros]: "safe (live Z) MapError"
  unfolding MapError_def by (intro safe_intros live_modify) (simp_all add: outside_def pool_ok_def)

text \<open>A walk also changes the cache of translations.\<close>

definition forget :: "Machine \<Rightarrow> Machine" where
  "forget x = x\<lparr>m_tlb := \<lambda>_. (0, 0), m_invalidated := False, m_codevirt := 0, m_codehost := 0\<rparr>"

lemma safe_FindPageTableEntry: "safe (live (\<lambda>x. Z (forget x))) (FindPageTableEntry page)"
  unfolding FindPageTableEntry_def
proof (intro safe_intros)
  show "safe (live (\<lambda>x. Z (forget x)))
      (modify (\<lambda>m. if m_invalidated m then (ResetTlb m)\<lparr>m_invalidated := False\<rparr> else m))"
    by (rule safe_modify) (simp add: live_def ResetTlb_def outside_def pool_ok_def forget_def)
  show "safe (live (\<lambda>x. Z (forget x))) (modify (\<lambda>m. m\<lparr>m_tlb := (m_tlb m)(k := e)\<rparr>))" for k e
    by (rule safe_modify) (simp add: live_def outside_def pool_ok_def forget_def)
qed

section \<open>The translation cache\<close>

lemma triple_option:
  "triple P f Q \<Longrightarrow> (\<And>a. triple P (g a) Q) \<Longrightarrow> triple P (case_option f g x) Q"
  by (simp split: option.split)

lemma triple_prod: "(\<And>a b. triple P (f a b) Q) \<Longrightarrow> triple P (case_prod f p) Q"
  by (simp split: prod.split)

lemma triple_skip: "safe I f \<Longrightarrow> (\<And>a. triple I (g a) Q) \<Longrightarrow> triple I (seq f g) Q"
  unfolding safe_def by (rule triple_seq)

text \<open>The page is in its slot of the cache, unless what was found is not a valid entry.\<close>

definition cached :: "u64 \<Rightarrow> u64 \<Rightarrow> Machine \<Rightarrow> bool" where
  "cached page e m \<longleftrightarrow> \<not> m_invalidated m \<and> (e AND PAGE_V \<noteq> 0 \<longrightarrow> m_tlb m (unat (shr page 12 AND 31)) = (page, e))"

lemma FindPageTableEntry_caches:
  "triple (\<lambda>m. pool_ok m \<and> \<not> m_insyscall m) (FindPageTableEntry page) (cached page)"
proof -
  let ?L = "live (\<lambda>x. \<not> m_invalidated x)" and ?k = "unat (shr page 12 AND 31)"
  have zero: "triple ?L (ret 0) (cached page)"
    by (rule triple_ret) (simp add: cached_def live_def outside_def)
  have error: "triple ?L MapError (cached page)"
    unfolding MapError_def
    by (intro triple_skip zero live_modify) (simp_all add: outside_def pool_ok_def)
  have store: "triple ?L (thn (modify (\<lambda>m. m\<lparr>m_tlb := (m_tlb m)(?k := (page, e))\<rparr>)) (ret e)) (cached page)" for e
    by (simp add: triple_def exec_simps ret_def cached_def live_def outside_def)
  have hit: "triple (\<lambda>m. ?L m \<and> m_tlb m ?k = (page, e)) (ret e) (cached page)" for e
    by (rule triple_ret) (simp add: cached_def live_def outside_def)
  show ?thesis
    unfolding FindPageTableEntry_def Let_def
  proof (rule triple_seq)
    show "triple (\<lambda>m. pool_ok m \<and> \<not> m_insyscall m)
        (modify (\<lambda>m. if m_invalidated m then (ResetTlb m)\<lparr>m_invalidated := False\<rparr> else m)) (\<lambda>_. ?L)"
      by (rule triple_modify) (simp add: live_def ResetTlb_def outside_def pool_ok_def)
  next
    fix u
    have miss: "triple (\<lambda>m. ?L m \<and> c m) f (cached page)" if "triple ?L f (cached page)" for c f
      by (rule triple_pre [OF that]) simp
    show "triple ?L
        (seq (gets (\<lambda>m. m_tlb m ?k)) (\<lambda>(tpage, tentry).
         if tpage = page \<and> tentry AND PAGE_V \<noteq> 0 then ret tentry
         else
           thn (unassert (page AND 4095 = 0))
           (if \<not> (- 0x800000000000 \<le> sint page \<and> sint page < 0x800000000000) then MapError
            else
              seq (gets s_cr3) (\<lambda>cr3.
              thn (unassert (cr3 \<noteq> 0))
              (seq (walk_levels page [39, 30, 21, 12] cr3 0) (\<lambda>w.
               case w of
                 None \<Rightarrow> MapError
               | Some (pslot, entry) \<Rightarrow>
                   seq (if entry AND PAGE_RSRV \<noteq> 0 then HandlePageFault pslot entry else ret entry) (\<lambda>entry'.
                   if entry AND PAGE_RSRV \<noteq> 0 \<and> entry' = 0 then ret 0
                   else
                     seq (LockPage page pslot entry') (\<lambda>entry.
                     if entry = 0 then ret 0
                     else thn (modify (\<lambda>m. m\<lparr>m_tlb := (m_tlb m)(?k := (page, entry))\<rparr>)) (ret entry)))))))))
        (cached page)"
    proof (rule triple_seq_gets, split prod.split, intro allI impI triple_if)
      show "x = (tpage, tentry) \<Longrightarrow> tpage = page \<and> tentry AND PAGE_V \<noteq> 0 \<Longrightarrow>
          triple (\<lambda>m. ?L m \<and> m_tlb m ?k = x) (ret tentry) (cached page)" for x tpage tentry
        using hit [of tentry] by simp
    qed (intro miss triple_skip triple_if triple_option triple_prod zero error store safe_intros)+
  qed
qed

end
