(* ===== verification/AluOps.thy ===== *)
theory AluOps
  imports Address Alu
begin

text \<open>
  The instructions of the arithmetic unit (\<open>alu1.c\<close>, \<open>alu2.c\<close>, \<open>alui.c\<close> and their part of \<open>machine.c\<close>): fetching the operands, running the operation of the tables \<open>kAlu\<close> and \<open>kBsu\<close>, and storing the result at the operand width.
\<close>

text \<open>
  A locked instruction on one thread performs the same accesses: the exchange of its loop succeeds at once, and
  taking the bus changes nothing.
\<close>

section \<open>Running an operation of the arithmetic unit\<close>

definition alu :: "aluop \<Rightarrow> u64 \<Rightarrow> u64 \<Rightarrow> u64 exec" where
  "alu f x y =
     seq (gets (\<lambda>m. f (m_flags m) x y)) (\<lambda>(z, flags).
     thn (modify (m_flags_update (\<lambda>_. flags))) (ret z))"

text \<open>The operation in bits 3 to 5 of an opcode.\<close>

definition opcode_alu :: "u64 \<Rightarrow> nat" where
  "opcode_alu rde = unat (shr (word_of_nat (Opcode rde) AND 0x38 :: u64) 3)"

section \<open>One operand\<close>

definition AluEb :: "u64 \<Rightarrow> u64 \<Rightarrow> u64 \<Rightarrow> aluop \<Rightarrow> unit exec" where
  "AluEb rde disp uimm0 op =
     seq (GetModrmRegisterBytePointerWrite1 rde disp uimm0) (\<lambda>p.
     seq (rd Load8 p) (\<lambda>x.
     seq (alu op x 0) (wr Store8 p)))"

definition OpNotEb :: "u64 \<Rightarrow> u64 \<Rightarrow> u64 \<Rightarrow> unit exec" where
  "OpNotEb rde disp uimm0 = AluEb rde disp uimm0 Not8"

definition OpNegEb :: "u64 \<Rightarrow> u64 \<Rightarrow> u64 \<Rightarrow> unit exec" where
  "OpNegEb rde disp uimm0 = AluEb rde disp uimm0 Neg8"

definition Op0fe :: "u64 \<Rightarrow> u64 \<Rightarrow> u64 \<Rightarrow> unit exec" where
  "Op0fe rde disp uimm0 =
     (if ModrmReg rde = 0 then AluEb rde disp uimm0 Inc8
      else if ModrmReg rde = 1 then AluEb rde disp uimm0 Dec8
      else OpUdImpl)"

definition AluEvqp :: "u64 \<Rightarrow> u64 \<Rightarrow> u64 \<Rightarrow> aluop list \<Rightarrow> unit exec" where
  "AluEvqp rde disp uimm0 ops =
     (let f = ops ! WordLog2 rde in
      if Rexw rde \<noteq> 0 then
        seq (GetModrmRegisterWordPointerWrite8 rde disp uimm0) (\<lambda>p.
        seq (rd Load64 p) (\<lambda>x.
        seq (alu f x 0) (wr Store64 p)))
      else if Osz rde = 0 then
        seq (GetModrmRegisterWordPointerWrite4 rde disp uimm0) (\<lambda>p.
        seq (rd Load32 p) (\<lambda>x.
        thn (seq (alu f x 0) (wr Store32 p))
        (if IsModrmRegister rde then wr Put32 (at p 4) 0 else ret ())))
      else
        seq (GetModrmRegisterWordPointerWrite2 rde disp uimm0) (\<lambda>p.
        seq (rd Load16 p) (\<lambda>x.
        seq (alu f x 0) (wr Store16 p))))"

definition OpNotEvqp :: "u64 \<Rightarrow> u64 \<Rightarrow> u64 \<Rightarrow> unit exec" where
  "OpNotEvqp rde disp uimm0 = AluEvqp rde disp uimm0 (kAlu ! ALU_NOT)"

definition OpNegEvqp :: "u64 \<Rightarrow> u64 \<Rightarrow> u64 \<Rightarrow> unit exec" where
  "OpNegEvqp rde disp uimm0 = AluEvqp rde disp uimm0 (kAlu ! ALU_NEG)"

definition OpIncEvqp :: "u64 \<Rightarrow> u64 \<Rightarrow> u64 \<Rightarrow> unit exec" where
  "OpIncEvqp rde disp uimm0 = AluEvqp rde disp uimm0 (kAlu ! ALU_INC)"

definition OpDecEvqp :: "u64 \<Rightarrow> u64 \<Rightarrow> u64 \<Rightarrow> unit exec" where
  "OpDecEvqp rde disp uimm0 = AluEvqp rde disp uimm0 (kAlu ! ALU_DEC)"

section \<open>Two operands\<close>

definition OpAlub :: "u64 \<Rightarrow> u64 \<Rightarrow> u64 \<Rightarrow> unit exec" where
  "OpAlub rde disp uimm0 =
     (let f = kAlu ! opcode_alu rde ! 0; q = ByteRexrReg rde in
      seq (GetModrmRegisterBytePointerWrite1 rde disp uimm0) (\<lambda>p.
      seq (rd Load8 p) (\<lambda>x.
      seq (rd Get8 q) (\<lambda>y.
      seq (alu f x (ucast y)) (wr Store8 p)))))"

definition OpAluw :: "u64 \<Rightarrow> u64 \<Rightarrow> u64 \<Rightarrow> unit exec" where
  "OpAluw rde disp uimm0 =
     (let q = RegRexrReg rde; f = kAlu ! opcode_alu rde ! RegLog2 rde in
      if Rexw rde \<noteq> 0 then
        seq (GetModrmRegisterWordPointerWrite8 rde disp uimm0) (\<lambda>p.
        seq (rd Load64 p) (\<lambda>x.
        seq (rd Get64 q) (\<lambda>y.
        seq (alu f x y) (wr Store64 p))))
      else if Osz rde = 0 then
        seq (GetModrmRegisterWordPointerWrite4 rde disp uimm0) (\<lambda>p.
        thn (if IsModrmRegister rde then wr Put32 (at p 4) 0 else ret ())
        (seq (rd Load32 p) (\<lambda>x.
        seq (rd Get32 q) (\<lambda>y.
        seq (alu f x (ucast y)) (wr Store32 p)))))
      else
        seq (GetModrmRegisterWordPointerWrite2 rde disp uimm0) (\<lambda>p.
        seq (rd Load16 p) (\<lambda>x.
        seq (rd Get16 q) (\<lambda>y.
        seq (alu f x (ucast y)) (wr Store16 p)))))"

definition register_operand :: "u64 \<Rightarrow> ptr" where
  "register_operand rde = (if RegLog2 rde \<noteq> 0 then RegRexrReg rde else ByteRexrReg rde)"

definition AluRo :: "u64 \<Rightarrow> u64 \<Rightarrow> u64 \<Rightarrow> aluop list \<Rightarrow> unit exec" where
  "AluRo rde disp uimm0 ops =
     seq (GetModrmReadBW rde disp uimm0) (\<lambda>p.
     seq (rd (ReadRegisterOrMemoryBW rde) p) (\<lambda>x.
     seq (rd (ReadRegisterBW rde) (register_operand rde)) (\<lambda>y.
     seq (alu (ops ! RegLog2 rde) x y) (\<lambda>_. ret ()))))"

definition OpAluTest :: "u64 \<Rightarrow> u64 \<Rightarrow> u64 \<Rightarrow> unit exec" where
  "OpAluTest rde disp uimm0 = AluRo rde disp uimm0 (kAlu ! ALU_AND)"

definition OpAluCmp :: "u64 \<Rightarrow> u64 \<Rightarrow> u64 \<Rightarrow> unit exec" where
  "OpAluCmp rde disp uimm0 = AluRo rde disp uimm0 (kAlu ! ALU_SUB)"

definition OpAluFlip :: "u64 \<Rightarrow> u64 \<Rightarrow> u64 \<Rightarrow> unit exec" where
  "OpAluFlip rde disp uimm0 =
     (let op = kAlu ! opcode_alu rde ! RegLog2 rde; q = register_operand rde in
      seq (rd (ReadRegisterBW rde) q) (\<lambda>x.
      seq (GetModrmReadBW rde disp uimm0) (\<lambda>p.
      seq (rd (ReadRegisterOrMemoryBW rde) p) (\<lambda>y.
      seq (alu op x y) (wr (WriteRegisterBW rde) q)))))"

definition OpAluFlipCmp :: "u64 \<Rightarrow> u64 \<Rightarrow> u64 \<Rightarrow> unit exec" where
  "OpAluFlipCmp rde disp uimm0 =
     (let op = kAlu ! ALU_SUB ! RegLog2 rde; q = register_operand rde in
      seq (rd (ReadRegisterBW rde) q) (\<lambda>x.
      seq (GetModrmReadBW rde disp uimm0) (\<lambda>p.
      seq (rd (ReadRegisterOrMemoryBW rde) p) (\<lambda>y.
      seq (alu op x y) (\<lambda>_. ret ())))))"

section \<open>An immediate operand\<close>

definition OpAluAxImm :: "u64 \<Rightarrow> u64 \<Rightarrow> u64 \<Rightarrow> unit exec" where
  "OpAluAxImm rde disp uimm0 =
     (let op = kAlu ! opcode_alu rde ! RegLog2 rde in
      seq (rd (ReadRegisterBW rde) AX) (\<lambda>x.
      seq (alu op x uimm0) (wr (WriteRegisterBW rde) AX)))"

definition OpRoAxImm :: "u64 \<Rightarrow> u64 \<Rightarrow> u64 \<Rightarrow> aluop list \<Rightarrow> unit exec" where
  "OpRoAxImm rde disp uimm0 ops =
     seq (rd (ReadRegisterBW rde) AX) (\<lambda>x.
     seq (alu (ops ! RegLog2 rde) x uimm0) (\<lambda>_. ret ()))"

definition OpCmpAxImm :: "u64 \<Rightarrow> u64 \<Rightarrow> u64 \<Rightarrow> unit exec" where
  "OpCmpAxImm rde disp uimm0 = OpRoAxImm rde disp uimm0 (kAlu ! ALU_SUB)"

definition OpTestAxImm :: "u64 \<Rightarrow> u64 \<Rightarrow> u64 \<Rightarrow> unit exec" where
  "OpTestAxImm rde disp uimm0 = OpRoAxImm rde disp uimm0 (kAlu ! ALU_AND)"

definition AluiRo :: "u64 \<Rightarrow> u64 \<Rightarrow> u64 \<Rightarrow> aluop list \<Rightarrow> unit exec" where
  "AluiRo rde disp uimm0 ops =
     seq (GetModrmReadBW rde disp uimm0) (\<lambda>p.
     seq (rd (ReadRegisterOrMemoryBW rde) p) (\<lambda>x.
     seq (alu (ops ! RegLog2 rde) x uimm0) (\<lambda>_. ret ())))"

definition AluiUnlocked :: "u64 \<Rightarrow> u64 \<Rightarrow> u64 \<Rightarrow> ptr \<Rightarrow> aluop \<Rightarrow> unit exec" where
  "AluiUnlocked rde disp uimm0 p op =
     seq (rd (ReadRegisterOrMemoryBW rde) p) (\<lambda>x.
     seq (alu op x uimm0) (wr (WriteRegisterOrMemoryBW rde) p))"

definition AluiLocked :: "u64 \<Rightarrow> u64 \<Rightarrow> u64 \<Rightarrow> ptr \<Rightarrow> aluop \<Rightarrow> unit exec" where
  "AluiLocked rde disp uimm0 p op =
     (if RegLog2 rde = 3 then seq (rd Load64 p) (\<lambda>x. seq (alu op x uimm0) (wr Store64 p))
      else if RegLog2 rde = 2 then seq (rd Load32 p) (\<lambda>x. seq (alu op x uimm0) (wr Store32 p))
      else if RegLog2 rde = 1 then seq (rd Load16 p) (\<lambda>x. seq (alu op x uimm0) (wr Store16 p))
      else seq (rd Load8 p) (\<lambda>x. seq (alu op x uimm0) (wr Store8 p)))"

definition Alui :: "u64 \<Rightarrow> u64 \<Rightarrow> u64 \<Rightarrow> unit exec" where
  "Alui rde disp uimm0 =
     seq (GetModrmWriteBW rde disp uimm0) (\<lambda>p.
     let op = kAlu ! ModrmReg rde ! RegLog2 rde in
     if Lock rde \<noteq> 0 \<and> \<not> IsModrmRegister rde then AluiLocked rde disp uimm0 p op
     else AluiUnlocked rde disp uimm0 p op)"

definition OpAlui :: "u64 \<Rightarrow> u64 \<Rightarrow> u64 \<Rightarrow> unit exec" where
  "OpAlui rde disp uimm0 =
     (if ModrmReg rde = ALU_CMP then AluiRo rde disp uimm0 (kAlu ! ALU_SUB) else Alui rde disp uimm0)"

definition OpTest :: "u64 \<Rightarrow> u64 \<Rightarrow> u64 \<Rightarrow> unit exec" where
  "OpTest rde disp uimm0 = AluiRo rde disp uimm0 (kAlu ! ALU_AND)"

section \<open>Shifts and rotations\<close>

definition bsuwi :: "u64 \<Rightarrow> u64 \<Rightarrow> u64 \<Rightarrow> u64 exec \<Rightarrow> unit exec" where
  "bsuwi rde disp uimm0 count =
     (let op = kBsu ! ModrmReg rde ! RegLog2 rde in
      seq (GetModrmRegisterWordPointerWriteOszRexw rde disp uimm0) (\<lambda>p.
      seq (rd (ReadMemory rde) p) (\<lambda>x.
      seq count (\<lambda>y.
      seq (alu op x y) (wr (WriteRegisterOrMemory rde) p)))))"

definition OpBsuwiCl :: "u64 \<Rightarrow> u64 \<Rightarrow> u64 \<Rightarrow> unit exec" where
  "OpBsuwiCl rde disp uimm0 = bsuwi rde disp uimm0 (seq (rd Get8 CX) (\<lambda>c. ret (ucast c)))"

definition BsuwiConstant :: "u64 \<Rightarrow> u64 \<Rightarrow> u64 \<Rightarrow> u64 \<Rightarrow> unit exec" where
  "BsuwiConstant rde disp uimm0 y = bsuwi rde disp uimm0 (ret y)"

definition OpBsuwi1 :: "u64 \<Rightarrow> u64 \<Rightarrow> u64 \<Rightarrow> unit exec" where
  "OpBsuwi1 rde disp uimm0 = BsuwiConstant rde disp uimm0 1"

definition OpBsuwiImm :: "u64 \<Rightarrow> u64 \<Rightarrow> u64 \<Rightarrow> unit exec" where
  "OpBsuwiImm rde disp uimm0 = BsuwiConstant rde disp uimm0 uimm0"

definition Bsubi :: "u64 \<Rightarrow> u64 \<Rightarrow> u64 \<Rightarrow> u64 \<Rightarrow> unit exec" where
  "Bsubi rde disp uimm0 y =
     (let op = kBsu ! ModrmReg rde ! RegLog2 rde in
      seq (GetModrmRegisterBytePointerWrite1 rde disp uimm0) (\<lambda>a.
      seq (rd Load8 a) (\<lambda>x.
      seq (alu op x y) (wr Store8 a))))"

definition OpBsubiCl :: "u64 \<Rightarrow> u64 \<Rightarrow> u64 \<Rightarrow> unit exec" where
  "OpBsubiCl rde disp uimm0 = seq (rd Get8 CX) (\<lambda>c. Bsubi rde disp uimm0 (ucast c))"

definition BsubiConstant :: "u64 \<Rightarrow> u64 \<Rightarrow> u64 \<Rightarrow> u64 \<Rightarrow> unit exec" where
  "BsubiConstant rde disp uimm0 y = Bsubi rde disp uimm0 y"

definition OpBsubi1 :: "u64 \<Rightarrow> u64 \<Rightarrow> u64 \<Rightarrow> unit exec" where
  "OpBsubi1 rde disp uimm0 = BsubiConstant rde disp uimm0 1"

definition OpBsubiImm :: "u64 \<Rightarrow> u64 \<Rightarrow> u64 \<Rightarrow> unit exec" where
  "OpBsubiImm rde disp uimm0 = BsubiConstant rde disp uimm0 uimm0"

text \<open>The double shift of 16-bit operands by more than 16 is undefined in C; the model aborts.\<close>

definition OpDoubleShift :: "u64 \<Rightarrow> u64 \<Rightarrow> u64 \<Rightarrow> unit exec" where
  "OpDoubleShift rde disp uimm0 =
     (let W = [[2, 3], [1, 3]] in
      seq (GetModrmRegisterWordPointerWriteOszRexw rde disp uimm0) (\<lambda>p.
      seq (rd (ReadMemory rde) p) (\<lambda>x.
      seq (rd (ReadRegister rde) (RegRexrReg rde)) (\<lambda>y.
      seq (rd Get8 CX) (\<lambda>cl.
      seq (gets (\<lambda>m. BsuDoubleShift (m_flags m) (W ! Osz rde ! Rexw rde) x y
             (if odd (Opcode rde) then cl else ucast uimm0) (bit (Opcode rde) 3))) (\<lambda>r.
      case r of
        None \<Rightarrow> unassert False
      | Some (z, flags) \<Rightarrow>
          thn (modify (m_flags_update (\<lambda>_. flags))) (wr (WriteRegisterOrMemory rde) p z)))))))"

end
