(* ===== verification/Stack.thy ===== *)
theory Stack
  imports Address
begin

text \<open>
  The stack (\<open>stack.c\<close>): pushing and popping words of the size the mode and the prefix give, calls, returns, and frames.
\<close>

section \<open>Stack words\<close>

text \<open>Operand sizes by operand size prefix and mode; the modes are those the decoder makes.\<close>

definition kStackOsz :: "nat list list" where
  "kStackOsz = [[4, 4, 8], [2, 2, 2]]"

definition kCallOsz :: "nat list list" where
  "kCallOsz = [[4, 4, 8], [2, 2, 8]]"

definition stack_osz :: "u64 \<Rightarrow> nat" where
  "stack_osz rde = kStackOsz ! Osz rde ! Mode rde"

definition call_osz :: "u64 \<Rightarrow> nat" where
  "call_osz rde = kCallOsz ! Osz rde ! Mode rde"

definition WriteStackWord :: "ptr \<Rightarrow> u64 \<Rightarrow> nat \<Rightarrow> u64 \<Rightarrow> unit exec" where
  "WriteStackWord p rde osz x =
     (if osz = 8 then wr Put64 p x
      else if osz = 2 then wr Put16 p (ucast x)
      else wr Put32 p (ucast x))"

definition ReadStackWord :: "ptr \<Rightarrow> nat \<Rightarrow> u64 exec" where
  "ReadStackWord p osz =
     (if osz = 8 then rd Get64 p
      else if osz = 2 then seq (rd Get16 p) (\<lambda>x. ret (ucast x))
      else seq (rd Get32 p) (\<lambda>x. ret (ucast x)))"

definition WriteMemWord :: "ptr \<Rightarrow> u64 \<Rightarrow> nat \<Rightarrow> u64 \<Rightarrow> unit exec" where
  "WriteMemWord p rde osz x =
     (if osz = 8 then wr Store64 p x
      else if osz = 2 then wr Store16 p x
      else wr Store32 p x)"

definition ReadMemWord :: "ptr \<Rightarrow> nat \<Rightarrow> u64 exec" where
  "ReadMemWord p osz =
     (if osz = 8 then rd Load64 p
      else if osz = 2 then rd Load16 p
      else rd Load32 p)"

section \<open>Push and pop\<close>

text \<open>A mode the C code declares unreachable fails here.\<close>

definition PushN :: "u64 \<Rightarrow> u64 \<Rightarrow> u64 \<Rightarrow> u64 \<Rightarrow> nat \<Rightarrow> nat \<Rightarrow> unit exec" where
  "PushN rde disp uimm0 x mode osz =
     seq (if mode = XED_MODE_REAL then
            seq (rd Get32 SP) (\<lambda>sp.
            let v = to_u64 (sp - word_of_nat osz) AND 0xffff in
            thn (wr Put16 SP (ucast v)) (gets (\<lambda>m. v + m_seg_base m SREG_SS)))
          else if mode = XED_MODE_LEGACY then
            seq (rd Get32 SP) (\<lambda>sp.
            let v = to_u64 (sp - word_of_nat osz) AND 0xffffffff in
            thn (wr Put64 SP v) (gets (\<lambda>m. v + m_seg_base m SREG_SS)))
          else if mode = XED_MODE_LONG then
            seq (rd Get64 SP) (\<lambda>sp.
            let v = sp - word_of_nat osz in
            thn (wr Put64 SP v) (ret v))
          else thn (unassert False) (ret 0)) (\<lambda>v.
     seq (AccessRam v osz (Local 0) False) (\<lambda>(w, p).
     thn (WriteStackWord w rde osz x)
     (EndStore v osz p (Local 0))))"

definition Push :: "u64 \<Rightarrow> u64 \<Rightarrow> u64 \<Rightarrow> u64 \<Rightarrow> unit exec" where
  "Push rde disp uimm0 x = PushN rde disp uimm0 x (Mode rde) (stack_osz rde)"

definition OpPushZvq :: "u64 \<Rightarrow> u64 \<Rightarrow> u64 \<Rightarrow> unit exec" where
  "OpPushZvq rde disp uimm0 =
     (let osz = stack_osz rde in
      seq (ReadStackWord (RegRexbSrm rde) osz) (\<lambda>x.
      PushN rde disp uimm0 x (Mode rde) osz))"

definition PopN :: "u64 \<Rightarrow> u64 \<Rightarrow> u64 \<Rightarrow> u16 \<Rightarrow> nat \<Rightarrow> u64 exec" where
  "PopN rde disp uimm0 extra osz =
     seq (if Mode rde = XED_MODE_LONG then
            seq (rd Get64 SP) (\<lambda>v.
            thn (wr Put64 SP (v + word_of_nat osz + ucast extra)) (ret v))
          else if Mode rde = XED_MODE_LEGACY then
            seq (rd Get32 SP) (\<lambda>sp.
            let v = to_u64 sp in
            thn (wr Put64 SP ((v + word_of_nat osz + ucast extra) AND 0xffffffff))
            (gets (\<lambda>m. v + m_seg_base m SREG_SS)))
          else if Mode rde = XED_MODE_REAL then
            seq (rd Get16 SP) (\<lambda>sp.
            let v = to_u64 sp in
            thn (wr Put16 SP (ucast (v + word_of_nat osz + ucast extra)))
            (gets (\<lambda>m. v + m_seg_base m SREG_SS)))
          else thn (unassert False) (ret 0)) (\<lambda>v.
     seq (AccessRam v osz (Local 0) True) (\<lambda>(p, _).
     ReadStackWord p osz))"

definition Pop :: "u64 \<Rightarrow> u64 \<Rightarrow> u64 \<Rightarrow> u16 \<Rightarrow> u64 exec" where
  "Pop rde disp uimm0 extra = PopN rde disp uimm0 extra (stack_osz rde)"

definition OpPopZvq :: "u64 \<Rightarrow> u64 \<Rightarrow> u64 \<Rightarrow> unit exec" where
  "OpPopZvq rde disp uimm0 =
     (let osz = stack_osz rde in
      seq (PopN rde disp uimm0 0 osz) (\<lambda>x.
      if osz = 8 \<or> osz = 4 then wr Put64 (RegRexbSrm rde) x
      else wr Put16 (RegRexbSrm rde) (ucast x)))"

section \<open>Calls, jumps and frames\<close>

definition OpCall :: "u64 \<Rightarrow> u64 \<Rightarrow> u64 \<Rightarrow> u64 \<Rightarrow> unit exec" where
  "OpCall rde disp uimm0 func =
     thn (seq (gets m_ip) (\<lambda>ip. PushN rde disp uimm0 ip (Mode rde) (call_osz rde)))
     (modify (m_ip_update (\<lambda>_. func)))"

definition OpCallJvds :: "u64 \<Rightarrow> u64 \<Rightarrow> u64 \<Rightarrow> unit exec" where
  "OpCallJvds rde disp uimm0 =
     seq (gets m_ip) (\<lambda>ip. OpCall rde disp uimm0 (ip + disp))"

definition LoadAddressFromMemory :: "u64 \<Rightarrow> u64 \<Rightarrow> u64 \<Rightarrow> u64 exec" where
  "LoadAddressFromMemory rde disp uimm0 =
     (let osz = call_osz rde in
      seq (GetModrmRegisterWordPointerRead rde disp uimm0 osz) (\<lambda>p. ReadMemWord p osz))"

definition OpCallEq :: "u64 \<Rightarrow> u64 \<Rightarrow> u64 \<Rightarrow> unit exec" where
  "OpCallEq rde disp uimm0 =
     seq (LoadAddressFromMemory rde disp uimm0) (\<lambda>func. OpCall rde disp uimm0 func)"

definition OpJmpEq :: "u64 \<Rightarrow> u64 \<Rightarrow> u64 \<Rightarrow> unit exec" where
  "OpJmpEq rde disp uimm0 =
     seq (LoadAddressFromMemory rde disp uimm0) (\<lambda>a. modify (m_ip_update (\<lambda>_. a)))"

definition OpEnter :: "u64 \<Rightarrow> u64 \<Rightarrow> u64 \<Rightarrow> unit exec" where
  "OpEnter rde disp uimm0 =
     (let allocsz = to_u16 uimm0;
          nesting = to_u8 (shr uimm0 16);
          osz = stack_osz rde in
      thn (if nesting \<noteq> 0 then OpUdImpl else ret ())
      (thn (seq (rd Get64 BP) (Push rde disp uimm0))
      (if osz = 8 then
         thn (seq (rd Get64 SP) (wr Put64 BP))
         (seq (rd Get64 SP) (\<lambda>sp. wr Put64 SP (sp - ucast allocsz)))
       else if osz = 4 then
         thn (seq (rd Get32 SP) (\<lambda>sp. wr Put64 BP (ucast sp)))
         (seq (rd Get64 SP) (\<lambda>sp. wr Put64 SP (sp - ucast allocsz)))
       else
         thn (seq (rd Get16 SP) (wr Put16 BP))
         (seq (rd Get16 SP) (\<lambda>sp. wr Put16 SP (sp - allocsz))))))"

text \<open>At the narrow sizes \<open>PopN\<close> is called with its last two arguments exchanged.\<close>

definition OpLeave :: "u64 \<Rightarrow> u64 \<Rightarrow> u64 \<Rightarrow> unit exec" where
  "OpLeave rde disp uimm0 =
     (let osz = stack_osz rde in
      if osz = 8 then
        thn (seq (rd Get64 BP) (wr Put64 SP))
        (seq (Pop rde disp uimm0 0) (wr Put64 BP))
      else if osz = 4 then
        thn (seq (rd Get32 BP) (\<lambda>x. wr Put64 SP (ucast x)))
        (seq (PopN rde disp uimm0 (word_of_nat osz) 0) (wr Put64 BP))
      else
        thn (seq (rd Get16 BP) (wr Put16 SP))
        (seq (PopN rde disp uimm0 (word_of_nat osz) 0) (\<lambda>x. wr Put16 BP (ucast x))))"

definition OpRet :: "u64 \<Rightarrow> u64 \<Rightarrow> u64 \<Rightarrow> unit exec" where
  "OpRet rde disp uimm0 =
     seq (Pop rde disp uimm0 0) (\<lambda>x. modify (m_ip_update (\<lambda>_. x)))"

definition OpRetIw :: "u64 \<Rightarrow> u64 \<Rightarrow> u64 \<Rightarrow> unit exec" where
  "OpRetIw rde disp uimm0 =
     seq (Pop rde disp uimm0 (ucast uimm0)) (\<lambda>x. modify (m_ip_update (\<lambda>_. x)))"

definition OpPushEvq :: "u64 \<Rightarrow> u64 \<Rightarrow> u64 \<Rightarrow> unit exec" where
  "OpPushEvq rde disp uimm0 =
     (let osz = stack_osz rde in
      seq (GetModrmRegisterWordPointerRead rde disp uimm0 osz) (\<lambda>p.
      seq (ReadMemWord p osz) (Push rde disp uimm0)))"

text \<open>The arguments of \<open>WriteMemWord\<close> are evaluated from left to right.\<close>

definition OpPopEvq :: "u64 \<Rightarrow> u64 \<Rightarrow> u64 \<Rightarrow> unit exec" where
  "OpPopEvq rde disp uimm0 =
     (let osz = stack_osz rde in
      seq (GetModrmRegisterWordPointerWrite rde disp uimm0 osz) (\<lambda>p.
      seq (Pop rde disp uimm0 0) (\<lambda>x.
      WriteMemWord p rde osz x)))"

end
