(* ===== verification/Moves.thy ===== *)
theory Moves
  imports AluOps Stack DivMul Crc
begin

text \<open>
  The moves and the flag instructions of \<open>machine.c\<close>, and the conversions of \<open>uop.c\<close>.
\<close>

section \<open>Flags\<close>

definition OpHintNopEv :: nexgen32e_f where
  "OpHintNopEv rde disp uimm0 = ret ()"

definition OpCmc :: nexgen32e_f where
  "OpCmc rde disp uimm0 = modify (m_flags_update (\<lambda>f. f XOR shl 1 FLAGS_CF))"

definition OpClc :: nexgen32e_f where
  "OpClc rde disp uimm0 = set_flag FLAGS_CF False"

definition OpStc :: nexgen32e_f where
  "OpStc rde disp uimm0 = set_flag FLAGS_CF True"

definition OpCli :: nexgen32e_f where
  "OpCli rde disp uimm0 = set_flag FLAGS_IF False"

definition OpSti :: nexgen32e_f where
  "OpSti rde disp uimm0 = set_flag FLAGS_IF True"

definition OpCld :: nexgen32e_f where
  "OpCld rde disp uimm0 = set_flag FLAGS_DF False"

definition OpStd :: nexgen32e_f where
  "OpStd rde disp uimm0 = set_flag FLAGS_DF True"

definition import_flags :: "u64 \<Rightarrow> unit exec" where
  "import_flags x = modify (\<lambda>m. m\<lparr>m_flags := ImportFlags (m_flags m) x\<rparr>)"

definition export_flags :: "u64 exec" where
  "export_flags = gets (\<lambda>m. ExportFlags (ucast (m_flags m)))"

definition OpPushf :: nexgen32e_f where
  "OpPushf rde disp uimm0 = seq export_flags (\<lambda>f. Push rde disp uimm0 (f AND 0xFCFFFF))"

definition OpPopf :: nexgen32e_f where
  "OpPopf rde disp uimm0 =
     (if Osz rde = 0 then seq (Pop rde disp uimm0 0) import_flags
      else
        seq (gets (\<lambda>m. m_flags m AND NOT 0xffff)) (\<lambda>f.
        seq (Pop rde disp uimm0 0) (\<lambda>x. import_flags (ucast f OR x))))"

definition OpLahf :: nexgen32e_f where
  "OpLahf rde disp uimm0 = seq export_flags (\<lambda>f. wr Put8 AH (ucast f))"

definition OpSahf :: nexgen32e_f where
  "OpSahf rde disp uimm0 =
     seq (gets (\<lambda>m. m_flags m AND NOT 0xff)) (\<lambda>f.
     seq (rd Get8 AH) (\<lambda>ah. import_flags (ucast (f OR ucast ah))))"

definition OpSalc :: nexgen32e_f where
  "OpSalc rde disp uimm0 =
     seq (gets (\<lambda>m. GetFlag (m_flags m) FLAGS_CF)) (\<lambda>c. wr Put8 AX (if c then 255 else 0))"

section \<open>Moves\<close>

definition OpLeaGvqpM :: nexgen32e_f where
  "OpLeaGvqpM rde disp uimm0 =
     seq (LoadEffectiveAddress rde disp uimm0) (\<lambda>(addr, _). wr (WriteRegister rde) (RegRexrReg rde) addr)"

definition OpMovEvqpGvqp :: nexgen32e_f where
  "OpMovEvqpGvqp rde disp uimm0 =
     seq (GetModrmRegisterWordPointerWriteOszRexw rde disp uimm0) (\<lambda>p.
     seq (rd (ReadRegister rde) (RegRexrReg rde)) (wr (WriteRegisterOrMemory rde) p))"

definition OpMovGvqpEvqp :: nexgen32e_f where
  "OpMovGvqpEvqp rde disp uimm0 =
     seq (GetModrmRegisterWordPointerReadOszRexw rde disp uimm0) (\<lambda>p.
     seq (rd (ReadMemory rde) p) (wr (WriteRegister rde) (RegRexrReg rde)))"

definition OpMovzbGvqpEb :: nexgen32e_f where
  "OpMovzbGvqpEb rde disp uimm0 =
     seq (GetModrmRegisterBytePointerRead1 rde disp uimm0) (\<lambda>p.
     seq (rd Load8 p) (wr (WriteRegister rde) (RegRexrReg rde)))"

definition OpMovzwGvqpEw :: nexgen32e_f where
  "OpMovzwGvqpEw rde disp uimm0 =
     seq (GetModrmRegisterWordPointerRead2 rde disp uimm0) (\<lambda>p.
     seq (rd Load16 p) (wr (WriteRegister rde) (RegRexrReg rde)))"

definition OpMovsbGvqpEb :: nexgen32e_f where
  "OpMovsbGvqpEb rde disp uimm0 =
     seq (GetModrmRegisterBytePointerRead1 rde disp uimm0) (\<lambda>p.
     seq (rd Load8 p) (\<lambda>x. wr (WriteRegister rde) (RegRexrReg rde) (scast (to_u8 x))))"

definition OpMovswGvqpEw :: nexgen32e_f where
  "OpMovswGvqpEw rde disp uimm0 =
     seq (GetModrmRegisterWordPointerRead2 rde disp uimm0) (\<lambda>p.
     seq (rd Load16 p) (\<lambda>x. wr (WriteRegister rde) (RegRexrReg rde) (scast (to_u16 x))))"

definition OpMovslGdqpEd :: nexgen32e_f where
  "OpMovslGdqpEd rde disp uimm0 =
     seq (GetModrmRegisterWordPointerRead4 rde disp uimm0) (\<lambda>p.
     seq (rd Load32 p) (\<lambda>x. wr (WriteRegister rde) (RegRexrReg rde) (scast (to_u32 x))))"

definition OpXlatAlBbb :: nexgen32e_f where
  "OpXlatAlBbb rde disp uimm0 =
     seq (rd Get64 BX) (\<lambda>bx.
     seq (rd Get8 AX) (\<lambda>al.
     seq (gets (DataSegment rde (MaskAddress (Eamode rde) (bx + ucast al)))) (\<lambda>v.
     thn (SetReadAddr v 1)
     (seq (ResolveAddress v) (\<lambda>p.
     seq (rd Load8 (Host p)) (\<lambda>x. wr Put8 AX (ucast x)))))))"

definition OpMovAlOb :: nexgen32e_f where
  "OpMovAlOb rde disp uimm0 =
     seq (gets (AddressOb rde disp uimm0)) (\<lambda>addr.
     thn (SetWriteAddr addr 1)
     (seq (ResolveAddress addr) (\<lambda>p.
     seq (rd Load8 (Host p)) (\<lambda>x. wr Put8 AX (ucast x)))))"

definition OpMovObAl :: nexgen32e_f where
  "OpMovObAl rde disp uimm0 =
     seq (gets (AddressOb rde disp uimm0)) (\<lambda>addr.
     thn (SetReadAddr addr 1)
     (seq (ResolveAddress addr) (\<lambda>p.
     seq (rd Get8 AX) (\<lambda>x. wr Store8 (Host p) (ucast x)))))"

definition OpMovRaxOvqp :: nexgen32e_f where
  "OpMovRaxOvqp rde disp uimm0 =
     seq (gets (DataSegment rde disp)) (\<lambda>v.
     thn (SetReadAddr v (push_bit (RegLog2 rde) 1))
     (seq (ResolveAddress v) (\<lambda>p.
     seq (rd (ReadMemory rde) (Host p)) (wr (WriteRegister rde) AX))))"

definition OpMovOvqpRax :: nexgen32e_f where
  "OpMovOvqpRax rde disp uimm0 =
     seq (gets (DataSegment rde disp)) (\<lambda>v.
     thn (SetWriteAddr v (push_bit (RegLog2 rde) 1))
     (seq (ResolveAddress v) (\<lambda>p.
     seq (rd Get64 AX) (wr (WriteMemory rde) (Host p)))))"

definition OpMovEbGb :: nexgen32e_f where
  "OpMovEbGb rde disp uimm0 =
     seq (GetModrmRegisterBytePointerWrite1 rde disp uimm0) (\<lambda>p.
     seq (rd Get8 (ByteRexrReg rde)) (\<lambda>x. wr Store8 p (ucast x)))"

definition OpMovGbEb :: nexgen32e_f where
  "OpMovGbEb rde disp uimm0 =
     seq (GetModrmRegisterBytePointerRead1 rde disp uimm0) (\<lambda>p.
     seq (rd Load8 p) (\<lambda>x.
     thn (wr Put8 (ByteRexrReg rde) (ucast x)) (unassert (RegLog2 rde = 0))))"

definition OpMovZbIb :: nexgen32e_f where
  "OpMovZbIb rde disp uimm0 = wr Put8 (ByteRexbSrm rde) (ucast uimm0)"

definition OpMovZvqpIvqp :: nexgen32e_f where
  "OpMovZvqpIvqp rde disp uimm0 = wr (WriteRegister rde) (RegRexbSrm rde) uimm0"

definition OpMovImm :: nexgen32e_f where
  "OpMovImm rde disp uimm0 =
     seq (GetModrmWriteBW rde disp uimm0) (\<lambda>p. wr (WriteRegisterOrMemoryBW rde) p uimm0)"

definition OpPushImm :: nexgen32e_f where
  "OpPushImm rde disp uimm0 = Push rde disp uimm0 uimm0"

section \<open>Conversions\<close>

definition Sax64 :: nexgen32e_f where
  "Sax64 rde disp uimm0 = seq (rd Get32 AX) (\<lambda>x. wr Put64 AX (scast x))"

definition Sax32 :: nexgen32e_f where
  "Sax32 rde disp uimm0 = seq (rd Get16 AX) (\<lambda>x. wr Put64 AX (ucast (scast x :: u32)))"

definition Sax16 :: nexgen32e_f where
  "Sax16 rde disp uimm0 = seq (rd Get8 AX) (\<lambda>x. wr Put16 AX (scast x))"

definition kSax :: "nexgen32e_f list" where
  "kSax = [Sax16, Sax32, Sax64]"

definition Convert64 :: nexgen32e_f where
  "Convert64 rde disp uimm0 =
     seq (rd Get64 AX) (\<lambda>x. wr Put64 DX (if x AND 0x8000000000000000 \<noteq> 0 then 0xffffffffffffffff else 0))"

definition Convert32 :: nexgen32e_f where
  "Convert32 rde disp uimm0 =
     seq (rd Get32 AX) (\<lambda>x. wr Put64 DX (if x AND 0x80000000 \<noteq> 0 then 0xffffffff else 0))"

definition Convert16 :: nexgen32e_f where
  "Convert16 rde disp uimm0 =
     seq (rd Get16 AX) (\<lambda>x. wr Put16 DX (if x AND 0x8000 \<noteq> 0 then 0xffff else 0))"

definition kConvert :: "nexgen32e_f list" where
  "kConvert = [Convert16, Convert32, Convert64]"

definition TripleOp :: "u64 \<Rightarrow> u64 \<Rightarrow> u64 \<Rightarrow> nexgen32e_f list \<Rightarrow> unit exec" where
  "TripleOp rde disp uimm0 ops = (ops ! (WordLog2 rde - 1)) rde disp uimm0"

definition OpSax :: nexgen32e_f where
  "OpSax rde disp uimm0 = TripleOp rde disp uimm0 kSax"

definition OpConvert :: nexgen32e_f where
  "OpConvert rde disp uimm0 = TripleOp rde disp uimm0 kConvert"

definition SWAP16 :: "u16 \<Rightarrow> u16" where
  "SWAP16 x = shl (0x00ff AND x) 8 OR shr (0xff00 AND x) 8"

definition SWAP64 :: "u64 \<Rightarrow> u64" where
  "SWAP64 x =
     shl (0x00000000000000ff AND x) 56 OR shl (0x000000000000ff00 AND x) 40 OR
     shl (0x0000000000ff0000 AND x) 24 OR shl (0x00000000ff000000 AND x) 8 OR
     shr (0x000000ff00000000 AND x) 8 OR shr (0x0000ff0000000000 AND x) 24 OR
     shr (0x00ff000000000000 AND x) 40 OR shr (0xff00000000000000 AND x) 56"

definition OpBswapZvqp :: nexgen32e_f where
  "OpBswapZvqp rde disp uimm0 =
     seq (rd Get64 (RegRexbSrm rde)) (\<lambda>x.
     if Rexw rde \<noteq> 0 then wr Put64 (RegRexbSrm rde) (SWAP64 x)
     else if Osz rde = 0 then wr Put64 (RegRexbSrm rde) (ucast (SWAP32 (ucast x)))
     else wr Put16 (RegRexbSrm rde) (SWAP16 (ucast x)))"

end
