(* ===== verification/Branch.thy ===== *)
theory Branch
  imports Moves
begin

text \<open>
  Interrupts, conditional jumps, sets and moves, loops, and the opcode groups F6, F7 and FF of \<open>machine.c\<close>.
\<close>

section \<open>Interrupts\<close>

text \<open>Without the metal machine an interrupt halts the machine with its number.\<close>

definition GenInterrupt :: "u64 \<Rightarrow> u64 \<Rightarrow> u64 \<Rightarrow> u8 \<Rightarrow> unit exec" where
  "GenInterrupt rde disp uimm0 trapno = HaltMachine (uint trapno)"

definition OpInterruptImm :: nexgen32e_f where
  "OpInterruptImm rde disp uimm0 = GenInterrupt rde disp uimm0 (ucast uimm0)"

definition OpInterrupt1 :: nexgen32e_f where
  "OpInterrupt1 rde disp uimm0 = GenInterrupt rde disp uimm0 1"

definition OpInterrupt3 :: nexgen32e_f where
  "OpInterrupt3 rde disp uimm0 = GenInterrupt rde disp uimm0 3"

section \<open>Conditions and jumps\<close>

definition jump :: "u64 \<Rightarrow> unit exec" where
  "jump disp = modify (\<lambda>m. m\<lparr>m_ip := m_ip m + disp\<rparr>)"

definition OpJmp :: nexgen32e_f where
  "OpJmp rde disp uimm0 = jump disp"

definition Jb :: "u32 \<Rightarrow> bool" where "Jb f = (f AND shl 1 FLAGS_CF \<noteq> 0)"
definition Jae :: "u32 \<Rightarrow> bool" where "Jae f = (NOT f AND shl 1 FLAGS_CF \<noteq> 0)"
definition Je :: "u32 \<Rightarrow> bool" where "Je f = (f AND shl 1 FLAGS_ZF \<noteq> 0)"
definition Jne :: "u32 \<Rightarrow> bool" where "Jne f = (NOT f AND shl 1 FLAGS_ZF \<noteq> 0)"
definition Js :: "u32 \<Rightarrow> bool" where "Js f = (f AND shl 1 FLAGS_SF \<noteq> 0)"
definition Jns :: "u32 \<Rightarrow> bool" where "Jns f = (NOT f AND shl 1 FLAGS_SF \<noteq> 0)"
definition Jo :: "u32 \<Rightarrow> bool" where "Jo f = (f AND shl 1 FLAGS_OF \<noteq> 0)"
definition Jno :: "u32 \<Rightarrow> bool" where "Jno f = (NOT f AND shl 1 FLAGS_OF \<noteq> 0)"
definition Ja :: "u32 \<Rightarrow> bool" where "Ja f = IsAbove f"
definition Jbe :: "u32 \<Rightarrow> bool" where "Jbe f = IsBelowOrEqual f"
definition Jg :: "u32 \<Rightarrow> bool" where "Jg f = IsGreater f"
definition Jge :: "u32 \<Rightarrow> bool" where "Jge f = IsGreaterOrEqual f"
definition Jl :: "u32 \<Rightarrow> bool" where "Jl f = IsLess f"
definition Jle :: "u32 \<Rightarrow> bool" where "Jle f = IsLessOrEqual f"

definition kConditionCode :: "(u32 \<Rightarrow> bool) option list" where
  "kConditionCode =
     [Some Jo, Some Jno, Some Jb, Some Jae, Some Je, Some Jne, Some Jbe, Some Ja,
      Some Js, Some Jns, None, None, Some Jl, Some Jge, Some Jle, Some Jg]"

text \<open>An assertion fails for the two codes without an entry.\<close>

definition GetCc :: "u64 \<Rightarrow> u64 \<Rightarrow> u64 \<Rightarrow> (u32 \<Rightarrow> bool) exec" where
  "GetCc rde disp uimm0 =
     (let code = unat (word_of_nat (Opcode rde) AND 15 :: u64) in
      thn (unassert (code \<noteq> 0xA))
      (thn (unassert (code \<noteq> 0xB))
      (case kConditionCode ! code of
         None \<Rightarrow> thn (unassert False) (ret (\<lambda>_. False))
       | Some cc \<Rightarrow> ret cc)))"

definition OpJcc :: nexgen32e_f where
  "OpJcc rde disp uimm0 =
     seq (GetCc rde disp uimm0) (\<lambda>cc.
     seq (gets (\<lambda>m. cc (m_flags m))) (\<lambda>b. if b then jump disp else ret ()))"

definition OpJp :: nexgen32e_f where
  "OpJp rde disp uimm0 = seq (gets (\<lambda>m. IsParity (m_flags m))) (\<lambda>b. if b then jump disp else ret ())"

definition OpJnp :: nexgen32e_f where
  "OpJnp rde disp uimm0 = seq (gets (\<lambda>m. \<not> IsParity (m_flags m))) (\<lambda>b. if b then jump disp else ret ())"

definition SetEb :: "u64 \<Rightarrow> u64 \<Rightarrow> u64 \<Rightarrow> bool \<Rightarrow> unit exec" where
  "SetEb rde disp uimm0 x =
     seq (GetModrmRegisterBytePointerWrite1 rde disp uimm0) (\<lambda>p. wr Store8 p (of_bool x))"

definition OpSetcc :: nexgen32e_f where
  "OpSetcc rde disp uimm0 =
     seq (GetCc rde disp uimm0) (\<lambda>cc.
     seq (gets (\<lambda>m. cc (m_flags m))) (SetEb rde disp uimm0))"

definition OpSetp :: nexgen32e_f where
  "OpSetp rde disp uimm0 = seq (gets (\<lambda>m. IsParity (m_flags m))) (SetEb rde disp uimm0)"

definition OpSetnp :: nexgen32e_f where
  "OpSetnp rde disp uimm0 = seq (gets (\<lambda>m. \<not> IsParity (m_flags m))) (SetEb rde disp uimm0)"

definition OpCmovImpl :: "u64 \<Rightarrow> u64 \<Rightarrow> u64 \<Rightarrow> bool \<Rightarrow> unit exec" where
  "OpCmovImpl rde disp uimm0 cond =
     seq (if cond then seq (GetModrmRegisterWordPointerReadOszRexw rde disp uimm0) (rd (ReadMemory rde))
          else rd Get64 (RegRexrReg rde)) (wr (WriteRegister rde) (RegRexrReg rde))"

definition OpCmov :: nexgen32e_f where
  "OpCmov rde disp uimm0 =
     seq (GetCc rde disp uimm0) (\<lambda>cc.
     seq (gets (\<lambda>m. cc (m_flags m))) (OpCmovImpl rde disp uimm0))"

definition OpCmovp :: nexgen32e_f where
  "OpCmovp rde disp uimm0 = seq (gets (\<lambda>m. IsParity (m_flags m))) (OpCmovImpl rde disp uimm0)"

definition OpCmovnp :: nexgen32e_f where
  "OpCmovnp rde disp uimm0 = seq (gets (\<lambda>m. \<not> IsParity (m_flags m))) (OpCmovImpl rde disp uimm0)"

definition OpJcxz :: nexgen32e_f where
  "OpJcxz rde disp uimm0 =
     seq (rd Get64 CX) (\<lambda>cx. if MaskAddress (Eamode rde) cx = 0 then jump disp else ret ())"

definition OpLoop :: "u64 \<Rightarrow> u64 \<Rightarrow> u64 \<Rightarrow> bool \<Rightarrow> unit exec" where
  "OpLoop rde disp uimm0 cond =
     seq (rd Get64 CX) (\<lambda>cx.
     let cx = cx - 1 in
     seq (if Eamode rde \<noteq> XED_MODE_REAL then
            let cx = (if Eamode rde = XED_MODE_LEGACY then cx AND 0xffffffff else cx) in
            thn (wr Put64 CX cx) (ret cx)
          else
            let cx = cx AND 0xffff in
            thn (wr Put16 CX (ucast cx)) (ret cx)) (\<lambda>cx.
     if cx \<noteq> 0 \<and> cond then jump disp else ret ()))"

definition OpLoope :: nexgen32e_f where
  "OpLoope rde disp uimm0 = seq (gets (\<lambda>m. GetFlag (m_flags m) FLAGS_ZF)) (OpLoop rde disp uimm0)"

definition OpLoopne :: nexgen32e_f where
  "OpLoopne rde disp uimm0 = seq (gets (\<lambda>m. \<not> GetFlag (m_flags m) FLAGS_ZF)) (OpLoop rde disp uimm0)"

definition OpLoop1 :: nexgen32e_f where
  "OpLoop1 rde disp uimm0 = OpLoop rde disp uimm0 True"

section \<open>Groups\<close>

definition kOp0f6 :: "nexgen32e_f list" where
  "kOp0f6 = [OpTest, OpTest, OpNotEb, OpNegEb, OpMulAxAlEbUnsigned, OpMulAxAlEbSigned,
             OpDivAlAhAxEbUnsigned, OpDivAlAhAxEbSigned]"

definition Op0f6 :: nexgen32e_f where
  "Op0f6 rde disp uimm0 = (kOp0f6 ! ModrmReg rde) rde disp uimm0"

definition kOp0f7 :: "nexgen32e_f list" where
  "kOp0f7 = [OpTest, OpTest, OpNotEvqp, OpNegEvqp, OpMulRdxRaxEvqpUnsigned, OpMulRdxRaxEvqpSigned,
             OpDivRdxRaxEvqpUnsigned, OpDivRdxRaxEvqpSigned]"

definition Op0f7 :: nexgen32e_f where
  "Op0f7 rde disp uimm0 = (kOp0f7 ! ModrmReg rde) rde disp uimm0"

definition kOp0ff :: "nexgen32e_f list" where
  "kOp0ff = [OpIncEvqp, OpDecEvqp, OpCallEq, OpUd, OpJmpEq, OpUd, OpPushEvq, OpUd]"

definition Op0ff :: nexgen32e_f where
  "Op0ff rde disp uimm0 = (kOp0ff ! ModrmReg rde) rde disp uimm0"

end
