(* ===== verification/BitOps.thy ===== *)
theory BitOps
  imports Moves
begin

text \<open>
  Counting, scanning, testing and depositing bits (\<open>machine.c\<close>, \<open>popcount.c\<close>, \<open>bit.c\<close>, \<open>bmi2.c\<close>), decimal arithmetic (\<open>bcd.c\<close>), and the instructions on checksums and carry-less products (\<open>crc32.c\<close>, \<open>clmul.c\<close>).
\<close>

section \<open>Counting and scanning\<close>

definition popcount :: "u64 \<Rightarrow> u64" where
  "popcount x =
     (let x = x - (shr x 1 AND 0x5555555555555555);
          x = (shr x 2 AND 0x3333333333333333) + (x AND 0x3333333333333333);
          x = (x + shr x 4) AND 0x0f0f0f0f0f0f0f0f;
          x = (x + shr x 32) AND 0xffffffff;
          x = x + shr x 16
      in (x + shr x 8) AND 0x7f)"

definition AluPopcnt :: "u64 \<Rightarrow> u32 \<Rightarrow> u64 \<times> u32" where
  "AluPopcnt x f =
     (let f = SetFlag f FLAGS_ZF (x = 0);
          f = SetFlag f FLAGS_CF False;
          f = SetFlag f FLAGS_SF False;
          f = SetFlag f FLAGS_OF False;
          f = SetFlag f FLAGS_PF False
      in (popcount x, f))"

definition AluLzcnt :: "u64 \<Rightarrow> u64 \<Rightarrow> u32 \<Rightarrow> u64 \<times> u32" where
  "AluLzcnt bits x f =
     (let r = (if x \<noteq> 0 then ucast (bsf x) else bits);
          f = SetFlag f FLAGS_CF (x = 0);
          f = SetFlag f FLAGS_ZF (r = 0)
      in (r, f))"

definition AluLzcnt64 :: "u64 \<Rightarrow> u32 \<Rightarrow> u64 \<times> u32" where "AluLzcnt64 = AluLzcnt 64"
definition AluLzcnt32 :: "u64 \<Rightarrow> u32 \<Rightarrow> u64 \<times> u32" where "AluLzcnt32 = AluLzcnt 32"
definition AluLzcnt16 :: "u64 \<Rightarrow> u32 \<Rightarrow> u64 \<times> u32" where "AluLzcnt16 = AluLzcnt 16"

definition AluBsf :: "u64 \<Rightarrow> u32 \<Rightarrow> u64 \<times> u32" where
  "AluBsf x f = (if x \<noteq> 0 then ucast (bsf x) else 0, SetFlag f FLAGS_ZF (x = 0))"

definition AluTzcnt :: "u64 \<Rightarrow> u64 \<Rightarrow> u32 \<Rightarrow> u64 \<times> u32" where
  "AluTzcnt bits x f =
     (let r = (if x \<noteq> 0 then word_of_nat (bsr x) else bits);
          f = SetFlag f FLAGS_CF (x = 0);
          f = SetFlag f FLAGS_ZF (r = 0)
      in (r, f))"

definition AluTzcnt64 :: "u64 \<Rightarrow> u32 \<Rightarrow> u64 \<times> u32" where "AluTzcnt64 = AluTzcnt 64"
definition AluTzcnt32 :: "u64 \<Rightarrow> u32 \<Rightarrow> u64 \<times> u32" where "AluTzcnt32 = AluTzcnt 32"
definition AluTzcnt16 :: "u64 \<Rightarrow> u32 \<Rightarrow> u64 \<times> u32" where "AluTzcnt16 = AluTzcnt 16"

definition AluBsr :: "u64 \<Rightarrow> u32 \<Rightarrow> u64 \<times> u32" where
  "AluBsr x f = (if x \<noteq> 0 then word_of_nat (bsr x) else 0, SetFlag f FLAGS_ZF (x = 0))"

definition Bitscan :: "u64 \<Rightarrow> u64 \<Rightarrow> u64 \<Rightarrow> (u64 \<Rightarrow> u32 \<Rightarrow> u64 \<times> u32) \<Rightarrow> unit exec" where
  "Bitscan rde disp uimm0 op =
     seq (GetModrmRegisterWordPointerReadOszRexw rde disp uimm0) (\<lambda>p.
     seq (rd (ReadMemory rde) p) (\<lambda>x.
     seq (gets (\<lambda>m. op x (m_flags m))) (\<lambda>(r, f).
     thn (put_flags f) (wr (WriteRegister rde) (RegRexrReg rde) r))))"

definition OpBsf :: nexgen32e_f where
  "OpBsf rde disp uimm0 =
     Bitscan rde disp uimm0
      (if Rep rde = 3 then
         if Rexw rde \<noteq> 0 then AluLzcnt64 else if Osz rde = 0 then AluLzcnt32 else AluLzcnt16
       else AluBsf)"

definition OpBsr :: nexgen32e_f where
  "OpBsr rde disp uimm0 =
     Bitscan rde disp uimm0
      (if Rep rde = 3 then
         if Rexw rde \<noteq> 0 then AluTzcnt64 else if Osz rde = 0 then AluTzcnt32 else AluTzcnt16
       else AluBsr)"

definition Op1b8 :: nexgen32e_f where
  "Op1b8 rde disp uimm0 = (if Rep rde = 3 then Bitscan rde disp uimm0 AluPopcnt else OpUdImpl)"

section \<open>Single bits\<close>

definition Bts :: "u64 \<Rightarrow> u64 \<Rightarrow> u64" where "Bts x y = x OR y"
definition Btr :: "u64 \<Rightarrow> u64 \<Rightarrow> u64" where "Btr x y = x AND NOT y"
definition Btc :: "u64 \<Rightarrow> u64 \<Rightarrow> u64" where "Btc x y = (x AND NOT y) OR (NOT x AND y)"

definition OpBit :: nexgen32e_f where
  "OpBit rde disp uimm0 =
     (let w = [[2, 3], [1, 3]] ! Osz rde ! Rexw rde; mask' = (shl 8 w - 1 :: u64) in
      seq (if Opcode rde = 0xBA then
             ret (ModrmReg rde, uimm0 AND mask', 0)
           else
             seq (rd (ReadRegisterSigned rde) (RegRexrReg rde)) (\<lambda>bitdisp.
             ret (opcode_alu rde, bitdisp AND mask', sar (bitdisp AND - shl 8 w) 3))) (\<lambda>(op, bit', bitdisp).
      seq (if IsModrmRegister rde then ret (RegRexbRm rde)
           else
             seq (ComputeAddress rde disp uimm0) (\<lambda>v.
             ReserveAddress (MaskAddress (Eamode rde) (v + bitdisp)) (push_bit w 1) (op \<noteq> 4))) (\<lambda>p.
      let y = shl 1 (unat bit') in
      seq (if Lock rde \<noteq> 0 then rd (ReadMemoryUnlocked rde) p else rd (ReadMemory rde) p) (\<lambda>x.
      thn (set_flag FLAGS_CF (y AND x \<noteq> 0))
      (if op = 4 then ret ()
       else if op = 5 then wr (WriteRegisterOrMemory rde) p (Bts x y)
       else if op = 6 then wr (WriteRegisterOrMemory rde) p (Btr x y)
       else if op = 7 then wr (WriteRegisterOrMemory rde) p (Btc x y)
       else OpUdImpl)))))"

section \<open>Decimal arithmetic\<close>

definition BcdFlags :: "bool \<Rightarrow> bool \<Rightarrow> unit exec" where
  "BcdFlags af cf =
     thn (set_flag FLAGS_CF cf)
     (thn (set_flag FLAGS_AF af)
     (seq (rd Get8 AX) (\<lambda>al.
      thn (set_flag FLAGS_ZF (al = 0))
      (thn (set_flag FLAGS_SF (sint al < 0))
      (modify (m_flags_update (\<lambda>f. SetLazyParityByte f (ucast al))))))))"

definition OpDas :: nexgen32e_f where
  "OpDas rde disp uimm0 =
     seq (rd Get8 AX) (\<lambda>al.
     seq (gets (\<lambda>m. (GetFlag (m_flags m) FLAGS_AF, GetFlag (m_flags m) FLAGS_CF))) (\<lambda>(AF, CF).
     seq (if al AND 0x0f > 9 \<or> AF then thn (wr Put8 AX (al - 0x06)) (ret (True, al < 6 \<or> CF))
          else ret (False, False)) (\<lambda>(af, cf).
     seq (if al > 0x99 \<or> CF then
            thn (seq (rd Get8 AX) (\<lambda>x. wr Put8 AX (x - 0x60))) (ret True)
          else ret cf) (\<lambda>cf.
     BcdFlags af cf))))"

definition adjust_ascii :: "(u16 \<Rightarrow> u16) \<Rightarrow> unit exec" where
  "adjust_ascii f =
     seq (rd Get8 AX) (\<lambda>al.
     seq (gets (\<lambda>m. GetFlag (m_flags m) FLAGS_AF)) (\<lambda>AF.
     seq (if al AND 0x0f > 9 \<or> AF then thn (seq (rd Get16 AX) (\<lambda>x. wr Put16 AX (f x))) (ret True)
          else ret False) (\<lambda>c.
     thn (seq (rd Get8 AX) (\<lambda>al. wr Put8 AX (al AND 0x0f))) (BcdFlags c c))))"

definition OpAaa :: nexgen32e_f where
  "OpAaa rde disp uimm0 = adjust_ascii (\<lambda>x. x + 0x106)"

definition OpAas :: nexgen32e_f where
  "OpAas rde disp uimm0 = adjust_ascii (\<lambda>x. x - 0x106)"

definition decoded_uimm0 :: "u8 exec" where
  "decoded_uimm0 = gets (\<lambda>m. ucast (op_uimm0 (m_icache m (m_xedd m))))"

definition OpAam :: nexgen32e_f where
  "OpAam rde disp uimm0 =
     seq decoded_uimm0 (\<lambda>imm.
     thn (if imm = 0 then RaiseDivideError else ret ())
     (seq (rd Get8 AX) (\<lambda>al.
      thn (wr Put8 AH (al div imm)) (thn (wr Put8 AX (al mod imm)) (BcdFlags False False)))))"

definition OpAad :: nexgen32e_f where
  "OpAad rde disp uimm0 =
     seq decoded_uimm0 (\<lambda>imm.
     seq (rd Get8 AH) (\<lambda>ah.
     seq (rd Get8 AX) (\<lambda>al.
     thn (wr Put16 AX ((ucast ah * ucast imm + ucast al) AND 255)) (BcdFlags False False))))"

definition OpDaa :: nexgen32e_f where
  "OpDaa rde disp uimm0 =
     seq (rd Get8 AX) (\<lambda>old.
     thn (seq (gets (\<lambda>m. GetFlag (m_flags m) FLAGS_AF)) (\<lambda>AF.
       if old AND 0x0f > 9 \<or> AF then thn (wr Put8 AX (old + 6)) (set_flag FLAGS_AF True) else ret ()))
     (seq (gets (\<lambda>m. GetFlag (m_flags m) FLAGS_CF)) (\<lambda>CF.
       if old > 0x99 \<or> CF then
         thn (seq (rd Get8 AX) (\<lambda>x. wr Put8 AX (x + 0x60))) (set_flag FLAGS_CF True)
       else ret ())))"

section \<open>Flagless bit manipulation\<close>

definition OpPbit :: "u64 \<Rightarrow> u64 \<Rightarrow> u64 \<Rightarrow> (u64 \<Rightarrow> u64 \<Rightarrow> u64) \<Rightarrow> unit exec" where
  "OpPbit rde disp uimm0 op =
     (if Rexw rde \<noteq> 0 then
        seq (rd Get64 (RegVreg rde)) (\<lambda>x.
        seq (GetModrmRegisterWordPointerRead8 rde disp uimm0) (\<lambda>p.
        seq (rd Load64 p) (\<lambda>y. wr Put64 (RegRexrReg rde) (op x y))))
      else
        seq (rd Get32 (RegVreg rde)) (\<lambda>x.
        seq (GetModrmRegisterWordPointerRead4 rde disp uimm0) (\<lambda>p.
        seq (rd Load32 p) (\<lambda>y. wr Put64 (RegRexrReg rde) (ucast (to_u32 (op (ucast x) y)))))))"

definition OpBzhi :: nexgen32e_f where
  "OpBzhi rde disp uimm0 =
     seq (rd Get8 (RegVreg rde)) (\<lambda>i.
     let i = unat i in
     seq (if Rexw rde \<noteq> 0 then
            seq (GetModrmRegisterWordPointerRead8 rde disp uimm0) (\<lambda>p.
            seq (rd Load64 p) (\<lambda>x.
            let x = (if i < 64 then x AND (shl 1 i - 1) else x) in ret (x, i \<ge> 64, sint x < 0)))
          else
            seq (GetModrmRegisterWordPointerRead4 rde disp uimm0) (\<lambda>p.
            seq (rd Load32 p) (\<lambda>x.
            let x = (if i < 32 then x AND ucast (shl 1 i - 1 :: u32) else x)
            in ret (x, i \<ge> 32, sint (to_u32 x) < 0)))) (\<lambda>(x, cf, sf).
     thn (wr Put64 (RegRexrReg rde) x)
     (thn (set_flag FLAGS_ZF (x = 0))
     (thn (set_flag FLAGS_CF cf)
     (thn (set_flag FLAGS_SF sf) (set_flag FLAGS_OF False))))))"

definition Op2f5 :: nexgen32e_f where
  "Op2f5 rde disp uimm0 =
     (if Rep rde = 2 then OpPbit rde disp uimm0 Pdep
      else if Rep rde = 3 then OpPbit rde disp uimm0 Pext
      else if Osz rde = 0 then OpBzhi rde disp uimm0
      else OpUdImpl)"

text \<open>The operand of a flagless shift at its width: the operation gets it and the count.\<close>

definition flagless_shift ::
  "u64 \<Rightarrow> u64 \<Rightarrow> u64 \<Rightarrow> u64 \<Rightarrow> (u64 \<Rightarrow> nat \<Rightarrow> u64) \<Rightarrow> (u32 \<Rightarrow> nat \<Rightarrow> u32) \<Rightarrow> unit exec" where
  "flagless_shift rde disp uimm0 count f64 f32 =
     (if Rexw rde \<noteq> 0 then
        seq (GetModrmRegisterWordPointerRead8 rde disp uimm0) (\<lambda>p.
        seq (rd Load64 p) (\<lambda>x.
        let i = unat (count AND 63) in
        wr Put64 (RegRexrReg rde) (if i \<noteq> 0 then f64 x i else x)))
      else
        seq (GetModrmRegisterWordPointerRead4 rde disp uimm0) (\<lambda>p.
        seq (rd Load32 p) (\<lambda>x.
        let i = unat (count AND 31) in
        wr Put64 (RegRexrReg rde) (ucast (if i \<noteq> 0 then f32 (ucast x) i else ucast x)))))"

definition OpRorx :: nexgen32e_f where
  "OpRorx rde disp uimm0 =
     thn (if Ymm rde \<noteq> 0 then OpUdImpl else ret ())
     (flagless_shift rde disp uimm0 uimm0
       (\<lambda>x i. shr x i OR shl x (64 - i)) (\<lambda>x i. shr x i OR shl x (32 - i)))"

definition OpShlx :: nexgen32e_f where
  "OpShlx rde disp uimm0 =
     seq (rd Get8 (RegVreg rde)) (\<lambda>i. flagless_shift rde disp uimm0 (ucast i) (\<lambda>x i. shl x i) (\<lambda>x i. shl x i))"

definition OpShrx :: nexgen32e_f where
  "OpShrx rde disp uimm0 =
     seq (rd Get8 (RegVreg rde)) (\<lambda>i. flagless_shift rde disp uimm0 (ucast i) (\<lambda>x i. shr x i) (\<lambda>x i. shr x i))"

definition OpSarx :: nexgen32e_f where
  "OpSarx rde disp uimm0 =
     seq (rd Get8 (RegVreg rde)) (\<lambda>i. flagless_shift rde disp uimm0 (ucast i) (\<lambda>x i. sar x i) (\<lambda>x i. sar x i))"

definition OpShx :: nexgen32e_f where
  "OpShx rde disp uimm0 =
     thn (if Ymm rde \<noteq> 0 then OpUdImpl else ret ())
     (if Osz rde \<noteq> 0 then OpShlx rde disp uimm0
      else if Rep rde = 2 then OpShrx rde disp uimm0
      else if Rep rde = 3 then OpSarx rde disp uimm0
      else OpUdImpl)"

section \<open>Checksums and carry-less multiplication\<close>

definition OpCrc32 :: nexgen32e_f where
  "OpCrc32 rde disp uimm0 =
     seq (rd Get32 (RegRexrReg rde)) (\<lambda>h.
     seq (GetModrmReadBW rde disp uimm0) (\<lambda>p.
     seq (rd (ReadRegisterOrMemoryBW rde) p) (\<lambda>w.
     seq (gets (\<lambda>m. Castagnoli (g_crc32c m) h w (push_bit (RegLog2 rde) 1))) (\<lambda>(h, table).
     thn (modify (g_crc32c_update (\<lambda>_. table))) (wr Put64 (RegRexrReg rde) (ucast h))))))"

definition Op2f01 :: nexgen32e_f where
  "Op2f01 rde disp uimm0 =
     (if Rep rde = 0 \<and> Osz rde = 0 then OpUdImpl
      else if Rep rde = 2 \<and> Osz rde = 0 then OpCrc32 rde disp uimm0
      else OpUdImpl)"

definition OpSsePclmulqdq :: nexgen32e_f where
  "OpSsePclmulqdq rde disp uimm0 =
     (if Osz rde \<noteq> 0 then
        seq (rd Get64 (at (XmmRexrReg rde) (unat (shl (uimm0 AND 0x01) 3)))) (\<lambda>a.
        seq (GetModrmRegisterXmmPointerRead16 rde disp uimm0) (\<lambda>p.
        seq (rd Get64 (at p (unat (shr (uimm0 AND 0x10) 1)))) (\<lambda>b.
        let (x, y) = clmul a b in
        thn (wr Put64 (XmmRexrReg rde) x) (wr Put64 (at (XmmRexrReg rde) 8) y))))
      else OpUdImpl)"

end
