(* ===== verification/SseMoves.thy ===== *)
theory SseMoves
  imports Moves
begin

text \<open>
  The moves between vector registers, general registers and memory (\<open>ssemov.c\<close>).
\<close>

section \<open>Copies\<close>

text \<open>A copy whose source is computed by an operation, which may fault before anything is written.\<close>

definition copy_from :: "ptr \<Rightarrow> ptr exec \<Rightarrow> nat \<Rightarrow> unit exec" where
  "copy_from dst src n = seq src (\<lambda>p. copy_bytes dst p n)"

definition copy_to :: "ptr exec \<Rightarrow> ptr \<Rightarrow> nat \<Rightarrow> unit exec" where
  "copy_to dst src n = seq dst (\<lambda>p. copy_bytes p src n)"

definition zero_bytes :: "ptr \<Rightarrow> nat \<Rightarrow> unit exec" where
  "zero_bytes p n = modify (update_region p (\<lambda>s i. if offset p \<le> i \<and> i < offset p + n then 0 else s i))"

section \<open>Moves of sixteen bytes\<close>

definition MovdquVdqWdq :: nexgen32e_f where
  "MovdquVdqWdq rde disp uimm0 =
     copy_from (XmmRexrReg rde) (GetModrmRegisterXmmPointerRead16 rde disp uimm0) 16"

definition MovdquWdqVdq :: nexgen32e_f where
  "MovdquWdqVdq rde disp uimm0 =
     copy_to (GetModrmRegisterXmmPointerWrite16 rde disp uimm0) (XmmRexrReg rde) 16"

definition MovupsVpsWps :: nexgen32e_f where "MovupsVpsWps rde disp uimm0 = MovdquVdqWdq rde disp uimm0"
definition MovupsWpsVps :: nexgen32e_f where "MovupsWpsVps rde disp uimm0 = MovdquWdqVdq rde disp uimm0"
definition MovupdVpsWps :: nexgen32e_f where "MovupdVpsWps rde disp uimm0 = MovdquVdqWdq rde disp uimm0"
definition MovupdWpsVps :: nexgen32e_f where "MovupdWpsVps rde disp uimm0 = MovdquWdqVdq rde disp uimm0"
definition OpLddquVdqMdq :: nexgen32e_f where "OpLddquVdqMdq rde disp uimm0 = MovdquVdqWdq rde disp uimm0"

definition OpMovntiMdqpGdqp :: nexgen32e_f where
  "OpMovntiMdqpGdqp rde disp uimm0 =
     (if Rexw rde \<noteq> 0 then copy_to (ComputeReserveAddressWrite8 rde disp uimm0) (XmmRexrReg rde) 8
      else copy_to (ComputeReserveAddressWrite4 rde disp uimm0) (XmmRexrReg rde) 4)"

definition MovdqaVdqWdq :: nexgen32e_f where
  "MovdqaVdqWdq rde disp uimm0 = copy_from (XmmRexrReg rde) (GetXmmAddress rde disp uimm0) 16"

definition is_rom :: "ptr \<Rightarrow> Machine \<Rightarrow> bool" where
  "is_rom p m = (case p of Host a \<Rightarrow> IsRomAddress a m | _ \<Rightarrow> False)"

definition MovdqaWdqVdq :: nexgen32e_f where
  "MovdqaWdqVdq rde disp uimm0 =
     seq (GetXmmAddress rde disp uimm0) (\<lambda>dst.
     seq (gets (is_rom dst)) (\<lambda>rom.
     if \<not> rom then copy_bytes dst (XmmRexrReg rde) 16 else ret ()))"

definition MovntdqMdqVdq :: nexgen32e_f where "MovntdqMdqVdq rde disp uimm0 = MovdqaWdqVdq rde disp uimm0"
definition MovntpsMpsVps :: nexgen32e_f where "MovntpsMpsVps rde disp uimm0 = MovdqaWdqVdq rde disp uimm0"
definition MovntpdMpdVpd :: nexgen32e_f where "MovntpdMpdVpd rde disp uimm0 = MovdqaWdqVdq rde disp uimm0"
definition OpMovntdqaVdqMdq :: nexgen32e_f where "OpMovntdqaVdqMdq rde disp uimm0 = MovdqaVdqWdq rde disp uimm0"
definition MovapsVpsWps :: nexgen32e_f where "MovapsVpsWps rde disp uimm0 = MovdqaVdqWdq rde disp uimm0"
definition MovapdVpdWpd :: nexgen32e_f where "MovapdVpdWpd rde disp uimm0 = MovdqaVdqWdq rde disp uimm0"
definition MovapsWpsVps :: nexgen32e_f where "MovapsWpsVps rde disp uimm0 = MovdqaWdqVdq rde disp uimm0"
definition MovapdWpdVpd :: nexgen32e_f where "MovapdWpdVpd rde disp uimm0 = MovdqaWdqVdq rde disp uimm0"

section \<open>Narrower moves\<close>

definition MovqPqQq :: nexgen32e_f where
  "MovqPqQq rde disp uimm0 = copy_from (MmReg rde) (GetModrmRegisterMmPointerRead8 rde disp uimm0) 8"

definition MovqQqPq :: nexgen32e_f where
  "MovqQqPq rde disp uimm0 = copy_to (GetModrmRegisterMmPointerWrite8 rde disp uimm0) (MmReg rde) 8"

definition MovqVdqEqp :: nexgen32e_f where
  "MovqVdqEqp rde disp uimm0 =
     thn (copy_from (XmmRexrReg rde) (GetModrmRegisterWordPointerRead8 rde disp uimm0) 8)
     (zero_bytes (at (XmmRexrReg rde) 8) 8)"

definition MovdVdqEd :: nexgen32e_f where
  "MovdVdqEd rde disp uimm0 =
     thn (zero_bytes (XmmRexrReg rde) 16)
     (copy_from (XmmRexrReg rde) (GetModrmRegisterWordPointerRead4 rde disp uimm0) 4)"

definition MovqPqEqp :: nexgen32e_f where
  "MovqPqEqp rde disp uimm0 = copy_from (MmReg rde) (GetModrmRegisterWordPointerRead8 rde disp uimm0) 8"

definition MovdPqEd :: nexgen32e_f where
  "MovdPqEd rde disp uimm0 =
     thn (copy_from (MmReg rde) (GetModrmRegisterWordPointerRead4 rde disp uimm0) 4)
     (zero_bytes (at (MmReg rde) 4) 4)"

definition MovdEdVdq :: nexgen32e_f where
  "MovdEdVdq rde disp uimm0 =
     (if IsModrmRegister rde then seq (rd Get32 (XmmRexrReg rde)) (\<lambda>x. wr Put64 (RegRexbRm rde) (ucast x))
      else copy_to (ComputeReserveAddressWrite4 rde disp uimm0) (XmmRexrReg rde) 4)"

definition MovqEqpVdq :: nexgen32e_f where
  "MovqEqpVdq rde disp uimm0 = copy_to (GetModrmRegisterWordPointerWrite8 rde disp uimm0) (XmmRexrReg rde) 8"

definition MovdEdPq :: nexgen32e_f where
  "MovdEdPq rde disp uimm0 =
     (if IsModrmRegister rde then seq (rd Get32 (MmReg rde)) (\<lambda>x. wr Put64 (RegRexbRm rde) (ucast x))
      else copy_to (ComputeReserveAddressWrite4 rde disp uimm0) (MmReg rde) 4)"

definition MovqEqpPq :: nexgen32e_f where
  "MovqEqpPq rde disp uimm0 = copy_to (GetModrmRegisterWordPointerWrite8 rde disp uimm0) (MmReg rde) 8"

definition MovntqMqPq :: nexgen32e_f where
  "MovntqMqPq rde disp uimm0 = copy_to (ComputeReserveAddressWrite8 rde disp uimm0) (MmReg rde) 8"

definition MovqVqWq :: nexgen32e_f where
  "MovqVqWq rde disp uimm0 =
     thn (copy_from (XmmRexrReg rde) (GetModrmRegisterXmmPointerRead8 rde disp uimm0) 8)
     (zero_bytes (at (XmmRexrReg rde) 8) 8)"

definition MovssVpsWps :: nexgen32e_f where
  "MovssVpsWps rde disp uimm0 =
     (if IsModrmRegister rde then copy_bytes (XmmRexrReg rde) (XmmRexbRm rde) 4
      else
        thn (copy_from (XmmRexrReg rde) (ComputeReserveAddressRead4 rde disp uimm0) 4)
        (zero_bytes (at (XmmRexrReg rde) 4) 12))"

definition MovssWpsVps :: nexgen32e_f where
  "MovssWpsVps rde disp uimm0 = copy_to (GetModrmRegisterXmmPointerWrite4 rde disp uimm0) (XmmRexrReg rde) 4"

definition MovsdVpsWps :: nexgen32e_f where
  "MovsdVpsWps rde disp uimm0 =
     (if IsModrmRegister rde then copy_bytes (XmmRexrReg rde) (XmmRexbRm rde) 8
      else
        thn (copy_from (XmmRexrReg rde) (ComputeReserveAddressRead8 rde disp uimm0) 8)
        (zero_bytes (at (XmmRexrReg rde) 8) 8))"

definition MovsdWpsVps :: nexgen32e_f where
  "MovsdWpsVps rde disp uimm0 = copy_to (GetModrmRegisterXmmPointerWrite8 rde disp uimm0) (XmmRexrReg rde) 8"

definition MovhlpsVqUq :: nexgen32e_f where
  "MovhlpsVqUq rde disp uimm0 = copy_bytes (XmmRexrReg rde) (at (XmmRexbRm rde) 8) 8"

definition MovlpsVqMq :: nexgen32e_f where
  "MovlpsVqMq rde disp uimm0 = copy_from (XmmRexrReg rde) (ComputeReserveAddressRead8 rde disp uimm0) 8"

definition MovlpdVqMq :: nexgen32e_f where
  "MovlpdVqMq rde disp uimm0 = copy_from (XmmRexrReg rde) (ComputeReserveAddressRead8 rde disp uimm0) 8"

definition MovddupVqWq :: nexgen32e_f where
  "MovddupVqWq rde disp uimm0 =
     seq (GetModrmRegisterXmmPointerRead8 rde disp uimm0) (\<lambda>src.
     thn (copy_bytes (XmmRexrReg rde) src 8) (copy_bytes (at (XmmRexrReg rde) 8) src 8))"

definition MovsldupVqWq :: nexgen32e_f where
  "MovsldupVqWq rde disp uimm0 =
     seq (GetModrmRegisterXmmPointerRead16 rde disp uimm0) (\<lambda>src.
     let dst = XmmRexrReg rde in
     thn (copy_bytes (at dst 0) (at src 0) 4)
     (thn (copy_bytes (at dst 4) (at src 0) 4)
     (thn (copy_bytes (at dst 8) (at src 8) 4)
     (copy_bytes (at dst 12) (at src 8) 4))))"

definition MovlpsMqVq :: nexgen32e_f where
  "MovlpsMqVq rde disp uimm0 = copy_to (ComputeReserveAddressWrite8 rde disp uimm0) (XmmRexrReg rde) 8"

definition MovlpdMqVq :: nexgen32e_f where
  "MovlpdMqVq rde disp uimm0 = copy_to (ComputeReserveAddressWrite8 rde disp uimm0) (XmmRexrReg rde) 8"

definition MovlhpsVqUq :: nexgen32e_f where
  "MovlhpsVqUq rde disp uimm0 = copy_bytes (at (XmmRexrReg rde) 8) (XmmRexbRm rde) 8"

definition MovhpsVqMq :: nexgen32e_f where
  "MovhpsVqMq rde disp uimm0 = copy_from (at (XmmRexrReg rde) 8) (ComputeReserveAddressRead8 rde disp uimm0) 8"

definition MovhpdVqMq :: nexgen32e_f where
  "MovhpdVqMq rde disp uimm0 = copy_from (at (XmmRexrReg rde) 8) (ComputeReserveAddressRead8 rde disp uimm0) 8"

definition MovshdupVqWq :: nexgen32e_f where
  "MovshdupVqWq rde disp uimm0 =
     seq (GetModrmRegisterXmmPointerRead16 rde disp uimm0) (\<lambda>src.
     let dst = XmmRexrReg rde in
     thn (copy_bytes (at dst 0) (at src 4) 4)
     (thn (copy_bytes (at dst 4) (at src 4) 4)
     (thn (copy_bytes (at dst 8) (at src 12) 4)
     (copy_bytes (at dst 12) (at src 12) 4))))"

definition MovhpsMqVq :: nexgen32e_f where
  "MovhpsMqVq rde disp uimm0 = copy_to (ComputeReserveAddressWrite8 rde disp uimm0) (at (XmmRexrReg rde) 8) 8"

definition MovhpdMqVq :: nexgen32e_f where
  "MovhpdMqVq rde disp uimm0 = copy_to (ComputeReserveAddressWrite8 rde disp uimm0) (at (XmmRexrReg rde) 8) 8"

definition MovqWqVq :: nexgen32e_f where
  "MovqWqVq rde disp uimm0 =
     (if IsModrmRegister rde then
        thn (copy_bytes (XmmRexbRm rde) (XmmRexrReg rde) 8) (zero_bytes (at (XmmRexbRm rde) 8) 8)
      else copy_to (ComputeReserveAddressWrite8 rde disp uimm0) (XmmRexrReg rde) 8)"

definition Movq2dqVdqNq :: nexgen32e_f where
  "Movq2dqVdqNq rde disp uimm0 =
     thn (copy_bytes (XmmRexrReg rde) (MmRm rde) 8) (zero_bytes (at (XmmRexrReg rde) 8) 8)"

definition Movdq2qPqUq :: nexgen32e_f where
  "Movdq2qPqUq rde disp uimm0 = copy_bytes (MmReg rde) (XmmRexbRm rde) 8"

section \<open>The moves of the opcode table\<close>

text \<open>The selector of the prefixes: a value the C code declares unreachable fails.\<close>

definition prefix_selector :: "u64 \<Rightarrow> nat" where
  "prefix_selector rde = (Rep rde OR Osz rde)"

definition by_prefix :: "u64 \<Rightarrow> unit exec list \<Rightarrow> unit exec" where
  "by_prefix rde ops = (if prefix_selector rde < length ops then ops ! prefix_selector rde else unassert False)"

definition OpMovWpsVps :: nexgen32e_f where
  "OpMovWpsVps rde disp uimm0 =
     by_prefix rde [MovupsWpsVps rde disp uimm0, MovupdWpsVps rde disp uimm0,
                    MovsdWpsVps rde disp uimm0, MovssWpsVps rde disp uimm0]"

definition OpMov0f28 :: nexgen32e_f where
  "OpMov0f28 rde disp uimm0 =
     (if Osz rde = 0 then MovapsVpsWps rde disp uimm0 else MovapdVpdWpd rde disp uimm0)"

definition OpMov0f6e :: nexgen32e_f where
  "OpMov0f6e rde disp uimm0 =
     (if Osz rde \<noteq> 0 then
        if Rexw rde \<noteq> 0 then MovqVdqEqp rde disp uimm0 else MovdVdqEd rde disp uimm0
      else
        if Rexw rde \<noteq> 0 then MovqPqEqp rde disp uimm0 else MovdPqEd rde disp uimm0)"

definition OpMov0f6f :: nexgen32e_f where
  "OpMov0f6f rde disp uimm0 =
     (if Osz rde \<noteq> 0 then MovdqaVdqWdq rde disp uimm0
      else if Rep rde = 3 then MovdquVdqWdq rde disp uimm0
      else MovqPqQq rde disp uimm0)"

definition OpMov0fE7 :: nexgen32e_f where
  "OpMov0fE7 rde disp uimm0 =
     (if Osz rde = 0 then MovntqMqPq rde disp uimm0 else MovntdqMdqVdq rde disp uimm0)"

definition OpMov0f7e :: nexgen32e_f where
  "OpMov0f7e rde disp uimm0 =
     (if Rep rde = 3 then MovqVqWq rde disp uimm0
      else if Osz rde \<noteq> 0 then
        if Rexw rde \<noteq> 0 then MovqEqpVdq rde disp uimm0 else MovdEdVdq rde disp uimm0
      else
        if Rexw rde \<noteq> 0 then MovqEqpPq rde disp uimm0 else MovdEdPq rde disp uimm0)"

definition OpMov0f7f :: nexgen32e_f where
  "OpMov0f7f rde disp uimm0 =
     (if Rep rde = 3 then MovdquWdqVdq rde disp uimm0
      else if Osz rde \<noteq> 0 then MovdqaWdqVdq rde disp uimm0
      else MovqQqPq rde disp uimm0)"

definition OpMov0f10 :: nexgen32e_f where
  "OpMov0f10 rde disp uimm0 =
     by_prefix rde [MovupsVpsWps rde disp uimm0, MovupdVpsWps rde disp uimm0,
                    MovsdVpsWps rde disp uimm0, MovssVpsWps rde disp uimm0]"

definition OpMov0f29 :: nexgen32e_f where
  "OpMov0f29 rde disp uimm0 =
     (if Osz rde = 0 then MovapsWpsVps rde disp uimm0 else MovapdWpdVpd rde disp uimm0)"

definition OpMov0f2b :: nexgen32e_f where
  "OpMov0f2b rde disp uimm0 =
     (if Osz rde = 0 then MovntpsMpsVps rde disp uimm0 else MovntpdMpdVpd rde disp uimm0)"

definition OpMov0f12 :: nexgen32e_f where
  "OpMov0f12 rde disp uimm0 =
     by_prefix rde
      [if IsModrmRegister rde then MovhlpsVqUq rde disp uimm0 else MovlpsVqMq rde disp uimm0,
       MovlpdVqMq rde disp uimm0, MovddupVqWq rde disp uimm0, MovsldupVqWq rde disp uimm0]"

definition OpMov0f13 :: nexgen32e_f where
  "OpMov0f13 rde disp uimm0 =
     (if Osz rde \<noteq> 0 then MovlpdMqVq rde disp uimm0 else MovlpsMqVq rde disp uimm0)"

definition OpMov0f16 :: nexgen32e_f where
  "OpMov0f16 rde disp uimm0 =
     (if prefix_selector rde = 0 then
        if IsModrmRegister rde then MovlhpsVqUq rde disp uimm0 else MovhpsVqMq rde disp uimm0
      else if prefix_selector rde = 1 then MovhpdVqMq rde disp uimm0
      else if prefix_selector rde = 3 then MovshdupVqWq rde disp uimm0
      else OpUdImpl)"

definition OpMov0f17 :: nexgen32e_f where
  "OpMov0f17 rde disp uimm0 =
     (if Osz rde \<noteq> 0 then MovhpdMqVq rde disp uimm0 else MovhpsMqVq rde disp uimm0)"

definition OpMov0fD6 :: nexgen32e_f where
  "OpMov0fD6 rde disp uimm0 =
     (if Rep rde = 3 then Movq2dqVdqNq rde disp uimm0
      else if Rep rde = 2 then Movdq2qPqUq rde disp uimm0
      else if Osz rde \<noteq> 0 then MovqWqVq rde disp uimm0
      else OpUdImpl)"

section \<open>Masks\<close>

definition pmovmskb :: "nat \<Rightarrow> ram \<Rightarrow> u32" where
  "pmovmskb p s = fold (\<lambda>i m. if s (p + i) AND 0x80 \<noteq> 0 then m OR shl 1 i else m) [0..<16] 0"

definition OpPmovmskbGdqpNqUdq :: nexgen32e_f where
  "OpPmovmskbGdqpNqUdq rde disp uimm0 =
     seq (rd (\<lambda>s p. pmovmskb p s) (XmmRexbRm rde)) (\<lambda>k.
     wr Put64 (RegRexrReg rde) (ucast (k AND (if Osz rde \<noteq> 0 then 0xffff else 0xff))))"

fun masked_store :: "nat list \<Rightarrow> ptr \<Rightarrow> u64 \<Rightarrow> unit exec" where
  "masked_store [] mem rde = ret ()"
| "masked_store (i # is') mem rde =
     thn (seq (rd Get8 (at (XmmRexbRm rde) i)) (\<lambda>k.
       if k AND 0x80 \<noteq> 0 then seq (rd Get8 (at (XmmRexrReg rde) i)) (wr Put8 (at mem i)) else ret ()))
     (masked_store is' mem rde)"

definition OpMaskMovDiXmmRegXmmRm :: nexgen32e_f where
  "OpMaskMovDiXmmRegXmmRm rde disp uimm0 =
     seq (gets (AddressDi rde disp uimm0)) (\<lambda>v.
     let n = (if Osz rde \<noteq> 0 then 16 else 8) in
     seq (BeginStore v n (Local 0)) (\<lambda>(mem, p).
     thn (masked_store [0..<n] mem rde) (EndStore v n p (Local 0))))"

end
