(* ===== verification/Sse2.thy ===== *)
theory Sse2
  imports Simd
begin

text \<open>
  The integer vector kernels of \<open>sse2.c\<close>, over the byte stores of \<open>Simd\<close>.
\<close>

section \<open>Quadwords\<close>

definition MmxPor :: kernel where
  "MmxPor x y s = Put64 x (Get64 s x OR Get64 s y) s"

definition MmxPxor :: kernel where
  "MmxPxor x y s = Put64 x (Get64 s x XOR Get64 s y) s"

definition MmxPand :: kernel where
  "MmxPand x y s = Put64 x (Get64 s x AND Get64 s y) s"

definition MmxPandn :: kernel where
  "MmxPandn x y s = Put64 x (NOT (Get64 s x) AND Get64 s y) s"

section \<open>Sixteen bytes or eight words\<close>

text \<open>The kernels copy both operands into local arrays, compute, and store the result.\<close>

definition byte_array :: "nat \<Rightarrow> ram \<Rightarrow> u8 list" where
  "byte_array x s = map (\<lambda>i. s (x + i)) [0..<16]"

definition put_bytes :: "nat \<Rightarrow> u8 list \<Rightarrow> ram \<Rightarrow> ram" where
  "put_bytes x X s = for_loop 16 (\<lambda>i s. Put8 (x + i) (X ! i) s) s"

definition word_array :: "nat \<Rightarrow> ram \<Rightarrow> u16 list" where
  "word_array x s = map (\<lambda>i. Get16 s (x + i * 2)) [0..<8]"

definition put_words :: "nat \<Rightarrow> u16 list \<Rightarrow> ram \<Rightarrow> ram" where
  "put_words x X s = for_loop 8 (\<lambda>i s. Put16 (x + i * 2) (X ! i) s) s"

definition SsePsubw :: kernel where
  "SsePsubw x y s = put_words x (map2 (\<lambda>a b. a - b) (word_array x s) (word_array y s)) s"

definition SsePaddw :: kernel where
  "SsePaddw x y s = put_words x (map2 (\<lambda>a b. a + b) (word_array x s) (word_array y s)) s"

definition SsePaddusw :: kernel where
  "SsePaddusw x y s = put_words x (map2 (\<lambda>a b. word_of_int (min 65535 (uint a + uint b))) (word_array x s) (word_array y s)) s"

definition SsePsubsw :: kernel where
  "SsePsubsw x y s = put_words x (map2 (\<lambda>a b. word_of_int (clamp (-32768) 32767 (sint a - sint b))) (word_array x s) (word_array y s)) s"

definition SsePaddsw :: kernel where
  "SsePaddsw x y s = put_words x (map2 (\<lambda>a b. word_of_int (clamp (-32768) 32767 (sint a + sint b))) (word_array x s) (word_array y s)) s"

definition SsePcmpgtw :: kernel where
  "SsePcmpgtw x y s = put_words x (map2 (\<lambda>a b. - of_bool (sint b < sint a)) (word_array x s) (word_array y s)) s"

definition SsePcmpeqw :: kernel where
  "SsePcmpeqw x y s = put_words x (map2 (\<lambda>a b. - of_bool (a = b)) (word_array x s) (word_array y s)) s"

definition SsePavgw :: kernel where
  "SsePavgw x y s = put_words x (map2 (\<lambda>a b. word_of_int (drop_bit 1 (uint a + uint b + 1))) (word_array x s) (word_array y s)) s"

definition SsePmulhw :: kernel where
  "SsePmulhw x y s = put_words x (map2 (\<lambda>a b. word_of_int (drop_bit 16 (sint a * sint b))) (word_array x s) (word_array y s)) s"

definition SsePmullw :: kernel where
  "SsePmullw x y s = put_words x (map2 (\<lambda>a b. word_of_int (sint a * sint b)) (word_array x s) (word_array y s)) s"

definition SsePsubb :: kernel where
  "SsePsubb x y s = put_bytes x (map2 (\<lambda>a b. a - b) (byte_array x s) (byte_array y s)) s"

definition SsePaddb :: kernel where
  "SsePaddb x y s = put_bytes x (map2 (\<lambda>a b. a + b) (byte_array x s) (byte_array y s)) s"

definition SsePor :: kernel where
  "SsePor x y s = put_bytes x (map2 (\<lambda>a b. a OR b) (byte_array x s) (byte_array y s)) s"

definition SsePxor :: kernel where
  "SsePxor x y s = put_bytes x (map2 (\<lambda>a b. a XOR b) (byte_array x s) (byte_array y s)) s"

definition SsePand :: kernel where
  "SsePand x y s = put_bytes x (map2 (\<lambda>a b. a AND b) (byte_array x s) (byte_array y s)) s"

definition SsePandn :: kernel where
  "SsePandn x y s = put_bytes x (map2 (\<lambda>a b. NOT a AND b) (byte_array x s) (byte_array y s)) s"

definition SsePcmpeqb :: kernel where
  "SsePcmpeqb x y s = put_bytes x (map2 (\<lambda>a b. - of_bool (a = b)) (byte_array x s) (byte_array y s)) s"

definition SsePcmpgtb :: kernel where
  "SsePcmpgtb x y s = put_bytes x (map2 (\<lambda>a b. - of_bool (sint b < sint a)) (byte_array x s) (byte_array y s)) s"

definition SsePavgb :: kernel where
  "SsePavgb x y s = put_bytes x (map2 (\<lambda>a b. word_of_int (drop_bit 1 (uint a + uint b + 1))) (byte_array x s) (byte_array y s)) s"

definition SsePabsb :: kernel where
  "SsePabsb x y s = put_bytes x (map2 (\<lambda>a b. word_of_int (c_abs (sint b))) (byte_array x s) (byte_array y s)) s"

definition SsePminub :: kernel where
  "SsePminub x y s = put_bytes x (map2 (\<lambda>a b. min a b) (byte_array x s) (byte_array y s)) s"

definition SsePmaxub :: kernel where
  "SsePmaxub x y s = put_bytes x (map2 (\<lambda>a b. max a b) (byte_array x s) (byte_array y s)) s"

section \<open>Saturating horizontal sums\<close>

definition horizontal :: "(int \<Rightarrow> int \<Rightarrow> int) \<Rightarrow> u16 list \<Rightarrow> u16 list" where
  "horizontal f X =
     map (\<lambda>i. word_of_int (clamp (-32768) 32767 (f (sint (X ! (i * 2))) (sint (X ! (i * 2 + 1)))))) [0..<4]"

definition SsePhaddsw :: kernel where
  "SsePhaddsw x y s =
     put_words x (horizontal (\<lambda>a b. a + b) (word_array x s) @ horizontal (\<lambda>a b. a + b) (word_array y s)) s"

definition SsePhsubsw :: kernel where
  "SsePhsubsw x y s =
     put_words x (horizontal (\<lambda>a b. a - b) (word_array x s) @ horizontal (\<lambda>a b. a - b) (word_array y s)) s"

end
