(* ===== verification/VectorOps.thy ===== *)
theory VectorOps
  imports SseMoves Sse2 Simd
begin

text \<open>
  The vector instructions of \<open>sse.c\<close> and \<open>sse2.c\<close>, which run a kernel on their operands, and the shuffles and bitwise instructions of \<open>ssefloat.c\<close>.
\<close>

section \<open>Running a kernel\<close>

text \<open>
  A kernel works on one byte store. A source in a register is an address in the register file; any other source is put
  behind the 256 bytes of the register file for the time of the kernel.
\<close>

definition with_source :: "(nat \<Rightarrow> ram \<Rightarrow> ram) \<Rightarrow> ptr \<Rightarrow> unit exec" where
  "with_source k p = modify (\<lambda>m.
     case p of
       Xmm y \<Rightarrow> m\<lparr>m_xmm := k y (m_xmm m)\<rparr>
     | _ \<Rightarrow>
       let s = (\<lambda>i. if i < 256 then m_xmm m i else region p m (offset p + (i - 256)));
           s' = k 256 s
       in m\<lparr>m_xmm := (\<lambda>i. if i < 256 then s' i else m_xmm m i)\<rparr>)"

definition OpPsb :: "u64 \<Rightarrow> u64 \<Rightarrow> u64 \<Rightarrow> kernel_imm \<Rightarrow> kernel_imm \<Rightarrow> unit exec" where
  "OpPsb rde disp uimm0 mmx sse =
     modify (m_xmm_update ((if Osz rde \<noteq> 0 then sse else mmx) (offset (XmmRexbRm rde)) (ucast uimm0)))"

definition Op171 :: nexgen32e_f where
  "Op171 rde disp uimm0 =
     (if ModrmReg rde = 2 then OpPsb rde disp uimm0 MmxPsrlw SsePsrlw
      else if ModrmReg rde = 4 then OpPsb rde disp uimm0 MmxPsraw SsePsraw
      else if ModrmReg rde = 6 then OpPsb rde disp uimm0 MmxPsllw SsePsllw
      else OpUdImpl)"

definition Op172 :: nexgen32e_f where
  "Op172 rde disp uimm0 =
     (if ModrmReg rde = 2 then OpPsb rde disp uimm0 MmxPsrld SsePsrld
      else if ModrmReg rde = 4 then OpPsb rde disp uimm0 MmxPsrad SsePsrad
      else if ModrmReg rde = 6 then OpPsb rde disp uimm0 MmxPslld SsePslld
      else OpUdImpl)"

definition Op173 :: nexgen32e_f where
  "Op173 rde disp uimm0 =
     (if ModrmReg rde = 2 then OpPsb rde disp uimm0 MmxPsrlq SsePsrlq
      else if ModrmReg rde = 3 then OpPsb rde disp uimm0 MmxPsrldq SsePsrldq
      else if ModrmReg rde = 6 then OpPsb rde disp uimm0 MmxPsllq SsePsllq
      else if ModrmReg rde = 7 then OpPsb rde disp uimm0 MmxPslldq SsePslldq
      else OpUdImpl)"

definition OpSsePalignr :: nexgen32e_f where
  "OpSsePalignr rde disp uimm0 =
     (let x = offset (XmmRexrReg rde) in
      if Osz rde \<noteq> 0 then
        seq (GetModrmRegisterXmmPointerRead16 rde disp uimm0) (with_source (\<lambda>y. SsePalignr x y (ucast uimm0)))
      else
        seq (GetModrmRegisterXmmPointerRead8 rde disp uimm0) (with_source (\<lambda>y. MmxPalignr x y (ucast uimm0))))"

definition OpSse :: "u64 \<Rightarrow> u64 \<Rightarrow> u64 \<Rightarrow> kernel \<Rightarrow> kernel \<Rightarrow> unit exec" where
  "OpSse rde disp uimm0 mmx sse =
     (let x = offset (XmmRexrReg rde) in
      if Osz rde \<noteq> 0 then seq (GetXmmAddress rde disp uimm0) (with_source (sse x))
      else seq (GetMmxAddress rde disp uimm0) (with_source (mmx x)))"

section \<open>The instructions of \<open>sse.c\<close>\<close>

definition OpSsePunpcklbw :: nexgen32e_f where "OpSsePunpcklbw rde disp uimm0 = OpSse rde disp uimm0 MmxPunpcklbw SsePunpcklbw"
definition OpSsePunpcklwd :: nexgen32e_f where "OpSsePunpcklwd rde disp uimm0 = OpSse rde disp uimm0 MmxPunpcklwd SsePunpcklwd"
definition OpSsePunpckldq :: nexgen32e_f where "OpSsePunpckldq rde disp uimm0 = OpSse rde disp uimm0 MmxPunpckldq SsePunpckldq"
definition OpSsePacksswb :: nexgen32e_f where "OpSsePacksswb rde disp uimm0 = OpSse rde disp uimm0 MmxPacksswb SsePacksswb"
definition OpSsePcmpgtd :: nexgen32e_f where "OpSsePcmpgtd rde disp uimm0 = OpSse rde disp uimm0 MmxPcmpgtd SsePcmpgtd"
definition OpSsePackuswb :: nexgen32e_f where "OpSsePackuswb rde disp uimm0 = OpSse rde disp uimm0 MmxPackuswb SsePackuswb"
definition OpSsePunpckhbw :: nexgen32e_f where "OpSsePunpckhbw rde disp uimm0 = OpSse rde disp uimm0 MmxPunpckhbw SsePunpckhbw"
definition OpSsePunpckhwd :: nexgen32e_f where "OpSsePunpckhwd rde disp uimm0 = OpSse rde disp uimm0 MmxPunpckhwd SsePunpckhwd"
definition OpSsePunpckhdq :: nexgen32e_f where "OpSsePunpckhdq rde disp uimm0 = OpSse rde disp uimm0 MmxPunpckhdq SsePunpckhdq"
definition OpSsePackssdw :: nexgen32e_f where "OpSsePackssdw rde disp uimm0 = OpSse rde disp uimm0 MmxPackssdw SsePackssdw"
definition OpSsePunpcklqdq :: nexgen32e_f where "OpSsePunpcklqdq rde disp uimm0 = OpSse rde disp uimm0 MmxPunpcklqdq SsePunpcklqdq"
definition OpSsePunpckhqdq :: nexgen32e_f where "OpSsePunpckhqdq rde disp uimm0 = OpSse rde disp uimm0 MmxPunpckhqdq SsePunpckhqdq"
definition OpSsePcmpeqd :: nexgen32e_f where "OpSsePcmpeqd rde disp uimm0 = OpSse rde disp uimm0 MmxPcmpeqd SsePcmpeqd"
definition OpSsePsrlwv :: nexgen32e_f where "OpSsePsrlwv rde disp uimm0 = OpSse rde disp uimm0 MmxPsrlwv SsePsrlwv"
definition OpSsePsrldv :: nexgen32e_f where "OpSsePsrldv rde disp uimm0 = OpSse rde disp uimm0 MmxPsrldv SsePsrldv"
definition OpSsePsrlqv :: nexgen32e_f where "OpSsePsrlqv rde disp uimm0 = OpSse rde disp uimm0 MmxPsrlqv SsePsrlqv"
definition OpSsePaddq :: nexgen32e_f where "OpSsePaddq rde disp uimm0 = OpSse rde disp uimm0 MmxPaddq SsePaddq"
definition OpSsePsubusb :: nexgen32e_f where "OpSsePsubusb rde disp uimm0 = OpSse rde disp uimm0 MmxPsubusb SsePsubusb"
definition OpSsePsubusw :: nexgen32e_f where "OpSsePsubusw rde disp uimm0 = OpSse rde disp uimm0 MmxPsubusw SsePsubusw"
definition OpSsePaddusb :: nexgen32e_f where "OpSsePaddusb rde disp uimm0 = OpSse rde disp uimm0 MmxPaddusb SsePaddusb"
definition OpSsePsrawv :: nexgen32e_f where "OpSsePsrawv rde disp uimm0 = OpSse rde disp uimm0 MmxPsrawv SsePsrawv"
definition OpSsePsradv :: nexgen32e_f where "OpSsePsradv rde disp uimm0 = OpSse rde disp uimm0 MmxPsradv SsePsradv"
definition OpSsePmulhuw :: nexgen32e_f where "OpSsePmulhuw rde disp uimm0 = OpSse rde disp uimm0 MmxPmulhuw SsePmulhuw"
definition OpSsePsubsb :: nexgen32e_f where "OpSsePsubsb rde disp uimm0 = OpSse rde disp uimm0 MmxPsubsb SsePsubsb"
definition OpSsePminsw :: nexgen32e_f where "OpSsePminsw rde disp uimm0 = OpSse rde disp uimm0 MmxPminsw SsePminsw"
definition OpSsePaddsb :: nexgen32e_f where "OpSsePaddsb rde disp uimm0 = OpSse rde disp uimm0 MmxPaddsb SsePaddsb"
definition OpSsePmaxsw :: nexgen32e_f where "OpSsePmaxsw rde disp uimm0 = OpSse rde disp uimm0 MmxPmaxsw SsePmaxsw"
definition OpSsePsllwv :: nexgen32e_f where "OpSsePsllwv rde disp uimm0 = OpSse rde disp uimm0 MmxPsllwv SsePsllwv"
definition OpSsePslldv :: nexgen32e_f where "OpSsePslldv rde disp uimm0 = OpSse rde disp uimm0 MmxPslldv SsePslldv"
definition OpSsePsllqv :: nexgen32e_f where "OpSsePsllqv rde disp uimm0 = OpSse rde disp uimm0 MmxPsllqv SsePsllqv"
definition OpSsePmuludq :: nexgen32e_f where "OpSsePmuludq rde disp uimm0 = OpSse rde disp uimm0 MmxPmuludq SsePmuludq"
definition OpSsePmaddwd :: nexgen32e_f where "OpSsePmaddwd rde disp uimm0 = OpSse rde disp uimm0 MmxPmaddwd SsePmaddwd"
definition OpSsePsadbw :: nexgen32e_f where "OpSsePsadbw rde disp uimm0 = OpSse rde disp uimm0 MmxPsadbw SsePsadbw"
definition OpSsePsubd :: nexgen32e_f where "OpSsePsubd rde disp uimm0 = OpSse rde disp uimm0 MmxPsubd SsePsubd"
definition OpSsePsubq :: nexgen32e_f where "OpSsePsubq rde disp uimm0 = OpSse rde disp uimm0 MmxPsubq SsePsubq"
definition OpSsePaddd :: nexgen32e_f where "OpSsePaddd rde disp uimm0 = OpSse rde disp uimm0 MmxPaddd SsePaddd"
definition OpSsePshufb :: nexgen32e_f where "OpSsePshufb rde disp uimm0 = OpSse rde disp uimm0 MmxPshufb SsePshufb"
definition OpSsePhaddw :: nexgen32e_f where "OpSsePhaddw rde disp uimm0 = OpSse rde disp uimm0 MmxPhaddw SsePhaddw"
definition OpSsePhaddd :: nexgen32e_f where "OpSsePhaddd rde disp uimm0 = OpSse rde disp uimm0 MmxPhaddd SsePhaddd"
definition OpSsePmaddubsw :: nexgen32e_f where "OpSsePmaddubsw rde disp uimm0 = OpSse rde disp uimm0 MmxPmaddubsw SsePmaddubsw"
definition OpSsePhsubw :: nexgen32e_f where "OpSsePhsubw rde disp uimm0 = OpSse rde disp uimm0 MmxPhsubw SsePhsubw"
definition OpSsePhsubd :: nexgen32e_f where "OpSsePhsubd rde disp uimm0 = OpSse rde disp uimm0 MmxPhsubd SsePhsubd"
definition OpSsePsignb :: nexgen32e_f where "OpSsePsignb rde disp uimm0 = OpSse rde disp uimm0 MmxPsignb SsePsignb"
definition OpSsePsignw :: nexgen32e_f where "OpSsePsignw rde disp uimm0 = OpSse rde disp uimm0 MmxPsignw SsePsignw"
definition OpSsePsignd :: nexgen32e_f where "OpSsePsignd rde disp uimm0 = OpSse rde disp uimm0 MmxPsignd SsePsignd"
definition OpSsePmulhrsw :: nexgen32e_f where "OpSsePmulhrsw rde disp uimm0 = OpSse rde disp uimm0 MmxPmulhrsw SsePmulhrsw"
definition OpSsePabsw :: nexgen32e_f where "OpSsePabsw rde disp uimm0 = OpSse rde disp uimm0 MmxPabsw SsePabsw"
definition OpSsePabsd :: nexgen32e_f where "OpSsePabsd rde disp uimm0 = OpSse rde disp uimm0 MmxPabsd SsePabsd"
definition OpSsePmulld :: nexgen32e_f where "OpSsePmulld rde disp uimm0 = OpSse rde disp uimm0 MmxPmulld SsePmulld"
section \<open>The instructions of \<open>sse2.c\<close>\<close>

definition OpSsePcmpgtb :: nexgen32e_f where "OpSsePcmpgtb rde disp uimm0 = OpSse rde disp uimm0 MmxPcmpgtb SsePcmpgtb"
definition OpSsePcmpgtw :: nexgen32e_f where "OpSsePcmpgtw rde disp uimm0 = OpSse rde disp uimm0 MmxPcmpgtw SsePcmpgtw"
definition OpSsePcmpeqb :: nexgen32e_f where "OpSsePcmpeqb rde disp uimm0 = OpSse rde disp uimm0 MmxPcmpeqb SsePcmpeqb"
definition OpSsePcmpeqw :: nexgen32e_f where "OpSsePcmpeqw rde disp uimm0 = OpSse rde disp uimm0 MmxPcmpeqw SsePcmpeqw"
definition OpSsePmullw :: nexgen32e_f where "OpSsePmullw rde disp uimm0 = OpSse rde disp uimm0 MmxPmullw SsePmullw"
definition OpSsePminub :: nexgen32e_f where "OpSsePminub rde disp uimm0 = OpSse rde disp uimm0 MmxPminub SsePminub"
definition OpSsePand :: nexgen32e_f where "OpSsePand rde disp uimm0 = OpSse rde disp uimm0 MmxPand SsePand"
definition OpSsePaddusw :: nexgen32e_f where "OpSsePaddusw rde disp uimm0 = OpSse rde disp uimm0 MmxPaddusw SsePaddusw"
definition OpSsePmaxub :: nexgen32e_f where "OpSsePmaxub rde disp uimm0 = OpSse rde disp uimm0 MmxPmaxub SsePmaxub"
definition OpSsePandn :: nexgen32e_f where "OpSsePandn rde disp uimm0 = OpSse rde disp uimm0 MmxPandn SsePandn"
definition OpSsePavgb :: nexgen32e_f where "OpSsePavgb rde disp uimm0 = OpSse rde disp uimm0 MmxPavgb SsePavgb"
definition OpSsePavgw :: nexgen32e_f where "OpSsePavgw rde disp uimm0 = OpSse rde disp uimm0 MmxPavgw SsePavgw"
definition OpSsePmulhw :: nexgen32e_f where "OpSsePmulhw rde disp uimm0 = OpSse rde disp uimm0 MmxPmulhw SsePmulhw"
definition OpSsePsubsw :: nexgen32e_f where "OpSsePsubsw rde disp uimm0 = OpSse rde disp uimm0 MmxPsubsw SsePsubsw"
definition OpSsePor :: nexgen32e_f where "OpSsePor rde disp uimm0 = OpSse rde disp uimm0 MmxPor SsePor"
definition OpSsePaddsw :: nexgen32e_f where "OpSsePaddsw rde disp uimm0 = OpSse rde disp uimm0 MmxPaddsw SsePaddsw"
definition OpSsePxor :: nexgen32e_f where "OpSsePxor rde disp uimm0 = OpSse rde disp uimm0 MmxPxor SsePxor"
definition OpSsePsubb :: nexgen32e_f where "OpSsePsubb rde disp uimm0 = OpSse rde disp uimm0 MmxPsubb SsePsubb"
definition OpSsePsubw :: nexgen32e_f where "OpSsePsubw rde disp uimm0 = OpSse rde disp uimm0 MmxPsubw SsePsubw"
definition OpSsePaddb :: nexgen32e_f where "OpSsePaddb rde disp uimm0 = OpSse rde disp uimm0 MmxPaddb SsePaddb"
definition OpSsePaddw :: nexgen32e_f where "OpSsePaddw rde disp uimm0 = OpSse rde disp uimm0 MmxPaddw SsePaddw"
definition OpSsePhaddsw :: nexgen32e_f where "OpSsePhaddsw rde disp uimm0 = OpSse rde disp uimm0 MmxPhaddsw SsePhaddsw"
definition OpSsePhsubsw :: nexgen32e_f where "OpSsePhsubsw rde disp uimm0 = OpSse rde disp uimm0 MmxPhsubsw SsePhsubsw"
definition OpSsePabsb :: nexgen32e_f where "OpSsePabsb rde disp uimm0 = OpSse rde disp uimm0 MmxPabsb SsePabsb"

section \<open>Shuffles and bitwise instructions of \<open>ssefloat.c\<close>\<close>

text \<open>The four selectors of two bits in an immediate.\<close>

definition sel :: "u64 \<Rightarrow> nat \<Rightarrow> nat" where
  "sel uimm0 i = unat (shr uimm0 (2 * i) AND 3)"

definition get_words :: "ptr \<Rightarrow> nat \<Rightarrow> u16 list exec" where
  "get_words p n = gets (\<lambda>m. map (\<lambda>i. Get16 (region p m) (offset p + 2 * i)) [0..<n])"

definition get_dwords :: "ptr \<Rightarrow> u32 list exec" where
  "get_dwords p = gets (\<lambda>m. map (\<lambda>i. Get32 (region p m) (offset p + 4 * i)) [0..<4])"

definition set_words :: "ptr \<Rightarrow> u16 list \<Rightarrow> unit exec" where
  "set_words p ws = modify (update_region p (fold (\<lambda>i s. Put16 (offset p + 2 * i) (ws ! i) s) [0..<length ws]))"

definition set_dwords :: "ptr \<Rightarrow> u32 list \<Rightarrow> unit exec" where
  "set_dwords p ws = modify (update_region p (fold (\<lambda>i s. Put32 (offset p + 4 * i) (ws ! i) s) [0..<length ws]))"

definition pshufw :: "'a list \<Rightarrow> u64 \<Rightarrow> 'a list" where
  "pshufw a m = map (\<lambda>i. a ! sel m i) [0..<4]"

definition pshufd :: "'a list \<Rightarrow> u64 \<Rightarrow> 'a list" where
  "pshufd a m = map (\<lambda>i. a ! sel m i) [0..<4]"

definition pshuflw :: "'a list \<Rightarrow> u64 \<Rightarrow> 'a list" where
  "pshuflw a m = map (\<lambda>i. a ! sel m i) [0..<4] @ map (\<lambda>i. a ! i) [4..<8]"

definition pshufhw :: "'a list \<Rightarrow> u64 \<Rightarrow> 'a list" where
  "pshufhw a m = map (\<lambda>i. a ! i) [0..<4] @ map (\<lambda>i. a ! (4 + sel m i)) [0..<4]"

definition OpShuffle :: nexgen32e_f where
  "OpShuffle rde disp uimm0 =
     by_prefix rde
      [seq (GetModrmRegisterXmmPointerRead8 rde disp uimm0) (\<lambda>p.
       seq (get_words p 4) (\<lambda>a. set_words (XmmRexrReg rde) (pshufw a uimm0))),
       seq (GetModrmRegisterXmmPointerRead16 rde disp uimm0) (\<lambda>p.
       seq (get_dwords p) (\<lambda>a. set_dwords (XmmRexrReg rde) (pshufd a uimm0))),
       seq (GetModrmRegisterXmmPointerRead16 rde disp uimm0) (\<lambda>p.
       seq (get_words p 8) (\<lambda>a. set_words (XmmRexrReg rde) (pshuflw a uimm0))),
       seq (GetModrmRegisterXmmPointerRead16 rde disp uimm0) (\<lambda>p.
       seq (get_words p 8) (\<lambda>a. set_words (XmmRexrReg rde) (pshufhw a uimm0)))]"

definition OpUnpcklpsd :: nexgen32e_f where
  "OpUnpcklpsd rde disp uimm0 =
     (let a = XmmRexrReg rde in
      seq (GetModrmRegisterXmmPointerRead8 rde disp uimm0) (\<lambda>b.
      if Osz rde \<noteq> 0 then copy_bytes (at a 8) b 8
      else
        thn (copy_bytes (at a 12) (at b 4) 4)
        (thn (copy_bytes (at a 8) (at a 4) 4)
        (copy_bytes (at a 4) (at b 0) 4))))"

definition OpUnpckhpsd :: nexgen32e_f where
  "OpUnpckhpsd rde disp uimm0 =
     (let a = XmmRexrReg rde in
      seq (GetModrmRegisterXmmPointerRead16 rde disp uimm0) (\<lambda>b.
      if Osz rde \<noteq> 0 then
        thn (copy_bytes (at a 0) (at b 8) 8) (copy_bytes (at a 8) (at b 8) 8)
      else
        thn (copy_bytes (at a 0) (at a 8) 4)
        (thn (copy_bytes (at a 4) (at b 8) 4)
        (thn (copy_bytes (at a 8) (at a 12) 4)
        (copy_bytes (at a 12) (at b 12) 4)))))"

definition word_index :: "u64 \<Rightarrow> u64 \<Rightarrow> nat" where
  "word_index rde uimm0 = unat (to_u8 uimm0 AND (if Osz rde \<noteq> 0 then 7 else 3))"

definition OpPextrwGdqpUdqIb :: nexgen32e_f where
  "OpPextrwGdqpUdqIb rde disp uimm0 =
     seq (rd Get16 (at (XmmRexbRm rde) (word_index rde uimm0 * 2))) (wr Put16 (RegRexrReg rde))"

definition OpPinsrwVdqEwIb :: nexgen32e_f where
  "OpPinsrwVdqEwIb rde disp uimm0 =
     seq (GetModrmRegisterWordPointerRead2 rde disp uimm0) (\<lambda>p.
     seq (rd Get16 p) (wr Put16 (at (XmmRexrReg rde) (word_index rde uimm0 * 2))))"

definition Shufps :: nexgen32e_f where
  "Shufps rde disp uimm0 =
     seq (GetModrmRegisterXmmPointerRead16 rde disp uimm0) (\<lambda>p.
     seq (get_dwords p) (\<lambda>y.
     seq (get_dwords (XmmRexrReg rde)) (\<lambda>x.
     set_dwords (XmmRexrReg rde) [x ! sel uimm0 0, x ! sel uimm0 1, y ! sel uimm0 2, y ! sel uimm0 3])))"

definition get_qwords :: "ptr \<Rightarrow> (u64 \<times> u64) exec" where
  "get_qwords p = seq (rd Get64 p) (\<lambda>a. seq (rd Get64 (at p 8)) (\<lambda>b. ret (a, b)))"

definition set_qwords :: "ptr \<Rightarrow> u64 \<times> u64 \<Rightarrow> unit exec" where
  "set_qwords p v = thn (wr Put64 p (fst v)) (wr Put64 (at p 8) (snd v))"

definition Shufpd :: nexgen32e_f where
  "Shufpd rde disp uimm0 =
     seq (GetModrmRegisterXmmPointerRead16 rde disp uimm0) (\<lambda>p.
     seq (get_qwords p) (\<lambda>(y0, y1).
     seq (get_qwords (XmmRexrReg rde)) (\<lambda>(x0, x1).
     set_qwords (XmmRexrReg rde) (if bit uimm0 0 then x1 else x0, if bit uimm0 1 then y1 else y0))))"

definition OpShufpsd :: nexgen32e_f where
  "OpShufpsd rde disp uimm0 = (if Osz rde \<noteq> 0 then Shufpd rde disp uimm0 else Shufps rde disp uimm0)"

definition sign_of_byte :: "ptr \<Rightarrow> nat \<Rightarrow> Machine \<Rightarrow> u64" where
  "sign_of_byte p i m = of_bool (region p m (offset p + i) AND 0x80 \<noteq> 0)"

definition Movmskps :: nexgen32e_f where
  "Movmskps rde disp uimm0 =
     seq (GetModrmRegisterXmmPointerRead16 rde disp uimm0) (\<lambda>p.
     seq (gets (\<lambda>m. shl (sign_of_byte p 15 m) 3 OR shl (sign_of_byte p 11 m) 2 OR
                     shl (sign_of_byte p 7 m) 1 OR sign_of_byte p 3 m)) (wr Put64 (RegRexrReg rde)))"

definition Movmskpd :: nexgen32e_f where
  "Movmskpd rde disp uimm0 =
     seq (GetModrmRegisterXmmPointerRead16 rde disp uimm0) (\<lambda>p.
     seq (gets (\<lambda>m. shl (sign_of_byte p 15 m) 1 OR sign_of_byte p 7 m)) (wr Put64 (RegRexrReg rde)))"

definition OpMovmskpsd :: nexgen32e_f where
  "OpMovmskpsd rde disp uimm0 = (if Osz rde \<noteq> 0 then Movmskpd rde disp uimm0 else Movmskps rde disp uimm0)"

definition bitwise :: "u64 \<Rightarrow> u64 \<Rightarrow> u64 \<Rightarrow> (u64 \<Rightarrow> u64 \<Rightarrow> u64) \<Rightarrow> unit exec" where
  "bitwise rde disp uimm0 f =
     seq (get_qwords (XmmRexrReg rde)) (\<lambda>(x0, x1).
     seq (GetModrmRegisterXmmPointerRead16 rde disp uimm0) (\<lambda>p.
     seq (get_qwords p) (\<lambda>(y0, y1). set_qwords (XmmRexrReg rde) (f x0 y0, f x1 y1))))"

definition OpAndpsd :: nexgen32e_f where "OpAndpsd rde disp uimm0 = bitwise rde disp uimm0 (\<lambda>x y. x AND y)"
definition OpAndnpsd :: nexgen32e_f where "OpAndnpsd rde disp uimm0 = bitwise rde disp uimm0 (\<lambda>x y. NOT x AND y)"
definition OpOrpsd :: nexgen32e_f where "OpOrpsd rde disp uimm0 = bitwise rde disp uimm0 (\<lambda>x y. x OR y)"
definition OpXorpsd :: nexgen32e_f where "OpXorpsd rde disp uimm0 = bitwise rde disp uimm0 (\<lambda>x y. x XOR y)"

end
