(* ===== verification/Exchange.thy ===== *)
theory Exchange
  imports AluOps
begin

text \<open>
  Exchanging registers and memory: \<open>xchg.c\<close>, \<open>xadd.c\<close>, \<open>cmpxchg.c\<close> and the wide compare and exchange of \<open>machine.c\<close>.
\<close>

text \<open>
  With one thread an atomic exchange is a load and a store, taking the bus changes nothing, and whether a pointer is
  aligned only matters where the two variants differ in the order of their steps.
\<close>

section \<open>Exchange\<close>

definition OpXchgGbEb :: nexgen32e_f where
  "OpXchgGbEb rde disp uimm0 =
     (let q = ByteRexrReg rde in
      if \<not> IsModrmRegister rde then
        seq (ComputeReserveAddressWrite1 rde disp uimm0) (\<lambda>p.
        seq (rd Get8 q) (\<lambda>x.
        seq (rd Get8 p) (\<lambda>y.
        thn (wr Put8 p x) (wr Put8 q y))))
      else
        let p = ByteRexbRm rde in
        seq (rd Get8 q) (\<lambda>x.
        seq (rd Get8 p) (\<lambda>y.
        thn (wr Put8 q y) (wr Put8 p x))))"

definition OpXchgZvqp :: nexgen32e_f where
  "OpXchgZvqp rde disp uimm0 =
     seq (rd Get64 AX) (\<lambda>x.
     seq (rd Get64 (RegRexbSrm rde)) (\<lambda>y.
     thn (wr (WriteRegister rde) AX y) (wr (WriteRegister rde) (RegRexbSrm rde) x)))"

definition OpXchgGvqpEvqp :: nexgen32e_f where
  "OpXchgGvqpEvqp rde disp uimm0 =
     (let q = RegRexrReg rde in
      seq (GetModrmRegisterWordPointerWriteOszRexw rde disp uimm0) (\<lambda>p.
      if Rexw rde \<noteq> 0 then
        seq (rd Get64 q) (\<lambda>x.
        seq (rd Get64 p) (\<lambda>y.
        thn (wr Put64 q y) (wr Put64 p x)))
      else if Osz rde = 0 then
        seq (rd Get32 p) (\<lambda>y.
        seq (rd Get32 q) (\<lambda>x.
        thn (wr Put32 q y)
        (thn (wr Put32 p x)
        (thn (wr Put32 (at q 4) 0)
        (if IsModrmRegister rde then wr Put32 (at p 4) 0 else ret ())))))
      else
        seq (rd Get16 p) (\<lambda>y.
        seq (rd Get16 q) (\<lambda>x.
        thn (wr Put16 q y) (wr Put16 p x)))))"

section \<open>Exchange and add\<close>

definition OpXaddEbGb :: nexgen32e_f where
  "OpXaddEbGb rde disp uimm0 =
     seq (GetModrmRegisterBytePointerWrite1 rde disp uimm0) (\<lambda>p.
     let q = ByteRexrReg rde in
     seq (rd Load8 p) (\<lambda>x.
     seq (rd Get8 q) (\<lambda>y.
     seq (alu Add8 x (ucast y)) (\<lambda>z.
     thn (wr Put8 q (ucast x)) (wr Store8 p z)))))"

definition OpXaddEvqpGvqp :: nexgen32e_f where
  "OpXaddEvqpGvqp rde disp uimm0 =
     (let q = RegRexrReg rde in
      seq (GetModrmRegisterWordPointerWriteOszRexw rde disp uimm0) (\<lambda>p.
      if Rexw rde \<noteq> 0 then
        seq (rd Load64 p) (\<lambda>x.
        seq (rd Get64 q) (\<lambda>y.
        seq (alu Add64 x y) (\<lambda>z.
        thn (wr Put64 q x) (wr Store64 p z))))
      else if Osz rde = 0 then
        seq (rd Load32 p) (\<lambda>x.
        seq (rd Get32 q) (\<lambda>y.
        seq (alu Add32 x (ucast y)) (\<lambda>z.
        thn (wr Put32 q (ucast x))
        (thn (wr Store32 p z)
        (thn (wr Put32 (at q 4) 0)
        (if IsModrmRegister rde then wr Put32 (at p 4) 0 else ret ()))))))
      else
        seq (rd Load16 p) (\<lambda>x.
        seq (rd Get16 q) (\<lambda>y.
        seq (alu Add16 x (ucast y)) (\<lambda>z.
        thn (wr Put16 q (ucast x)) (wr Store16 p z))))))"

section \<open>Compare and exchange\<close>

text \<open>
  The compare and exchange of the host: whether it stored the new value, and the value it found. The arrays
  of the machine are aligned to eight bytes.
\<close>

definition compare_exchange ::
  "(ram \<Rightarrow> nat \<Rightarrow> 'a) \<Rightarrow> (nat \<Rightarrow> 'a \<Rightarrow> ram \<Rightarrow> ram) \<Rightarrow> ptr \<Rightarrow> 'a \<Rightarrow> 'a \<Rightarrow> (bool \<times> 'a) exec" where
  "compare_exchange get put p expected desired =
     seq (rd get p) (\<lambda>x. if x = expected then thn (wr put p desired) (ret (True, x)) else ret (False, x))"

definition ptr_aligned :: "ptr \<Rightarrow> nat \<Rightarrow> bool" where
  "ptr_aligned p n = (offset p mod n = 0)"

definition OpCmpxchgEbAlGb :: nexgen32e_f where
  "OpCmpxchgEbAlGb rde disp uimm0 =
     seq (GetModrmRegisterBytePointerWrite1 rde disp uimm0) (\<lambda>p.
     let q = ByteRexrReg rde in
     seq (rd Get8 AX) (\<lambda>ax.
     seq (rd Get8 q) (\<lambda>y.
     seq (compare_exchange Get8 Put8 p ax y) (\<lambda>(didit, ax).
     seq (rd Get8 AX) (\<lambda>x.
     seq (alu Sub8 (ucast x) (ucast ax)) (\<lambda>_.
     wr Put8 AX ax))))))"

definition Cmpxchg :: "u64 \<Rightarrow> ptr \<Rightarrow> unit exec" where
  "Cmpxchg rde p =
     (let q = RegRexrReg rde in
      if Rexw rde \<noteq> 0 then
        seq (rd Load64 p) (\<lambda>x.
        seq (rd Get64 AX) (\<lambda>ax.
        seq (alu Sub64 ax x) (\<lambda>_.
        if x = ax then seq (rd Get64 q) (wr Store64 p) else wr Put64 AX x)))
      else if Osz rde = 0 then
        thn (if Lock rde \<noteq> 0 \<and> ptr_aligned p 4 then
               seq (rd Get32 AX) (\<lambda>ax.
               seq (rd Get32 q) (\<lambda>y.
               seq (compare_exchange Get32 Put32 p ax y) (\<lambda>(didit, ax).
               seq (rd Get32 AX) (\<lambda>x.
               seq (alu Sub32 (ucast x) (ucast ax)) (\<lambda>_.
               if \<not> didit then wr Put64 AX (ucast ax) else ret ())))))
             else
               seq (rd Load32 p) (\<lambda>x.
               seq (rd Get32 AX) (\<lambda>ax.
               seq (alu Sub32 (ucast ax) x) (\<lambda>_.
               if x = ucast ax then seq (rd Get32 q) (\<lambda>y. wr Store32 p (ucast y))
               else wr Put64 AX x))))
        (if IsModrmRegister rde then wr Put32 (at p 4) 0 else ret ())
      else if Lock rde \<noteq> 0 \<and> ptr_aligned p 2 then
        seq (rd Get16 AX) (\<lambda>ax.
        seq (rd Get16 q) (\<lambda>y.
        seq (compare_exchange Get16 Put16 p ax y) (\<lambda>(didit, ax).
        seq (rd Get16 AX) (\<lambda>x.
        seq (alu Sub16 (ucast x) (ucast ax)) (\<lambda>_.
        wr Put16 AX ax)))))
      else
        seq (rd Load16 p) (\<lambda>x.
        seq (rd Get16 AX) (\<lambda>ax.
        seq (alu Sub16 (ucast ax) x) (\<lambda>_.
        if x = ucast ax then seq (rd Get16 q) (\<lambda>y. wr Store16 p (ucast y))
        else wr Put16 AX (ucast x)))))"

definition OpCmpxchgEvqpRaxGvqp :: nexgen32e_f where
  "OpCmpxchgEvqpRaxGvqp rde disp uimm0 =
     seq (GetModrmRegisterWordPointerWriteOszRexw rde disp uimm0) (Cmpxchg rde)"

definition OpCmpxchg8b :: nexgen32e_f where
  "OpCmpxchg8b rde disp uimm0 =
     seq (GetModrmRegisterXmmPointerRead8 rde disp uimm0) (\<lambda>p.
     seq (rd Get32 p) (\<lambda>a.
     seq (rd Get32 (at p 4)) (\<lambda>d.
     seq (rd Get32 AX) (\<lambda>ax.
     seq (rd Get32 DX) (\<lambda>dx.
     if a = ax \<and> d = dx then
       thn (set_flag FLAGS_ZF True) (thn (copy_bytes p BX 4) (copy_bytes (at p 4) CX 4))
     else
       thn (set_flag FLAGS_ZF False) (thn (wr Put32 AX a) (wr Put32 DX d)))))))"

definition OpCmpxchg16b :: nexgen32e_f where
  "OpCmpxchg16b rde disp uimm0 =
     seq (GetModrmRegisterXmmPointerRead16 rde disp uimm0) (\<lambda>p.
     seq (rd Get64 p) (\<lambda>a.
     seq (rd Get64 (at p 8)) (\<lambda>d.
     seq (rd Get64 AX) (\<lambda>ax.
     seq (rd Get64 DX) (\<lambda>dx.
     if a = ax \<and> d = dx then
       thn (set_flag FLAGS_ZF True) (thn (copy_bytes p BX 8) (copy_bytes (at p 8) CX 8))
     else
       thn (set_flag FLAGS_ZF False) (thn (wr Put64 AX a) (wr Put64 DX d)))))))"

end
