(* ===== verification/Cpu.thy ===== *)
theory Cpu
  imports Moves Exchange
begin

text \<open>
  The instructions of \<open>machine.c\<close> on the processor itself: identification (\<open>cpuid.c\<close>), clock (\<open>time.c\<close>) and random words (\<open>rdrand.c\<close>, \<open>vigna.c\<close>), segment descriptors, saving and restoring the extended state, and instructions without effect.
\<close>

section \<open>Identification\<close>

definition text_word :: "string \<Rightarrow> nat \<Rightarrow> u32" where
  "text_word s i = Get32 (\<lambda>k. if k < length s then of_char (s ! k) else 0) i"

text \<open>The host is WebAssembly: neither its system nor its processor has a name in \<open>cpuid.c\<close>, and there is no JIT.\<close>

definition cpuid_leaf :: "u32 \<Rightarrow> u32 \<Rightarrow> u32 \<times> u32 \<times> u32 \<times> u32" where
  "cpuid_leaf a c =
     (let vendor = (\<lambda>ax. (ax, text_word ''GenuineIntel'' 0, text_word ''GenuineIntel'' 8, text_word ''GenuineIntel'' 4));
          name = (\<lambda>s. (0, text_word s 0, text_word s 4, text_word s 8)) in
      if a = 0 then vendor 7
      else if a = 0x80000000 then vendor 0x80000001
      else if a = 0x40000000 then name ''GenuineBlink''
      else if a = 0x40031337 then name ''Unknown''
      else if a = 0x40031338 then name ''Unknown''
      else if a = 1 then
        (0, 0,
         shl 1 0 OR shl 1 1 OR shl 1 9 OR shl 1 23 OR shl 1 30 OR shl 0 25 OR shl 1 13 OR shl 1 31 OR shl 0 19 OR shl 0 20,
         shl 1 4 OR shl 1 6 OR shl 1 8 OR shl 1 15 OR shl 1 19 OR shl 1 23 OR shl 1 24 OR shl 1 25 OR shl 1 26 OR shl 1 0)
      else if a = 2 then (0x76035a01, 0x00f0b0ff, 0x00000000, 0x00ca0000)
      else if a = 7 then
        if c = 0 then (0, shl 1 0 OR shl 1 9 OR shl 1 18 OR shl 1 8 OR shl 1 19, shl 1 22, 0) else (0, 0, 0, 0)
      else if a = 0x80000001 then
        (0, 0, shl 1 0 OR shl 0 31,
         shl 1 0 OR shl 1 8 OR shl 1 11 OR shl 1 15 OR shl 1 20 OR shl 1 23 OR shl 1 24 OR shl 1 27 OR shl 1 29)
      else if a = 0x80000007 then (0, 0, 0, shl 1 8)
      else if a = 4 then
        if c = 0 then (0x1c004121, 0x01c0003f, 0x0000003f, 0x00000000)
        else if c = 1 then (0x1c004122, 0x01c0003f, 0x0000003f, 0x00000000)
        else if c = 2 then (0x1c004143, 0x01c0003f, 0x000001ff, 0x00000000)
        else if c = 3 then (0x1c03c163, 0x03c0003f, 0x00001fff, 0x00000006)
        else (0, 0, 0, 0)
      else if a = 6 then (0x00000077, 0x00000002, 0x0000000b, 0x00000000)
      else (0, 0, 0, 0))"

definition OpCpuid :: nexgen32e_f where
  "OpCpuid rde disp uimm0 =
     thn (seq (gets m_trapcpuid) (\<lambda>b. if b then ThrowSegmentationFault 0 else ret ()))
     (seq (rd Get32 AX) (\<lambda>a.
      seq (rd Get32 CX) (\<lambda>c.
      let (ax, bx, cx, dx) = cpuid_leaf a c in
      thn (wr Put64 AX (ucast ax))
      (thn (wr Put64 BX (ucast bx))
      (thn (wr Put64 CX (ucast cx)) (wr Put64 DX (ucast dx)))))))"

section \<open>Clock and random words\<close>

text \<open>The clock and the random source of the host are lists; when one runs out, the assertion about it fails.\<close>

definition OpPause :: nexgen32e_f where
  "OpPause rde disp uimm0 = ret ()"

definition clock_gettime :: "(u64 \<times> u64) exec" where
  "clock_gettime m = (case h_clock m of [] \<Rightarrow> (Abort, m) | t # ts \<Rightarrow> (Return t, m\<lparr>h_clock := ts\<rparr>))"

definition OpRdtsc :: nexgen32e_f where
  "OpRdtsc rde disp uimm0 =
     thn (seq (gets m_traprdtsc) (\<lambda>b. if b then ThrowSegmentationFault 0 else ret ()))
     (seq clock_gettime (\<lambda>(sec, nsec).
      let c = (sec * 1000000000 + nsec) * 3 in
      thn (wr Put64 AX (c AND 0x00000000ffffffff)) (wr Put64 DX (shr (c AND 0xffffffff00000000) 32))))"

definition GetTscAux :: u64 where
  "GetTscAux = shl (0 AND 0xfff) 12 OR (0 AND 0xfff)"

definition OpRdtscp :: nexgen32e_f where
  "OpRdtscp rde disp uimm0 = thn (OpRdtsc rde disp uimm0) (wr Put64 CX GetTscAux)"

definition OpRdpid :: nexgen32e_f where
  "OpRdpid rde disp uimm0 = wr Put64 (RegRexbRm rde) GetTscAux"

definition GetRandom :: "u64 exec" where
  "GetRandom m = (case h_random m of [] \<Rightarrow> (Abort, m) | x # xs \<Rightarrow> (Return x, m\<lparr>h_random := xs\<rparr>))"

definition Vigna :: "u64 \<Rightarrow> u64 \<times> u64" where
  "Vigna s =
     (let s = s + 0x9e3779b97f4a7c15;
          z = (s XOR shr s 30) * 0xbf58476d1ce4e5b9;
          z = (z XOR shr z 27) * 0x94d049bb133111eb
      in (z XOR shr z 31, s))"

definition OpRand :: "u64 \<Rightarrow> u64 \<Rightarrow> u64 \<Rightarrow> u64 \<Rightarrow> unit exec" where
  "OpRand rde disp uimm0 x = thn (wr (WriteRegister rde) (RegRexbRm rde) x) (set_flag FLAGS_CF True)"

definition OpRdrand :: nexgen32e_f where
  "OpRdrand rde disp uimm0 =
     seq (gets g_rdrand_count) (\<lambda>n.
     thn (modify (g_rdrand_count_update (\<lambda>_. n + 1)))
     (thn (if n mod 16 = 0 then seq GetRandom (\<lambda>x. modify (g_rdrand_state_update (\<lambda>_. x))) else ret ())
     (seq (gets (\<lambda>m. Vigna (g_rdrand_state m))) (\<lambda>(x, s).
      thn (modify (g_rdrand_state_update (\<lambda>_. s))) (OpRand rde disp uimm0 x)))))"

definition OpRdseed :: nexgen32e_f where
  "OpRdseed rde disp uimm0 = seq GetRandom (OpRand rde disp uimm0)"

definition Op1c7 :: nexgen32e_f where
  "Op1c7 rde disp uimm0 =
     (let ismem = \<not> IsModrmRegister rde in
      if ModrmReg rde = 1 then
        if ismem then if Rexw rde \<noteq> 0 then OpCmpxchg16b rde disp uimm0 else OpCmpxchg8b rde disp uimm0
        else OpUdImpl
      else if ModrmReg rde = 6 then if \<not> ismem then OpRdrand rde disp uimm0 else OpUdImpl
      else if ModrmReg rde = 7 then
        if \<not> ismem then if Rep rde = 3 then OpRdpid rde disp uimm0 else OpRdseed rde disp uimm0
        else OpUdImpl
      else OpUdImpl)"

section \<open>Segment descriptors\<close>

definition GetDescriptorLimit :: "u64 \<Rightarrow> u64" where
  "GetDescriptorLimit d =
     (let lim = shr (d AND 0x000f000000000000) 32 OR (d AND 0xffff)
      in if d AND 0x0080000000000000 \<noteq> 0 then shl lim 12 OR 0xfff else lim)"

definition GetDescriptor :: "int \<Rightarrow> u64 option exec" where
  "GetDescriptor selector =
     (let selector = and selector (- 8) in
      seq (gets (\<lambda>m. (s_gdt_base m, uint (s_gdt_limit m), s_real m))) (\<lambda>(base, limit, real).
      if 8 \<le> selector \<and> selector + 7 \<le> limit then
        let daddr = base + word_of_int selector in
        if unat daddr \<ge> kRealSize \<or> unat (daddr + 8) > kRealSize then ret None
        else thn (SetReadAddr daddr 8) (seq (rd Load64 (Host (real + unat daddr))) (\<lambda>d. ret (Some d)))
      else ret None))"

definition OpLsl :: nexgen32e_f where
  "OpLsl rde disp uimm0 =
     seq (GetModrmRegisterWordPointerRead2 rde disp uimm0) (\<lambda>p.
     seq (rd Load16 p) (\<lambda>selector.
     seq (GetDescriptor (uint selector)) (\<lambda>d.
     case d of
       Some d \<Rightarrow> thn (wr (WriteRegister rde) (RegRexrReg rde) (GetDescriptorLimit d)) (set_flag FLAGS_ZF True)
     | None \<Rightarrow> set_flag FLAGS_ZF False)))"

section \<open>Extended state, control words, fences\<close>

text \<open>
  The local buffer of 32 bytes is \<open>Local 0\<close>; the registers of the FPU pass through \<open>Local 32\<close>. The code copies 128 bytes
  from and to an array of 64, the eight doubles; what lies behind the array is kept apart here, as bytes 64 to 127 of \<open>f_st\<close>.
\<close>

definition move_local :: "(Machine \<Rightarrow> ram) \<Rightarrow> nat \<Rightarrow> unit exec" where
  "move_local f n = modify (\<lambda>m. m\<lparr>m_local := (\<lambda>i. if 32 \<le> i \<and> i < 32 + n then f m (i - 32) else m_local m i)\<rparr>)"

definition OpFxsave :: nexgen32e_f where
  "OpFxsave rde disp uimm0 =
     thn (modify (m_local_update (\<lambda>s i. if i < 32 then 0 else s i)))
     (thn (seq (gets f_cw) (\<lambda>x. wr Put16 (Local 0) (ucast x)))
     (thn (seq (gets f_sw) (\<lambda>x. wr Put16 (Local 2) (ucast x)))
     (thn (seq (gets f_tw) (\<lambda>x. wr Put8 (Local 4) (ucast x)))
     (thn (seq (gets f_op) (\<lambda>x. wr Put16 (Local 6) (ucast x)))
     (thn (seq (gets f_ip) (\<lambda>x. wr Put32 (Local 8) (ucast x)))
     (thn (seq (gets m_mxcsr) (wr Put32 (Local 24)))
     (seq (ComputeAddress rde disp uimm0) (\<lambda>v.
      thn (seq (CopyToUser v (Local 0) 32) (\<lambda>_. ret ()))
      (thn (move_local f_st 128)
      (thn (seq (CopyToUser (v + 32) (Local 32) 128) (\<lambda>_. ret ()))
      (thn (seq (CopyToUser (v + 160) (Xmm 0) 256) (\<lambda>_. ret ()))
      (SetWriteAddr v 416))))))))))))"

definition OpFxrstor :: nexgen32e_f where
  "OpFxrstor rde disp uimm0 =
     seq (ComputeAddress rde disp uimm0) (\<lambda>v.
     thn (SetReadAddr v 416)
     (thn (seq (CopyFromUser (Local 0) v 32) (\<lambda>_. ret ()))
     (thn (move_local f_st 128)
     (thn (seq (CopyFromUser (Local 32) (v + 32) 128) (\<lambda>_. ret ()))
     (thn (modify (\<lambda>m. m\<lparr>f_st := (\<lambda>i. if i < 128 then m_local m (32 + i) else f_st m i)\<rparr>))
     (thn (seq (CopyFromUser (Xmm 0) (v + 160) 256) (\<lambda>_. ret ()))
     (modify (\<lambda>m. m\<lparr>
        f_cw := ucast (Load16 (m_local m) 0),
        f_sw := ucast (Load16 (m_local m) 2),
        f_tw := ucast (Load8 (m_local m) 4),
        f_op := ucast (Load16 (m_local m) 6),
        f_ip := Load32 (m_local m) 8,
        m_mxcsr := ucast (Load32 (m_local m) 24)\<rparr>))))))))"

definition OpXsave :: nexgen32e_f where
  "OpXsave rde disp uimm0 = ret ()"

definition OpLdmxcsr :: nexgen32e_f where
  "OpLdmxcsr rde disp uimm0 =
     seq (ComputeReserveAddressRead4 rde disp uimm0) (\<lambda>p.
     seq (rd Load32 p) (\<lambda>x. modify (m_mxcsr_update (\<lambda>_. ucast x))))"

definition OpStmxcsr :: nexgen32e_f where
  "OpStmxcsr rde disp uimm0 =
     seq (ComputeReserveAddressWrite4 rde disp uimm0) (\<lambda>p.
     seq (gets m_mxcsr) (\<lambda>x. wr Store32 p (ucast x)))"

abbreviation (input) SREG_FS :: nat where "SREG_FS \<equiv> 4"
abbreviation (input) SREG_GS :: nat where "SREG_GS \<equiv> 5"

definition OpRdfsbase :: nexgen32e_f where
  "OpRdfsbase rde disp uimm0 = seq (gets (\<lambda>m. m_seg_base m SREG_FS)) (wr (WriteRegister rde) (RegRexbRm rde))"

definition OpRdgsbase :: nexgen32e_f where
  "OpRdgsbase rde disp uimm0 = seq (gets (\<lambda>m. m_seg_base m SREG_GS)) (wr (WriteRegister rde) (RegRexbRm rde))"

definition OpWrfsbase :: nexgen32e_f where
  "OpWrfsbase rde disp uimm0 =
     seq (rd (ReadRegister rde) (RegRexbRm rde)) (\<lambda>x. modify (m_seg_base_update (\<lambda>s. s(SREG_FS := x))))"

definition OpWrgsbase :: nexgen32e_f where
  "OpWrgsbase rde disp uimm0 =
     seq (rd (ReadRegister rde) (RegRexbRm rde)) (\<lambda>x. modify (m_seg_base_update (\<lambda>s. s(SREG_GS := x))))"

definition OpMfence :: nexgen32e_f where "OpMfence rde disp uimm0 = ret ()"
definition OpLfence :: nexgen32e_f where "OpLfence rde disp uimm0 = OpMfence rde disp uimm0"
definition OpSfence :: nexgen32e_f where "OpSfence rde disp uimm0 = OpMfence rde disp uimm0"
definition OpWbinvd :: nexgen32e_f where "OpWbinvd rde disp uimm0 = OpMfence rde disp uimm0"
definition OpClflush :: nexgen32e_f where "OpClflush rde disp uimm0 = OpMfence rde disp uimm0"

definition Op1ae :: nexgen32e_f where
  "Op1ae rde disp uimm0 =
     (let ismem = \<not> IsModrmRegister rde; reg = ModrmReg rde in
      if reg = 0 then if ismem then OpFxsave rde disp uimm0 else OpRdfsbase rde disp uimm0
      else if reg = 1 then if ismem then OpFxrstor rde disp uimm0 else OpRdgsbase rde disp uimm0
      else if reg = 2 then if ismem then OpLdmxcsr rde disp uimm0 else OpWrfsbase rde disp uimm0
      else if reg = 3 then if ismem then OpStmxcsr rde disp uimm0 else OpWrgsbase rde disp uimm0
      else if reg = 4 then if ismem then OpXsave rde disp uimm0 else OpUdImpl
      else if reg = 5 then OpLfence rde disp uimm0
      else if reg = 6 then OpMfence rde disp uimm0
      else if reg = 7 then if ismem then OpClflush rde disp uimm0 else OpSfence rde disp uimm0
      else OpUdImpl)"

section \<open>Instructions without effect\<close>

text \<open>Only the terminal user interface installs \<open>onbinbase\<close>; here it is null.\<close>

definition OpBofram :: nexgen32e_f where
  "OpBofram rde disp uimm0 =
     modify (\<lambda>m. m\<lparr>m_bofram := (if disp \<noteq> 0 then (m_ip m, m_ip m + (disp AND 0xff)) else (0, 0))\<rparr>)"

definition OpBinbase :: nexgen32e_f where
  "OpBinbase rde disp uimm0 = ret ()"

definition OpNoop :: nexgen32e_f where
  "OpNoop rde disp uimm0 = ret ()"

definition OpNopEv :: nexgen32e_f where
  "OpNopEv rde disp uimm0 =
     (let k = ModrmMod rde * 64 + ModrmReg rde * 8 + ModrmRm rde in
      if k = 69 then OpBofram rde disp uimm0
      else if k = 7 \<or> k = 71 \<or> k = 135 then OpBinbase rde disp uimm0
      else OpNoop rde disp uimm0)"

definition OpNop :: nexgen32e_f where
  "OpNop rde disp uimm0 =
     (if Rexb rde \<noteq> 0 then OpXchgZvqp rde disp uimm0
      else if Rep rde = 3 then OpPause rde disp uimm0
      else OpNoop rde disp uimm0)"

definition OpEmms :: nexgen32e_f where
  "OpEmms rde disp uimm0 = modify (f_tw_update (\<lambda>_. - 1))"

end
