(* ===== verification/Strings.thy ===== *)
theory Strings
  imports AluOps
begin

text \<open>
  The string instructions (\<open>string.c\<close>): one element, the repeated loop, and the enhanced moves and stores of bytes.
\<close>

section \<open>Registers of a string instruction\<close>

definition ReadInt :: "ptr \<Rightarrow> nat \<Rightarrow> u64 exec" where
  "ReadInt p w =
     (if w = 0 then seq (rd Get8 p) (\<lambda>x. ret (ucast x))
      else if w = 1 then seq (rd Get16 p) (\<lambda>x. ret (ucast x))
      else if w = 2 then seq (rd Get32 p) (\<lambda>x. ret (ucast x))
      else if w = 3 then rd Get64 p
      else thn (unassert False) (ret 0))"

definition add_index :: "ptr \<Rightarrow> u64 \<Rightarrow> u64 \<Rightarrow> unit exec" where
  "add_index r rde x =
     (if Eamode rde = XED_MODE_LONG then seq (rd Get64 r) (\<lambda>i. wr Put64 r (i + x))
      else if Eamode rde = XED_MODE_LEGACY then
        seq (rd Get32 r) (\<lambda>i. wr Put64 r ((ucast i + x) AND 0xffffffff))
      else if Eamode rde = XED_MODE_REAL then seq (rd Get16 r) (\<lambda>i. wr Put16 r (ucast (ucast i + x)))
      else unassert False)"

definition AddDi :: "u64 \<Rightarrow> u64 \<Rightarrow> u64 \<Rightarrow> u64 \<Rightarrow> unit exec" where
  "AddDi rde disp uimm0 x = add_index DI rde x"

definition AddSi :: "u64 \<Rightarrow> u64 \<Rightarrow> u64 \<Rightarrow> u64 \<Rightarrow> unit exec" where
  "AddSi rde disp uimm0 x = add_index SI rde x"

definition ReadCx :: "u64 \<Rightarrow> u64 \<Rightarrow> u64 \<Rightarrow> u64 exec" where
  "ReadCx rde disp uimm0 =
     (if Eamode rde = XED_MODE_LONG then rd Get64 CX
      else if Eamode rde = XED_MODE_LEGACY then seq (rd Get32 CX) (\<lambda>x. ret (ucast x))
      else if Eamode rde = XED_MODE_REAL then seq (rd Get16 CX) (\<lambda>x. ret (ucast x))
      else thn (unassert False) (ret 0))"

definition SubtractCx :: "u64 \<Rightarrow> u64 \<Rightarrow> u64 \<Rightarrow> u64 \<Rightarrow> u64 exec" where
  "SubtractCx rde disp uimm0 x =
     seq (rd Get64 CX) (\<lambda>cx.
     let cx = cx - x in
     if Eamode rde \<noteq> XED_MODE_REAL then
       let cx = (if Eamode rde = XED_MODE_LEGACY then cx AND 0xffffffff else cx) in
       thn (wr Put64 CX cx) (ret cx)
     else
       let cx = cx AND 0xffff in
       thn (wr Put16 CX (ucast cx)) (ret cx))"

section \<open>One element\<close>

text \<open>
  The three buffers of eight bytes of the C function are at 0, 8 and 16 of \<open>m_local\<close>. A step says whether the loop
  stops; without the metal machine the port instructions abort.
\<close>

datatype string_op = CMPS | MOVS | STOS | LODS | SCAS | OUTS | INS

definition direction :: "u64 exec" where
  "direction = gets (\<lambda>m. if GetFlag (m_flags m) FLAGS_DF then - 1 else 1)"

definition scan_stops :: "u64 \<Rightarrow> bool exec" where
  "scan_stops rde = gets (\<lambda>m. (Rep rde = 2 \<and> GetFlag (m_flags m) FLAGS_ZF) \<or>
                              (Rep rde = 3 \<and> \<not> GetFlag (m_flags m) FLAGS_ZF))"

definition string_step :: "string_op \<Rightarrow> u64 \<Rightarrow> u64 \<Rightarrow> u64 \<Rightarrow> u64 \<Rightarrow> bool exec" where
  "string_step op rde disp uimm0 dir =
     (let w = RegLog2 rde; n = push_bit w 1; d = dir * word_of_nat n;
          load = (\<lambda>address b. seq (gets (address rde disp uimm0)) (\<lambda>v. Load v n b)) in
      case op of
        CMPS \<Rightarrow>
          seq (load AddressSi (Local 16)) (\<lambda>p.
          seq (ReadInt p w) (\<lambda>x.
          seq (load AddressDi (Local 8)) (\<lambda>q.
          seq (ReadInt q w) (\<lambda>y.
          thn (seq (alu (kAlu ! ALU_SUB ! w) x y) (\<lambda>_. ret ()))
          (thn (AddDi rde disp uimm0 d) (thn (AddSi rde disp uimm0 d) (scan_stops rde)))))))
      | MOVS \<Rightarrow>
          seq (gets (AddressDi rde disp uimm0)) (\<lambda>v.
          seq (BeginStore v n (Local 0)) (\<lambda>(q, p).
          seq (load AddressSi (Local 8)) (\<lambda>s.
          thn (copy_bytes q s n)
          (thn (AddDi rde disp uimm0 d)
          (thn (AddSi rde disp uimm0 d)
          (thn (EndStore v n p (Local 0)) (ret False)))))))
      | STOS \<Rightarrow>
          seq (gets (AddressDi rde disp uimm0)) (\<lambda>v.
          seq (BeginStore v n (Local 0)) (\<lambda>(q, p).
          thn (copy_bytes q AX n)
          (thn (AddDi rde disp uimm0 d)
          (thn (EndStore v n p (Local 0)) (ret False)))))
      | LODS \<Rightarrow>
          seq (load AddressSi (Local 8)) (\<lambda>s.
          thn (copy_bytes AX s n) (thn (AddSi rde disp uimm0 d) (ret False)))
      | SCAS \<Rightarrow>
          seq (load AddressDi (Local 8)) (\<lambda>p.
          seq (ReadInt p w) (\<lambda>x.
          seq (ReadInt AX w) (\<lambda>y.
          thn (seq (alu (kAlu ! ALU_SUB ! w) x y) (\<lambda>_. ret ()))
          (thn (AddDi rde disp uimm0 d) (scan_stops rde)))))
      | OUTS \<Rightarrow> thn (unassert False) (ret True)
      | INS \<Rightarrow> thn (unassert False) (ret True))"

section \<open>Repetition\<close>

text \<open>
  The loop of \<open>StringOp\<close>. Every round under a repeat prefix counts the counter down, so as many rounds as its value
  and one more are enough; running out of rounds would be \<open>Diverge\<close>.
\<close>

primrec string_loop :: "nat \<Rightarrow> string_op \<Rightarrow> u64 \<Rightarrow> u64 \<Rightarrow> u64 \<Rightarrow> u64 \<Rightarrow> unit exec" where
  "string_loop 0 op rde disp uimm0 dir = diverge"
| "string_loop (Suc n) op rde disp uimm0 dir =
     seq (if Rep rde \<noteq> 0 then seq (ReadCx rde disp uimm0) (\<lambda>cx. ret (cx = 0)) else ret False) (\<lambda>finished.
     if finished then ret ()
     else
       seq (string_step op rde disp uimm0 dir) (\<lambda>stop.
       if Rep rde \<noteq> 0 then
         thn (seq (SubtractCx rde disp uimm0 1) (\<lambda>_. ret ()))
         (if stop then ret () else string_loop n op rde disp uimm0 dir)
       else ret ()))"

definition StringOp :: "string_op \<Rightarrow> nexgen32e_f" where
  "StringOp op rde disp uimm0 =
     seq direction (\<lambda>dir.
     seq (if Rep rde \<noteq> 0 then ReadCx rde disp uimm0 else ret 0) (\<lambda>cx.
     string_loop (Suc (unat cx)) op rde disp uimm0 dir))"

section \<open>Enhanced moves and stores of bytes\<close>

definition copy_up :: "nat \<Rightarrow> nat \<Rightarrow> nat \<Rightarrow> unit exec" where
  "copy_up d s n = modify (h_ram_update (fold (\<lambda>i r. r(d + i := r (s + i))) [0..<n]))"

definition copy_down :: "nat \<Rightarrow> nat \<Rightarrow> nat \<Rightarrow> unit exec" where
  "copy_down d s n = modify (h_ram_update (fold (\<lambda>i r. r(d - i := r (s - i))) [0..<n]))"

primrec movsb_loop :: "nat \<Rightarrow> u64 \<Rightarrow> u64 \<Rightarrow> u64 \<Rightarrow> u64 \<Rightarrow> u64 \<Rightarrow> u64 \<Rightarrow> unit exec" where
  "movsb_loop 0 rde disp uimm0 diactual siactual cx = diverge"
| "movsb_loop (Suc k) rde disp uimm0 diactual siactual cx =
     seq (ResolveAddress diactual) (\<lambda>direal.
     seq (ResolveAddress siactual) (\<lambda>sireal.
     seq (rd Get16 DI) (\<lambda>dilow.
     seq (rd Get16 SI) (\<lambda>silow.
     seq (gets (\<lambda>m. (GetFlag (m_flags m) FLAGS_DF, IsRomAddress direal m))) (\<lambda>(down, rom).
     seq (if \<not> down then
            let diremain = min (4096 - page_offset diactual) (65536 - unat dilow);
                siremain = min (4096 - page_offset siactual) (65536 - unat silow);
                n = min (unat cx) (min diremain siremain) in
            thn (if \<not> rom then copy_up direal sireal n else ret ())
            (thn (AddDi rde disp uimm0 (word_of_nat n))
            (thn (AddSi rde disp uimm0 (word_of_nat n)) (ret n)))
          else
            let diremain = min (page_offset diactual + 1) (unat dilow + 1);
                siremain = min (page_offset siactual + 1) (unat silow + 1);
                n = min (unat cx) (min diremain siremain) in
            thn (if \<not> rom then copy_down direal sireal n else ret ())
            (thn (AddDi rde disp uimm0 (- word_of_nat n))
            (thn (AddSi rde disp uimm0 (- word_of_nat n)) (ret n)))) (\<lambda>n.
     seq (SubtractCx rde disp uimm0 (word_of_nat n)) (\<lambda>cx.
     if cx \<noteq> 0 then
       seq (gets (AddressDi rde disp uimm0)) (\<lambda>diactual.
       seq (gets (AddressSi rde disp uimm0)) (\<lambda>siactual.
       movsb_loop k rde disp uimm0 diactual siactual cx))
     else ret ())))))))"

definition spy_range :: "(u64 \<Rightarrow> nat \<Rightarrow> unit exec) \<Rightarrow> u64 \<Rightarrow> u64 \<Rightarrow> unit exec" where
  "spy_range spy actual cx =
     seq (gets (\<lambda>m. GetFlag (m_flags m) FLAGS_DF)) (\<lambda>down.
     if \<not> down then spy actual (unat (to_u32 cx)) else spy (actual - cx + 1) (unat (to_u32 cx)))"

definition RepMovsbEnhanced :: nexgen32e_f where
  "RepMovsbEnhanced rde disp uimm0 =
     seq (ReadCx rde disp uimm0) (\<lambda>cx.
     if cx \<noteq> 0 then
       seq (gets (AddressDi rde disp uimm0)) (\<lambda>diactual.
       seq (gets (AddressSi rde disp uimm0)) (\<lambda>siactual.
       if diactual \<noteq> siactual then
         thn (spy_range SetWriteAddr diactual cx)
         (thn (spy_range SetReadAddr siactual cx)
         (movsb_loop (unat cx) rde disp uimm0 diactual siactual cx))
       else ret ()))
     else ret ())"

primrec stosb_loop :: "nat \<Rightarrow> u64 \<Rightarrow> u64 \<Rightarrow> u64 \<Rightarrow> u64 \<Rightarrow> u64 \<Rightarrow> unit exec" where
  "stosb_loop 0 rde disp uimm0 diactual cx = diverge"
| "stosb_loop (Suc k) rde disp uimm0 diactual cx =
     seq (ResolveAddress diactual) (\<lambda>direal.
     seq (rd Get16 DI) (\<lambda>dilow.
     let diremain = min (4096 - page_offset diactual) (65536 - unat dilow);
         n = min (unat cx) diremain in
     thn (seq (gets (IsRomAddress direal)) (\<lambda>rom.
       if \<not> rom then seq (rd Get8 AX) (\<lambda>al. fill_bytes direal al n) else ret ()))
     (thn (AddDi rde disp uimm0 (word_of_nat n))
     (seq (SubtractCx rde disp uimm0 (word_of_nat n)) (\<lambda>cx.
      if cx \<noteq> 0 then
        seq (gets (AddressDi rde disp uimm0)) (\<lambda>diactual. stosb_loop k rde disp uimm0 diactual cx)
      else ret ())))))"

definition RepStosbEnhanced :: nexgen32e_f where
  "RepStosbEnhanced rde disp uimm0 =
     seq (ReadCx rde disp uimm0) (\<lambda>cx.
     if cx \<noteq> 0 then
       seq (gets (AddressDi rde disp uimm0)) (\<lambda>diactual.
       thn (SetWriteAddr diactual (unat (to_u32 cx))) (stosb_loop (unat cx) rde disp uimm0 diactual cx))
     else ret ())"

section \<open>The instructions\<close>

definition OpMovs :: nexgen32e_f where "OpMovs = StringOp MOVS"
definition OpCmps :: nexgen32e_f where "OpCmps = StringOp CMPS"
definition OpStos :: nexgen32e_f where "OpStos = StringOp STOS"
definition OpLods :: nexgen32e_f where "OpLods = StringOp LODS"
definition OpScas :: nexgen32e_f where "OpScas = StringOp SCAS"
definition OpIns :: nexgen32e_f where "OpIns = StringOp INS"
definition OpOuts :: nexgen32e_f where "OpOuts = StringOp OUTS"

definition OpMovsb :: nexgen32e_f where
  "OpMovsb rde disp uimm0 =
     (if Rep rde \<noteq> 0 then RepMovsbEnhanced rde disp uimm0 else OpMovs rde disp uimm0)"

definition OpStosb :: nexgen32e_f where
  "OpStosb rde disp uimm0 =
     seq (gets (\<lambda>m. GetFlag (m_flags m) FLAGS_DF)) (\<lambda>down.
     if Rep rde \<noteq> 0 \<and> \<not> down then RepStosbEnhanced rde disp uimm0 else OpStos rde disp uimm0)"

end
