(* ===== verification/Dispatch.thy ===== *)
theory Dispatch
  imports Branch BitOps VectorOps Cpu Strings
begin

text \<open>
  Fetching, decoding and dispatching an instruction (\<open>instruction.c\<close>, the table and the dispatcher of \<open>machine.c\<close>), and the last handlers (\<open>op101.c\<close>, \<open>fpu.c\<close>).
\<close>

section \<open>The last handlers\<close>

definition Swapgs :: nexgen32e_f where
  "Swapgs rde disp uimm0 = ret ()"

definition Op101 :: nexgen32e_f where
  "Op101 rde disp uimm0 =
     (if ModrmReg rde = 7 \<and> IsModrmRegister rde then
        if ModrmRm rde = 0 then Swapgs rde disp uimm0
        else if ModrmRm rde = 1 then OpRdtscp rde disp uimm0
        else OpUdImpl
      else OpUdImpl)"

definition OpFwait :: nexgen32e_f where
  "OpFwait rde disp uimm0 =
     seq (gets (\<lambda>m. (f_sw m, f_cw m))) (\<lambda>(sw, cw).
     if list_ex (\<lambda>(s, c). sw AND s \<noteq> 0 \<and> cw AND c = 0)
          [(0x0001, 0x0001), (0x0002, 0x0002), (0x0004, 0x0004), (0x0008, 0x0008), (0x0010, 0x0010),
           (0x0020, 0x0020), (0x0040, 0x0001)]
     then HaltMachine kMachineFpuException else ret ())"

section \<open>Loading an instruction\<close>

definition IsOpcodeEqual :: "XedDecodedInst \<Rightarrow> ram \<Rightarrow> bool exec" where
  "IsOpcodeEqual xedd a =
     (let n = xlength xedd in
      if n \<noteq> 0 then
        thn (unassert (n \<le> 15))
        (ret (if n \<le> 7 then
                let w = Get64 a 0 XOR Get64 (xbytes xedd) 0 in w = 0 \<or> n \<le> unat (shr (bsf w) 3)
              else list_all (\<lambda>i. a i = xbytes xedd i) [0..<n]))
      else ret False)"

text \<open>
  The local structure of \<open>ReadInstruction\<close> is not initialised; here it is blank, and that the decoder's result does
  not depend on it is a property of the decoder. The forty bytes copied into the cache are the length,
  the bytes, the encoding and the two operands. An instruction text is a byte store from its first byte on.
\<close>

definition blank :: XedDecodedInst where
  "blank = \<lparr>xlength = 0, xbytes = (\<lambda>_. 0), op_rde = 0, op_uimm0 = 0, op_disp = 0,
            op_has_modrm = 0, op_pos_opcode = 0, op_max_bytes = 0\<rparr>"

definition cache_instruction :: "XedDecodedInst \<Rightarrow> Machine \<Rightarrow> Machine" where
  "cache_instruction x m = m\<lparr>m_icache := (m_icache m)(m_xedd m := (m_icache m (m_xedd m))\<lparr>
     xlength := xlength x, xbytes := xbytes x, op_rde := op_rde x, op_uimm0 := op_uimm0 x, op_disp := op_disp x\<rparr>)\<rparr>"

definition ReadInstruction :: "ram \<Rightarrow> nat \<Rightarrow> int exec" where
  "ReadInstruction p n =
     seq (gets m_omode) (\<lambda>omode.
     case DecodeInstruction blank p n omode of
       None \<Rightarrow> thn (unassert False) (ret 0)
     | Some (rc, xedd) \<Rightarrow>
         if rc = XED_ERROR_NONE then thn (modify (cache_instruction xedd)) (ret 0)
         else ret kMachineDecodeError)"

definition text_at :: "nat \<Rightarrow> ram exec" where
  "text_at a = gets (\<lambda>m i. h_ram m (a + i))"

definition LoadInstructionSlow :: "u64 \<Rightarrow> int exec" where
  "LoadInstructionSlow ip =
     (let i = 4096 - page_offset ip in
      seq (LookupAddress2 ip PAGE_XD 0) (\<lambda>addr.
      if addr \<noteq> 0 then
        seq (LookupAddress2 (ip + word_of_nat i) PAGE_XD 0) (\<lambda>toil.
        seq (text_at addr) (\<lambda>p.
        if toil \<noteq> 0 then seq (text_at toil) (\<lambda>q. ReadInstruction (\<lambda>k. if k < i then p k else q (k - i)) 15)
        else ReadInstruction p i))
      else ret kMachineSegmentationFault))"

definition ResetInstructionCache :: "unit exec" where
  "ResetInstructionCache = modify (\<lambda>m. m\<lparr>m_icache := (\<lambda>_. blank), m_codevirt := 0, m_codehost := 0\<rparr>)"

definition LoadInstruction2 :: "u64 \<Rightarrow> int exec" where
  "LoadInstruction2 pc =
     thn (seq (gets m_opinvalidated) (\<lambda>b.
       if b then thn ResetInstructionCache (modify (m_opinvalidated_update (\<lambda>_. False))) else ret ()))
     (thn (modify (m_xedd_update (\<lambda>_. unat (pc AND 511))))
     (if page_offset pc + 15 \<le> 4096 then
        let page = pc - (pc AND 4095) in
        seq (gets (\<lambda>m. if page = m_codevirt m \<and> m_codehost m \<noteq> 0 then m_codehost m else 0)) (\<lambda>host.
        seq (if host \<noteq> 0 then ret host
             else
               seq (LookupAddress2 page PAGE_XD 0) (\<lambda>p.
               if p \<noteq> 0 then thn (modify (\<lambda>m. m\<lparr>m_codevirt := page, m_codehost := p\<rparr>)) (ret p) else ret 0)) (\<lambda>host.
        if host = 0 then ret kMachineSegmentationFault
        else
          seq (text_at (host + page_offset pc)) (\<lambda>addr.
          seq (gets (\<lambda>m. m_icache m (m_xedd m))) (\<lambda>xedd.
          seq (IsOpcodeEqual xedd addr) (\<lambda>same.
          if same then ret 0 else ReadInstruction addr 15)))))
      else LoadInstructionSlow pc))"

definition LoadInstruction :: "u64 \<Rightarrow> unit exec" where
  "LoadInstruction pc =
     seq (LoadInstruction2 pc) (\<lambda>rc.
     if rc = 0 then ret ()
     else if rc = kMachineSegmentationFault then
       thn (modify (m_faultaddr_update (\<lambda>_. pc))) (HaltMachine rc)
     else HaltMachine rc)"

section \<open>The opcode table\<close>

text \<open>
  The table as built without the metal machine. An entry is \<open>None\<close> for the handlers that are not modelled:
  floating point, the x87 coprocessor and system calls; what they do is a parameter of the dispatcher.
\<close>

definition kNexgen32e :: "nexgen32e_f option list" where
  "kNexgen32e = [
     Some OpAlub, Some OpAluw, Some OpAluFlip, Some OpAluFlip, Some OpAluAxImm, Some OpAluAxImm, Some OpUd, Some OpUd,
     Some OpAlub, Some OpAluw, Some OpAluFlip, Some OpAluFlip, Some OpAluAxImm, Some OpAluAxImm, Some OpUd, Some OpUd,
     Some OpAlub, Some OpAluw, Some OpAluFlip, Some OpAluFlip, Some OpAluAxImm, Some OpAluAxImm, Some OpUd, Some OpUd,
     Some OpAlub, Some OpAluw, Some OpAluFlip, Some OpAluFlip, Some OpAluAxImm, Some OpAluAxImm, Some OpUd, Some OpUd,
     Some OpAlub, Some OpAluw, Some OpAluFlip, Some OpAluFlip, Some OpAluAxImm, Some OpAluAxImm, Some OpUd, Some OpDaa,
     Some OpAlub, Some OpAluw, Some OpAluFlip, Some OpAluFlip, Some OpAluAxImm, Some OpAluAxImm, Some OpUd, Some OpDas,
     Some OpAlub, Some OpAluw, Some OpAluFlip, Some OpAluFlip, Some OpAluAxImm, Some OpAluAxImm, Some OpUd, Some OpAaa,
     Some OpAluCmp, Some OpAluCmp, Some OpAluFlipCmp, Some OpAluFlipCmp, Some OpCmpAxImm, Some OpCmpAxImm, Some OpUd, Some OpAas,
     Some OpUd, Some OpUd, Some OpUd, Some OpUd, Some OpUd, Some OpUd, Some OpUd, Some OpUd,
     Some OpUd, Some OpUd, Some OpUd, Some OpUd, Some OpUd, Some OpUd, Some OpUd, Some OpUd,
     Some OpPushZvq, Some OpPushZvq, Some OpPushZvq, Some OpPushZvq, Some OpPushZvq, Some OpPushZvq, Some OpPushZvq, Some OpPushZvq,
     Some OpPopZvq, Some OpPopZvq, Some OpPopZvq, Some OpPopZvq, Some OpPopZvq, Some OpPopZvq, Some OpPopZvq, Some OpPopZvq,
     Some OpUd, Some OpUd, Some OpUd, Some OpMovslGdqpEd, Some OpUd, Some OpUd, Some OpUd, Some OpUd,
     Some OpPushImm, Some OpImulGvqpEvqpImm, Some OpPushImm, Some OpImulGvqpEvqpImm, Some OpIns, Some OpIns, Some OpOuts, Some OpOuts,
     Some OpJcc, Some OpJcc, Some OpJcc, Some OpJcc, Some OpJcc, Some OpJcc, Some OpJcc, Some OpJcc,
     Some OpJcc, Some OpJcc, Some OpJp, Some OpJnp, Some OpJcc, Some OpJcc, Some OpJcc, Some OpJcc,
     Some OpAlui, Some OpAlui, Some OpAlui, Some OpAlui, Some OpAluTest, Some OpAluTest, Some OpXchgGbEb, Some OpXchgGvqpEvqp,
     Some OpMovEbGb, Some OpMovEvqpGvqp, Some OpMovGbEb, Some OpMovGvqpEvqp, Some OpUd, Some OpLeaGvqpM, Some OpUd, Some OpPopEvq,
     Some OpNop, Some OpXchgZvqp, Some OpXchgZvqp, Some OpXchgZvqp, Some OpXchgZvqp, Some OpXchgZvqp, Some OpXchgZvqp, Some OpXchgZvqp,
     Some OpSax, Some OpConvert, Some OpUd, Some OpFwait, Some OpPushf, Some OpPopf, Some OpSahf, Some OpLahf,
     Some OpMovAlOb, Some OpMovRaxOvqp, Some OpMovObAl, Some OpMovOvqpRax, Some OpMovsb, Some OpMovs, Some OpCmps, Some OpCmps,
     Some OpTestAxImm, Some OpTestAxImm, Some OpStosb, Some OpStos, Some OpLods, Some OpLods, Some OpScas, Some OpScas,
     Some OpMovZbIb, Some OpMovZbIb, Some OpMovZbIb, Some OpMovZbIb, Some OpMovZbIb, Some OpMovZbIb, Some OpMovZbIb, Some OpMovZbIb,
     Some OpMovZvqpIvqp, Some OpMovZvqpIvqp, Some OpMovZvqpIvqp, Some OpMovZvqpIvqp, Some OpMovZvqpIvqp, Some OpMovZvqpIvqp, Some OpMovZvqpIvqp, Some OpMovZvqpIvqp,
     Some OpBsubiImm, Some OpBsuwiImm, Some OpRetIw, Some OpRet, Some OpUd, Some OpUd, Some OpMovImm, Some OpMovImm,
     Some OpEnter, Some OpLeave, Some OpUd, Some OpUd, Some OpInterrupt3, Some OpInterruptImm, Some OpUd, Some OpUd,
     Some OpBsubi1, Some OpBsuwi1, Some OpBsubiCl, Some OpBsuwiCl, Some OpAam, Some OpAad, Some OpSalc, Some OpXlatAlBbb,
     None, None, None, None, None, None, None, None,
     Some OpLoopne, Some OpLoope, Some OpLoop1, Some OpJcxz, Some OpUd, Some OpUd, Some OpUd, Some OpUd,
     Some OpCallJvds, Some OpJmp, Some OpUd, Some OpJmp, Some OpUd, Some OpUd, Some OpUd, Some OpUd,
     Some OpUd, Some OpInterrupt1, Some OpUd, Some OpUd, Some OpHlt, Some OpCmc, Some Op0f6, Some Op0f7,
     Some OpClc, Some OpStc, Some OpCli, Some OpSti, Some OpCld, Some OpStd, Some Op0fe, Some Op0ff,
     Some OpUd, Some Op101, Some OpUd, Some OpLsl, Some OpUd, None, Some OpUd, Some OpUd,
     Some OpUd, Some OpWbinvd, Some OpUd, Some OpUd, Some OpUd, Some OpHintNopEv, Some OpUd, Some OpUd,
     Some OpMov0f10, Some OpMovWpsVps, Some OpMov0f12, Some OpMov0f13, Some OpUnpcklpsd, Some OpUnpckhpsd, Some OpMov0f16, Some OpMov0f17,
     Some OpHintNopEv, Some OpHintNopEv, Some OpHintNopEv, Some OpHintNopEv, Some OpHintNopEv, Some OpHintNopEv, Some OpHintNopEv, Some OpNopEv,
     Some OpUd, Some OpUd, Some OpUd, Some OpUd, Some OpUd, Some OpUd, Some OpUd, Some OpUd,
     Some OpMov0f28, Some OpMovWpsVps, None, Some OpMov0f2b, None, None, None, None,
     Some OpUd, Some OpRdtsc, Some OpUd, Some OpUd, Some OpUd, Some OpUd, Some OpUd, Some OpUd,
     Some OpUd, Some OpUd, Some OpUd, Some OpUd, Some OpUd, Some OpUd, Some OpUd, Some OpUd,
     Some OpCmov, Some OpCmov, Some OpCmov, Some OpCmov, Some OpCmov, Some OpCmov, Some OpCmov, Some OpCmov,
     Some OpCmov, Some OpCmov, Some OpCmovp, Some OpCmovnp, Some OpCmov, Some OpCmov, Some OpCmov, Some OpCmov,
     Some OpMovmskpsd, None, None, None, Some OpAndpsd, Some OpAndnpsd, Some OpOrpsd, Some OpXorpsd,
     None, None, None, None, None, None, None, None,
     Some OpSsePunpcklbw, Some OpSsePunpcklwd, Some OpSsePunpckldq, Some OpSsePacksswb, Some OpSsePcmpgtb, Some OpSsePcmpgtw, Some OpSsePcmpgtd, Some OpSsePackuswb,
     Some OpSsePunpckhbw, Some OpSsePunpckhwd, Some OpSsePunpckhdq, Some OpSsePackssdw, Some OpSsePunpcklqdq, Some OpSsePunpckhqdq, Some OpMov0f6e, Some OpMov0f6f,
     Some OpShuffle, Some Op171, Some Op172, Some Op173, Some OpSsePcmpeqb, Some OpSsePcmpeqw, Some OpSsePcmpeqd, Some OpEmms,
     Some OpUd, Some OpUd, Some OpUd, Some OpUd, None, None, Some OpMov0f7e, Some OpMov0f7f,
     Some OpJcc, Some OpJcc, Some OpJcc, Some OpJcc, Some OpJcc, Some OpJcc, Some OpJcc, Some OpJcc,
     Some OpJcc, Some OpJcc, Some OpJp, Some OpJnp, Some OpJcc, Some OpJcc, Some OpJcc, Some OpJcc,
     Some OpSetcc, Some OpSetcc, Some OpSetcc, Some OpSetcc, Some OpSetcc, Some OpSetcc, Some OpSetcc, Some OpSetcc,
     Some OpSetcc, Some OpSetcc, Some OpSetp, Some OpSetnp, Some OpSetcc, Some OpSetcc, Some OpSetcc, Some OpSetcc,
     Some OpUd, Some OpUd, Some OpCpuid, Some OpBit, Some OpDoubleShift, Some OpDoubleShift, Some OpUd, Some OpUd,
     Some OpUd, Some OpUd, Some OpUd, Some OpBit, Some OpDoubleShift, Some OpDoubleShift, Some Op1ae, Some OpImulGvqpEvqp,
     Some OpCmpxchgEbAlGb, Some OpCmpxchgEvqpRaxGvqp, Some OpUd, Some OpBit, Some OpUd, Some OpUd, Some OpMovzbGvqpEb, Some OpMovzwGvqpEw,
     Some Op1b8, Some OpUd, Some OpBit, Some OpBit, Some OpBsf, Some OpBsr, Some OpMovsbGvqpEb, Some OpMovswGvqpEw,
     Some OpXaddEbGb, Some OpXaddEvqpGvqp, None, Some OpMovntiMdqpGdqp, Some OpPinsrwVdqEwIb, Some OpPextrwGdqpUdqIb, Some OpShufpsd, Some Op1c7,
     Some OpBswapZvqp, Some OpBswapZvqp, Some OpBswapZvqp, Some OpBswapZvqp, Some OpBswapZvqp, Some OpBswapZvqp, Some OpBswapZvqp, Some OpBswapZvqp,
     None, Some OpSsePsrlwv, Some OpSsePsrldv, Some OpSsePsrlqv, Some OpSsePaddq, Some OpSsePmullw, Some OpMov0fD6, Some OpPmovmskbGdqpNqUdq,
     Some OpSsePsubusb, Some OpSsePsubusw, Some OpSsePminub, Some OpSsePand, Some OpSsePaddusb, Some OpSsePaddusw, Some OpSsePmaxub, Some OpSsePandn,
     Some OpSsePavgb, Some OpSsePsrawv, Some OpSsePsradv, Some OpSsePavgw, Some OpSsePmulhuw, Some OpSsePmulhw, None, Some OpMov0fE7,
     Some OpSsePsubsb, Some OpSsePsubsw, Some OpSsePminsw, Some OpSsePor, Some OpSsePaddsb, Some OpSsePaddsw, Some OpSsePmaxsw, Some OpSsePxor,
     Some OpLddquVdqMdq, Some OpSsePsllwv, Some OpSsePslldv, Some OpSsePsllqv, Some OpSsePmuludq, Some OpSsePmaddwd, Some OpSsePsadbw, Some OpMaskMovDiXmmRegXmmRm,
     Some OpSsePsubb, Some OpSsePsubw, Some OpSsePsubd, Some OpSsePsubq, Some OpSsePaddb, Some OpSsePaddw, Some OpSsePaddd, Some OpUd,
     Some OpSsePshufb, Some OpSsePhaddw, Some OpSsePhaddd, Some OpSsePhaddsw, Some OpSsePmaddubsw, Some OpSsePhsubw, Some OpSsePhsubd, Some OpSsePhsubsw,
     Some OpSsePsignb, Some OpSsePsignw, Some OpSsePsignd, Some OpSsePmulhrsw]"

definition GetOp :: "(nat \<Rightarrow> nexgen32e_f) \<Rightarrow> nat \<Rightarrow> nexgen32e_f" where
  "GetOp other op =
     (if op < length kNexgen32e then (case kNexgen32e ! op of Some f \<Rightarrow> f | None \<Rightarrow> other op)
      else if op = 0x21c then OpSsePabsb
      else if op = 0x21d then OpSsePabsw
      else if op = 0x21e then OpSsePabsd
      else if op = 0x22a then OpMovntdqaVdqMdq
      else if op = 0x240 then OpSsePmulld
      else if op = 0x2f0 then Op2f01
      else if op = 0x2f1 then Op2f01
      else if op = 0x2f5 then Op2f5
      else if op = 0x2f6 then Op2f6
      else if op = 0x2f7 then OpShx
      else if op = 0x30f then OpSsePalignr
      else if op = 0x344 then OpSsePclmulqdq
      else if op = 0x3f0 then OpRorx
      else OpUd)"

section \<open>Dispatch\<close>

definition JitlessDispatch :: "(nat \<Rightarrow> nexgen32e_f) \<Rightarrow> unit exec" where
  "JitlessDispatch other =
     thn (seq (gets GetPc) LoadInstruction)
     (seq (gets (\<lambda>m. let x = m_icache m (m_xedd m) in (op_rde x, op_disp x, op_uimm0 x))) (\<lambda>(rde, disp, uimm0).
      thn (modify (\<lambda>m. m\<lparr>m_oplen := Oplength rde, m_ip := m_ip m + word_of_nat (Oplength rde)\<rparr>))
      (thn (GetOp other (Mopcode rde) rde disp uimm0)
      (thn (seq (gets m_stashaddr) (\<lambda>a. if a \<noteq> 0 then CommitStash else ret ()))
      (modify (m_oplen_update (\<lambda>_. 0)))))))"

definition ExecuteInstruction :: "(nat \<Rightarrow> nexgen32e_f) \<Rightarrow> unit exec" where
  "ExecuteInstruction other = JitlessDispatch other"

text \<open>The first rounds of the endless loop of \<open>Actor\<close>, while nothing asks for attention.\<close>

primrec Actor :: "(nat \<Rightarrow> nexgen32e_f) \<Rightarrow> nat \<Rightarrow> unit exec" where
  "Actor other 0 = ret ()"
| "Actor other (Suc n) = thn (ExecuteInstruction other) (Actor other n)"

end
