(* ===== verification/Stable.thy ===== *)
theory Stable
  imports PoolSpec Dispatch
begin

text \<open>
  Operations on memory end and keep every invariant that does not speak of the scratch state of an access.
\<close>

declare seq.simps [simp del]

section \<open>Memory accesses\<close>

text \<open>The machine without what a memory access may change beside address translation.\<close>

definition settled :: "Machine \<Rightarrow> Machine" where
  "settled m = m\<lparr>m_stashaddr := 0, m_readaddr := 0, m_writeaddr := 0, m_readsize := 0, m_writesize := 0,
     m_faultaddr := 0, m_reserving := False, m_segvcode := 0, g_errno := EOK, m_stash := \<lambda>_. 0, m_stashsize := 0, m_writable := False,
     m_local := \<lambda>_. 0, h_ram := \<lambda>_. 0\<rparr>"

fun scratch :: "ptr \<Rightarrow> bool" where
  "scratch (Beg i) = False"
| "scratch (Xmm i) = False"
| "scratch (Stash i) = True"
| "scratch (Local i) = True"
| "scratch (Host i) = True"

lemma scratch_at [simp]: "scratch (at p k) = scratch p"
  by (cases p) simp_all

lemma settled_region: "scratch p \<Longrightarrow> settled (update_region p f m) = settled m"
  by (cases p) (simp_all add: settled_def)

text \<open>An operation that keeps an invariant and whose result satisfies a predicate.\<close>

definition gives :: "(Machine \<Rightarrow> bool) \<Rightarrow> 'a exec \<Rightarrow> ('a \<Rightarrow> bool) \<Rightarrow> bool" where
  "gives I f A \<longleftrightarrow> triple I f (\<lambda>a m. I m \<and> A a)"

named_theorems gives_intros "operations that keep an invariant and promise something of their result"

lemma gives_seq [gives_intros]: "safe I f \<Longrightarrow> (\<And>a. gives I (g a) A) \<Longrightarrow> gives I (seq f g) A"
  unfolding safe_def gives_def by (rule triple_seq)

lemma gives_ret [gives_intros]: "A a \<Longrightarrow> gives I (ret a) A"
  by (simp add: gives_def triple_ret)

lemma gives_if [gives_intros]: "(b \<Longrightarrow> gives I f A) \<Longrightarrow> (\<not> b \<Longrightarrow> gives I g A) \<Longrightarrow> gives I (if b then f else g) A"
  by simp

lemma gives_let [gives_intros]: "gives I (f x) A \<Longrightarrow> gives I (Let x f) A"
  by simp

lemma gives_prod [gives_intros]: "(\<And>a b. gives I (f a b) A) \<Longrightarrow> gives I (case_prod f p) A"
  by (simp split: prod.split)

lemma gives_use:
  assumes "gives I f A" "\<And>a. A a \<Longrightarrow> safe I (g a)"
  shows "safe I (seq f g)"
  unfolding safe_def
proof (rule triple_seq)
  show "triple I f (\<lambda>a m. A a \<and> I m)" using assms(1) by (simp add: gives_def conj_commute)
  fix a show "triple (\<lambda>m. A a \<and> I m) (g a) (\<lambda>_. I)"
    using assms(2) by (intro triple_pure) (simp add: safe_def)
qed

lemma gives_bind:
  assumes "gives I f A" "\<And>a. A a \<Longrightarrow> gives I (g a) B"
  shows "gives I (seq f g) B"
  unfolding gives_def
proof (rule triple_seq)
  show "triple I f (\<lambda>a m. A a \<and> I m)" using assms(1) by (simp add: gives_def conj_commute)
  fix a show "triple (\<lambda>m. A a \<and> I m) (g a) (\<lambda>a m. I m \<and> B a)"
    using assms(2) by (intro triple_pure) (simp add: gives_def)
qed

locale memory_stable =
  fixes I :: "Machine \<Rightarrow> bool"
  assumes walk: "safe I (FindPageTableEntry page)"
    and settled: "I m \<Longrightarrow> settled m' = settled m \<Longrightarrow> I m'"
begin

lemma modify_settled: "(\<And>m. settled (f m) = settled m) \<Longrightarrow> safe I (modify f)"
  by (rule safe_modify) (rule settled)

lemma copy_scratch [safe_intros]: "scratch p \<Longrightarrow> safe I (copy_bytes p q n)"
  unfolding copy_bytes_def by (rule modify_settled) (rule settled_region)

lemma safe_efault [safe_intros]: "safe I (efault c)"
  unfolding efault_def by (intro safe_intros modify_settled) (simp add: settled_def)

lemma safe_LookupAddress2 [safe_intros]: "safe I (LookupAddress2 v k n)"
  unfolding LookupAddress2_def by (intro safe_intros walk)

lemma safe_LookupAddress [safe_intros]: "safe I (LookupAddress v)"
  unfolding LookupAddress_def by (intro safe_intros)

lemma safe_traps [safe_intros]: "safe I RaiseDivideError" "safe I ThrowProtectionFault"
  unfolding RaiseDivideError_def ThrowProtectionFault_def by (intro safe_intros)+

lemma safe_ThrowSegmentationFault [safe_intros]: "safe I (ThrowSegmentationFault v)"
  by (simp add: safe_def triple_def ThrowSegmentationFault_def seq_modify HaltMachine_def Let_def)

lemma safe_OpUdImpl [safe_intros]: "safe I OpUdImpl"
  by (simp add: safe_def triple_def OpUdImpl_def seq_modify HaltMachine_def Let_def)

lemma safe_ResolveAddress [safe_intros]: "safe I (ResolveAddress v)"
  unfolding ResolveAddress_def GetAddress_def by (intro safe_intros)

lemma safe_spies [safe_intros]: "safe I (SetReadAddr v n)" "safe I (SetWriteAddr v n)"
  unfolding SetReadAddr_def SetWriteAddr_def by (intro safe_intros modify_settled; simp add: settled_def)+

lemma safe_VirtualCopy: "scratch r \<or> \<not> d \<Longrightarrow> safe I (VirtualCopy v r n d)"
proof (induction v r n d rule: VirtualCopy.induct)
  case (1 v r n d)
  then show ?case
    unfolding VirtualCopy.simps [of v r n d] Let_def
    by (cases d) (auto intro!: safe_intros)
qed

lemma safe_CopyToUser [safe_intros]: "safe I (CopyToUser v p n)"
  unfolding CopyToUser_def by (rule safe_VirtualCopy) simp

lemma safe_use_stash [safe_intros]: "safe I (use_stash v n w)"
  unfolding use_stash_def by (rule modify_settled) (simp add: settled_def)

lemma safe_CommitStash [safe_intros]: "safe I CommitStash"
  unfolding CommitStash_def by (intro safe_intros modify_settled) (simp add: settled_def)

lemma safe_ReserveAddress [safe_intros]: "safe I (ReserveAddress v n w)"
  unfolding ReserveAddress_def Let_def by (intro safe_intros modify_settled) (simp_all add: settled_def)

lemma gives_AccessRam2:
  assumes "scratch tmp"
  shows "gives I (AccessRam2 v n tmp c r) (\<lambda>(p, _). scratch p)"
  unfolding AccessRam2_def Let_def using assms by (intro gives_intros safe_intros) simp_all

lemma gives_Load: "scratch tmp \<Longrightarrow> gives I (Load v n tmp) scratch"
  unfolding Load_def AccessRam_def
  by (intro gives_bind [OF gives_AccessRam2] gives_seq safe_intros) (auto intro: gives_ret)

lemma gives_BeginStore: "scratch tmp \<Longrightarrow> gives I (BeginStore v n tmp) (\<lambda>(p, _). scratch p)"
  unfolding BeginStore_def AccessRam_def by (intro gives_seq safe_intros gives_AccessRam2)

lemma safe_EndStore [safe_intros]: "safe I (EndStore v n p b)"
  unfolding EndStore_def Let_def by (intro safe_intros) simp_all

end

end
