(* ===== verification/Progress.thy ===== *)
theory Progress
  imports Stable
begin

text \<open>
  Every handler ends and keeps every invariant that does not speak of what handlers may change.
\<close>

declare seq.simps [simp del]

section \<open>Handlers\<close>

text \<open>The machine without what the handlers may change beside address translation.\<close>

definition core :: "Machine \<Rightarrow> Machine" where
  "core m = settled m\<lparr>m_ip := 0, m_oplen := 0, m_flags := 0, m_beg := \<lambda>_. 0, m_xmm := \<lambda>_. 0, m_seg_base := \<lambda>_. 0,
     m_mxcsr := 0, m_trapno := 0, m_codevirt := 0, m_codehost := 0, m_icache := \<lambda>_. blank, m_xedd := 0,
     m_opinvalidated := False, m_bofram := (0, 0), f_st := \<lambda>_. 0, f_sw := 0, f_tw := 0, f_op := 0, f_ip := 0, f_cw := 0,
     g_crc32c := (False, []), g_rdrand_state := 0, g_rdrand_count := 0, h_clock := [], h_random := []\<rparr>"

lemma core_settled: "settled m' = settled m \<Longrightarrow> core m' = core m"
  by (simp add: core_def)

lemma core_region: "core (update_region p f m) = core m"
  by (cases p) (simp_all add: core_def settled_def)

locale cpu_stable =
  fixes I :: "Machine \<Rightarrow> bool"
  assumes walks: "safe (\<lambda>m. I m \<and> B (m_beg m)) (FindPageTableEntry page)"
    and core: "I m \<Longrightarrow> core m' = core m \<Longrightarrow> I m'"

sublocale cpu_stable \<subseteq> memory_stable I
proof unfold_locales
  show "safe I (FindPageTableEntry page)" for page using walks [of "\<lambda>_. True"] by simp
  show "I m \<Longrightarrow> settled m' = settled m \<Longrightarrow> I m'" for m m' by (blast intro: core core_settled)
qed

context cpu_stable begin

lemma modify_core: "(\<And>m. core (f m) = core m) \<Longrightarrow> safe I (modify f)"
  by (rule safe_modify) (rule core)

lemma stores [safe_intros]: "safe I (wr f p x)" "safe I (copy_bytes p q n)" "safe I (modify (update_region p g))"
  unfolding wr_def copy_bytes_def by (intro modify_core core_region)+

lemma modify_flags [safe_intros]: "safe I (modify (m_flags_update f))" "safe I (set_flag k b)" "safe I (put_flags x)"
  unfolding set_flag_def put_flags_def by (intro modify_core; simp add: core_def settled_def)+

lemma modify_ip [safe_intros]: "safe I (modify (m_ip_update f))"
  by (rule modify_core) (simp add: core_def settled_def)

lemma safe_OpUd [safe_intros]: "safe I (OpUd rde disp uimm0)"
  unfolding OpUd_def by (rule safe_OpUdImpl)

lemma safe_OpHlt [safe_intros]: "safe I (OpHlt rde disp uimm0)"
  unfolding OpHlt_def by (intro safe_intros)

lemma safe_alu [safe_intros]: "safe I (alu f x y)"
  unfolding alu_def by (intro safe_intros)

lemma safe_accesses [safe_intros]:
  "safe I (AccessRam v n p d)" "safe I (Load v n p)" "safe I (BeginStore v n p)" "safe I (BeginStoreNp v n p)"
  "safe I (EndStoreNp v n q p)"
  unfolding BeginStoreNp_def EndStoreNp_def Load_def BeginStore_def AccessRam_def AccessRam2_def Let_def
  by (intro safe_intros)+

lemma safe_any_copy [safe_intros]: "safe I (VirtualCopy v r n d)"
proof (induction v r n d rule: VirtualCopy.induct)
  case (1 v r n d)
  then show ?case
    unfolding VirtualCopy.simps [of v r n d] Let_def by (auto intro!: safe_intros)
qed

lemma safe_user_copies [safe_intros]:
  "safe I (CopyFromUser p v n)" "safe I (CopyFromUserRead p v n)" "safe I (CopyToUser v p n)" "safe I (CopyToUserWrite v p n)"
  unfolding CopyFromUserRead_def CopyToUserWrite_def CopyFromUser_def CopyToUser_def by (intro safe_intros)+

lemma operands_1 [safe_intros]:
  "safe I (GetSegmentBase n)"
    "safe I (LoadEffectiveAddress rde disp uimm0)"
  unfolding GetSegmentBase_def LoadEffectiveAddress_def
  by (intro safe_intros)+

lemma operands_2 [safe_intros]:
  "safe I (ComputeAddress rde disp uimm0)"
  unfolding ComputeAddress_def
  by (intro safe_intros)+

lemma operands_3 [safe_intros]:
  "safe I (ComputeReserveAddressRead rde disp uimm0 n)"
    "safe I (ComputeReserveAddressWrite rde disp uimm0 n)"
  unfolding ComputeReserveAddressRead_def ComputeReserveAddressWrite_def
  by (intro safe_intros)+

lemma operands_4 [safe_intros]:
  "safe I (ComputeReserveAddressRead1 rde disp uimm0)"
    "safe I (ComputeReserveAddressRead4 rde disp uimm0)"
    "safe I (ComputeReserveAddressRead8 rde disp uimm0)"
    "safe I (ComputeReserveAddressWrite1 rde disp uimm0)"
    "safe I (ComputeReserveAddressWrite4 rde disp uimm0)"
    "safe I (ComputeReserveAddressWrite8 rde disp uimm0)"
    "safe I (GetModrmRegisterMmPointerRead rde disp uimm0 n)"
  unfolding ComputeReserveAddressRead1_def ComputeReserveAddressRead4_def ComputeReserveAddressRead8_def
    ComputeReserveAddressWrite1_def ComputeReserveAddressWrite4_def ComputeReserveAddressWrite8_def
    GetModrmRegisterMmPointerRead_def
  by (intro safe_intros)+

lemma operands_5 [safe_intros]:
  "safe I (GetModrmRegisterMmPointerRead8 rde disp uimm0)"
    "safe I (GetModrmRegisterMmPointerWrite rde disp uimm0 n)"
  unfolding GetModrmRegisterMmPointerRead8_def GetModrmRegisterMmPointerWrite_def
  by (intro safe_intros)+

lemma operands_6 [safe_intros]:
  "safe I (GetModrmRegisterMmPointerWrite8 rde disp uimm0)"
    "safe I (GetModrmRegisterBytePointerRead1 rde disp uimm0)"
    "safe I (GetModrmRegisterBytePointerWrite1 rde disp uimm0)"
    "safe I (GetModrmRegisterWordPointerRead rde disp uimm0 n)"
  unfolding GetModrmRegisterMmPointerWrite8_def GetModrmRegisterBytePointerRead1_def GetModrmRegisterBytePointerWrite1_def
    GetModrmRegisterWordPointerRead_def
  by (intro safe_intros)+

lemma operands_7 [safe_intros]:
  "safe I (GetModrmRegisterWordPointerRead2 rde disp uimm0)"
    "safe I (GetModrmRegisterWordPointerRead4 rde disp uimm0)"
    "safe I (GetModrmRegisterWordPointerRead8 rde disp uimm0)"
  unfolding GetModrmRegisterWordPointerRead2_def GetModrmRegisterWordPointerRead4_def GetModrmRegisterWordPointerRead8_def
  by (intro safe_intros)+

lemma operands_8 [safe_intros]:
  "safe I (GetModrmRegisterWordPointerReadOsz rde disp uimm0)"
    "safe I (GetModrmRegisterWordPointerReadOszRexw rde disp uimm0)"
    "safe I (GetModrmRegisterWordPointerWrite rde disp uimm0 n)"
  unfolding GetModrmRegisterWordPointerReadOsz_def GetModrmRegisterWordPointerReadOszRexw_def
    GetModrmRegisterWordPointerWrite_def
  by (intro safe_intros)+

lemma operands_9 [safe_intros]:
  "safe I (GetModrmRegisterWordPointerWrite2 rde disp uimm0)"
    "safe I (GetModrmRegisterWordPointerWrite4 rde disp uimm0)"
    "safe I (GetModrmRegisterWordPointerWrite8 rde disp uimm0)"
    "safe I (GetModrmRegisterWordPointerWriteOsz rde disp uimm0)"
    "safe I (GetModrmRegisterWordPointerWriteOszRexw rde disp uimm0)"
    "safe I (GetModrmRegisterXmmPointerRead rde disp uimm0 n)"
  unfolding GetModrmRegisterWordPointerWrite2_def GetModrmRegisterWordPointerWrite4_def
    GetModrmRegisterWordPointerWrite8_def GetModrmRegisterWordPointerWriteOsz_def
    GetModrmRegisterWordPointerWriteOszRexw_def GetModrmRegisterXmmPointerRead_def
  by (intro safe_intros)+

lemma operands_10 [safe_intros]:
  "safe I (GetModrmRegisterXmmPointerRead4 rde disp uimm0)"
    "safe I (GetModrmRegisterXmmPointerRead8 rde disp uimm0)"
    "safe I (GetModrmRegisterXmmPointerRead16 rde disp uimm0)"
    "safe I (GetModrmRegisterXmmPointerWrite rde disp uimm0 n)"
  unfolding GetModrmRegisterXmmPointerRead4_def GetModrmRegisterXmmPointerRead8_def GetModrmRegisterXmmPointerRead16_def
    GetModrmRegisterXmmPointerWrite_def
  by (intro safe_intros)+

lemma operands_11 [safe_intros]:
  "safe I (GetModrmRegisterXmmPointerWrite4 rde disp uimm0)"
    "safe I (GetModrmRegisterXmmPointerWrite8 rde disp uimm0)"
    "safe I (GetModrmRegisterXmmPointerWrite16 rde disp uimm0)"
    "safe I (GetVectorAddress rde disp uimm0 n)"
  unfolding GetModrmRegisterXmmPointerWrite4_def GetModrmRegisterXmmPointerWrite8_def
    GetModrmRegisterXmmPointerWrite16_def GetVectorAddress_def
  by (intro safe_intros)+

lemma operands_12 [safe_intros]:
  "safe I (GetMmxAddress rde disp uimm0)"
    "safe I (GetXmmAddress rde disp uimm0)"
    "safe I (GetModrmReadBW rde disp uimm0)"
    "safe I (GetModrmWriteBW rde disp uimm0)"
  unfolding GetMmxAddress_def GetXmmAddress_def GetModrmReadBW_def GetModrmWriteBW_def
  by (intro safe_intros)+


lemma stack_1 [safe_intros]:
  "safe I (WriteStackWord p rde n disp)"
    "safe I (ReadStackWord p n)"
    "safe I (WriteMemWord p rde n disp)"
    "safe I (ReadMemWord p n)"
  unfolding WriteStackWord_def ReadStackWord_def WriteMemWord_def ReadMemWord_def
  by (intro safe_intros)+

lemma stack_2 [safe_intros]:
  "safe I (PushN rde disp uimm0 x n k)"
  unfolding PushN_def
  by (intro safe_intros)+

lemma stack_3 [safe_intros]:
  "safe I (Push rde disp uimm0 x)"
    "safe I (OpPushZvq rde disp uimm0)"
    "safe I (PopN rde disp uimm0 e n)"
  unfolding Push_def OpPushZvq_def PopN_def
  by (intro safe_intros)+

lemma stack_4 [safe_intros]:
  "safe I (Pop rde disp uimm0 e)"
    "safe I (OpPopZvq rde disp uimm0)"
    "safe I (OpCall rde disp uimm0 x)"
  unfolding Pop_def OpPopZvq_def OpCall_def
  by (intro safe_intros)+

lemma stack_5 [safe_intros]:
  "safe I (OpCallJvds rde disp uimm0)"
    "safe I (LoadAddressFromMemory rde disp uimm0)"
  unfolding OpCallJvds_def LoadAddressFromMemory_def
  by (intro safe_intros)+

lemma stack_6 [safe_intros]:
  "safe I (OpCallEq rde disp uimm0)"
    "safe I (OpJmpEq rde disp uimm0)"
    "safe I (OpEnter rde disp uimm0)"
    "safe I (OpLeave rde disp uimm0)"
    "safe I (OpRet rde disp uimm0)"
    "safe I (OpRetIw rde disp uimm0)"
    "safe I (OpPushEvq rde disp uimm0)"
    "safe I (OpPopEvq rde disp uimm0)"
  unfolding OpCallEq_def OpJmpEq_def OpEnter_def OpLeave_def OpRet_def OpRetIw_def OpPushEvq_def OpPopEvq_def
  by (intro safe_intros)+


lemma safe_bsuwi [safe_intros]: "safe I f \<Longrightarrow> safe I (bsuwi rde disp uimm0 f)"
  unfolding bsuwi_def by (intro safe_intros)


lemma alu_ops_1 [safe_intros]:
  "safe I (AluEb rde disp uimm0 f)"
  unfolding AluEb_def
  by (intro safe_intros)+

lemma alu_ops_2 [safe_intros]:
  "safe I (OpNotEb rde disp uimm0)"
    "safe I (OpNegEb rde disp uimm0)"
    "safe I (Op0fe rde disp uimm0)"
    "safe I (AluEvqp rde disp uimm0 fs)"
  unfolding OpNotEb_def OpNegEb_def Op0fe_def AluEvqp_def
  by (intro safe_intros)+

lemma alu_ops_3 [safe_intros]:
  "safe I (OpNotEvqp rde disp uimm0)"
    "safe I (OpNegEvqp rde disp uimm0)"
    "safe I (OpIncEvqp rde disp uimm0)"
    "safe I (OpDecEvqp rde disp uimm0)"
    "safe I (OpAlub rde disp uimm0)"
    "safe I (OpAluw rde disp uimm0)"
    "safe I (AluRo rde disp uimm0 fs)"
  unfolding OpNotEvqp_def OpNegEvqp_def OpIncEvqp_def OpDecEvqp_def OpAlub_def OpAluw_def AluRo_def
  by (intro safe_intros)+

lemma alu_ops_4 [safe_intros]:
  "safe I (OpAluTest rde disp uimm0)"
    "safe I (OpAluCmp rde disp uimm0)"
    "safe I (OpAluFlip rde disp uimm0)"
    "safe I (OpAluFlipCmp rde disp uimm0)"
    "safe I (OpAluAxImm rde disp uimm0)"
    "safe I (OpRoAxImm rde disp uimm0 fs)"
  unfolding OpAluTest_def OpAluCmp_def OpAluFlip_def OpAluFlipCmp_def OpAluAxImm_def OpRoAxImm_def
  by (intro safe_intros)+

lemma alu_ops_5 [safe_intros]:
  "safe I (OpCmpAxImm rde disp uimm0)"
    "safe I (OpTestAxImm rde disp uimm0)"
    "safe I (AluiRo rde disp uimm0 fs)"
    "safe I (AluiUnlocked rde disp uimm0 p f)"
    "safe I (AluiLocked rde disp uimm0 p f)"
  unfolding OpCmpAxImm_def OpTestAxImm_def AluiRo_def AluiUnlocked_def AluiLocked_def
  by (intro safe_intros)+

lemma alu_ops_6 [safe_intros]:
  "safe I (Alui rde disp uimm0)"
  unfolding Alui_def
  by (intro safe_intros)+

lemma alu_ops_7 [safe_intros]:
  "safe I (OpAlui rde disp uimm0)"
    "safe I (OpTest rde disp uimm0)"
    "safe I (OpBsuwiCl rde disp uimm0)"
    "safe I (BsuwiConstant rde disp uimm0 x)"
  unfolding OpAlui_def OpTest_def OpBsuwiCl_def BsuwiConstant_def
  by (intro safe_intros)+

lemma alu_ops_8 [safe_intros]:
  "safe I (OpBsuwi1 rde disp uimm0)"
    "safe I (OpBsuwiImm rde disp uimm0)"
    "safe I (Bsubi rde disp uimm0 x)"
  unfolding OpBsuwi1_def OpBsuwiImm_def Bsubi_def
  by (intro safe_intros)+

lemma alu_ops_9 [safe_intros]:
  "safe I (OpBsubiCl rde disp uimm0)"
    "safe I (BsubiConstant rde disp uimm0 x)"
  unfolding OpBsubiCl_def BsubiConstant_def
  by (intro safe_intros)+

lemma alu_ops_10 [safe_intros]:
  "safe I (OpBsubi1 rde disp uimm0)"
    "safe I (OpBsubiImm rde disp uimm0)"
    "safe I (OpDoubleShift rde disp uimm0)"
  unfolding OpBsubi1_def OpBsubiImm_def OpDoubleShift_def
  by (intro safe_intros)+


lemma divmul_1 [safe_intros]:
  "safe I (OpDivAlAhAxEbSigned rde disp uimm0)"
    "safe I (OpDivAlAhAxEbUnsigned rde disp uimm0)"
    "safe I (OpDivRdxRaxEvqpSigned64 p)"
    "safe I (OpDivRdxRaxEvqpSigned32 p)"
    "safe I (OpDivRdxRaxEvqpSigned16 p)"
    "safe I (OpDivRdxRaxEvqpUnsigned16 p)"
    "safe I (OpDivRdxRaxEvqpUnsigned32 p)"
    "safe I (OpDivRdxRaxEvqpUnsigned64 p)"
  unfolding OpDivAlAhAxEbSigned_def OpDivAlAhAxEbUnsigned_def OpDivRdxRaxEvqpSigned64_def OpDivRdxRaxEvqpSigned32_def
    OpDivRdxRaxEvqpSigned16_def OpDivRdxRaxEvqpUnsigned16_def OpDivRdxRaxEvqpUnsigned32_def
    OpDivRdxRaxEvqpUnsigned64_def
  by (intro safe_intros)+

lemma divmul_2 [safe_intros]:
  "safe I (OpDivRdxRaxEvqpSigned rde disp uimm0)"
    "safe I (OpDivRdxRaxEvqpUnsigned rde disp uimm0)"
  unfolding OpDivRdxRaxEvqpSigned_def OpDivRdxRaxEvqpUnsigned_def
  by (intro safe_intros)+

lemma divmul_3 [safe_intros]:
  "safe I (set_carry_overflow b)"
  unfolding set_carry_overflow_def
  by (intro safe_intros modify_core)+ (simp_all add: core_def settled_def)

lemma divmul_4 [safe_intros]:
  "safe I (OpMulAxAlEbSigned rde disp uimm0)"
    "safe I (OpMulAxAlEbUnsigned rde disp uimm0)"
    "safe I (OpMulRdxRaxEvqpSigned64 rde)"
  unfolding OpMulAxAlEbSigned_def OpMulAxAlEbUnsigned_def OpMulRdxRaxEvqpSigned64_def
  by (intro safe_intros)+

lemma divmul_5 [safe_intros]:
  "safe I (OpMulRdxRaxEvqpSigned rde disp uimm0)"
    "safe I (OpMulRdxRaxEvqpUnsigned64 rde)"
    "safe I (OpMulRdxRaxEvqpUnsigned32 rde)"
  unfolding OpMulRdxRaxEvqpSigned_def OpMulRdxRaxEvqpUnsigned64_def OpMulRdxRaxEvqpUnsigned32_def
  by (intro safe_intros)+

lemma divmul_6 [safe_intros]:
  "safe I (OpMulRdxRaxEvqpUnsigned rde disp uimm0)"
    "safe I (AluImul rde p q)"
  unfolding OpMulRdxRaxEvqpUnsigned_def AluImul_def
  by (intro safe_intros)+

lemma divmul_7 [safe_intros]:
  "safe I (OpImulGvqpEvqp rde disp uimm0)"
    "safe I (OpImulGvqpEvqpImm rde disp uimm0)"
    "safe I (OpAdx rde disp uimm0 g10 h10)"
    "safe I (OpMulx rde disp uimm0)"
  unfolding OpImulGvqpEvqp_def OpImulGvqpEvqpImm_def OpAdx_def OpMulx_def
  by (intro safe_intros)+

lemma divmul_8 [safe_intros]:
  "safe I (Op2f6 rde disp uimm0)"
  unfolding Op2f6_def
  by (intro safe_intros)+


lemma safe_nth: "list_all (\<lambda>f. safe I (f rde disp uimm0)) fs \<Longrightarrow> k < length fs \<Longrightarrow> safe I ((fs ! k) rde disp uimm0)"
  by (simp add: list_all_length)

lemma safe_all [safe_intros]: "list_all P []" "P x \<Longrightarrow> list_all P xs \<Longrightarrow> list_all P (x # xs)"
  by simp_all

lemma safe_TripleOp [safe_intros]:
  assumes "list_all (\<lambda>f. safe I (f rde disp uimm0)) [f1, f2, f3]"
  shows "safe I (TripleOp rde disp uimm0 [f1, f2, f3])"
proof -
  have "WordLog2 rde < 4" by (simp add: rde_field field_less [where w = 2, simplified])
  then show ?thesis unfolding TripleOp_def using assms by (intro safe_nth) auto
qed

lemma safe_by_prefix [safe_intros]: "list_all (safe I) fs \<Longrightarrow> safe I (by_prefix rde fs)"
  unfolding by_prefix_def by (auto simp: list_all_length intro: safe_intros)

lemma safe_copies [safe_intros]: "safe I f \<Longrightarrow> safe I (copy_from p f n)" "safe I f \<Longrightarrow> safe I (copy_to f p n)"
  unfolding copy_from_def copy_to_def by (intro safe_intros; assumption)+

lemma safe_masked_store [safe_intros]: "safe I (masked_store ks p rde)"
  by (induction ks) (simp_all only: masked_store.simps, (intro safe_intros; assumption?)+)


lemma moves_1 [safe_intros]:
  "safe I (OpHintNopEv rde disp uimm0)"
  unfolding OpHintNopEv_def
  by (intro safe_intros)+

lemma moves_2 [safe_intros]:
  "safe I (OpCmc rde disp uimm0)"
  unfolding OpCmc_def
  by (intro safe_intros modify_core)+ (simp_all add: core_def settled_def)

lemma moves_3 [safe_intros]:
  "safe I (OpClc rde disp uimm0)"
    "safe I (OpStc rde disp uimm0)"
    "safe I (OpCli rde disp uimm0)"
    "safe I (OpSti rde disp uimm0)"
    "safe I (OpCld rde disp uimm0)"
    "safe I (OpStd rde disp uimm0)"
  unfolding OpClc_def OpStc_def OpCli_def OpSti_def OpCld_def OpStd_def
  by (intro safe_intros)+

lemma moves_4 [safe_intros]:
  "safe I (import_flags rde)"
  unfolding import_flags_def
  by (intro safe_intros modify_core)+ (simp_all add: core_def settled_def)

lemma moves_5 [safe_intros]:
  "safe I export_flags"
  unfolding export_flags_def
  by (intro safe_intros)+

lemma moves_6 [safe_intros]:
  "safe I (OpPushf rde disp uimm0)"
    "safe I (OpPopf rde disp uimm0)"
    "safe I (OpLahf rde disp uimm0)"
    "safe I (OpSahf rde disp uimm0)"
    "safe I (OpSalc rde disp uimm0)"
    "safe I (OpLeaGvqpM rde disp uimm0)"
    "safe I (OpMovEvqpGvqp rde disp uimm0)"
    "safe I (OpMovGvqpEvqp rde disp uimm0)"
    "safe I (OpMovzbGvqpEb rde disp uimm0)"
    "safe I (OpMovzwGvqpEw rde disp uimm0)"
  unfolding OpPushf_def OpPopf_def OpLahf_def OpSahf_def OpSalc_def OpLeaGvqpM_def OpMovEvqpGvqp_def OpMovGvqpEvqp_def
    OpMovzbGvqpEb_def OpMovzwGvqpEw_def
  by (intro safe_intros)+

lemma moves_7 [safe_intros]:
  "safe I (OpMovsbGvqpEb rde disp uimm0)"
    "safe I (OpMovswGvqpEw rde disp uimm0)"
    "safe I (OpMovslGdqpEd rde disp uimm0)"
    "safe I (OpXlatAlBbb rde disp uimm0)"
    "safe I (OpMovAlOb rde disp uimm0)"
    "safe I (OpMovObAl rde disp uimm0)"
    "safe I (OpMovRaxOvqp rde disp uimm0)"
    "safe I (OpMovOvqpRax rde disp uimm0)"
    "safe I (OpMovEbGb rde disp uimm0)"
    "safe I (OpMovGbEb rde disp uimm0)"
  unfolding OpMovsbGvqpEb_def OpMovswGvqpEw_def OpMovslGdqpEd_def OpXlatAlBbb_def OpMovAlOb_def OpMovObAl_def
    OpMovRaxOvqp_def OpMovOvqpRax_def OpMovEbGb_def OpMovGbEb_def
  by (intro safe_intros)+

lemma moves_8 [safe_intros]:
  "safe I (OpMovZbIb rde disp uimm0)"
    "safe I (OpMovZvqpIvqp rde disp uimm0)"
    "safe I (OpMovImm rde disp uimm0)"
    "safe I (OpPushImm rde disp uimm0)"
    "safe I (Sax64 rde disp uimm0)"
    "safe I (Sax32 rde disp uimm0)"
    "safe I (Sax16 rde disp uimm0)"
    "safe I (Convert64 rde disp uimm0)"
    "safe I (Convert32 rde disp uimm0)"
    "safe I (Convert16 rde disp uimm0)"
  unfolding OpMovZbIb_def OpMovZvqpIvqp_def OpMovImm_def OpPushImm_def Sax64_def Sax32_def Sax16_def Convert64_def
    Convert32_def Convert16_def
  by (intro safe_intros)+

lemma moves_9 [safe_intros]:
  "safe I (OpSax rde disp uimm0)"
    "safe I (OpConvert rde disp uimm0)"
    "safe I (OpBswapZvqp rde disp uimm0)"
  unfolding OpSax_def OpConvert_def OpBswapZvqp_def kSax_def kConvert_def
  by (intro safe_intros)+


lemma exchange_1 [safe_intros]:
  "safe I (OpXchgGbEb rde disp uimm0)"
    "safe I (OpXchgZvqp rde disp uimm0)"
    "safe I (OpXchgGvqpEvqp rde disp uimm0)"
    "safe I (OpXaddEbGb rde disp uimm0)"
    "safe I (OpXaddEvqpGvqp rde disp uimm0)"
    "safe I (compare_exchange g11 g12 p g13 h13)"
  unfolding OpXchgGbEb_def OpXchgZvqp_def OpXchgGvqpEvqp_def OpXaddEbGb_def OpXaddEvqpGvqp_def compare_exchange_def
  by (intro safe_intros)+

lemma exchange_2 [safe_intros]:
  "safe I (OpCmpxchgEbAlGb rde disp uimm0)"
    "safe I (Cmpxchg rde p)"
  unfolding OpCmpxchgEbAlGb_def Cmpxchg_def
  by (intro safe_intros)+

lemma exchange_3 [safe_intros]:
  "safe I (OpCmpxchgEvqpRaxGvqp rde disp uimm0)"
    "safe I (OpCmpxchg8b rde disp uimm0)"
    "safe I (OpCmpxchg16b rde disp uimm0)"
  unfolding OpCmpxchgEvqpRaxGvqp_def OpCmpxchg8b_def OpCmpxchg16b_def
  by (intro safe_intros)+


lemma branch_1 [safe_intros]:
  "safe I (GenInterrupt rde disp uimm0 l)"
  unfolding GenInterrupt_def
  by (intro safe_intros)+

lemma branch_2 [safe_intros]:
  "safe I (OpInterruptImm rde disp uimm0)"
    "safe I (OpInterrupt1 rde disp uimm0)"
    "safe I (OpInterrupt3 rde disp uimm0)"
  unfolding OpInterruptImm_def OpInterrupt1_def OpInterrupt3_def
  by (intro safe_intros)+

lemma branch_3 [safe_intros]:
  "safe I (jump rde)"
  unfolding jump_def
  by (intro safe_intros modify_core)+ (simp_all add: core_def settled_def)

lemma branch_4 [safe_intros]:
  "safe I (OpJmp rde disp uimm0)"
    "safe I (GetCc rde disp uimm0)"
  unfolding OpJmp_def GetCc_def
  by (intro safe_intros)+

lemma branch_5 [safe_intros]:
  "safe I (OpJcc rde disp uimm0)"
    "safe I (OpJp rde disp uimm0)"
    "safe I (OpJnp rde disp uimm0)"
    "safe I (SetEb rde disp uimm0 b)"
  unfolding OpJcc_def OpJp_def OpJnp_def SetEb_def
  by (intro safe_intros)+

lemma branch_6 [safe_intros]:
  "safe I (OpSetcc rde disp uimm0)"
    "safe I (OpSetp rde disp uimm0)"
    "safe I (OpSetnp rde disp uimm0)"
    "safe I (OpCmovImpl rde disp uimm0 b)"
  unfolding OpSetcc_def OpSetp_def OpSetnp_def OpCmovImpl_def
  by (intro safe_intros)+

lemma branch_7 [safe_intros]:
  "safe I (OpCmov rde disp uimm0)"
    "safe I (OpCmovp rde disp uimm0)"
    "safe I (OpCmovnp rde disp uimm0)"
    "safe I (OpJcxz rde disp uimm0)"
    "safe I (OpLoop rde disp uimm0 b)"
  unfolding OpCmov_def OpCmovp_def OpCmovnp_def OpJcxz_def OpLoop_def
  by (intro safe_intros)+

lemma branch_8 [safe_intros]:
  "safe I (OpLoope rde disp uimm0)"
    "safe I (OpLoopne rde disp uimm0)"
    "safe I (OpLoop1 rde disp uimm0)"
  unfolding OpLoope_def OpLoopne_def OpLoop1_def
  by (intro safe_intros)+


lemma safe_group:
  assumes "list_all (\<lambda>f. safe I (f rde disp uimm0)) fs" "length fs = 8"
  shows "safe I ((fs ! ModrmReg rde) rde disp uimm0)"
  using assms(1)
proof (rule safe_nth)
  show "ModrmReg rde < length fs" using field_less [of 0 3 rde] assms(2) by (simp add: rde_field del: field_less)
qed

lemma safe_groups [safe_intros]:
  "safe I (Op0f6 rde disp uimm0)" "safe I (Op0f7 rde disp uimm0)" "safe I (Op0ff rde disp uimm0)"
  unfolding Op0f6_def kOp0f6_def Op0f7_def kOp0f7_def Op0ff_def kOp0ff_def
  by (intro safe_group safe_intros; simp)+


lemma bit_ops_1 [safe_intros]:
  "safe I (Bitscan rde disp uimm0 g14)"
  unfolding Bitscan_def
  by (intro safe_intros)+

lemma bit_ops_2 [safe_intros]:
  "safe I (OpBsf rde disp uimm0)"
    "safe I (OpBsr rde disp uimm0)"
    "safe I (Op1b8 rde disp uimm0)"
    "safe I (OpBit rde disp uimm0)"
  unfolding OpBsf_def OpBsr_def Op1b8_def OpBit_def
  by (intro safe_intros)+

lemma bit_ops_3 [safe_intros]:
  "safe I (BcdFlags b c)"
  unfolding BcdFlags_def
  by (intro safe_intros modify_core)+ (simp_all add: core_def settled_def)

lemma bit_ops_4 [safe_intros]:
  "safe I (OpDas rde disp uimm0)"
    "safe I (adjust_ascii g15)"
  unfolding OpDas_def adjust_ascii_def
  by (intro safe_intros)+

lemma bit_ops_5 [safe_intros]:
  "safe I (OpAaa rde disp uimm0)"
    "safe I (OpAas rde disp uimm0)"
    "safe I decoded_uimm0"
  unfolding OpAaa_def OpAas_def decoded_uimm0_def
  by (intro safe_intros)+

lemma bit_ops_6 [safe_intros]:
  "safe I (OpAam rde disp uimm0)"
    "safe I (OpAad rde disp uimm0)"
    "safe I (OpDaa rde disp uimm0)"
    "safe I (OpPbit rde disp uimm0 g16)"
    "safe I (OpBzhi rde disp uimm0)"
  unfolding OpAam_def OpAad_def OpDaa_def OpPbit_def OpBzhi_def
  by (intro safe_intros)+

lemma bit_ops_7 [safe_intros]:
  "safe I (Op2f5 rde disp uimm0)"
    "safe I (flagless_shift rde disp uimm0 x g17 g18)"
  unfolding Op2f5_def flagless_shift_def
  by (intro safe_intros)+

lemma bit_ops_8 [safe_intros]:
  "safe I (OpRorx rde disp uimm0)"
    "safe I (OpShlx rde disp uimm0)"
    "safe I (OpShrx rde disp uimm0)"
    "safe I (OpSarx rde disp uimm0)"
  unfolding OpRorx_def OpShlx_def OpShrx_def OpSarx_def
  by (intro safe_intros)+

lemma bit_ops_9 [safe_intros]:
  "safe I (OpShx rde disp uimm0)"
  unfolding OpShx_def
  by (intro safe_intros)+

lemma bit_ops_10 [safe_intros]:
  "safe I (OpCrc32 rde disp uimm0)"
  unfolding OpCrc32_def
  by (intro safe_intros modify_core)+ (simp_all add: core_def settled_def)

lemma bit_ops_11 [safe_intros]:
  "safe I (Op2f01 rde disp uimm0)"
    "safe I (OpSsePclmulqdq rde disp uimm0)"
  unfolding Op2f01_def OpSsePclmulqdq_def
  by (intro safe_intros)+


lemma sse_moves_1 [safe_intros]:
  "safe I (zero_bytes p n)"
    "safe I (MovdquVdqWdq rde disp uimm0)"
    "safe I (MovdquWdqVdq rde disp uimm0)"
  unfolding zero_bytes_def MovdquVdqWdq_def MovdquWdqVdq_def
  by (intro safe_intros)+

lemma sse_moves_2 [safe_intros]:
  "safe I (MovupsVpsWps rde disp uimm0)"
    "safe I (MovupsWpsVps rde disp uimm0)"
    "safe I (MovupdVpsWps rde disp uimm0)"
    "safe I (MovupdWpsVps rde disp uimm0)"
    "safe I (OpLddquVdqMdq rde disp uimm0)"
    "safe I (OpMovntiMdqpGdqp rde disp uimm0)"
    "safe I (MovdqaVdqWdq rde disp uimm0)"
    "safe I (MovdqaWdqVdq rde disp uimm0)"
  unfolding MovupsVpsWps_def MovupsWpsVps_def MovupdVpsWps_def MovupdWpsVps_def OpLddquVdqMdq_def OpMovntiMdqpGdqp_def
    MovdqaVdqWdq_def MovdqaWdqVdq_def
  by (intro safe_intros)+

lemma sse_moves_3 [safe_intros]:
  "safe I (MovntdqMdqVdq rde disp uimm0)"
    "safe I (MovntpsMpsVps rde disp uimm0)"
    "safe I (MovntpdMpdVpd rde disp uimm0)"
    "safe I (OpMovntdqaVdqMdq rde disp uimm0)"
    "safe I (MovapsVpsWps rde disp uimm0)"
    "safe I (MovapdVpdWpd rde disp uimm0)"
    "safe I (MovapsWpsVps rde disp uimm0)"
    "safe I (MovapdWpdVpd rde disp uimm0)"
    "safe I (MovqPqQq rde disp uimm0)"
    "safe I (MovqQqPq rde disp uimm0)"
  unfolding MovntdqMdqVdq_def MovntpsMpsVps_def MovntpdMpdVpd_def OpMovntdqaVdqMdq_def MovapsVpsWps_def MovapdVpdWpd_def
    MovapsWpsVps_def MovapdWpdVpd_def MovqPqQq_def MovqQqPq_def
  by (intro safe_intros)+

lemma sse_moves_4 [safe_intros]:
  "safe I (MovqVdqEqp rde disp uimm0)"
    "safe I (MovdVdqEd rde disp uimm0)"
    "safe I (MovqPqEqp rde disp uimm0)"
    "safe I (MovdPqEd rde disp uimm0)"
    "safe I (MovdEdVdq rde disp uimm0)"
    "safe I (MovqEqpVdq rde disp uimm0)"
    "safe I (MovdEdPq rde disp uimm0)"
    "safe I (MovqEqpPq rde disp uimm0)"
    "safe I (MovntqMqPq rde disp uimm0)"
    "safe I (MovqVqWq rde disp uimm0)"
  unfolding MovqVdqEqp_def MovdVdqEd_def MovqPqEqp_def MovdPqEd_def MovdEdVdq_def MovqEqpVdq_def MovdEdPq_def
    MovqEqpPq_def MovntqMqPq_def MovqVqWq_def
  by (intro safe_intros)+

lemma sse_moves_5 [safe_intros]:
  "safe I (MovssVpsWps rde disp uimm0)"
    "safe I (MovssWpsVps rde disp uimm0)"
    "safe I (MovsdVpsWps rde disp uimm0)"
    "safe I (MovsdWpsVps rde disp uimm0)"
    "safe I (MovhlpsVqUq rde disp uimm0)"
    "safe I (MovlpsVqMq rde disp uimm0)"
    "safe I (MovlpdVqMq rde disp uimm0)"
    "safe I (MovddupVqWq rde disp uimm0)"
    "safe I (MovsldupVqWq rde disp uimm0)"
    "safe I (MovlpsMqVq rde disp uimm0)"
  unfolding MovssVpsWps_def MovssWpsVps_def MovsdVpsWps_def MovsdWpsVps_def MovhlpsVqUq_def MovlpsVqMq_def MovlpdVqMq_def
    MovddupVqWq_def MovsldupVqWq_def MovlpsMqVq_def
  by (intro safe_intros)+

lemma sse_moves_6 [safe_intros]:
  "safe I (MovlpdMqVq rde disp uimm0)"
    "safe I (MovlhpsVqUq rde disp uimm0)"
    "safe I (MovhpsVqMq rde disp uimm0)"
    "safe I (MovhpdVqMq rde disp uimm0)"
    "safe I (MovshdupVqWq rde disp uimm0)"
    "safe I (MovhpsMqVq rde disp uimm0)"
    "safe I (MovhpdMqVq rde disp uimm0)"
    "safe I (MovqWqVq rde disp uimm0)"
    "safe I (Movq2dqVdqNq rde disp uimm0)"
    "safe I (Movdq2qPqUq rde disp uimm0)"
  unfolding MovlpdMqVq_def MovlhpsVqUq_def MovhpsVqMq_def MovhpdVqMq_def MovshdupVqWq_def MovhpsMqVq_def MovhpdMqVq_def
    MovqWqVq_def Movq2dqVdqNq_def Movdq2qPqUq_def
  by (intro safe_intros)+

lemma sse_moves_7 [safe_intros]:
  "safe I (OpMovWpsVps rde disp uimm0)"
    "safe I (OpMov0f28 rde disp uimm0)"
    "safe I (OpMov0f6e rde disp uimm0)"
    "safe I (OpMov0f6f rde disp uimm0)"
    "safe I (OpMov0fE7 rde disp uimm0)"
    "safe I (OpMov0f7e rde disp uimm0)"
    "safe I (OpMov0f7f rde disp uimm0)"
    "safe I (OpMov0f10 rde disp uimm0)"
    "safe I (OpMov0f29 rde disp uimm0)"
    "safe I (OpMov0f2b rde disp uimm0)"
  unfolding OpMovWpsVps_def OpMov0f28_def OpMov0f6e_def OpMov0f6f_def OpMov0fE7_def OpMov0f7e_def OpMov0f7f_def
    OpMov0f10_def OpMov0f29_def OpMov0f2b_def
  by (intro safe_intros)+

lemma sse_moves_8 [safe_intros]:
  "safe I (OpMov0f12 rde disp uimm0)"
    "safe I (OpMov0f13 rde disp uimm0)"
    "safe I (OpMov0f16 rde disp uimm0)"
    "safe I (OpMov0f17 rde disp uimm0)"
    "safe I (OpMov0fD6 rde disp uimm0)"
    "safe I (OpPmovmskbGdqpNqUdq rde disp uimm0)"
    "safe I (OpMaskMovDiXmmRegXmmRm rde disp uimm0)"
  unfolding OpMov0f12_def OpMov0f13_def OpMov0f16_def OpMov0f17_def OpMov0fD6_def OpPmovmskbGdqpNqUdq_def
    OpMaskMovDiXmmRegXmmRm_def
  by (intro safe_intros)+


lemma safe_with_source [safe_intros]: "safe I (with_source k p)"
  unfolding with_source_def by (rule modify_core) (simp add: core_def settled_def Let_def split: ptr.split)


lemma vector_1 [safe_intros]:
  "safe I (OpPsb rde disp uimm0 g19 h19)"
  unfolding OpPsb_def
  by (intro safe_intros modify_core)+ (simp_all add: core_def settled_def)

lemma vector_2 [safe_intros]:
  "safe I (Op171 rde disp uimm0)"
    "safe I (Op172 rde disp uimm0)"
    "safe I (Op173 rde disp uimm0)"
    "safe I (OpSsePalignr rde disp uimm0)"
    "safe I (OpSse rde disp uimm0 g20 h20)"
  unfolding Op171_def Op172_def Op173_def OpSsePalignr_def OpSse_def
  by (intro safe_intros)+

lemma vector_3 [safe_intros]:
  "safe I (OpSsePunpcklbw rde disp uimm0)"
    "safe I (OpSsePunpcklwd rde disp uimm0)"
    "safe I (OpSsePunpckldq rde disp uimm0)"
    "safe I (OpSsePacksswb rde disp uimm0)"
    "safe I (OpSsePcmpgtd rde disp uimm0)"
    "safe I (OpSsePackuswb rde disp uimm0)"
    "safe I (OpSsePunpckhbw rde disp uimm0)"
    "safe I (OpSsePunpckhwd rde disp uimm0)"
    "safe I (OpSsePunpckhdq rde disp uimm0)"
    "safe I (OpSsePackssdw rde disp uimm0)"
  unfolding OpSsePunpcklbw_def OpSsePunpcklwd_def OpSsePunpckldq_def OpSsePacksswb_def OpSsePcmpgtd_def OpSsePackuswb_def
    OpSsePunpckhbw_def OpSsePunpckhwd_def OpSsePunpckhdq_def OpSsePackssdw_def
  by (intro safe_intros)+

lemma vector_4 [safe_intros]:
  "safe I (OpSsePunpcklqdq rde disp uimm0)"
    "safe I (OpSsePunpckhqdq rde disp uimm0)"
    "safe I (OpSsePcmpeqd rde disp uimm0)"
    "safe I (OpSsePsrlwv rde disp uimm0)"
    "safe I (OpSsePsrldv rde disp uimm0)"
    "safe I (OpSsePsrlqv rde disp uimm0)"
    "safe I (OpSsePaddq rde disp uimm0)"
    "safe I (OpSsePsubusb rde disp uimm0)"
    "safe I (OpSsePsubusw rde disp uimm0)"
    "safe I (OpSsePaddusb rde disp uimm0)"
  unfolding OpSsePunpcklqdq_def OpSsePunpckhqdq_def OpSsePcmpeqd_def OpSsePsrlwv_def OpSsePsrldv_def OpSsePsrlqv_def
    OpSsePaddq_def OpSsePsubusb_def OpSsePsubusw_def OpSsePaddusb_def
  by (intro safe_intros)+

lemma vector_5 [safe_intros]:
  "safe I (OpSsePsrawv rde disp uimm0)"
    "safe I (OpSsePsradv rde disp uimm0)"
    "safe I (OpSsePmulhuw rde disp uimm0)"
    "safe I (OpSsePsubsb rde disp uimm0)"
    "safe I (OpSsePminsw rde disp uimm0)"
    "safe I (OpSsePaddsb rde disp uimm0)"
    "safe I (OpSsePmaxsw rde disp uimm0)"
    "safe I (OpSsePsllwv rde disp uimm0)"
    "safe I (OpSsePslldv rde disp uimm0)"
    "safe I (OpSsePsllqv rde disp uimm0)"
  unfolding OpSsePsrawv_def OpSsePsradv_def OpSsePmulhuw_def OpSsePsubsb_def OpSsePminsw_def OpSsePaddsb_def
    OpSsePmaxsw_def OpSsePsllwv_def OpSsePslldv_def OpSsePsllqv_def
  by (intro safe_intros)+

lemma vector_6 [safe_intros]:
  "safe I (OpSsePmuludq rde disp uimm0)"
    "safe I (OpSsePmaddwd rde disp uimm0)"
    "safe I (OpSsePsadbw rde disp uimm0)"
    "safe I (OpSsePsubd rde disp uimm0)"
    "safe I (OpSsePsubq rde disp uimm0)"
    "safe I (OpSsePaddd rde disp uimm0)"
    "safe I (OpSsePshufb rde disp uimm0)"
    "safe I (OpSsePhaddw rde disp uimm0)"
    "safe I (OpSsePhaddd rde disp uimm0)"
    "safe I (OpSsePmaddubsw rde disp uimm0)"
  unfolding OpSsePmuludq_def OpSsePmaddwd_def OpSsePsadbw_def OpSsePsubd_def OpSsePsubq_def OpSsePaddd_def OpSsePshufb_def
    OpSsePhaddw_def OpSsePhaddd_def OpSsePmaddubsw_def
  by (intro safe_intros)+

lemma vector_7 [safe_intros]:
  "safe I (OpSsePhsubw rde disp uimm0)"
    "safe I (OpSsePhsubd rde disp uimm0)"
    "safe I (OpSsePsignb rde disp uimm0)"
    "safe I (OpSsePsignw rde disp uimm0)"
    "safe I (OpSsePsignd rde disp uimm0)"
    "safe I (OpSsePmulhrsw rde disp uimm0)"
    "safe I (OpSsePabsw rde disp uimm0)"
    "safe I (OpSsePabsd rde disp uimm0)"
    "safe I (OpSsePmulld rde disp uimm0)"
    "safe I (OpSsePcmpgtb rde disp uimm0)"
  unfolding OpSsePhsubw_def OpSsePhsubd_def OpSsePsignb_def OpSsePsignw_def OpSsePsignd_def OpSsePmulhrsw_def
    OpSsePabsw_def OpSsePabsd_def OpSsePmulld_def OpSsePcmpgtb_def
  by (intro safe_intros)+

lemma vector_8 [safe_intros]:
  "safe I (OpSsePcmpgtw rde disp uimm0)"
    "safe I (OpSsePcmpeqb rde disp uimm0)"
    "safe I (OpSsePcmpeqw rde disp uimm0)"
    "safe I (OpSsePmullw rde disp uimm0)"
    "safe I (OpSsePminub rde disp uimm0)"
    "safe I (OpSsePand rde disp uimm0)"
    "safe I (OpSsePaddusw rde disp uimm0)"
    "safe I (OpSsePmaxub rde disp uimm0)"
    "safe I (OpSsePandn rde disp uimm0)"
    "safe I (OpSsePavgb rde disp uimm0)"
  unfolding OpSsePcmpgtw_def OpSsePcmpeqb_def OpSsePcmpeqw_def OpSsePmullw_def OpSsePminub_def OpSsePand_def
    OpSsePaddusw_def OpSsePmaxub_def OpSsePandn_def OpSsePavgb_def
  by (intro safe_intros)+

lemma vector_9 [safe_intros]:
  "safe I (OpSsePavgw rde disp uimm0)"
    "safe I (OpSsePmulhw rde disp uimm0)"
    "safe I (OpSsePsubsw rde disp uimm0)"
    "safe I (OpSsePor rde disp uimm0)"
    "safe I (OpSsePaddsw rde disp uimm0)"
    "safe I (OpSsePxor rde disp uimm0)"
    "safe I (OpSsePsubb rde disp uimm0)"
    "safe I (OpSsePsubw rde disp uimm0)"
    "safe I (OpSsePaddb rde disp uimm0)"
    "safe I (OpSsePaddw rde disp uimm0)"
  unfolding OpSsePavgw_def OpSsePmulhw_def OpSsePsubsw_def OpSsePor_def OpSsePaddsw_def OpSsePxor_def OpSsePsubb_def
    OpSsePsubw_def OpSsePaddb_def OpSsePaddw_def
  by (intro safe_intros)+

lemma vector_10 [safe_intros]:
  "safe I (OpSsePhaddsw rde disp uimm0)"
    "safe I (OpSsePhsubsw rde disp uimm0)"
    "safe I (OpSsePabsb rde disp uimm0)"
    "safe I (get_words p n)"
    "safe I (get_dwords p)"
    "safe I (set_words p g21)"
    "safe I (set_dwords p g22)"
  unfolding OpSsePhaddsw_def OpSsePhsubsw_def OpSsePabsb_def get_words_def get_dwords_def set_words_def set_dwords_def
  by (intro safe_intros)+

lemma vector_11 [safe_intros]:
  "safe I (OpShuffle rde disp uimm0)"
    "safe I (OpUnpcklpsd rde disp uimm0)"
    "safe I (OpUnpckhpsd rde disp uimm0)"
    "safe I (OpPextrwGdqpUdqIb rde disp uimm0)"
    "safe I (OpPinsrwVdqEwIb rde disp uimm0)"
    "safe I (Shufps rde disp uimm0)"
    "safe I (get_qwords p)"
    "safe I (set_qwords p g23)"
  unfolding OpShuffle_def OpUnpcklpsd_def OpUnpckhpsd_def OpPextrwGdqpUdqIb_def OpPinsrwVdqEwIb_def Shufps_def
    get_qwords_def set_qwords_def
  by (intro safe_intros)+

lemma vector_12 [safe_intros]:
  "safe I (Shufpd rde disp uimm0)"
  unfolding Shufpd_def
  by (intro safe_intros)+

lemma vector_13 [safe_intros]:
  "safe I (OpShufpsd rde disp uimm0)"
    "safe I (Movmskps rde disp uimm0)"
    "safe I (Movmskpd rde disp uimm0)"
  unfolding OpShufpsd_def Movmskps_def Movmskpd_def
  by (intro safe_intros)+

lemma vector_14 [safe_intros]:
  "safe I (OpMovmskpsd rde disp uimm0)"
    "safe I (bitwise rde disp uimm0 g16)"
  unfolding OpMovmskpsd_def bitwise_def
  by (intro safe_intros)+

lemma vector_15 [safe_intros]:
  "safe I (OpAndpsd rde disp uimm0)"
    "safe I (OpAndnpsd rde disp uimm0)"
    "safe I (OpOrpsd rde disp uimm0)"
    "safe I (OpXorpsd rde disp uimm0)"
  unfolding OpAndpsd_def OpAndnpsd_def OpOrpsd_def OpXorpsd_def
  by (intro safe_intros)+


lemma safe_clock_gettime [safe_intros]: "safe I clock_gettime"
  by (auto simp: safe_def triple_def clock_gettime_def split: list.split intro: core simp: core_def settled_def)

lemma safe_GetRandom [safe_intros]: "safe I GetRandom"
  by (auto simp: safe_def triple_def GetRandom_def split: list.split intro: core simp: core_def settled_def)


lemma cpu_1 [safe_intros]:
  "safe I (OpCpuid rde disp uimm0)"
    "safe I (OpPause rde disp uimm0)"
    "safe I (OpRdtsc rde disp uimm0)"
  unfolding OpCpuid_def OpPause_def OpRdtsc_def
  by (intro safe_intros)+

lemma cpu_2 [safe_intros]:
  "safe I (OpRdtscp rde disp uimm0)"
    "safe I (OpRdpid rde disp uimm0)"
    "safe I (OpRand rde disp uimm0 x)"
  unfolding OpRdtscp_def OpRdpid_def OpRand_def
  by (intro safe_intros)+

lemma cpu_3 [safe_intros]:
  "safe I (OpRdrand rde disp uimm0)"
  unfolding OpRdrand_def
  by (intro safe_intros modify_core)+ (simp_all add: core_def settled_def)

lemma cpu_4 [safe_intros]:
  "safe I (OpRdseed rde disp uimm0)"
  unfolding OpRdseed_def
  by (intro safe_intros)+

lemma cpu_5 [safe_intros]:
  "safe I (Op1c7 rde disp uimm0)"
    "safe I (GetDescriptor j)"
  unfolding Op1c7_def GetDescriptor_def
  by (intro safe_intros)+

lemma cpu_6 [safe_intros]:
  "safe I (OpLsl rde disp uimm0)"
  unfolding OpLsl_def
  by (intro safe_intros)+

lemma cpu_7 [safe_intros]:
  "safe I (move_local g24 n)"
  unfolding move_local_def
  by (intro safe_intros modify_core)+ (simp_all add: core_def settled_def)

lemma cpu_8 [safe_intros]:
  "safe I (OpFxsave rde disp uimm0)"
  unfolding OpFxsave_def
  by (intro safe_intros modify_core)+ (simp_all add: core_def settled_def)

lemma cpu_9 [safe_intros]:
  "safe I (OpFxrstor rde disp uimm0)"
  unfolding OpFxrstor_def
  by (intro safe_intros modify_core)+ (simp_all add: core_def settled_def)

lemma cpu_10 [safe_intros]:
  "safe I (OpXsave rde disp uimm0)"
  unfolding OpXsave_def
  by (intro safe_intros)+

lemma cpu_11 [safe_intros]:
  "safe I (OpLdmxcsr rde disp uimm0)"
  unfolding OpLdmxcsr_def
  by (intro safe_intros modify_core)+ (simp_all add: core_def settled_def)

lemma cpu_12 [safe_intros]:
  "safe I (OpStmxcsr rde disp uimm0)"
    "safe I (OpRdfsbase rde disp uimm0)"
    "safe I (OpRdgsbase rde disp uimm0)"
  unfolding OpStmxcsr_def OpRdfsbase_def OpRdgsbase_def
  by (intro safe_intros)+

lemma cpu_13 [safe_intros]:
  "safe I (OpWrfsbase rde disp uimm0)"
  unfolding OpWrfsbase_def
  by (intro safe_intros modify_core)+ (simp_all add: core_def settled_def)

lemma cpu_14 [safe_intros]:
  "safe I (OpWrgsbase rde disp uimm0)"
  unfolding OpWrgsbase_def
  by (intro safe_intros modify_core)+ (simp_all add: core_def settled_def)

lemma cpu_15 [safe_intros]:
  "safe I (OpMfence rde disp uimm0)"
  unfolding OpMfence_def
  by (intro safe_intros)+

lemma cpu_16 [safe_intros]:
  "safe I (OpLfence rde disp uimm0)"
    "safe I (OpSfence rde disp uimm0)"
    "safe I (OpWbinvd rde disp uimm0)"
    "safe I (OpClflush rde disp uimm0)"
  unfolding OpLfence_def OpSfence_def OpWbinvd_def OpClflush_def
  by (intro safe_intros)+

lemma cpu_17 [safe_intros]:
  "safe I (Op1ae rde disp uimm0)"
  unfolding Op1ae_def
  by (intro safe_intros)+

lemma cpu_18 [safe_intros]:
  "safe I (OpBofram rde disp uimm0)"
  unfolding OpBofram_def
  by (intro safe_intros modify_core)+ (simp_all add: core_def settled_def)

lemma cpu_19 [safe_intros]:
  "safe I (OpBinbase rde disp uimm0)"
    "safe I (OpNoop rde disp uimm0)"
  unfolding OpBinbase_def OpNoop_def
  by (intro safe_intros)+

lemma cpu_20 [safe_intros]:
  "safe I (OpNopEv rde disp uimm0)"
    "safe I (OpNop rde disp uimm0)"
  unfolding OpNopEv_def OpNop_def
  by (intro safe_intros)+

lemma cpu_21 [safe_intros]:
  "safe I (OpEmms rde disp uimm0)"
  unfolding OpEmms_def
  by (intro safe_intros modify_core)+ (simp_all add: core_def settled_def)



end

end
