(* ===== verification/Repeat.thy ===== *)
theory Repeat
  imports Progress
begin

text \<open>
  The repeated string instructions end: every round counts the counter register down.
\<close>

declare seq.simps [simp del]

section \<open>The counter of a repeated instruction\<close>

definition counting :: "(Machine \<Rightarrow> bool) \<Rightarrow> u64 \<Rightarrow> Machine \<Rightarrow> bool" where
  "counting I c m \<longleftrightarrow> I m \<and> Get64 (m_beg m) 8 = c"

text \<open>The part of \<open>CX\<close> that counts at the address size.\<close>

definition count_bits :: "u64 \<Rightarrow> nat" where
  "count_bits rde = (if Eamode rde = XED_MODE_REAL then 16 else if Eamode rde = XED_MODE_LEGACY then 32 else 64)"

definition count_of :: "u64 \<Rightarrow> u64 \<Rightarrow> u64" where
  "count_of rde c = take_bit (count_bits rde) c"

lemma Get_parts: "Get32 s p = ucast (Get64 s p)" "Get16 s p = ucast (Get64 s p)"
  by (rule bit_word_eqI; simp add: bit_Get32 bit_Get16 bit_Get64 bit_unsigned_iff)+

lemma take_bit_sub:
  assumes "unat x \<le> unat (take_bit k c)" "k \<le> 64"
  shows "unat (take_bit k (c - x :: u64)) = unat (take_bit k c) - unat x"
proof -
  let ?N = "unat (take_bit k c) - unat x"
  have d: "(2::int) ^ k dvd 18446744073709551616" using le_imp_power_dvd [OF assms(2), of "2 :: int"] by simp
  have "unat (take_bit k c) < 2 ^ k"
    using take_bit_nat_less_exp [of k "unat c"] by (simp add: unsigned_take_bit_eq)
  then have "take_bit k ?N = ?N"
    by (intro take_bit_nat_eq_self le_less_trans [OF diff_le_self])
  then have N: "take_bit k (int ?N) = int ?N"
    by (simp only: flip: of_nat_take_bit)
  have "uint (take_bit k (c - x)) = take_bit k (take_bit k (uint c) - uint x)"
    using mod_mod_cancel [OF d] by (simp add: unsigned_take_bit_eq uint_word_ariths take_bit_eq_mod [where 'a = int] mod_diff_left_eq)
  also have "take_bit k (uint c) = int (unat (take_bit k c))"
    by (simp add: unsigned_take_bit_eq of_nat_take_bit)
  also have "\<dots> - uint x = int ?N"
    using assms(1) by (simp add: of_nat_diff)
  also note N
  finally show ?thesis by (simp only: uint_nat of_nat_eq_iff)
qed

lemma index_frame [simp]:
  "Get64 (Put64 48 v s) 8 = Get64 s 8" "Get64 (Put64 56 v s) 8 = Get64 s 8"
  "Get64 (Put16 48 h s) 8 = Get64 s 8" "Get64 (Put16 56 h s) 8 = Get64 s 8"
  by (rule Get_cong; simp add: Put_frame)+

lemma count_masks: "x AND 0xffffffff = take_bit 32 x" "x AND 0xffff = take_bit 16 x" for x :: u64
  by (simp_all add: take_bit_eq_mask mask_numeral)

lemma count_real: "Get64 (Put16 8 (ucast (take_bit 16 x)) s) 8 = (Get64 s 8 AND NOT (mask 16)) OR take_bit 16 x"
  unfolding Get64_Put16 by (rule bit_word_eqI) (auto simp: bit_simps)

lemma take_bit_real: "take_bit 16 ((c AND NOT (mask 16)) OR take_bit 16 x) = take_bit 16 x" for x :: u64
  by (rule bit_word_eqI) (auto simp: bit_simps)

lemma settled_beg: "settled m' = settled m \<Longrightarrow> m_beg m' = m_beg m"
  by (cases m; cases m') (simp add: settled_def)

lemma counting_modify:
  assumes "\<And>m m'. I m \<Longrightarrow> core m' = core m \<Longrightarrow> I m'"
    "\<And>m. core (f m) = core m" "\<And>m. Get64 (m_beg (f m)) 8 = Get64 (m_beg m) 8"
  shows "safe (counting I c) (modify f)"
  using assms by (auto intro!: safe_modify simp: counting_def)

context cpu_stable begin

sublocale cx: memory_stable "counting I c" for c
proof unfold_locales
  show "safe (counting I c) (FindPageTableEntry page)" for page
    using walks [of "\<lambda>s. Get64 s 8 = c"] by (simp add: counting_def [abs_def])
  show "counting I c m \<Longrightarrow> settled m' = settled m \<Longrightarrow> counting I c m'" for m m'
    unfolding counting_def
    by (metis (no_types, lifting) core core_settled settled_beg)
qed

lemma cx_modify: "(\<And>m. core (f m) = core m) \<Longrightarrow> (\<And>m. Get64 (m_beg (f m)) 8 = Get64 (m_beg m) 8) \<Longrightarrow> safe (counting I c) (modify f)"
  by (rule counting_modify) (rule core)

lemma cx_index [safe_intros]: "safe (counting I c) (AddDi rde disp uimm0 x)" "safe (counting I c) (AddSi rde disp uimm0 x)"
  unfolding AddDi_def AddSi_def add_index_def wr_def
  by (intro safe_intros cx_modify core_region; simp)+

lemma cx_alu [safe_intros]: "safe (counting I c) (alu f x y)"
  unfolding alu_def by (intro safe_intros cx_modify) (simp_all add: core_def settled_def)

lemma cx_ReadInt [safe_intros]: "safe I' (ReadInt p n)"
  unfolding ReadInt_def by (intro safe_intros)

lemma cx_copy_AX [safe_intros]: "n \<le> 8 \<Longrightarrow> safe (counting I c) (copy_bytes AX p n)"
  unfolding copy_bytes_def by (intro cx_modify core_region) (auto intro!: Get_cong)

lemma cx_Load: "(\<And>p. scratch p \<Longrightarrow> safe (counting I c) (g p)) \<Longrightarrow> safe (counting I c) (seq (Load v n (Local k)) g)"
  by (rule gives_use [OF cx.gives_Load]) simp_all

lemma cx_BeginStore:
  "(\<And>q p. scratch q \<Longrightarrow> safe (counting I c) (g q p)) \<Longrightarrow> safe (counting I c) (seq (BeginStore v n (Local k)) (case_prod g))"
  by (rule gives_use [OF cx.gives_BeginStore]) auto

lemma RegLog2_bytes: "push_bit (RegLog2 rde) (1::nat) \<le> 8"
proof -
  have "RegLog2 rde \<le> 3" using field_less [of 28 2 rde] by (simp add: rde_field del: field_less)
  then show ?thesis using power_increasing [of "RegLog2 rde" 3 "2::nat"] by (simp add: push_bit_eq_mult)
qed

lemma cx_string_step: "safe (counting I c) (string_step op rde disp uimm0 dir)"
  unfolding string_step_def Let_def scan_stops_def
  by (cases op; simp only: string_op.case seq_assoc)
    (intro cx_Load cx_BeginStore cx_copy_AX cx.copy_scratch RegLog2_bytes safe_intros; assumption?; simp)+

lemma keeps_region: "I m \<Longrightarrow> I (update_region p f m)"
  using core [OF _ core_region] by blast

lemma ReadCx_count: "triple (counting I c) (ReadCx rde disp uimm0) (\<lambda>cx m. counting I c m \<and> cx = count_of rde c)"
  unfolding ReadCx_def rd_def count_of_def count_bits_def triple_def
  by (auto simp: exec_simps ret_def counting_def Get_parts unsigned_ucast_eq take_bit_word_eq_self)

lemma SubtractCx_runs:
  "SubtractCx rde disp uimm0 x m =
     (let z = Get64 (m_beg m) 8 - x in
      (Return (count_of rde z),
       m\<lparr>m_beg := (if Eamode rde = XED_MODE_REAL then Put16 8 (ucast (take_bit 16 z)) else Put64 8 (count_of rde z)) (m_beg m)\<rparr>))"
  by (simp add: SubtractCx_def rd_def wr_def exec_simps ret_def count_of_def count_bits_def Let_def count_masks
      take_bit_word_eq_self)

lemma SubtractCx_count:
  assumes "unat x \<le> unat (count_of rde c)"
  shows "triple (counting I c) (SubtractCx rde disp uimm0 x)
    (\<lambda>cx m. \<exists>c'. counting I c' m \<and> cx = count_of rde c' \<and> unat cx = unat (count_of rde c) - unat x)"
proof -
  have sub: "unat (count_of rde (c - x)) = unat (count_of rde c) - unat x"
    using assms unfolding count_of_def by (rule take_bit_sub) (simp add: count_bits_def)
  show ?thesis
    unfolding triple_def
  proof (intro allI impI)
    fix m assume m: "counting I c m"
    let ?new = "if Eamode rde = XED_MODE_REAL then (c AND NOT (mask 16)) OR take_bit 16 (c - x) else count_of rde (c - x)"
    obtain m' where "SubtractCx rde disp uimm0 x m = (Return (count_of rde (c - x)), m')" "counting I ?new m'"
    proof
      show "SubtractCx rde disp uimm0 x m = (Return (count_of rde (c - x)), snd (SubtractCx rde disp uimm0 x m))"
        using m by (simp add: SubtractCx_runs Let_def counting_def)
      show "counting I ?new (snd (SubtractCx rde disp uimm0 x m))"
        using m keeps_region [of m CX] by (simp add: SubtractCx_runs Let_def counting_def count_real Get_Put)
    qed
    moreover have "count_of rde ?new = count_of rde (c - x)"
      by (simp add: count_of_def count_bits_def take_bit_real del: take_bit_or take_bit_and)
    ultimately show "case SubtractCx rde disp uimm0 x m of
        (Return cx, m) \<Rightarrow> \<exists>c'. counting I c' m \<and> cx = count_of rde c' \<and> unat cx = unat (count_of rde c) - unat x
      | (Diverge, _) \<Rightarrow> False | _ \<Rightarrow> True"
      using sub by auto
  qed
qed

lemma counting_safe: "triple (counting I c) (ret a) (\<lambda>_. I)"
  by (rule triple_ret) (simp add: counting_def)

lemma string_loop_ends:
  assumes "n \<noteq> 0" "Rep rde \<noteq> 0 \<Longrightarrow> unat (count_of rde c) < n"
  shows "triple (counting I c) (string_loop n op rde disp uimm0 dir) (\<lambda>_. I)"
  using assms
proof (induction n arbitrary: c)
  case (Suc n)
  let ?round = "\<lambda>stop. if Rep rde \<noteq> 0 then
      thn (seq (SubtractCx rde disp uimm0 1) (\<lambda>_. ret ())) (if stop then ret () else string_loop n op rde disp uimm0 dir)
    else ret ()"
  have more: "triple (counting I c) (?round stop) (\<lambda>_. I)" if "Rep rde \<noteq> 0 \<Longrightarrow> count_of rde c \<noteq> 0" for stop
  proof (cases "Rep rde = 0")
    case False
    let ?Q = "\<lambda>m. \<exists>c'. counting I c' m \<and> unat (count_of rde c') < n"
    have pos: "1 \<le> unat (count_of rde c)" using that False by (simp add: Suc_le_eq unat_gt_0)
    have "triple (counting I c) (seq (SubtractCx rde disp uimm0 1) (\<lambda>_. ret ())) (\<lambda>_. ?Q)"
      using SubtractCx_count [of 1 rde c disp uimm0] pos Suc.prems(2) False
      by (intro triple_seq) (fastforce intro: triple_ret simp: less_Suc_eq)+
    moreover have "triple ?Q (if stop then ret () else string_loop n op rde disp uimm0 dir) (\<lambda>_. I)"
      using Suc.IH by (intro triple_ex triple_if counting_safe) auto
    ultimately show ?thesis using False by (simp add: triple_seq)
  qed (simp add: counting_safe)
  show ?case
    unfolding string_loop.simps
  proof (rule triple_seq)
    show "triple (counting I c)
      (if Rep rde \<noteq> 0 then seq (ReadCx rde disp uimm0) (\<lambda>cx. ret (cx = 0)) else ret False)
      (\<lambda>b m. counting I c m \<and> (Rep rde \<noteq> 0 \<longrightarrow> b = (count_of rde c = 0)))"
      by (auto intro!: triple_if triple_ret triple_seq [OF ReadCx_count])
  next
    fix b
    have "triple (counting I c) (seq (string_step op rde disp uimm0 dir) ?round) (\<lambda>_. I)"
      if "Rep rde \<noteq> 0 \<Longrightarrow> count_of rde c \<noteq> 0"
      by (rule triple_seq [OF triple_of_safe [OF cx_string_step] more [OF that]])
    then show "triple (\<lambda>m. counting I c m \<and> (Rep rde \<noteq> 0 \<longrightarrow> b = (count_of rde c = 0)))
      (if b then ret () else seq (string_step op rde disp uimm0 dir) ?round) (\<lambda>_. I)"
      by (auto simp: triple_def counting_def ret_def)
  qed
qed simp

lemma safe_counting: "(\<And>c. triple (counting I c) f (\<lambda>_. I)) \<Longrightarrow> safe I f"
  unfolding safe_def by (rule triple_fixed) (auto simp: triple_def counting_def)

lemma safe_StringOp [safe_intros]: "safe I (StringOp op rde disp uimm0)"
  unfolding StringOp_def direction_def
proof (rule safe_seq [OF safe_gets], rule safe_counting)
  fix dir c
  show "triple (counting I c)
    (seq (if Rep rde \<noteq> 0 then ReadCx rde disp uimm0 else ret 0) (\<lambda>cx. string_loop (Suc (unat cx)) op rde disp uimm0 dir))
    (\<lambda>_. I)"
  proof (rule triple_seq)
    show "triple (counting I c) (if Rep rde \<noteq> 0 then ReadCx rde disp uimm0 else ret 0)
      (\<lambda>cx m. (Rep rde \<noteq> 0 \<longrightarrow> cx = count_of rde c) \<and> counting I c m)"
      by (auto intro!: triple_if triple_ret triple_weaken [OF ReadCx_count])
    show "triple (\<lambda>m. (Rep rde \<noteq> 0 \<longrightarrow> cx = count_of rde c) \<and> counting I c m)
      (string_loop (Suc (unat cx)) op rde disp uimm0 dir) (\<lambda>_. I)" for cx
      by (intro triple_pure string_loop_ends) auto
  qed
qed

lemma cx_ram [safe_intros]:
  "safe (counting I c) (modify (h_ram_update f))" "safe (counting I c) (fill_bytes a e n)"
  "safe (counting I c) (copy_up a b n)" "safe (counting I c) (copy_down a b n)"
  unfolding fill_bytes_def copy_up_def copy_down_def
  by (intro cx_modify; simp add: core_def settled_def)+

lemma SubtractCx_chunk:
  assumes "1 \<le> k" "k \<le> unat (count_of rde c)"
  shows "triple (counting I c) (SubtractCx rde disp uimm0 (word_of_nat k))
    (\<lambda>cx m. \<exists>c'. counting I c' m \<and> (cx = count_of rde c' \<and> unat cx < unat (count_of rde c)))"
proof -
  have "unat (word_of_nat k :: u64) = k"
    using le_less_trans [OF assms(2) unsigned_less] by (simp add: unsigned_of_nat take_bit_nat_eq_self)
  then show ?thesis
    using assms by (intro triple_weaken [OF SubtractCx_count]) auto
qed

lemma chunk_loop:
  assumes "1 \<le> k" "k \<le> unat (count_of rde c)" "unat (count_of rde c) \<le> Suc n"
    and body: "\<And>c'. unat (count_of rde c') \<le> n \<Longrightarrow> count_of rde c' \<noteq> 0 \<Longrightarrow> triple (counting I c') (g (count_of rde c')) (\<lambda>_. I)"
  shows "triple (counting I c) (seq (SubtractCx rde disp uimm0 (word_of_nat k)) (\<lambda>cx. if cx \<noteq> 0 then g cx else ret ())) (\<lambda>_. I)"
proof (rule triple_seq [OF SubtractCx_chunk [OF assms(1,2)]])
  fix cx
  show "triple (\<lambda>m. \<exists>c'. counting I c' m \<and> (cx = count_of rde c' \<and> unat cx < unat (count_of rde c)))
    (if cx \<noteq> 0 then g cx else ret ()) (\<lambda>_. I)"
    using assms(3) by (intro triple_ex triple_if counting_safe) (auto intro!: body)
qed

lemma segment_room: "unat (x :: u16) < 65536"
  using unsigned_less [of x, where ?'a = nat] by simp

lemma room: "1 \<le> 4096 - page_offset v" "1 \<le> 65536 - unat (x :: u16)" "1 \<le> page_offset v + 1" "1 \<le> unat x + 1"
  using page_offset_less [of v] segment_room [of x] by linarith+

lemmas chunk_bounds = room min.boundedI min.cobounded1



lemma skip_safe:
  "safe (counting I c) f \<Longrightarrow> (\<And>a. triple (counting I c) (g a) (\<lambda>_. I)) \<Longrightarrow> triple (counting I c) (seq f g) (\<lambda>_. I)"
  unfolding safe_def by (rule triple_seq)

lemma stosb_loop_ends:
  assumes "unat (count_of rde c) \<le> n" "count_of rde c \<noteq> 0"
  shows "triple (counting I c) (stosb_loop n rde disp uimm0 diactual (count_of rde c)) (\<lambda>_. I)"
  using assms
proof (induction n arbitrary: c diactual)
  case (Suc n)
  have pos: "1 \<le> unat (count_of rde c)" using Suc.prems(2) by (simp add: Suc_le_eq unat_gt_0)
  show ?case
    unfolding stosb_loop.simps Let_def
    by (intro chunk_loop [OF _ _ Suc.prems(1)] skip_safe Suc.IH safe_intros chunk_bounds pos)
      simp_all
qed (simp add: unat_eq_zero)

lemma movsb_loop_ends:
  assumes "unat (count_of rde c) \<le> n" "count_of rde c \<noteq> 0"
  shows "triple (counting I c) (movsb_loop n rde disp uimm0 diactual siactual (count_of rde c)) (\<lambda>_. I)"
  using assms
proof (induction n arbitrary: c diactual siactual)
  case (Suc n)
  have pos: "1 \<le> unat (count_of rde c)" using Suc.prems(2) by (simp add: Suc_le_eq unat_gt_0)
  show ?case
    unfolding movsb_loop.simps Let_def if_distrib [where f = "\<lambda>f. seq f g" for g] seq_assoc seq_ret
    by (intro chunk_loop [OF _ _ Suc.prems(1)] skip_safe triple_prod triple_if Suc.IH safe_intros chunk_bounds pos)
      simp_all
qed (simp add: unat_eq_zero)

lemma safe_with_count: "(\<And>c. triple (counting I c) (g (count_of rde c)) (\<lambda>_. I)) \<Longrightarrow> safe I (seq (ReadCx rde disp uimm0) g)"
  by (rule safe_counting, rule triple_seq [OF ReadCx_count])
    (auto intro!: triple_fixed [where P = "\<lambda>m. counting I _ m \<and> _"] simp: triple_def)

lemma spy_skips: "safe (counting I c) (spy_range SetWriteAddr v x)" "safe (counting I c) (spy_range SetReadAddr v x)"
  unfolding spy_range_def by (intro safe_intros)+

lemma safe_enhanced [safe_intros]: "safe I (RepMovsbEnhanced rde disp uimm0)" "safe I (RepStosbEnhanced rde disp uimm0)"
  unfolding RepMovsbEnhanced_def RepStosbEnhanced_def
  by (intro safe_with_count triple_if counting_safe skip_safe movsb_loop_ends stosb_loop_ends spy_skips safe_intros; simp)+

lemma safe_strings [safe_intros]:
  "safe I (OpMovs rde disp uimm0)" "safe I (OpCmps rde disp uimm0)" "safe I (OpStos rde disp uimm0)"
  "safe I (OpLods rde disp uimm0)" "safe I (OpScas rde disp uimm0)" "safe I (OpIns rde disp uimm0)"
  "safe I (OpOuts rde disp uimm0)" "safe I (OpMovsb rde disp uimm0)" "safe I (OpStosb rde disp uimm0)"
  unfolding OpMovs_def OpCmps_def OpStos_def OpLods_def OpScas_def OpIns_def OpOuts_def OpMovsb_def OpStosb_def
  by (intro safe_intros)+

end

end
