(* ===== verification/Running.thy ===== *)
theory Running
  imports Repeat
begin

text \<open>
  Fetching and dispatching end; the interpretation of the contracts on the machine.
\<close>

declare seq.simps [simp del]

section \<open>Fetching an instruction\<close>

context cpu_stable begin

lemma safe_last_handlers [safe_intros]:
  "safe I (Swapgs rde disp uimm0)" "safe I (Op101 rde disp uimm0)" "safe I (OpFwait rde disp uimm0)"
  unfolding Op101_def Swapgs_def OpFwait_def by (intro safe_intros)+

lemma safe_fetch_parts [safe_intros]:
  "safe I (IsOpcodeEqual x s)" "safe I (ReadInstruction s n)" "safe I (text_at a)" "safe I ResetInstructionCache"
  unfolding IsOpcodeEqual_def ReadInstruction_def text_at_def ResetInstructionCache_def Let_def
  by (intro safe_intros modify_core; simp add: core_def settled_def cache_instruction_def)+

lemma safe_LoadInstructionSlow [safe_intros]: "safe I (LoadInstructionSlow ip)"
  unfolding LoadInstructionSlow_def by (intro safe_intros)

lemma safe_LoadInstruction [safe_intros]: "safe I (LoadInstruction pc)"
  unfolding LoadInstruction_def LoadInstruction2_def Let_def
  by (intro safe_intros modify_core) (simp_all add: core_def settled_def)

section \<open>The opcode table\<close>

definition entry_ends :: "nexgen32e_f option \<Rightarrow> bool" where
  "entry_ends e \<longleftrightarrow> (\<forall>f rde disp uimm0. e = Some f \<longrightarrow> safe I (f rde disp uimm0))"

lemma entry_endsI: "(\<And>rde disp uimm0. safe I (f rde disp uimm0)) \<Longrightarrow> entry_ends (Some f)" "entry_ends None"
  by (simp_all add: entry_ends_def)

lemma table_ends: "list_all entry_ends kNexgen32e"
  unfolding kNexgen32e_def by (intro safe_all entry_endsI safe_intros)

lemma safe_GetOp:
  assumes "\<And>rde disp uimm0. safe I (other op rde disp uimm0)"
  shows "safe I (GetOp other op rde disp uimm0)"
proof (cases "op < length kNexgen32e")
  case True
  then have "entry_ends (kNexgen32e ! op)" using table_ends by (simp only: list_all_length)
  then show ?thesis
    using True assms by (auto simp: GetOp_def entry_ends_def split: option.split)
next
  case False
  then show ?thesis unfolding GetOp_def by (simp only: if_False) (auto intro!: safe_intros)
qed

lemma safe_ExecuteInstruction:
  assumes "\<And>op rde disp uimm0. safe I (other op rde disp uimm0)"
  shows "safe I (ExecuteInstruction other)"
  unfolding ExecuteInstruction_def JitlessDispatch_def Let_def
  by (intro safe_intros safe_GetOp modify_core assms) (simp_all add: core_def settled_def)

lemma safe_Actor:
  assumes "\<And>op rde disp uimm0. safe I (other op rde disp uimm0)"
  shows "safe I (Actor other n)"
  by (induction n) (simp_all add: safe_ret safe_seq safe_ExecuteInstruction [OF assms])

end

declare seq.simps [simp del]

section \<open>The machine keeps its contract\<close>

text \<open>
  A machine whose page pool is sound and that is not in a system call; \<open>k\<close> is what neither translation nor a handler may change.
\<close>

definition steady :: "Machine \<Rightarrow> Machine \<Rightarrow> bool" where
  "steady k = live (\<lambda>x. core (forget x) = k)"

definition fixed_state :: "Machine \<Rightarrow> Machine" where
  "fixed_state m = core (forget (outside m))"

lemma steady_fixed: "steady k m \<longleftrightarrow> pool_ok m \<and> \<not> m_insyscall m \<and> fixed_state m = k"
  by (simp add: steady_def live_def fixed_state_def)

lemma steady_core:
  assumes "core m' = core m"
  shows "steady k m' = steady k m"
proof -
  have eq: "f m' = f m" if "\<And>m. f (core m) = f m" for f :: "Machine \<Rightarrow> 'a"
    by (metis assms that)
  have "pool_ok m' = pool_ok m" "m_insyscall m' = m_insyscall m"
    by (rule eq; simp add: pool_ok_def core_def settled_def)+
  moreover have "fixed_state m' = fixed_state m"
    by (rule eq) (simp add: fixed_state_def outside_def forget_def core_def settled_def)
  ultimately show ?thesis by (simp only: steady_fixed)
qed

interpretation cpu: cpu_stable "steady k" for k
proof unfold_locales
  fix B page
  have "live (\<lambda>x. core (forget x) = k \<and> B (m_beg (forget x))) = (\<lambda>m. steady k m \<and> B (m_beg m))"
    by (auto simp: fun_eq_iff steady_def live_def outside_def forget_def)
  from safe_FindPageTableEntry [where Z = "\<lambda>x. core x = k \<and> B (m_beg x)", unfolded this]
  show "safe (\<lambda>m. steady k m \<and> B (m_beg m)) (FindPageTableEntry page)" .
next
  show "steady k m \<Longrightarrow> core m' = core m \<Longrightarrow> steady k m'" for m m'
    using steady_core [of m' m k] by simp
qed

definition well_behaved :: "(nat \<Rightarrow> nexgen32e_f) \<Rightarrow> bool" where
  "well_behaved other \<longleftrightarrow> (\<forall>op rde disp uimm0 k. safe (steady k) (other op rde disp uimm0))"

lemma Actor_steady:
  assumes "well_behaved other" "pool_ok m" "\<not> m_insyscall m"
  shows "case Actor other n m of
     (Return _, m') \<Rightarrow> pool_ok m' \<and> \<not> m_insyscall m' \<and> fixed_state m' = fixed_state m
   | (Diverge, _) \<Rightarrow> False
   | _ \<Rightarrow> True"
proof -
  have "safe (steady k) (Actor other n)" for k
    using assms(1) by (intro cpu.safe_Actor) (simp add: well_behaved_def)
  from this [of "fixed_state m"] show ?thesis
    using assms(2,3) by (simp add: safe_def triple_def steady_fixed [abs_def])
qed

lemma well_behaved_OpUd: "well_behaved (\<lambda>_. OpUd)"
  unfolding well_behaved_def by (intro allI cpu.safe_OpUd)

lemma fixed_state_fields:
  assumes "fixed_state m' = fixed_state m"
  shows "m_omode m' = m_omode m \<and> m_genmode m' = m_genmode m \<and> m_seg_sel m' = m_seg_sel m \<and> m_metal m' = m_metal m \<and>
    s_cr0 m' = s_cr0 m \<and> s_cr3 m' = s_cr3 m \<and> s_real m' = s_real m \<and>
    s_gdt_base m' = s_gdt_base m \<and> s_gdt_limit m' = s_gdt_limit m \<and>
    m_traprdtsc m' = m_traprdtsc m \<and> m_trapcpuid m' = m_trapcpuid m \<and> m_sysdepth m' = m_sysdepth m"
proof -
  have eq: "f m' = f m" if "\<And>m. f (fixed_state m) = f m" for f :: "Machine \<Rightarrow> 'a"
    by (metis assms that)
  show ?thesis
    by (intro conjI; rule eq; simp add: fixed_state_def core_def settled_def outside_def forget_def)
qed

section \<open>Running instructions\<close>

text \<open>A machine for the examples: everything zero, and a page pool of one page.\<close>

definition idle :: Machine where
  "idle = \<lparr>m_ip = 0, m_oplen = 0, m_omode = 2, m_genmode = 0, m_flags = 0, m_stashaddr = 0, m_beg = \<lambda>_. 0, m_xmm = \<lambda>_. 0,
     m_readaddr = 0, m_writeaddr = 0, m_readsize = 0, m_writesize = 0, m_seg_sel = \<lambda>_. 0, m_seg_base = \<lambda>_. 0, m_mxcsr = 0,
     m_freelist = [], m_pagelocks = [], m_faultaddr = 0, m_sysdepth = 0, m_invalidated = False, m_reserving = False, m_insyscall = False,
     m_nofault = False, m_metal = False, m_traprdtsc = False, m_trapcpuid = False, m_trapno = 0, m_segvcode = 0,
     m_tlb = \<lambda>_. (0, 0), m_stash = \<lambda>_. 0, m_codevirt = 0, m_codehost = 0, m_stashsize = 0, m_writable = False,
     m_local = \<lambda>_. 0, m_icache = \<lambda>_. blank, m_xedd = 0, m_opinvalidated = False, m_bofram = (0, 0),
     m_signals = 0, m_sigmask = 0, m_sigdepth = 0, m_attention = False, m_killed = False, m_restored = False,
     m_interrupted = False, m_issigsuspend = False, m_sigaltstack = \<lambda>_. 0, m_robust_list = 0, m_ctid = 0, m_tid = 0,
     m_vfork_exec_pending = False, m_vfork_child_pid = 0, m_vfork_saved_ip = 0, m_vfork_saved_regs = \<lambda>_. 0,
     f_st = \<lambda>_. 0, f_sw = 0, f_tw = 0, f_op = 0, f_ip = 0, f_cw = 0, f_dp = 0, s_real = 0, s_gdt_base = 0, s_gdt_limit = 0,
     s_cr0 = 0, s_cr3 = 0, s_rss = 0, s_vss = 0, s_tables = 0, s_reserved = 0, s_committed = 0,
     s_memchurn = 0, s_filemaps = [], s_fds = [], s_brk = 0, s_automap = 0, s_brkchanged = False, s_iscosmo = False,
     s_hands = \<lambda>_. \<lparr>sa_handler = 0, sa_flags = 0, sa_restorer = 0, sa_mask = 0\<rparr>, s_rlim = \<lambda>_. (0, 0), s_pid = 0, s_blinksigs = 0,
     g_hostpages_n = 0, g_hostpages_p = \<lambda>_. 0,
     g_allocator_pages = [], g_pagepool_base = 4096, g_pagepool_capacity = 4096, g_pagepool_next_page = 0,
     g_crc32c = (False, []), g_rdrand_state = 0, g_rdrand_count = 0, g_errno = EOK, g_nextPidCounter = 1, h_allocs = [], h_reads = [], h_rcs = [], h_clock = [], h_random = [],
     h_ram = \<lambda>_. 0\<rparr>"

lemma idle_ok: "pool_ok idle" "\<not> m_insyscall idle"
  by (simp_all add: pool_ok_def idle_def)





end
