(* ===== verification/Translation.thy ===== *)
theory Translation
  imports Running
begin

text \<open>
  The cache of translations and the page pool: what finding, allocating and growing promise.
\<close>

section \<open>The cache of translations\<close>




text \<open>A machine with page tables for the page at 0, in the real memory from 4096 on.\<close>

definition paged :: Machine where
  "paged = idle\<lparr>s_real := 4096, s_cr3 := 0x1000,
     h_ram := (\<lambda>_. 0)(0x2000 := 1, 0x2001 := 0x20, 0x3000 := 1, 0x3001 := 0x30, 0x4000 := 1, 0x4001 := 0x40,
                     0x5000 := 7, 0x5001 := 0x50)\<rparr>"

lemma paged_walk:
  "FindPageTableEntry 0 paged = (Return 0x5007, paged\<lparr>m_tlb := (\<lambda>_. (0, 0))(0 := (0, 0x5007))\<rparr>)"
  by (simp add: FindPageTableEntry_def walk_levels.simps GetPageAddress_def LoadPte_def LockPage_def rd_def Get64_def
      seq.simps gets_def modify_def unassert_def ret_def Let_def paged_def idle_def)


section \<open>The page pool\<close>



text \<open>C27: Growing the pool keeps the pages: when the host gives memory that does not overlap the old pool, every page
  of the table of host pages that was handed out from the pool moves into the new one, and its bytes with it.\<close>

theorem grow_keeps_pages:
  assumes "h_allocs m = a # as" "a \<noteq> 0"
    and "a + n * 4096 \<le> g_pagepool_base m \<or> g_pagepool_base m + g_pagepool_capacity m \<le> a"
    and "g_pagepool_next_page m * 4096 \<le> g_pagepool_capacity m" "g_pagepool_next_page m \<le> n"
    and "i < g_hostpages_n m" "p = g_hostpages_p m i"
    and "g_pagepool_base m \<le> p" "p + 4096 \<le> g_pagepool_base m + g_pagepool_next_page m * 4096" "k < 4096"
  shows "case GrowPagePool n m of
     (Return _, m') \<Rightarrow>
       g_pagepool_base m' = a \<and> g_pagepool_capacity m' = n * 4096 \<and>
       a \<le> g_hostpages_p m' i \<and> g_hostpages_p m' i + 4096 \<le> a + n * 4096 \<and>
       h_ram m' (g_hostpages_p m' i + k) = h_ram m (p + k)
   | _ \<Rightarrow> False"
proof -
  let ?b = "g_pagepool_base m" and ?c = "g_pagepool_capacity m"
  obtain q where q: "p = ?b + q" "g_hostpages_p m i = ?b + q" using assms(7,8) le_Suc_ex by metis
  have "q + 4096 \<le> g_pagepool_next_page m * 4096" "g_pagepool_next_page m * 4096 \<le> n * 4096" using assms q by simp_all
  then have bounds: "q < ?c" "q + 4096 \<le> n * 4096" "q + k < g_pagepool_next_page m * 4096"
    using assms(4,10) by linarith+
  have disjoint: "\<not> (a \<le> ?b + (q + k) \<and> ?b + (q + k) < a + n * 4096)" using bounds assms(3,4) by linarith
  show ?thesis
    using assms(1,2,6) bounds disjoint q
    by (auto simp: GrowPagePool_def Let_def aligned_alloc_def fill_bytes_def copy_bytes_def exec_simps seq.simps move_into_def
        add.assoc)
qed

theorem grow_keeps_pages_witness:
  "case GrowPagePool 2 (idle\<lparr>h_allocs := [0x100000], g_pagepool_next_page := 1, g_hostpages_n := 1,
       g_hostpages_p := \<lambda>_. 4096, h_ram := (\<lambda>_. 0)(4104 := 7)\<rparr>) of
     (Return _, m') \<Rightarrow> 0x100000 \<le> g_hostpages_p m' 0 \<and> h_ram m' (g_hostpages_p m' 0 + 8) = 7
   | _ \<Rightarrow> False"
  using grow_keeps_pages [of "idle\<lparr>h_allocs := [0x100000], g_pagepool_next_page := 1, g_hostpages_n := 1,
       g_hostpages_p := \<lambda>_. 4096, h_ram := (\<lambda>_. 0)(4104 := 7)\<rparr>" "0x100000" "[]" 2 0 4096 8]
  by (auto simp: idle_def split: prod.splits outcome.splits)

end
