(* ===== verification/StackSpec.thy ===== *)
theory StackSpec
  imports Translation
begin

text \<open>
  What a push and a pop, a call and a return do together.
\<close>

section \<open>A page in the cache of translations\<close>

text \<open>Outside of the metal machine, the page of an address is in the cache, is a user page, and lies at \<open>h\<close> in the host.\<close>

definition user_page :: "u64 \<Rightarrow> nat \<Rightarrow> Machine \<Rightarrow> bool" where
  "user_page v h m \<longleftrightarrow> \<not> m_metal m \<and> \<not> m_invalidated m \<and>
     (case m_tlb m (unat (shr v 12 AND 31)) of (page, e) \<Rightarrow>
        page = v AND - 4096 \<and> e AND PAGE_V \<noteq> 0 \<and> e AND PAGE_U = PAGE_U \<and> fst (GetPageAddress e False m) = Return h \<and> h \<noteq> 0)"

lemma seq_return: "f m = (Return a, m') \<Longrightarrow> seq f g m = g a m'"
  by (simp add: seq.simps)

lemma tlb_key [simp]: "(x AND 4503599627370495) AND 31 = (x AND 31 :: u64)"
  by (simp add: and.assoc)

lemma GetPageAddress_pure: "snd (GetPageAddress e c m) = m"
  by (simp add: GetPageAddress_def seq.simps gets_def unassert_def ret_def split: if_splits)

lemma LookupAddress_cached:
  assumes "user_page v h m"
  shows "LookupAddress v m = (Return (h + page_offset v), m)"
proof -
  obtain e where e: "m_tlb m (unat (shr v 12 AND 31)) = (v AND - 4096, e)" "e AND PAGE_V \<noteq> 0" "e AND PAGE_U = PAGE_U"
      "GetPageAddress e False m = (Return h, m)" "h \<noteq> 0"
    using assms GetPageAddress_pure [of _ False m]
    by (auto simp: user_page_def prod_eq_iff split: prod.splits)
  have "FindPageTableEntry (v AND - 4096) m = (Return e, m)"
    using assms e by (simp add: FindPageTableEntry_def seq_modify seq_gets tlb_key Let_def ret_def user_page_def)
  then show ?thesis
    using assms e
    by (cases "e = 0") (simp_all add: LookupAddress_def LookupAddress2_def seq_gets seq_return user_page_def Cpl_def ret_def)
qed

lemma GetPageAddress_frame:
  "fst (GetPageAddress e c (m\<lparr>m_beg := b\<rparr>)) = fst (GetPageAddress e c m)"
  "fst (GetPageAddress e c (m\<lparr>h_ram := r\<rparr>)) = fst (GetPageAddress e c m)"
  "fst (GetPageAddress e c (m\<lparr>m_ip := i\<rparr>)) = fst (GetPageAddress e c m)"
  by (simp_all add: GetPageAddress_def seq.simps gets_def unassert_def ret_def FindHostPage_def)

lemma user_page_frame [simp]:
  "user_page v h (m\<lparr>m_beg := b\<rparr>) = user_page v h m" "user_page v h (m\<lparr>h_ram := r\<rparr>) = user_page v h m"
  "user_page v h (m\<lparr>m_ip := i\<rparr>) = user_page v h m"
  by (simp_all add: user_page_def GetPageAddress_frame)

lemma AccessRam_cached:
  assumes "user_page v h m" "page_offset v + n \<le> 4096"
  shows "AccessRam v n p d m = (Return (Host (h + page_offset v), 0, 0), m)"
proof -
  have "h + page_offset v \<noteq> 0" using assms(1) by (auto simp: user_page_def)
  then show ?thesis
    using LookupAddress_cached [OF assms(1)] assms
    by (simp add: AccessRam_def AccessRam2_def ResolveAddress_def GetAddress_def seq_return seq_gets seq_unassert seq_assoc
        ret_def IsRomAddress_def user_page_def)
qed

section \<open>Push and pop\<close>

definition put_stack :: "nat \<Rightarrow> nat \<Rightarrow> u64 \<Rightarrow> ram \<Rightarrow> ram" where
  "put_stack n a x = (if n = 8 then Put64 a x else Put16 a (ucast x))"

lemma stack_osz_long: "Mode rde = XED_MODE_LONG \<Longrightarrow> stack_osz rde = (if Osz rde = 0 then 8 else 2)"
proof -
  have "Osz rde < 2" using field_less [of 5 1 rde] by (simp add: rde_field del: field_less)
  then show "Mode rde = XED_MODE_LONG \<Longrightarrow> stack_osz rde = (if Osz rde = 0 then 8 else 2)"
    by (auto simp: stack_osz_def kStackOsz_def less_2_cases_iff)
qed

lemma PushN_cached:
  assumes "n = 8 \<or> n = 2" "v = Get64 (m_beg m) 32 - word_of_nat n"
    and "user_page v h m" "page_offset v + n \<le> 4096"
  shows "PushN rde disp uimm0 x XED_MODE_LONG n m =
    (Return (), m\<lparr>m_beg := Put64 32 v (m_beg m), h_ram := put_stack n (h + page_offset v) x (h_ram m)\<rparr>)"
  using AccessRam_cached [of v h "m\<lparr>m_beg := Put64 32 v (m_beg m)\<rparr>" n] assms
  by (auto simp: PushN_def rd_def wr_def seq_gets seq_modify seq_assoc seq_return WriteStackWord_def EndStore_def
      put_stack_def unassert_def ret_def Let_def)

lemma PopN_cached:
  assumes "n = 8 \<or> n = 2" "v = Get64 (m_beg m) 32" "Mode rde = XED_MODE_LONG"
    and "user_page v h m" "page_offset v + n \<le> 4096"
  shows "PopN rde disp uimm0 e n m =
    (Return (if n = 8 then Get64 (h_ram m) (h + page_offset v) else ucast (Get16 (h_ram m) (h + page_offset v))),
     m\<lparr>m_beg := Put64 32 (v + word_of_nat n + ucast e) (m_beg m)\<rparr>)"
  using AccessRam_cached [of v h "m\<lparr>m_beg := Put64 32 (v + word_of_nat n + ucast e) (m_beg m)\<rparr>" n] assms
  by (auto simp: PopN_def rd_def wr_def seq_gets seq_modify seq_assoc seq_return ReadStackWord_def
      seq_unassert ret_def gets_def Let_def)

lemma Put64_twice: "Put64 p y (Put64 p x s) = Put64 p y s"
proof
  fix a show "Put64 p y (Put64 p x s) a = Put64 p y s a"
  proof (cases "p \<le> a \<and> a < p + 8")
    case True
    then obtain j where "a = p + j" "j < 8" by (metis add.commute add_less_cancel_left le_Suc_ex)
    then show ?thesis by (simp add: Put_byte)
  next
    case False
    then show ?thesis by (auto simp: Put_frame)
  qed
qed

lemma stack_restored: "Put64 p (Get64 s p) (Put64 p x s) = s"
  by (simp add: Put64_twice Put_Get)


text \<open>A machine whose stack pointer is 0x1008, with the page below in the cache of translations.\<close>

definition stacked :: Machine where
  "stacked = paged\<lparr>m_beg := Put64 32 0x1008 (\<lambda>_. 0), m_tlb := (\<lambda>_. (0, 0))(1 := (0x1000, 0x5007)), m_ip := 0x400003\<rparr>"


end
