(* ===== verification/FetchSpec.thy ===== *)
theory FetchSpec
  imports StackSpec X86Spec
begin

text \<open>
  The caches of code and of decoded instructions do not change what an instruction does.
\<close>

declare seq.simps [simp del]

section \<open>Comparing an instruction with the cache\<close>

lemma Get64_differs: "bit (Get64 a 0 XOR Get64 b 0) k \<longleftrightarrow> k < 64 \<and> (bit (a (k div 8)) (k mod 8) \<noteq> bit (b (k div 8)) (k mod 8))"
  by (auto simp: bit_xor_iff bit_Get64)

lemma first_difference:
  assumes "n \<le> 8"
  shows "(let w = Get64 a 0 XOR Get64 b 0 in w = 0 \<or> n \<le> unat (shr (bsf w) 3)) \<longleftrightarrow> (\<forall>i<n. a i = (b i :: u8))"
proof -
  let ?w = "Get64 a 0 XOR Get64 b 0" and ?k = "unat (bsf (Get64 a 0 XOR Get64 b 0))"
  have same: "a i = b i" if "\<And>k. k div 8 = i \<Longrightarrow> \<not> bit ?w k" "i < 8" for i
  proof (rule bit_word_eqI)
    fix j assume "j < LENGTH(8)"
    then show "bit (a i) j = bit (b i) j" using that(1) [of "8 * i + j"] that(2) by (simp add: Get64_differs)
  qed
  show ?thesis
  proof (cases "?w = 0")
    case True
    have "a i = b i" if "i < n" for i by (rule same) (use True that assms in simp_all)
    then show ?thesis using True by simp
  next
    case False
    note k = bsf_bits [OF False]
    have pos: "unat (shr (bsf ?w) 3) = ?k div 8" by (simp only: unat_drop_bit_eq) (simp add: drop_bit_eq_div)
    have "n \<le> ?k div 8" if eq: "\<And>i. i < n \<Longrightarrow> a i = b i"
    proof (rule ccontr)
      assume "\<not> n \<le> ?k div 8"
      then have "a (?k div 8) = b (?k div 8)" using eq by simp
      then show False using k by (simp add: Get64_differs)
    qed
    moreover have "a i = b i" if "n \<le> ?k div 8" "i < n" for i
    proof (rule same)
      fix j assume "j div 8 = i"
      then have "j < ?k" using that by linarith
      then show "\<not> bit ?w j" using k by blast
    qed (use that assms in simp)
    ultimately show ?thesis using False pos by (auto simp: Let_def)
  qed
qed

lemma IsOpcodeEqual_runs:
  assumes "xlength x \<le> 15"
  shows "IsOpcodeEqual x a m = (Return (xlength x \<noteq> 0 \<and> (\<forall>i<xlength x. a i = xbytes x i)), m)"
  using first_difference [of "xlength x" a "xbytes x"] assms
  by (auto simp: IsOpcodeEqual_def Let_def seq_unassert ret_def list_all_iff)

section \<open>What a text decodes to\<close>

definition fetched :: "nat \<Rightarrow> ram \<Rightarrow> (u64 \<times> u64 \<times> u64) option" where
  "fetched mode text =
     (case DecodeInstruction blank text 15 mode of
        Some (XED_ERROR_NONE, z) \<Rightarrow> Some (op_rde z, op_disp z, op_uimm0 z)
      | _ \<Rightarrow> None)"

lemma decode_bytes:
  assumes "DecodeInstruction x text n mode = Some (e, z)" "e = XED_ERROR_NONE"
  shows "mode \<le> 2 \<and> xlength z \<noteq> 0 \<and> xlength z \<le> min n 15 \<and> (\<forall>i<min n 15. xbytes z i = text i) \<and>
    (\<forall>s y k. (\<forall>i<xlength z. s i = text i) \<longrightarrow> xlength z \<le> k \<longrightarrow>
       map_option (apsnd xed_observe) (DecodeInstruction y s k mode) = Some (XED_ERROR_NONE, xed_observe z))"
proof -
  define b where b: "b = (\<lambda>i. if i < min n 15 then text i else xbytes x i)"
  let ?f = "fresh b (min n 15) mode"
  have mode: "mode \<le> 2" using assms(1) by (simp add: decode_fresh split: if_splits)
  obtain s where s: "stages ?f = (XED_ERROR_NONE, s)" and z: "z = xed_finish (fst s)"
    using assms mode unfolding decode_fresh b [symmetric] by (auto simp: split_beta prod_eq_iff)
  have len: "xlength z \<le> min n 15" "xlength z \<noteq> 0"
    using fresh_agree(2) [OF agree_refl, of b "min n 15" mode] success_positive [OF s] s by (simp_all add: z)
  have "s = rebase_state (min n 15) b s"
    using fresh_agree(1) [OF agree_refl, of b "min n 15" mode] unfolding s by simp
  then have "xbytes (fst s) = xbytes (rebase (min n 15) b (fst s))"
    by (simp only: flip: fst_rebase_state)
  then have "xbytes (fst s) = b"
    by (simp only: rebase_simps)
  then have bytes: "xbytes z = b" by (simp add: z xed_finish_def Let_def)
  have cut: "map_option (apsnd xed_observe) (DecodeInstruction y t k mode) = Some (XED_ERROR_NONE, xed_observe z)"
    if "\<forall>i<xlength z. t i = text i" "xlength z \<le> k" for t y k
  proof -
    let ?c = "\<lambda>i. if i < min k 15 then t i else xbytes y i"
    have "agree (min (min k 15) (xlength (fst s))) ?c b" using that len by (auto simp: agree_def b z)
    from fresh_cut [OF s this] show ?thesis
      unfolding decode_fresh using that len mode
      by (simp add: split_beta observe_finish fst_rebase_state z)
  qed
  show ?thesis using mode len bytes cut by (auto simp: b)
qed

section \<open>The cache of instructions\<close>

text \<open>
  An entry that is not empty holds the decoding, in the given mode, of every text that begins with its bytes.
\<close>

definition entry_ok :: "nat \<Rightarrow> XedDecodedInst \<Rightarrow> bool" where
  "entry_ok mode x \<longleftrightarrow> xlength x \<le> 15 \<and>
     (xlength x \<noteq> 0 \<longrightarrow> (\<forall>s. (\<forall>i<xlength x. s i = xbytes x i) \<longrightarrow>
        fetched mode s = Some (op_rde x, op_disp x, op_uimm0 x)))"

definition cache_ok :: "Machine \<Rightarrow> bool" where
  "cache_ok m \<longleftrightarrow> (\<forall>k. entry_ok (m_omode m) (m_icache m k))"

lemma blank_entry: "entry_ok mode blank"
  by (simp add: entry_ok_def blank_def)

lemma new_entry:
  assumes "DecodeInstruction blank t 15 mode = Some (XED_ERROR_NONE, z)"
  shows "entry_ok mode (y\<lparr>xlength := xlength z, xbytes := xbytes z, op_rde := op_rde z, op_uimm0 := op_uimm0 z, op_disp := op_disp z\<rparr>)"
proof -
  note z = decode_bytes [OF assms refl]
  have "fetched mode s = Some (op_rde z, op_disp z, op_uimm0 z)" if "\<forall>i<xlength z. s i = xbytes z i" for s
  proof -
    have "map_option (apsnd xed_observe) (DecodeInstruction blank s 15 mode) = Some (XED_ERROR_NONE, xed_observe z)"
      using z that by simp
    then show ?thesis by (auto simp: fetched_def xed_observe_def)
  qed
  then show ?thesis using z by (simp add: entry_ok_def)
qed

lemma cache_ok_cached:
  assumes "cache_ok m" "DecodeInstruction blank t 15 (m_omode m) = Some (XED_ERROR_NONE, z)"
  shows "cache_ok (cache_instruction z m)"
  using assms(1) new_entry [OF assms(2)] by (simp add: cache_ok_def cache_instruction_def)

text \<open>What follows the fetch of an instruction.\<close>

definition complete :: "(nat \<Rightarrow> nexgen32e_f) \<Rightarrow> nexgen32e_f" where
  "complete other rde disp uimm0 =
     thn (modify (\<lambda>m. m\<lparr>m_oplen := Oplength rde, m_ip := m_ip m + word_of_nat (Oplength rde)\<rparr>))
     (thn (GetOp other (Mopcode rde) rde disp uimm0)
     (thn (seq (gets m_stashaddr) (\<lambda>a. if a \<noteq> 0 then CommitStash else ret ()))
     (modify (m_oplen_update (\<lambda>_. 0)))))"

lemma ReadInstruction_runs:
  assumes "m_omode m \<le> 2"
  shows "ReadInstruction t 15 m = (case DecodeInstruction blank t 15 (m_omode m) of
     Some (XED_ERROR_NONE, z) \<Rightarrow> (Return 0, cache_instruction z m) | _ \<Rightarrow> (Return kMachineDecodeError, m))"
proof -
  have "DecodeInstruction blank t 15 (m_omode m) \<noteq> None" using assms by (simp add: decode_fresh split_beta)
  then show ?thesis
    by (auto simp: ReadInstruction_def seq_gets seq_modify ret_def split: option.split xed_error.split)
qed

lemma LoadInstruction2_hit:
  assumes ok: "cache_ok m" and mode: "m_omode m \<le> 2" and inside: "page_offset pc + 15 \<le> 4096"
    and host: "\<not> m_opinvalidated m" "m_codevirt m = pc - (pc AND 4095)" "m_codehost m \<noteq> 0"
    and code: "text = (\<lambda>i. h_ram m (m_codehost m + page_offset pc + i))"
  shows "\<exists>c. let m1 = m\<lparr>m_xedd := unat (pc AND 511), m_icache := c\<rparr> in cache_ok m1 \<and>
    (case fetched (m_omode m) text of
       Some f \<Rightarrow> LoadInstruction2 pc m = (Return 0, m1) \<and>
         (let x = m_icache m1 (m_xedd m1) in (op_rde x, op_disp x, op_uimm0 x)) = f
     | None \<Rightarrow> LoadInstruction2 pc m = (Return kMachineDecodeError, m1))"
proof -
  define m0 where "m0 = m\<lparr>m_xedd := unat (pc AND 511)\<rparr>"
  let ?x = "m_icache m (unat (pc AND 511))"
  have ok0: "cache_ok m0" "entry_ok (m_omode m) ?x" using ok by (simp_all add: m0_def cache_ok_def)
  let ?hit = "xlength ?x \<noteq> 0 \<and> (\<forall>i<xlength ?x. text i = xbytes ?x i)"
  have run: "LoadInstruction2 pc m = (if ?hit then (Return 0, m0) else ReadInstruction text 15 m0)"
    using inside host ok0(2)
    by (simp add: LoadInstruction2_def seq_gets seq_modify seq_assoc text_at_def m0_def Let_def ret_def
        seq_return [OF IsOpcodeEqual_runs] entry_ok_def code) blast
  show ?thesis
  proof (cases ?hit)
    case True
    then have "fetched (m_omode m) text = Some (op_rde ?x, op_disp ?x, op_uimm0 ?x)"
      using ok0(2) by (simp add: entry_ok_def)
    then show ?thesis
      using run True ok0(1) by (intro exI [of _ "m_icache m"]) (simp add: m0_def Let_def)
  next
    case False
    have m0: "m_omode m0 \<le> 2" "m_omode m0 = m_omode m" using mode by (simp_all add: m0_def)
    show ?thesis
    proof (cases "\<exists>z. DecodeInstruction blank text 15 (m_omode m) = Some (XED_ERROR_NONE, z)")
      case True
      then obtain z where z: "DecodeInstruction blank text 15 (m_omode m) = Some (XED_ERROR_NONE, z)" by blast
      have "LoadInstruction2 pc m = (Return 0, cache_instruction z m0)"
        using run False by (simp only: if_False ReadInstruction_runs [OF m0(1)]) (simp add: z m0)
      moreover have "cache_ok (cache_instruction z m0)" by (rule cache_ok_cached [OF ok0(1), where t = "text"]) (simp add: z m0)
      ultimately show ?thesis
        by (intro exI [of _ "m_icache (cache_instruction z m0)"])
          (simp add: m0_def cache_instruction_def Let_def fetched_def z)
    next
      case none: False
      then have "fetched (m_omode m) text = None"
        by (auto simp: fetched_def split: option.split xed_error.split)
      moreover have "LoadInstruction2 pc m = (Return kMachineDecodeError, m0)"
        using run False none by (simp only: if_False ReadInstruction_runs [OF m0(1)])
          (auto simp: m0 split: option.split xed_error.split)
      ultimately show ?thesis
        using ok0(1) by (intro exI [of _ "m_icache m"]) (simp add: m0_def Let_def)
    qed
  qed
qed


text \<open>A machine whose next instruction is the one-byte \<open>nop\<close> at 0x400000, with its page at 0x6000 in the host.\<close>

definition nopping :: Machine where
  "nopping = idle\<lparr>m_ip := 0x400000, m_codevirt := 0x400000, m_codehost := 0x6000, h_ram := (\<lambda>_. 0)(0x6000 := 0x90)\<rparr>"

lemma nop_text: "fetched 2 (\<lambda>i. if i = 0 then 0x90 else 0) = Some (297395905248624640, 0, 0)"
  by code_simp


end
