(* ===== verification/ExchangeSpec.thy ===== *)
theory ExchangeSpec
  imports StackSpec AluSpec
begin

text \<open>
  What exchanging, adding and comparing registers does.
\<close>

declare seq.simps [simp del]

lemma alu_runs: "seq (alu f x y) g m = (case f (m_flags m) x y of (z, flags) \<Rightarrow> g z (m\<lparr>m_flags := flags\<rparr>))"
  by (simp add: alu_def seq_assoc seq_gets seq_modify split: prod.split)

lemma rd_runs: "seq (rd f p) g m = g (f (region p m) (offset p)) m"
  by (simp add: rd_def seq_gets)

lemma wr_runs: "seq (wr f p x) g m = g () (update_region p (f (offset p) x) m)"
  by (simp add: wr_def seq_modify)

lemma wr_last: "wr f p x m = (Return (), update_region p (f (offset p) x) m)"
  by (simp add: wr_def modify_def)

lemma mod_zero_diff: "0 \<le> a \<Longrightarrow> a < n \<Longrightarrow> 0 \<le> b \<Longrightarrow> b < n \<Longrightarrow> (a - b) mod n = 0 \<longleftrightarrow> a = b" for a b n :: int
  by (metis mod_pos_pos_trivial mod_eq_dvd_iff dvd_eq_mod_eq_0)

lemma ZF_arith:
  assumes "arith_result n f (ux n x - ux n y) S H r"
  shows "GetFlag (snd r) FLAGS_ZF \<longleftrightarrow> ux n x = ux n y"
proof -
  have "GetFlag (snd r) FLAGS_ZF \<longleftrightarrow> fst r = 0" "uint (fst r) = (ux n x - ux n y) mod 2 ^ n"
    using assms unfolding arith_result_def flags_result_def by blast+
  moreover have "fst r = 0 \<longleftrightarrow> uint (fst r) = 0" by (simp add: word_uint_eq_iff)
  ultimately show ?thesis by (simp only: mod_zero_diff ux_def) (simp add: mod_zero_diff)
qed

lemma ux_exact: "ux 8 (ucast (a :: u8)) = uint a" "ux 64 x = uint x"
proof -
  have "to_u8 (to_u64 a) = a" by (rule bit_word_eqI) (auto simp: bit_simps)
  then show "ux 8 (ucast a) = uint a" "ux 64 x = uint x"
    using uint_cast_ux [where 'a = 8, of "ucast a"] uint_cast_ux [where 'a = 64, of x] by simp_all
qed

lemma ZF_sub:
  "GetFlag (snd (Sub8 f (ucast a) (ucast b))) FLAGS_ZF \<longleftrightarrow> a = b"
  "GetFlag (snd (Sub64 f x y)) FLAGS_ZF \<longleftrightarrow> x = y" for a b :: u8
  using ZF_arith [OF Sub_result(1), of f "ucast a" "ucast b"] ZF_arith [OF Sub_result(4), of f x y]
  unfolding ux_exact word_uint_eq_iff [symmetric] by simp_all



end
