(* ===== verification/Dll.thy ===== *)
theory Dll
  imports Blink_Prelude
begin

text \<open>
  The circular doubly linked list (\<open>dll.c\<close>, \<open>dll.h\<close>) of open files, mapped files and machines: the links as a store, every
  operation on the pointers, and the lists they represent.
\<close>

section \<open>The operations\<close>

text \<open>Elements are addresses; zero is the null pointer. A list is the address of its last element, zero when it is empty.\<close>

record links =
  next_of :: "nat \<Rightarrow> nat"
  prev_of :: "nat \<Rightarrow> nat"

definition set_next :: "nat \<Rightarrow> nat \<Rightarrow> links \<Rightarrow> links" where
  "set_next e x s = s\<lparr>next_of := (next_of s)(e := x)\<rparr>"

definition set_prev :: "nat \<Rightarrow> nat \<Rightarrow> links \<Rightarrow> links" where
  "set_prev e x s = s\<lparr>prev_of := (prev_of s)(e := x)\<rparr>"

definition dll_init :: "nat \<Rightarrow> links \<Rightarrow> links" where
  "dll_init e s = set_prev e e (set_next e e s)"

definition dll_is_empty :: "nat \<Rightarrow> bool" where
  "dll_is_empty list = (list = 0)"

definition dll_last :: "nat \<Rightarrow> nat" where
  "dll_last list = list"

definition dll_first :: "nat \<Rightarrow> links \<Rightarrow> nat" where
  "dll_first list s = (if list \<noteq> 0 then next_of s list else 0)"

definition dll_next :: "nat \<Rightarrow> nat \<Rightarrow> links \<Rightarrow> nat" where
  "dll_next list e s = (if e \<noteq> list then next_of s e else 0)"

definition dll_prev :: "nat \<Rightarrow> nat \<Rightarrow> links \<Rightarrow> nat" where
  "dll_prev list e s = (if e \<noteq> next_of s list then prev_of s e else 0)"

definition dll_splice_after :: "nat \<Rightarrow> nat \<Rightarrow> links \<Rightarrow> links" where
  "dll_splice_after elem succ s =
     (let tmp1 = next_of s elem;
          tmp2 = prev_of s succ;
          s = set_next elem succ s;
          s = set_prev succ elem s;
          s = set_next tmp2 tmp1 s
      in set_prev tmp1 tmp2 s)"

definition dll_remove :: "nat \<Rightarrow> nat \<Rightarrow> links \<Rightarrow> nat \<times> links" where
  "dll_remove list elem s =
     (let list = (if list = elem then if prev_of s list = list then 0 else prev_of s list else list);
          s = set_prev (next_of s elem) (prev_of s elem) s;
          s = set_next (prev_of s elem) (next_of s elem) s;
          s = set_next elem elem s
      in (list, set_prev elem elem s))"

definition dll_make_first :: "nat \<Rightarrow> nat \<Rightarrow> links \<Rightarrow> nat \<times> links" where
  "dll_make_first list elem s =
     (if elem \<noteq> 0 then
        if list = 0 then (prev_of s elem, s) else (list, dll_splice_after list elem s)
      else (list, s))"

definition dll_make_last :: "nat \<Rightarrow> nat \<Rightarrow> links \<Rightarrow> nat \<times> links" where
  "dll_make_last list elem s =
     (if elem \<noteq> 0 then (elem, snd (dll_make_first list (next_of s elem) s)) else (list, s))"

section \<open>The lists they represent\<close>

text \<open>From \<open>x\<close> by way of \<open>zs\<close> to \<open>y\<close>, linked both ways; a ring leads back to its start.\<close>

fun path :: "links \<Rightarrow> nat \<Rightarrow> nat list \<Rightarrow> nat \<Rightarrow> bool" where
  "path s x [] y \<longleftrightarrow> next_of s x = y \<and> prev_of s y = x"
| "path s x (z # zs) y \<longleftrightarrow> next_of s x = z \<and> prev_of s z = x \<and> path s z zs y"

fun ring :: "links \<Rightarrow> nat list \<Rightarrow> bool" where
  "ring s [] \<longleftrightarrow> False"
| "ring s (x # xs) \<longleftrightarrow> path s x xs x \<and> distinct (x # xs) \<and> 0 \<notin> set (x # xs)"

definition dll :: "links \<Rightarrow> nat \<Rightarrow> nat list \<Rightarrow> bool" where
  "dll s list xs \<longleftrightarrow> (if xs = [] then list = 0 else list = last xs \<and> ring s xs)"

lemma path_append [simp]: "path s x (as @ z # bs) y \<longleftrightarrow> path s x as z \<and> path s z bs y"
  by (induction as arbitrary: x) auto

lemma path_ends: "path s x zs y \<Longrightarrow> prev_of s y = last (x # zs) \<and> next_of s (last (x # zs)) = y"
  by (induction zs arbitrary: x) (auto split: if_splits)

lemma ring_rotate: "as \<noteq> [] \<Longrightarrow> bs \<noteq> [] \<Longrightarrow> ring s (as @ bs) = ring s (bs @ as)"
  by (cases as; cases bs) auto

lemma ring_ends: "ring s xs \<Longrightarrow> prev_of s (hd xs) = last xs \<and> next_of s (last xs) = hd xs"
  by (cases xs) (use path_ends in fastforce)+

lemma ring_basic: "ring s xs \<Longrightarrow> distinct xs \<and> 0 \<notin> set xs \<and> last xs \<in> set xs"
  by (cases xs) auto

lemma path_frame:
  assumes "path s x zs y" "\<And>a. a \<in> set (x # zs) \<Longrightarrow> next_of s' a = next_of s a"
    "\<And>a. a \<in> set (zs @ [y]) \<Longrightarrow> prev_of s' a = prev_of s a"
  shows "path s' x zs y"
  using assms by (induction zs arbitrary: x) auto

lemma path_relink:
  assumes "path s x zs y" "distinct (x # zs)" "w \<notin> set zs"
    "next_of s' (last (x # zs)) = w" "prev_of s' w = last (x # zs)"
    "\<And>a. a \<in> set (butlast (x # zs)) \<Longrightarrow> next_of s' a = next_of s a"
    "\<And>a. a \<in> set zs \<Longrightarrow> prev_of s' a = prev_of s a"
  shows "path s' x zs w"
  using assms by (induction zs arbitrary: x) (auto split: if_splits)

lemmas link_simps = set_next_def set_prev_def

section \<open>Refinement\<close>

lemma dll_first_correct: "dll s list xs \<Longrightarrow> dll_first list s = (if xs = [] then 0 else hd xs)"
  using ring_ends [of s xs] by (auto simp: dll_def dll_first_def) (metis last_in_set ring.elims(2) ring.simps(2))+

lemma path_next: "path s x zs y \<Longrightarrow> i < length zs \<Longrightarrow> next_of s ((x # zs) ! i) = zs ! i"
proof (induction zs arbitrary: x i)
  case (Cons z zs)
  then show ?case by (cases i) auto
qed simp

lemma dll_next_correct:
  assumes "dll s list xs" "i < length xs"
  shows "dll_next list (xs ! i) s = (if i + 1 < length xs then xs ! (i + 1) else 0)"
proof -
  obtain x zs where xs: "xs = x # zs" using assms by (cases xs) auto
  have r: "path s x zs x" "distinct xs" "list = last xs" using assms xs by (auto simp: dll_def)
  show ?thesis
  proof (cases "i + 1 < length xs")
    case True
    then have "xs ! i \<noteq> last xs"
      using r(2) xs by (metis One_nat_def Suc_eq_plus1 assms(2) diff_Suc_1 last_conv_nth length_greater_0_conv list.simps(3) lessI
          nat_neq_iff nth_eq_iff_index_eq length_Cons)
    then show ?thesis using path_next [OF r(1), of i] True r(3) xs by (simp add: dll_next_def)
  next
    case False
    then have "xs ! i = last xs" using assms(2) xs by (simp add: last_conv_nth less_Suc_eq)
    then show ?thesis using False r(3) by (simp add: dll_next_def)
  qed
qed

lemma splice_ring:
  assumes "ring s xs" "ring s ys" "set xs \<inter> set ys = {}"
  shows "ring (dll_splice_after (last xs) (hd ys) s) (ys @ xs)"
proof -
  obtain x zs y ws where xs: "xs = x # zs" and ys: "ys = y # ws" using assms by (cases xs; cases ys) auto
  let ?s = "dll_splice_after (last xs) (hd ys) s"
  have r: "path s x zs x" "path s y ws y" "distinct (x # zs)" "distinct (y # ws)"
    "x \<notin> set (y # ws)" "\<And>a. a \<in> set zs \<Longrightarrow> a \<notin> set (y # ws)" "last xs \<in> set xs" "last ys \<in> set ys"
    using assms xs ys by auto
  have e: "next_of s (last xs) = x" "prev_of s y = last ys"
    using ring_ends [OF assms(1)] ring_ends [OF assms(2)] by (simp_all add: xs ys)
  have n: "last xs \<noteq> last ys" "x \<noteq> y" using r xs ys by (metis IntI assms(3) empty_iff, auto)
  have new: "next_of ?s = (next_of s)(last xs := y, last ys := x)" "prev_of ?s = (prev_of s)(y := last xs, x := last ys)"
    using e n by (auto simp: dll_splice_after_def link_simps Let_def ys)
  have one: "path ?s y ws x"
  proof (rule path_relink [OF r(2)])
    show "next_of ?s (last (y # ws)) = x" "prev_of ?s x = last (y # ws)"
      using n unfolding new unfolding ys by (simp_all del: last.simps)
    show "next_of ?s a = next_of s a" if "a \<in> set (butlast (y # ws))" for a
    proof -
      have "a \<noteq> last (y # ws)" using that r(4) by (metis append_butlast_last_id distinct_butlast list.distinct(1) not_distinct_conv_prefix)
      moreover have "a \<noteq> last xs" using that assms(3) r(7) ys by (metis IntI empty_iff in_set_butlastD)
      ultimately show ?thesis unfolding new unfolding ys by (simp del: last.simps)
    qed
    show "prev_of ?s a = prev_of s a" if "a \<in> set ws" for a using that r(4,5) unfolding new by auto
  qed (use r in auto)
  have two: "path ?s x zs y"
  proof (rule path_relink [OF r(1)])
    show "next_of ?s (last (x # zs)) = y" "prev_of ?s y = last (x # zs)"
      using n unfolding new unfolding xs by (simp_all del: last.simps)
    show "next_of ?s a = next_of s a" if "a \<in> set (butlast (x # zs))" for a
    proof -
      have "a \<noteq> last (x # zs)" using that r(3) by (metis append_butlast_last_id distinct_butlast list.distinct(1) not_distinct_conv_prefix)
      moreover have "a \<noteq> last ys" using that assms(3) r(8) xs by (metis IntI empty_iff in_set_butlastD)
      ultimately show ?thesis unfolding new unfolding xs by (simp del: last.simps)
    qed
    show "prev_of ?s a = prev_of s a" if "a \<in> set zs" for a using that r(3,5,6) unfolding new by auto
  qed (use r in auto)
  show ?thesis using one two assms xs ys by auto
qed

lemma dll_make_first_correct:
  assumes "dll s list xs" "ring s ys" "set xs \<inter> set ys = {}"
  shows "case dll_make_first list (hd ys) s of (list', s') \<Rightarrow> dll s' list' (ys @ xs)"
proof -
  have "hd ys \<noteq> 0" "ys \<noteq> []" using assms(2) by (cases ys; auto)+
  moreover have "last xs \<noteq> 0" if "ring s xs" using ring_basic [OF that] by metis
  ultimately show ?thesis
    using assms splice_ring [of s xs ys] ring_ends [OF assms(2)]
    by (cases "xs = []") (auto simp: dll_make_first_def dll_def)
qed

lemma dll_make_last_correct:
  assumes "dll s list xs" "ring s (ys @ [e])" "set xs \<inter> set (ys @ [e]) = {}"
  shows "case dll_make_last list e s of (list', s') \<Rightarrow> dll s' list' (xs @ ys @ [e])"
proof -
  have e: "next_of s e = hd (ys @ [e])" "e \<noteq> 0" using ring_ends [OF assms(2)] assms(2) by (auto, cases ys, auto)
  obtain l' s' where m: "dll_make_first list (next_of s e) s = (l', s')" by fastforce
  have "dll s' l' ((ys @ [e]) @ xs)"
    using dll_make_first_correct [OF assms] m e(1) by simp
  then have "ring s' (xs @ ys @ [e])"
    using ring_rotate [of "ys @ [e]" xs s'] by (cases "xs = []") (auto simp: dll_def)
  moreover have "dll_make_last list e s = (e, s')" using e(2) m by (simp add: dll_make_last_def)
  ultimately show ?thesis by (simp add: dll_def)
qed

lemma remove_ring:
  assumes "ring s (e # xs)" "xs \<noteq> []"
  shows "ring (snd (dll_remove list e s)) xs" "ring (snd (dll_remove list e s)) [e]"
proof -
  obtain c cs where xs: "xs = c # cs" using assms(2) by (cases xs) auto
  let ?s = "snd (dll_remove list e s)"
  have r: "next_of s e = c" "prev_of s c = e" "path s c cs e" "distinct (e # c # cs)" "0 \<notin> set (e # c # cs)"
    using assms(1) xs by auto
  have l: "prev_of s e = last xs" "next_of s (last xs) = e" using path_ends [OF r(3)] xs by auto
  have n: "e \<noteq> c" "e \<noteq> last xs" using r(4) xs by (auto split: if_splits dest: last_in_set)
  have new: "next_of ?s = (next_of s)(last xs := c, e := e)" "prev_of ?s = (prev_of s)(c := last xs, e := e)"
    using r l n by (auto simp: dll_remove_def link_simps Let_def split: if_splits)
  have "path ?s c cs c"
  proof (rule path_relink [OF r(3)])
    show "next_of ?s (last (c # cs)) = c" "prev_of ?s c = last (c # cs)" using n by (simp_all add: new xs)
    show "next_of ?s a = next_of s a" if "a \<in> set (butlast (c # cs))" for a
    proof -
      have "a \<noteq> last (c # cs)" using that r(4) by (metis append_butlast_last_id distinct_butlast distinct.simps(2) list.distinct(1) not_distinct_conv_prefix)
      moreover have "a \<noteq> e" using that r(4) by (metis in_set_butlastD distinct.simps(2))
      ultimately show ?thesis by (simp add: new xs)
    qed
    show "prev_of ?s a = prev_of s a" if "a \<in> set cs" for a using that r by (auto simp: new)
  qed (use r in auto)
  then show "ring ?s xs" using r xs by auto
  show "ring ?s [e]" using r by (auto simp: new)
qed

lemma dll_remove_correct:
  assumes "dll s list (as @ e # bs)"
  shows "case dll_remove list e s of (list', s') \<Rightarrow> dll s' list' (as @ bs) \<and> ring s' [e]"
proof -
  have ring: "ring s (as @ e # bs)" and list: "list = last (e # bs)" using assms by (auto simp: dll_def split: if_splits)
  have rot: "ring s (e # bs @ as)" using ring ring_rotate [of as "e # bs" s] by (cases "as = []") auto
  show ?thesis
  proof (cases "bs @ as = []")
    case True
    then show ?thesis using ring list by (auto simp: dll_remove_def link_simps Let_def dll_def)
  next
    case False
    let ?s = "snd (dll_remove list e s)"
    note rings = remove_ring [OF rot False, of list]
    have new: "ring ?s (as @ bs)" using rings(1) ring_rotate [of bs as ?s] by (cases "as = []"; cases "bs = []") auto
    have p: "prev_of s e = last (bs @ as)" using rot path_ends [of s e "bs @ as" e] last_ConsR [OF False, of e] by (simp del: last.simps last_append)
    have "fst (dll_remove list e s) = last (as @ bs)"
    proof (cases "bs = []")
      case True
      then have "e \<noteq> last as" using rot False by (auto dest: last_in_set)
      then show ?thesis using True list p False by (simp add: dll_remove_def Let_def)
    next
      case bs: False
      then have "last bs \<noteq> e" using rot by auto
      then show ?thesis using bs list by (simp add: dll_remove_def Let_def)
    qed
    then show ?thesis using new rings(2) False by (auto simp: dll_def split: prod.splits)
  qed
qed

lemma path_prev: "path s x zs y \<Longrightarrow> i < length zs \<Longrightarrow> prev_of s (zs ! i) = (x # zs) ! i"
proof (induction zs arbitrary: x i)
  case (Cons z zs)
  then show ?case by (cases i) auto
qed simp

lemma dll_prev_correct:
  assumes "dll s list xs" "i < length xs"
  shows "dll_prev list (xs ! i) s = (if i = 0 then 0 else xs ! (i - 1))"
proof -
  obtain x zs where xs: "xs = x # zs" using assms by (cases xs) auto
  have r: "path s x zs x" "distinct xs" "list = last xs" using assms xs by (auto simp: dll_def)
  have first: "next_of s list = x" using path_ends [OF r(1)] r(3) xs by simp
  show ?thesis
  proof (cases i)
    case (Suc k)
    then have "xs ! i \<noteq> x" using r(2) assms(2) xs by (auto simp: in_set_conv_nth)
    then show ?thesis using path_prev [OF r(1), of k] Suc assms(2) first xs by (simp add: dll_prev_def)
  qed (simp add: dll_prev_def first xs)
qed

text \<open>C30: The circular list refines lists: with the pointer to the last element standing for the list of the elements from the first on,
  walking it by first and next, or backwards, visits just these in order; making a ring of new elements first or last puts them before or
  behind; and removing an element, wherever it is, takes out only it and leaves it linked to itself.\<close>

theorem dll_refines:
  assumes "dll s list xs"
  shows "dll_is_empty list = (xs = []) \<and>
    dll_first list s = (if xs = [] then 0 else hd xs) \<and>
    (\<forall>i < length xs. dll_next list (xs ! i) s = (if i + 1 < length xs then xs ! (i + 1) else 0) \<and>
       dll_prev list (xs ! i) s = (if i = 0 then 0 else xs ! (i - 1))) \<and>
    (\<forall>ys. ring s ys \<and> set xs \<inter> set ys = {} \<longrightarrow>
       (case dll_make_first list (hd ys) s of (list', s') \<Rightarrow> dll s' list' (ys @ xs)) \<and>
       (case dll_make_last list (last ys) s of (list', s') \<Rightarrow> dll s' list' (xs @ ys))) \<and>
    (\<forall>as e bs. xs = as @ e # bs \<longrightarrow>
       (case dll_remove list e s of (list', s') \<Rightarrow> dll s' list' (as @ bs) \<and> ring s' [e]))"
proof (intro conjI allI impI)
  show "dll_is_empty list = (xs = [])"
    using assms ring_basic [of s xs] by (metis dll_def dll_is_empty_def)
  fix ys assume "ring s ys \<and> set xs \<inter> set ys = {}"
  moreover from this have "ys = butlast ys @ [last ys]" by (cases ys) auto
  ultimately show "case dll_make_last list (last ys) s of (list', s') \<Rightarrow> dll s' list' (xs @ ys)"
    using dll_make_last_correct [OF assms, of "butlast ys" "last ys"] by simp
qed (use assms dll_first_correct dll_next_correct dll_prev_correct dll_make_first_correct dll_remove_correct in auto)

text \<open>Three elements linked in turn, and a fourth alone.\<close>

definition three :: links where
  "three = \<lparr>next_of = (\<lambda>_. 0)(8 := 16, 16 := 24, 24 := 8, 32 := 32), prev_of = (\<lambda>_. 0)(16 := 8, 24 := 16, 8 := 24, 32 := 32)\<rparr>"

theorem dll_refines_witness:
  "dll_next 24 8 three = 16 \<and>
   (case dll_make_first 24 32 three of (list, s) \<Rightarrow> dll s list [32, 8, 16, 24]) \<and>
   (case dll_remove 24 24 three of (list, s) \<Rightarrow> dll s list [8, 16])"
proof -
  have "dll three 24 [8, 16, 24]" "ring three [32]" by (simp_all add: dll_def three_def)
  note d = dll_refines [OF this(1)] this(2)
  have "dll_next 24 8 three = 16"
    using d(1) [THEN conjunct2, THEN conjunct2, THEN conjunct1, rule_format, of 0] by simp
  moreover have "case dll_make_first 24 (hd [32]) three of (list, s) \<Rightarrow> dll s list ([32] @ [8, 16, 24])"
    using d(1) [THEN conjunct2, THEN conjunct2, THEN conjunct2, THEN conjunct1, rule_format, of "[32]"] d(2)
    by (simp del: ring.simps)
  moreover have "case dll_remove 24 24 three of (list, s) \<Rightarrow> dll s list ([8, 16] @ []) \<and> ring s [24]"
    using d(1) [THEN conjunct2, THEN conjunct2, THEN conjunct2, THEN conjunct2, rule_format, of "[8, 16]" 24 "[]"]
    by (simp del: ring.simps)
  ultimately show ?thesis by (simp split: prod.splits)
qed

end
