(* ===== verification/Fds.thy ===== *)
theory Fds
  imports Machine "HOL-Library.Multiset"
begin

text \<open>
  Open files of the guest (\<open>fds.c\<close>) and the functions that set \<open>errno\<close> (\<open>errno.c\<close>). The doubly linked list of \<open>struct Fds\<close>
  is a list here; the theory Dll treats the links.
\<close>

section \<open>Errors\<close>

text \<open>Every one of them returns -1.\<close>

definition ReturnErrno :: "host_errno \<Rightarrow> int exec" where
  "ReturnErrno e = thn (modify (g_errno_update (\<lambda>_. e))) (ret (-1))"

definition ebadf :: "int exec" where "ebadf = ReturnErrno EBADF"
definition einval :: "int exec" where "einval = ReturnErrno EINVAL"
definition enomem :: "int exec" where "enomem = ReturnErrno ENOMEM"
definition enosys :: "int exec" where "enosys = ReturnErrno ENOSYS"
definition emfile :: "int exec" where "emfile = ReturnErrno EMFILE"
definition eoverflow :: "int exec" where "eoverflow = ReturnErrno EOVERFLOW"
definition esrch :: "int exec" where "esrch = ReturnErrno ESRCH"
definition eperm :: "int exec" where "eperm = ReturnErrno EPERM"
definition enotsup :: "int exec" where "enotsup = ReturnErrno ENOTSUP"

section \<open>Open files\<close>

definition InitFds :: "unit exec" where
  "InitFds = modify (s_fds_update (\<lambda>_. []))"

definition AddFd :: "int \<Rightarrow> int \<Rightarrow> Fd option exec" where
  "AddFd fildes oflags =
     (if fildes \<ge> 0 then
        let fd = \<lparr>fd_fildes = fildes, fd_oflags = oflags, fd_atua_type = 0, fd_atua_host_handle = 0,
                  fd_socktype = 0, fd_norestart = False, fd_path = None\<rparr>
        in thn (modify (\<lambda>m. m\<lparr>s_fds := fd # s_fds m\<rparr>)) (ret (Some fd))
      else seq einval (\<lambda>_. ret None))"

text \<open>The new file is the first of the list; the fields are set there. Outside of the browser its two fields are always zero.\<close>

definition ForkFd :: "Fd option \<Rightarrow> int \<Rightarrow> int \<Rightarrow> Fd option exec" where
  "ForkFd fd fildes oflags =
     seq (AddFd fildes oflags) (\<lambda>fd2.
     case (fd2, fd) of
       (Some fd2, Some fd) \<Rightarrow>
         let fd2 = fd2\<lparr>fd_path := fd_path fd, fd_socktype := fd_socktype fd, fd_norestart := fd_norestart fd,
                    fd_atua_type := fd_atua_type fd, fd_atua_host_handle := fd_atua_host_handle fd\<rparr>
         in thn (modify (\<lambda>m. m\<lparr>s_fds := fd2 # tl (s_fds m)\<rparr>)) (ret (Some fd2))
     | _ \<Rightarrow> ret fd2)"

text \<open>Looking up a file moves it to the front.\<close>

fun move_first :: "int \<Rightarrow> Fd list \<Rightarrow> Fd list \<Rightarrow> (Fd \<times> Fd list) option" where
  "move_first fildes pre [] = None"
| "move_first fildes pre (f # fs) =
     (if fd_fildes f = fildes then Some (f, f # pre @ fs) else move_first fildes (pre @ [f]) fs)"

definition GetFd :: "int \<Rightarrow> Fd option exec" where
  "GetFd fildes =
     seq (gets (\<lambda>m. if fildes \<ge> 0 then move_first fildes [] (s_fds m) else None)) (\<lambda>r.
     case r of
       Some (f, fs) \<Rightarrow> thn (modify (s_fds_update (\<lambda>_. fs))) (ret (Some f))
     | None \<Rightarrow> seq ebadf (\<lambda>_. ret None))"

definition CountFds :: "Machine \<Rightarrow> int" where
  "CountFds m = fold (\<lambda>_ n. n + 1) (s_fds m) 0"

definition DestroyFds :: "unit exec" where
  "DestroyFds = modify (s_fds_update (\<lambda>_. []))"

definition GetOflags :: "int \<Rightarrow> int exec" where
  "GetOflags fildes =
     seq (GetFd fildes) (\<lambda>fd. case fd of Some fd \<Rightarrow> ret (fd_oflags fd) | None \<Rightarrow> ret (-1))"

section \<open>What they promise\<close>

declare seq.simps [simp del]

lemma move_first_found:
  "move_first n pre fs = Some (f, fs') \<Longrightarrow> fd_fildes f = n \<and> f \<in> set fs \<and> mset fs' = mset (pre @ fs) \<and> hd fs' = f"
proof (induction fs arbitrary: pre)
  case (Cons g fs)
  then show ?case by (cases "fd_fildes g = n") fastforce+
qed simp

lemma move_first_missing: "move_first n pre fs = None \<longleftrightarrow> (\<forall>f\<in>set fs. fd_fildes f \<noteq> n)"
  by (induction fs arbitrary: pre) auto

end
