(* ===== verification/Virtual.thy ===== *)
theory Virtual
  imports Memory Fds
begin

text \<open>
  Mapping of guest memory (\<open>memorymalloc.c\<close>, \<open>map.c\<close>), without linear mapping, with one thread, on a host of 32 bits whose
  maps come from the page pool: reserving, freeing, protecting, syncing and searching ranges of pages in the page
  table, and the files mapped there.
\<close>

section \<open>Host memory\<close>

definition GetSystemPageSize :: nat where
  "GetSystemPageSize = 4096"

definition GetBitsInAddressSpace :: nat where
  "GetBitsInAddressSpace = 32"

definition GetVirtualAddressSpace :: "nat \<Rightarrow> u64 \<Rightarrow> u64" where
  "GetVirtualAddressSpace vabits pagesize =
     (let vaspace = shl 1 (vabits - 1);
          vaspace = vaspace OR (vaspace - 1)
      in vaspace AND NOT (pagesize - 1))"

definition FLAG_vaspace :: u64 where
  "FLAG_vaspace = GetVirtualAddressSpace GetBitsInAddressSpace (of_nat GetSystemPageSize)"

text \<open>The loop of \<open>ScaleAddress\<close>; every round after the first halves a number of 64 bits.\<close>

fun scale_loop :: "nat \<Rightarrow> u64 \<Rightarrow> u64" where
  "scale_loop n result =
     (let result = result AND NOT (of_nat GetSystemPageSize - 1)
      in if result AND NOT FLAG_vaspace = 0 then result
         else let result = shr result 1
              in if result = 0 then result
                 else case n of 0 \<Rightarrow> result | Suc n \<Rightarrow> scale_loop n result)"

definition ScaleAddress :: "u64 \<Rightarrow> u64" where
  "ScaleAddress address = scale_loop 64 address"

definition FLAG_automapstart :: u64 where "FLAG_automapstart = ScaleAddress 0x200000000000"
definition FLAG_automapend :: u64 where "FLAG_automapend = ScaleAddress 0x400000000000"
definition FLAG_imagestart :: u64 where "FLAG_imagestart = ScaleAddress 0x110001000000"
definition FLAG_dyninterpaddr :: u64 where "FLAG_dyninterpaddr = ScaleAddress 0x454000000000"
definition FLAG_stacktop :: u64 where "FLAG_stacktop = ScaleAddress 0x500000000000"
definition FLAG_aslrmask :: u64 where "FLAG_aslrmask = ScaleAddress 0x03ffff000000"

text \<open>
  Reading a file into the fresh pages: \<open>pread\<close> returns what the host gives, at most as many bytes as asked for; nothing
  ends the loop. Every round reads a byte at least, so as many rounds as bytes are enough.
\<close>

fun read_file :: "nat \<Rightarrow> nat \<Rightarrow> nat \<Rightarrow> unit exec" where
  "read_file 0 p n = ret ()"
| "read_file (Suc k) p n =
     (if n = 0 then ret ()
      else
        seq (gets h_reads) (\<lambda>reads.
        case reads of
          [] \<Rightarrow> ret ()
        | bytes # rest \<Rightarrow>
            let nr = min n (length bytes) in
            thn (modify (h_reads_update (\<lambda>_. rest)))
            (if nr = 0 then ret ()
             else
               thn (modify (h_ram_update (\<lambda>s i. if p \<le> i \<and> i < p + nr then bytes ! (i - p) else s i)))
               (read_file k (p + nr) (n - nr)))))"

definition Mmap :: "nat \<Rightarrow> bool \<Rightarrow> int \<Rightarrow> nat exec" where
  "Mmap n anonymous fd =
     (let al = (n + 4095) div 4096 * 4096;
          al = (if al < 4096 then 4096 else al)
      in seq (AllocPoolPages (al div 4096)) (\<lambda>res.
         thn (fill_bytes res 0 al)
         (thn (if fd = -1 \<or> anonymous then ret () else read_file n res n)
         (ret res))))"

text \<open>Nothing of the pool is given back. A page outside of it is freed by the host.\<close>

definition Munmap :: "nat \<Rightarrow> nat \<Rightarrow> int exec" where
  "Munmap addr n = ret 0"

text \<open>Calls of the host that return a status: it is the next of the given ones, zero when none is left.\<close>

definition host_rc :: "int exec" where
  "host_rc =
     seq (gets h_rcs) (\<lambda>rcs.
     case rcs of
       [] \<Rightarrow> ret 0
     | rc # rest \<Rightarrow>
         thn (modify (h_rcs_update (\<lambda>_. rest)))
         (thn (if rc = -1 then modify (g_errno_update (\<lambda>_. EHOST)) else ret ()) (ret rc)))"

definition Mprotect :: "nat \<Rightarrow> nat \<Rightarrow> int \<Rightarrow> int exec" where
  "Mprotect addr n prot = host_rc"

definition Msync :: "nat \<Rightarrow> nat \<Rightarrow> int \<Rightarrow> int exec" where
  "Msync addr n flags = host_rc"

definition FreeBig :: "nat \<Rightarrow> nat \<Rightarrow> unit exec" where
  "FreeBig p n = (if p = 0 then ret () else seq (Munmap p n) (\<lambda>rc. unassert (rc = 0)))"

definition AllocateBig :: "nat \<Rightarrow> bool \<Rightarrow> int \<Rightarrow> nat exec" where
  "AllocateBig n anonymous fd = Mmap n anonymous fd"

section \<open>Page tables\<close>

definition slot :: "u64 \<Rightarrow> nat \<Rightarrow> nat" where
  "slot virt level = unat (shr virt level AND 511) * 8"

definition FreePageTable :: "nat \<Rightarrow> unit exec" where
  "FreePageTable page =
     thn (FreeAnonymousPage page) (modify (\<lambda>m. m\<lparr>s_tables := s_tables m - 1, s_rss := s_rss m - 1\<rparr>))"

definition AllocatePageTable :: "u64 exec" where
  "AllocatePageTable =
     seq AllocateAnonymousPage (\<lambda>res.
     if res \<noteq> - 1 then thn (modify (\<lambda>m. m\<lparr>s_tables := s_tables m + 1\<rparr>)) (ret (res AND NOT PAGE_U))
     else ret res)"

text \<open>The entries of a table in turn, with whether all were empty so far.\<close>

primrec each_entry :: "(nat \<Rightarrow> bool \<Rightarrow> bool exec) \<Rightarrow> nat list \<Rightarrow> bool \<Rightarrow> bool exec" where
  "each_entry f [] b = ret b"
| "each_entry f (i # is) b = seq (f i b) (each_entry f is)"

text \<open>The first argument is the number of levels below; \<open>3\<close> is the root.\<close>

primrec FreeEmptyPageTables :: "nat \<Rightarrow> u64 \<Rightarrow> bool exec" where
  "FreeEmptyPageTables 0 pt =
     seq (GetPageAddress pt False) (\<lambda>mi.
     seq (each_entry (\<lambda>i isempty. seq (LoadPte (mi + i * 8)) (\<lambda>e. ret (isempty \<and> e = 0))) [0..<512] True) (\<lambda>isempty.
     thn (if isempty then FreePageTable mi else ret ()) (ret isempty)))"
| "FreeEmptyPageTables (Suc n) pt =
     seq (GetPageAddress pt (Suc n = 3)) (\<lambda>mi.
     seq (each_entry (\<lambda>i isempty.
            seq (LoadPte (mi + i * 8)) (\<lambda>pt.
            if pt AND PAGE_V \<noteq> 0 then
              seq (FreeEmptyPageTables n pt) (\<lambda>b.
              if b then thn (StorePte (mi + i * 8) 0) (ret isempty) else ret False)
            else thn (unassert (pt = 0)) (ret isempty))) [0..<512] True) (\<lambda>isempty.
     thn (if isempty then FreePageTable mi else ret ()) (ret isempty)))"

definition CleanseMemory :: "unit exec" where
  "CleanseMemory =
     seq (gets (\<lambda>m. s_memchurn m \<ge> s_rss m div 2)) (\<lambda>b.
     if b then
       thn (seq (gets s_cr3) (\<lambda>cr3. seq (FreeEmptyPageTables 3 cr3) (\<lambda>_. ret ())))
       (modify (s_memchurn_update (\<lambda>_. 0)))
     else ret ())"

abbreviation (input) RLIMIT_NOFILE_LINUX :: nat where "RLIMIT_NOFILE_LINUX \<equiv> 7"
abbreviation (input) RLIMIT_AS_LINUX :: nat where "RLIMIT_AS_LINUX \<equiv> 9"
abbreviation (input) kMaxResident :: nat where "kMaxResident \<equiv> 8589934592"
abbreviation (input) kMaxVirtual :: nat where "kMaxVirtual \<equiv> 68719476736"

definition GetFileDescriptorLimit :: "Machine \<Rightarrow> nat" where
  "GetFileDescriptorLimit m = min (unat (fst (s_rlim m RLIMIT_NOFILE_LINUX))) 2147483647"

definition GetMaxVss :: "Machine \<Rightarrow> int" where
  "GetMaxVss m = int (min kMaxVirtual (unat (fst (s_rlim m RLIMIT_AS_LINUX))) div 4096)"

definition GetMaxRss :: "Machine \<Rightarrow> int" where
  "GetMaxRss m = int (min kMaxResident (unat (fst (s_rlim m RLIMIT_AS_LINUX))) div 4096)"

definition IsValidAddrSize :: "u64 \<Rightarrow> u64 \<Rightarrow> bool" where
  "IsValidAddrSize virt n =
     (let virt = sar (shl virt 16) 16 in
      0 < sint n \<and> virt AND 4095 = 0 \<and> - 0x800000000000 \<le> sint virt \<and> sint virt < 0x800000000000 \<and>
      sint n \<le> 0x1000000000000 \<and> sint virt + sint n \<le> 0x800000000000)"

definition InvalidateSystem :: "bool \<Rightarrow> bool \<Rightarrow> unit exec" where
  "InvalidateSystem tlb icache =
     modify (\<lambda>m. m\<lparr>m_invalidated := tlb \<or> m_invalidated m, m_opinvalidated := icache \<or> m_opinvalidated m\<rparr>)"

section \<open>Mapped files\<close>

text \<open>The bitset has one bit for each page of the map, and allocating it succeeds; sizes are counted in 32 bits.\<close>

definition AddFileMap :: "u64 \<Rightarrow> u64 \<Rightarrow> string option \<Rightarrow> u64 \<Rightarrow> FileMap option exec" where
  "AddFileMap virt n path off =
     (case path of
        None \<Rightarrow> ret None
      | Some path \<Rightarrow>
          let pages = unat ((n + 4095) AND - 4096) div 4096 mod 4294967296;
              present = replicate (pages div 64) (- 1) @ (if pages mod 64 \<noteq> 0 then [shl 1 (pages mod 64) - 1] else []);
              fm = \<lparr>fm_virt = virt, fm_size = n, fm_pages = of_nat pages, fm_offset = off, fm_path = path,
                    fm_present = present\<rparr>
          in thn (modify (\<lambda>m. m\<lparr>s_filemaps := fm # s_filemaps m\<rparr>)) (ret (Some fm)))"

text \<open>A file without a path, such as a pipe, makes \<open>strdup\<close> read the null pointer.\<close>

definition AddFileMapViaMap :: "u64 \<Rightarrow> u64 \<Rightarrow> int \<Rightarrow> u64 \<Rightarrow> unit exec" where
  "AddFileMapViaMap virt n fildes off =
     seq (GetFd fildes) (\<lambda>fd.
     thn (case fd of Some fd \<Rightarrow> unassert (fd_path fd \<noteq> None) | None \<Rightarrow> ret ())
     (seq (AddFileMap virt n (case fd of Some fd \<Rightarrow> fd_path fd | None \<Rightarrow> None) off) (\<lambda>_. ret ())))"

definition maps :: "FileMap \<Rightarrow> u64 \<Rightarrow> bool" where
  "maps fm virt \<longleftrightarrow> sint virt \<ge> sint (fm_virt fm) \<and> sint virt < sint (fm_virt fm + fm_size fm)"

definition map_index :: "FileMap \<Rightarrow> u64 \<Rightarrow> nat" where
  "map_index fm virt = unat (virt - fm_virt fm) div 4096"

definition is_present :: "FileMap \<Rightarrow> u64 \<Rightarrow> bool" where
  "is_present fm virt \<longleftrightarrow> fm_present fm ! (map_index fm virt div 64) AND shl 1 (map_index fm virt mod 64) \<noteq> 0"

fun get_filemap :: "u64 \<Rightarrow> FileMap list \<Rightarrow> FileMap option" where
  "get_filemap virt [] = None"
| "get_filemap virt (fm # fms) = (if maps fm virt \<and> is_present fm virt then Some fm else get_filemap virt fms)"

definition GetFileMap :: "u64 \<Rightarrow> Machine \<Rightarrow> FileMap option" where
  "GetFileMap virt m = get_filemap virt (s_filemaps m)"

definition absent_page :: "FileMap \<Rightarrow> u64 \<Rightarrow> FileMap" where
  "absent_page fm virt =
     fm\<lparr>fm_present := (fm_present fm)[map_index fm virt div 64 :=
          fm_present fm ! (map_index fm virt div 64) AND NOT (shl 1 (map_index fm virt mod 64))],
        fm_pages := fm_pages fm - 1\<rparr>"

text \<open>The maps before the one that is looked at come first; \<open>lru\<close> tells that there are any.\<close>

fun unmark_page :: "u64 \<Rightarrow> FileMap list \<Rightarrow> FileMap list \<Rightarrow> FileMap list exec" where
  "unmark_page virt front [] = ret front"
| "unmark_page virt front (fm # fms) =
     (if maps fm virt then
        thn (unassert (fm_pages fm \<noteq> 0))
        (if is_present fm virt then
           let fm = absent_page fm virt in
           ret (if fm_pages fm = 0 then front @ fms
                else if front \<noteq> [] then fm # front @ fms
                else fm # fms)
         else unmark_page virt (front @ [fm]) fms)
      else unmark_page virt (front @ [fm]) fms)"

definition UnmarkFilePage :: "u64 \<Rightarrow> unit exec" where
  "UnmarkFilePage virt =
     seq (gets s_filemaps) (\<lambda>fms.
     seq (unmark_page virt [] fms) (\<lambda>fms.
     modify (s_filemaps_update (\<lambda>_. fms))))"

section \<open>Removing pages\<close>

text \<open>
  What an operation gathers on its way: whether executable code went, whether the address space changed, and the change in
  the number of virtual and of resident pages.
\<close>

record delta =
  d_unexec :: bool
  d_mutated :: bool
  d_vss :: int
  d_rss :: int

definition no_delta :: delta where
  "no_delta = \<lparr>d_unexec = False, d_mutated = False, d_vss = 0, d_rss = 0\<rparr>"

text \<open>With one thread nobody would ever unlock the page.\<close>

definition WaitForPageToNotBeLocked :: "nat \<Rightarrow> unit exec" where
  "WaitForPageToNotBeLocked pte =
     seq (LoadPte pte) (\<lambda>e. if e AND PAGE_LOCKS \<noteq> 0 then diverge else ret ())"

text \<open>
  The loop that steps a page of a file back to the start of its host page never ends on a page that is not aligned;
  whether the caller must free the page is the first result.
\<close>

definition FreePage :: "u64 \<Rightarrow> u64 \<Rightarrow> nat \<Rightarrow> delta \<Rightarrow> (bool \<times> delta) exec" where
  "FreePage virt entry n d =
     thn (unassert (entry AND PAGE_V \<noteq> 0))
     (thn (if entry AND PAGE_FILE \<noteq> 0 then UnmarkFilePage virt else ret ())
     (let d = (if entry AND PAGE_XD = 0 \<and> entry AND PAGE_RSRV = 0 then d\<lparr>d_unexec := True\<rparr> else d) in
      if entry AND (PAGE_HOST OR PAGE_MAP OR PAGE_MUG) = PAGE_HOST then
        thn (unassert (NOT entry AND PAGE_RSRV \<noteq> 0))
        (thn (modify (\<lambda>m. m\<lparr>s_committed := s_committed m - 1\<rparr>))
        (seq (gets (FindHostPage entry)) (\<lambda>page.
         thn (fill_bytes page 0 4096)
         (thn (FreeAnonymousPage page)
         (ret (False, d\<lparr>d_rss := d_rss d - 1\<rparr>))))))
      else if entry AND (PAGE_HOST OR PAGE_MAP OR PAGE_MUG) = (PAGE_HOST OR PAGE_MAP OR PAGE_MUG) then
        seq (gets (FindHostPage entry)) (\<lambda>real.
        thn (if real mod GetSystemPageSize \<noteq> 0 then diverge else ret ())
        (thn (seq (Munmap real n) (\<lambda>rc. unassert (rc = 0)))
        (if entry AND PAGE_RSRV \<noteq> 0 then
           thn (modify (\<lambda>m. m\<lparr>s_reserved := s_reserved m - 1\<rparr>)) (ret (False, d))
         else
           thn (modify (\<lambda>m. m\<lparr>s_committed := s_committed m - 1\<rparr>)) (ret (False, d\<lparr>d_rss := d_rss d - 1\<rparr>)))))
      else if entry AND (PAGE_HOST OR PAGE_MAP OR PAGE_MUG) = (PAGE_HOST OR PAGE_MAP) then
        thn (unassert (entry AND PAGE_RSRV = 0))
        (thn (modify (\<lambda>m. m\<lparr>s_committed := s_committed m - 1\<rparr>))
        (ret (True, d\<lparr>d_rss := d_rss d - 1\<rparr>)))
      else if entry AND PAGE_RSRV \<noteq> 0 then
        thn (modify (\<lambda>m. m\<lparr>s_reserved := s_reserved m - 1\<rparr>)) (ret (False, d))
      else thn (unassert False) (ret (False, d))))"

text \<open>
  The walk down the levels: the level at which it stopped, for want of a table or at the last, the slot there, the
  entry, and the slot of the entry of the last table.
\<close>

fun descend :: "u64 \<Rightarrow> nat list \<Rightarrow> u64 \<Rightarrow> nat \<Rightarrow> (nat \<times> nat \<times> u64 \<times> nat) exec" where
  "descend virt [] pt pde = ret (12, 0, pt, pde)"
| "descend virt (i # is) pt pde =
     seq (GetPageAddress pt (i = 39)) (\<lambda>p.
     let pp = p + slot virt i;
         pde = (if i = 21 then pp else pde) in
     seq (LoadPte pp) (\<lambda>pt.
     if i = 12 \<or> pt AND PAGE_V = 0 then ret (i, pp, pt, pde) else descend virt is pt pde))"

text \<open>The entry of one page is cleared; nothing else writes it, so the exchange succeeds.\<close>

definition remove_page :: "u64 \<Rightarrow> u64 \<Rightarrow> nat \<Rightarrow> u64 \<Rightarrow> delta \<Rightarrow> delta exec" where
  "remove_page virt end' pp pt d =
     (if pt AND PAGE_V \<noteq> 0 then
        thn (if pt AND PAGE_LOCKS \<noteq> 0 then WaitForPageToNotBeLocked pp else ret ())
        (thn (seq (CasPte pp pt 0) (\<lambda>ok. if ok then ret () else diverge))
        (seq (FreePage virt pt (unat (min 4096 (end' - virt))) d) (\<lambda>(_, d).
         ret (d\<lparr>d_mutated := True, d_vss := d_vss d - 1\<rparr>))))
      else ret d)"

text \<open>The entries of one table; when all of them are gone, so is the table. A table has 512 entries.\<close>

fun remove_run :: "nat \<Rightarrow> nat \<Rightarrow> nat \<Rightarrow> nat \<Rightarrow> nat \<Rightarrow> u64 \<Rightarrow> u64 \<Rightarrow> u64 \<Rightarrow> delta \<Rightarrow> (u64 \<times> delta) exec" where
  "remove_run n p1 pde pi pp pt virt end' d =
     seq (remove_page virt end' pp pt d) (\<lambda>d.
     if sint (virt + 4096) < sint end' \<and> pi < 511 then
       case n of
         0 \<Rightarrow> diverge
       | Suc n \<Rightarrow> seq (LoadPte (pp + 8)) (\<lambda>pt. remove_run n p1 pde (pi + 1) (pp + 8) pt (virt + 4096) end' d)
     else
       thn (if p1 = 0 \<and> pi = 511 then
              thn (seq (LoadPte pde) (\<lambda>e. seq (GetPageAddress e False) FreePageTable)) (StorePte pde 0)
            else ret ())
       (ret (virt, d)))"

declare remove_run.simps [simp del]

fun remove_loop :: "nat \<Rightarrow> u64 \<Rightarrow> u64 \<Rightarrow> delta \<Rightarrow> delta exec" where
  "remove_loop n virt end' d =
     (if sint virt < sint end' then
        case n of
          0 \<Rightarrow> diverge
        | Suc n \<Rightarrow>
            seq (seq (gets s_cr3) (\<lambda>cr3. descend virt [39, 30, 21, 12] cr3 0)) (\<lambda>(i, pp, pt, pde).
            if i > 12 then remove_loop n (virt + shl 1 i) end' d
            else
              let pi = slot virt 12 div 8 in
              seq (remove_run 512 pi pde pi pp pt virt end' d) (\<lambda>(virt, d).
              remove_loop n (virt + 4096) end' d))
      else ret d)"

declare remove_loop.simps [simp del]

text \<open>Every round of the loop passes a page.\<close>

definition RemoveVirtual :: "u64 \<Rightarrow> u64 \<Rightarrow> delta \<Rightarrow> delta exec" where
  "RemoveVirtual virt n d =
     thn (unassert (virt AND 4095 = 0))
     (remove_loop (unat n div 4096 + 1) virt (virt + n) d)"

section \<open>Reserving pages\<close>

abbreviation (input) PROT_READ :: u32 where "PROT_READ \<equiv> 1"
abbreviation (input) PROT_WRITE :: u32 where "PROT_WRITE \<equiv> 2"
abbreviation (input) PROT_EXEC :: u32 where "PROT_EXEC \<equiv> 4"

definition GetProtection :: "u64 \<Rightarrow> u32" where
  "GetProtection key =
     (let prot = 0;
          prot = (if key AND PAGE_U \<noteq> 0 then prot OR PROT_READ else prot);
          prot = (if key AND PAGE_RW \<noteq> 0 then prot OR PROT_WRITE else prot);
          prot = (if key AND PAGE_XD = 0 then prot OR PROT_EXEC else prot)
      in prot)"

definition SetProtection :: "u32 \<Rightarrow> u64" where
  "SetProtection prot =
     (let key = 0;
          key = (if prot AND PROT_READ \<noteq> 0 then key OR PAGE_U else key);
          key = (if prot AND PROT_WRITE \<noteq> 0 then key OR PAGE_RW else key);
          key = (if NOT prot AND PROT_EXEC \<noteq> 0 then key OR PAGE_XD else key)
      in key)"

definition DetermineHostProtection :: "u32 \<Rightarrow> u32" where
  "DetermineHostProtection prot = (prot AND NOT PROT_EXEC) OR PROT_READ"

text \<open>The process ends when there is no memory for the tables.\<close>

definition PanicDueToMmap :: "'a exec" where
  "PanicDueToMmap = leave"

text \<open>Down the levels, making the tables that are missing: the slot of the page in the last one.\<close>

fun make_tables :: "u64 \<Rightarrow> nat list \<Rightarrow> u64 \<Rightarrow> nat exec" where
  "make_tables virt [] pt = ret 0"
| "make_tables virt (i # is) pt =
     seq (GetPageAddress pt (i = 39)) (\<lambda>p.
     let mi = p + slot virt i in
     if i = 12 then ret mi
     else
       seq (LoadPte mi) (\<lambda>pt.
       if pt AND PAGE_V = 0 then
         seq AllocatePageTable (\<lambda>pt.
         if pt = - 1 then leave else thn (StorePte mi pt) (make_tables virt is pt))
       else make_tables virt is pt))"

text \<open>
  The entry for one page. A page of a file gets its memory now: as many bytes as the file maps there are read, the
  off being a multiple of the page size.
\<close>

definition new_entry :: "u64 \<Rightarrow> u64 \<Rightarrow> u64 \<Rightarrow> int \<Rightarrow> u64 exec" where
  "new_entry virt end' flags fd =
     (if flags AND PAGE_MAP \<noteq> 0 then
        seq (AllocateBig (unat (min 4096 (end' - virt))) (fd = -1) fd) (\<lambda>mug.
        if mug = 0 then PanicDueToMmap
        else
          seq (TrackHostPage mug) (\<lambda>real.
          thn (unassert (real AND NOT PAGE_TA = 0))
          (ret (real OR flags OR PAGE_V))))
      else ret (flags OR PAGE_V))"

definition reserve_page :: "u64 \<Rightarrow> u64 \<Rightarrow> nat \<Rightarrow> u64 \<Rightarrow> int \<Rightarrow> delta \<Rightarrow> delta exec" where
  "reserve_page virt end' mi flags fd d =
     seq (new_entry virt end' flags fd) (\<lambda>entry.
     seq (LoadPte mi) (\<lambda>pt.
     thn (if pt AND PAGE_LOCKS \<noteq> 0 then thn (unassert (pt AND PAGE_V \<noteq> 0)) (WaitForPageToNotBeLocked mi)
          else ret ())
     (thn (seq (CasPte mi pt entry) (\<lambda>ok. if ok then ret () else diverge))
     (if pt AND PAGE_V \<noteq> 0 then seq (FreePage virt pt 4096 d) (\<lambda>(_, d). ret d) else ret d))))"

text \<open>The pages of one table: \<open>None\<close> when the range is done, else the address to go on with.\<close>

fun reserve_run :: "nat \<Rightarrow> nat \<Rightarrow> u64 \<Rightarrow> u64 \<Rightarrow> nat \<Rightarrow> u64 \<Rightarrow> int \<Rightarrow> delta \<Rightarrow> (u64 option \<times> delta) exec" where
  "reserve_run n ti virt end' mi flags fd d =
     seq (reserve_page virt end' mi flags fd d) (\<lambda>d.
     let virt = virt + 4096 in
     if sint virt \<ge> sint end' then ret (None, d)
     else if ti + 1 = 512 then ret (Some virt, d)
     else case n of
       0 \<Rightarrow> diverge
     | Suc n \<Rightarrow> reserve_run n (ti + 1) virt end' (mi + 8) flags fd d)"

declare reserve_run.simps [simp del]

fun reserve_loop :: "nat \<Rightarrow> u64 \<Rightarrow> u64 \<Rightarrow> u64 \<Rightarrow> int \<Rightarrow> delta \<Rightarrow> delta exec" where
  "reserve_loop n virt end' flags fd d =
     seq (seq (gets s_cr3) (make_tables virt [39, 30, 21, 12])) (\<lambda>mi.
     seq (reserve_run 512 (slot virt 12 div 8) virt end' mi flags fd d) (\<lambda>(next, d).
     case next of
       None \<Rightarrow> ret d
     | Some virt \<Rightarrow>
         case n of
           0 \<Rightarrow> diverge
         | Suc n \<Rightarrow> reserve_loop n virt end' flags fd d))"

declare reserve_loop.simps [simp del]

text \<open>Every round of the outer loop fills a table, or ends the range.\<close>

definition ReserveVirtual :: "u64 \<Rightarrow> u64 \<Rightarrow> u64 \<Rightarrow> int \<Rightarrow> u64 \<Rightarrow> bool \<Rightarrow> bool \<Rightarrow> u64 exec" where
  "ReserveVirtual virt n flags fd off shared fixedmap =
     thn (unassert (flags AND PAGE_TA = 0))
     (thn (unassert (flags AND PAGE_MAP = 0))
     (thn (unassert (flags AND PAGE_HOST = 0))
     (thn (unassert (flags AND PAGE_RSRV = 0))
     (thn (seq (gets m_omode) (\<lambda>mode. unassert (mode = 2)))
     (if \<not> IsValidAddrSize virt n then seq einval (\<lambda>rc. ret (of_int rc))
      else if fd \<noteq> -1 \<and> off AND 4095 \<noteq> 0 then seq einval (\<lambda>rc. ret (of_int rc))
      else
        let pages = (sint n + 4095) div 4096 in
        seq (RemoveVirtual virt n no_delta) (\<lambda>d.
        let d = d\<lparr>d_vss := d_vss d + pages\<rparr>;
            flags = (if fd \<noteq> -1 \<or> shared then flags OR PAGE_HOST OR PAGE_MAP OR PAGE_MUG OR PAGE_RSRV else flags OR PAGE_RSRV) in
        thn (modify (\<lambda>m. m\<lparr>s_reserved := s_reserved m + pages\<rparr>))
        (seq (if fd \<noteq> -1 \<and> flags AND PAGE_FILE = 0 then
                thn (AddFileMapViaMap virt n fd off) (ret (flags OR PAGE_FILE))
              else ret flags) (\<lambda>flags.
        seq (reserve_loop (unat n div 4096 + 1) virt (virt + n) flags fd d) (\<lambda>d.
        thn (modify (\<lambda>m. m\<lparr>s_rss := s_rss m + d_rss d, s_vss := s_vss m + d_vss d\<rparr>))
        (thn (InvalidateSystem (d_rss d \<noteq> 0) (d_unexec d))
        (ret virt)))))))))))"

section \<open>Searching\<close>

text \<open>
  Looking for a mapped page in the range: the distance to just behind it, or \<open>None\<close> when there is none. Distances
  are compared without sign.
\<close>

fun find_mapped :: "nat \<Rightarrow> u64 \<Rightarrow> u64 \<Rightarrow> u64 \<Rightarrow> u64 option exec" where
  "find_mapped n virt size' got =
     seq (seq (gets s_cr3) (\<lambda>cr3. descend (virt + got) [39, 30, 21, 12] cr3 0)) (\<lambda>(i, _, pt, _).
     let got = got + shl 1 i in
     if pt AND PAGE_V \<noteq> 0 then ret (Some got)
     else if got < size' then
       (case n of 0 \<Rightarrow> diverge | Suc n \<Rightarrow> find_mapped n virt size' got)
     else ret None)"

declare find_mapped.simps [simp del]

fun find_virtual :: "nat \<Rightarrow> u64 \<Rightarrow> u64 \<Rightarrow> u64 exec" where
  "find_virtual n virt size' =
     (if \<not> IsValidAddrSize virt size' then seq enomem (\<lambda>rc. ret (of_int rc))
      else
        seq (find_mapped (unat size' div 4096 + 1) virt size' 0) (\<lambda>r.
        case r of
          None \<Rightarrow> ret virt
        | Some got \<Rightarrow> (case n of 0 \<Rightarrow> diverge | Suc n \<Rightarrow> find_virtual n (virt + got) size')))"

declare find_virtual.simps [simp del]

text \<open>Every start over is at a higher page of the address space, which has \<open>2\<^sup>3\<^sup>6\<close> of them.\<close>

definition FindVirtual :: "u64 \<Rightarrow> u64 \<Rightarrow> u64 exec" where
  "FindVirtual virt size' = find_virtual 68719476736 virt size'"

section \<open>Freeing\<close>

definition FreeVirtual :: "u64 \<Rightarrow> u64 \<Rightarrow> int exec" where
  "FreeVirtual virt n =
     (if \<not> IsValidAddrSize virt n then einval
      else
        seq (RemoveVirtual virt n no_delta) (\<lambda>d.
        thn (modify (\<lambda>m. m\<lparr>s_vss := s_vss m + d_vss d, s_rss := s_rss m + d_rss d, s_memchurn := s_memchurn m - d_vss d\<rparr>))
        (thn (InvalidateSystem (d_rss d \<noteq> 0) (d_unexec d))
        (ret 0))))"

definition FreeHostPages :: "unit exec" where
  "FreeHostPages =
     thn (seq (gets (\<lambda>m. s_real m = 0 \<and> s_cr3 m \<noteq> 0)) (\<lambda>b.
        if b then
          thn (seq (FreeVirtual (- 0x800000000000) 0x1000000000000) (\<lambda>rc. unassert (rc = 0)))
          (thn (seq (gets s_cr3) (\<lambda>cr3. seq (FreeEmptyPageTables 3 cr3) unassert))
          (modify (s_cr3_update (\<lambda>_. 0))))
        else ret ()))
     (modify (s_real_update (\<lambda>_. 0)))"

section \<open>Whether a range is mapped\<close>

text \<open>\<open>Some b\<close> is the answer, \<open>None\<close> the end of the table; \<open>pt\<close> is the entry at \<open>mi\<close>.\<close>

fun mapped_run :: "nat \<Rightarrow> nat \<Rightarrow> u64 \<Rightarrow> u64 \<Rightarrow> nat \<Rightarrow> u64 \<Rightarrow> (bool option \<times> u64) exec" where
  "mapped_run n ti virt end' mi pt =
     (if pt AND PAGE_V = 0 then ret (Some False, virt)
      else
        let virt = virt + 4096 in
        if sint virt \<ge> sint end' then ret (Some True, virt)
        else if ti + 1 = 512 then ret (None, virt)
        else case n of
          0 \<Rightarrow> diverge
        | Suc n \<Rightarrow> seq (LoadPte (mi + 8)) (mapped_run n (ti + 1) virt end' (mi + 8)))"

declare mapped_run.simps [simp del]

fun mapped_loop :: "nat \<Rightarrow> u64 \<Rightarrow> u64 \<Rightarrow> bool exec" where
  "mapped_loop n virt end' =
     seq (seq (gets s_cr3) (\<lambda>cr3. descend virt [39, 30, 21, 12] cr3 0)) (\<lambda>(i, mi, pt, _).
     if i > 12 then ret False
     else
       seq (mapped_run 512 (slot virt 12 div 8) virt end' mi pt) (\<lambda>(r, virt).
       case r of
         Some b \<Rightarrow> ret b
       | None \<Rightarrow> (case n of 0 \<Rightarrow> diverge | Suc n \<Rightarrow> mapped_loop n virt end')))"

declare mapped_loop.simps [simp del]

definition IsFullyMapped :: "u64 \<Rightarrow> u64 \<Rightarrow> bool exec" where
  "IsFullyMapped virt n = mapped_loop (unat n div 4096 + 1) virt (virt + n)"

fun unmapped_loop :: "nat \<Rightarrow> u64 \<Rightarrow> u64 \<Rightarrow> bool exec" where
  "unmapped_loop n virt end' =
     (if sint virt < sint end' then
        case n of
          0 \<Rightarrow> diverge
        | Suc n \<Rightarrow>
            seq (seq (gets s_cr3) (\<lambda>cr3. descend virt [39, 30, 21, 12] cr3 0)) (\<lambda>(i, _, pt, _).
            if pt AND PAGE_V = 0 then unmapped_loop n (virt + shl 1 i) end' else ret False)
      else ret True)"

declare unmapped_loop.simps [simp del]

definition IsFullyUnmapped :: "u64 \<Rightarrow> u64 \<Rightarrow> bool exec" where
  "IsFullyUnmapped virt n = unmapped_loop (unat n div 4096 + 1) virt (virt + n)"

section \<open>Protecting and syncing\<close>

text \<open>
  Protecting one page: the file pages also on the host. The status is -1 when the host failed; a page that is
  no longer there ends everything, but with one thread nothing takes it away in between.
\<close>

definition protect_page :: "nat \<Rightarrow> u64 \<Rightarrow> u32 \<Rightarrow> u32 \<Rightarrow> bool \<Rightarrow> int \<times> bool \<Rightarrow> (int \<times> bool) exec" where
  "protect_page mi pt key_prot sysprot hostonly r =
     seq (if pt AND (PAGE_HOST OR PAGE_MAP OR PAGE_MUG) = (PAGE_HOST OR PAGE_MAP OR PAGE_MUG) then
            seq (gets (FindHostPage pt)) (\<lambda>real.
            thn (if real mod GetSystemPageSize \<noteq> 0 then diverge else ret ())
            (seq (Mprotect real GetSystemPageSize (sint sysprot)) (\<lambda>rc.
             ret (if rc \<noteq> 0 then (-1, snd r) else r))))
          else ret r) (\<lambda>r.
     if \<not> hostonly then
       let pt2 = (pt AND NOT (PAGE_U OR PAGE_RW OR PAGE_XD)) OR SetProtection key_prot in
       thn (seq (CasPte mi pt pt2) (\<lambda>ok. if ok then ret () else diverge))
       (ret (fst r, snd r \<or> (pt AND PAGE_XD = 0 \<and> pt2 AND PAGE_XD \<noteq> 0 \<and> pt AND PAGE_RSRV = 0)))
     else ret r)"

text \<open>Syncing one page: as many bytes as the range has there.\<close>

definition sync_page :: "u64 \<Rightarrow> u64 \<Rightarrow> nat \<Rightarrow> u64 \<Rightarrow> int \<Rightarrow> int \<times> bool \<Rightarrow> (int \<times> bool) exec" where
  "sync_page virt end' mi pt sysflags r =
     (if pt AND (PAGE_HOST OR PAGE_MAP OR PAGE_MUG) = (PAGE_HOST OR PAGE_MAP OR PAGE_MUG) then
        seq (gets (FindHostPage pt)) (\<lambda>real.
        thn (if real mod GetSystemPageSize \<noteq> 0 then diverge else ret ())
        (seq (Msync real (unat (min 4096 (end' - virt))) sysflags) (\<lambda>rc.
         ret (if rc \<noteq> 0 then (-1, snd r) else r))))
      else ret r)"

text \<open>
  Both crawl over the pages of the range, table by table, doing \<open>f\<close> at each. The first result tells how the run
  ended: \<open>Some True\<close> at the end of the range, \<open>Some False\<close> at a missing page, \<open>None\<close> at the end of the table.
\<close>

fun crawl_run :: "(u64 \<Rightarrow> nat \<Rightarrow> u64 \<Rightarrow> 'r \<Rightarrow> 'r exec) \<Rightarrow> nat \<Rightarrow> nat \<Rightarrow> u64 \<Rightarrow> u64 \<Rightarrow> nat \<Rightarrow> u64 \<Rightarrow> 'r \<Rightarrow> (bool option \<times> u64 \<times> 'r) exec" where
  "crawl_run f n ti virt end' mi pt r =
     (if pt AND PAGE_V = 0 then ret (Some False, virt, r)
      else
        seq (f virt mi pt r) (\<lambda>r.
        let virt = virt + 4096 in
        if sint virt \<ge> sint end' then ret (Some True, virt, r)
        else if ti + 1 = 512 then ret (None, virt, r)
        else case n of
          0 \<Rightarrow> diverge
        | Suc n \<Rightarrow> seq (LoadPte (mi + 8)) (\<lambda>pt. crawl_run f n (ti + 1) virt end' (mi + 8) pt r)))"

declare crawl_run.simps [simp del]

fun crawl_loop :: "(u64 \<Rightarrow> nat \<Rightarrow> u64 \<Rightarrow> 'r \<Rightarrow> 'r exec) \<Rightarrow> nat \<Rightarrow> u64 \<Rightarrow> u64 \<Rightarrow> 'r \<Rightarrow> 'r option exec" where
  "crawl_loop f n virt end' r =
     seq (seq (gets s_cr3) (\<lambda>cr3. descend virt [39, 30, 21, 12] cr3 0)) (\<lambda>(i, mi, pt, _).
     if i > 12 then ret None
     else
       seq (crawl_run f 512 (slot virt 12 div 8) virt end' mi pt r) (\<lambda>(b, virt, r).
       case b of
         Some b \<Rightarrow> ret (if b then Some r else None)
       | None \<Rightarrow> (case n of 0 \<Rightarrow> diverge | Suc n \<Rightarrow> crawl_loop f n virt end' r)))"

declare crawl_loop.simps [simp del]

definition ProtectVirtual :: "u64 \<Rightarrow> u64 \<Rightarrow> u32 \<Rightarrow> bool \<Rightarrow> int exec" where
  "ProtectVirtual virt n prot hostonly =
     (if \<not> IsValidAddrSize virt n then einval
      else
        seq (IsFullyMapped virt n) (\<lambda>mapped.
        if \<not> mapped then enomem
        else
          seq (crawl_loop (\<lambda>_ mi pt. protect_page mi pt prot (DetermineHostProtection prot) hostonly)
                 (unat n div 4096 + 1) virt (virt + n) (0, False)) (\<lambda>r.
          case r of
            None \<Rightarrow> enomem
          | Some (rc, unexec) \<Rightarrow>
              thn (if \<not> hostonly then InvalidateSystem True unexec else ret ()) (ret rc))))"

definition SyncVirtual :: "u64 \<Rightarrow> u64 \<Rightarrow> int \<Rightarrow> int exec" where
  "SyncVirtual virt n sysflags =
     (if \<not> IsValidAddrSize virt n then einval
      else
        seq (IsFullyMapped virt n) (\<lambda>mapped.
        if \<not> mapped then enomem
        else
          seq (crawl_loop (\<lambda>v mi pt. sync_page v (virt + n) mi pt sysflags)
                 (unat n div 4096 + 1) virt (virt + n) (0, False)) (\<lambda>r.
          case r of
            None \<Rightarrow> enomem
          | Some (rc, _) \<Rightarrow> ret rc)))"

section \<open>From host to guest addresses\<close>

text \<open>The first index of the table at which the search below succeeds; the result is the address, built from the top, and the entry.\<close>

primrec first_entry :: "(nat \<Rightarrow> 'a option exec) \<Rightarrow> nat list \<Rightarrow> 'a option exec" where
  "first_entry f [] = ret None"
| "first_entry f (i # is) =
     seq (f i) (\<lambda>r. case r of None \<Rightarrow> first_entry f is | Some x \<Rightarrow> ret (Some x))"

primrec FindGuestAddr :: "nat \<Rightarrow> nat \<Rightarrow> u64 \<Rightarrow> (u64 \<times> u64) option exec" where
  "FindGuestAddr 0 hp pt =
     seq (GetPageAddress pt False) (\<lambda>mi.
     if mi = 0 then ret None
     else
       first_entry (\<lambda>i.
         seq (LoadPte (mi + i * 8)) (\<lambda>pte.
         if pte AND PAGE_V \<noteq> 0 then
           seq (gets (FindHostPage pte)) (\<lambda>page.
           ret (if pte AND PAGE_HOST \<noteq> 0 \<and> page = hp then Some (shl (of_nat i) 39, pte) else None))
         else ret None)) [0..<512])"
| "FindGuestAddr (Suc n) hp pt =
     seq (GetPageAddress pt (Suc n = 3)) (\<lambda>mi.
     if mi = 0 then ret None
     else
       first_entry (\<lambda>i.
         seq (LoadPte (mi + i * 8)) (\<lambda>pte.
         if pte AND PAGE_V \<noteq> 0 then
           seq (FindGuestAddr n hp pte) (\<lambda>r.
           ret (case r of
              Some (res, out) \<Rightarrow> if res \<noteq> - 1 then Some (shl (of_nat i) 39 OR sar res 9, out) else None
            | None \<Rightarrow> None))
         else ret None)) [0..<512])"

abbreviation (input) kNullSize :: nat where "kNullSize \<equiv> 2097152"

text \<open>The guest's address of a host address, and the entry of its page; the host address and zero when there is none.\<close>

definition ConvertHostToGuestAddress :: "nat \<Rightarrow> (u64 \<times> u64) exec" where
  "ConvertHostToGuestAddress ha =
     seq (gets (\<lambda>m. m_omode m \<noteq> 2 \<and> (s_cr0 m AND 0x80000000 = 0 \<or> m_genmode m = 0))) (\<lambda>unpaged.
     if unpaged then ret (of_nat ha, 0)
     else if ha < kNullSize then ret (of_nat ha, 0)
     else
       seq (seq (gets s_cr3) (FindGuestAddr 3 (ha div 4096 * 4096))) (\<lambda>r.
       case r of
         Some (g48, pte) \<Rightarrow> ret (sar (shl g48 16) 16 OR of_nat (ha mod 4096), pte)
       | None \<Rightarrow> ret (of_nat ha, 0)))"

end
