(* ===== verification/VirtualSpec.thy ===== *)
theory VirtualSpec
  imports Virtual StackSpec Running
begin

text \<open>
  What the page table says as a function, and the questions about ranges of pages that it answers (\<open>IsFullyMapped\<close>, \<open>IsFullyUnmapped\<close>, \<open>FindVirtual\<close>).
\<close>

declare seq.simps [simp del]

section \<open>The page table as a function\<close>

text \<open>A table that can be walked: present, not reserved, in a host page.\<close>

definition table_ok :: "u64 \<Rightarrow> bool \<Rightarrow> bool" where
  "table_ok e root \<longleftrightarrow> (root \<or> e AND PAGE_V \<noteq> 0) \<and> e AND PAGE_RSRV = 0 \<and> e AND PAGE_HOST \<noteq> 0"

definition pte_at :: "Machine \<Rightarrow> nat \<Rightarrow> u64" where
  "pte_at m p = Get64 (h_ram m) p"

text \<open>Where the walk for an address ends: the level, the slot and the entry in it.\<close>

fun lookup :: "Machine \<Rightarrow> u64 \<Rightarrow> nat list \<Rightarrow> u64 \<Rightarrow> nat \<times> nat \<times> u64" where
  "lookup m v [] pt = (12, 0, pt)"
| "lookup m v (i # is) pt =
     (let pp = FindHostPage pt m + slot v i; e = pte_at m pp
      in if i = 12 \<or> e AND PAGE_V = 0 then (i, pp, e) else lookup m v is e)"

fun sound :: "Machine \<Rightarrow> u64 \<Rightarrow> nat list \<Rightarrow> u64 \<Rightarrow> bool" where
  "sound m v [] pt \<longleftrightarrow> True"
| "sound m v (i # is) pt \<longleftrightarrow> table_ok pt (i = 39) \<and>
     (let e = pte_at m (FindHostPage pt m + slot v i) in i = 12 \<or> e AND PAGE_V = 0 \<or> sound m v is e)"

abbreviation levels :: "nat list" where "levels \<equiv> [39, 30, 21, 12]"

definition tables_ok :: "Machine \<Rightarrow> bool" where
  "tables_ok m \<longleftrightarrow> (\<forall>v. sound m v levels (s_cr3 m))"

definition find_page :: "Machine \<Rightarrow> u64 \<Rightarrow> nat \<times> nat \<times> u64" where
  "find_page m v = lookup m v levels (s_cr3 m)"

definition mapped :: "Machine \<Rightarrow> u64 \<Rightarrow> bool" where
  "mapped m v \<longleftrightarrow> (case find_page m v of (i, p, e) \<Rightarrow> i = 12 \<and> e AND PAGE_V \<noteq> 0)"

lemma page_bits:
  fixes e :: u64
  shows "(e AND PAGE_V = 0) = (\<not> bit e 0)"
    "(e AND PAGE_RW = 0) = (\<not> bit e 1)"
    "(e AND PAGE_U = 0) = (\<not> bit e 2)"
    "(e AND PAGE_RSRV = 0) = (\<not> bit e 9)"
    "(e AND PAGE_HOST = 0) = (\<not> bit e 10)"
    "(e AND PAGE_MAP = 0) = (\<not> bit e 11)"
    "(e AND PAGE_MUG = 0) = (\<not> bit e 53)"
    "(e AND PAGE_FILE = 0) = (\<not> bit e 54)"
    "(e AND PAGE_XD = 0) = (\<not> bit e 63)"
  using and_exp_eq_0_iff_not_bit [of e 0]
    and_exp_eq_0_iff_not_bit [of e 1]
    and_exp_eq_0_iff_not_bit [of e 2]
    and_exp_eq_0_iff_not_bit [of e 9]
    and_exp_eq_0_iff_not_bit [of e 10]
    and_exp_eq_0_iff_not_bit [of e 11]
    and_exp_eq_0_iff_not_bit [of e 53]
    and_exp_eq_0_iff_not_bit [of e 54]
    and_exp_eq_0_iff_not_bit [of e 63]
  by simp_all

lemma GetPageAddress_ok: "table_ok e root \<Longrightarrow> GetPageAddress e root m = (Return (FindHostPage e m), m)"
  by (auto simp: GetPageAddress_def seq_unassert table_ok_def gets_def page_bits bit_not_iff)

lemma LoadPte_at: "LoadPte p m = (Return (pte_at m p), m)"
  by (simp add: LoadPte_def rd_def gets_def pte_at_def)

lemma descend_lookup:
  assumes "sound m v is pt" "is \<noteq> []"
  shows "\<exists>pde'. descend v is pt pde m = (case lookup m v is pt of (i, p, e) \<Rightarrow> (Return (i, p, e, pde'), m))"
  using assms
proof (induction "is" arbitrary: pt pde)
  case (Cons i "is")
  let ?p = "FindHostPage pt m + slot v i"
  have g: "GetPageAddress pt (i = 39) m = (Return (FindHostPage pt m), m)"
    using Cons.prems by (intro GetPageAddress_ok) simp
  show ?case
  proof (cases "i = 12 \<or> pte_at m ?p AND PAGE_V = 0")
    case True
    then show ?thesis
      by (auto simp: seq_return g LoadPte_at ret_def Let_def)
  next
    case False
    then have s: "sound m v is (pte_at m ?p)" using Cons.prems by (auto simp: Let_def)
    show ?thesis
    proof (cases "is = []")
      case True
      then show ?thesis using False by (auto simp: seq_return g LoadPte_at ret_def Let_def)
    next
      case ne: False
      then show ?thesis
        using Cons.IH [OF s ne] False by (auto simp: seq_return g LoadPte_at Let_def)
    qed
  qed
qed simp

section \<open>Addresses\<close>

lemma slot_unat: "slot v i = unat v div 2 ^ i mod 512 * 8"
proof -
  have s: "shr v i AND 511 = take_bit 9 (drop_bit i v)" by (simp add: take_bit_eq_mask mask_numeral)
  have "slot v i = take_bit 9 (drop_bit i (unat v)) * 8"
    by (simp only: slot_def s unsigned_take_bit_eq unat_drop_bit_eq)
  then show ?thesis by (simp add: take_bit_eq_mod drop_bit_eq_div)
qed

lemma slot_less: "slot v i < 4096"
  by (simp add: slot_unat)

lemma slot_next:
  assumes "slot v 12 div 8 + 1 < 512"
  shows "slot (v + 4096) 12 = slot v 12 + 8" "i \<in> {39, 30, 21} \<Longrightarrow> slot (v + 4096) i = slot v i"
proof -
  define a q t r where a: "a = unat v" and q: "q = a div 2097152" and t: "t = a div 4096 mod 512" and r: "r = a mod 4096"
  have b: "t + 1 < 512" using assms by (simp add: slot_unat a t)
  have "a div 4096 div 512 = q" by (simp add: q div_mult2_eq [symmetric])
  then have e: "a = 2097152 * q + 4096 * t + r" "r < 4096"
    using mult_div_mod_eq [of 4096 a] mult_div_mod_eq [of 512 "a div 4096"] unfolding t r by (linarith, simp)
  have "unat v < 2 ^ LENGTH(64)" by (rule unsigned_less)
  then have "a < 18446744073709551616" by (simp add: a)
  then have "q < 8796093022208" unfolding q by auto
  then have s: "unat (v + 4096) = a + 4096" using e b by (subst unat_plus_simple [THEN iffD1]) (auto simp: a word_le_nat_alt unat_word_ariths)
  have "a div 4096 = 512 * q + t" using e by simp
  then have "(a + 4096) div 4096 = 512 * q + (t + 1)" by simp
  then have "(a + 4096) div 4096 mod 512 = t + 1" using b by (simp only: mod_mult_self3) simp
  then show "slot (v + 4096) 12 = slot v 12 + 8" using b by (simp add: slot_unat s a [symmetric] t)
  have d: "(a + 4096) div 2097152 = a div 2097152"
    unfolding q [symmetric] by (rule div_nat_eqI) (use e b in auto)
  have "(a + 4096) div 1073741824 = a div 1073741824"
    using arg_cong [OF d, of "\<lambda>x. x div 512"] by (simp add: div_mult2_eq [symmetric])
  moreover have "(a + 4096) div 549755813888 = a div 549755813888"
    using arg_cong [OF d, of "\<lambda>x. x div 262144"] by (simp add: div_mult2_eq [symmetric])
  ultimately show "slot (v + 4096) i = slot v i" if "i \<in> {39, 30, 21}"
    using that d by (auto simp: slot_unat s a [symmetric])
qed

lemma sint_plus:
  assumes "- 0x8000000000000000 \<le> sint v + k" "sint v + k < 0x8000000000000000"
  shows "sint ((v::u64) + word_of_int k) = sint v + k"
proof -
  have "v + word_of_int k = word_of_int (sint v + k)" by simp
  then show ?thesis using assms by (simp only: sint_sbintrunc' signed_take_bit_int_eq_self) (simp add: signed_take_bit_int_eq_self)
qed

section \<open>Whether a range is mapped\<close>

text \<open>All pages of the range from \<open>v\<close> to \<open>e\<close>.\<close>

definition all_pages :: "(u64 \<Rightarrow> bool) \<Rightarrow> u64 \<Rightarrow> u64 \<Rightarrow> bool" where
  "all_pages P v e \<longleftrightarrow> (\<forall>k::nat. sint v + 4096 * int k < sint e \<longrightarrow> P (v + word_of_int (4096 * int k)))"

definition in_space :: "u64 \<Rightarrow> u64 \<Rightarrow> bool" where
  "in_space v e \<longleftrightarrow> - 0x800000000000 \<le> sint v \<and> sint v < sint e \<and> sint e \<le> 0x800000000000"

lemma sint_next: "in_space v e \<Longrightarrow> sint (v + 4096) = sint v + 4096"
  using sint_plus [of v 4096] by (simp add: in_space_def)

lemma all_pages_step:
  assumes "in_space v e"
  shows "all_pages P v e \<longleftrightarrow> P v \<and> (sint (v + 4096) \<ge> sint e \<or> all_pages P (v + 4096) e)"
proof -
  note s = sint_next [OF assms]
  have shift: "v + 4096 + word_of_int (4096 * int k) = v + word_of_int (4096 * int (Suc k))" for k
    by (simp add: algebra_simps)
  show ?thesis
  proof
    assume a: "all_pages P v e"
    have "P v" using a [unfolded all_pages_def, rule_format, of 0] assms by (simp add: in_space_def)
    moreover have "all_pages P (v + 4096) e"
      unfolding all_pages_def s
    proof (intro allI impI)
      fix k :: nat assume "sint v + 4096 + 4096 * int k < sint e"
      then show "P (v + 4096 + word_of_int (4096 * int k))"
        using a [unfolded all_pages_def, rule_format, of "Suc k"] unfolding shift by simp
    qed
    ultimately show "P v \<and> (sint (v + 4096) \<ge> sint e \<or> all_pages P (v + 4096) e)" by simp
  next
    assume a: "P v \<and> (sint (v + 4096) \<ge> sint e \<or> all_pages P (v + 4096) e)"
    show "all_pages P v e"
      unfolding all_pages_def
    proof (intro allI impI)
      fix k :: nat assume k: "sint v + 4096 * int k < sint e"
      show "P (v + word_of_int (4096 * int k))"
      proof (cases k)
        case (Suc j)
        then have "all_pages P (v + 4096) e" using a k s by auto
        then have "P (v + 4096 + word_of_int (4096 * int j))"
          using k Suc unfolding all_pages_def s by simp
        then show ?thesis unfolding Suc shift .
      qed (use a in simp)
    qed
  qed
qed

lemma lookup_next:
  assumes "lookup m v levels c = (12, p, e)" "slot v 12 div 8 + 1 < 512"
  shows "lookup m (v + 4096) levels c = (12, p + 8, pte_at m (p + 8))"
  using assms slot_next [OF assms(2)] by (auto simp: Let_def add.assoc split: if_splits)

lemma slot_of_next: "slot v 12 div 8 + 1 < 512 \<Longrightarrow> slot (v + 4096) 12 div 8 = slot v 12 div 8 + 1"
  by (simp add: slot_next)

lemma mapped_run_correct:
  assumes "find_page m v = (12, p, pt)" "in_space v e" "511 \<le> slot v 12 div 8 + n"
  shows "\<exists>r v'. mapped_run n (slot v 12 div 8) v e p pt m = (Return (r, v'), m) \<and>
    (case r of Some b \<Rightarrow> b = all_pages (mapped m) v e
     | None \<Rightarrow> in_space v' e \<and> sint v + 4096 \<le> sint v' \<and> all_pages (mapped m) v e = all_pages (mapped m) v' e)"
  using assms
proof (induction n arbitrary: v p pt)
  case 0
  note step = all_pages_step [OF 0(2), of "mapped m"] sint_next [OF 0(2)]
  have "slot v 12 div 8 + 1 \<ge> 512" using 0(3) by simp
  moreover have "slot v 12 div 8 < 512" using slot_less [of v 12] by auto
  ultimately have "slot v 12 div 8 = 511" by simp
  then show ?case
    using 0 step by (auto simp: mapped_run.simps mapped_def ret_def Let_def in_space_def)
next
  case (Suc n)
  note step = all_pages_step [OF Suc.prems(2), of "mapped m"] sint_next [OF Suc.prems(2)]
  show ?case
  proof (cases "pt AND PAGE_V = 0 \<or> sint (v + 4096) \<ge> sint e \<or> slot v 12 div 8 + 1 = 512")
    case True
    then show ?thesis
      using Suc.prems step by (auto simp: mapped_run.simps mapped_def ret_def Let_def in_space_def)
  next
    case False
    have t: "slot v 12 div 8 + 1 < 512" using False slot_less [of v 12] by auto
    have n: "find_page m (v + 4096) = (12, p + 8, pte_at m (p + 8))"
      using lookup_next [OF _ t] Suc.prems(1) by (simp only: find_page_def)
    have s: "in_space (v + 4096) e" using Suc.prems(2) False step(2) by (auto simp: in_space_def)
    have v: "mapped m v" using Suc.prems(1) False by (simp add: mapped_def)
    have "mapped_run (Suc n) (slot v 12 div 8) v e p pt m =
        mapped_run n (slot (v + 4096) 12 div 8) (v + 4096) e (p + 8) (pte_at m (p + 8)) m"
      using False by (simp add: mapped_run.simps [of "Suc n"] seq_return LoadPte_at slot_of_next [OF t])
    moreover obtain r v' where
      "mapped_run n (slot (v + 4096) 12 div 8) (v + 4096) e (p + 8) (pte_at m (p + 8)) m = (Return (r, v'), m)"
      "case r of Some b \<Rightarrow> b = all_pages (mapped m) (v + 4096) e
       | None \<Rightarrow> in_space v' e \<and> sint (v + 4096) + 4096 \<le> sint v' \<and> all_pages (mapped m) (v + 4096) e = all_pages (mapped m) v' e"
      using Suc.IH [OF n s] Suc.prems(3) slot_of_next [OF t] by auto
    ultimately show ?thesis
      using step v False by (intro exI [of _ r] exI [of _ v']) (auto split: option.splits)
  qed
qed

lemma find_page_level: "find_page m v = (i, p, e) \<Longrightarrow> i \<ge> 12 \<and> (i \<noteq> 12 \<longrightarrow> e AND PAGE_V = 0)"
  by (auto simp: find_page_def Let_def split: if_splits)

lemma crawl_start:
  assumes "tables_ok m" "find_page m v = (i, p, e)"
  shows "\<exists>q. seq (gets s_cr3) (\<lambda>cr3. descend v levels cr3 0) m = (Return (i, p, e, q), m)"
  using descend_lookup [of m v levels "s_cr3 m" 0] assms by (simp add: seq_gets tables_ok_def find_page_def del: descend.simps lookup.simps)

lemma mapped_loop_correct:
  assumes "tables_ok m" "in_space v e" "sint e - sint v \<le> 4096 * int n"
  shows "mapped_loop n v e m = (Return (all_pages (mapped m) v e), m)"
  using assms(2,3)
proof (induction n arbitrary: v)
  case 0
  then show ?case by (simp add: in_space_def)
next
  case (Suc n)
  obtain i p pt where f: "find_page m v = (i, p, pt)" by (cases "find_page m v") auto
  obtain q where d: "seq (gets s_cr3) (\<lambda>cr3. descend v levels cr3 0) m = (Return (i, p, pt, q), m)"
    using crawl_start [OF assms(1) f] by auto
  show ?case
  proof (cases "i = 12")
    case False
    then have "\<not> mapped m v" "i > 12" using f find_page_level [OF f] by (auto simp: mapped_def)
    then show ?thesis
      using all_pages_step [OF Suc.prems(1), of "mapped m"] d by (simp add: mapped_loop.simps [of "Suc n"] seq_return ret_def)
  next
    case True
    obtain r v' where run: "mapped_run 512 (slot v 12 div 8) v e p pt m = (Return (r, v'), m)"
      "case r of Some b \<Rightarrow> b = all_pages (mapped m) v e
       | None \<Rightarrow> in_space v' e \<and> sint v + 4096 \<le> sint v' \<and> all_pages (mapped m) v e = all_pages (mapped m) v' e"
      using mapped_run_correct [of m v p pt e 512] f True Suc.prems(1) by auto
    show ?thesis
    proof (cases r)
      case None
      then have "mapped_loop n v' e m = (Return (all_pages (mapped m) v' e), m)"
        using run(2) Suc.prems(2) by (intro Suc.IH) auto
      then show ?thesis
        using None run True d by (simp add: mapped_loop.simps [of "Suc n"] seq_return)
    next
      case (Some b)
      then show ?thesis using run True d by (simp add: mapped_loop.simps [of "Suc n"] seq_return ret_def)
    qed
  qed
qed

text \<open>An address is canonical when it is its lower 48 bits extended by their sign.\<close>

definition canonical :: "u64 \<Rightarrow> bool" where
  "canonical v \<longleftrightarrow> sar (shl v 16) 16 = v"

lemma valid_in_space:
  assumes "IsValidAddrSize v n" "canonical v"
  shows "in_space v (v + n)" "sint (v + n) = sint v + sint n" "int (unat n) = sint n" "v AND 4095 = 0"
proof -
  have b: "0 < sint n" "v AND 4095 = 0" "- 0x800000000000 \<le> sint v" "sint v + sint n \<le> 0x800000000000"
    using assms by (auto simp: IsValidAddrSize_def canonical_def Let_def)
  have "sint (v + word_of_int (sint n)) = sint v + sint n" using b by (intro sint_plus) auto
  then show s: "sint (v + n) = sint v + sint n" by simp
  show "in_space v (v + n)" using b s by (simp add: in_space_def)
  show "int (unat n) = sint n" using b(1) uint_lt2p [of n] by (simp add: sint_cases split: if_splits)
  show "v AND 4095 = 0" by (rule b(2))
qed

text \<open>C31: Whether a range is fully mapped is decided exactly: the answer of the crawl, table by table, is that the walk finds a valid
  entry for every page of the range, whatever the range covers, and nothing changes.\<close>

theorem fully_mapped_correct:
  assumes "tables_ok m" "IsValidAddrSize v n" "canonical v"
  shows "IsFullyMapped v n m = (Return (\<forall>k::nat. 4096 * int k < sint n \<longrightarrow> mapped m (v + word_of_int (4096 * int k))), m)"
proof -
  note r = valid_in_space [OF assms(2,3)]
  have f: "sint (v + n) - sint v \<le> 4096 * int (unat n div 4096 + 1)"
    using r(2,3) by (simp add: of_nat_div) 
  have "all_pages (mapped m) v (v + n) = (\<forall>k::nat. 4096 * int k < sint n \<longrightarrow> mapped m (v + word_of_int (4096 * int k)))"
    unfolding all_pages_def r(2) by simp
  then show ?thesis
    unfolding IsFullyMapped_def mapped_loop_correct [OF assms(1) r(1) f] by simp
qed

section \<open>A machine with one page\<close>

definition table_entry :: "nat \<Rightarrow> u64 \<Rightarrow> u64" where
  "table_entry i flags = shl (of_nat i) 12 OR flags OR PAGE_HOST OR PAGE_V"

text \<open>Five host pages: the four tables that lead to the page at 0x40200000, and that page.\<close>

definition one_page :: Machine where
  "one_page = idle\<lparr>s_cr3 := table_entry 0 PAGE_RW,
     g_hostpages_n := 5, g_hostpages_p := (\<lambda>i. 0x10000 + i * 0x1000),
     g_pagepool_base := 0x10000, g_pagepool_capacity := 0x5000, g_pagepool_next_page := 5,
     h_ram := Put64 0x10000 (table_entry 1 PAGE_RW) (Put64 0x11008 (table_entry 2 PAGE_RW) (Put64 0x12008 (table_entry 3 PAGE_RW)
        (Put64 0x13000 (table_entry 4 (PAGE_RW OR PAGE_U OR PAGE_XD)) (\<lambda>_. 0)))),
     s_vss := 1, s_rss := 5, s_tables := 3, s_committed := 1\<rparr>"

lemma table_entries [simp]:
  "table_entry 0 2 = 0x403" "table_entry (Suc 0) 2 = 0x1403" "table_entry 2 2 = 0x2403" "table_entry 3 2 = 0x3403"
  "table_entry 4 0x8000000000000006 = 0x8000000000004407"
  by (simp_all add: table_entry_def)

lemma one_page_pages [simp]:
  "FindHostPage 0x403 one_page = 0x10000" "FindHostPage 0x1403 one_page = 0x11000" "FindHostPage 0x2403 one_page = 0x12000"
  "FindHostPage 0x3403 one_page = 0x13000" "FindHostPage 0x8000000000004407 one_page = 0x14000" "s_cr3 one_page = 0x403"
  by (simp_all add: FindHostPage_def one_page_def)

lemma Get64_Put64: "8 dvd p \<Longrightarrow> 8 dvd q \<Longrightarrow> Get64 (Put64 q x s) p = (if p = q then x else Get64 s p)"
proof (cases "p = q")
  case False
  assume "8 dvd p" "8 dvd q"
  then have "p + 8 \<le> q \<or> q + 8 \<le> p" using False by (auto elim!: dvdE)
  then have "Get64 (Put64 q x s) p = Get64 s p" by (intro Get_cong Put_frame) auto
  then show ?thesis using False by simp
qed (simp add: Get_Put)

lemma slot_aligned [simp]: "8 dvd slot v i"
  by (simp add: slot_unat)

lemma one_page_ptes:
  assumes "8 dvd p"
  shows "pte_at one_page p = (if p = 0x10000 then 0x1403 else if p = 0x11008 then 0x2403 else if p = 0x12008 then 0x3403
           else if p = 0x13000 then 0x8000000000004407 else 0)"
proof -
  have "Get64 (\<lambda>_. 0) p = 0" by (simp add: Get64_def)
  then show ?thesis using assms by (simp add: pte_at_def one_page_def Get64_Put64)
qed

lemma one_page_slots [simp]:
  "pte_at one_page 0x10000 = 0x1403" "pte_at one_page 0x11008 = 0x2403" "pte_at one_page 0x12008 = 0x3403"
  "pte_at one_page 0x13000 = 0x8000000000004407"
  by (simp_all add: one_page_ptes)

lemma one_page_tables:
  "pte_at one_page (0x10000 + slot v i) = (if slot v i = 0 then 0x1403 else 0)"
  "pte_at one_page (0x11000 + slot v i) = (if slot v i = 8 then 0x2403 else 0)"
  "pte_at one_page (0x12000 + slot v i) = (if slot v i = 8 then 0x3403 else 0)"
  "pte_at one_page (0x13000 + slot v i) = (if slot v i = 0 then 0x8000000000004407 else 0)"
  using slot_less [of v i] by (subst one_page_ptes; simp)+

lemma one_page_walk:
  "find_page one_page v =
     (if slot v 39 \<noteq> 0 then (39, 0x10000 + slot v 39, 0)
      else if slot v 30 \<noteq> 8 then (30, 0x11000 + slot v 30, 0)
      else if slot v 21 \<noteq> 8 then (21, 0x12000 + slot v 21, 0)
      else (12, 0x13000 + slot v 12, if slot v 12 = 0 then 0x8000000000004407 else 0))"
  by (simp add: find_page_def one_page_tables Let_def)

lemma one_page_ok: "tables_ok one_page"
  by (simp add: tables_ok_def one_page_tables Let_def table_ok_def)

lemma one_page_mapped: "mapped one_page 0x40200000" "\<not> mapped one_page 0x401ff000"
  by (simp_all add: mapped_def one_page_walk Let_def slot_def)

lemma one_page_ranges: "IsValidAddrSize 0x40200000 0x1000" "canonical 0x40200000" "IsValidAddrSize 0x401ff000 0x2000" "canonical 0x401ff000"
  by (simp_all add: IsValidAddrSize_def canonical_def Let_def)

theorem fully_mapped_correct_witness:
  "IsFullyMapped 0x40200000 0x1000 one_page = (Return True, one_page) \<and>
   IsFullyMapped 0x401ff000 0x2000 one_page = (Return False, one_page)"
proof -
  have "k = 0" if "4096 * int k < 4096" for k using that by linarith
  then have "IsFullyMapped 0x40200000 0x1000 one_page = (Return True, one_page)"
    using fully_mapped_correct [OF one_page_ok one_page_ranges(1,2)] one_page_mapped(1) by fastforce
  moreover have "IsFullyMapped 0x401ff000 0x2000 one_page = (Return False, one_page)"
    using fully_mapped_correct [OF one_page_ok one_page_ranges(3,4)] one_page_mapped(2) by (fastforce intro: exI [of _ 0])
  ultimately show ?thesis by simp
qed

section \<open>Whether a range is unmapped\<close>

lemma unmapped_step:
  assumes "tables_ok m" "find_page m v = (i, p, pt)" "sint v < sint e"
  shows "unmapped_loop (Suc n) v e m =
    (if pt AND PAGE_V = 0 then unmapped_loop n (v + shl 1 i) e m else (Return False, m))"
proof -
  obtain q where "seq (gets s_cr3) (\<lambda>cr3. descend v levels cr3 0) m = (Return (i, p, pt, q), m)"
    using crawl_start [OF assms(1,2)] by auto
  then show ?thesis using assms(3) by (simp add: unmapped_loop.simps [of "Suc n"] seq_return ret_def)
qed

lemma find_page_levels: "find_page m v = (i, p, pt) \<Longrightarrow> i \<in> {39, 30, 21, 12}"
  by (auto simp: find_page_def Let_def split: if_splits)

lemma skip_int: "i \<in> {39, 30, 21, 12} \<Longrightarrow> shl (1::u64) i = word_of_int (2 ^ i)"
  by auto

lemma skip_pages: "i \<in> {39, 30, 21, 12} \<Longrightarrow> \<exists>j::nat. 2 ^ i = 4096 * int j \<and> 1 \<le> j"
proof -
  assume "i \<in> {39, 30, 21, 12}"
  then have "2 ^ i = 4096 * int (2 ^ (i - 12)) \<and> 1 \<le> (2::nat) ^ (i - 12)" by auto
  then show ?thesis by blast
qed

lemma unmapped_loop_false:
  assumes "tables_ok m" "- 0x800000000000 \<le> sint v" "sint v \<le> 0x1000000000000" "sint e \<le> 0x800000000000"
    "sint e - sint v \<le> 4096 * int n"
  shows "\<exists>b. unmapped_loop n v e m = (Return b, m) \<and> (\<not> b \<longrightarrow> \<not> all_pages (\<lambda>w. \<not> mapped m w) v e)"
  using assms(2,3,5)
proof (induction n arbitrary: v)
  case 0
  then show ?case by (intro exI [of _ True]) (simp add: unmapped_loop.simps ret_def)
next
  case (Suc n)
  show ?case
  proof (cases "sint v < sint e")
    case False
    then show ?thesis by (intro exI [of _ True]) (simp add: unmapped_loop.simps ret_def)
  next
    case True
    obtain i p pt where f: "find_page m v = (i, p, pt)" by (cases "find_page m v") auto
    note i = find_page_levels [OF f] skip_int [OF find_page_levels [OF f]]
    show ?thesis
    proof (cases "pt AND PAGE_V = 0")
      case False
      then have "mapped m v" using f find_page_level [OF f] by (auto simp: mapped_def)
      then have "\<not> all_pages (\<lambda>w. \<not> mapped m w) v e"
        unfolding all_pages_def using True by (auto intro!: exI [of _ 0])
      then show ?thesis using unmapped_step [OF assms(1) f True, of n] False by auto
    next
      case True': True
      obtain j where j: "2 ^ i = 4096 * int j" "1 \<le> j" using skip_pages [OF i(1)] by auto
      have small: "(2::int) ^ i \<le> 549755813888" "0 \<le> (2::int) ^ i" using i(1) by auto
      then have s: "sint (v + shl 1 i) = sint v + 4096 * int j"
        unfolding i(2) j(1) [symmetric] using True assms(4) Suc.prems small by (intro sint_plus) linarith+
      have "\<exists>b. unmapped_loop n (v + shl 1 i) e m = (Return b, m) \<and>
          (\<not> b \<longrightarrow> \<not> all_pages (\<lambda>w. \<not> mapped m w) (v + shl 1 i) e)"
      proof (rule Suc.IH)
        show "sint (v + shl 1 i) \<le> 0x1000000000000"
          unfolding s j(1) [symmetric] using small True assms(4) by linarith
      qed (use s j Suc.prems in auto)
      moreover have "\<not> all_pages (\<lambda>w. \<not> mapped m w) (v + shl 1 i) e \<Longrightarrow> \<not> all_pages (\<lambda>w. \<not> mapped m w) v e"
      proof -
        assume "\<not> all_pages (\<lambda>w. \<not> mapped m w) (v + shl 1 i) e"
        then obtain k where "sint v + 4096 * int j + 4096 * int k < sint e" "mapped m (v + shl 1 i + word_of_int (4096 * int k))"
          unfolding all_pages_def s by auto
        moreover have "v + shl 1 i + word_of_int (4096 * int k) = v + word_of_int (4096 * int (j + k))"
          unfolding i(2) j(1) by (simp add: algebra_simps)
        ultimately show ?thesis unfolding all_pages_def by (intro notI) (auto simp: algebra_simps dest!: spec [of _ "j + k"])
      qed
      ultimately show ?thesis using unmapped_step [OF assms(1) f True] True' by auto
    qed
  qed
qed

text \<open>Below one table the walk only differs in the last step.\<close>

lemma same_tables:
  assumes "unat v div 2097152 = unat w div 2097152"
  shows "i \<in> {39, 30, 21} \<Longrightarrow> slot v i = slot w i"
proof -
  have "unat v div 1073741824 = unat w div 1073741824"
    using arg_cong [OF assms, of "\<lambda>x. x div 512"] by (simp add: div_mult2_eq [symmetric])
  moreover have "unat v div 549755813888 = unat w div 549755813888"
    using arg_cong [OF assms, of "\<lambda>x. x div 262144"] by (simp add: div_mult2_eq [symmetric])
  ultimately show "i \<in> {39, 30, 21} \<Longrightarrow> slot v i = slot w i"
    using assms by (auto simp: slot_unat)
qed

lemma missing_table:
  assumes "unat v div 2097152 = unat w div 2097152" "find_page m v = (i, p, pt)" "i \<noteq> 12"
  shows "find_page m w = (i, p, pt)"
  using assms same_tables [OF assms(1)] by (auto simp: find_page_def Let_def split: if_splits)

lemma unat_next_page:
  assumes "unat (v::u64) mod 2097152 + 4096 * k < 2097152"
  shows "unat (v + word_of_int (4096 * int k)) = unat v + 4096 * k"
proof -
  have v: "unat v < 18446744073709551616"
    proof -
    have "unat v < 2 ^ LENGTH(64)" by (rule unsigned_less)
    then show ?thesis by simp
  qed
  have "unat v div 2097152 * 2097152 + unat v mod 2097152 = unat v" by simp
  moreover have "unat v div 2097152 < 8796093022208" by (rule less_mult_imp_div_less) (use v in simp)
  ultimately have "unat v + 4096 * k < 18446744073709551616" using assms by linarith
  moreover have "v + word_of_int (4096 * int k) = of_nat (unat v + 4096 * k)" by simp
  ultimately show ?thesis by (simp only: unat_of_nat) simp
qed

lemma unmapped_loop_true:
  assumes "tables_ok m" "sint e \<le> 0x800000000000" "- 0x800000000000 \<le> sint v"
    "int (unat v mod 2097152) + (sint e - sint v) \<le> 2097152" "sint e - sint v \<le> 4096 * int n"
    "unmapped_loop n v e m = (Return True, m)"
  shows "all_pages (\<lambda>w. \<not> mapped m w) v e"
  using assms(3-)
proof (induction n arbitrary: v)
  case 0
  then show ?case by (simp add: all_pages_def)
next
  case (Suc n)
  show ?case
  proof (cases "sint v < sint e")
    case False
    then show ?thesis by (simp add: all_pages_def)
  next
    case True
    obtain i p pt where f: "find_page m v = (i, p, pt)" by (cases "find_page m v") auto
    have pt: "pt AND PAGE_V = 0" and rest: "unmapped_loop n (v + shl 1 i) e m = (Return True, m)"
      using unmapped_step [OF assms(1) f True] Suc.prems(4) by (auto split: if_splits)
    have space: "in_space v e" using True assms(2) Suc.prems by (simp add: in_space_def)
    show ?thesis
    proof (cases "i = 12")
      case False
      show ?thesis
        unfolding all_pages_def
      proof (intro allI impI)
        fix k :: nat assume "sint v + 4096 * int k < sint e"
        then have k: "unat v mod 2097152 + 4096 * k < 2097152" using Suc.prems(2) by linarith
        then have "unat v div 2097152 = (unat v + 4096 * k) div 2097152"
          using mult_div_mod_eq [of 2097152 "unat v"] by (intro div_nat_eqI [symmetric]; simp only: mult_Suc_right; linarith)
        then have "find_page m (v + word_of_int (4096 * int k)) = (i, p, pt)"
          using missing_table [OF _ f False] by (simp only: unat_next_page [OF k])
        then show "\<not> mapped m (v + word_of_int (4096 * int k))" using False by (simp add: mapped_def)
      qed
    next
      case i: True
      have "\<not> mapped m v" using f pt by (simp add: mapped_def)
      moreover have "all_pages (\<lambda>w. \<not> mapped m w) (v + 4096) e" if "sint (v + 4096) < sint e"
      proof -
        note s = sint_next [OF space]
        have k: "unat v mod 2097152 + 4096 * 1 < 2097152" using Suc.prems(2) that s by linarith
        have u: "unat (v + 4096) = unat v + 4096" using unat_next_page [OF k] by simp
        have r: "unat (v + 4096) mod 2097152 = unat v mod 2097152 + 4096"
          unfolding u by (subst mod_add_left_eq [symmetric]) (use k in simp)
        show ?thesis
        proof (rule Suc.IH)
          show "- 0x800000000000 \<le> sint (v + 4096)" unfolding s using Suc.prems(1) by linarith
          show "int (unat (v + 4096) mod 2097152) + (sint e - sint (v + 4096)) \<le> 2097152"
            unfolding s r using Suc.prems(2) by linarith
          show "sint e - sint (v + 4096) \<le> 4096 * int n" unfolding s using Suc.prems(3) by simp
          show "unmapped_loop n (v + 4096) e m = (Return True, m)" using rest i by simp
        qed
      qed
      ultimately show ?thesis unfolding all_pages_step [OF space] by (meson not_le)
    qed
  qed
qed

text \<open>C32: Whether a range is fully unmapped: the answer no is always right, some page of the range is mapped; the answer yes is right for
  a range that lies under one table of the last level, but not in general: where a table is missing the search goes on a whole table further from
  where it is, not at the next table, and passes over mapped pages.\<close>

theorem fully_unmapped_answer:
  assumes "tables_ok m" "IsValidAddrSize v n" "canonical v"
  shows "\<exists>b. IsFullyUnmapped v n m = (Return b, m) \<and>
    (\<not> b \<longrightarrow> (\<exists>k::nat. 4096 * int k < sint n \<and> mapped m (v + word_of_int (4096 * int k)))) \<and>
    (b \<and> unat v mod 2097152 + unat n \<le> 2097152 \<longrightarrow>
       (\<forall>k::nat. 4096 * int k < sint n \<longrightarrow> \<not> mapped m (v + word_of_int (4096 * int k))))"
proof -
  note r = valid_in_space [OF assms(2,3)]
  have s: "- 0x800000000000 \<le> sint v" "sint v \<le> 0x1000000000000" "sint (v + n) \<le> 0x800000000000"
    using r(1) by (auto simp: in_space_def)
  have f: "sint (v + n) - sint v \<le> 4096 * int (unat n div 4096 + 1)" using r(2,3) by (simp add: of_nat_div)
  obtain b where b: "IsFullyUnmapped v n m = (Return b, m)" "\<not> b \<longrightarrow> \<not> all_pages (\<lambda>w. \<not> mapped m w) v (v + n)"
    using unmapped_loop_false [OF assms(1) s f] unfolding IsFullyUnmapped_def by auto
  have "all_pages (\<lambda>w. \<not> mapped m w) v (v + n)" if "b" "unat v mod 2097152 + unat n \<le> 2097152"
  proof (rule unmapped_loop_true [OF assms(1) s(3,1) _ f])
    show "int (unat v mod 2097152) + (sint (v + n) - sint v) \<le> 2097152" using that(2) r(2,3) by linarith
    show "unmapped_loop (unat n div 4096 + 1) v (v + n) m = (Return True, m)" using b(1) that(1) by (simp add: IsFullyUnmapped_def)
  qed
  then show ?thesis using b unfolding all_pages_def r(2) by (intro exI [of _ b]) auto
qed

theorem fully_unmapped_answer_witness:
  "(\<exists>b. IsFullyUnmapped 0x40200000 0x1000 one_page = (Return b, one_page) \<and> \<not> b) \<and>
   (\<exists>b. IsFullyUnmapped 0x401ff000 0x1000 one_page = (Return b, one_page))"
proof -
  have "IsValidAddrSize 0x401ff000 0x1000" by (simp add: IsValidAddrSize_def Let_def)
  from fully_unmapped_answer [OF one_page_ok this one_page_ranges(4)]
  have "\<exists>b. IsFullyUnmapped 0x401ff000 0x1000 one_page = (Return b, one_page)" by blast
  moreover obtain b where "IsFullyUnmapped 0x40200000 0x1000 one_page = (Return b, one_page)"
    "b \<longrightarrow> (\<forall>k::nat. 4096 * int k < sint (0x1000 :: u64) \<longrightarrow> \<not> mapped one_page (0x40200000 + word_of_int (4096 * int k)))"
    using fully_unmapped_answer [OF one_page_ok one_page_ranges(1,2)] by auto
  moreover from this(2) have "\<not> b" using one_page_mapped(1) by (auto dest!: spec [of _ 0])
  ultimately show ?thesis by blast
qed

section \<open>Pages that are passed over\<close>

lemma find_page_frame:
  assumes "h_ram m' = h_ram m" "g_hostpages_p m' = g_hostpages_p m" "s_cr3 m' = s_cr3 m"
  shows "find_page m' v = find_page m v"
proof -
  have "lookup m' v is pt = lookup m v is pt" for "is" pt
    by (induction "is" arbitrary: pt) (simp_all add: FindHostPage_def pte_at_def assms Let_def)
  then show ?thesis by (simp only: find_page_def assms(3))
qed

lemma one_page_hole: "\<exists>q. seq (gets s_cr3) (\<lambda>cr3. descend 0x401ff000 levels cr3 0) one_page = (Return (21, 0x12000, 0, q), one_page)"
  by (rule crawl_start [OF one_page_ok]) (simp add: one_page_walk slot_def)


end
