(* ===== verification/ProtectSpec.thy ===== *)
theory ProtectSpec
  imports VirtualSpec
begin

text \<open>
  Protecting pages: the encoding of protections, editing an entry of the page table, and what \<open>ProtectVirtual\<close> does to every page.
\<close>

declare bit_numeral_word_iff [simp del]

section \<open>Protections\<close>

lemma small_prot: "(p AND 4 = (0::u32)) = (\<not> bit p 2)" "(p AND 2 = (0::u32)) = (\<not> bit p 1)" "(p AND 1 = (0::u32)) = (\<not> bit p 0)"
  using and_exp_eq_0_iff_not_bit [of p 2] and_exp_eq_0_iff_not_bit [of p 1] and_exp_eq_0_iff_not_bit [of p 0] by simp_all

definition prot_mask :: u64 where
  "prot_mask = PAGE_U OR PAGE_RW OR PAGE_XD"

lemma page_flag_bit:
  "bit (1::u64) i \<longleftrightarrow> i = 0" "bit (2::u64) i \<longleftrightarrow> i = 1" "bit (4::u64) i \<longleftrightarrow> i = 2" "bit (0x8000000000000000::u64) i \<longleftrightarrow> i = 63"
  using bit_exp_iff [where 'a = "64 word", of 0 i] bit_exp_iff [where 'a = "64 word", of 1 i]
    bit_exp_iff [where 'a = "64 word", of 2 i] bit_exp_iff [where 'a = "64 word", of 63 i]
  by auto

lemma prot_mask_bit: "bit prot_mask i \<longleftrightarrow> i = 1 \<or> i = 2 \<or> i = 63"
  unfolding prot_mask_def bit_or_iff page_flag_bit by auto

lemma SetProtection_bit: "bit (SetProtection p) i \<longleftrightarrow> i = 2 \<and> bit p 0 \<or> i = 1 \<and> bit p 1 \<or> i = 63 \<and> \<not> bit p 2"
proof -
  show ?thesis
    by (simp add: SetProtection_def small_prot bit_not_iff Let_def bit_or_iff page_flag_bit)
qed

lemma GetProtection_bit: "bit (GetProtection k) i \<longleftrightarrow> i = 0 \<and> bit k 2 \<or> i = 1 \<and> bit k 1 \<or> i = 2 \<and> \<not> bit k 63"
proof -
  have b: "bit (4::u32) i \<longleftrightarrow> i = 2" "bit (2::u32) i \<longleftrightarrow> i = 1" "bit (1::u32) i \<longleftrightarrow> i = 0"
    using bit_exp_iff [where 'a = "32 word", of 2 i] bit_exp_iff [where 'a = "32 word", of 1 i] bit_exp_iff [where 'a = "32 word", of 0 i]
    by auto
  show ?thesis
    by (auto simp: GetProtection_def page_bits Let_def bit_or_iff b)
qed


section \<open>Editing an entry\<close>

text \<open>Addresses of the same page, as far as the tables see them, and the slots that a walk visits.\<close>

definition same_page :: "u64 \<Rightarrow> u64 \<Rightarrow> bool" where
  "same_page v w \<longleftrightarrow> (\<forall>i \<in> set levels. slot v i = slot w i)"

fun trail :: "Machine \<Rightarrow> u64 \<Rightarrow> nat list \<Rightarrow> u64 \<Rightarrow> (nat \<times> nat) list" where
  "trail m v [] pt = []"
| "trail m v (i # is) pt =
     (let pp = FindHostPage pt m + slot v i; e = pte_at m pp
      in (i, pp) # (if i = 12 \<or> e AND PAGE_V = 0 then [] else trail m v is e))"

text \<open>Every slot that a walk visits is apart from the slots of the pages that are not where it leads.\<close>

definition separate :: "Machine \<Rightarrow> bool" where
  "separate m \<longleftrightarrow> (\<forall>v w p e i q. find_page m v = (12, p, e) \<and> (i, q) \<in> set (trail m w levels (s_cr3 m)) \<longrightarrow>
     i = 12 \<and> q = p \<and> same_page v w \<or> q + 8 \<le> p \<or> p + 8 \<le> q)"

lemma same_page_refl [simp]: "same_page v v"
  by (simp add: same_page_def)

lemma find_same_page: "same_page v w \<Longrightarrow> find_page m v = find_page m w"
  by (simp add: same_page_def find_page_def Let_def)

lemma lookup_trail: "lookup m v is pt = (i, p, e) \<Longrightarrow> is \<noteq> [] \<Longrightarrow> 12 \<in> set is \<Longrightarrow> (i, p) \<in> set (trail m v is pt)"
proof (induction "is" arbitrary: pt)
  case (Cons j "is")
  then show ?case by (cases "is = []") (auto simp: Let_def split: if_splits)
qed simp

definition edits :: "nat \<Rightarrow> u64 \<Rightarrow> Machine \<Rightarrow> Machine \<Rightarrow> bool" where
  "edits p e' m m' \<longleftrightarrow> h_ram m' = Put64 p e' (h_ram m) \<and> g_hostpages_p m' = g_hostpages_p m \<and> s_cr3 m' = s_cr3 m"

lemma edits_pte:
  assumes "edits p e' m m'"
  shows "pte_at m' p = e'" "q + 8 \<le> p \<or> p + 8 \<le> q \<Longrightarrow> pte_at m' q = pte_at m q"
  using assms by (auto simp: edits_def pte_at_def Get_Put intro!: Get_cong Put_frame)

lemma edits_walk:
  assumes "edits p e' m m'" "\<forall>(i, q) \<in> set (trail m w is pt). i = 12 \<and> q = p \<or> q + 8 \<le> p \<or> p + 8 \<le> q"
  shows "trail m' w is pt = trail m w is pt \<and> sound m' w is pt = sound m w is pt \<and>
    (is \<noteq> [] \<longrightarrow> 12 \<in> set is \<longrightarrow> lookup m' w is pt = (case lookup m w is pt of (i, q, e) \<Rightarrow> (i, q, if i = 12 \<and> q = p then e' else e)))"
  using assms(2)
proof (induction "is" arbitrary: pt)
  case (Cons i "is")
  let ?q = "FindHostPage pt m + slot w i"
  have f: "FindHostPage pt m' = FindHostPage pt m" using assms(1) by (simp add: edits_def FindHostPage_def)
  consider "i = 12" "?q = p" | "?q + 8 \<le> p \<or> p + 8 \<le> ?q" using Cons.prems by (auto simp: Let_def)
  then show ?case
  proof cases
    case 1
    then show ?thesis using edits_pte(1) [OF assms(1)] by (simp add: f Let_def)
  next
    case 2
    then have "pte_at m' ?q = pte_at m ?q" using edits_pte(2) [OF assms(1)] by blast
    then show ?thesis using Cons 2 by (cases "is = []") (auto simp: f Let_def split: prod.splits)
  qed
qed simp

lemma edits_page:
  assumes "edits p e' m m'" "separate m" "find_page m v = (12, p, e)"
  shows "find_page m' w = (if same_page v w then (12, p, e') else find_page m w)"
    "separate m'" "tables_ok m' = tables_ok m"
proof -
  have apart: "\<forall>(i, q) \<in> set (trail m w levels (s_cr3 m)). i = 12 \<and> q = p \<or> q + 8 \<le> p \<or> p + 8 \<le> q" for w
    using assms(2,3) by (fastforce simp: separate_def simp del: trail.simps)
  note walk = edits_walk [OF assms(1) apart]
  have cr3: "s_cr3 m' = s_cr3 m" using assms(1) by (simp add: edits_def)
  have found: "find_page m' w = (case find_page m w of (i, q, e) \<Rightarrow> (i, q, if i = 12 \<and> q = p then e' else e))" for w
    using walk [of w] by (simp only: find_page_def cr3) simp
  have same: "same_page v w" if "find_page m w = (12, p, e0)" for w e0
  proof -
    have "(12, p) \<in> set (trail m w levels (s_cr3 m))" using that lookup_trail [of m w levels "s_cr3 m" 12 p e0] by (simp add: find_page_def del: lookup.simps trail.simps)
    then show ?thesis using assms(2) [unfolded separate_def, rule_format, OF conjI [OF assms(3)]] by force
  qed
  show "find_page m' w = (if same_page v w then (12, p, e') else find_page m w)"
  proof (cases "same_page v w")
    case True
    then have "find_page m w = (12, p, e)" using find_same_page [OF True] assms(3) by metis
    then show ?thesis using found [of w] True by simp
  next
    case False
    then show ?thesis using found [of w] same [of w] by (cases "find_page m w") auto
  qed
  show "tables_ok m' = tables_ok m" using walk by (simp add: tables_ok_def cr3 del: sound.simps)
  show "separate m'"
    unfolding separate_def
  proof (intro allI impI, elim conjE)
    fix a b q f i r assume a: "find_page m' a = (12, q, f)" "(i, r) \<in> set (trail m' b levels (s_cr3 m'))"
    then have "(i, r) \<in> set (trail m b levels (s_cr3 m))" using walk [of b] cr3 by (simp del: trail.simps)
    moreover obtain f' where "find_page m a = (12, q, f')" using a(1) found [of a] by (auto split: prod.splits)
    ultimately show "i = 12 \<and> r = q \<and> same_page a b \<or> r + 8 \<le> q \<or> q + 8 \<le> r"
      using assms(2) unfolding separate_def by blast
  qed
qed

section \<open>Protecting a range\<close>

definition reprotected :: "u32 \<Rightarrow> u64 \<Rightarrow> u64" where
  "reprotected prot e = (e AND NOT prot_mask) OR SetProtection prot"

lemma reprotected_twice [simp]: "reprotected prot (reprotected prot e) = reprotected prot e"
  unfolding reprotected_def
  by (rule bit_word_eqI) (auto simp: bit_and_iff bit_or_iff bit_not_iff prot_mask_bit SetProtection_bit)

lemma reprotected_bit: "i \<notin> {1, 2, 63} \<Longrightarrow> i < 64 \<Longrightarrow> bit (reprotected prot e) i = bit e i"
  by (auto simp: reprotected_def bit_and_iff bit_or_iff bit_not_iff prot_mask_bit SetProtection_bit)

lemma reprotected_valid [simp]: "(reprotected prot e AND PAGE_V = 0) = (e AND PAGE_V = 0)"
  using reprotected_bit [of 0 prot e] by (simp add: page_bits)

text \<open>
  After reprotecting the pages of a set, the tables are sound, the pages of the set have the new protection, and
  nothing else differs but what the host did; \<open>good_host\<close> says that the host has not failed.
\<close>

definition aligned_files :: "Machine \<Rightarrow> bool" where
  "aligned_files m \<longleftrightarrow> (\<forall>v p e. find_page m v = (12, p, e) \<and> e AND PAGE_MUG \<noteq> 0 \<longrightarrow> FindHostPage e m mod 4096 = 0)"

definition good_host :: "Machine \<Rightarrow> bool" where
  "good_host m \<longleftrightarrow> list_all (\<lambda>rc. rc = 0) (h_rcs m)"

definition applied :: "(u64 \<Rightarrow> u64) \<Rightarrow> (u64 \<Rightarrow> bool) \<Rightarrow> Machine \<Rightarrow> Machine \<Rightarrow> bool" where
  "applied u S m m' \<longleftrightarrow> tables_ok m' \<and> separate m' \<and> g_hostpages_p m' = g_hostpages_p m \<and>
     (good_host m \<longrightarrow> good_host m') \<and>
     (\<forall>w. find_page m' w = (case find_page m w of (i, p, e) \<Rightarrow> (i, p, if i = 12 \<and> S w then u e else e)))"

lemma applied_refl: "tables_ok m \<Longrightarrow> separate m \<Longrightarrow> applied u (\<lambda>_. False) m m"
  by (simp add: applied_def split: prod.splits)

lemma applied_trans:
  assumes "applied u S m k" "applied u T k m'" "\<And>e. u (u e) = u e"
  shows "applied u (\<lambda>w. S w \<or> T w) m m'"
  using assms unfolding applied_def by (auto split: prod.splits)

lemma aligned_applied:
  assumes "aligned_files m" "applied (reprotected prot) S m m'"
  shows "aligned_files m'"
  unfolding aligned_files_def
proof (intro allI impI, elim conjE)
  fix v p e assume e: "find_page m' v = (12, p, e)" "e AND PAGE_MUG \<noteq> 0"
  obtain f where f: "find_page m v = (12, p, f)" "e = (if S v then reprotected prot f else f)"
    using assms(2) e(1) unfolding applied_def by (auto split: prod.splits)
  have "f AND PAGE_MUG \<noteq> 0" using e(2) f(2) reprotected_bit [of 53 prot f] by (auto simp: page_bits split: if_splits)
  then have "FindHostPage f m mod 4096 = 0" using assms(1) f(1) unfolding aligned_files_def by blast
  moreover have "reprotected prot f AND PAGE_TA = f AND PAGE_TA"
  proof (rule bit_word_eqI)
    have ta: "bit (PAGE_TA :: u64) i \<longleftrightarrow> 12 \<le> i \<and> i < 48" for i
    proof -
      have eq: "(PAGE_TA :: u64) = mask 48 AND NOT (mask 12)" by (simp add: mask_numeral)
      show ?thesis unfolding eq bit_and_iff bit_not_iff bit_mask_iff by auto
    qed
    fix n show "bit (reprotected prot f AND PAGE_TA) n = bit (f AND PAGE_TA) n"
      using reprotected_bit [of n prot f] unfolding bit_and_iff ta by (cases "n \<in> {1, 2, 63}") auto
  qed
  then have ta: "e AND PAGE_TA = f AND PAGE_TA" using f(2) by simp
  have "FindHostPage e m' = FindHostPage f m"
    unfolding FindHostPage_def ta using assms(2) by (simp add: applied_def)
  ultimately show "FindHostPage e m' mod 4096 = 0" by simp
qed

lemma host_rc_spec:
  "\<exists>rc k. host_rc m = (Return rc, k) \<and> h_ram k = h_ram m \<and> g_hostpages_p k = g_hostpages_p m \<and> s_cr3 k = s_cr3 m \<and>
     (good_host m \<longrightarrow> rc = 0 \<and> good_host k)"
proof (cases "h_rcs m")
  case (Cons rc rcs)
  then show ?thesis
    by (cases "rc = -1") (simp_all add: host_rc_def seq_gets seq_modify seq_assoc ret_def good_host_def)
qed (simp add: host_rc_def seq_gets ret_def good_host_def)

lemma protect_page_spec:
  assumes "pte_at m p = e" "e AND PAGE_MUG \<noteq> 0 \<longrightarrow> FindHostPage e m mod 4096 = 0" "r = 0 \<or> r = -1"
  shows "\<exists>r' x' m'. protect_page p e prot sp False (r, x) m = (Return (r', x'), m') \<and> edits p (reprotected prot e) m m' \<and>
    (r' = 0 \<or> r' = -1) \<and> (good_host m \<longrightarrow> good_host m' \<and> r' = r)"
proof -
  let ?mug = "e AND (PAGE_HOST OR PAGE_MAP OR PAGE_MUG) = (PAGE_HOST OR PAGE_MAP OR PAGE_MUG)"
  let ?first = "if ?mug then
            seq (gets (FindHostPage e)) (\<lambda>real.
            thn (if real mod GetSystemPageSize \<noteq> 0 then diverge else ret ())
            (seq (Mprotect real GetSystemPageSize (sint sp)) (\<lambda>rc.
             ret (if rc \<noteq> 0 then (-1, x) else (r, x)))))
          else ret (r, x)"
  have mug: "e AND PAGE_MUG \<noteq> 0" if ?mug
  proof -
    have "bit (e AND (PAGE_HOST OR PAGE_MAP OR PAGE_MUG)) 53 = bit (PAGE_HOST OR PAGE_MAP OR PAGE_MUG :: u64) 53" using that by simp
    then show ?thesis by (simp add: bit_and_iff page_bits bit_or_iff) (simp add: bit_numeral_word_iff)
  qed
  obtain r' k where first: "?first m = (Return (r', x), k)" "h_ram k = h_ram m" "g_hostpages_p k = g_hostpages_p m" "s_cr3 k = s_cr3 m"
    "r' = 0 \<or> r' = -1" "good_host m \<longrightarrow> good_host k \<and> r' = r"
  proof (cases ?mug)
    case False
    then show ?thesis using that [of r m] assms(3) by (simp add: ret_def)
  next
    case True
    obtain rc k where k: "host_rc m = (Return rc, k)" "h_ram k = h_ram m" "g_hostpages_p k = g_hostpages_p m" "s_cr3 k = s_cr3 m"
      "good_host m \<longrightarrow> rc = 0 \<and> good_host k" using host_rc_spec by blast
    have "?first m = (Return (if rc \<noteq> 0 then -1 else r, x), k)"
      using assms(2) mug [OF True] k(1) True by (simp add: seq_gets Mprotect_def GetSystemPageSize_def seq_return ret_def)
    then show ?thesis using that [of "if rc \<noteq> 0 then -1 else r" k] k assms(3) by auto
  qed
  have cas: "CasPte p e x' k = (Return True, k\<lparr>h_ram := Put64 p x' (h_ram k)\<rparr>)" for x'
    using assms(1) first(2) by (simp add: CasPte_def rd_def wr_def seq_gets seq_modify pte_at_def ret_def)
  show ?thesis
    unfolding protect_page_def snd_conv seq_return [of ?first m "(r', x)" k, OF first(1)]
    using first(2-6)
    by (simp add: Let_def seq_return cas ret_def edits_def reprotected_def prot_mask_def good_host_def seq_assoc)
qed

definition in_range :: "u64 \<Rightarrow> u64 \<Rightarrow> u64 \<Rightarrow> bool" where
  "in_range v e w \<longleftrightarrow> \<not> all_pages (\<lambda>u. \<not> same_page u w) v e"

lemma in_range_step:
  "in_space v e \<Longrightarrow> in_range v e w \<longleftrightarrow> same_page v w \<or> (sint (v + 4096) < sint e \<and> in_range (v + 4096) e w)"
  unfolding in_range_def by (subst all_pages_step) (auto simp: not_le)

lemma edits_applied:
  assumes "edits p (u pt) m m'" "tables_ok m" "separate m" "find_page m v = (12, p, pt)" "good_host m \<longrightarrow> good_host m'"
  shows "applied u (same_page v) m m'"
proof -
  have "find_page m' w = (case find_page m w of (i, p, e) \<Rightarrow> (i, p, if i = 12 \<and> same_page v w then u e else e))" for w
  proof (cases "same_page v w")
    case True
    then have "find_page m w = (12, p, pt)" using find_same_page [OF True] assms(4) by metis
    then show ?thesis using edits_page(1) [OF assms(1,3,4), of w] True by simp
  next
    case False
    then show ?thesis using edits_page(1) [OF assms(1,3,4), of w] by (simp split: prod.splits)
  qed
  then show ?thesis
    using edits_page(2,3) [OF assms(1,3,4)] assms(1,2,5) by (simp add: applied_def edits_def)
qed

lemma applied_mapped:
  assumes "applied u S m m'" "\<And>e. (u e AND PAGE_V = 0) = (e AND PAGE_V = 0)"
  shows "mapped m' = mapped m"
proof
  fix w show "mapped m' w = mapped m w"
    using assms unfolding applied_def mapped_def by (auto split: prod.splits)
qed

lemma protect_first:
  assumes "tables_ok m" "separate m" "aligned_files m" "find_page m v = (12, p, pt)" "in_space v e" "all_pages (mapped m) v e"
    "r = 0 \<or> r = -1"
  obtains r' x' m' where "pt AND PAGE_V \<noteq> 0" "protect_page p pt prot sp False (r, x) m = (Return (r', x'), m')"
    "r' = 0 \<or> r' = -1" "good_host m \<longrightarrow> r' = r" "applied (reprotected prot) (same_page v) m m'" "mapped m' = mapped m"
proof -
  have "mapped m v" using assms(6) all_pages_step [OF assms(5), of "mapped m"] by blast
  then have valid: "pt AND PAGE_V \<noteq> 0" using assms(4) by (simp add: mapped_def)
  have mug: "pt AND PAGE_MUG \<noteq> 0 \<longrightarrow> FindHostPage pt m mod 4096 = 0" using assms(3,4) unfolding aligned_files_def by blast
  have pte: "pte_at m p = pt" using assms(4) by (auto simp: find_page_def Let_def split: if_splits)
  obtain r' x' m' where page: "protect_page p pt prot sp False (r, x) m = (Return (r', x'), m')" "edits p (reprotected prot pt) m m'"
    "r' = 0 \<or> r' = -1" "good_host m \<longrightarrow> good_host m' \<and> r' = r"
    using protect_page_spec [OF pte mug assms(7)] by blast
  have app: "applied (reprotected prot) (same_page v) m m'" using edits_applied [where u = "reprotected prot", OF page(2) assms(1,2,4)] page(4) by simp
  have "mapped m' = mapped m" by (rule applied_mapped [OF app]) simp
  then show thesis using that valid page app by blast
qed

lemma protect_run:
  assumes "tables_ok m" "separate m" "aligned_files m" "find_page m v = (12, p, pt)" "in_space v e" "all_pages (mapped m) v e"
    "511 \<le> slot v 12 div 8 + n" "r = 0 \<or> r = -1"
  shows "\<exists>b v' r' x' m' S.
    crawl_run (\<lambda>_ mi pt. protect_page mi pt prot sp False) n (slot v 12 div 8) v e p pt (r, x) m = (Return (b, v', r', x'), m') \<and>
    applied (reprotected prot) S m m' \<and> (r' = 0 \<or> r' = -1) \<and> (good_host m \<longrightarrow> r' = r) \<and>
    (case b of Some b \<Rightarrow> b \<and> (\<forall>w. S w = in_range v e w)
     | None \<Rightarrow> in_space v' e \<and> sint v + 4096 \<le> sint v' \<and> all_pages (mapped m') v' e \<and> (\<forall>w. in_range v e w \<longleftrightarrow> S w \<or> in_range v' e w))"
  using assms
proof (induction n arbitrary: v p pt m r x)
  case 0
  then have last: "slot v 12 div 8 = 511" using slot_less [of v 12] by auto
  note step = all_pages_step [OF 0(5), of "mapped m"] sint_next [OF 0(5)] in_range_step [OF 0(5)]
  obtain r' x' m' where page: "pt AND PAGE_V \<noteq> 0" "protect_page p pt prot sp False (r, x) m = (Return (r', x'), m')"
    "r' = 0 \<or> r' = -1" "good_host m \<longrightarrow> r' = r" "applied (reprotected prot) (same_page v) m m'" "mapped m' = mapped m"
    using protect_first [OF 0(1-6) 0(8), of prot sp x] by metis
  have "crawl_run (\<lambda>_ mi pt. protect_page mi pt prot sp False) 0 (slot v 12 div 8) v e p pt (r, x) m =
      (Return (if sint (v + 4096) \<ge> sint e then Some True else None, v + 4096, r', x'), m')"
    using page(1,2) last by (simp add: crawl_run.simps [of _ 0] seq_return ret_def Let_def)
  then show ?case
    using page(3-6) step 0(5,6)
    by (intro exI [of _ "if sint (v + 4096) \<ge> sint e then Some True else None"] exI [of _ "v + 4096"] exI [of _ r'] exI [of _ x']
        exI [of _ m'] exI [of _ "same_page v"]) (auto simp: in_space_def)
next
  case (Suc n)
  note step = all_pages_step [OF Suc.prems(5), of "mapped m"] sint_next [OF Suc.prems(5)] in_range_step [OF Suc.prems(5)]
  obtain r1 x1 m1 where page: "pt AND PAGE_V \<noteq> 0" "protect_page p pt prot sp False (r, x) m = (Return (r1, x1), m1)"
    "r1 = 0 \<or> r1 = -1" "good_host m \<longrightarrow> r1 = r" "applied (reprotected prot) (same_page v) m m1" "mapped m1 = mapped m"
    using protect_first [OF Suc.prems(1-6) Suc.prems(8), of prot sp x] by metis
  note app = page(5) and map1 = page(6)
  have good: "good_host m \<longrightarrow> good_host m1" using app by (simp add: applied_def)
  show ?case
  proof (cases "sint (v + 4096) \<ge> sint e \<or> slot v 12 div 8 + 1 = 512")
    case True
    have "crawl_run (\<lambda>_ mi pt. protect_page mi pt prot sp False) (Suc n) (slot v 12 div 8) v e p pt (r, x) m =
        (Return (if sint (v + 4096) \<ge> sint e then Some True else None, v + 4096, r1, x1), m1)"
      using page(1,2) True by (auto simp: crawl_run.simps [of _ "Suc n"] seq_return ret_def Let_def)
    then show ?thesis
      using app page(3,4) step Suc.prems(5,6) map1 True
      by (intro exI [of _ "if sint (v + 4096) \<ge> sint e then Some True else None"] exI [of _ "v + 4096"] exI [of _ r1] exI [of _ x1]
          exI [of _ m1] exI [of _ "same_page v"]) (auto simp: in_space_def)
  next
    case False
    have t: "slot v 12 div 8 + 1 < 512" using False slot_less [of v 12] by auto
    have ok: "tables_ok m1" "separate m1" "find_page m1 v = (12, p, reprotected prot pt)"
      using app Suc.prems(4) unfolding applied_def by auto
    have n: "find_page m1 (v + 4096) = (12, p + 8, pte_at m1 (p + 8))"
      using lookup_next [OF _ t] ok(3) by (simp only: find_page_def)
    have s: "in_space (v + 4096) e" using Suc.prems(5) False step(2) by (auto simp: in_space_def)
    have a: "all_pages (mapped m1) (v + 4096) e" using step(1) Suc.prems(6) False map1 by auto
    have f: "511 \<le> slot (v + 4096) 12 div 8 + n" using Suc.prems(7) slot_of_next [OF t] by simp
    have run: "crawl_run (\<lambda>_ mi pt. protect_page mi pt prot sp False) (Suc n) (slot v 12 div 8) v e p pt (r, x) m =
        crawl_run (\<lambda>_ mi pt. protect_page mi pt prot sp False) n (slot (v + 4096) 12 div 8) (v + 4096) e (p + 8) (pte_at m1 (p + 8)) (r1, x1) m1"
      using page(1,2) False by (simp add: crawl_run.simps [of _ "Suc n"] seq_return LoadPte_at slot_of_next [OF t] Let_def)
    obtain b v' r' x' m' S where ih:
      "crawl_run (\<lambda>_ mi pt. protect_page mi pt prot sp False) n (slot (v + 4096) 12 div 8) (v + 4096) e (p + 8) (pte_at m1 (p + 8)) (r1, x1) m1 =
         (Return (b, v', r', x'), m')"
      "applied (reprotected prot) S m1 m'" "r' = 0 \<or> r' = -1" "good_host m1 \<longrightarrow> r' = r1"
      "case b of Some b \<Rightarrow> b \<and> (\<forall>w. S w = in_range (v + 4096) e w)
       | None \<Rightarrow> in_space v' e \<and> sint (v + 4096) + 4096 \<le> sint v' \<and> all_pages (mapped m') v' e \<and>
           (\<forall>w. in_range (v + 4096) e w \<longleftrightarrow> S w \<or> in_range v' e w)"
      using Suc.IH [OF ok(1,2) aligned_applied [OF Suc.prems(3) app] n s a f page(3), of x1] by (elim exE conjE)
    have both: "applied (reprotected prot) (\<lambda>w. same_page v w \<or> S w) m m'"
      by (rule applied_trans [OF app ih(2)]) simp
    show ?thesis
      unfolding run ih(1)
    proof (intro exI [of _ b] exI [of _ v'] exI [of _ r'] exI [of _ x'] exI [of _ m'] exI [of _ "\<lambda>w. same_page v w \<or> S w"] conjI)
      show "case b of Some b \<Rightarrow> b \<and> (\<forall>w. (same_page v w \<or> S w) = in_range v e w)
        | None \<Rightarrow> in_space v' e \<and> sint v + 4096 \<le> sint v' \<and> all_pages (mapped m') v' e \<and>
           (\<forall>w. in_range v e w \<longleftrightarrow> (same_page v w \<or> S w) \<or> in_range v' e w)"
        using ih(5) step(2,3) False by (auto split: option.splits)
    qed (use both ih page(4) good in auto)
  qed
qed

lemma protect_loop:
  assumes "tables_ok m" "separate m" "aligned_files m" "in_space v e" "all_pages (mapped m) v e"
    "sint e - sint v \<le> 4096 * int n" "r = 0 \<or> r = -1"
  shows "\<exists>r' x' m'. crawl_loop (\<lambda>_ mi pt. protect_page mi pt prot sp False) n v e (r, x) m = (Return (Some (r', x')), m') \<and>
    applied (reprotected prot) (in_range v e) m m' \<and> (r' = 0 \<or> r' = -1) \<and> (good_host m \<longrightarrow> r' = r)"
  using assms
proof (induction n arbitrary: v m r x)
  case 0
  then show ?case by (simp add: in_space_def)
next
  case (Suc n)
  obtain i p pt where f: "find_page m v = (i, p, pt)" by (cases "find_page m v") auto
  have "mapped m v" using Suc.prems(5) all_pages_step [OF Suc.prems(4), of "mapped m"] by blast
  then have i: "i = 12" using f by (simp add: mapped_def)
  obtain q where d: "seq (gets s_cr3) (\<lambda>cr3. descend v levels cr3 0) m = (Return (i, p, pt, q), m)"
    using crawl_start [OF Suc.prems(1) f] by auto
  obtain b v' r' x' m' S where run:
    "crawl_run (\<lambda>_ mi pt. protect_page mi pt prot sp False) 512 (slot v 12 div 8) v e p pt (r, x) m = (Return (b, v', r', x'), m')"
    "applied (reprotected prot) S m m'" "r' = 0 \<or> r' = -1" "good_host m \<longrightarrow> r' = r"
    "case b of Some b \<Rightarrow> b \<and> (\<forall>w. S w = in_range v e w)
     | None \<Rightarrow> in_space v' e \<and> sint v + 4096 \<le> sint v' \<and> all_pages (mapped m') v' e \<and> (\<forall>w. in_range v e w \<longleftrightarrow> S w \<or> in_range v' e w)"
    using protect_run [OF Suc.prems(1-3) f [unfolded i] Suc.prems(4,5) _ Suc.prems(7), of 512 prot sp x] by (auto elim!: exE conjE)
  show ?case
  proof (cases b)
    case (Some c)
    then have "S = in_range v e" using run(5) by auto
    then show ?thesis
      using run d i Some by (simp add: crawl_loop.simps [of _ "Suc n"] seq_return ret_def)
  next
    case None
    have ok: "tables_ok m'" "separate m'" "good_host m \<longrightarrow> good_host m'" using run(2) unfolding applied_def by auto
    have v': "in_space v' e" "all_pages (mapped m') v' e" "sint e - sint v' \<le> 4096 * int n"
      using run(5) None Suc.prems(6) by auto
    obtain r2 x2 m2 where ih: "crawl_loop (\<lambda>_ mi pt. protect_page mi pt prot sp False) n v' e (r', x') m' = (Return (Some (r2, x2)), m2)"
      "applied (reprotected prot) (in_range v' e) m' m2" "r2 = 0 \<or> r2 = -1" "good_host m' \<longrightarrow> r2 = r'"
      using Suc.IH [OF ok(1,2) aligned_applied [OF Suc.prems(3) run(2)] v' run(3), of x'] by (elim exE conjE)
    have "applied (reprotected prot) (\<lambda>w. S w \<or> in_range v' e w) m m2"
      by (rule applied_trans [OF run(2) ih(2)]) simp
    moreover have "(\<lambda>w. S w \<or> in_range v' e w) = in_range v e" using run(5) None by auto
    ultimately show ?thesis
      using run(1,4) d i None ih ok(3) by (simp add: crawl_loop.simps [of _ "Suc n"] seq_return)
  qed
qed

lemma applied_frame:
  assumes "applied u S m k" "h_ram m' = h_ram k" "g_hostpages_p m' = g_hostpages_p k" "s_cr3 m' = s_cr3 k" "h_rcs m' = h_rcs k"
  shows "applied u S m m'"
proof -
  have pte: "pte_at m' p = pte_at k p" "FindHostPage e m' = FindHostPage e k" for p e
    using assms by (simp_all add: pte_at_def FindHostPage_def)
  have "sound m' v is pt = sound k v is pt" "trail m' v is pt = trail k v is pt" for v "is" pt
    by (induction "is" arbitrary: pt) (simp_all add: pte Let_def)
  then have "tables_ok m' = tables_ok k" "separate m' = separate k"
    using find_page_frame [OF assms(2-4)] by (simp_all only: tables_ok_def separate_def assms(4))
  then show ?thesis
    using assms(1,3,5) find_page_frame [OF assms(2-4)] by (simp add: applied_def good_host_def)
qed


lemma one_page_trail:
  "trail one_page w levels (s_cr3 one_page) =
     (39, 0x10000 + slot w 39) #
     (if slot w 39 \<noteq> 0 then []
      else (30, 0x11000 + slot w 30) #
        (if slot w 30 \<noteq> 8 then []
         else (21, 0x12000 + slot w 21) # (if slot w 21 \<noteq> 8 then [] else [(12, 0x13000 + slot w 12)])))"
  by (simp add: one_page_tables Let_def)

lemma slots_apart: "slot v i = slot w i \<or> slot v i + 8 \<le> slot w i \<or> slot w i + 8 \<le> slot v i"
proof -
  have "a = b \<or> a * 8 + 8 \<le> b * 8 \<or> b * 8 + 8 \<le> a * 8" for a b :: nat by linarith
  then show ?thesis unfolding slot_unat by (metis (no_types))
qed

lemma slot_top: "slot v i + 8 \<le> 4096"
  using slot_less [of v i] unfolding slot_unat by linarith

lemma one_page_separate: "separate one_page"
  unfolding separate_def one_page_trail one_page_walk
proof (intro allI impI, elim conjE)
  fix v w p e i q
  let ?trail = "(39, 0x10000 + slot w 39) #
     (if slot w 39 \<noteq> 0 then []
      else (30, 0x11000 + slot w 30) #
        (if slot w 30 \<noteq> 8 then []
         else (21, 0x12000 + slot w 21) # (if slot w 21 \<noteq> 8 then [] else [(12, 0x13000 + slot w 12)])))"
  assume a: "(if slot v 39 \<noteq> 0 then (39, 0x10000 + slot v 39, 0)
      else if slot v 30 \<noteq> 8 then (30, 0x11000 + slot v 30, 0)
      else if slot v 21 \<noteq> 8 then (21, 0x12000 + slot v 21, 0)
      else (12, 0x13000 + slot v 12, if slot v 12 = 0 then 0x8000000000004407 else 0)) = (12::nat, p, e :: u64)" "(i, q) \<in> set ?trail"
  have v: "slot v 39 = 0" "slot v 30 = 8" "slot v 21 = 8" "p = 0x13000 + slot v 12" using a(1) by (auto split: if_splits)
  show "i = 12 \<and> q = p \<and> same_page v w \<or> q + 8 \<le> p \<or> p + 8 \<le> q"
    using a(2) slot_top [of w 39] slot_top [of w 30] slot_top [of w 21] slots_apart [of v 12 w]
    by (auto simp: v same_page_def split: if_splits)
qed


end
