(* ===== verification/Signals.thy ===== *)
theory Signals
  imports Fds Memory Bits
begin

text \<open>
  Signals of the guest (\<open>signal.c\<close>, \<open>throw.c\<close>, \<open>ldbl.c\<close>, and the system calls on signals of \<open>syscall.c\<close>): the frame a handler gets, returning from it,
  consuming and enqueuing signals, blocking them, the alternate stack.
\<close>

declare seq.simps [simp del]

section \<open>Signals\<close>

abbreviation (input) SIG_DFL_LINUX :: u64 where "SIG_DFL_LINUX \<equiv> 0"
abbreviation (input) SIG_IGN_LINUX :: u64 where "SIG_IGN_LINUX \<equiv> 1"
abbreviation (input) SIGQUIT_LINUX :: int where "SIGQUIT_LINUX \<equiv> 3"
abbreviation (input) SIGILL_LINUX :: int where "SIGILL_LINUX \<equiv> 4"
abbreviation (input) SIGTRAP_LINUX :: int where "SIGTRAP_LINUX \<equiv> 5"
abbreviation (input) SIGBUS_LINUX :: int where "SIGBUS_LINUX \<equiv> 7"
abbreviation (input) SIGFPE_LINUX :: int where "SIGFPE_LINUX \<equiv> 8"
abbreviation (input) SIGKILL_LINUX :: int where "SIGKILL_LINUX \<equiv> 9"
abbreviation (input) SIGSEGV_LINUX :: int where "SIGSEGV_LINUX \<equiv> 11"
abbreviation (input) SIGCHLD_LINUX :: int where "SIGCHLD_LINUX \<equiv> 17"
abbreviation (input) SIGCONT_LINUX :: int where "SIGCONT_LINUX \<equiv> 18"
abbreviation (input) SIGSTOP_LINUX :: int where "SIGSTOP_LINUX \<equiv> 19"
abbreviation (input) SIGURG_LINUX :: int where "SIGURG_LINUX \<equiv> 23"
abbreviation (input) SIGWINCH_LINUX :: int where "SIGWINCH_LINUX \<equiv> 28"
abbreviation (input) SA_ONSTACK_LINUX :: u64 where "SA_ONSTACK_LINUX \<equiv> 0x08000000"
abbreviation (input) SA_RESTART_LINUX :: u64 where "SA_RESTART_LINUX \<equiv> 0x10000000"
abbreviation (input) SA_NODEFER_LINUX :: u64 where "SA_NODEFER_LINUX \<equiv> 0x40000000"
abbreviation (input) SS_ONSTACK_LINUX :: u32 where "SS_ONSTACK_LINUX \<equiv> 1"
abbreviation (input) SS_DISABLE_LINUX :: u32 where "SS_DISABLE_LINUX \<equiv> 2"
abbreviation (input) SS_AUTODISARM_LINUX :: u32 where "SS_AUTODISARM_LINUX \<equiv> 0x80000000"
abbreviation (input) SI_KERNEL_LINUX :: int where "SI_KERNEL_LINUX \<equiv> 0x80"
abbreviation (input) kRedzoneSize :: u64 where "kRedzoneSize \<equiv> 128"

definition IsSignalIgnoredByDefault :: "int \<Rightarrow> bool" where
  "IsSignalIgnoredByDefault sig \<longleftrightarrow>
     sig = SIGURG_LINUX \<or> sig = SIGCONT_LINUX \<or> sig = SIGCHLD_LINUX \<or> sig = SIGWINCH_LINUX"

definition IsSignalSerious :: "int \<Rightarrow> bool" where
  "IsSignalSerious sig \<longleftrightarrow>
     sig = SIGFPE_LINUX \<or> sig = SIGILL_LINUX \<or> sig = SIGBUS_LINUX \<or> sig = SIGQUIT_LINUX \<or> sig = SIGTRAP_LINUX \<or>
     sig = SIGSEGV_LINUX \<or> sig = SIGSTOP_LINUX \<or> sig = SIGKILL_LINUX"

text \<open>The bit of a signal in a mask, and its action.\<close>

definition sigbit :: "int \<Rightarrow> u64" where
  "sigbit sig = shl 1 (nat (sig - 1))"

definition hand :: "int \<Rightarrow> Machine \<Rightarrow> sigaction_linux" where
  "hand sig m = s_hands m (nat (sig - 1))"

text \<open>The process ends, on the host by the same signal.\<close>

definition TerminateSignal :: "int \<Rightarrow> int \<Rightarrow> 'a exec" where
  "TerminateSignal sig code = thn (unassert (\<not> IsSignalIgnoredByDefault sig)) leave"

section \<open>Long doubles\<close>

text \<open>The double is given by its bits; \<open>b\<close> is where the ten bytes are.\<close>

definition SerializeLdbl :: "nat \<Rightarrow> u64 \<Rightarrow> ram \<Rightarrow> ram" where
  "SerializeLdbl b i s =
     (let e = shr i 52 AND 0x7ff;
          e = (if e = 0 then 0 else if e = 0x7ff then 0x7fff else e - 0x3ff + 0x3fff);
          s = Put16 (b + 8) (ucast (e OR shl (shr i 63) 15)) s
      in Put64 b (shl (i AND 0x000fffffffffffff) 11 OR shl (if i AND 0x7fffffffffffffff \<noteq> 0 then 1 else 0) 63) s)"

definition DeserializeLdbl :: "ram \<Rightarrow> nat \<Rightarrow> u64" where
  "DeserializeLdbl s b =
     shl (word_of_int (max (-1023) (min 1024 (uint (Get16 s (b + 8) AND 0x7fff) - 0x3fff)) + 1023)) 52 OR
     shr ((Get64 s b AND 0x7fffffffffffffff) + shl 1 (11 - 1)) 11 OR
     shl (ucast (shr (s (b + 9)) 7)) 63"

section \<open>Delivering\<close>

text \<open>
  The frame, 952 bytes at \<open>Local 0\<close>: the return address, the signal information from 8 on, the context from 136 on, the state of the
  coprocessor from 440 on. The general registers are saved in this order, each at its place in the frame.
\<close>

definition frame_regs :: "(nat \<times> nat) list" where
  "frame_regs = [(176, 64), (184, 72), (192, 80), (200, 88), (208, 96), (216, 104), (224, 112), (232, 120),
     (240, 56), (248, 48), (256, 40), (264, 24), (272, 16), (280, 0), (288, 8)]"

primrec save_regs :: "(nat \<times> nat) list \<Rightarrow> unit exec" where
  "save_regs [] = ret ()"
| "save_regs (x # xs) = thn (copy_bytes (Local (fst x)) (Beg (snd x)) 8) (save_regs xs)"

primrec load_regs :: "(nat \<times> nat) list \<Rightarrow> unit exec" where
  "load_regs [] = ret ()"
| "load_regs (x # xs) = thn (copy_bytes (Beg (snd x)) (Local (fst x)) 8) (load_regs xs)"

primrec save_st :: "nat list \<Rightarrow> unit exec" where
  "save_st [] = ret ()"
| "save_st (i # is) =
     thn (modify (\<lambda>m. m\<lparr>m_local := SerializeLdbl (472 + 16 * i) (Get64 (f_st m) (8 * i)) (m_local m)\<rparr>)) (save_st is)"

primrec load_st :: "nat list \<Rightarrow> unit exec" where
  "load_st [] = ret ()"
| "load_st (i # is) =
     thn (modify (\<lambda>m. m\<lparr>f_st := Put64 (8 * i) (DeserializeLdbl (m_local m) (472 + 16 * i)) (f_st m)\<rparr>)) (load_st is)"

definition put_local :: "(nat \<Rightarrow> 'a \<Rightarrow> ram \<Rightarrow> ram) \<Rightarrow> nat \<Rightarrow> (Machine \<Rightarrow> 'a) \<Rightarrow> unit exec" where
  "put_local f i g = modify (\<lambda>m. m\<lparr>m_local := f i (g m) (m_local m)\<rparr>)"

definition capture :: "int \<Rightarrow> int \<Rightarrow> unit exec" where
  "capture sig code =
     thn (modify (m_local_update (\<lambda>s i. if i < 952 then 0 else s i)))
     (thn (put_local Put32 8 (\<lambda>_. of_int sig))
     (thn (put_local Put32 16 (\<lambda>_. of_int code))
     (thn (if sig = SIGILL_LINUX \<or> sig = SIGFPE_LINUX \<or> sig = SIGSEGV_LINUX \<or> sig = SIGBUS_LINUX \<or> sig = SIGTRAP_LINUX
           then put_local Put64 24 m_faultaddr
           else if sig = SIGTRAP_LINUX then put_local Put64 336 (\<lambda>m. word_of_int (m_trapno m)) else ret ())
     (thn (put_local Put64 432 m_sigmask)
     (thn (save_regs frame_regs)
     (thn (copy_bytes (Local 296) SP 8)
     (thn (put_local Put64 304 m_ip)
     (thn (put_local Put64 312 (\<lambda>m. ucast (m_flags m)))
     (thn (put_local Put16 440 (\<lambda>m. ucast (f_cw m)))
     (thn (put_local Put16 442 (\<lambda>m. ucast (f_sw m)))
     (thn (put_local Put16 444 (\<lambda>m. ucast (f_tw m)))
     (thn (put_local Put16 446 (\<lambda>m. ucast (f_op m)))
     (thn (put_local Put64 448 f_ip)
     (thn (put_local Put64 456 f_dp)
     (thn (save_st [0..<8])
     (copy_bytes (Local 600) (Xmm 0) 256))))))))))))))))"

definition handler_mask :: "int \<Rightarrow> Machine \<Rightarrow> u64" where
  "handler_mask sig m =
     (let mask' = m_sigmask m OR sa_mask (hand sig m)
      in if NOT (sa_flags (hand sig m)) AND SA_NODEFER_LINUX \<noteq> 0 then mask' OR sigbit sig else mask')"

definition alt_flags :: "Machine \<Rightarrow> u32" where
  "alt_flags m = Get32 (m_sigaltstack m) 8"

definition signal_stack :: "int \<Rightarrow> u64 exec" where
  "signal_stack sig =
     seq (gets (\<lambda>m. sa_flags (hand sig m) AND SA_ONSTACK_LINUX \<noteq> 0 \<and> alt_flags m AND SS_DISABLE_LINUX = 0)) (\<lambda>alt.
     if alt then
       seq (gets (\<lambda>m. Get64 (m_sigaltstack m) 0 + Get64 (m_sigaltstack m) 16)) (\<lambda>sp.
       thn (modify (\<lambda>m. if alt_flags m AND SS_AUTODISARM_LINUX \<noteq> 0
              then m\<lparr>m_sigaltstack := Put32 8 (alt_flags m AND NOT SS_AUTODISARM_LINUX) (m_sigaltstack m)\<rparr> else m))
       (ret sp))
     else gets (\<lambda>m. Get64 (m_beg m) 32 - kRedzoneSize))"

definition DeliverSignal :: "int \<Rightarrow> int \<Rightarrow> unit exec" where
  "DeliverSignal sig code =
     thn (capture sig code)
     (thn (modify (\<lambda>m. m\<lparr>m_sigmask := handler_mask sig m\<rparr>))
     (seq (signal_stack sig) (\<lambda>sp.
      let sp = (sp AND - 16) - 952 in
      thn (unassert (sp AND 15 = 8))
      (thn (put_local Put64 0 (\<lambda>m. sa_restorer (hand sig m)))
      (thn (put_local Put64 360 (\<lambda>_. sp + 440))
      (seq (CopyToUserWrite sp (Local 0) 952) (\<lambda>ok.
       thn (if \<not> ok then seq (gets m_segvcode) (TerminateSignal SIGSEGV_LINUX) else ret ())
       (modify (\<lambda>m. m\<lparr>m_beg := Put64 16 (sp + 136) (Put64 48 (sp + 8) (Put64 56 (of_int sig) (Put64 32 sp (m_beg m)))),
                     m_ip := sa_handler (hand sig m)\<rparr>)))))))))"

text \<open>The handler has popped the return address.\<close>

definition SigRestore :: "unit exec" where
  "SigRestore =
     thn (seq (seq (rd Get64 SP) (\<lambda>sp. CopyFromUserRead (Local 0) (sp - 8) 952)) unassert)
     (thn (modify (\<lambda>m. m\<lparr>m_ip := Get64 (m_local m) 304, m_flags := ucast (Get64 (m_local m) 312),
        m_sigmask := Get64 (m_local m) 432\<rparr>))
     (thn (load_regs frame_regs)
     (thn (modify (\<lambda>m. m\<lparr>f_cw := ucast (Get16 (m_local m) 440)\<rparr>))
     (thn (copy_bytes SP (Local 296) 8)
     (thn (modify (\<lambda>m. m\<lparr>f_sw := ucast (Get16 (m_local m) 442), f_tw := ucast (Get16 (m_local m) 444),
        f_op := ucast (Get16 (m_local m) 446), f_ip := Get64 (m_local m) 448, f_dp := Get64 (m_local m) 456\<rparr>))
     (thn (load_st [0..<8])
     (thn (copy_bytes (Xmm 0) (Local 600) 256)
     (modify (\<lambda>m. m\<lparr>m_restored := True, m_attention := True\<rparr>)))))))))"

section \<open>Consuming\<close>

text \<open>
  The signal that ends the process, or zero; the signal that was delivered, or zero; and whether a system call may be
  restarted. The loop of the code runs once at most.
\<close>

definition ConsumeSignalImpl :: "(int \<times> int \<times> bool) exec" where
  "ConsumeSignalImpl =
     seq (gets (\<lambda>m. m_signals m AND NOT (m_sigmask m))) (\<lambda>signals.
     if signals = 0 then ret (0, 0, True)
     else
       let sig = int (bsr signals) + 1 in
       thn (modify (\<lambda>m. m\<lparr>m_signals := m_signals m AND NOT (sigbit sig)\<rparr>))
       (seq (gets (\<lambda>m. sa_handler (hand sig m))) (\<lambda>handler.
        if handler = SIG_DFL_LINUX then
          ret (if IsSignalIgnoredByDefault sig then 0 else sig, 0, True)
        else if handler = SIG_IGN_LINUX then ret (0, 0, True)
        else
          seq (gets (\<lambda>m. sa_flags (hand sig m) AND SA_RESTART_LINUX \<noteq> 0)) (\<lambda>restart.
          thn (DeliverSignal sig SI_KERNEL_LINUX) (ret (0, sig, restart))))))"

definition ConsumeSignal :: "(int \<times> int \<times> bool) exec" where
  "ConsumeSignal = seq (gets m_metal) (\<lambda>metal. if metal then ret (0, 0, True) else ConsumeSignalImpl)"

text \<open>
  The shifted one is a \<open>long\<close>, of 32 bits on this host, which shifts by the count modulo 32; by 32 or more C leaves it
  undefined.
\<close>

definition EnqueueSignal :: "int \<Rightarrow> unit exec" where
  "EnqueueSignal sig =
     (if 1 \<le> sig \<and> sig \<le> 64 then
        thn (modify (\<lambda>m. m\<lparr>m_signals := m_signals m OR ucast (shl (1 :: u32) (nat (sig - 1) mod 32))\<rparr>))
        (modify (\<lambda>m. if m_signals m AND NOT (m_sigmask m) \<noteq> 0 then m\<lparr>m_attention := True\<rparr> else m))
      else ret ())"

text \<open>A killed machine leaves; ending the process is not modelled further.\<close>

definition CheckForSignals :: "unit exec" where
  "CheckForSignals =
     seq (gets m_killed) (\<lambda>killed.
     if killed then leave
     else
       seq (gets (\<lambda>m. m_signals m AND NOT (m_sigmask m) \<noteq> 0)) (\<lambda>pending.
       if pending then
         seq ConsumeSignal (\<lambda>(sig, _). if sig \<noteq> 0 then TerminateSignal sig 0 else ret ())
       else modify (\<lambda>m. m\<lparr>m_attention := False\<rparr>)))"

text \<open>The traps of the processor as signals: a blocked or unhandled one ends the process.\<close>

definition DeliverSignalToUser :: "int \<Rightarrow> int \<Rightarrow> unit exec" where
  "DeliverSignalToUser sig code =
     thn (seq (gets (\<lambda>m. m_sigmask m AND sigbit sig \<noteq> 0)) (\<lambda>b. if b then TerminateSignal sig code else ret ()))
     (seq (gets (\<lambda>m. sa_handler (hand sig m))) (\<lambda>h.
      if h = SIG_IGN_LINUX \<or> h = SIG_DFL_LINUX then TerminateSignal sig code
      else
        thn (DeliverSignal sig code)
        (seq ConsumeSignal (\<lambda>(sig, _). if sig \<noteq> 0 then TerminateSignal sig code else ret ()))))"

text \<open>
  What \<open>HaltMachine\<close> tells the guest: the signal and its code for a trap, none when the process exits. The machine then halts all
  the same.
\<close>

definition trap_signal :: "int \<Rightarrow> Machine \<Rightarrow> (int \<times> int) option" where
  "trap_signal code m =
     (if code = kMachineDivideError then Some (SIGFPE_LINUX, 1)
      else if code = kMachineFpuException \<or> code = kMachineSimdException then Some (SIGFPE_LINUX, 7)
      else if code = kMachineHalt \<or> code = kMachineDecodeError \<or> code = kMachineUndefinedInstruction then Some (SIGILL_LINUX, 1)
      else if code = kMachineProtectionFault then Some (SIGILL_LINUX, 5)
      else if code = kMachineSegmentationFault then Some (SIGSEGV_LINUX, if m_segvcode m \<noteq> 0 then m_segvcode m else 1)
      else if code = 1 \<or> code = 3 then Some (SIGTRAP_LINUX, SI_KERNEL_LINUX)
      else if code = 4 then Some (SIGSEGV_LINUX, SI_KERNEL_LINUX)
      else if code \<ge> 0 \<and> \<not> m_metal m then Some (SIGSEGV_LINUX, SI_KERNEL_LINUX)
      else None)"

definition HaltWithSignal :: "int \<Rightarrow> 'a exec" where
  "HaltWithSignal code m =
     (case HaltMachine code m of
        (Trap c, k) \<Rightarrow>
          seq (case trap_signal code k of Some (sig, si) \<Rightarrow> DeliverSignalToUser sig si | None \<Rightarrow> ret ())
            (\<lambda>_ k. (Trap c, k)) k
      | r \<Rightarrow> r)"

section \<open>Handlers that run inside of a system call\<close>

text \<open>\<open>dispatch\<close> runs one instruction; the loop ends when a handler has returned.\<close>

primrec SignalActor :: "unit exec \<Rightarrow> nat \<Rightarrow> unit exec" where
  "SignalActor dispatch 0 = diverge"
| "SignalActor dispatch (Suc n) =
     thn dispatch
     (seq (gets (\<lambda>m. (m_attention m, m_restored m))) (\<lambda>(attention, restored).
      if attention \<and> restored then ret ()
      else thn (if attention then CheckForSignals else ret ()) (SignalActor dispatch n)))"

abbreviation (input) kMaxSigDepth :: int where "kMaxSigDepth \<equiv> 8"

text \<open>The mask of the host's signals around it is not modelled.\<close>

definition DeliverSignalRecursively :: "unit exec \<Rightarrow> nat \<Rightarrow> bool exec" where
  "DeliverSignalRecursively dispatch n =
     seq (gets (\<lambda>m. m_sigdepth m \<ge> kMaxSigDepth)) (\<lambda>deep.
     if deep then ret False
     else
       seq (gets m_issigsuspend) (\<lambda>issigsuspend.
       thn (modify (\<lambda>m. m\<lparr>m_sigdepth := m_sigdepth m + 1, m_issigsuspend := False, m_restored := False, m_insyscall := False\<rparr>))
       (thn (SignalActor dispatch n)
       (thn (modify (\<lambda>m. m\<lparr>m_insyscall := True, m_restored := False, m_issigsuspend := issigsuspend \<or> m_issigsuspend m,
          m_sigdepth := m_sigdepth m - 1\<rparr>))
       (ret True)))))"

abbreviation (input) EINTR_LINUX :: u64 where "EINTR_LINUX \<equiv> 4"

primrec CheckInterrupt :: "unit exec \<Rightarrow> nat \<Rightarrow> bool \<Rightarrow> bool exec" where
  "CheckInterrupt dispatch 0 restartable = diverge"
| "CheckInterrupt dispatch (Suc n) restartable =
     thn (wr Put64 AX (- EINTR_LINUX))
     (seq ConsumeSignal (\<lambda>(sig, delivered, restart).
      thn (if sig \<noteq> 0 then TerminateSignal sig 0 else ret ())
      (seq (if delivered \<noteq> 0 then DeliverSignalRecursively dispatch n else ret False) (\<lambda>ok.
       if ok \<and> restart \<and> restartable then CheckInterrupt dispatch n restartable
       else
         thn (modify (\<lambda>m. m\<lparr>m_interrupted := delivered \<noteq> 0, g_errno := if delivered \<noteq> 0 then EINTR else g_errno m\<rparr>))
         (ret (delivered \<noteq> 0))))))"

section \<open>System calls on signals\<close>

abbreviation (input) SIG_BLOCK_LINUX :: int where "SIG_BLOCK_LINUX \<equiv> 0"
abbreviation (input) SIG_UNBLOCK_LINUX :: int where "SIG_UNBLOCK_LINUX \<equiv> 1"
abbreviation (input) SIG_SETMASK_LINUX :: int where "SIG_SETMASK_LINUX \<equiv> 2"
abbreviation (input) SA_NOCLDWAIT_LINUX :: u64 where "SA_NOCLDWAIT_LINUX \<equiv> 2"
abbreviation (input) SA_RESTORER_LINUX :: u64 where "SA_RESTORER_LINUX \<equiv> 0x04000000"
abbreviation (input) MINSIGSTKSZ_LINUX :: u64 where "MINSIGSTKSZ_LINUX \<equiv> 2048"

text \<open>
  The flags that are supported, among them \<open>SA_NOCLDWAIT\<close>, as a host has it. The action is read into \<open>Local 0\<close>; the
  old one is written from \<open>Local 32\<close>. Installing the handler on the host leaves the machine as it is.
\<close>

definition supported_flags :: u64 where
  "supported_flags = 4 OR SA_RESTART_LINUX OR SA_ONSTACK_LINUX OR SA_NODEFER_LINUX OR SA_RESTORER_LINUX OR 0x80000000 OR
     SA_NOCLDWAIT_LINUX OR 1"

definition check_action :: "int \<Rightarrow> u64 \<Rightarrow> (bool + int) exec" where
  "check_action sig act =
     seq (CopyFromUserRead (Local 0) act 32) (\<lambda>ok.
     if \<not> ok then ret (Inr (-1))
     else
       seq (gets (\<lambda>m. (Get64 (m_local m) 0, Get64 (m_local m) 8, Get64 (m_local m) 16))) (\<lambda>(handler, flags, restorer).
       let flags = (if handler = SIG_IGN_LINUX then flags AND NOT SA_NOCLDWAIT_LINUX else flags) in
       if flags AND NOT supported_flags \<noteq> 0 then seq einval (\<lambda>rc. ret (Inr rc))
       else if handler = SIG_DFL_LINUX then ret (Inl (IsSignalIgnoredByDefault sig))
       else if handler = SIG_IGN_LINUX then ret (Inl True)
       else if flags AND SA_RESTORER_LINUX = 0 then seq einval (\<lambda>rc. ret (Inr rc))
       else seq (IsValidMemory restorer 1 4) (\<lambda>valid. ret (if valid then Inl False else Inr (-1)))))"

definition put_action :: "nat \<Rightarrow> sigaction_linux \<Rightarrow> ram \<Rightarrow> ram" where
  "put_action p h s = Put64 p (sa_handler h) (Put64 (p + 8) (sa_flags h) (Put64 (p + 16) (sa_restorer h) (Put64 (p + 24) (sa_mask h) s)))"

definition get_action :: "ram \<Rightarrow> nat \<Rightarrow> sigaction_linux" where
  "get_action s p = \<lparr>sa_handler = Get64 s p, sa_flags = Get64 s (p + 8), sa_restorer = Get64 s (p + 16), sa_mask = Get64 s (p + 24)\<rparr>"

definition SysSigaction :: "int \<Rightarrow> u64 \<Rightarrow> u64 \<Rightarrow> u64 \<Rightarrow> int exec" where
  "SysSigaction sig act old sigsetsize =
     (if sigsetsize \<noteq> 8 then einval
      else if \<not> (1 \<le> sig \<and> sig \<le> 64) then einval
      else if sig = SIGKILL_LINUX \<or> sig = SIGSTOP_LINUX then einval
      else
        seq (if old \<noteq> 0 then IsValidMemory old 32 2 else ret True) (\<lambda>valid.
        if \<not> valid then ret (-1)
        else
          thn (modify (m_local_update (\<lambda>s i. if i < 32 then 0 else s i)))
          (seq (if act \<noteq> 0 then check_action sig act else ret (Inl False)) (\<lambda>r.
           case r of
             Inr rc \<Rightarrow> ret rc
           | Inl isignored \<Rightarrow>
               thn (if old \<noteq> 0 then
                      thn (put_local (\<lambda>p h. put_action p h) 32 (hand sig))
                      (seq (CopyToUserWrite old (Local 32) 32) (\<lambda>_. ret ()))
                    else ret ())
               (thn (if act \<noteq> 0 then
                       modify (\<lambda>m. m\<lparr>s_hands := (s_hands m)(nat (sig - 1) := get_action (m_local m) 0),
                         m_signals := if isignored then m_signals m AND NOT (sigbit sig) else m_signals m\<rparr>)
                     else ret ())
               (ret 0))))))"

text \<open>Whether the stack pointer is on the alternate stack.\<close>

definition on_altstack :: "Machine \<Rightarrow> bool" where
  "on_altstack m \<longleftrightarrow> NOT (alt_flags m) AND SS_DISABLE_LINUX \<noteq> 0 \<and> Get64 (m_beg m) 32 \<ge> Get64 (m_sigaltstack m) 0 \<and>
     Get64 (m_beg m) 32 \<le> Get64 (m_sigaltstack m) 0 + Get64 (m_sigaltstack m) 16"

definition check_altstack :: "u64 \<Rightarrow> (nat + int) exec" where
  "check_altstack newaddr =
     seq (gets on_altstack) (\<lambda>isonstack.
     if isonstack then seq eperm (\<lambda>rc. ret (Inr rc))
     else
       seq (SchlepR newaddr 24) (\<lambda>p.
       if p = 0 then ret (Inr (-1))
       else
         seq (gets (\<lambda>m. (Get64 (h_ram m) p, Get32 (h_ram m) (p + 8), Get64 (h_ram m) (p + 16)))) (\<lambda>(sp, flags, size').
         if flags AND NOT (SS_ONSTACK_LINUX OR SS_DISABLE_LINUX OR SS_AUTODISARM_LINUX) \<noteq> 0 then seq einval (\<lambda>rc. ret (Inr rc))
         else if NOT flags AND SS_DISABLE_LINUX \<noteq> 0 then
           (if size' < MINSIGSTKSZ_LINUX then seq enomem (\<lambda>rc. ret (Inr rc))
            else seq (IsValidMemory sp (sint size') 3) (\<lambda>valid. ret (if valid then Inl p else Inr (-1))))
         else ret (Inl p))))"

text \<open>The new stack is read from where the guest has it, after the old one has been written.\<close>

definition SysSigaltstack :: "u64 \<Rightarrow> u64 \<Rightarrow> int exec" where
  "SysSigaltstack newaddr oldaddr =
     seq (gets on_altstack) (\<lambda>isonstack.
     seq (if newaddr \<noteq> 0 then check_altstack newaddr else ret (Inl 0)) (\<lambda>r.
     case r of
       Inr rc \<Rightarrow> ret rc
     | Inl ss \<Rightarrow>
         thn (if oldaddr \<noteq> 0 then
                thn (modify (\<lambda>m. m\<lparr>m_sigaltstack := Put32 8 ((alt_flags m AND NOT SS_ONSTACK_LINUX) OR
                      (if isonstack then SS_ONSTACK_LINUX else 0)) (m_sigaltstack m)\<rparr>))
                (thn (put_local (\<lambda>p s l i. if p \<le> i \<and> i < p + 24 then s (i - p) else l i) 0 m_sigaltstack)
                (seq (CopyToUserWrite oldaddr (Local 0) 24) (\<lambda>_. ret ())))
              else ret ())
         (thn (if ss \<noteq> 0 then modify (\<lambda>m. m\<lparr>m_sigaltstack := (\<lambda>i. if i < 24 then h_ram m (ss + i) else m_sigaltstack m i)\<rparr>)
               else ret ())
         (ret 0))))"

text \<open>Signals that the new mask lets through are delivered before the call returns.\<close>

primrec deliver_pending :: "unit exec \<Rightarrow> nat \<Rightarrow> unit exec" where
  "deliver_pending dispatch 0 = diverge"
| "deliver_pending dispatch (Suc n) =
     seq ConsumeSignal (\<lambda>(sig, delivered, _).
     thn (if sig \<noteq> 0 then TerminateSignal sig 0 else ret ())
     (seq (if delivered \<noteq> 0 then DeliverSignalRecursively dispatch n else ret False) (\<lambda>again.
      if again then deliver_pending dispatch n else ret ())))"

definition new_mask :: "int \<Rightarrow> u64 \<Rightarrow> u64 \<Rightarrow> u64" where
  "new_mask how mask' set' =
     (if how = SIG_BLOCK_LINUX then mask' OR set' else if how = SIG_UNBLOCK_LINUX then mask' AND NOT set' else set')"

definition SysSigprocmask :: "unit exec \<Rightarrow> nat \<Rightarrow> int \<Rightarrow> u64 \<Rightarrow> u64 \<Rightarrow> u64 \<Rightarrow> int exec" where
  "SysSigprocmask dispatch n how setaddr oldsetaddr sigsetsize =
     (if sigsetsize \<noteq> 8 then einval
      else if how \<noteq> SIG_BLOCK_LINUX \<and> how \<noteq> SIG_UNBLOCK_LINUX \<and> how \<noteq> SIG_SETMASK_LINUX then einval
      else
        seq (if setaddr \<noteq> 0 then SchlepR setaddr 8 else ret 0) (\<lambda>neu.
        if setaddr \<noteq> 0 \<and> neu = 0 then ret (-1)
        else
          seq (if oldsetaddr \<noteq> 0 then thn (put_local Put64 0 m_sigmask) (CopyToUserWrite oldsetaddr (Local 0) 8)
               else ret True) (\<lambda>ok.
          if \<not> ok then ret (-1)
          else
            thn (if setaddr \<noteq> 0 then modify (\<lambda>m. m\<lparr>m_sigmask := new_mask how (m_sigmask m) (Get64 (h_ram m) neu)\<rparr>) else ret ())
            (thn (wr Put64 AX 0)
            (thn (deliver_pending dispatch n)
            (ret 0))))))"

definition SysSigpending :: "u64 \<Rightarrow> int exec" where
  "SysSigpending setaddr =
     thn (put_local Put64 0 m_signals)
     (seq (CopyToUserWrite setaddr (Local 0) 8) (\<lambda>ok. ret (if ok then 0 else -1)))"

end
