(* ===== verification/SignalSpec.thy ===== *)
theory SignalSpec
  imports Signals Running StackSpec
begin

text \<open>
  What signals promise: the frame of a handler and the return from it, and that pending signals are consumed.
\<close>

declare seq.simps [simp del]

section \<open>Long doubles\<close>

lemma low15: "(w :: u16) AND 0x7fff = take_bit 15 w"
  by (simp add: take_bit_eq_mask mask_numeral)

lemma ldbl_exponent:
  fixes e :: u64
  assumes "e < 2048"
  defines "x \<equiv> if e = 0 then 0 else if e = 0x7ff then 0x7fff else e - 0x3ff + 0x3fff"
  shows "word_of_int (max (-1023) (min 1024 (int (unat x) - 0x3fff)) + 1023) = e" "unat x < 2 ^ 15"
proof -
  have e: "unat e < 2048" using assms(1) by (simp add: word_less_nat_alt)
  have "unat x = (if e = 0 then 0 else if e = 0x7ff then 0x7fff else unat e + 0x3c00)"
  proof -
    have "e - 0x3ff + 0x3fff = e + 0x3c00" by (simp add: algebra_simps)
    moreover have "unat (e + 0x3c00) = unat e + 0x3c00" using e by (subst unat_add_lem [THEN iffD1]) auto
    moreover have "unat (2047 :: u64) = 2047" "unat (0x7fff :: u64) = 0x7fff" by simp_all
    ultimately show ?thesis unfolding x_def by (simp only: if_distrib [of unat] unat_0 refl if_True if_False split: if_split)
  qed
  moreover have "unat e \<noteq> 0" if "e \<noteq> 0" using that by (simp add: unat_eq_zero)
  moreover have "unat e \<noteq> 2047" if "e \<noteq> 0x7ff"
  proof
    assume "unat e = 2047"
    then have "word_of_nat (unat e) = (2047 :: u64)" by (simp only:) simp
    then show False using that by simp
  qed
  moreover have "word_of_int (int (unat e)) = e" by simp
  moreover have "min 1024 (uint e - 1023) = uint e - 1023" using assms(1) by (simp add: word_less_def)
  ultimately show "word_of_int (max (-1023) (min 1024 (int (unat x) - 0x3fff)) + 1023) = e" "unat x < 2 ^ 15"
    using e by auto
qed

lemma ldbl_mantissa:
  fixes i :: u64
  shows "shr (((shl (i AND 0x000fffffffffffff) 11 OR shl k 63) AND 0x7fffffffffffffff) + 1024) 11 = take_bit 52 i"
proof -
  have m: "i AND 0x000fffffffffffff = take_bit 52 i" by (simp add: take_bit_eq_mask mask_numeral)
  have k: "w AND 0x7fffffffffffffff = take_bit 63 w" for w :: u64 by (simp add: take_bit_eq_mask mask_numeral)
  have "take_bit 63 (shl (take_bit 52 i) 11 OR shl k 63) = shl (take_bit 52 i) 11"
    by (rule bit_word_eqI) (auto simp: bit_take_bit_iff bit_or_iff bit_push_bit_iff)
  moreover have "shr (shl (take_bit 52 i) 11 + 1024) 11 = take_bit 52 i"
  proof -
    have n: "unat (take_bit 52 i) < 2 ^ 52" using take_bit_nat_less_exp [of 52 "unat i"] by (simp add: unsigned_take_bit_eq)
    have a: "unat (shl (take_bit 52 i) 11) = unat (take_bit 52 i) * 2048"
      using n by (subst unsigned_push_bit_eq) (simp add: take_bit_nat_def push_bit_eq_mult)
    have "unat (shl (take_bit 52 i) 11 + 1024) = unat (take_bit 52 i) * 2048 + 1024"
      using n by (subst unat_add_lem [THEN iffD1]) (simp_all add: a)
    moreover have "unat (shr (shl (take_bit 52 i) 11 + 1024) 11) = unat (shl (take_bit 52 i) 11 + 1024) div 2 ^ 11"
      by (simp only: unsigned_drop_bit_eq drop_bit_eq_div [where 'a = nat] take_bit_nat_eq_self [OF unsigned_less])
    moreover have "(k * 2048 + 1024) div 2 ^ 11 = k" for k :: nat by simp
    ultimately have "unat (shr (shl (take_bit 52 i) 11 + 1024) 11) = unat (take_bit 52 i)" by (simp only:)
    then show ?thesis by (simp only: word_unat_eq_iff)
  qed
  ultimately show ?thesis by (simp only: m k)
qed

lemma ldbl_word:
  fixes y t :: u64
  assumes "unat y < 2 ^ 15" "\<And>n. bit t n \<Longrightarrow> n = 0"
  shows "uint ((ucast (y OR shl t 15) :: u16) AND 0x7fff) = int (unat y)"
    "shl (ucast (shr (to_u8 (shr (ucast (y OR shl t 15) :: u16) 8)) 7)) 63 = shl t 63"
proof -
  have "take_bit 15 y = y"
    using assms(1) by (intro word_unat_eq_iff [THEN iffD2]) (simp only: unsigned_take_bit_eq take_bit_nat_eq_self)
  then have small: "\<not> bit y n" if "15 \<le> n" for n
    using that bit_take_bit_iff [of 15 y n] by simp
  have "(ucast (y OR shl t 15) :: u16) AND 0x7fff = ucast y"
    unfolding low15 using small by (intro bit_word_eqI) (auto simp: bit_simps, metis not_le)
  moreover have "uint (ucast y :: u16) = int (unat y)"
  proof -
    have "nat (uint y) < 32768" using assms(1) unfolding unat_eq_nat_uint by simp
    then have "uint y < 32768" by linarith
    then show ?thesis by (simp add: unsigned_ucast_eq take_bit_int_eq_self)
  qed
  ultimately show "uint ((ucast (y OR shl t 15) :: u16) AND 0x7fff) = int (unat y)" by simp
  show "shl (ucast (shr (to_u8 (shr (ucast (y OR shl t 15) :: u16) 8)) 7)) 63 = shl t 63"
    using small assms(2) by (intro bit_word_eqI) (auto simp: bit_simps)
qed

lemma ldbl_parts:
  fixes i :: u64
  shows "shl (shr i 52 AND 0x7ff) 52 OR take_bit 52 i OR shl (shr i 63) 63 = i"
proof -
  have e: "shr i 52 AND 0x7ff = take_bit 11 (shr i 52)" by (simp add: take_bit_eq_mask mask_numeral)
  show ?thesis
    unfolding e
  proof (rule bit_word_eqI)
    fix n assume "n < LENGTH(64)"
    then consider "n < 52" | "52 \<le> n" "n < 63" | "n = 63" by force
    then show "bit (shl (take_bit 11 (shr i 52)) 52 OR take_bit 52 i OR shl (shr i 63) 63) n = bit i n"
      by cases (auto simp: bit_simps)
  qed
qed

lemma Ldbl_roundtrip_bits: "DeserializeLdbl (SerializeLdbl b i s) b = i"
proof -
  define e where "e = shr i 52 AND 0x7ff"
  define y where "y = (if e = 0 then 0 else if e = 0x7ff then 0x7fff else e - 0x3ff + 0x3fff)"
  define k where "k = (if i AND 0x7fffffffffffffff \<noteq> 0 then 1 else 0 :: u64)"
  define t where "t = shr i 63"
  define x :: u16 where "x = ucast (y OR shl t 15)"
  define m where "m = shl (i AND 0x000fffffffffffff) 11 OR shl k 63"
  have s: "SerializeLdbl b i s = Put64 b m (Put16 (b + 8) x s)"
    by (simp add: SerializeLdbl_def Let_def e_def y_def k_def t_def x_def m_def)
  have "e = take_bit 11 (shr i 52)" by (simp add: e_def take_bit_eq_mask mask_numeral)
  then have "e < 2048" using take_bit_nat_less_exp [of 11 "unat (shr i 52)"] by (simp add: word_less_nat_alt unsigned_take_bit_eq)
  note ex = ldbl_exponent [OF this, folded y_def]
  have one: "n = 0" if "bit t n" for n using that bit_imp_le_length [of i "63 + n"] by (auto simp: t_def bit_drop_bit_eq)
  have w: "uint (x AND 0x7fff) = int (unat y)" "shl (ucast (shr (to_u8 (shr x 8)) 7)) 63 = shl t 63"
    unfolding x_def using ldbl_word [OF ex(2), of t] one by blast+
  have "Get64 (Put64 b m (Put16 (b + 8) x s)) b = m" by (rule Get_Put)
  moreover have "Get16 (Put64 b m (Put16 (b + 8) x s)) (b + 8) = x"
    by (subst Get_cong(1) [of _ _ "Put16 (b + 8) x s"]) (auto simp: Get_Put Put_frame)
  moreover have "Put64 b m (Put16 (b + 8) x s) (b + 9) = to_u8 (shr x 8)"
    using Put_byte(1) [of 1 "b + 8" x s] by (simp add: Put_frame add.commute)
  moreover have "shr ((m AND 0x7fffffffffffffff) + shl 1 (11 - 1)) 11 = take_bit 52 i"
    using ldbl_mantissa [of i k] by (simp add: m_def)
  ultimately have "DeserializeLdbl (SerializeLdbl b i s) b = shl e 52 OR take_bit 52 i OR shl t 63"
    unfolding DeserializeLdbl_def s by (simp only: w ex(1))
  then show ?thesis unfolding e_def t_def by (simp only: ldbl_parts)
qed

section \<open>The frame\<close>

lemma seq_modify_return: "seq (modify f) g m = g () (f m)"
  by (rule seq_modify)

lemma copy8: "(\<lambda>i. if q \<le> i \<and> i < q + 8 then t (r + (i - q)) else s i) = Put64 q (Get64 t r) (s :: ram)"
proof
  fix i show "(if q \<le> i \<and> i < q + 8 then t (r + (i - q)) else s i) = Put64 q (Get64 t r) s i"
  proof (cases "q \<le> i \<and> i < q + 8")
    case True
    then obtain j where j: "i = q + j" "j < 8" by (metis add_less_cancel_left le_Suc_ex)
    then show ?thesis using byte_of_Get(3) [of j t r] by (simp add: Put_byte)
  next
    case False
    then show ?thesis by (auto simp: Put_frame)
  qed
qed

lemma copy_to_local: "copy_bytes (Local f) (Beg r) 8 = modify (\<lambda>m. m\<lparr>m_local := Put64 f (Get64 (m_beg m) r) (m_local m)\<rparr>)"
  unfolding copy_bytes_def update_region.simps region.simps offset.simps copy8 ..

lemma copy_from_local: "copy_bytes (Beg r) (Local f) 8 = modify (\<lambda>m. m\<lparr>m_beg := Put64 r (Get64 (m_local m) f) (m_beg m)\<rparr>)"
  unfolding copy_bytes_def update_region.simps region.simps offset.simps copy8 ..

definition put_regs :: "(nat \<times> nat) list \<Rightarrow> ram \<Rightarrow> ram \<Rightarrow> ram" where
  "put_regs xs t s = fold (\<lambda>x. Put64 (fst x) (Get64 t (snd x))) xs s"

lemma save_regs_run: "save_regs xs m = (Return (), m\<lparr>m_local := put_regs xs (m_beg m) (m_local m)\<rparr>)"
  by (induction xs arbitrary: m) (simp_all add: ret_def copy_to_local seq_modify put_regs_def)

lemma load_regs_run: "load_regs xs m = (Return (), m\<lparr>m_beg := put_regs (map prod.swap xs) (m_local m) (m_beg m)\<rparr>)"
  by (induction xs arbitrary: m) (simp_all add: ret_def copy_from_local seq_modify put_regs_def)

lemma save_st_run:
  "save_st is m = (Return (), m\<lparr>m_local := fold (\<lambda>i. SerializeLdbl (472 + 16 * i) (Get64 (f_st m) (8 * i))) is (m_local m)\<rparr>)"
  by (induction "is" arbitrary: m) (simp_all add: ret_def seq_modify)

lemma load_st_run:
  "load_st is m = (Return (), m\<lparr>f_st := fold (\<lambda>i. Put64 (8 * i) (DeserializeLdbl (m_local m) (472 + 16 * i))) is (f_st m)\<rparr>)"
  by (induction "is" arbitrary: m) (simp_all add: ret_def seq_modify)

definition frame :: "int \<Rightarrow> int \<Rightarrow> Machine \<Rightarrow> ram" where
  "frame sig code m =
     (let s = (\<lambda>i. if i < 952 then 0 else m_local m i);
          s = Put32 16 (of_int code) (Put32 8 (of_int sig) s);
          s = (if sig \<in> {4, 8, 11, 7, 5} then Put64 24 (m_faultaddr m) s else s);
          s = Put64 296 (Get64 (m_beg m) 32) (put_regs frame_regs (m_beg m) (Put64 432 (m_sigmask m) s));
          s = Put16 440 (ucast (f_cw m)) (Put64 312 (ucast (m_flags m)) (Put64 304 (m_ip m) s));
          s = Put16 446 (ucast (f_op m)) (Put16 444 (ucast (f_tw m)) (Put16 442 (ucast (f_sw m)) s));
          s = Put64 456 (f_dp m) (Put64 448 (f_ip m) s);
          s = fold (\<lambda>i. SerializeLdbl (472 + 16 * i) (Get64 (f_st m) (8 * i))) [0..<8] s
      in (\<lambda>i. if 600 \<le> i \<and> i < 856 then m_xmm m (i - 600) else s i))"

lemma thn_run: "f m = (Return (), m') \<Longrightarrow> thn f g m = g m'"
  by (rule seq_return)

text \<open>With the frame as the only part that changes, each step extends it.\<close>

abbreviation (input) with_frame :: "ram \<Rightarrow> Machine \<Rightarrow> Machine" where
  "with_frame s m \<equiv> m\<lparr>m_local := s\<rparr>"

lemma frame_steps:
  "g (with_frame s m) = g m \<Longrightarrow> thn (put_local f i g) h (with_frame s m) = h (with_frame (f i (g m) s) m)"
  "thn (copy_bytes (Local q) (Beg r) 8) h (with_frame s m) = h (with_frame (Put64 q (Get64 (m_beg m) r) s) m)"
  "thn (save_regs xs) h (with_frame s m) = h (with_frame (put_regs xs (m_beg m) s) m)"
  "thn (save_st is) h (with_frame s m) = h (with_frame (fold (\<lambda>i. SerializeLdbl (472 + 16 * i) (Get64 (f_st m) (8 * i))) is s) m)"
  "copy_bytes (Local 600) (Xmm 0) 256 (with_frame s m) =
     (Return (), with_frame (\<lambda>i. if 600 \<le> i \<and> i < 856 then m_xmm m (i - 600) else s i) m)"
  by (simp_all add: put_local_def copy_to_local seq_modify thn_run [OF save_regs_run] thn_run [OF save_st_run])
    (simp add: copy_bytes_def modify_def fun_eq_iff)

lemma capture_run: "capture sig code m = (Return (), m\<lparr>m_local := frame sig code m\<rparr>)"
proof -
  have start: "thn (modify (m_local_update (\<lambda>s i. if i < 952 then 0 else s i))) h m = h (with_frame (\<lambda>i. if i < 952 then 0 else m_local m i) m)"
    for h :: "unit exec" unfolding seq_modify by (rule arg_cong [where f = h], rule Machine.equality) simp_all
  show ?thesis
  proof (cases "sig \<in> {4, 8, 11, 7, 5}")
    case True
    then have f: "(if sig = SIGILL_LINUX \<or> sig = SIGFPE_LINUX \<or> sig = SIGSEGV_LINUX \<or> sig = SIGBUS_LINUX \<or> sig = SIGTRAP_LINUX
             then put_local Put64 24 m_faultaddr
             else if sig = SIGTRAP_LINUX then put_local Put64 336 (\<lambda>m. word_of_int (m_trapno m)) else ret ()) = put_local Put64 24 m_faultaddr"
      by auto
    show ?thesis
      unfolding capture_def f start frame_def Let_def if_P [OF True] by (simp add: frame_steps)
  next
    case False
    then have f: "(if sig = SIGILL_LINUX \<or> sig = SIGFPE_LINUX \<or> sig = SIGSEGV_LINUX \<or> sig = SIGBUS_LINUX \<or> sig = SIGTRAP_LINUX
             then put_local Put64 24 m_faultaddr
             else if sig = SIGTRAP_LINUX then put_local Put64 336 (\<lambda>m. word_of_int (m_trapno m)) else ret ()) = ret ()"
      by auto
    show ?thesis
      unfolding capture_def f start frame_def Let_def if_not_P [OF False] seq_ret by (simp add: frame_steps)
  qed
qed

section \<open>Reading the frame\<close>

lemma Get64_apart:
  "p + 8 \<le> q \<or> q + 8 \<le> p \<Longrightarrow> Get64 (Put64 q x s) p = Get64 s p"
  "p + 8 \<le> q \<or> q + 2 \<le> p \<Longrightarrow> Get64 (Put16 q y s) p = Get64 s p"
  "p + 8 \<le> q \<or> q + 10 \<le> p \<Longrightarrow> Get64 (SerializeLdbl q x s) p = Get64 s p"
  "p + 8 \<le> 600 \<Longrightarrow> Get64 (\<lambda>i. if 600 \<le> i \<and> i < 856 then f i else s i) p = Get64 s p"
  by (rule Get_cong(3); auto simp: Put_frame SerializeLdbl_def Let_def)+

lemma Get16_apart:
  "p + 2 \<le> q \<or> q + 8 \<le> p \<Longrightarrow> Get16 (Put64 q x s) p = Get16 s p"
  "p + 2 \<le> q \<or> q + 2 \<le> p \<Longrightarrow> Get16 (Put16 q y s) p = Get16 s p"
  "p + 2 \<le> q \<or> q + 10 \<le> p \<Longrightarrow> Get16 (SerializeLdbl q x s) p = Get16 s p"
  "p + 2 \<le> 600 \<Longrightarrow> Get16 (\<lambda>i. if 600 \<le> i \<and> i < 856 then f i else s i) p = Get16 s p"
  by (rule Get_cong(1); auto simp: Put_frame SerializeLdbl_def Let_def)+

lemma Ldbl_cong: "(\<And>i. b \<le> i \<Longrightarrow> i < b + 10 \<Longrightarrow> s i = t i) \<Longrightarrow> DeserializeLdbl s b = DeserializeLdbl t b"
  using Get_cong(1) [of "b + 8" s t] Get_cong(3) [of b s t] by (simp add: DeserializeLdbl_def)

lemma Ldbl_apart:
  "p + 10 \<le> q \<or> q + 8 \<le> p \<Longrightarrow> DeserializeLdbl (Put64 q x s) p = DeserializeLdbl s p"
  "p + 10 \<le> q \<or> q + 10 \<le> p \<Longrightarrow> DeserializeLdbl (SerializeLdbl q x s) p = DeserializeLdbl s p"
  "p + 10 \<le> 600 \<Longrightarrow> DeserializeLdbl (\<lambda>i. if 600 \<le> i \<and> i < 856 then f i else s i) p = DeserializeLdbl s p"
  by (rule Ldbl_cong; auto simp: Put_frame SerializeLdbl_def Let_def)+

text \<open>What returning from the handler reads.\<close>

definition framed :: "ram \<Rightarrow> Machine \<Rightarrow> bool" where
  "framed s m \<longleftrightarrow> Get64 s 304 = m_ip m \<and> Get64 s 312 = ucast (m_flags m) \<and> Get64 s 432 = m_sigmask m \<and>
     list_all (\<lambda>(f, r). Get64 s f = Get64 (m_beg m) r) ((296, 32) # frame_regs) \<and>
     Get16 s 440 = ucast (f_cw m) \<and> Get16 s 442 = ucast (f_sw m) \<and> Get16 s 444 = ucast (f_tw m) \<and> Get16 s 446 = ucast (f_op m) \<and>
     Get64 s 448 = f_ip m \<and> Get64 s 456 = f_dp m \<and>
     list_all (\<lambda>i. DeserializeLdbl s (472 + 16 * i) = Get64 (f_st m) (8 * i)) [0..<8] \<and>
     (\<forall>i<256. s (600 + i) = m_xmm m i)"

lemmas frame_reads = Get_Put Get64_apart Get16_apart Ldbl_apart Ldbl_roundtrip_bits

lemma upt8: "[0..<8] = [0, 1, 2, 3, 4, 5, 6, 7 :: nat]"
  by (simp add: upt_rec)

definition late :: "ram \<Rightarrow> Machine \<Rightarrow> ram" where
  "late s m = (let s = Put64 456 (f_dp m) (Put64 448 (f_ip m) s);
          s = fold (\<lambda>i. SerializeLdbl (472 + 16 * i) (Get64 (f_st m) (8 * i))) [0..<8] s
      in (\<lambda>i. if 600 \<le> i \<and> i < 856 then m_xmm m (i - 600) else s i))"

lemma late_reads:
  "p + 8 \<le> 448 \<Longrightarrow> Get64 (late s m) p = Get64 s p" "p + 2 \<le> 448 \<Longrightarrow> Get16 (late s m) p = Get16 s p"
  "Get64 (late s m) 448 = f_ip m" "Get64 (late s m) 456 = f_dp m"
  "list_all (\<lambda>i. DeserializeLdbl (late s m) (472 + 16 * i) = Get64 (f_st m) (8 * i)) [0..<8]"
  "i < 256 \<Longrightarrow> late s m (600 + i) = m_xmm m i"
  unfolding late_def Let_def upt8 by (simp_all add: frame_reads)

definition middle :: "ram \<Rightarrow> Machine \<Rightarrow> ram" where
  "middle s m = (let s = Put64 296 (Get64 (m_beg m) 32) (put_regs frame_regs (m_beg m) (Put64 432 (m_sigmask m) s));
          s = Put16 440 (ucast (f_cw m)) (Put64 312 (ucast (m_flags m)) (Put64 304 (m_ip m) s))
      in Put16 446 (ucast (f_op m)) (Put16 444 (ucast (f_tw m)) (Put16 442 (ucast (f_sw m)) s)))"

lemma middle_reads:
  "Get64 (middle s m) 304 = m_ip m" "Get64 (middle s m) 312 = ucast (m_flags m)" "Get64 (middle s m) 432 = m_sigmask m"
  "list_all (\<lambda>(f, r). Get64 (middle s m) f = Get64 (m_beg m) r) ((296, 32) # frame_regs)"
  "Get16 (middle s m) 440 = ucast (f_cw m)" "Get16 (middle s m) 442 = ucast (f_sw m)"
  "Get16 (middle s m) 444 = ucast (f_tw m)" "Get16 (middle s m) 446 = ucast (f_op m)"
  unfolding middle_def Let_def put_regs_def frame_regs_def by (simp_all add: frame_reads)

lemma frame_parts: "\<exists>s. frame sig code m = late (middle s m) m"
  unfolding frame_def late_def middle_def Let_def by blast

lemma framed_cong:
  assumes "framed s m" "\<And>i. i < 952 \<Longrightarrow> i \<notin> {0..<8} \<Longrightarrow> i \<notin> {360..<368} \<Longrightarrow> t i = s i"
  shows "framed t m"
proof -
  have w: "Get64 t p = Get64 s p" if "8 \<le> p" "p + 8 \<le> 360 \<or> 368 \<le> p" "p + 8 \<le> 952" for p
    using that assms(2) by (intro Get_cong(3)) auto
  have h: "Get16 t p = Get16 s p" if "368 \<le> p" "p + 2 \<le> 952" for p
    using that assms(2) by (intro Get_cong(1)) auto
  have l: "DeserializeLdbl t p = DeserializeLdbl s p" if "368 \<le> p" "p + 10 \<le> 952" for p
    using that assms(2) by (intro Ldbl_cong) auto
  show ?thesis
    using assms(1) unfolding framed_def upt8 frame_regs_def by (simp add: w h l assms(2))
qed

lemma frame_framed: "framed (frame sig code m) m"
proof -
  obtain s where s: "frame sig code m = late (middle s m) m" using frame_parts by blast
  have "list_all (\<lambda>(f, r). Get64 (late (middle s m) m) f = Get64 (m_beg m) r) ((296, 32) # frame_regs)"
    using middle_reads(4) [of s m] by (simp add: frame_regs_def late_reads)
  then show ?thesis unfolding framed_def s by (simp only: late_reads middle_reads) (simp add: late_reads middle_reads)
qed

section \<open>The frame in the guest's memory\<close>

lemma GetPageAddress_frames:
  "fst (GetPageAddress e c (m\<lparr>m_local := l\<rparr>)) = fst (GetPageAddress e c m)"
  "fst (GetPageAddress e c (m\<lparr>m_sigmask := x\<rparr>)) = fst (GetPageAddress e c m)"
  "fst (GetPageAddress e c (m\<lparr>m_sigaltstack := l\<rparr>)) = fst (GetPageAddress e c m)"
  "fst (GetPageAddress e c (m\<lparr>m_writeaddr := a\<rparr>)) = fst (GetPageAddress e c m)"
  "fst (GetPageAddress e c (m\<lparr>m_writesize := n\<rparr>)) = fst (GetPageAddress e c m)"
  by (simp_all add: GetPageAddress_def seq.simps gets_def unassert_def ret_def FindHostPage_def)

lemma user_page_frames [simp]:
  "user_page v h (m\<lparr>m_local := l\<rparr>) = user_page v h m" "user_page v h (m\<lparr>m_sigmask := x\<rparr>) = user_page v h m"
  "user_page v h (m\<lparr>m_sigaltstack := l\<rparr>) = user_page v h m" "user_page v h (m\<lparr>m_writeaddr := a\<rparr>) = user_page v h m"
  "user_page v h (m\<lparr>m_writesize := n\<rparr>) = user_page v h m"
  by (simp_all add: user_page_def GetPageAddress_frames)

lemma copy_in_page:
  assumes "user_page v h m" "page_offset v + n \<le> 4096" "0 < n"
  shows "VirtualCopy v r n True m = (case copy_bytes r (Host (h + page_offset v)) n m of (_, m) \<Rightarrow> (Return True, m))"
    "VirtualCopy v r n False m = (case copy_bytes (Host (h + page_offset v)) r n m of (_, m) \<Rightarrow> (Return True, m))"
proof -
  have k: "min (4096 - page_offset v) n = n" using assms(2) by simp
  have p: "h + page_offset v \<noteq> 0" "\<not> m_metal m" using assms(1) by (auto simp: user_page_def)
  show "VirtualCopy v r n True m = (case copy_bytes r (Host (h + page_offset v)) n m of (_, m) \<Rightarrow> (Return True, m))"
    "VirtualCopy v r n False m = (case copy_bytes (Host (h + page_offset v)) r n m of (_, m) \<Rightarrow> (Return True, m))"
    unfolding VirtualCopy.simps [of v r n] k Let_def using assms(3) p
    by (auto simp add: modify_def seq_return [of "LookupAddress v", OF LookupAddress_cached [OF assms(1)]] VirtualCopy.simps [of _ _ 0] copy_bytes_def seq_modify ret_def
        seq_gets IsRomAddress_def seq_assoc)
qed

definition on_host :: "nat \<Rightarrow> nat \<Rightarrow> ram \<Rightarrow> ram \<Rightarrow> ram" where
  "on_host p n l s = (\<lambda>i. if p \<le> i \<and> i < p + n then l (i - p) else s i)"

lemma CopyToUserWrite_page:
  assumes "user_page v h m" "page_offset v + n \<le> 4096" "0 < n"
  shows "CopyToUserWrite v (Local 0) n m =
    (Return True, m\<lparr>h_ram := on_host (h + page_offset v) n (m_local m) (h_ram m), m_writeaddr := v, m_writesize := n\<rparr>)"
proof -
  have "copy_bytes (Host (h + page_offset v)) (Local 0) n m = (Return (), m\<lparr>h_ram := on_host (h + page_offset v) n (m_local m) (h_ram m)\<rparr>)"
    unfolding copy_bytes_def modify_def on_host_def by (simp cong: if_cong)
  then have "VirtualCopy v (Local 0) n False m = (Return True, m\<lparr>h_ram := on_host (h + page_offset v) n (m_local m) (h_ram m)\<rparr>)"
    using copy_in_page(2) [OF assms, of "Local 0"] by simp
  then show ?thesis
    using assms(3) by (simp add: CopyToUserWrite_def CopyToUser_def seq_return SetWriteAddr_def seq_modify ret_def modify_def)
qed

lemma CopyFromUserRead_page:
  assumes "user_page v h m" "page_offset v + n \<le> 4096" "0 < n"
  shows "CopyFromUserRead (Local 0) v n m =
    (Return True, m\<lparr>m_local := (\<lambda>i. if i < n then h_ram m (h + page_offset v + i) else m_local m i), m_readaddr := v, m_readsize := n\<rparr>)"
proof -
  have "copy_bytes (Local 0) (Host (h + page_offset v)) n m =
    (Return (), m\<lparr>m_local := (\<lambda>i. if i < n then h_ram m (h + page_offset v + i) else m_local m i)\<rparr>)"
    unfolding copy_bytes_def modify_def by (simp cong: if_cong)
  then have "VirtualCopy v (Local 0) n True m =
    (Return True, m\<lparr>m_local := (\<lambda>i. if i < n then h_ram m (h + page_offset v + i) else m_local m i)\<rparr>)"
    using copy_in_page(1) [OF assms, of "Local 0"] by simp
  then show ?thesis
    using assms(3) by (simp add: CopyFromUserRead_def CopyFromUser_def seq_return SetReadAddr_def seq_modify ret_def modify_def)
qed

declare bit_numeral_word_iff [simp del]

section \<open>Delivering and returning\<close>

text \<open>Where the frame goes, and the alternate stack afterwards.\<close>

definition on_alternate :: "int \<Rightarrow> Machine \<Rightarrow> bool" where
  "on_alternate sig m \<longleftrightarrow> sa_flags (hand sig m) AND SA_ONSTACK_LINUX \<noteq> 0 \<and> alt_flags m AND SS_DISABLE_LINUX = 0"

definition stack_top :: "int \<Rightarrow> Machine \<Rightarrow> u64" where
  "stack_top sig m = (if on_alternate sig m then Get64 (m_sigaltstack m) 0 + Get64 (m_sigaltstack m) 16 else Get64 (m_beg m) 32 - 128)"

definition signal_frame :: "int \<Rightarrow> Machine \<Rightarrow> u64" where
  "signal_frame sig m = (stack_top sig m AND - 16) - 952"

definition disarmed :: "int \<Rightarrow> Machine \<Rightarrow> ram" where
  "disarmed sig m = (if on_alternate sig m \<and> alt_flags m AND SS_AUTODISARM_LINUX \<noteq> 0
     then Put32 8 (alt_flags m AND NOT SS_AUTODISARM_LINUX) (m_sigaltstack m) else m_sigaltstack m)"

lemma signal_frame_aligned: "signal_frame sig m AND 15 = 8"
proof -
  have b: "bit (8 :: u64) n \<longleftrightarrow> n = 3" "bit (15 :: u64) n \<longleftrightarrow> n < 4" for n
    using bit_exp_iff [where 'a = "64 word", of 3 n] bit_mask_iff [where 'a = "64 word", of 4 n] by (auto simp: mask_numeral)
  have "((x AND - 16) - 952) AND 15 = (8 :: u64)" for x
  proof -
    have "x AND - 16 = x AND NOT (mask 4)" by (simp add: mask_numeral)
    also have "\<dots> = shl (shr x 4) 4" by (rule bit_word_eqI) (auto simp: bit_simps)
    finally have "(x AND - 16) - 952 = shl (shr x 4 - 60) 4 + 8"
      by (simp add: push_bit_eq_mult algebra_simps)
    also have "\<dots> = shl (shr x 4 - 60) 4 OR 8"
      by (rule disjunctive_add) (auto simp: bit_push_bit_iff b)
    also have "\<dots> AND 15 = 8"
      by (rule bit_word_eqI) (auto simp: bit_push_bit_iff bit_and_iff bit_or_iff b)
    finally show ?thesis .
  qed
  then show ?thesis by (simp add: signal_frame_def)
qed

lemma put_local_run: "thn (put_local f i g) h m = h (m\<lparr>m_local := f i (g m) (m_local m)\<rparr>)"
  by (simp add: put_local_def seq_modify)

lemma signal_stack_run:
  "signal_stack sig m = (Return (stack_top sig m), m\<lparr>m_sigaltstack := disarmed sig m\<rparr>)"
  by (auto simp: signal_stack_def seq_gets seq_modify stack_top_def disarmed_def on_alternate_def ret_def gets_def)

text \<open>The frame as it is copied to the guest.\<close>

definition delivered_frame :: "int \<Rightarrow> int \<Rightarrow> Machine \<Rightarrow> ram" where
  "delivered_frame sig code m =
     Put64 360 (signal_frame sig m + 440) (Put64 0 (sa_restorer (hand sig m)) (frame sig code m))"

definition delivered :: "int \<Rightarrow> int \<Rightarrow> nat \<Rightarrow> Machine \<Rightarrow> Machine" where
  "delivered sig code p m =
     (let fr = signal_frame sig m in
      m\<lparr>m_sigmask := handler_mask sig m, m_sigaltstack := disarmed sig m, m_local := delivered_frame sig code m,
        h_ram := on_host p 952 (delivered_frame sig code m) (h_ram m), m_writeaddr := fr, m_writesize := 952,
        m_beg := Put64 16 (fr + 136) (Put64 48 (fr + 8) (Put64 56 (of_int sig) (Put64 32 fr (m_beg m)))),
        m_ip := sa_handler (hand sig m)\<rparr>)"

lemma stack_frames:
  "stack_top sig (m\<lparr>m_local := l, m_sigmask := x\<rparr>) = stack_top sig m" "disarmed sig (m\<lparr>m_local := l, m_sigmask := x\<rparr>) = disarmed sig m"
  by (simp_all add: stack_top_def disarmed_def on_alternate_def hand_def alt_flags_def)

lemma DeliverSignal_run:
  assumes "user_page (signal_frame sig m) h m" "page_offset (signal_frame sig m) + 952 \<le> 4096"
  shows "DeliverSignal sig code m = (Return (), delivered sig code (h + page_offset (signal_frame sig m)) m)"
proof -
  let ?fr = "signal_frame sig m" and ?l = "frame sig code m" and ?x = "handler_mask sig m"
  let ?k = "m\<lparr>m_local := ?l, m_sigmask := ?x\<rparr>"
  have mask: "handler_mask sig (m\<lparr>m_local := ?l\<rparr>) = ?x" by (simp add: handler_mask_def hand_def)
  have hand: "hand sig (m\<lparr>m_local := a, m_sigmask := b, m_sigaltstack := c\<rparr>) = hand sig m" for a b c by (simp add: hand_def)
  let ?d = "m\<lparr>m_sigmask := ?x, m_sigaltstack := disarmed sig m, m_local := delivered_frame sig code m\<rparr>"
  have copy: "CopyToUserWrite ?fr (Local 0) 952 ?d = (Return True, ?d\<lparr>h_ram := on_host (h + page_offset ?fr) 952 (m_local ?d) (h_ram ?d),
      m_writeaddr := ?fr, m_writesize := 952\<rparr>)"
    using assms by (intro CopyToUserWrite_page) simp_all
  have sp: "(stack_top sig m AND - 16) - 952 = ?fr" by (simp add: signal_frame_def)
  have aligned: "?fr AND 15 = 8" by (rule signal_frame_aligned)
  have "DeliverSignal sig code m =
    seq (signal_stack sig) (\<lambda>sp.
      let sp = (sp AND - 16) - 952 in
      thn (unassert (sp AND 15 = 8))
      (thn (put_local Put64 0 (\<lambda>m. sa_restorer (hand sig m)))
      (thn (put_local Put64 360 (\<lambda>_. sp + 440))
      (seq (CopyToUserWrite sp (Local 0) 952) (\<lambda>ok.
       thn (if \<not> ok then seq (gets m_segvcode) (TerminateSignal SIGSEGV_LINUX) else ret ())
       (modify (\<lambda>m. m\<lparr>m_beg := Put64 16 (sp + 136) (Put64 48 (sp + 8) (Put64 56 (of_int sig) (Put64 32 sp (m_beg m)))),
                     m_ip := sa_handler (hand sig m)\<rparr>)))))))  ?k"
    unfolding DeliverSignal_def thn_run [OF capture_run] seq_modify mask by simp
  also have "\<dots> = (thn (put_local Put64 0 (\<lambda>m. sa_restorer (hand sig m)))
      (thn (put_local Put64 360 (\<lambda>_. ?fr + 440))
      (seq (CopyToUserWrite ?fr (Local 0) 952) (\<lambda>ok.
       thn (if \<not> ok then seq (gets m_segvcode) (TerminateSignal SIGSEGV_LINUX) else ret ())
       (modify (\<lambda>m. m\<lparr>m_beg := Put64 16 (?fr + 136) (Put64 48 (?fr + 8) (Put64 56 (of_int sig) (Put64 32 ?fr (m_beg m)))),
                     m_ip := sa_handler (hand sig m)\<rparr>))))))  (?k\<lparr>m_sigaltstack := disarmed sig m\<rparr>)"
    unfolding seq_return [of "signal_stack sig" ?k, OF signal_stack_run] stack_frames sp Let_def seq_unassert aligned by simp
  also have "\<dots> = seq (CopyToUserWrite ?fr (Local 0) 952) (\<lambda>ok.
       thn (if \<not> ok then seq (gets m_segvcode) (TerminateSignal SIGSEGV_LINUX) else ret ())
       (modify (\<lambda>m. m\<lparr>m_beg := Put64 16 (?fr + 136) (Put64 48 (?fr + 8) (Put64 56 (of_int sig) (Put64 32 ?fr (m_beg m)))),
                     m_ip := sa_handler (hand sig m)\<rparr>))) ?d"
    unfolding put_local_run by (simp add: hand delivered_frame_def)
  also have "\<dots> = (Return (), delivered sig code (h + page_offset ?fr) m)"
    unfolding seq_return [of "CopyToUserWrite ?fr (Local 0) 952" ?d, OF copy]
    by (simp add: modify_def delivered_def Let_def hand_def)
  finally show ?thesis .
qed

lemma restore_bytes: "fold (\<lambda>r. Put64 r (Get64 t r)) rs s i = (if \<exists>r\<in>set rs. r \<le> i \<and> i < r + 8 then t i else s i)"
proof (induction rs arbitrary: s)
  case (Cons r rs)
  have "Put64 r (Get64 t r) s i = (if r \<le> i \<and> i < r + 8 then t i else s i)"
    unfolding copy8 [of r t r s, symmetric] by simp
  then show ?case by (auto simp: Cons)
qed simp

lemma restored_regs:
  assumes "list_all (\<lambda>(f, r). Get64 l f = Get64 t r) ((296, 32) # frame_regs)" "i < 128"
  shows "Put64 32 (Get64 l 296) (put_regs (map prod.swap frame_regs) l s) i = t i"
proof -
  have "Put64 32 (Get64 l 296) (put_regs (map prod.swap frame_regs) l s) =
    fold (\<lambda>r. Put64 r (Get64 t r)) (map snd frame_regs @ [32]) s"
    using assms(1) by (simp add: put_regs_def frame_regs_def)
  moreover have "\<exists>r\<in>set (map snd frame_regs @ [32]). r \<le> i \<and> i < r + 8"
    using assms(2) by (simp add: frame_regs_def) presburger
  ultimately show ?thesis by (simp only: restore_bytes if_True)
qed

lemma restored_st:
  assumes "list_all (\<lambda>i. DeserializeLdbl l (472 + 16 * i) = Get64 t (8 * i)) [0..<8]" "i < 64"
  shows "fold (\<lambda>i. Put64 (8 * i) (DeserializeLdbl l (472 + 16 * i))) [0..<8] s i = t i"
proof -
  have "fold (\<lambda>i. Put64 (8 * i) (DeserializeLdbl l (472 + 16 * i))) [0..<8] s = fold (\<lambda>r. Put64 r (Get64 t r)) [0, 8, 16, 24, 32, 40, 48, 56] s"
    using assms(1) by (simp add: upt8)
  moreover have "\<exists>r\<in>set [0, 8, 16, 24, 32, 40, 48, 56]. r \<le> i \<and> i < r + 8"
    using assms(2) by simp presburger
  ultimately show ?thesis by (simp only: restore_bytes if_True)
qed

lemma SigRestore_run:
  assumes "user_page fr h k" "page_offset fr + 952 \<le> 4096" "Get64 (m_beg k) 32 = fr + 8"
    and "framed (\<lambda>i. if i < 952 then h_ram k (h + page_offset fr + i) else m_local k i) m"
  shows "\<exists>r. SigRestore k = (Return (), r) \<and> m_ip r = m_ip m \<and> m_flags r = m_flags m \<and> m_sigmask r = m_sigmask m \<and>
    (\<forall>i<128. m_beg r i = m_beg m i) \<and> (\<forall>i<256. m_xmm r i = m_xmm m i) \<and> (\<forall>i<64. f_st r i = f_st m i) \<and>
    f_cw r = f_cw m AND 0xffff \<and> f_sw r = f_sw m AND 0xffff \<and> f_tw r = f_tw m AND 0xffff \<and> f_op r = f_op m AND 0xffff \<and>
    f_ip r = f_ip m \<and> f_dp r = f_dp m \<and> m_restored r \<and> m_attention r \<and> h_ram r = h_ram k"
proof -
  define l where "l = (\<lambda>i. if i < 952 then h_ram k (h + page_offset fr + i) else m_local k i)"
  let ?k = "k\<lparr>m_local := l, m_readaddr := fr, m_readsize := 952\<rparr>"
  have read: "CopyFromUserRead (Local 0) fr 952 k = (Return True, ?k)"
    unfolding l_def by (rule CopyFromUserRead_page [OF assms(1,2)]) simp
  have "seq (rd Get64 SP) (\<lambda>sp. CopyFromUserRead (Local 0) (sp - 8) 952) k = (Return True, ?k)"
    using read assms(3) by (simp add: rd_def seq_gets)
  then have start: "thn (seq (seq (rd Get64 SP) (\<lambda>sp. CopyFromUserRead (Local 0) (sp - 8) 952)) unassert) g k = g ?k" for g :: "unit exec"
    by (simp add: seq_assoc) (simp add: rd_def seq_gets seq_return seq_unassert assms(3) read)
  have low: "ucast (ucast x :: u16) = x AND 0xffff" for x :: u32
  proof -
    have "x AND 0xffff = take_bit 16 x" by (simp add: take_bit_eq_mask mask_numeral)
    then show ?thesis by (intro bit_word_eqI) (auto simp: bit_simps)
  qed
  have flags: "ucast (ucast x :: u64) = x" for x :: u32 by (rule bit_word_eqI) (auto simp: bit_simps)
  have f: "framed l m" unfolding l_def by (rule assms(4))
  note f = f [unfolded framed_def]
  let ?r = "?k\<lparr>m_ip := m_ip m, m_flags := m_flags m, m_sigmask := m_sigmask m, f_cw := f_cw m AND 0xffff,
    m_beg := Put64 32 (Get64 l 296) (put_regs (map prod.swap frame_regs) l (m_beg k)),
    f_sw := f_sw m AND 0xffff, f_tw := f_tw m AND 0xffff, f_op := f_op m AND 0xffff,
    f_ip := f_ip m, f_dp := f_dp m,
    f_st := fold (\<lambda>i. Put64 (8 * i) (DeserializeLdbl l (472 + 16 * i))) [0..<8] (f_st k),
    m_xmm := (\<lambda>i. if i < 256 then l (600 + i) else m_xmm k i), m_restored := True, m_attention := True\<rparr>"
  have copy: "copy_bytes (Xmm 0) (Local 600) 256 = modify (\<lambda>m. m\<lparr>m_xmm := (\<lambda>i. if i < 256 then m_local m (600 + i) else m_xmm m i)\<rparr>)"
    unfolding copy_bytes_def by (simp cong: if_cong)
  have "SigRestore k = (Return (), ?r)"
    unfolding SigRestore_def start seq_modify
    by (simp add: thn_run [OF load_regs_run] thn_run [OF load_st_run] copy_from_local copy seq_modify modify_def f low flags cong: if_cong)
  moreover have "Put64 32 (Get64 l 296) (put_regs (map prod.swap frame_regs) l (m_beg k)) i = m_beg m i" if "i < 128" for i
    by (rule restored_regs [OF _ that]) (use f in blast)
  moreover have "fold (\<lambda>i. Put64 (8 * i) (DeserializeLdbl l (472 + 16 * i))) [0..<8] (f_st k) i = f_st m i" if "i < 64" for i
    by (rule restored_st [OF _ that]) (use f in blast)
  moreover have "\<forall>i<256. l (600 + i) = m_xmm m i" using f by blast
  ultimately show ?thesis
    by (intro exI [of _ ?r]) simp
qed

text \<open>C36: Returning from a signal handler undoes its delivery: when the frame fits a user page in the cache of translations, delivering a
  signal ends, the handler starts at its address with the number of the signal as its argument and with its mask added to the blocked signals, and
  from any later machine that has popped the return address and still has the frame, the return gives back the program counter, the flags, the
  blocked signals, all general and vector registers, and the coprocessor, whose doubles pass through ten bytes each, bit for bit.\<close>

theorem signal_roundtrip:
  assumes "user_page (signal_frame sig m) h m" "page_offset (signal_frame sig m) + 952 \<le> 4096"
  shows "case DeliverSignal sig code m of
     (Return _, d) \<Rightarrow>
       m_ip d = sa_handler (hand sig m) \<and> Get64 (m_beg d) 56 = of_int sig \<and> m_sigmask d = handler_mask sig m \<and>
       (\<forall>k. user_page (signal_frame sig m) h k \<and> Get64 (m_beg k) 32 = Get64 (m_beg d) 32 + 8 \<and>
            (\<forall>i<952. h_ram k (h + page_offset (signal_frame sig m) + i) = h_ram d (h + page_offset (signal_frame sig m) + i)) \<longrightarrow>
            (\<exists>r. SigRestore k = (Return (), r) \<and> m_ip r = m_ip m \<and> m_flags r = m_flags m \<and> m_sigmask r = m_sigmask m \<and>
               (\<forall>i<128. m_beg r i = m_beg m i) \<and> (\<forall>i<256. m_xmm r i = m_xmm m i) \<and> (\<forall>i<64. f_st r i = f_st m i) \<and>
               f_cw r = f_cw m AND 0xffff \<and> f_sw r = f_sw m AND 0xffff \<and> f_tw r = f_tw m AND 0xffff \<and> f_op r = f_op m AND 0xffff \<and>
               f_ip r = f_ip m \<and> f_dp r = f_dp m \<and> m_restored r \<and> m_attention r \<and> h_ram r = h_ram k))
   | _ \<Rightarrow> False"
proof -
  let ?fr = "signal_frame sig m"
  let ?p = "h + page_offset ?fr"
  let ?d = "delivered sig code ?p m"
  have d: "Get64 (m_beg ?d) 32 = ?fr" "Get64 (m_beg ?d) 56 = of_int sig" "m_ip ?d = sa_handler (hand sig m)"
    "m_sigmask ?d = handler_mask sig m"
    by (simp_all add: delivered_def Let_def frame_reads)
  have l: "h_ram ?d (?p + i) = delivered_frame sig code m i" if "i < 952" for i
    using that by (simp add: delivered_def on_host_def Let_def)
  have "\<exists>r. SigRestore k = (Return (), r) \<and> m_ip r = m_ip m \<and> m_flags r = m_flags m \<and> m_sigmask r = m_sigmask m \<and>
      (\<forall>i<128. m_beg r i = m_beg m i) \<and> (\<forall>i<256. m_xmm r i = m_xmm m i) \<and> (\<forall>i<64. f_st r i = f_st m i) \<and>
      f_cw r = f_cw m AND 0xffff \<and> f_sw r = f_sw m AND 0xffff \<and> f_tw r = f_tw m AND 0xffff \<and> f_op r = f_op m AND 0xffff \<and>
      f_ip r = f_ip m \<and> f_dp r = f_dp m \<and> m_restored r \<and> m_attention r \<and> h_ram r = h_ram k"
    if k: "user_page ?fr h k" "Get64 (m_beg k) 32 = Get64 (m_beg ?d) 32 + 8" "\<forall>i<952. h_ram k (?p + i) = h_ram ?d (?p + i)" for k
  proof (rule SigRestore_run [OF k(1) assms(2)])
    show "Get64 (m_beg k) 32 = ?fr + 8" using k(2) d(1) by simp
    show "framed (\<lambda>i. if i < 952 then h_ram k (?p + i) else m_local k i) m"
      proof (rule framed_cong [OF frame_framed [of sig code]])
      fix i :: nat
      assume i: "i < 952" "i \<notin> {0..<8}" "i \<notin> {360..<368}"
      then have "i < 0 \<or> 0 + 8 \<le> i" "i < 360 \<or> 360 + 8 \<le> i" by auto
      then have "delivered_frame sig code m i = frame sig code m i"
        unfolding delivered_frame_def by (simp only: Put_frame(3))
      then show "(if i < 952 then h_ram k (?p + i) else m_local k i) = frame sig code m i" using i(1) k(3) l by simp
    qed
  qed
  then show ?thesis
    using d by (simp add: DeliverSignal_run [OF assms])
qed

lemma GetPageAddress_cong:
  "s_real k = s_real m \<Longrightarrow> g_hostpages_p k = g_hostpages_p m \<Longrightarrow> fst (GetPageAddress e c k) = fst (GetPageAddress e c m)"
  by (simp add: GetPageAddress_def seq.simps gets_def unassert_def ret_def FindHostPage_def)

lemma user_page_cong:
  "m_metal k = m_metal m \<Longrightarrow> m_invalidated k = m_invalidated m \<Longrightarrow> m_tlb k = m_tlb m \<Longrightarrow> s_real k = s_real m \<Longrightarrow>
   g_hostpages_p k = g_hostpages_p m \<Longrightarrow> user_page v h k = user_page v h m"
  using GetPageAddress_cong [of k m _ False] by (simp add: user_page_def)

lemma user_page_delivered [simp]: "user_page v h (delivered sig code p m) = user_page v h m"
  "user_page v h (m\<lparr>m_beg := s\<rparr>) = user_page v h m"
  by (rule user_page_cong; simp add: delivered_def Let_def)+

theorem signal_roundtrip_witness:
  "\<exists>d r. DeliverSignal 15 0 (stacked\<lparr>m_beg := Put64 32 0x1f00 (\<lambda>_. 0)\<rparr>) = (Return (), d) \<and> m_ip d \<noteq> 0x400003 \<and>
     SigRestore (d\<lparr>m_beg := Put64 32 (Get64 (m_beg d) 32 + 8) (\<lambda>_. 255)\<rparr>) = (Return (), r) \<and> m_ip r = 0x400003 \<and>
     (\<forall>i<128. m_beg r i = Put64 32 0x1f00 (\<lambda>_. 0) i)"
proof -
  let ?m = "stacked\<lparr>m_beg := Put64 32 0x1f00 (\<lambda>_. 0)\<rparr>"
  have fr: "signal_frame 15 ?m = 0x1ac8"
    by (simp add: signal_frame_def stack_top_def on_alternate_def hand_def stacked_def paged_def idle_def Get_Put)
  have p: "user_page (signal_frame 15 ?m) 0x6000 ?m"
    unfolding fr by (simp add: user_page_def stacked_def paged_def idle_def GetPageAddress_def seq.simps unassert_def gets_def ret_def)
  have o: "page_offset (signal_frame 15 ?m) + 952 \<le> 4096" unfolding fr by (simp add: page_offset_def)
  have ip: "m_ip ?m = 0x400003" "sa_handler (hand 15 ?m) = 0" "m_beg ?m = Put64 32 0x1f00 (\<lambda>_. 0)"
    by (simp_all add: hand_def stacked_def paged_def idle_def)
  let ?d = "delivered 15 0 (0x6000 + page_offset (signal_frame 15 ?m)) ?m"
  let ?k = "?d\<lparr>m_beg := Put64 32 (Get64 (m_beg ?d) 32 + 8) (\<lambda>_. 255)\<rparr>"
  note d = DeliverSignal_run [OF p o, of 0]
  note round = signal_roundtrip [OF p o, of 0, unfolded d prod.case outcome.case]
  have k: "user_page (signal_frame 15 ?m) 0x6000 ?k \<and> Get64 (m_beg ?k) 32 = Get64 (m_beg ?d) 32 + 8 \<and>
     (\<forall>i<952. h_ram ?k (0x6000 + page_offset (signal_frame 15 ?m) + i) = h_ram ?d (0x6000 + page_offset (signal_frame 15 ?m) + i))"
    using p by (simp only: user_page_delivered) (simp add: Get_Put)
  obtain r where "SigRestore ?k = (Return (), r)" "m_ip r = m_ip ?m" "\<forall>i<128. m_beg r i = m_beg ?m i"
    using round [THEN conjunct2, THEN conjunct2, THEN conjunct2, rule_format, OF k] by (elim exE conjE)
  moreover have "m_ip ?d = 0" using round [THEN conjunct1] ip(2) by (simp only:)
  ultimately show ?thesis unfolding ip by (intro exI [of _ ?d] exI [of _ r]) (simp only: d, simp)
qed

end
