(* ===== verification/Drain.thy ===== *)
theory Drain
  imports SignalSpec
begin

text \<open>
  That pending signals are dealt with: delivering a signal keeps the pending ones and only blocks more, and every check for signals takes one that is not blocked.
\<close>

declare seq.simps [simp del]

section \<open>What an operation keeps beside the memory\<close>

lemma safe_steady:
  assumes "\<And>k. safe (steady k) f" "\<And>m. J m \<Longrightarrow> pool_ok m \<and> \<not> m_insyscall m"
    and "\<And>m m'. J m \<Longrightarrow> pool_ok m' \<Longrightarrow> \<not> m_insyscall m' \<Longrightarrow> fixed_state m' = fixed_state m \<Longrightarrow> J m'"
  shows "safe J f"
  unfolding safe_def
proof (rule triple_fixed)
  fix m assume J: "J m"
  have "triple (steady (fixed_state m)) f (\<lambda>_. steady (fixed_state m))" using assms(1) by (simp add: safe_def)
  then show "triple (\<lambda>k. k = m) f (\<lambda>_. J)"
    using assms(2) [OF J] assms(3) [OF J] by (elim triple_weaken) (auto simp: steady_fixed)
qed

text \<open>The pending signals are \<open>S\<close>, and those of \<open>M\<close> are blocked.\<close>

definition pending :: "u64 \<Rightarrow> u64 \<Rightarrow> Machine \<Rightarrow> bool" where
  "pending S M m \<longleftrightarrow> pool_ok m \<and> \<not> m_insyscall m \<and> \<not> m_metal m \<and> m_signals m = S \<and> M AND NOT (m_sigmask m) = 0"

lemma fixed_signals:
  assumes "fixed_state m' = fixed_state m"
  shows "m_signals m' = m_signals m \<and> m_sigmask m' = m_sigmask m \<and> m_metal m' = m_metal m"
proof -
  have eq: "f m' = f m" if "\<And>m. f (fixed_state m) = f m" for f :: "Machine \<Rightarrow> 'a"
    by (metis assms that)
  show ?thesis
    by (intro conjI; rule eq; simp add: fixed_state_def core_def settled_def outside_def forget_def)
qed

lemma pending_update:
  assumes "\<And>m. m_signals (f m) = m_signals m" "\<And>m. m_metal (f m) = m_metal m" "\<And>m. m_insyscall (f m) = m_insyscall m"
    "\<And>m. pool_ok (f m) = pool_ok m" "\<And>m. \<exists>x. m_sigmask (f m) = m_sigmask m OR x"
  shows "safe (pending S M) (modify f)"
proof (rule safe_modify)
  fix m assume p: "pending S M m"
  obtain x where "m_sigmask (f m) = m_sigmask m OR x" using assms(5) by blast
  moreover have "M AND NOT (y OR x) = 0" if "M AND NOT y = 0" for y
    using arg_cong [OF that, of "\<lambda>w. w AND NOT x"] by (simp add: and.assoc)
  ultimately show "pending S M (f m)" using p by (simp add: pending_def assms)
qed

lemma pending_fixed:
  "pending S M m \<Longrightarrow> pool_ok m' \<Longrightarrow> \<not> m_insyscall m' \<Longrightarrow> fixed_state m' = fixed_state m \<Longrightarrow> pending S M m'"
  by (drule fixed_signals) (simp add: pending_def)

lemma pending_copies [safe_intros]: "safe (pending S M) (CopyToUserWrite v p n)" "safe (pending S M) (TerminateSignal sig code)"
proof -
  show "safe (pending S M) (CopyToUserWrite v p n)"
    by (rule safe_steady [OF cpu.safe_user_copies(4)]) (simp add: pending_def, rule pending_fixed)
  show "safe (pending S M) (TerminateSignal sig code)"
    unfolding TerminateSignal_def by (intro safe_intros)
qed

lemma pending_regs [safe_intros]:
  "safe (pending S M) (modify (\<lambda>m. m\<lparr>m_local := f m\<rparr>))"
  "safe (pending S M) (modify (\<lambda>m. m\<lparr>m_sigaltstack := f m\<rparr>))"
  "safe (pending S M) (modify (\<lambda>m. if c m then m\<lparr>m_sigaltstack := f m\<rparr> else m))"
  "safe (pending S M) (modify (\<lambda>m. m\<lparr>m_beg := f m, m_ip := g m\<rparr>))"
  by (rule pending_update; simp add: pool_ok_def; rule exI [of _ 0], simp)+

lemma pending_mask [safe_intros]: "safe (pending S M) (modify (\<lambda>m. m\<lparr>m_sigmask := handler_mask sig m\<rparr>))"
proof -
  have "\<exists>x. handler_mask sig m = m_sigmask m OR x" for m
    unfolding handler_mask_def Let_def or.assoc by (simp split: if_split) blast
  then show ?thesis by (intro pending_update) (simp_all add: pool_ok_def)
qed

lemma pending_run: "(\<And>m. f m = (Return (), m\<lparr>m_local := g m\<rparr>)) \<Longrightarrow> safe (pending S M) f"
  by (simp add: safe_def triple_def pending_def pool_ok_def)

lemma pending_DeliverSignal [safe_intros]: "safe (pending S M) (DeliverSignal sig code)"
  unfolding DeliverSignal_def signal_stack_def put_local_def Let_def
  by (intro safe_intros pending_run [OF capture_run])

section \<open>Checking for signals\<close>

abbreviation bits :: "u64 \<Rightarrow> nat set" where
  "bits w \<equiv> {i. bit w i}"

lemma bits_less:
  assumes "S AND NOT M \<noteq> 0" "M AND NOT M' = 0" "S' = S AND NOT (sigbit (int (bsr (S AND NOT M)) + 1))"
  shows "card (bits (S' AND NOT M')) < card (bits (S AND NOT M))"
proof (rule psubset_card_mono)
  let ?k = "bsr (S AND NOT M)"
  have k: "bit (S AND NOT M) ?k" "?k < 64" using bsr_bits [OF assms(1)] by auto
  have M: "bit M i \<Longrightarrow> i < 64 \<Longrightarrow> bit M' i" for i
    using arg_cong [OF assms(2), of "\<lambda>w. bit w i"] by (auto simp: bit_simps)
  show "finite (bits (S AND NOT M))"
    by (rule finite_subset [of _ "{..<64}"]) (auto dest: bit_imp_le_length)
  have "bits (S' AND NOT M') \<subseteq> bits (S AND NOT M)"
    using M by (auto simp: assms(3) bit_simps)
  moreover have "\<not> bit (S' AND NOT M') ?k" using k by (simp add: assms(3) sigbit_def bit_simps)
  ultimately show "bits (S' AND NOT M') \<subset> bits (S AND NOT M)" using k(1) by auto
qed

definition ready :: "nat \<Rightarrow> Machine \<Rightarrow> bool" where
  "ready n m \<longleftrightarrow> pool_ok m \<and> \<not> m_insyscall m \<and> \<not> m_metal m \<and> card (bits (m_signals m AND NOT (m_sigmask m))) < n"

definition quiet :: "Machine \<Rightarrow> bool" where
  "quiet m \<longleftrightarrow> pool_ok m \<and> \<not> m_insyscall m \<and> \<not> m_metal m \<and> \<not> m_attention m \<and> m_signals m AND NOT (m_sigmask m) = 0"

lemma consume_pending:
  assumes "S AND NOT M \<noteq> 0"
  shows "triple (\<lambda>m. pending S M m \<and> m_sigmask m = M) ConsumeSignal
    (\<lambda>_. pending (S AND NOT (sigbit (int (bsr (S AND NOT M)) + 1))) M)"
proof (rule triple_fixed)
  fix m assume m: "pending S M m \<and> m_sigmask m = M"
  let ?sig = "int (bsr (S AND NOT M)) + 1"
  let ?S = "S AND NOT (sigbit ?sig)"
  define rest where "rest =
      (seq (gets (\<lambda>m. sa_handler (hand ?sig m))) (\<lambda>handler.
        if handler = SIG_DFL_LINUX then
          ret (if IsSignalIgnoredByDefault ?sig then 0 else ?sig, 0, True)
        else if handler = SIG_IGN_LINUX then ret (0, 0, True)
        else
          seq (gets (\<lambda>m. sa_flags (hand ?sig m) AND SA_RESTART_LINUX \<noteq> 0)) (\<lambda>restart.
          thn (DeliverSignal ?sig SI_KERNEL_LINUX) (ret (0, ?sig, restart)))))"
  have run: "ConsumeSignal m = rest (m\<lparr>m_signals := ?S\<rparr>)"
    using m assms unfolding ConsumeSignal_def ConsumeSignalImpl_def rest_def pending_def
    by (simp add: seq_gets seq_modify Let_def)
  have "safe (pending ?S M) rest"
    unfolding rest_def by (intro safe_intros)
  moreover have "pending ?S M (m\<lparr>m_signals := ?S\<rparr>)" using m by (simp add: pending_def pool_ok_def)
  ultimately show "triple (\<lambda>k. k = m) ConsumeSignal (\<lambda>_. pending ?S M)"
    unfolding triple_at run by (simp add: safe_def triple_def)
qed

lemma check_pending: "triple (ready (Suc n)) CheckForSignals (\<lambda>_ m. quiet m \<or> ready n m)"
proof (rule triple_fixed)
  fix m assume r: "ready (Suc n) m"
  let ?S = "m_signals m" and ?M = "m_sigmask m"
  let ?S' = "?S AND NOT (sigbit (int (bsr (?S AND NOT ?M)) + 1))"
  show "triple (\<lambda>k. k = m) CheckForSignals (\<lambda>_ m. quiet m \<or> ready n m)"
  proof (cases "m_killed m \<or> ?S AND NOT ?M = 0")
    case True
    then show ?thesis
      using r by (auto simp: triple_at CheckForSignals_def seq_gets leave_def modify_def quiet_def ready_def pool_ok_def)
  next
    case False
    have "triple (pending ?S' ?M) (if sig \<noteq> 0 then TerminateSignal sig 0 else ret ()) (\<lambda>_. pending ?S' ?M)" for sig
      by (rule triple_of_safe) (intro safe_intros)
    then have "triple (\<lambda>m. pending ?S ?M m \<and> m_sigmask m = ?M)
        (seq ConsumeSignal (\<lambda>(sig, _). if sig \<noteq> 0 then TerminateSignal sig 0 else ret ())) (\<lambda>_. pending ?S' ?M)"
      using False by (intro triple_seq [OF consume_pending]) (auto split: prod.split)
    then have "triple (\<lambda>k. k = m) (seq ConsumeSignal (\<lambda>(sig, _). if sig \<noteq> 0 then TerminateSignal sig 0 else ret ()))
        (\<lambda>_. pending ?S' ?M)"
      by (elim triple_pre) (use r in \<open>simp add: pending_def ready_def\<close>)
    then have "triple (\<lambda>k. k = m) CheckForSignals (\<lambda>_. pending ?S' ?M)"
      unfolding triple_at using False by (simp add: CheckForSignals_def seq_gets)
    moreover have "ready n k" if "pending ?S' ?M k" for k
      using that bits_less [of ?S ?M "m_sigmask k" ?S'] False r by (simp add: ready_def pending_def)
    ultimately show ?thesis by (elim triple_weaken) simp_all
  qed
qed

lemma check_quiet: "triple quiet CheckForSignals (\<lambda>_. quiet)"
  by (auto simp: triple_def CheckForSignals_def seq_gets leave_def modify_def quiet_def pool_ok_def)

lemma checks_quiet: "triple quiet ((thn CheckForSignals ^^ n) (ret ())) (\<lambda>_. quiet)"
  by (induction n) (auto intro: triple_ret triple_seq check_quiet)

lemma checks_drain: "triple (ready n) ((thn CheckForSignals ^^ n) (ret ())) (\<lambda>_. quiet)"
proof (induction n)
  case 0
  then show ?case by (simp add: triple_def ready_def)
next
  case (Suc n)
  have "triple (\<lambda>m. quiet m \<or> ready n m) ((thn CheckForSignals ^^ n) (ret ())) (\<lambda>_. quiet)"
    using Suc checks_quiet [of n] by (auto simp: triple_def)
  then show ?case using check_pending [of n] by (auto intro: triple_seq)
qed

text \<open>C37: Pending signals are dealt with: on a machine that is not in a system call, checking for signals more often than there are pending signals that are not
  blocked never loops forever, and unless the process has ended, no signal that is not blocked is pending any more, even though handlers only
  block more of them, and nothing asks for attention.\<close>

theorem signals_drain:
  assumes "pool_ok m" "\<not> m_insyscall m" "\<not> m_metal m"
    and "card {i. bit (m_signals m AND NOT (m_sigmask m)) i} < n"
  shows "case (thn CheckForSignals ^^ n) (ret ()) m of
     (Return _, m') \<Rightarrow> \<not> m_attention m' \<and> m_signals m' AND NOT (m_sigmask m') = 0
   | (Diverge, _) \<Rightarrow> False
   | _ \<Rightarrow> True"
  using checks_drain [of n] assms by (auto simp: triple_def ready_def quiet_def split: outcome.splits prod.splits)

theorem signals_drain_witness:
  "case (thn CheckForSignals ^^ 3) (ret ()) (idle\<lparr>m_signals := 0x10001, m_attention := True\<rparr>) of
     (Return _, m') \<Rightarrow> \<not> m_attention m' \<and> m_signals m' AND NOT (m_sigmask m') = 0
   | (Diverge, _) \<Rightarrow> False
   | _ \<Rightarrow> True"
proof (rule signals_drain)
  have "{i. bit (0x10001 :: u64) i} = {0, 16}"
  proof (intro set_eqI iffI; clarsimp)
    fix i assume b: "bit (0x10001 :: u64) i" "i \<noteq> 16"
    have "bit (shl 1 k OR 1 :: u64) i \<Longrightarrow> i = k \<or> i = 0" for k by (auto simp: bit_simps)
    from this [of 16] show "i = 0" using b by simp
  next
    have "bit (shl 1 k OR 1 :: u64) k" if "k < 64" for k using that by (simp add: bit_simps)
    from this [of 16] show "i = 0 \<or> i = 16 \<Longrightarrow> bit (0x10001 :: u64) i" for i by auto
  qed
  then show "card {i. bit (m_signals (idle\<lparr>m_signals := 0x10001, m_attention := True\<rparr>) AND
      NOT (m_sigmask (idle\<lparr>m_signals := 0x10001, m_attention := True\<rparr>))) i} < 3"
    by (simp add: idle_def)
qed (simp_all add: pool_ok_def idle_def)

end
