(* ===== verification/FilemapSpec.thy ===== *)
theory FilemapSpec
  imports VirtualSpec Running "HOL-Library.Multiset"
begin

text \<open>
  That the maps of files stay well-formed, and that a map is found for exactly the pages it has.
\<close>

declare seq.simps [simp del]

text \<open>The pages of a map, and whether its bitset has the page of a number.\<close>

definition map_pages :: "FileMap \<Rightarrow> nat" where
  "map_pages fm = nat ((uint (fm_size fm) + 4095) div 4096)"

definition has_page :: "FileMap \<Rightarrow> nat \<Rightarrow> bool" where
  "has_page fm i \<longleftrightarrow> i < 64 * length (fm_present fm) \<and> bit (fm_present fm ! (i div 64)) (i mod 64)"

text \<open>
  The bitset is as long as the map needs, has no bits behind its end, and the count is that of its bits and not zero;
  the range of the map does not wrap, and is smaller than what 32 bits can count pages of.
\<close>

definition filemap_ok :: "FileMap \<Rightarrow> bool" where
  "filemap_ok fm \<longleftrightarrow>
     uint (fm_size fm) < 2 ^ 43 \<and> sint (fm_virt fm) + uint (fm_size fm) < 2 ^ 63 \<and>
     length (fm_present fm) = (map_pages fm + 63) div 64 \<and> (\<forall>i. has_page fm i \<longrightarrow> i < map_pages fm) \<and>
     unat (fm_pages fm) = card {i. has_page fm i} \<and> fm_pages fm \<noteq> 0"

lemma finite_pages [simp]: "finite {i. has_page fm i}"
  by (rule finite_subset [of _ "{..<64 * length (fm_present fm)}"]) (auto simp: has_page_def)

section \<open>Addresses in a map\<close>

lemma sint_small: "uint n < 2 ^ 43 \<Longrightarrow> sint (n :: u64) = uint n"
  by (simp add: sint_cases)

lemma maps_range:
  assumes "uint (fm_size fm) < 2 ^ 43" "sint (fm_virt fm) + uint (fm_size fm) < 2 ^ 63"
  shows "maps fm v \<longleftrightarrow> sint (fm_virt fm) \<le> sint v \<and> sint v < sint (fm_virt fm) + uint (fm_size fm)"
proof -
  have v: "- 0x8000000000000000 \<le> sint (fm_virt fm)" using sint_greater_eq [of "fm_virt fm"] by simp
  have b: "sint (fm_virt fm) + uint (fm_size fm) < 0x8000000000000000" using assms(2) by simp
  have "sint (fm_virt fm + word_of_int (sint (fm_size fm))) = sint (fm_virt fm) + sint (fm_size fm)"
    unfolding sint_small [OF assms(1)]
    using v b unsigned_greater_eq [where 'a = int, of "fm_size fm"] by (intro sint_plus) linarith+
  then show ?thesis using sint_small [OF assms(1)] by (simp add: maps_def)
qed

lemma map_index_range:
  assumes "uint (fm_size fm) < 2 ^ 43" "sint (fm_virt fm) + uint (fm_size fm) < 2 ^ 63" "maps fm v"
  shows "map_index fm v < map_pages fm"
proof -
  let ?i = "sint v - sint (fm_virt fm)"
  have i: "0 \<le> ?i" "?i < uint (fm_size fm)" using assms by (auto simp: maps_range)
  have "v - fm_virt fm = word_of_int ?i" by simp
  then have "uint (v - fm_virt fm) = uint (word_of_int ?i :: u64)" by (simp only:)
  also have "\<dots> = ?i" using i assms(1) by (simp only: uint_word_of_int) simp
  finally have "unat (v - fm_virt fm) = nat ?i" by (simp only: unat_eq_nat_uint)
  then have "map_index fm v = nat (?i div 4096)" by (simp add: map_index_def nat_div_distrib)
  moreover have "?i div 4096 < (uint (fm_size fm) + 4095) div 4096" using i by linarith
  ultimately show ?thesis using i by (simp add: map_pages_def)
qed

lemma is_present_has:
  assumes "filemap_ok fm" "maps fm v"
  shows "is_present fm v \<longleftrightarrow> has_page fm (map_index fm v)"
proof -
  have i: "map_index fm v < map_pages fm"
    using assms by (intro map_index_range) (auto simp: filemap_ok_def)
  then have "map_index fm v < 64 * length (fm_present fm)" using assms(1) by (simp add: filemap_ok_def)
  then show ?thesis by (simp add: is_present_def has_page_def and_exp_eq_0_iff_not_bit)
qed

section \<open>Marking a page as absent\<close>

lemma absent_pages:
  assumes "filemap_ok fm" "maps fm v"
  shows "has_page (absent_page fm v) i \<longleftrightarrow> has_page fm i \<and> i \<noteq> map_index fm v"
proof -
  have k: "map_index fm v < map_pages fm"
    using assms by (intro map_index_range) (auto simp: filemap_ok_def)
  then have k: "map_index fm v div 64 < length (fm_present fm)" using assms(1) by (simp add: filemap_ok_def)
  have i: "i = map_index fm v \<longleftrightarrow> i div 64 = map_index fm v div 64 \<and> i mod 64 = map_index fm v mod 64"
    by (metis div_mult_mod_eq)
  show ?thesis
  proof (cases "i div 64 = map_index fm v div 64")
    case True
    then have "i \<noteq> map_index fm v \<longleftrightarrow> i mod 64 \<noteq> map_index fm v mod 64" using i by simp
    then show ?thesis
      using True k by (auto simp: has_page_def absent_page_def bit_simps simp del: push_bit_of_1)
  next
    case False
    then have "i \<noteq> map_index fm v" by auto
    then show ?thesis using False by (auto simp: has_page_def absent_page_def)
  qed
qed

lemma absent_ok:
  assumes "filemap_ok fm" "maps fm v" "is_present fm v"
  shows "unat (fm_pages (absent_page fm v)) = unat (fm_pages fm) - 1"
    and "fm_pages (absent_page fm v) \<noteq> 0 \<Longrightarrow> filemap_ok (absent_page fm v)"
proof -
  let ?k = "map_index fm v"
  have f: "fm_size (absent_page fm v) = fm_size fm" "fm_virt (absent_page fm v) = fm_virt fm"
    "length (fm_present (absent_page fm v)) = length (fm_present fm)" "fm_pages (absent_page fm v) = fm_pages fm - 1"
    by (simp_all add: absent_page_def)
  have k: "has_page fm ?k" using assms by (simp add: is_present_has)
  have "{i. has_page (absent_page fm v) i} = {i. has_page fm i} - {?k}"
    by (auto simp: absent_pages [OF assms(1,2)])
  then have c: "card {i. has_page (absent_page fm v) i} = card {i. has_page fm i} - 1"
    using k by (simp add: card_Diff_singleton)
  show p: "unat (fm_pages (absent_page fm v)) = unat (fm_pages fm) - 1"
    using assms(1) unfolding f by (simp add: filemap_ok_def unat_minus_one)
  show "filemap_ok (absent_page fm v)" if "fm_pages (absent_page fm v) \<noteq> 0"
    using assms(1) c p that absent_pages [OF assms(1,2)] by (simp add: filemap_ok_def f map_pages_def)
qed

lemma unmark_page_run:
  assumes "\<forall>fm\<in>set (front @ fms). filemap_ok fm"
  shows "\<exists>fms'. unmark_page v front fms m = (Return fms', m) \<and> (\<forall>fm\<in>set fms'. filemap_ok fm) \<and>
    (case get_filemap v fms of None \<Rightarrow> fms' = front @ fms
     | Some fm \<Rightarrow> mset fms' = mset (front @ fms) - {#fm#} + (if fm_pages fm = 1 then {#} else {#absent_page fm v#}))"
  using assms
proof (induction v front fms rule: unmark_page.induct)
  case (1 v front)
  then show ?case by (simp add: ret_def)
next
  case (2 v front fm fms)
  have ok: "filemap_ok fm" using "2.prems" by simp
  then have p: "fm_pages fm \<noteq> 0" by (simp add: filemap_ok_def)
  show ?case
  proof (cases "maps fm v \<and> is_present fm v")
    case True
    let ?a = "absent_page fm v"
    have a: "fm_pages ?a = fm_pages fm - 1" by (simp add: absent_page_def)
    have "filemap_ok ?a" if "fm_pages fm \<noteq> 1" using absent_ok(2) [OF ok] True that a by simp
    then show ?thesis
      using True "2.prems" p a by (auto simp: seq_unassert ret_def Let_def)
  next
    case False
    show ?thesis
    proof (cases "maps fm v")
      case True
      then show ?thesis using "2.IH"(1) [OF True, unfolded append_assoc append_Cons append_Nil] False "2.prems" p by (simp add: seq_unassert split del: if_split)
    next
      case nomap: False
      then show ?thesis using "2.IH"(2) [OF nomap, unfolded append_assoc append_Cons append_Nil] "2.prems" nomap by (simp split del: if_split)
    qed
  qed
qed

section \<open>Adding a map\<close>

lemma ceil64: "(p + 63) div 64 = p div 64 + (if p mod 64 = 0 then 0 else 1 :: nat)"
proof -
  have "p + 63 = p mod 64 + 63 + 64 * (p div 64)" by simp
  then have "(p + 63) div 64 = (p mod 64 + 63 + 64 * (p div 64)) div 64" by (rule arg_cong)
  also have "\<dots> = (p mod 64 + 63) div 64 + p div 64" by (subst div_mult_self2; simp only: add.commute)
  finally have "(p + 63) div 64 = (p mod 64 + 63) div 64 + p div 64" .
  moreover have "(r + 63) div 64 = (if r = 0 then 0 else 1)" if "r < 64" for r :: nat
  proof (cases "r = 0")
    case False
    then have "(r + 63) div 64 = 1" using that by (intro div_nat_eqI) simp_all
    then show ?thesis using False by simp
  qed simp
  moreover have "p mod 64 < 64" by simp
  ultimately show ?thesis by simp
qed

lemma full_bitset:
  assumes "length xs = (p + 63) div 64" "xs = replicate (p div 64) (- 1 :: u64) @ (if p mod 64 \<noteq> 0 then [shl 1 (p mod 64) - 1] else [])"
  shows "i < 64 * length xs \<and> bit (xs ! (i div 64)) (i mod 64) \<longleftrightarrow> i < p"
proof -
  have m: "bit (shl 1 k - 1 :: u64) j \<longleftrightarrow> j < min 64 k" for k j
    using bit_mask_iff [where 'a = "64 word", of k j] by (simp add: mask_eq_exp_minus_1)
  consider "i div 64 < p div 64" | "i div 64 = p div 64" | "i div 64 > p div 64" by linarith
  then show ?thesis
  proof cases
    case 1
    then have "xs ! (i div 64) = - 1" "i < p" unfolding assms(2) by (simp_all add: nth_append)
    moreover have "i < 64 * length xs" using 1 unfolding assms(1) by linarith
    ultimately show ?thesis by simp
  next
    case 2
    then have e: "i < p \<longleftrightarrow> i mod 64 < p mod 64"
      by (metis add_less_cancel_left div_mult_mod_eq)
    show ?thesis
    proof (cases "p mod 64 = 0")
      case True
      then have "length xs = p div 64" unfolding assms(2) by simp
      then show ?thesis using 2 e True by auto
    next
      case False
      then have "xs ! (i div 64) = shl 1 (p mod 64) - 1" "length xs = p div 64 + 1"
        unfolding assms(2) using 2 by (simp_all add: nth_append)
      moreover have "i < 64 * (p div 64 + 1)" using 2 by (metis dividend_less_times_div mult.commute mult_Suc Suc_eq_plus1 add.commute zero_less_numeral)
      ultimately show ?thesis using e m by auto
    qed
  next
    case 3
    then have "64 * length xs \<le> i" unfolding assms(1) ceil64 by (simp split: if_split) linarith
    moreover have "\<not> i < p" using 3 by (metis div_le_mono less_imp_le not_less)
    ultimately show ?thesis by simp
  qed
qed

lemma round_pages: "uint n < 2 ^ 43 \<Longrightarrow> unat ((n + 4095) AND - 4096 :: u64) div 4096 mod 4294967296 = nat ((uint n + 4095) div 4096)"
proof -
  assume n: "uint n < 2 ^ 43"
  have u: "uint (n + 4095) = uint n + 4095"
    using n unsigned_greater_eq [where 'a = int, of n] by (simp only: uint_word_ariths) simp
  have "(n + 4095) AND - 4096 = shl (shr (n + 4095) 12) 12"
  proof -
    have "(n + 4095) AND - 4096 = (n + 4095) AND NOT (mask 12)" by (simp add: mask_numeral)
    also have "\<dots> = shl (shr (n + 4095) 12) 12" by (rule bit_word_eqI) (auto simp: bit_simps)
    finally show ?thesis .
  qed
  moreover have "unat (shl (shr x 12) 12 :: u64) div 4096 = unat x div 4096" for x
  proof -
    have "unat (shl (shr x 12) 12 :: u64) = unat x div 4096 * 4096"
      by (simp only: unsigned_push_bit_eq unsigned_drop_bit_eq)
        (use unsigned_less [where 'a = nat, of x] in \<open>simp add: take_bit_eq_mod push_bit_eq_mult drop_bit_eq_div\<close>)
    then show ?thesis by simp
  qed
  ultimately have "unat ((n + 4095) AND - 4096 :: u64) div 4096 = unat (n + 4095) div 4096" by (simp only:)
  also have "\<dots> = nat ((uint n + 4095) div 4096)"
    using unsigned_greater_eq [where 'a = int, of n] by (simp only: unat_eq_nat_uint u)
  finally have "unat ((n + 4095) AND - 4096 :: u64) div 4096 = nat ((uint n + 4095) div 4096)" .
  moreover have "nat ((uint n + 4095) div 4096) < 4294967296" using n by simp
  ultimately show ?thesis by simp
qed

lemma AddFileMap_run:
  assumes "n \<noteq> 0" "uint n < 2 ^ 43" "sint v + uint n < 2 ^ 63"
  shows "\<exists>fm. AddFileMap v n (Some path) off m = (Return (Some fm), m\<lparr>s_filemaps := fm # s_filemaps m\<rparr>) \<and> filemap_ok fm \<and>
    fm_path fm = path \<and> fm_offset fm = off \<and> (\<forall>u. maps fm u \<longleftrightarrow> sint v \<le> sint u \<and> sint u < sint v + uint n) \<and>
    (\<forall>u. maps fm u \<longrightarrow> is_present fm u)"
proof -
  define p where "p = nat ((uint n + 4095) div 4096)"
  define xs where "xs = replicate (p div 64) (- 1 :: u64) @ (if p mod 64 \<noteq> 0 then [shl 1 (p mod 64) - 1] else [])"
  let ?fm = "\<lparr>fm_virt = v, fm_size = n, fm_pages = of_nat p, fm_offset = off, fm_path = path, fm_present = xs\<rparr>"
  have run: "AddFileMap v n (Some path) off m = (Return (Some ?fm), m\<lparr>s_filemaps := ?fm # s_filemaps m\<rparr>)"
    unfolding AddFileMap_def round_pages [OF assms(2)] p_def xs_def by (simp add: seq_modify ret_def Let_def)
  have n0: "0 < uint n" using assms(1) unsigned_greater_eq [where 'a = int, of n] uint_0_iff [of n] by linarith
  have p: "0 < p" "p < 2 ^ 31 + 1" unfolding p_def using n0 assms(2) by simp_all
  have len: "length xs = (p + 63) div 64" unfolding xs_def ceil64 by simp
  have has: "has_page ?fm i \<longleftrightarrow> i < p" for i
    using full_bitset [OF len xs_def] by (simp add: has_page_def)
  have pages: "map_pages ?fm = p" by (simp add: map_pages_def p_def)
  have c: "unat (of_nat p :: u64) = p" using p by (simp add: unsigned_of_nat take_bit_nat_eq_self)
  then have "of_nat p \<noteq> (0 :: u64)" using p by auto
  then have ok: "filemap_ok ?fm"
    using assms(2,3) c by (simp add: filemap_ok_def has pages len)
  have "is_present ?fm u" if "maps ?fm u" for u
    using is_present_has [OF ok that] map_index_range [of ?fm u] that ok by (simp add: has pages filemap_ok_def)
  moreover have "maps ?fm u \<longleftrightarrow> sint v \<le> sint u \<and> sint u < sint v + uint n" for u
    using maps_range [of ?fm u] assms(2,3) by simp
  ultimately show ?thesis using run ok by auto
qed

text \<open>C38: The maps of files stay well-formed: their bitsets are as long as their ranges need, have no bits behind the end, and their counts are exact. A new map
  has every page of its range, and is the one that is found for each of them. Unmarking a page never fails: it takes that page from the map that is found
  for it, drops the map with its last page, and leaves all others as they are.\<close>

theorem filemaps_typed:
  assumes "\<forall>fm\<in>set (s_filemaps m). filemap_ok fm"
  shows "(n \<noteq> 0 \<and> uint n < 2 ^ 43 \<and> sint v + uint n < 2 ^ 63 \<longrightarrow>
      (case AddFileMap v n (Some path) off m of
         (Return (Some fm), k) \<Rightarrow>
           (\<forall>fm\<in>set (s_filemaps k). filemap_ok fm) \<and> fm_path fm = path \<and>
           (\<forall>u. sint v \<le> sint u \<and> sint u < sint v + uint n \<longrightarrow> GetFileMap u k = Some fm) \<and>
           (\<forall>u. \<not> (sint v \<le> sint u \<and> sint u < sint v + uint n) \<longrightarrow> GetFileMap u k = GetFileMap u m)
       | _ \<Rightarrow> False)) \<and>
    (case UnmarkFilePage v m of
       (Return _, k) \<Rightarrow>
         (\<forall>fm\<in>set (s_filemaps k). filemap_ok fm) \<and>
         (case GetFileMap v m of
            None \<Rightarrow> s_filemaps k = s_filemaps m
          | Some fm \<Rightarrow> mset (s_filemaps k) = mset (s_filemaps m) - {#fm#} + (if fm_pages fm = 1 then {#} else {#absent_page fm v#}) \<and>
              (\<forall>i. has_page (absent_page fm v) i \<longleftrightarrow> has_page fm i \<and> i \<noteq> map_index fm v))
     | _ \<Rightarrow> False)"
proof (rule conjI)
  show "n \<noteq> 0 \<and> uint n < 2 ^ 43 \<and> sint v + uint n < 2 ^ 63 \<longrightarrow>
      (case AddFileMap v n (Some path) off m of
         (Return (Some fm), k) \<Rightarrow>
           (\<forall>fm\<in>set (s_filemaps k). filemap_ok fm) \<and> fm_path fm = path \<and>
           (\<forall>u. sint v \<le> sint u \<and> sint u < sint v + uint n \<longrightarrow> GetFileMap u k = Some fm) \<and>
           (\<forall>u. \<not> (sint v \<le> sint u \<and> sint u < sint v + uint n) \<longrightarrow> GetFileMap u k = GetFileMap u m)
       | _ \<Rightarrow> False)"
  proof
    assume "n \<noteq> 0 \<and> uint n < 2 ^ 43 \<and> sint v + uint n < 2 ^ 63"
    then obtain fm where "AddFileMap v n (Some path) off m = (Return (Some fm), m\<lparr>s_filemaps := fm # s_filemaps m\<rparr>)" "filemap_ok fm"
      "fm_path fm = path" "\<forall>u. maps fm u \<longleftrightarrow> sint v \<le> sint u \<and> sint u < sint v + uint n" "\<forall>u. maps fm u \<longrightarrow> is_present fm u"
      using AddFileMap_run by metis
    then show "case AddFileMap v n (Some path) off m of
         (Return (Some fm), k) \<Rightarrow>
           (\<forall>fm\<in>set (s_filemaps k). filemap_ok fm) \<and> fm_path fm = path \<and>
           (\<forall>u. sint v \<le> sint u \<and> sint u < sint v + uint n \<longrightarrow> GetFileMap u k = Some fm) \<and>
           (\<forall>u. \<not> (sint v \<le> sint u \<and> sint u < sint v + uint n) \<longrightarrow> GetFileMap u k = GetFileMap u m)
       | _ \<Rightarrow> False"
      using assms by (simp add: GetFileMap_def)
  qed
  have found: "filemap_ok fm \<and> maps fm v" if "GetFileMap v m = Some fm" for fm
  proof -
    have "get_filemap v fms = Some fm \<Longrightarrow> fm \<in> set fms \<and> maps fm v" for fms
      by (induction fms) (auto split: if_splits)
    then show ?thesis using that assms by (simp add: GetFileMap_def)
  qed
  obtain fms where fms: "unmark_page v [] (s_filemaps m) m = (Return fms, m)" "\<forall>fm\<in>set fms. filemap_ok fm"
    "case get_filemap v (s_filemaps m) of None \<Rightarrow> fms = s_filemaps m
     | Some fm \<Rightarrow> mset fms = mset (s_filemaps m) - {#fm#} + (if fm_pages fm = 1 then {#} else {#absent_page fm v#})"
    using unmark_page_run [of "[]" "s_filemaps m" v m, unfolded append_Nil] assms by blast
  have run: "UnmarkFilePage v m = (Return (), m\<lparr>s_filemaps := fms\<rparr>)"
    by (simp add: UnmarkFilePage_def seq_gets seq_return [of "unmark_page v [] (s_filemaps m)" m, OF fms(1)] modify_def)
  show "case UnmarkFilePage v m of
       (Return _, k) \<Rightarrow>
         (\<forall>fm\<in>set (s_filemaps k). filemap_ok fm) \<and>
         (case GetFileMap v m of
            None \<Rightarrow> s_filemaps k = s_filemaps m
          | Some fm \<Rightarrow> mset (s_filemaps k) = mset (s_filemaps m) - {#fm#} + (if fm_pages fm = 1 then {#} else {#absent_page fm v#}) \<and>
              (\<forall>i. has_page (absent_page fm v) i \<longleftrightarrow> has_page fm i \<and> i \<noteq> map_index fm v))
     | _ \<Rightarrow> False"
    unfolding run using fms(2,3) found absent_pages by (simp add: GetFileMap_def split: option.splits)
qed

text \<open>A map of two pages of a file at 0x10000, and its second page taken away.\<close>

theorem filemaps_typed_witness:
  "\<exists>k. UnmarkFilePage 0x11000 (idle\<lparr>s_filemaps := [\<lparr>fm_virt = 0x10000, fm_size = 5000, fm_pages = 2, fm_offset = 0, fm_path = ''a'', fm_present = [3]\<rparr>]\<rparr>) =
     (Return (), k) \<and> (\<forall>fm\<in>set (s_filemaps k). filemap_ok fm) \<and> GetFileMap 0x11000 k = None"
proof -
  let ?fm = "\<lparr>fm_virt = 0x10000, fm_size = 5000, fm_pages = 2, fm_offset = 0, fm_path = ''a'', fm_present = [3]\<rparr>"
  let ?m = "idle\<lparr>s_filemaps := [?fm]\<rparr>"
  have b: "bit (3 :: u64) i \<longleftrightarrow> i < 2" for i
    using bit_mask_iff [where 'a = "64 word", of 2 i] by (auto simp: mask_numeral)
  have h: "has_page ?fm i \<longleftrightarrow> i < 2" for i by (cases "i < 64") (use b in \<open>simp_all add: has_page_def del: bit_numeral_word_iff\<close>)
  have "filemap_ok ?fm" unfolding filemap_ok_def h map_pages_def by simp
  then have ok: "\<forall>fm\<in>set (s_filemaps ?m). filemap_ok fm" by simp
  have g: "GetFileMap 0x11000 ?m = Some ?fm" by (simp add: GetFileMap_def maps_def is_present_def map_index_def)
  have a: "absent_page ?fm 0x11000 = ?fm\<lparr>fm_present := [1], fm_pages := 1\<rparr>"
    by (simp add: absent_page_def map_index_def)
  note filemaps_typed [OF ok, where v = "0x11000", THEN conjunct2, unfolded g option.case a]
  then obtain k where k: "UnmarkFilePage 0x11000 ?m = (Return (), k)" "\<forall>fm\<in>set (s_filemaps k). filemap_ok fm"
    "mset (s_filemaps k) = {#?fm\<lparr>fm_present := [1], fm_pages := 1\<rparr>#}"
    by (auto split: prod.splits outcome.splits)
  from k(3) have "s_filemaps k = [?fm\<lparr>fm_present := [1], fm_pages := 1\<rparr>]" by simp
  then have "GetFileMap 0x11000 k = None" by (simp add: GetFileMap_def maps_def is_present_def map_index_def)
  then show ?thesis using k by blast
qed

end
