(* ===== verification/Fork.thy ===== *)
theory Fork
  imports Virtual
begin

text \<open>
  The state that a child of a fork gets (\<open>syscall.c\<close>): writing it into a buffer, and the two ways of reading it back.
\<close>

section \<open>The buffer\<close>

text \<open>
  Numbers are written as they lie in memory, in little-endian order. The buffer is what was written, in order; reading
  takes what is next, and zeros when a file was cut short.
\<close>

primrec put_le :: "nat \<Rightarrow> nat \<Rightarrow> u8 list" where
  "put_le 0 v = []"
| "put_le (Suc n) v = word_of_nat v # put_le n (v div 256)"

primrec get_le :: "u8 list \<Rightarrow> nat" where
  "get_le [] = 0"
| "get_le (x # xs) = unat x + 256 * get_le xs"

definition fork_buf_read :: "nat \<Rightarrow> u8 list \<Rightarrow> u8 list \<times> u8 list" where
  "fork_buf_read n xs = (take n (xs @ replicate n 0), drop n xs)"

definition read_le :: "nat \<Rightarrow> u8 list \<Rightarrow> nat \<times> u8 list" where
  "read_le n xs = (case fork_buf_read n xs of (bytes, xs) \<Rightarrow> (get_le bytes, xs))"

definition put_word :: "nat \<Rightarrow> ('a::len) word \<Rightarrow> u8 list" where
  "put_word n w = put_le n (unat w)"

definition read_word :: "nat \<Rightarrow> u8 list \<Rightarrow> ('a::len) word \<times> u8 list" where
  "read_word n xs = (case read_le n xs of (v, xs) \<Rightarrow> (word_of_nat v, xs))"

text \<open>The C \<open>int\<close>.\<close>

definition put_int :: "int \<Rightarrow> u8 list" where
  "put_int i = put_word 4 (word_of_int i :: u32)"

definition read_int :: "u8 list \<Rightarrow> int \<times> u8 list" where
  "read_int xs = (case read_word 4 xs of (w, xs) \<Rightarrow> (sint (w :: u32), xs))"

primrec read_many :: "(u8 list \<Rightarrow> 'a \<times> u8 list) \<Rightarrow> nat \<Rightarrow> u8 list \<Rightarrow> 'a list \<times> u8 list" where
  "read_many f 0 xs = ([], xs)"
| "read_many f (Suc n) xs = (case f xs of (a, xs) \<Rightarrow> case read_many f n xs of (as, xs) \<Rightarrow> (a # as, xs))"

section \<open>Writing\<close>

text \<open>A segment register is a selector, padding, and a base.\<close>

definition put_seg :: "u16 \<times> u64 \<Rightarrow> u8 list" where
  "put_seg s = put_word 2 (fst s) @ replicate 6 0 @ put_word 8 (snd s)"

definition read_seg :: "u8 list \<Rightarrow> (u16 \<times> u64) \<times> u8 list" where
  "read_seg xs =
     (let (sel, xs) = read_word 2 xs; (_, xs) = fork_buf_read 6 xs; (base, xs) = read_word 8 xs in ((sel, base), xs))"

definition put_hand :: "sigaction_linux \<Rightarrow> u8 list" where
  "put_hand h = put_word 8 (sa_handler h) @ put_word 8 (sa_flags h) @ put_word 8 (sa_restorer h) @ put_word 8 (sa_mask h)"

definition read_hand :: "u8 list \<Rightarrow> sigaction_linux \<times> u8 list" where
  "read_hand xs =
     (let (h, xs) = read_word 8 xs; (f, xs) = read_word 8 xs; (r, xs) = read_word 8 xs; (k, xs) = read_word 8 xs
      in (\<lparr>sa_handler = h, sa_flags = f, sa_restorer = r, sa_mask = k\<rparr>, xs))"

definition put_rlim :: "u64 \<times> u64 \<Rightarrow> u8 list" where
  "put_rlim r = put_word 8 (fst r) @ put_word 8 (snd r)"

definition read_rlim :: "u8 list \<Rightarrow> (u64 \<times> u64) \<times> u8 list" where
  "read_rlim xs = (let (a, xs) = read_word 8 xs; (b, xs) = read_word 8 xs in ((a, b), xs))"

definition segment :: "Machine \<Rightarrow> nat \<Rightarrow> u16 \<times> u64" where
  "segment m i = (m_seg_sel m i, m_seg_base m i)"

text \<open>Registers and system state; the last two segments are written twice.\<close>

definition put_cpu :: "Machine \<Rightarrow> u8 list" where
  "put_cpu m =
     map (m_beg m) [0..<128] @ map (m_xmm m) [0..<256] @ put_word 8 (m_ip m) @ put_word 4 (m_flags m) @
     concat (map (put_seg \<circ> segment m) [0..<8]) @ put_seg (segment m 4) @ put_seg (segment m 5) @
     put_word 8 (m_sigmask m) @ put_word 8 (m_ctid m) @ put_int (m_tid m) @
     concat (map (put_hand \<circ> s_hands m) [0..<64]) @
     put_word 8 (s_brk m) @ put_word 8 (s_automap m) @ put_word 8 (s_cr3 m) @ put_int (s_pid m) @
     concat (map (put_rlim \<circ> s_rlim m) [0..<16]) @ put_word 8 (s_blinksigs m)"

text \<open>The host pages by their addresses of 32 bits, and the pool.\<close>

definition put_pages :: "Machine \<Rightarrow> u8 list" where
  "put_pages m =
     put_le 4 (g_hostpages_n m) @ concat (map (put_le 4 \<circ> g_hostpages_p m) [0..<g_hostpages_n m]) @
     put_le 4 (g_pagepool_base m) @ put_le 4 (g_pagepool_next_page m) @ put_le 4 (g_pagepool_capacity m div 4096)"

text \<open>Only the browser has types and handles of files.\<close>

definition put_fd :: "bool \<Rightarrow> Fd \<Rightarrow> u8 list" where
  "put_fd browser fd = put_int (fd_fildes fd) @ put_int (fd_oflags fd) @
     (if browser then put_int (fd_atua_type fd) @ put_int (fd_atua_host_handle fd) else [])"

definition put_filemap :: "FileMap \<Rightarrow> u8 list" where
  "put_filemap fm = put_word 8 (fm_virt fm) @ put_word 8 (fm_size fm) @ put_word 8 (fm_offset fm) @
     put_int (int (length (fm_path fm))) @ map of_char (fm_path fm)"

definition SerializeForkState :: "bool \<Rightarrow> Machine \<Rightarrow> u8 list" where
  "SerializeForkState browser m =
     put_cpu m @ put_pages m @
     put_int (int (length (s_fds m))) @ concat (map (put_fd browser) (s_fds m)) @
     put_int (int (length (s_filemaps m))) @ concat (map put_filemap (s_filemaps m))"

section \<open>Reading\<close>

definition overwrite :: "'a list \<Rightarrow> (nat \<Rightarrow> 'a) \<Rightarrow> nat \<Rightarrow> 'a" where
  "overwrite xs f i = (if i < length xs then xs ! i else f i)"

definition set_segment :: "nat \<Rightarrow> u16 \<times> u64 \<Rightarrow> Machine \<Rightarrow> Machine" where
  "set_segment i s m = m\<lparr>m_seg_sel := (m_seg_sel m)(i := fst s), m_seg_base := (m_seg_base m)(i := snd s)\<rparr>"

definition read_cpu :: "u8 list \<Rightarrow> Machine \<Rightarrow> Machine \<times> u8 list" where
  "read_cpu xs m =
     (let (regs, xs) = fork_buf_read 128 xs;
          (xmm, xs) = fork_buf_read 256 xs;
          (ip, xs) = read_word 8 xs;
          (flags, xs) = read_word 4 xs;
          (segs, xs) = read_many read_seg 8 xs;
          (fs, xs) = read_seg xs;
          (gs, xs) = read_seg xs;
          (sigmask, xs) = read_word 8 xs;
          (ctid, xs) = read_word 8 xs;
          (tid, xs) = read_int xs;
          (hands, xs) = read_many read_hand 64 xs;
          (brk, xs) = read_word 8 xs;
          (automap, xs) = read_word 8 xs;
          (cr3, xs) = read_word 8 xs;
          (pid, xs) = read_int xs;
          (rlim, xs) = read_many read_rlim 16 xs;
          (blinksigs, xs) = read_word 8 xs;
          m = m\<lparr>m_beg := overwrite regs (m_beg m), m_xmm := overwrite xmm (m_xmm m), m_ip := ip, m_flags := flags,
                m_seg_sel := overwrite (map fst segs) (m_seg_sel m), m_seg_base := overwrite (map snd segs) (m_seg_base m)\<rparr>;
          m = set_segment 5 gs (set_segment 4 fs m)
      in (m\<lparr>m_sigmask := sigmask, m_ctid := ctid, m_tid := tid, s_hands := overwrite hands (s_hands m), s_brk := brk,
            s_automap := automap, s_cr3 := cr3, s_pid := pid, s_rlim := overwrite rlim (s_rlim m), s_blinksigs := blinksigs\<rparr>, xs))"

definition AddFd_plain :: "int \<Rightarrow> int \<Rightarrow> Machine \<Rightarrow> Machine" where
  "AddFd_plain fildes oflags m = snd (AddFd fildes oflags m)"

text \<open>In the same memory, or a copy of it: the addresses of the pages are taken over, and the pool.\<close>

definition DeserializeForkState :: "u8 list \<Rightarrow> Machine \<Rightarrow> Machine" where
  "DeserializeForkState buf m =
     (let (m, xs) = read_cpu buf m;
          (n, xs) = read_le 4 xs;
          (addrs, xs) = read_many (read_le 4) n xs;
          m = m\<lparr>g_hostpages_n := n, g_hostpages_p := overwrite addrs (g_hostpages_p m)\<rparr>;
          (base, xs) = read_le 4 xs;
          (next, xs) = read_le 4 xs;
          (cap, xs) = read_le 4 xs;
          m = m\<lparr>g_pagepool_base := base, g_pagepool_next_page := next, g_pagepool_capacity := cap * 4096 mod 4294967296\<rparr>;
          (fd_count, xs) = read_int xs;
          (fds, xs) = read_many (\<lambda>xs. let (fildes, xs) = read_int xs; (oflags, xs) = read_int xs in ((fildes, oflags), xs))
                        (nat fd_count) xs
      in fold (\<lambda>(fildes, oflags). AddFd_plain fildes oflags) fds m)"

text \<open>
  In a fresh machine: the pages are not there yet, and the pool is its own. A file is added with its type and handle, unless its number
  is negative; the map of a file is added unless its path is empty or has 512 bytes or more.
\<close>

definition restore_fd :: "bool \<Rightarrow> u8 list \<Rightarrow> Machine \<Rightarrow> Machine \<times> u8 list" where
  "restore_fd browser xs m =
     (let (fildes, xs) = read_int xs; (oflags, xs) = read_int xs; m' = AddFd_plain fildes oflags m in
      if browser then
        let (type, xs) = read_int xs; (handle, xs) = read_int xs
        in (if fildes \<ge> 0
            then m'\<lparr>s_fds := (hd (s_fds m'))\<lparr>fd_atua_type := type, fd_atua_host_handle := handle\<rparr> # tl (s_fds m')\<rparr>
            else m', xs)
      else (m', xs))"

definition restore_filemap :: "u8 list \<Rightarrow> Machine \<Rightarrow> Machine \<times> u8 list" where
  "restore_filemap xs m =
     (let (virt, xs) = read_word 8 xs; (size', xs) = read_word 8 xs; (off, xs) = read_word 8 xs; (pathlen, xs) = read_int xs
      in if pathlen > 0 \<and> pathlen < 512 then
           let (path, xs) = fork_buf_read (nat pathlen) xs
           in (snd (AddFileMap virt size' (Some (map (char_of \<circ> unat) (takeWhile (\<lambda>c. c \<noteq> 0) path))) off m), xs)
         else if pathlen > 0 then (m, drop (nat pathlen) xs)
         else (m, xs))"

primrec repeat :: "nat \<Rightarrow> (u8 list \<Rightarrow> Machine \<Rightarrow> Machine \<times> u8 list) \<Rightarrow> u8 list \<Rightarrow> Machine \<Rightarrow> Machine \<times> u8 list" where
  "repeat 0 f xs m = (m, xs)"
| "repeat (Suc n) f xs m = (case f xs m of (m, xs) \<Rightarrow> repeat n f xs m)"

definition RestoreForkCpuState :: "bool \<Rightarrow> u8 list \<Rightarrow> Machine \<Rightarrow> Machine" where
  "RestoreForkCpuState browser buf m =
     (let (m, xs) = read_cpu buf m;
          (n, xs) = read_le 4 xs;
          (addrs, xs) = read_many (read_le 4) n xs;
          m = m\<lparr>g_hostpages_p := overwrite (replicate n 0) (g_hostpages_p m), g_hostpages_n := n\<rparr>;
          (_, xs) = read_le 4 xs;
          (_, xs) = read_le 4 xs;
          (_, xs) = read_le 4 xs;
          (fd_count, xs) = read_int xs;
          (m, xs) = repeat (nat fd_count) (restore_fd browser) xs m;
          (fm_count, xs) = read_int xs;
          (m, xs) = repeat (nat fm_count) restore_filemap xs m
      in m)"

end
