(* ===== verification/ForkSpec.thy ===== *)
theory ForkSpec
  imports Fork Running
begin

text \<open>
  That a child of a fork gets the state of its parent. What is written is read back is the contract of a locale, interpreted for each kind of value.
\<close>

declare seq.simps [simp del]

section \<open>Codecs\<close>

text \<open>What is written is read back, and the rest of the buffer is left.\<close>

locale codec =
  fixes put :: "'a \<Rightarrow> u8 list" and read :: "u8 list \<Rightarrow> 'a \<times> u8 list" and ok :: "'a \<Rightarrow> bool"
  assumes law: "ok a \<Longrightarrow> read (put a @ xs) = (a, xs)"
begin

lemma many:
  assumes "\<forall>a\<in>set as. ok a"
  shows "read_many read (length as) (concat (map put as) @ xs) = (as, xs)"
  using assms by (induction as arbitrary: xs) (simp_all add: law)

lemma many_from:
  assumes "\<forall>i<n. ok (f i)"
  shows "read_many read n (concat (map (put \<circ> f) [0..<n]) @ xs) = (map f [0..<n], xs)"
  using many [of "map f [0..<n]" xs] assms by (simp add: comp_def)

end

lemma put_le_length [simp]: "length (put_le n v) = n"
  by (induction n arbitrary: v) simp_all

lemma get_put_le: "v < 256 ^ n \<Longrightarrow> get_le (put_le n v) = v"
proof (induction n arbitrary: v)
  case (Suc n)
  have "v div 256 < 256 ^ n" using Suc.prems by (simp add: less_mult_imp_div_less)
  moreover have "unat (word_of_nat v :: u8) = v mod 256" by (simp add: unsigned_of_nat take_bit_eq_mod)
  ultimately show ?case by (simp add: Suc.IH)
qed simp

lemma take_front [simp]: "length ys = n \<Longrightarrow> fork_buf_read n (ys @ xs) = (ys, xs)"
  by (simp add: fork_buf_read_def)

interpretation le: codec "put_le n" "read_le n" "\<lambda>v. v < 256 ^ n" for n
  by unfold_locales (simp add: read_le_def get_put_le)

lemma word_law: "LENGTH('a::len) \<le> 8 * n \<Longrightarrow> read_word n (put_word n w @ xs) = (w :: 'a word, xs)"
proof -
  assume n: "LENGTH('a) \<le> 8 * n"
  have "unat w < 2 ^ LENGTH('a)" by (rule unsigned_less)
  also have "\<dots> \<le> (2 :: nat) ^ (8 * n)" by (rule power_increasing [OF n]) simp
  also have "\<dots> = 256 ^ n" by (simp add: power_mult)
  finally show ?thesis by (simp add: read_word_def put_word_def le.law)
qed

interpretation w64: codec "put_word 8 :: u64 \<Rightarrow> u8 list" "read_word 8" "\<lambda>_. True"
  by unfold_locales (rule word_law, simp)

interpretation w32: codec "put_word 4 :: u32 \<Rightarrow> u8 list" "read_word 4" "\<lambda>_. True"
  by unfold_locales (rule word_law, simp)

interpretation w16: codec "put_word 2 :: u16 \<Rightarrow> u8 list" "read_word 2" "\<lambda>_. True"
  by unfold_locales (rule word_law, simp)

definition c_int :: "int \<Rightarrow> bool" where
  "c_int i \<longleftrightarrow> - 2147483648 \<le> i \<and> i < 2147483648"

interpretation c_int: codec put_int read_int c_int
  by unfold_locales (simp add: put_int_def read_int_def w32.law c_int_def signed_of_int signed_take_bit_int_eq_self)

interpretation seg: codec put_seg read_seg "\<lambda>_. True"
  by unfold_locales (simp add: put_seg_def read_seg_def w16.law w64.law)

interpretation hand: codec put_hand read_hand "\<lambda>_. True"
  by unfold_locales (simp add: put_hand_def read_hand_def w64.law)

interpretation rlim: codec put_rlim read_rlim "\<lambda>_. True"
  by unfold_locales (simp add: put_rlim_def read_rlim_def w64.law)

lemmas laws = le.law w64.law w32.law w16.law c_int.law seg.law hand.law rlim.law

section \<open>Registers and system state\<close>

definition same_cpu :: "Machine \<Rightarrow> Machine \<Rightarrow> bool" where
  "same_cpu r m \<longleftrightarrow>
     (\<forall>i<128. m_beg r i = m_beg m i) \<and> (\<forall>i<256. m_xmm r i = m_xmm m i) \<and> m_ip r = m_ip m \<and> m_flags r = m_flags m \<and>
     (\<forall>i<8. m_seg_sel r i = m_seg_sel m i \<and> m_seg_base r i = m_seg_base m i) \<and> m_sigmask r = m_sigmask m \<and> m_ctid r = m_ctid m \<and>
     m_tid r = m_tid m \<and> (\<forall>i<64. s_hands r i = s_hands m i) \<and> s_brk r = s_brk m \<and> s_automap r = s_automap m \<and> s_cr3 r = s_cr3 m \<and>
     s_pid r = s_pid m \<and> (\<forall>i<16. s_rlim r i = s_rlim m i) \<and> s_blinksigs r = s_blinksigs m"

lemma overwrite_map [simp]: "overwrite (map f [0..<n]) g i = (if i < n then f i else g i)"
  by (simp add: overwrite_def)

text \<open>What reading leaves as it was.\<close>

definition rest_of :: "Machine \<Rightarrow> Fd list \<times> FileMap list \<times> nat \<times> (nat \<Rightarrow> nat) \<times> nat \<times> nat \<times> nat" where
  "rest_of m = (s_fds m, s_filemaps m, g_hostpages_n m, g_hostpages_p m, g_pagepool_base m, g_pagepool_next_page m, g_pagepool_capacity m)"

lemma read_cpu_run:
  assumes "c_int (m_tid m)" "c_int (s_pid m)"
  shows "\<exists>r. read_cpu (put_cpu m @ xs) k = (r, xs) \<and> same_cpu r m \<and> rest_of r = rest_of k"
proof -
  have segs: "read_many read_seg 8 (concat (map (put_seg \<circ> segment m) [0..<8]) @ ys) = (map (segment m) [0..<8], ys)" for ys
    by (rule seg.many_from) simp
  have hands: "read_many read_hand 64 (concat (map (put_hand \<circ> s_hands m) [0..<64]) @ ys) = (map (s_hands m) [0..<64], ys)" for ys
    by (rule hand.many_from) simp
  have rlims: "read_many read_rlim 16 (concat (map (put_rlim \<circ> s_rlim m) [0..<16]) @ ys) = (map (s_rlim m) [0..<16], ys)" for ys
    by (rule rlim.many_from) simp
  have sel: "map fst (map (segment m) [0..<8]) = map (m_seg_sel m) [0..<8]" "map snd (map (segment m) [0..<8]) = map (m_seg_base m) [0..<8]"
    by (simp_all add: segment_def comp_def)
  show ?thesis
    unfolding read_cpu_def put_cpu_def
    by (simp only: append_assoc Let_def prod.case take_front length_map length_upt minus_nat.diff_0 laws segs hands rlims assms sel TrueI)
      (simp add: same_cpu_def rest_of_def set_segment_def segment_def)
qed

section \<open>Open files and maps\<close>

text \<open>How a file and a map arrive in the child.\<close>

definition sent_fd :: "bool \<Rightarrow> Fd \<Rightarrow> Fd" where
  "sent_fd browser fd = fd\<lparr>fd_atua_type := if browser then fd_atua_type fd else 0,
     fd_atua_host_handle := if browser then fd_atua_host_handle fd else 0, fd_socktype := 0, fd_norestart := False, fd_path := None\<rparr>"

definition fd_ok :: "Fd \<Rightarrow> bool" where
  "fd_ok fd \<longleftrightarrow> c_int (fd_fildes fd) \<and> 0 \<le> fd_fildes fd \<and> c_int (fd_oflags fd) \<and> c_int (fd_atua_type fd) \<and> c_int (fd_atua_host_handle fd)"

definition path_ok :: "FileMap \<Rightarrow> bool" where
  "path_ok fm \<longleftrightarrow> length (fm_path fm) < 2 ^ 31 \<and> (\<forall>c\<in>set (fm_path fm). c \<noteq> char_of (0 :: nat))"

definition sent_map :: "FileMap \<Rightarrow> FileMap" where
  "sent_map fm =
     (let pages = unat ((fm_size fm + 4095) AND - 4096) div 4096 mod 4294967296
      in fm\<lparr>fm_pages := of_nat pages,
            fm_present := replicate (pages div 64) (- 1) @ (if pages mod 64 \<noteq> 0 then [shl 1 (pages mod 64) - 1] else [])\<rparr>)"

lemma AddFd_plain_run:
  "0 \<le> fildes \<Longrightarrow> AddFd_plain fildes oflags m = m\<lparr>s_fds := \<lparr>fd_fildes = fildes, fd_oflags = oflags, fd_atua_type = 0, fd_atua_host_handle = 0,
     fd_socktype = 0, fd_norestart = False, fd_path = None\<rparr> # s_fds m\<rparr>"
  by (simp add: AddFd_plain_def AddFd_def Let_def seq_modify ret_def)

lemma restore_fd_run:
  assumes "fd_ok fd"
  shows "restore_fd browser (put_fd browser fd @ xs) m = (m\<lparr>s_fds := sent_fd browser fd # s_fds m\<rparr>, xs)"
  using assms by (simp add: fd_ok_def restore_fd_def put_fd_def laws AddFd_plain_run sent_fd_def Let_def)

lemma char_byte: "char_of (unat (of_char c :: u8)) = c"
proof -
  have "(of_char c :: u8) = of_nat (of_char c)" by (rule of_nat_of_char [symmetric])
  then show ?thesis by (simp add: unsigned_of_nat char_of_take_bit_eq)
qed

lemma path_bytes:
  assumes "path_ok fm"
  shows "map (char_of \<circ> unat) (takeWhile (\<lambda>c. c \<noteq> 0) (map of_char (fm_path fm) :: u8 list)) = fm_path fm"
proof -
  have "(of_char c :: u8) \<noteq> 0" if "c \<noteq> char_of (0 :: nat)" for c
    using char_byte [of c] that by (metis unsigned_0)
  then have all: "takeWhile (\<lambda>c. c \<noteq> 0) (map of_char (fm_path fm) :: u8 list) = map of_char (fm_path fm)"
    using assms by (auto simp: path_ok_def takeWhile_eq_all_conv)
  show ?thesis unfolding all by (simp add: comp_def char_byte)
qed

lemma restore_filemap_run:
  assumes "path_ok fm"
  shows "restore_filemap (put_filemap fm @ xs) m =
    (if fm_path fm \<noteq> [] \<and> length (fm_path fm) < 512 then m\<lparr>s_filemaps := sent_map fm # s_filemaps m\<rparr> else m, xs)"
proof -
  let ?n = "length (fm_path fm)"
  have n: "c_int (int ?n)" using assms by (simp add: path_ok_def c_int_def)
  have add: "snd (AddFileMap (fm_virt fm) (fm_size fm) (Some (fm_path fm)) (fm_offset fm) m) = m\<lparr>s_filemaps := sent_map fm # s_filemaps m\<rparr>"
    by (simp add: AddFileMap_def sent_map_def Let_def seq_modify ret_def)
  show ?thesis
    unfolding restore_filemap_def put_filemap_def
    by (simp add: laws n path_bytes [OF assms] add)
qed

lemma restore_fds_run:
  assumes "\<forall>fd\<in>set fds. fd_ok fd"
  shows "repeat (length fds) (restore_fd browser) (concat (map (put_fd browser) fds) @ xs) m =
    (m\<lparr>s_fds := rev (map (sent_fd browser) fds) @ s_fds m\<rparr>, xs)"
  using assms by (induction fds arbitrary: m) (simp_all add: restore_fd_run)

lemma restore_filemaps_run:
  assumes "\<forall>fm\<in>set fms. path_ok fm"
  shows "repeat (length fms) restore_filemap (concat (map put_filemap fms) @ xs) m =
    (m\<lparr>s_filemaps := rev (map sent_map (filter (\<lambda>fm. fm_path fm \<noteq> [] \<and> length (fm_path fm) < 512) fms)) @ s_filemaps m\<rparr>, xs)"
  using assms by (induction fms arbitrary: m) (simp_all add: restore_filemap_run)

section \<open>The child of a fork\<close>

text \<open>The sizes of the C types: counts and addresses have 32 bits, and a file that is open has a number.\<close>

definition forkable :: "Machine \<Rightarrow> bool" where
  "forkable m \<longleftrightarrow>
     c_int (m_tid m) \<and> c_int (s_pid m) \<and> (\<forall>fd\<in>set (s_fds m). fd_ok fd) \<and> (\<forall>fm\<in>set (s_filemaps m). path_ok fm) \<and>
     length (s_fds m) < 2 ^ 31 \<and> length (s_filemaps m) < 2 ^ 31 \<and> g_hostpages_n m < 2 ^ 32 \<and>
     (\<forall>i<g_hostpages_n m. g_hostpages_p m i < 2 ^ 32) \<and>
     g_pagepool_base m < 2 ^ 32 \<and> g_pagepool_next_page m < 2 ^ 32 \<and> g_pagepool_capacity m < 2 ^ 32"

text \<open>C39: A child gets the state of its parent: restoring the written state in a fresh machine gives back the registers, the program counter, the flags,
  all segments, the blocked signals, the identifiers, the signal handlers, the heap, and the limits; the pages of the parent are counted but absent, the pool
  is the child's own, the files come in reverse order with their numbers and flags, in the browser with type and handle, and
  the maps of files with a path of less than 512 bytes come in reverse order with every page.\<close>

theorem fork_roundtrip:
  assumes "forkable m" "s_fds k = []" "s_filemaps k = []"
  shows "let r = RestoreForkCpuState browser (SerializeForkState browser m) k in
    (\<forall>i<128. m_beg r i = m_beg m i) \<and> (\<forall>i<256. m_xmm r i = m_xmm m i) \<and> m_ip r = m_ip m \<and> m_flags r = m_flags m \<and>
    (\<forall>i<8. m_seg_sel r i = m_seg_sel m i \<and> m_seg_base r i = m_seg_base m i) \<and> m_sigmask r = m_sigmask m \<and> m_ctid r = m_ctid m \<and>
    m_tid r = m_tid m \<and> (\<forall>i<64. s_hands r i = s_hands m i) \<and> s_brk r = s_brk m \<and> s_automap r = s_automap m \<and> s_cr3 r = s_cr3 m \<and>
    s_pid r = s_pid m \<and> (\<forall>i<16. s_rlim r i = s_rlim m i) \<and> s_blinksigs r = s_blinksigs m \<and>
    g_hostpages_n r = g_hostpages_n m \<and> (\<forall>i<g_hostpages_n m. g_hostpages_p r i = 0) \<and>
    g_pagepool_base r = g_pagepool_base k \<and> g_pagepool_next_page r = g_pagepool_next_page k \<and> g_pagepool_capacity r = g_pagepool_capacity k \<and>
    s_fds r = rev (map (sent_fd browser) (s_fds m)) \<and>
    s_filemaps r = rev (map sent_map (filter (\<lambda>fm. fm_path fm \<noteq> [] \<and> length (fm_path fm) < 512) (s_filemaps m)))"
proof -
  note f = assms(1) [unfolded forkable_def]
  let ?n = "g_hostpages_n m"
  let ?fms = "put_int (int (length (s_filemaps m))) @ concat (map put_filemap (s_filemaps m))"
  let ?fds = "put_int (int (length (s_fds m))) @ concat (map (put_fd browser) (s_fds m)) @ ?fms"
  obtain c where c: "read_cpu (put_cpu m @ put_pages m @ ?fds) k = (c, put_pages m @ ?fds)" "same_cpu c m" "rest_of c = rest_of k"
    using read_cpu_run f by meson
  have pages: "read_many (read_le 4) ?n (concat (map (put_le 4 \<circ> g_hostpages_p m) [0..<?n]) @ xs) = (map (g_hostpages_p m) [0..<?n], xs)" for xs
    by (rule le.many_from) (use f in simp)
  have four: "v < 2 ^ 32 \<Longrightarrow> v < 256 ^ 4" for v :: nat by simp
  have cap: "g_pagepool_capacity m div 4096 < 2 ^ 32" using f div_le_dividend [of "g_pagepool_capacity m" 4096] by linarith
  have counts: "c_int (int (length (s_fds m)))" "c_int (int (length (s_filemaps m)))" using f by (simp_all add: c_int_def)
  let ?c = "c\<lparr>g_hostpages_p := overwrite (replicate ?n 0) (g_hostpages_p c), g_hostpages_n := ?n\<rparr>"
  let ?r = "?c\<lparr>s_fds := rev (map (sent_fd browser) (s_fds m)) @ s_fds c,
    s_filemaps := rev (map sent_map (filter (\<lambda>fm. fm_path fm \<noteq> [] \<and> length (fm_path fm) < 512) (s_filemaps m))) @ s_filemaps c\<rparr>"
  have le4: "read_le 4 (put_le 4 v @ xs) = (v, xs)" if "v < 2 ^ 32" for v xs by (rule le.law) (use that in simp)
  have "RestoreForkCpuState browser (SerializeForkState browser m) k = ?r"
    unfolding RestoreForkCpuState_def SerializeForkState_def append_assoc c(1) Let_def prod.case
    unfolding put_pages_def append_assoc
    using f cap restore_filemaps_run [of "s_filemaps m" "[]"]
    by (simp add: le4 pages counts c_int.law restore_fds_run)
  then show ?thesis
    using c(2,3) assms(2,3) by (simp add: same_cpu_def rest_of_def overwrite_def Let_def)
qed

text \<open>A machine with two files, one of them mapped, and its child in the browser.\<close>

definition parent :: Machine where
  "parent = idle\<lparr>m_ip := 0x400000, m_tid := 7, s_pid := 7,
     s_fds := [\<lparr>fd_fildes = 3, fd_oflags = 2, fd_atua_type = 1, fd_atua_host_handle = 9, fd_socktype = 0, fd_norestart = False, fd_path = Some ''a''\<rparr>,
               \<lparr>fd_fildes = 0, fd_oflags = 0, fd_atua_type = 0, fd_atua_host_handle = 0, fd_socktype = 0, fd_norestart = False, fd_path = None\<rparr>],
     s_filemaps := [\<lparr>fm_virt = 0x10000, fm_size = 4096, fm_pages = 1, fm_offset = 0, fm_path = ''a'', fm_present = [1]\<rparr>]\<rparr>"

theorem fork_roundtrip_witness:
  "let r = RestoreForkCpuState True (SerializeForkState True parent) (idle\<lparr>m_ip := 5\<rparr>) in
     m_ip r = 0x400000 \<and> m_tid r = 7 \<and> map fd_fildes (s_fds r) = [0, 3] \<and> map fd_atua_host_handle (s_fds r) = [0, 9] \<and>
     map fm_path (s_filemaps r) = [''a'']"
proof -
  have "forkable parent"
    by (simp add: forkable_def parent_def idle_def c_int_def fd_ok_def path_ok_def) (simp add: char_of_def)
  moreover have "s_fds (idle\<lparr>m_ip := 5\<rparr>) = []" "s_filemaps (idle\<lparr>m_ip := 5\<rparr>) = []" by (simp_all add: idle_def)
  ultimately show ?thesis
    using fork_roundtrip [of parent "idle\<lparr>m_ip := 5\<rparr>" True] unfolding Let_def
    by (simp add: parent_def sent_fd_def sent_map_def idle_def Let_def)
qed

end
