(* ===== verification/Pty.thy ===== *)
theory Pty
  imports Bits
begin

text \<open>
  The terminal of the debugger (\<open>pty.c\<close>): a state machine that reads bytes, and the cells of the screen it writes; with
  the UTF-8 encoder (\<open>tpenc.c\<close>) and decoder (\<open>thompike.h\<close>) and the width of characters (\<open>wcwidth.c\<close>).
\<close>

section \<open>State\<close>

abbreviation (input) kPtyFg :: u32 where "kPtyFg \<equiv> 0x0001"
abbreviation (input) kPtyBg :: u32 where "kPtyBg \<equiv> 0x0002"
abbreviation (input) kPtyBold :: u32 where "kPtyBold \<equiv> 0x0004"
abbreviation (input) kPtyFlip :: u32 where "kPtyFlip \<equiv> 0x0008"
abbreviation (input) kPtyFaint :: u32 where "kPtyFaint \<equiv> 0x0010"
abbreviation (input) kPtyUnder :: u32 where "kPtyUnder \<equiv> 0x0020"
abbreviation (input) kPtyDunder :: u32 where "kPtyDunder \<equiv> 0x0040"
abbreviation (input) kPtyTrue :: u32 where "kPtyTrue \<equiv> 0x0080"
abbreviation (input) kPtyBlink :: u32 where "kPtyBlink \<equiv> 0x0100"
abbreviation (input) kPtyItalic :: u32 where "kPtyItalic \<equiv> 0x0200"
abbreviation (input) kPtyFraktur :: u32 where "kPtyFraktur \<equiv> 0x0400"
abbreviation (input) kPtyStrike :: u32 where "kPtyStrike \<equiv> 0x0800"
abbreviation (input) kPtyConceal :: u32 where "kPtyConceal \<equiv> 0x1000"
abbreviation (input) kPtyBell :: u32 where "kPtyBell \<equiv> 0x001"
abbreviation (input) kPtyRedzone :: u32 where "kPtyRedzone \<equiv> 0x002"
abbreviation (input) kPtyNocursor :: u32 where "kPtyNocursor \<equiv> 0x004"
abbreviation (input) kPtyBlinkcursor :: u32 where "kPtyBlinkcursor \<equiv> 0x008"
abbreviation (input) kPtyNocanon :: u32 where "kPtyNocanon \<equiv> 0x010"
abbreviation (input) kPtyNoecho :: u32 where "kPtyNoecho \<equiv> 0x020"
abbreviation (input) kPtyNoopost :: u32 where "kPtyNoopost \<equiv> 0x040"
abbreviation (input) kPtyLed1 :: u32 where "kPtyLed1 \<equiv> 0x080"
abbreviation (input) kPtyLed2 :: u32 where "kPtyLed2 \<equiv> 0x100"
abbreviation (input) kPtyLed3 :: u32 where "kPtyLed3 \<equiv> 0x200"
abbreviation (input) kPtyLed4 :: u32 where "kPtyLed4 \<equiv> 0x400"

datatype PtyState = kPtyAscii | kPtyUtf8 | kPtyEsc | kPtyCsi

text \<open>
  \<open>struct Pty\<close>. The planes are the four arrays of the cells, row by row; the escape sequence is an array of 64 bytes.
  \<open>t_input\<close> is the memory of the input buffer, as long as its capacity, and \<open>t_moves\<close> counts how
  often \<open>realloc\<close> took it away: a pointer from before must not be used any more.
\<close>

record Pty =
  t_y :: int
  t_x :: int
  t_yn :: int
  t_xn :: int
  t_u8 :: u32
  t_n8 :: u32
  t_pr :: u32
  t_fg :: u32
  t_bg :: u32
  t_conf :: u32
  t_save :: u32
  t_wcs :: "u32 list"
  t_prs :: "u32 list"
  t_fgs :: "u32 list"
  t_bgs :: "u32 list"
  t_xlat :: "int list"
  t_state :: PtyState
  t_esc_i :: nat
  t_esc :: "u8 list"
  t_input_i :: nat
  t_input :: "u8 list"
  t_moves :: nat

text \<open>
  How a function ends: it returns; an assertion fails; it reads or writes outside of an array, or through a pointer
  to memory that is gone; or the bound on the nesting of reports is used up.
\<close>

datatype ended = Done Pty | Failed | Wild | Deep

fun step :: "ended \<Rightarrow> (Pty \<Rightarrow> ended) \<Rightarrow> ended" where
  "step (Done t) f = f t"
| "step Failed f = Failed"
| "step Wild f = Wild"
| "step Deep f = Deep"

text \<open>Numbers of C that wrap: \<open>int\<close> arithmetic beyond its range, which C leaves undefined.\<close>

definition wrap :: "int \<Rightarrow> int" where
  "wrap i = sint (word_of_int i :: u32)"

section \<open>Characters\<close>

definition GetXlatAscii :: "int list" where
  "GetXlatAscii = map int [0..<128]"

definition line_drawing :: "int list" where
  "line_drawing = [0xa0, 0x25c6, 0x2592, 0x2409, 0x240c, 0x240d, 0x240a, 0xb0, 0xb1, 0x2424, 0x240b, 0x2518, 0x2510,
     0x250c, 0x2514, 0x253c, 0x23ba, 0x23bb, 0x2500, 0x23bc, 0x23bd, 0x251c, 0x2524, 0x2534, 0x252c, 0x2502, 0x2264,
     0x2265, 0x3c0, 0x2260, 0xa3, 0xb7]"

definition GetXlatLineDrawing :: "int list" where
  "GetXlatLineDrawing = map (\<lambda>i. if 0x5f \<le> i \<and> i \<le> 0x7e then line_drawing ! (i - 0x5f) else int i) [0..<128]"

definition XlatAlphabet :: "int \<Rightarrow> int \<Rightarrow> int list" where
  "XlatAlphabet a b = map (\<lambda>i. if 97 \<le> i \<and> i \<le> 122 then i - 97 + a else if 65 \<le> i \<and> i \<le> 90 then i - 65 + b else i) (map int [0..<128])"

definition GetXlatItalic :: "int list" where "GetXlatItalic = XlatAlphabet 0x1d44e 0x1d434"
definition GetXlatBoldItalic :: "int list" where "GetXlatBoldItalic = XlatAlphabet 0x1d482 0x1d468"
definition GetXlatBoldFraktur :: "int list" where "GetXlatBoldFraktur = XlatAlphabet 0x1d586 0x1d56c"

definition fraktur_capitals :: "int list" where
  "fraktur_capitals = [0x1d504, 0x1d505, 0x212d, 0x1d507, 0x1d508, 0x1d509, 0x1d50a, 0x210c, 0x2111, 0x1d50d, 0x1d50e,
     0x1d50f, 0x1d510, 0x1d511, 0x1d512, 0x1d513, 0x1d514, 0x211c, 0x1d516, 0x1d517, 0x1d518, 0x1d519, 0x1d51a, 0x1d51b,
     0x1d51c, 0x2128]"

definition GetXlatFraktur :: "int list" where
  "GetXlatFraktur = map (\<lambda>i. if 65 \<le> i \<and> i \<le> 90 then fraktur_capitals ! (i - 65) else if 97 \<le> i \<and> i \<le> 122 then int i - 97 + 0x1d51e else int i) [0..<128]"

text \<open>Characters of double width are negative.\<close>

definition GetXlatDoubleWidth :: "int list" where
  "GetXlatDoubleWidth = map (\<lambda>i. if 33 \<le> i \<and> i \<le> 126 then - (i - 33 + 0xff01) else i) (map int [0..<128])"

definition GetXlatSgr :: "Pty \<Rightarrow> int list" where
  "GetXlatSgr t =
     (let k = (if t_pr t AND kPtyFraktur \<noteq> 0 then 4 else 0) + (if t_pr t AND kPtyItalic \<noteq> 0 then 2 else 0) +
              (if t_pr t AND kPtyBold \<noteq> 0 then 1 else 0 :: nat)
      in if k = 4 \<or> k = 6 then GetXlatFraktur
         else if k = 5 \<or> k = 7 then GetXlatBoldFraktur
         else if k = 3 then GetXlatBoldItalic
         else if k = 2 then GetXlatItalic
         else GetXlatAscii)"

definition PtySetXlat :: "int list \<Rightarrow> Pty \<Rightarrow> Pty" where
  "PtySetXlat xlat t = t\<lparr>t_xlat := xlat, t_pr := t_pr t AND NOT (kPtyItalic OR kPtyFraktur)\<rparr>"

definition PtySetCodepage :: "u8 \<Rightarrow> Pty \<Rightarrow> Pty" where
  "PtySetCodepage c t = (if c = 48 then PtySetXlat GetXlatLineDrawing t else PtySetXlat GetXlatAscii t)"

text \<open>The width of a character; whether it is a control character is a question to the C library.\<close>

definition wcwidth :: "(u32 \<Rightarrow> bool) \<Rightarrow> u32 \<Rightarrow> int" where
  "wcwidth iswcntrl c =
     (if c = 0 then 0
      else if sint c < 0 \<or> iswcntrl c then -1
      else 1 + (if c \<ge> 0x1100 \<and>
          (c \<le> 0x115f \<or> c = 0x2329 \<or> c = 0x232a \<or> (c \<ge> 0x2e80 \<and> c \<le> 0xa4cf \<and> c \<noteq> 0x303f) \<or>
           (c \<ge> 0xac00 \<and> c \<le> 0xd7a3) \<or> (c \<ge> 0xf900 \<and> c \<le> 0xfaff) \<or> (c \<ge> 0xfe10 \<and> c \<le> 0xfe19) \<or>
           (c \<ge> 0xfe30 \<and> c \<le> 0xfe6f) \<or> (c \<ge> 0xff00 \<and> c \<le> 0xff60) \<or> (c \<ge> 0xffe0 \<and> c \<le> 0xffe6) \<or>
           (c \<ge> 0x20000 \<and> c \<le> 0x2fffd) \<or> (c \<ge> 0x30000 \<and> c \<le> 0x3fffd)) then 1 else 0))"

section \<open>UTF-8\<close>

definition ThomPikeCont :: "u8 \<Rightarrow> bool" where
  "ThomPikeCont x \<longleftrightarrow> x AND 0xc0 = 0x80"

definition ThomPikeMsb :: "u8 \<Rightarrow> nat" where
  "ThomPikeMsb x = (if x < 252 then bsr (ucast (NOT x)) else 1)"

definition ThomPikeByte :: "u8 \<Rightarrow> u32" where
  "ThomPikeByte x = ucast x AND ((shl 1 (ThomPikeMsb x) - 1) OR 3)"

definition ThomPikeLen :: "u8 \<Rightarrow> u32" where
  "ThomPikeLen x = 7 - of_nat (ThomPikeMsb x)"

definition ThomPikeMerge :: "u32 \<Rightarrow> u8 \<Rightarrow> u32" where
  "ThomPikeMerge x y = shl x 6 OR (ucast y AND 0x3f)"

text \<open>The encoder: how many continuation bytes there are, and the mark of the first byte.\<close>

definition kTpEnc :: "(nat \<times> u64) list" where
  "kTpEnc = replicate 4 (1, 0xc0) @ replicate 5 (2, 0xe0) @ replicate 5 (3, 0xf0) @ replicate 5 (4, 0xf8) @ replicate 6 (5, 0xfc)"

primrec tpenc_loop :: "nat \<Rightarrow> u32 \<Rightarrow> u64 \<Rightarrow> u32 \<times> u64" where
  "tpenc_loop 0 c w = (c, w)"
| "tpenc_loop (Suc n) c w = tpenc_loop n (shr c 6) (shl (w OR (0x80 OR (ucast c AND 0x3f))) 8)"

definition tpenc :: "u32 \<Rightarrow> u64" where
  "tpenc c =
     (if c \<le> 127 then ucast c
      else
        let (n, e) = kTpEnc ! (bsr (ucast c) - 7); (c, w) = tpenc_loop n c 0
        in ucast c OR w OR e)"

section \<open>The cells\<close>

definition fill :: "nat \<Rightarrow> 'a \<Rightarrow> nat \<Rightarrow> 'a list \<Rightarrow> 'a list" where
  "fill dst c n xs = take dst xs @ replicate n c @ drop (dst + n) xs"

definition slide :: "nat \<Rightarrow> nat \<Rightarrow> nat \<Rightarrow> 'a list \<Rightarrow> 'a list" where
  "slide dst src n xs = take dst xs @ take n (drop src xs) @ drop (dst + n) xs"

text \<open>A negative count is a huge one, and a negative index is outside of the array.\<close>

definition PtyErase :: "int \<Rightarrow> int \<Rightarrow> Pty \<Rightarrow> ended" where
  "PtyErase dst n t =
     (if \<not> dst + n \<le> t_yn t * t_xn t then Failed
      else if n = 0 then Done t
      else if dst < 0 \<or> n < 0 then Wild
      else Done (t\<lparr>t_wcs := fill (nat dst) 32 (nat n) (t_wcs t), t_prs := fill (nat dst) 0 (nat n) (t_prs t)\<rparr>))"

definition PtyMemmove :: "int \<Rightarrow> int \<Rightarrow> int \<Rightarrow> Pty \<Rightarrow> ended" where
  "PtyMemmove dst src n t =
     (if \<not> src + n \<le> t_yn t * t_xn t then Failed
      else if \<not> dst + n \<le> t_yn t * t_xn t then Failed
      else if n = 0 then Done t
      else if dst < 0 \<or> src < 0 \<or> n < 0 then Wild
      else
        Done (t\<lparr>t_wcs := slide (nat dst) (nat src) (nat n) (t_wcs t), t_fgs := slide (nat dst) (nat src) (nat n) (t_fgs t),
                t_bgs := slide (nat dst) (nat src) (nat n) (t_bgs t), t_prs := slide (nat dst) (nat src) (nat n) (t_prs t)\<rparr>))"

definition PtyFullReset :: "Pty \<Rightarrow> ended" where
  "PtyFullReset t =
     PtyErase 0 (t_yn t * t_xn t)
       (t\<lparr>t_y := 0, t_x := 0, t_pr := 0, t_u8 := 0, t_n8 := 0, t_conf := 0, t_save := 0, t_esc_i := 0, t_input_i := 0,
          t_state := kPtyAscii, t_xlat := GetXlatAscii\<rparr>)"

definition PtySetY :: "int \<Rightarrow> Pty \<Rightarrow> Pty" where
  "PtySetY y t = t\<lparr>t_conf := t_conf t AND NOT kPtyRedzone, t_y := max 0 (min (t_yn t - 1) y)\<rparr>"

definition PtySetX :: "int \<Rightarrow> Pty \<Rightarrow> Pty" where
  "PtySetX x t = t\<lparr>t_conf := t_conf t AND NOT kPtyRedzone, t_x := max 0 (min (t_xn t - 1) x)\<rparr>"

text \<open>The rows that are copied into the new planes, which have the new width; a row must be in both.\<close>

definition copy_rows :: "nat \<Rightarrow> nat \<Rightarrow> nat \<Rightarrow> nat list \<Rightarrow> 'a list \<Rightarrow> 'a list \<Rightarrow> 'a list" where
  "copy_rows xn old_xn xm rows old new = fold (\<lambda>y new. take (y * xn) new @ take xm (drop (y * old_xn) old) @ drop (y * xn + xm) new) rows new"

definition PtyResize :: "int \<Rightarrow> int \<Rightarrow> Pty \<Rightarrow> ended" where
  "PtyResize yn xn t =
     (let xn = (if xn < 80 then 80 else xn); yn = (if yn < 25 then 25 else yn)
      in if xn = t_xn t \<and> yn = t_yn t then Done t
         else
           let y0 = (if yn > t_y t + 1 then 0 else t_y t + 1 - yn);
               ym = min yn (t_yn t) + y0;
               xm = min xn (t_xn t);
               rows = [nat y0..<nat ym];
               copy = (\<lambda>old. copy_rows (nat xn) (nat (t_xn t)) (nat xm) rows old (replicate (nat (yn * xn)) 0))
           in if \<exists>y\<in>set rows. int y \<ge> yn \<or> int y \<ge> t_yn t then Wild
              else
                Done (PtySetX (t_x t) (PtySetY (t_y t)
                  (t\<lparr>t_wcs := copy (t_wcs t), t_fgs := copy (t_fgs t), t_bgs := copy (t_bgs t), t_prs := copy (t_prs t),
                     t_yn := yn, t_xn := xn\<rparr>))))"

definition empty_pty :: Pty where
  "empty_pty = \<lparr>t_y = 0, t_x = 0, t_yn = 0, t_xn = 0, t_u8 = 0, t_n8 = 0, t_pr = 0, t_fg = 0, t_bg = 0, t_conf = 0, t_save = 0,
     t_wcs = [], t_prs = [], t_fgs = [], t_bgs = [], t_xlat = [], t_state = kPtyAscii, t_esc_i = 0, t_esc = replicate 64 0,
     t_input_i = 0, t_input = [], t_moves = 0\<rparr>"

definition NewPty :: ended where
  "NewPty = step (step (PtyResize 25 80 empty_pty) PtyFullReset) (\<lambda>t. PtyErase 0 (t_yn t * t_xn t) t)"

section \<open>Moving\<close>

definition PtyScroll :: "Pty \<Rightarrow> ended" where
  "PtyScroll t =
     step (PtyMemmove 0 (t_xn t) (t_xn t * (t_yn t - 1)) t) (\<lambda>t. PtyErase (t_xn t * (t_yn t - 1)) (t_xn t) t)"

definition PtyReverse :: "Pty \<Rightarrow> ended" where
  "PtyReverse t =
     step (PtyMemmove (t_xn t) 0 (t_xn t * (t_yn t - 1)) t) (\<lambda>t. PtyErase 0 (t_xn t) t)"

definition PtyIndex :: "Pty \<Rightarrow> ended" where
  "PtyIndex t = (if t_y t < t_yn t - 1 then Done (t\<lparr>t_y := t_y t + 1\<rparr>) else PtyScroll t)"

definition PtyReverseIndex :: "Pty \<Rightarrow> ended" where
  "PtyReverseIndex t = (if t_y t \<noteq> 0 then Done (t\<lparr>t_y := t_y t - 1\<rparr>) else PtyReverse t)"

definition PtyCarriageReturn :: "Pty \<Rightarrow> Pty" where
  "PtyCarriageReturn t = PtySetX 0 t"

definition PtyNewline :: "Pty \<Rightarrow> ended" where
  "PtyNewline t =
     step (PtyIndex t) (\<lambda>t. Done (if t_conf t AND kPtyNoopost = 0 then PtyCarriageReturn t else t))"

definition PtyAdvance :: "Pty \<Rightarrow> ended" where
  "PtyAdvance t =
     (if \<not> t_xn t - 1 = t_x t then Failed
      else if t_conf t AND kPtyRedzone = 0 then Failed
      else
        let t = t\<lparr>t_conf := t_conf t AND NOT kPtyRedzone, t_x := 0\<rparr>
        in if t_y t < t_yn t - 1 then Done (t\<lparr>t_y := t_y t + 1\<rparr>) else PtyScroll t)"

definition put_cell :: "u32 \<Rightarrow> Pty \<Rightarrow> ended" where
  "put_cell wc t =
     (let i = t_y t * t_xn t + t_x t
      in if i < 0 \<or> i \<ge> int (length (t_wcs t)) then Wild
         else
           let t = t\<lparr>t_wcs := (t_wcs t)[nat i := wc], t_prs := (t_prs t)[nat i := t_pr t]\<rparr>
           in Done (if t_pr t AND (kPtyFg OR kPtyBg) \<noteq> 0
                    then t\<lparr>t_fgs := (t_fgs t)[nat i := t_fg t], t_bgs := (t_bgs t)[nat i := t_bg t]\<rparr> else t))"

definition PtyWriteGlyph :: "u32 \<Rightarrow> int \<Rightarrow> Pty \<Rightarrow> ended" where
  "PtyWriteGlyph wc w t =
     (if wc \<le> 0x1f then Failed
      else if 0x7f \<le> wc \<and> wc \<le> 0x9f then Failed
      else
        let (wc, w) = (if w < 1 then (32, 1) else (wc, w))
        in step (step (if t_conf t AND kPtyRedzone \<noteq> 0 \<or> t_x t + w > t_xn t then PtyAdvance t else Done t) (put_cell wc))
             (\<lambda>t. Done (if t_x t + w \<ge> t_xn t then t\<lparr>t_x := t_xn t - 1, t_conf := t_conf t OR kPtyRedzone\<rparr>
                        else t\<lparr>t_x := t_x t + w\<rparr>)))"

definition PtyWriteTab :: "Pty \<Rightarrow> ended" where
  "PtyWriteTab t =
     step (if t_conf t AND kPtyRedzone \<noteq> 0 then PtyAdvance t else Done t) (\<lambda>t.
       let x2 = min (t_xn t) ((t_x t + 1 + 7) div 8 * 8);
           i = t_y t * t_xn t + t_x t
       in if x2 > t_x t \<and> (i < 0 \<or> t_y t * t_xn t + x2 > int (length (t_wcs t))) then Wild
          else
            let t = t\<lparr>t_wcs := fill (nat i) 32 (nat (x2 - t_x t)) (t_wcs t)\<rparr>
            in Done (if x2 < t_xn t then t\<lparr>t_x := x2\<rparr> else t\<lparr>t_x := t_xn t - 1, t_conf := t_conf t OR kPtyRedzone\<rparr>))"

section \<open>Parameters\<close>

text \<open>A string ends with a zero; the escape sequence always has one.\<close>

definition first :: "u8 list \<Rightarrow> u8" where
  "first s = (case s of [] \<Rightarrow> 0 | c # _ \<Rightarrow> c)"

definition isdigit :: "u8 \<Rightarrow> bool" where
  "isdigit c \<longleftrightarrow> 48 \<le> c \<and> c \<le> 57"

fun atoi :: "int \<Rightarrow> u8 list \<Rightarrow> int \<times> u8 list" where
  "atoi i (c # s) = (if isdigit c then atoi (wrap (wrap (i * 10) + uint c - 48)) s else (i, c # s))"
| "atoi i [] = (i, [])"

definition PtyAtoi :: "u8 list \<Rightarrow> int \<times> u8 list" where
  "PtyAtoi s = atoi 0 s"

definition PtyGetMoveParam :: "Pty \<Rightarrow> int" where
  "PtyGetMoveParam t = (let x = fst (PtyAtoi (t_esc t)) in if x < 1 then 1 else x)"

definition PtySetCursorPosition :: "Pty \<Rightarrow> Pty" where
  "PtySetCursorPosition t =
     (let (row, s) = PtyAtoi (t_esc t);
          row = max 1 row;
          s = (if first s = 59 then tl s else s);
          (col, s) = PtyAtoi s;
          col = max 1 col
      in PtySetX (col - 1) (PtySetY (row - 1) t))"

definition PtySetCursorRow :: "Pty \<Rightarrow> Pty" where
  "PtySetCursorRow t = PtySetY (PtyGetMoveParam t - 1) t"

definition PtySetCursorColumn :: "Pty \<Rightarrow> Pty" where
  "PtySetCursorColumn t = PtySetX (PtyGetMoveParam t - 1) t"

definition PtyMoveCursor :: "int \<Rightarrow> int \<Rightarrow> Pty \<Rightarrow> Pty" where
  "PtyMoveCursor dy dx t =
     (let n = PtyGetMoveParam t; t = PtySetY (wrap (t_y t + dy * n)) t in PtySetX (wrap (t_x t + dx * n)) t)"

primrec rounds :: "nat \<Rightarrow> (Pty \<Rightarrow> ended) \<Rightarrow> Pty \<Rightarrow> ended" where
  "rounds 0 f t = Done t"
| "rounds (Suc n) f t = step (f t) (rounds n f)"

definition PtyScrollUp :: "Pty \<Rightarrow> ended" where
  "PtyScrollUp t = rounds (nat (PtyGetMoveParam t)) PtyScroll t"

definition PtyScrollDown :: "Pty \<Rightarrow> ended" where
  "PtyScrollDown t = rounds (nat (PtyGetMoveParam t)) PtyReverse t"

definition PtySetCursorStatus :: "bool \<Rightarrow> Pty \<Rightarrow> Pty" where
  "PtySetCursorStatus status t =
     t\<lparr>t_conf := if status then t_conf t AND NOT kPtyNocursor else t_conf t OR kPtyNocursor\<rparr>"

text \<open>A round of the loop takes at least one of the 64 bytes of the sequence.\<close>

fun mode_params :: "nat \<Rightarrow> bool \<Rightarrow> u8 list \<Rightarrow> Pty \<Rightarrow> Pty" where
  "mode_params 0 status p t = t"
| "mode_params (Suc n) status p t =
     (if isdigit (first p) then
        let (k, p) = PtyAtoi p;
            t = (if k = 25 then PtySetCursorStatus status t else t);
            p = (if first p = 59 then tl p else p)
        in mode_params n status p t
      else t)"

definition PtySetMode :: "bool \<Rightarrow> Pty \<Rightarrow> Pty" where
  "PtySetMode status t = (if first (t_esc t) = 63 then mode_params 64 status (tl (t_esc t)) t else t)"

definition PtySaveCursorPosition :: "Pty \<Rightarrow> Pty" where
  "PtySaveCursorPosition t =
     t\<lparr>t_save := (word_of_int (t_y t) AND 0x7fff) OR shl (word_of_int (t_x t) AND 0x7fff) 16\<rparr>"

definition PtyRestoreCursorPosition :: "Pty \<Rightarrow> Pty" where
  "PtyRestoreCursorPosition t =
     PtySetX (uint (shr (t_save t AND 0x7fff0000) 16)) (PtySetY (uint (t_save t AND 0x7fff)) t)"

section \<open>Erasing, inserting, deleting\<close>

definition PtyEraseDisplay :: "Pty \<Rightarrow> ended" where
  "PtyEraseDisplay t =
     (let k = fst (PtyAtoi (t_esc t)); i = t_y t * t_xn t + t_x t
      in if k = 0 then PtyErase i (t_yn t * t_xn t - i) t
         else if k = 1 then PtyErase 0 i t
         else if k = 2 \<or> k = 3 then PtyErase 0 (t_yn t * t_xn t) t
         else Done t)"

definition PtyEraseLine :: "Pty \<Rightarrow> ended" where
  "PtyEraseLine t =
     (let k = fst (PtyAtoi (t_esc t))
      in if k = 0 then PtyErase (t_y t * t_xn t + t_x t) (t_xn t - t_x t) t
         else if k = 1 then PtyErase (t_y t * t_xn t) (t_x t) t
         else if k = 2 then PtyErase (t_y t * t_xn t) (t_xn t) t
         else Done t)"

definition PtyEraseCells :: "Pty \<Rightarrow> ended" where
  "PtyEraseCells t =
     (let i = t_y t * t_xn t + t_x t; n = t_yn t * t_xn t; x = fst (PtyAtoi (t_esc t)); x = min (max x 1) (n - i)
      in PtyErase i x t)"

definition PtyArg1 :: "Pty \<Rightarrow> int" where
  "PtyArg1 t = max 1 (fst (PtyAtoi (t_esc t)))"

definition PtyInsertCells :: "Pty \<Rightarrow> ended" where
  "PtyInsertCells t =
     (let n = min (t_xn t - t_x t) (PtyArg1 t); i = t_y t * t_xn t + t_x t
      in step (PtyMemmove (i + n) i (t_xn t - (t_x t + n)) t) (PtyErase i n))"

definition PtyInsertLines :: "Pty \<Rightarrow> ended" where
  "PtyInsertLines t =
     (let n = min (t_yn t - t_y t) (PtyArg1 t); y = t_y t; xn = t_xn t
      in step (PtyMemmove ((y + n) * xn) (y * xn) ((t_yn t - y - n) * xn) t) (PtyErase (y * xn) (n * xn)))"

definition PtyDeleteCells :: "Pty \<Rightarrow> ended" where
  "PtyDeleteCells t =
     (let n = min (t_xn t - t_x t) (PtyArg1 t); i = t_y t * t_xn t + t_x t
      in step (PtyMemmove i (i + n) (t_xn t - (t_x t + n)) t) (PtyErase i n))"

definition PtyDeleteLines :: "Pty \<Rightarrow> ended" where
  "PtyDeleteLines t =
     (let n = min (t_yn t - t_y t) (PtyArg1 t); y = t_y t; xn = t_xn t
      in step (PtyMemmove (y * xn) ((y + n) * xn) ((t_yn t - y - n) * xn) t) (PtyErase ((y + n) * xn) (n * xn)))"

section \<open>Input\<close>

text \<open>
  The bytes that are written to the screen: an array of the caller, or a part of the memory of the input buffer, as a pointer from before its
  \<open>n\<close>th move. Reading them through a pointer to memory that is gone is wild.
\<close>

datatype source = Bytes "u8 list" | Buffered nat nat

fun byte_at :: "source \<Rightarrow> nat \<Rightarrow> Pty \<Rightarrow> u8 option" where
  "byte_at (Bytes bs) i t = (if i < length bs then Some (bs ! i) else None)"
| "byte_at (Buffered moves start) i t =
     (if moves = t_moves t \<and> start + i < length (t_input t) then Some (t_input t ! (start + i)) else None)"

text \<open>The capacity that a buffer grows to, and the bytes with a line feed after each carriage return that has none.\<close>

function grow_input :: "nat \<Rightarrow> nat \<Rightarrow> nat" where
  "grow_input need m = (if need > m + m div 2 \<and> m \<ge> 8 then grow_input need (m + m div 2) else m + m div 2)"
  by pat_completeness auto

termination
  by (relation "measure (\<lambda>(need, m). need - m)") auto

declare grow_input.simps [simp del]

fun add_feeds :: "bool \<Rightarrow> u8 list \<Rightarrow> u8 list" where
  "add_feeds cr [] = []"
| "add_feeds cr (c # cs) =
     (if c = 13 then c # add_feeds True cs
      else if cr then (if c \<noteq> 10 then [10, c] else [c]) @ add_feeds False cs
      else c # add_feeds False cs)"

definition overlay :: "nat \<Rightarrow> 'a list \<Rightarrow> 'a list \<Rightarrow> 'a list" where
  "overlay i xs ys = take i ys @ xs @ drop (i + length xs) ys"

text \<open>\<open>write\<close> writes to the screen. The end of the input is only moved after the echo.\<close>

definition PtyWriteInput :: "(source \<Rightarrow> nat \<Rightarrow> Pty \<Rightarrow> ended) \<Rightarrow> u8 list \<Rightarrow> Pty \<Rightarrow> ended" where
  "PtyWriteInput write data t =
     (let i = t_input_i t; n = length data; m = length (t_input t);
          t = (if i + n * 2 + 1 > m
               then t\<lparr>t_input := t_input t @ replicate (grow_input (i + n * 2 + 1) (max m 8) - m) 0, t_moves := t_moves t + 1\<rparr>
               else t);
          cr = (i \<noteq> 0 \<and> t_input t ! (i - 1) = 13);
          bs = add_feeds cr data;
          t = t\<lparr>t_input := overlay i bs (t_input t)\<rparr>
      in step (if t_conf t AND kPtyNoecho = 0 then write (Buffered (t_moves t) i) (length bs) t else Done t)
           (\<lambda>t. Done (t\<lparr>t_input_i := i + length bs\<rparr>)))"

text \<open>A line in canonical mode; the difference of the pointers is taken the wrong way around, and negative ones are huge.\<close>

definition PtyRead :: "nat \<Rightarrow> Pty \<Rightarrow> u8 list \<times> Pty" where
  "PtyRead size' t =
     (let n = min size' (t_input_i t);
          n = (if t_conf t AND kPtyNocanon = 0 then
                 (case find (\<lambda>k. t_input t ! k = 10) [0..<n] of
                    Some k \<Rightarrow> min n (nat ((1 - int k) mod 4294967296))
                  | None \<Rightarrow> 0)
               else n)
      in (take n (t_input t),
          t\<lparr>t_input := overlay 0 (take (t_input_i t - n) (drop n (t_input t))) (t_input t), t_input_i := t_input_i t - n\<rparr>))"

section \<open>Reports\<close>

text \<open>\<open>inp\<close> adds bytes to the input.\<close>

definition PtyReportDeviceStatus :: "(u8 list \<Rightarrow> Pty \<Rightarrow> ended) \<Rightarrow> Pty \<Rightarrow> ended" where
  "PtyReportDeviceStatus inp = inp [27, 91, 48, 110]"

definition PtyReportPreferredVtType :: "(u8 list \<Rightarrow> Pty \<Rightarrow> ended) \<Rightarrow> Pty \<Rightarrow> ended" where
  "PtyReportPreferredVtType inp = inp (take 4 [27, 91, 63, 49, 59, 48, 99])"

definition PtyReportPreferredVtIdentity :: "(u8 list \<Rightarrow> Pty \<Rightarrow> ended) \<Rightarrow> Pty \<Rightarrow> ended" where
  "PtyReportPreferredVtIdentity inp = inp [27, 47, 90, 0]"

definition PtyBell :: "Pty \<Rightarrow> Pty" where
  "PtyBell t = t\<lparr>t_conf := t_conf t OR kPtyBell\<rparr>"

definition PtyLed :: "Pty \<Rightarrow> Pty" where
  "PtyLed t =
     (let k = fst (PtyAtoi (t_esc t))
      in if k = 0 then t\<lparr>t_conf := t_conf t AND NOT kPtyLed1 AND NOT kPtyLed2 AND NOT kPtyLed3 AND NOT kPtyLed4\<rparr>
         else if k = 1 then t\<lparr>t_conf := t_conf t OR kPtyLed1\<rparr>
         else if k = 2 then t\<lparr>t_conf := t_conf t OR kPtyLed2\<rparr>
         else if k = 3 then t\<lparr>t_conf := t_conf t OR kPtyLed3\<rparr>
         else if k = 4 then t\<lparr>t_conf := t_conf t OR kPtyLed4\<rparr>
         else t)"

text \<open>Printing a number in decimal.\<close>

fun decimal :: "nat \<Rightarrow> u8 list" where
  "decimal n = (if n < 10 then [48 + of_nat n] else decimal (n div 10) @ [48 + of_nat (n mod 10)])"

declare decimal.simps [simp del]

definition PtyReportCursorPosition :: "(u8 list \<Rightarrow> Pty \<Rightarrow> ended) \<Rightarrow> Pty \<Rightarrow> ended" where
  "PtyReportCursorPosition inp t =
     inp ([27, 91] @ decimal (nat ((t_y t + 1) mod 32768)) @ [59] @ decimal (nat ((t_x t + 1) mod 32768)) @ [82]) t"

definition PtyCsiN :: "(u8 list \<Rightarrow> Pty \<Rightarrow> ended) \<Rightarrow> Pty \<Rightarrow> ended" where
  "PtyCsiN inp t =
     (let k = fst (PtyAtoi (t_esc t))
      in if k = 5 then PtyReportDeviceStatus inp t else if k = 6 then PtyReportCursorPosition inp t else Done t)"

section \<open>Graphic rendition\<close>

text \<open>
  The states of the parser of colors are numbers, to which the code adds its parameter. The parameters so far are in an array
  of four bytes, whose last is the index of the next.
\<close>

abbreviation (input) kSgr :: nat where "kSgr \<equiv> 0"
abbreviation (input) kSgrFg :: nat where "kSgrFg \<equiv> 8"
abbreviation (input) kSgrFgTrue :: nat where "kSgrFgTrue \<equiv> 10"
abbreviation (input) kSgrFgXterm :: nat where "kSgrFgXterm \<equiv> 13"
abbreviation (input) kSgrBg :: nat where "kSgrBg \<equiv> 16"
abbreviation (input) kSgrBgTrue :: nat where "kSgrBgTrue \<equiv> 18"
abbreviation (input) kSgrBgXterm :: nat where "kSgrBgXterm \<equiv> 21"

definition with_xlat :: "Pty \<Rightarrow> Pty" where
  "with_xlat t = t\<lparr>t_xlat := GetXlatSgr t\<rparr>"

text \<open>A plain parameter: the next state, and what it does.\<close>

definition sgr_plain :: "u8 \<Rightarrow> Pty \<Rightarrow> nat \<times> Pty" where
  "sgr_plain c t =
     (if c = 38 then (kSgrFg, t)
      else if c = 48 then (kSgrBg, t)
      else (kSgr,
        if c = 0 then with_xlat (t\<lparr>t_pr := 0\<rparr>)
        else if c = 1 then with_xlat (t\<lparr>t_pr := t_pr t OR kPtyBold\<rparr>)
        else if c = 2 then t\<lparr>t_pr := t_pr t OR kPtyFaint\<rparr>
        else if c = 3 then with_xlat (t\<lparr>t_pr := t_pr t OR kPtyItalic\<rparr>)
        else if c = 4 then t\<lparr>t_pr := t_pr t OR kPtyUnder\<rparr>
        else if c = 5 then t\<lparr>t_pr := t_pr t OR kPtyBlink\<rparr>
        else if c = 7 then t\<lparr>t_pr := t_pr t OR kPtyFlip\<rparr>
        else if c = 8 then t\<lparr>t_pr := t_pr t OR kPtyConceal\<rparr>
        else if c = 9 then t\<lparr>t_pr := t_pr t OR kPtyStrike\<rparr>
        else if c = 20 then with_xlat (t\<lparr>t_pr := t_pr t OR kPtyFraktur\<rparr>)
        else if c = 21 then t\<lparr>t_pr := t_pr t OR (kPtyUnder OR kPtyDunder)\<rparr>
        else if c = 22 then with_xlat (t\<lparr>t_pr := t_pr t AND NOT (kPtyFaint OR kPtyBold)\<rparr>)
        else if c = 23 then with_xlat (t\<lparr>t_pr := t_pr t AND NOT kPtyItalic\<rparr>)
        else if c = 24 then t\<lparr>t_pr := t_pr t AND NOT (kPtyUnder OR kPtyDunder)\<rparr>
        else if c = 25 then t\<lparr>t_pr := t_pr t AND NOT kPtyBlink\<rparr>
        else if c = 27 then t\<lparr>t_pr := t_pr t AND NOT kPtyFlip\<rparr>
        else if c = 28 then t\<lparr>t_pr := t_pr t AND NOT kPtyConceal\<rparr>
        else if c = 29 then t\<lparr>t_pr := t_pr t AND NOT kPtyStrike\<rparr>
        else if c = 39 then t\<lparr>t_pr := t_pr t AND NOT kPtyFg\<rparr>
        else if c = 49 then t\<lparr>t_pr := t_pr t AND NOT kPtyBg\<rparr>
        else if 30 \<le> c \<and> c \<le> 37 \<or> 90 \<le> c \<and> c \<le> 97 then
          t\<lparr>t_fg := ucast (if c \<ge> 90 then c - 90 + 8 else c - 30), t_pr := (t_pr t OR kPtyFg) AND NOT kPtyTrue\<rparr>
        else if 40 \<le> c \<and> c \<le> 47 \<or> 100 \<le> c \<and> c \<le> 107 then
          t\<lparr>t_bg := ucast (if c \<ge> 100 then c - 100 + 8 else c - 40), t_pr := (t_pr t OR kPtyBg) AND NOT kPtyTrue\<rparr>
        else t))"

definition set_fg :: "u32 \<Rightarrow> bool \<Rightarrow> Pty \<Rightarrow> Pty" where
  "set_fg c true' t = t\<lparr>t_fg := c, t_pr := if true' then t_pr t OR kPtyFg OR kPtyTrue else (t_pr t OR kPtyFg) AND NOT kPtyTrue\<rparr>"

definition set_bg :: "u32 \<Rightarrow> bool \<Rightarrow> Pty \<Rightarrow> Pty" where
  "set_bg c true' t = t\<lparr>t_bg := c, t_pr := if true' then t_pr t OR kPtyBg OR kPtyTrue else (t_pr t OR kPtyBg) AND NOT kPtyTrue\<rparr>"

definition read_code :: "u8 list \<Rightarrow> u32" where
  "read_code code = ucast (code ! 0) OR shl (ucast (code ! 1)) 8 OR shl (ucast (code ! 2)) 16 OR shl (ucast (code ! 3)) 24"

text \<open>The end of a parameter, \<open>x\<close> is its number; \<open>None\<close> is outside of the array or the abort.\<close>

definition sgr_param :: "u32 \<Rightarrow> nat \<Rightarrow> u8 list \<Rightarrow> Pty \<Rightarrow> (nat \<times> u8 list \<times> Pty) option" where
  "sgr_param x k code t =
     (if code ! 3 > 3 then None
      else
        let code = code[unat (code ! 3) := ucast x]; c = code ! 0
        in if k = kSgr then (case sgr_plain c t of (k, t) \<Rightarrow> Some (k, code, t))
           else if k = kSgrFg \<or> k = kSgrBg then Some (if c = 2 \<or> c = 5 then k + unat c else kSgr, code, t)
           else if k = kSgrFgTrue \<or> k = kSgrBgTrue then
             (let code = code[3 := code ! 3 + 1]
              in if code ! 3 = 3 then
                   let code = code[3 := 0]
                   in Some (kSgr, code, if k = kSgrFgTrue then set_fg (read_code code) True t else set_bg (read_code code) True t)
                 else Some (k, code, t))
           else if k = kSgrFgXterm then Some (kSgr, code, set_fg (ucast c) False t)
           else if k = kSgrBgXterm then Some (kSgr, code, set_bg (ucast c) False t)
           else None)"

fun sgr_loop :: "u8 list \<Rightarrow> u32 \<Rightarrow> nat \<Rightarrow> u8 list \<Rightarrow> Pty \<Rightarrow> ended" where
  "sgr_loop [] x k code t = Wild"
| "sgr_loop (c # p) x k code t =
     (if c = 0 then Done t
      else if isdigit c then sgr_loop p (x * 10 + (ucast c - 48)) k code t
      else if c = 59 \<or> c = 109 then
        (case sgr_param x k code t of Some (k, code, t) \<Rightarrow> sgr_loop p 0 k code t | None \<Rightarrow> Failed)
      else sgr_loop p x k code t)"

definition PtySelectGraphicsRendition :: "Pty \<Rightarrow> ended" where
  "PtySelectGraphicsRendition t = sgr_loop (t_esc t) 0 kSgr [0, 0, 0, 0] t"

section \<open>Sequences\<close>

definition PtyCsi :: "(u8 list \<Rightarrow> Pty \<Rightarrow> ended) \<Rightarrow> Pty \<Rightarrow> ended" where
  "PtyCsi inp t =
     (let c = t_esc t ! (t_esc_i t - 1) in
      if c = 102 \<or> c = 72 then Done (PtySetCursorPosition t)
      else if c = 71 then Done (PtySetCursorColumn t)
      else if c = 100 then Done (PtySetCursorRow t)
      else if c = 70 then Done (PtyMoveCursor (-1) 0 (t\<lparr>t_x := 0\<rparr>))
      else if c = 65 then Done (PtyMoveCursor (-1) 0 t)
      else if c = 69 then Done (PtyMoveCursor 1 0 (t\<lparr>t_x := 0\<rparr>))
      else if c = 66 then Done (PtyMoveCursor 1 0 t)
      else if c = 67 then Done (PtyMoveCursor 0 1 t)
      else if c = 68 then Done (PtyMoveCursor 0 (-1) t)
      else if c = 83 then PtyScrollUp t
      else if c = 84 then PtyScrollDown t
      else if c = 64 then PtyInsertCells t
      else if c = 80 then PtyDeleteCells t
      else if c = 76 then PtyInsertLines t
      else if c = 77 then PtyDeleteLines t
      else if c = 74 then PtyEraseDisplay t
      else if c = 75 then PtyEraseLine t
      else if c = 88 then PtyEraseCells t
      else if c = 115 then Done (PtySaveCursorPosition t)
      else if c = 117 then Done (PtyRestoreCursorPosition t)
      else if c = 110 then PtyCsiN inp t
      else if c = 109 then PtySelectGraphicsRendition t
      else if c = 104 then Done (PtySetMode True t)
      else if c = 108 then Done (PtySetMode False t)
      else if c = 99 then PtyReportPreferredVtType inp t
      else if c = 113 then Done (PtyLed t)
      else Done t)"

definition PtyScreenAlignmentDisplay :: "Pty \<Rightarrow> Pty" where
  "PtyScreenAlignmentDisplay t = t\<lparr>t_wcs := fill 0 69 (nat (t_yn t * t_xn t)) (t_wcs t)\<rparr>"

definition PtyEscHash :: "Pty \<Rightarrow> Pty" where
  "PtyEscHash t =
     (let c = t_esc t ! 1
      in if c = 53 then PtySetXlat GetXlatAscii t
         else if c = 54 then PtySetXlat GetXlatDoubleWidth t
         else if c = 56 then PtyScreenAlignmentDisplay t
         else t)"

definition PtyEsc :: "(u8 list \<Rightarrow> Pty \<Rightarrow> ended) \<Rightarrow> Pty \<Rightarrow> ended" where
  "PtyEsc inp t =
     (let c = t_esc t ! 0 in
      if c = 99 then PtyFullReset t
      else if c = 55 then Done (PtySaveCursorPosition t)
      else if c = 56 then Done (PtyRestoreCursorPosition t)
      else if c = 69 then PtyIndex (t\<lparr>t_x := 0\<rparr>)
      else if c = 68 then PtyIndex t
      else if c = 77 then PtyReverseIndex t
      else if c = 90 then PtyReportPreferredVtIdentity inp t
      else if c = 40 then Done (PtySetCodepage (t_esc t ! 1) t)
      else if c = 35 then Done (PtyEscHash t)
      else Done t)"

definition PtyCntrl :: "u32 \<Rightarrow> Pty \<Rightarrow> ended" where
  "PtyCntrl c t =
     (if c = 7 then Done (PtyBell t)
      else if c = 0x85 \<or> c = 12 \<or> c = 11 \<or> c = 10 then PtyNewline t
      else if c = 13 then Done (PtyCarriageReturn t)
      else if c = 9 then PtyWriteTab t
      else if c = 8 \<or> c = 0x7f then Done (t\<lparr>t_x := max 0 (t_x t - 1)\<rparr>)
      else if c = 27 then Done (t\<lparr>t_state := kPtyEsc, t_esc_i := 0\<rparr>)
      else if c = 0x84 then PtyIndex t
      else if c = 0x8d then PtyReverseIndex t
      else if c = 0x9b then Done (t\<lparr>t_state := kPtyCsi\<rparr>)
      else Done t)"

definition PtyEscAppend :: "u8 \<Rightarrow> Pty \<Rightarrow> Pty" where
  "PtyEscAppend c t =
     (let i = min (t_esc_i t + 1) 63 in t\<lparr>t_esc_i := i, t_esc := (t_esc t)[i - 1 := c, i := 0]\<rparr>)"

section \<open>Writing\<close>

text \<open>One byte in each of the four states. A byte that ends a character in UTF-8 is read again as the first of the next.\<close>

definition write_ascii :: "u8 \<Rightarrow> Pty \<Rightarrow> ended" where
  "write_ascii b t =
     (if b \<le> 0x7f then
        if 0x20 \<le> b \<and> b \<le> 0x7e then
          (if unat b \<ge> length (t_xlat t) then Wild
           else
             let wc = t_xlat t ! unat b
             in if wc \<ge> 0 then PtyWriteGlyph (word_of_int wc) 1 t else PtyWriteGlyph (word_of_int (- wc)) 2 t)
        else PtyCntrl (ucast b) t
      else if \<not> ThomPikeCont b then
        Done (t\<lparr>t_state := kPtyUtf8, t_u8 := ThomPikeByte b, t_n8 := ThomPikeLen b - 1\<rparr>)
      else Done t)"

definition write_char :: "(u32 \<Rightarrow> bool) \<Rightarrow> Pty \<Rightarrow> ended" where
  "write_char iswcntrl t =
     (let wc = t_u8 t
      in step (if wc \<le> 0x1f \<or> 0x7f \<le> wc \<and> wc \<le> 0x9f then PtyCntrl wc t else PtyWriteGlyph wc (wcwidth iswcntrl wc) t)
           (\<lambda>t. Done (t\<lparr>t_state := kPtyAscii, t_u8 := 0\<rparr>)))"

definition write_utf8 :: "(u32 \<Rightarrow> bool) \<Rightarrow> u8 \<Rightarrow> Pty \<Rightarrow> ended" where
  "write_utf8 iswcntrl b t =
     (let t' = (if ThomPikeCont b then t\<lparr>t_u8 := ThomPikeMerge (t_u8 t) b, t_n8 := t_n8 t - 1\<rparr> else t)
      in if ThomPikeCont b \<and> t_n8 t' \<noteq> 0 then Done t' else step (write_char iswcntrl t') (write_ascii b))"

definition write_esc :: "(u8 list \<Rightarrow> Pty \<Rightarrow> ended) \<Rightarrow> u8 \<Rightarrow> Pty \<Rightarrow> ended" where
  "write_esc inp b t =
     (if b = 91 then Done (t\<lparr>t_state := kPtyCsi\<rparr>)
      else if 0x30 \<le> b \<and> b \<le> 0x7e then step (PtyEsc inp (PtyEscAppend b t)) (\<lambda>t. Done (t\<lparr>t_state := kPtyAscii\<rparr>))
      else if 0x20 \<le> b \<and> b \<le> 0x2f then Done (PtyEscAppend b t)
      else Done (t\<lparr>t_state := kPtyAscii\<rparr>))"

definition write_csi :: "(u8 list \<Rightarrow> Pty \<Rightarrow> ended) \<Rightarrow> u8 \<Rightarrow> Pty \<Rightarrow> ended" where
  "write_csi inp b t =
     (let t = PtyEscAppend b t
      in if 0x30 \<le> b \<and> b \<le> 0x3f then Done t
         else if 0x40 \<le> b \<and> b \<le> 0x7e then step (PtyCsi inp t) (\<lambda>t. Done (t\<lparr>t_state := kPtyAscii\<rparr>))
         else Done (t\<lparr>t_state := kPtyAscii\<rparr>))"

definition write_byte :: "(u32 \<Rightarrow> bool) \<Rightarrow> (u8 list \<Rightarrow> Pty \<Rightarrow> ended) \<Rightarrow> u8 \<Rightarrow> Pty \<Rightarrow> ended" where
  "write_byte iswcntrl inp b t =
     (case t_state t of
        kPtyAscii \<Rightarrow> write_ascii b t
      | kPtyUtf8 \<Rightarrow> write_utf8 iswcntrl b t
      | kPtyEsc \<Rightarrow> write_esc inp b t
      | kPtyCsi \<Rightarrow> write_csi inp b t)"

text \<open>\<open>n\<close> bytes from the \<open>i\<close>th.\<close>

primrec write_from :: "(u32 \<Rightarrow> bool) \<Rightarrow> (u8 list \<Rightarrow> Pty \<Rightarrow> ended) \<Rightarrow> source \<Rightarrow> nat \<Rightarrow> nat \<Rightarrow> Pty \<Rightarrow> ended" where
  "write_from iswcntrl inp src 0 i t = Done t"
| "write_from iswcntrl inp src (Suc n) i t =
     (case byte_at src i t of
        None \<Rightarrow> Wild
      | Some b \<Rightarrow> step (write_byte iswcntrl inp b t) (write_from iswcntrl inp src n (Suc i)))"

text \<open>
  Writing to the screen may report to the input, which echoes to the screen again: \<open>d\<close> bounds how deep.
\<close>

primrec write_input :: "(u32 \<Rightarrow> bool) \<Rightarrow> nat \<Rightarrow> u8 list \<Rightarrow> Pty \<Rightarrow> ended" where
  "write_input iswcntrl 0 data t = Deep"
| "write_input iswcntrl (Suc d) data t =
     PtyWriteInput (\<lambda>src n. write_from iswcntrl (write_input iswcntrl d) src n 0) data t"

definition PtyWrite :: "(u32 \<Rightarrow> bool) \<Rightarrow> nat \<Rightarrow> u8 list \<Rightarrow> Pty \<Rightarrow> ended" where
  "PtyWrite iswcntrl d bs t = write_from iswcntrl (write_input iswcntrl d) (Bytes bs) (length bs) 0 t"

section \<open>Drawing\<close>

definition PtyEncodeRgb :: "u32 \<Rightarrow> u8 list" where
  "PtyEncodeRgb rgb =
     [50, 59] @ decimal (unat (rgb AND 0xff)) @ [59] @ decimal (unat (shr (rgb AND 0xff00) 8)) @ [59] @
     decimal (unat (shr (rgb AND 0xff0000) 16))"

definition PtyEncodeXterm256 :: "u32 \<Rightarrow> u8 list" where
  "PtyEncodeXterm256 xt = [53, 59] @ decimal (unat xt)"

definition encode_color :: "u8 \<Rightarrow> bool \<Rightarrow> bool \<Rightarrow> u32 \<Rightarrow> u8 list" where
  "encode_color c on true' v =
     [c] @ (if on then [56, 59] @ (if true' then PtyEncodeRgb v else PtyEncodeXterm256 v) else [57]) @ [59]"

text \<open>The sequence that changes the style: \<open>xr\<close> is what changes, \<open>pr\<close> is the new style.\<close>

definition PtyEncodeStyle :: "u32 \<Rightarrow> u32 \<Rightarrow> u32 \<Rightarrow> u32 \<Rightarrow> u8 list option" where
  "PtyEncodeStyle xr pr fg bg =
     (let has = (\<lambda>w k. w AND k \<noteq> 0) in
      if has pr (kPtyBold OR kPtyFaint OR kPtyFlip OR kPtyUnder OR kPtyDunder OR kPtyBlink OR kPtyStrike OR kPtyFg OR kPtyBg) then
        let s =
          (if has xr (kPtyBold OR kPtyFaint) then
             (if has ((xr AND (kPtyBold OR kPtyFaint)) XOR (pr AND (kPtyBold OR kPtyFaint))) (- 1) then [50, 50, 59] else []) @
             (if has pr kPtyBold then [49, 59] else []) @ (if has pr kPtyFaint then [50, 59] else [])
           else []) @
          (if has xr (kPtyUnder OR kPtyDunder) then
             (if has ((xr AND (kPtyUnder OR kPtyDunder)) XOR (pr AND (kPtyUnder OR kPtyDunder))) (- 1) then [50, 52, 59] else []) @
             (if has pr kPtyUnder then [52, 59] else []) @ (if has pr kPtyDunder then [50, 49, 59] else [])
           else []) @
          (if has xr (kPtyFlip OR kPtyBlink OR kPtyStrike) then
             (if has xr kPtyFlip then (if \<not> has pr kPtyFlip then [50] else []) @ [55, 59] else []) @
             (if has xr kPtyBlink then (if \<not> has pr kPtyBlink then [50] else []) @ [53, 59] else []) @
             (if has xr kPtyStrike then (if \<not> has pr kPtyStrike then [50] else []) @ [57, 59] else [])
           else []) @
          (if has xr (kPtyFg OR kPtyTrue) then encode_color 51 (has pr kPtyFg) (has pr kPtyTrue) fg else []) @
          (if has xr (kPtyBg OR kPtyTrue) then encode_color 52 (has pr kPtyBg) (has pr kPtyTrue) bg else [])
        in if s \<noteq> [] \<and> last s = 59 then Some ([27, 91] @ butlast s @ [109]) else None
      else Some [27, 91, 48, 109])"

text \<open>The bytes of a number, the lowest first, at least one.\<close>

fun word_bytes_of :: "nat \<Rightarrow> u64 \<Rightarrow> u8 list" where
  "word_bytes_of 0 u = []"
| "word_bytes_of (Suc n) u = ucast (u AND 0xff) # (if shr u 8 \<noteq> 0 then word_bytes_of n (shr u 8) else [])"

text \<open>
  Drawing one cell: what it adds to the buffer, the style afterwards, and its width. \<open>cursor\<close> is the character that stands for the cursor
  on a blank, which depends on the host. The colors are compared with what was just set to the mark for none.
\<close>

definition draw_cell :: "(u32 \<Rightarrow> bool) \<Rightarrow> u32 \<Rightarrow> Pty \<Rightarrow> nat \<Rightarrow> bool \<Rightarrow> u32 \<Rightarrow> (u8 list \<times> u32 \<times> nat) option" where
  "draw_cell iswcntrl cursor t i at_cursor pr =
     (let np = t_prs t ! i; wc = t_wcs t ! i in
      if np AND kPtyConceal = 0 \<and> (wc \<le> 0x1f \<or> 0x7f \<le> wc \<and> wc \<le> 0x9f) then None
      else
        let (u, w) = (if np AND kPtyConceal = 0
                      then if 0x20 \<le> wc \<and> wc \<le> 0x7e then (ucast wc, 1) else (tpenc wc, max 1 (wcwidth iswcntrl wc))
                      else (32, 1));
            (u, np) = (if at_cursor then
                         if u \<noteq> 32 then (u, np XOR kPtyFlip)
                         else (tpenc cursor, if t_conf t AND kPtyBlinkcursor \<noteq> 0 then np OR kPtyBlink else np)
                       else (u, np));
            xp = pr XOR np;
            (fg, xp) = (if np AND kPtyFg \<noteq> 0 then (t_fgs t ! i, if t_fgs t ! i \<noteq> - 1 then xp OR kPtyFg else xp) else (- 1, xp));
            (bg, xp) = (if np AND kPtyBg \<noteq> 0 then (t_bgs t ! i, if t_bgs t ! i \<noteq> - 1 then xp OR kPtyBg else xp) else (- 1, xp))
        in case (if xp \<noteq> 0 then PtyEncodeStyle xp np fg bg else Some []) of
             None \<Rightarrow> None
           | Some s \<Rightarrow>
               let s = s @ word_bytes_of 8 u
               in if length s \<le> 60 then Some (s, if xp \<noteq> 0 then np else pr, nat w) else None)"

fun draw_cells :: "(u32 \<Rightarrow> bool) \<Rightarrow> u32 \<Rightarrow> nat \<Rightarrow> Pty \<Rightarrow> nat \<Rightarrow> nat \<Rightarrow> nat option \<Rightarrow> u32 \<Rightarrow> u8 list option" where
  "draw_cells iswcntrl cursor 0 t i j ci pr = Some []"
| "draw_cells iswcntrl cursor (Suc n) t i j ci pr =
     (if i < j then
        case draw_cell iswcntrl cursor t i (ci = Some i) pr of
          None \<Rightarrow> None
        | Some (s, pr, w) \<Rightarrow> map_option ((@) s) (draw_cells iswcntrl cursor n t (i + w) j ci pr)
      else Some [])"

text \<open>\<open>Inl\<close> is the error of a line that does not exist, \<open>Inr None\<close> a failed assertion; \<open>y\<close> is unsigned.\<close>

definition PtyAppendLine :: "(u32 \<Rightarrow> bool) \<Rightarrow> u32 \<Rightarrow> nat \<Rightarrow> Pty \<Rightarrow> u8 list \<Rightarrow> unit + u8 list option" where
  "PtyAppendLine iswcntrl cursor y t buf =
     (if int y \<ge> t_yn t then Inl ()
      else
        let i = y * nat (t_xn t);
            ci = (if t_conf t AND kPtyNocursor = 0 \<and> int y = t_y t then Some (i + nat (t_x t)) else None)
        in Inr (map_option ((@) buf) (draw_cells iswcntrl cursor (nat (t_xn t)) t i (i + nat (t_xn t)) ci 0)))"

end
