(* ===== verification/PtySpec.thy ===== *)
theory PtySpec
  imports Pty
begin

text \<open>
  That the terminal stays within its arrays: the operations on the screen, the sequences, and the reports, which are the contract of a locale.
\<close>

section \<open>A sound terminal\<close>

definition ends :: "(Pty \<Rightarrow> bool) \<Rightarrow> ended \<Rightarrow> bool" where
  "ends P r \<longleftrightarrow> (case r of Done t \<Rightarrow> P t | Failed \<Rightarrow> True | Wild \<Rightarrow> False | Deep \<Rightarrow> False)"

lemma ends_simps [simp]: "ends P (Done t) = P t" "ends P Failed" "\<not> ends P Wild" "\<not> ends P Deep"
  by (simp_all add: ends_def)

lemma ends_step: "ends Q r \<Longrightarrow> (\<And>t. Q t \<Longrightarrow> ends P (f t)) \<Longrightarrow> ends P (step r f)"
  by (cases r) simp_all

lemma ends_mono: "ends Q r \<Longrightarrow> (\<And>t. Q t \<Longrightarrow> P t) \<Longrightarrow> ends P r"
  by (cases r) simp_all

text \<open>
  The cursor is on the screen, the planes have a cell for each position, the escape sequence is an array of 64 bytes with a zero
  in it, the alphabet has 128 characters, and the input is in its buffer.
\<close>

definition pty_ok :: "Pty \<Rightarrow> bool" where
  "pty_ok t \<longleftrightarrow>
     0 \<le> t_y t \<and> t_y t < t_yn t \<and> 0 \<le> t_x t \<and> t_x t < t_xn t \<and>
     int (length (t_wcs t)) = t_yn t * t_xn t \<and> int (length (t_prs t)) = t_yn t * t_xn t \<and>
     int (length (t_fgs t)) = t_yn t * t_xn t \<and> int (length (t_bgs t)) = t_yn t * t_xn t \<and>
     length (t_esc t) = 64 \<and> t_esc_i t \<le> 63 \<and> 0 \<in> set (t_esc t) \<and> length (t_xlat t) = 128 \<and> t_input_i t \<le> length (t_input t)"

text \<open>What an operation on the screen leaves alone.\<close>

definition kept :: "Pty \<Rightarrow> Pty \<Rightarrow> bool" where
  "kept t t' \<longleftrightarrow> t_input t' = t_input t \<and> t_moves t' = t_moves t \<and> t_input_i t' = t_input_i t \<and> t_state t' = t_state t \<and>
     t_esc t' = t_esc t \<and> t_esc_i t' = t_esc_i t \<and> t_yn t' = t_yn t \<and> t_xn t' = t_xn t"

definition sound :: "Pty \<Rightarrow> Pty \<Rightarrow> bool" where
  "sound t t' \<longleftrightarrow> pty_ok t' \<and> kept t t'"

named_theorems screen "operations on the screen"

lemma sound_refl: "pty_ok t \<Longrightarrow> sound t t"
  by (simp add: sound_def kept_def)

lemma sound_step:
  assumes "ends (sound t) r" "\<And>t'. pty_ok t' \<Longrightarrow> kept t t' \<Longrightarrow> ends (sound t') (f t')"
  shows "ends (sound t) (step r f)"
  using assms(1)
proof (rule ends_step)
  fix t' assume s: "sound t t'"
  then have "ends (sound t') (f t')" using assms(2) by (simp add: sound_def)
  then show "ends (sound t) (f t')"
    by (rule ends_mono) (use s in \<open>simp add: sound_def kept_def\<close>)
qed

lemma length_fill: "dst + n \<le> length xs \<Longrightarrow> length (fill dst c n xs) = length xs"
  by (simp add: fill_def)

lemma length_slide: "dst + n \<le> length xs \<Longrightarrow> src + n \<le> length xs \<Longrightarrow> length (slide dst src n xs) = length xs"
  by (simp add: slide_def)

lemma int_fill: "int (length xs) = k \<Longrightarrow> 0 \<le> dst \<Longrightarrow> 0 \<le> n \<Longrightarrow> dst + n \<le> k \<Longrightarrow> int (length (fill (nat dst) c (nat n) xs)) = k"
  by (subst length_fill) simp_all

lemma int_slide:
  "int (length xs) = k \<Longrightarrow> 0 \<le> dst \<Longrightarrow> 0 \<le> src \<Longrightarrow> 0 \<le> n \<Longrightarrow> dst + n \<le> k \<Longrightarrow> src + n \<le> k \<Longrightarrow>
   int (length (slide (nat dst) (nat src) (nat n) xs)) = k"
  by (subst length_slide) simp_all

lemma cell:
  fixes y x yn xn :: int
  assumes "0 \<le> y" "y < yn" "0 \<le> x" "x < xn"
  shows "0 \<le> y * xn + x" "y * xn + x < yn * xn" "0 \<le> y * xn" "y * xn + xn \<le> yn * xn" "0 \<le> yn * xn"
proof -
  show p: "0 \<le> y * xn" using assms by simp
  have "(y + 1) * xn \<le> yn * xn" using assms by (intro mult_right_mono) simp_all
  then show q: "y * xn + xn \<le> yn * xn" by (simp add: algebra_simps)
  show "0 \<le> y * xn + x" "y * xn + x < yn * xn" "0 \<le> yn * xn" using p q assms by linarith+
qed

lemma erase_ok [screen]: "pty_ok t \<Longrightarrow> 0 \<le> dst \<Longrightarrow> 0 \<le> n \<Longrightarrow> ends (sound t) (PtyErase dst n t)"
  by (simp add: PtyErase_def sound_refl) (simp add: sound_def kept_def pty_ok_def int_fill)

lemma memmove_ok [screen]: "pty_ok t \<Longrightarrow> 0 \<le> dst \<Longrightarrow> 0 \<le> src \<Longrightarrow> 0 \<le> n \<Longrightarrow> ends (sound t) (PtyMemmove dst src n t)"
  by (simp add: PtyMemmove_def sound_refl) (simp add: sound_def kept_def pty_ok_def int_slide)

lemma set_ok: "pty_ok t \<Longrightarrow> sound t (PtySetY y t)" "pty_ok t \<Longrightarrow> sound t (PtySetX x t)"
  by (auto simp: PtySetY_def PtySetX_def sound_def kept_def pty_ok_def)

lemma sound_trans: "sound t t' \<Longrightarrow> sound t' t'' \<Longrightarrow> sound t t''"
  by (simp add: sound_def kept_def)

lemma set_both_ok: "pty_ok t \<Longrightarrow> sound t (PtySetX x (PtySetY y t))"
  by (metis set_ok sound_def sound_trans)

lemma scroll_ok [screen]: "pty_ok t \<Longrightarrow> ends (sound t) (PtyScroll t)" "pty_ok t \<Longrightarrow> ends (sound t) (PtyReverse t)"
  unfolding PtyScroll_def PtyReverse_def
  by (rule sound_step; rule memmove_ok erase_ok; (assumption | simp add: pty_ok_def kept_def))+

lemma index_ok [screen]: "pty_ok t \<Longrightarrow> ends (sound t) (PtyIndex t)" "pty_ok t \<Longrightarrow> ends (sound t) (PtyReverseIndex t)"
  unfolding PtyIndex_def PtyReverseIndex_def
  by (auto intro: scroll_ok) (auto simp: sound_def kept_def pty_ok_def)

lemma newline_ok [screen]: "pty_ok t \<Longrightarrow> ends (sound t) (PtyNewline t)"
  unfolding PtyNewline_def PtyCarriageReturn_def
  by (rule sound_step [OF index_ok(1)]) (simp_all add: set_ok sound_refl)

lemma advance_ok [screen]: "pty_ok t \<Longrightarrow> ends (sound t) (PtyAdvance t)"
proof -
  assume t: "pty_ok t"
  let ?t = "t\<lparr>t_conf := t_conf t AND NOT kPtyRedzone, t_x := 0\<rparr>"
  have s: "sound t ?t" using t by (simp add: sound_def kept_def pty_ok_def)
  have "ends (sound ?t) (PtyScroll ?t)" using s by (simp add: sound_def scroll_ok)
  then have "ends (sound t) (PtyScroll ?t)" by (rule ends_mono) (rule sound_trans [OF s])
  moreover have "t_y t < t_yn t - 1 \<Longrightarrow> sound t (?t\<lparr>t_y := t_y t + 1\<rparr>)"
    using t by (simp add: sound_def kept_def pty_ok_def)
  ultimately show ?thesis by (simp add: PtyAdvance_def Let_def)
qed

lemma put_cell_ok [screen]: "pty_ok t \<Longrightarrow> ends (sound t) (put_cell wc t)"
proof -
  assume t: "pty_ok t"
  then have i: "0 \<le> t_y t * t_xn t + t_x t" "t_y t * t_xn t + t_x t < t_yn t * t_xn t"
    using cell [of "t_y t" "t_yn t" "t_x t" "t_xn t"] by (simp_all add: pty_ok_def)
  show ?thesis using t i unfolding put_cell_def Let_def by (simp add: not_less) (simp add: sound_def kept_def pty_ok_def)
qed

lemma glyph_ok [screen]: "pty_ok t \<Longrightarrow> ends (sound t) (PtyWriteGlyph wc w t)"
proof -
  assume t: "pty_ok t"
  have r: "ends (sound t) (step (step (if t_conf t AND kPtyRedzone \<noteq> 0 \<or> t_x t + w > t_xn t then PtyAdvance t else Done t) (put_cell wc))
      (\<lambda>t. Done (if t_x t + w \<ge> t_xn t then t\<lparr>t_x := t_xn t - 1, t_conf := t_conf t OR kPtyRedzone\<rparr> else t\<lparr>t_x := t_x t + w\<rparr>)))"
    if "0 < w" for wc w
    by (intro sound_step put_cell_ok) (use t that in \<open>auto simp: advance_ok sound_refl sound_def kept_def pty_ok_def\<close>)
  show ?thesis
    unfolding PtyWriteGlyph_def Let_def using r [of w wc] r [of 1 32] by simp
qed

definition put_blanks :: "int \<Rightarrow> Pty \<Rightarrow> ended" where
  "put_blanks x2 t =
     (let i = t_y t * t_xn t + t_x t
      in if x2 > t_x t \<and> (i < 0 \<or> t_y t * t_xn t + x2 > int (length (t_wcs t))) then Wild
         else
           let t = t\<lparr>t_wcs := fill (nat i) 32 (nat (x2 - t_x t)) (t_wcs t)\<rparr>
           in Done (if x2 < t_xn t then t\<lparr>t_x := x2\<rparr> else t\<lparr>t_x := t_xn t - 1, t_conf := t_conf t OR kPtyRedzone\<rparr>))"

lemma put_blanks_ok:
  assumes t: "pty_ok t" and x2: "t_x t < x2" "x2 \<le> t_xn t"
  shows "ends (sound t) (put_blanks x2 t)"
proof -
  have b: "0 \<le> t_y t * t_xn t + t_x t" "t_y t * t_xn t + x2 \<le> t_yn t * t_xn t"
    using cell [of "t_y t" "t_yn t" "t_x t" "t_xn t"] t x2(2) by (simp_all add: pty_ok_def)
  have f: "int (length (fill (nat (t_y t * t_xn t + t_x t)) 32 (nat (x2 - t_x t)) (t_wcs t))) = t_yn t * t_xn t"
    by (rule int_fill) (use t x2 b in \<open>simp_all add: pty_ok_def\<close>)
  have w: "\<not> t_y t * t_xn t + x2 > int (length (t_wcs t))" "\<not> t_y t * t_xn t + t_x t < 0" using b t by (simp add: pty_ok_def, linarith)
  show ?thesis
    using t x2 f unfolding put_blanks_def Let_def by (simp add: w) (auto simp: sound_def kept_def pty_ok_def)
qed

lemma tab_ok [screen]: "pty_ok t \<Longrightarrow> ends (sound t) (PtyWriteTab t)"
proof -
  assume t: "pty_ok t"
  have "PtyWriteTab t = step (if t_conf t AND kPtyRedzone \<noteq> 0 then PtyAdvance t else Done t)
      (\<lambda>t. put_blanks (min (t_xn t) ((t_x t + 1 + 7) div 8 * 8)) t)"
    by (simp add: PtyWriteTab_def put_blanks_def Let_def)
  moreover have "t_x t < (t_x t + 1 + 7) div 8 * 8" for t by linarith
  ultimately show ?thesis
    using t by (simp only:) (intro sound_step put_blanks_ok; simp add: advance_ok sound_refl pty_ok_def)
qed

lemma rounds_ok: "(\<And>t. pty_ok t \<Longrightarrow> ends (sound t) (f t)) \<Longrightarrow> pty_ok t \<Longrightarrow> ends (sound t) (rounds n f t)"
proof (induction n arbitrary: t)
  case (Suc n)
  then show ?case by (simp add: sound_step)
qed (simp add: sound_refl)

lemma scrolls_ok [screen]: "pty_ok t \<Longrightarrow> ends (sound t) (PtyScrollUp t)" "pty_ok t \<Longrightarrow> ends (sound t) (PtyScrollDown t)"
  unfolding PtyScrollUp_def PtyScrollDown_def by (rule rounds_ok; simp add: scroll_ok)+

lemma erases_ok [screen]:
  assumes "pty_ok t"
  shows "ends (sound t) (PtyEraseDisplay t)" "ends (sound t) (PtyEraseLine t)" "ends (sound t) (PtyEraseCells t)"
proof -
  have c: "0 \<le> t_y t * t_xn t + t_x t" "t_y t * t_xn t + t_x t < t_yn t * t_xn t" "0 \<le> t_y t * t_xn t" "0 \<le> t_yn t * t_xn t"
    using cell [of "t_y t" "t_yn t" "t_x t" "t_xn t"] assms by (simp_all add: pty_ok_def)
  have x: "0 \<le> t_x t" "t_x t < t_xn t" using assms by (simp_all add: pty_ok_def)
  show "ends (sound t) (PtyEraseDisplay t)" "ends (sound t) (PtyEraseLine t)" "ends (sound t) (PtyEraseCells t)"
    unfolding PtyEraseDisplay_def PtyEraseLine_def PtyEraseCells_def Let_def
    using c x assms by (auto intro!: erase_ok simp: sound_refl)
qed

lemma edits_ok [screen]:
  assumes "pty_ok t"
  shows "ends (sound t) (PtyInsertCells t)" "ends (sound t) (PtyInsertLines t)"
    "ends (sound t) (PtyDeleteCells t)" "ends (sound t) (PtyDeleteLines t)"
proof -
  have x: "0 \<le> t_x t" "t_x t < t_xn t" "0 \<le> t_y t" "t_y t < t_yn t" using assms by (simp_all add: pty_ok_def)
  have c: "0 \<le> t_y t * t_xn t + t_x t" "0 \<le> t_y t * t_xn t"
    using cell [of "t_y t" "t_yn t" "t_x t" "t_xn t"] assms by (simp_all add: pty_ok_def)
  have k: "1 \<le> PtyArg1 t" by (simp add: PtyArg1_def)
  have n: "0 \<le> min (t_xn t - t_x t) (PtyArg1 t)" "0 \<le> min (t_yn t - t_y t) (PtyArg1 t)" using x k by simp_all
  have y: "0 \<le> (t_y t + min (t_yn t - t_y t) (PtyArg1 t)) * t_xn t" "0 \<le> min (t_yn t - t_y t) (PtyArg1 t) * t_xn t"
    "0 \<le> (t_yn t - t_y t - min (t_yn t - t_y t) (PtyArg1 t)) * t_xn t"
    by (rule mult_nonneg_nonneg; use x k in simp)+
  show "ends (sound t) (PtyInsertCells t)" "ends (sound t) (PtyInsertLines t)"
    "ends (sound t) (PtyDeleteCells t)" "ends (sound t) (PtyDeleteLines t)"
    unfolding PtyInsertCells_def PtyInsertLines_def PtyDeleteCells_def PtyDeleteLines_def Let_def
    by (intro sound_step memmove_ok erase_ok; use assms c n y x in simp)+
qed

text \<open>What changes only the style, the saved position and the flags.\<close>

definition styled :: "Pty \<Rightarrow> Pty \<Rightarrow> bool" where
  "styled t t' \<longleftrightarrow> kept t t' \<and> t_y t' = t_y t \<and> t_x t' = t_x t \<and> t_wcs t' = t_wcs t \<and> t_prs t' = t_prs t \<and> t_fgs t' = t_fgs t \<and>
     t_bgs t' = t_bgs t \<and> length (t_xlat t') = length (t_xlat t)"

lemma styled_sound: "pty_ok t \<Longrightarrow> styled t t' \<Longrightarrow> sound t t'"
  by (simp add: styled_def sound_def kept_def pty_ok_def)

lemma alphabets [simp]:
  "length GetXlatAscii = 128" "length GetXlatLineDrawing = 128" "length GetXlatDoubleWidth = 128" "length (GetXlatSgr t) = 128"
  by (simp_all add: GetXlatAscii_def GetXlatLineDrawing_def GetXlatDoubleWidth_def GetXlatSgr_def GetXlatItalic_def GetXlatBoldItalic_def
      GetXlatBoldFraktur_def GetXlatFraktur_def XlatAlphabet_def Let_def)

lemma styles:
  assumes "pty_ok t"
  shows "styled t (PtySetXlat GetXlatAscii t)" "styled t (PtySetXlat GetXlatDoubleWidth t)" "styled t (PtySetCodepage c t)"
    "styled t (PtyBell t)" "styled t (PtyLed t)" "styled t (PtySaveCursorPosition t)" "styled t (PtySetCursorStatus b t)"
  using assms by (simp_all add: styled_def kept_def pty_ok_def PtySetXlat_def PtySetCodepage_def PtyBell_def PtyLed_def Let_def
      PtySaveCursorPosition_def PtySetCursorStatus_def)

lemma styled_trans: "styled t t' \<Longrightarrow> styled t' t'' \<Longrightarrow> styled t t''"
  by (simp add: styled_def kept_def)

lemma mode_ok: "styled t (PtySetMode b t)"
proof -
  have "styled t (mode_params n b p t)" for n p t
  proof (induction n arbitrary: p t)
    case 0
    then show ?case by (simp add: styled_def kept_def)
  next
    case (Suc n)
    have s: "styled t (if k = 25 then PtySetCursorStatus b t else t)" for k :: int
      by (simp add: styled_def kept_def PtySetCursorStatus_def)
    have a: "styled t (mode_params n b p (if k = 25 then PtySetCursorStatus b t else t))" for k :: int and p
      by (rule styled_trans [OF s Suc])
    obtain k q where q: "PtyAtoi p = (k, q)" by fastforce
    show ?case using a by (simp add: q Let_def) (simp add: styled_def kept_def)
  qed
  then show ?thesis by (simp add: PtySetMode_def) (simp add: styled_def kept_def)
qed

section \<open>Colors\<close>

definition sgr_inv :: "nat \<Rightarrow> u8 list \<Rightarrow> Pty \<Rightarrow> Pty \<Rightarrow> bool" where
  "sgr_inv k code t0 t \<longleftrightarrow> k \<in> {0, 8, 10, 13, 16, 18, 21} \<and> length code = 4 \<and> code ! 3 < 3 \<and> styled t0 t \<and> length (t_xlat t) = 128"

lemma sgr_param_ok:
  assumes "sgr_inv k code t0 t"
  shows "\<exists>k' code' t'. sgr_param x k code t = Some (k', code', t') \<and> sgr_inv k' code' t0 t'"
proof -
  have c: "unat (code ! 3) < 3" using assms by (simp add: sgr_inv_def word_less_nat_alt)
  have s: "styled t0 t'" if "t' = t\<lparr>t_pr := p, t_fg := f, t_bg := g, t_xlat := x\<rparr>" "length x = 128" for t' p f g x
    using assms that by (simp add: sgr_inv_def styled_def kept_def)
  have plain: "fst (sgr_plain c t) \<in> {0, 8, 16} \<and> styled t0 (snd (sgr_plain c t)) \<and> length (t_xlat (snd (sgr_plain c t))) = 128" for c
    using assms unfolding sgr_plain_def with_xlat_def
    by (simp add: sgr_inv_def) (simp add: styled_def kept_def)
  have k: "k = 0 \<or> k = 8 \<or> k = 16 \<or> k = 10 \<or> k = 18 \<or> k = 13 \<or> k = 21" using assms by (auto simp: sgr_inv_def)
  let ?code = "code[unat (code ! 3) := ucast x]"
  have l: "length ?code = 4" "?code ! 3 = code ! 3" "code ! 3 < 3" "\<not> code ! 3 > 3" "styled t0 t" "length (t_xlat t) = 128"
    using assms c by (auto simp: sgr_inv_def)
  have "unat (code ! 3) = 0 \<or> unat (code ! 3) = 1 \<or> unat (code ! 3) = 2" using c by linarith
  then have "code ! 3 = of_nat 0 \<or> code ! 3 = of_nat 1 \<or> code ! 3 = of_nat 2" by (metis of_nat_unat ucast_id)
  then have u: "code ! 3 + 1 \<noteq> 3 \<Longrightarrow> code ! 3 + 1 < 3" by auto
  show ?thesis
    using k
  proof (elim disjE)
    assume "k = 0"
    then show ?thesis using plain [of "?code ! 0"] l
      by (cases "sgr_plain (?code ! 0) t") (auto simp: sgr_param_def sgr_inv_def Let_def)
  next
    assume "k = 8"
    then show ?thesis using l by (simp add: sgr_param_def sgr_inv_def Let_def)
  next
    assume "k = 16"
    then show ?thesis using l by (simp add: sgr_param_def sgr_inv_def Let_def)
  next
    assume "k = 10"
    then show ?thesis using l u by (simp add: sgr_param_def sgr_inv_def Let_def set_fg_def) (simp add: styled_def kept_def)
  next
    assume "k = 18"
    then show ?thesis using l u by (simp add: sgr_param_def sgr_inv_def Let_def set_bg_def) (simp add: styled_def kept_def)
  next
    assume "k = 13"
    then show ?thesis using l by (simp add: sgr_param_def sgr_inv_def Let_def set_fg_def) (simp add: styled_def kept_def)
  next
    assume "k = 21"
    then show ?thesis using l by (simp add: sgr_param_def sgr_inv_def Let_def set_bg_def) (simp add: styled_def kept_def)
  qed
qed

lemma sgr_loop_ok: "0 \<in> set p \<Longrightarrow> sgr_inv k code t0 t \<Longrightarrow> ends (\<lambda>t. styled t0 t) (sgr_loop p x k code t)"
proof (induction p x k code t rule: sgr_loop.induct)
  case (2 c p x k code t)
  show ?case
  proof (cases "c = 0")
    case True
    then show ?thesis using "2.prems" by (simp add: sgr_inv_def)
  next
    case False
    then have "0 \<in> set p" using "2.prems"(1) by auto
    then show ?thesis
      using False "2.IH" "2.prems"(2) sgr_param_ok [OF "2.prems"(2), of x] by (auto simp del: sgr_loop.simps simp add: sgr_loop.simps(2))
  qed
qed simp

lemma colors_ok [screen]: "pty_ok t \<Longrightarrow> ends (sound t) (PtySelectGraphicsRendition t)"
  unfolding PtySelectGraphicsRendition_def
  by (rule ends_mono [OF sgr_loop_ok [where t0 = t]]) (auto intro: styled_sound simp: pty_ok_def sgr_inv_def styled_def kept_def)

section \<open>Sequences\<close>

text \<open>The sequences that the terminal reports, each in the state it is reported from.\<close>

definition reported :: "PtyState \<Rightarrow> u8 list \<Rightarrow> bool" where
  "reported s bs \<longleftrightarrow>
     s = kPtyCsi \<and> (bs = [27, 91, 48, 110] \<or> bs = [27, 91, 63, 49] \<or> (\<exists>r c. r < 32768 \<and> c < 32768 \<and> bs = [27, 91] @ decimal r @ [59] @ decimal c @ [82])) \<or>
     s = kPtyEsc \<and> bs = [27, 47, 90, 0]"

text \<open>An input to which reports can be made.\<close>

locale reporter =
  fixes inp :: "u8 list \<Rightarrow> Pty \<Rightarrow> ended"
  assumes report: "pty_ok t \<Longrightarrow> reported (t_state t) bs \<Longrightarrow> ends pty_ok (inp bs t)"
begin

lemma sound_ok: "ends (sound t) r \<Longrightarrow> ends pty_ok r"
  by (erule ends_mono) (simp add: sound_def)

lemma moves_ok:
  assumes "pty_ok t"
  shows "pty_ok (PtySetCursorPosition t)" "pty_ok (PtySetCursorColumn t)" "pty_ok (PtySetCursorRow t)"
    "pty_ok (PtyRestoreCursorPosition t)" "pty_ok (PtyMoveCursor dy dx t)" "pty_ok (PtyMoveCursor dy dx (t\<lparr>t_x := 0\<rparr>))"
proof -
  have "pty_ok (t\<lparr>t_x := 0\<rparr>)" using assms by (simp add: pty_ok_def)
  then show "pty_ok (PtySetCursorPosition t)" "pty_ok (PtySetCursorColumn t)" "pty_ok (PtySetCursorRow t)"
    "pty_ok (PtyRestoreCursorPosition t)" "pty_ok (PtyMoveCursor dy dx t)" "pty_ok (PtyMoveCursor dy dx (t\<lparr>t_x := 0\<rparr>))"
    using assms set_ok set_both_ok
    by (auto simp: PtySetCursorPosition_def PtySetCursorColumn_def PtySetCursorRow_def PtyRestoreCursorPosition_def PtyMoveCursor_def
        Let_def sound_def split: prod.split)
qed

lemma csi_ok:
  assumes "pty_ok t" "t_state t = kPtyCsi"
  shows "ends pty_ok (PtyCsi inp t)"
proof -
  have n: "ends pty_ok (PtyCsiN inp t)"
    using assms report [of t] unfolding PtyCsiN_def PtyReportDeviceStatus_def PtyReportCursorPosition_def Let_def
    by (auto simp: reported_def intro!: report)
      (metis append_Cons append_Nil nat_less_iff pos_mod_bound pos_mod_sign zero_less_numeral of_nat_numeral)
  have c: "ends pty_ok (PtyReportPreferredVtType inp t)"
    using assms by (auto simp: PtyReportPreferredVtType_def reported_def intro!: report)
  have s: "pty_ok (PtySaveCursorPosition t)" "pty_ok (PtySetMode b t)" "pty_ok (PtyLed t)" for b
    using styled_sound [OF assms(1)] styles [OF assms(1)] mode_ok by (auto simp: sound_def)
  note ops = scrolls_ok edits_ok erases_ok colors_ok
  show ?thesis
    unfolding PtyCsi_def Let_def
    using assms(1) by (simp add: n c s moves_ok sound_ok [OF ops(1)] sound_ok [OF ops(2)] sound_ok [OF ops(3)] sound_ok [OF ops(4)]
        sound_ok [OF ops(5)] sound_ok [OF ops(6)] sound_ok [OF ops(7)] sound_ok [OF ops(8)] sound_ok [OF ops(9)] sound_ok [OF ops(10)])
qed

end

lemma append_ok: "pty_ok t \<Longrightarrow> pty_ok (PtyEscAppend c t)"
proof -
  assume t: "pty_ok t"
  let ?i = "min (t_esc_i t + 1) 63"
  have "(t_esc t)[?i - 1 := c, ?i := 0] ! ?i = 0" "?i < length ((t_esc t)[?i - 1 := c, ?i := 0])" using t by (simp_all add: pty_ok_def)
  then have "0 \<in> set ((t_esc t)[?i - 1 := c, ?i := 0])" by (metis nth_mem)
  then show ?thesis using t by (simp add: PtyEscAppend_def pty_ok_def Let_def)
qed

lemma append_state [simp]: "t_state (PtyEscAppend c t) = t_state t"
  by (simp add: PtyEscAppend_def Let_def)

lemma state_ok: "pty_ok t \<Longrightarrow> pty_ok (t\<lparr>t_state := s\<rparr>)" "pty_ok t \<Longrightarrow> pty_ok (t\<lparr>t_state := s, t_u8 := u\<rparr>)"
  "pty_ok t \<Longrightarrow> pty_ok (t\<lparr>t_state := s, t_u8 := u, t_n8 := n\<rparr>)" "pty_ok t \<Longrightarrow> pty_ok (t\<lparr>t_u8 := u, t_n8 := n\<rparr>)"
  by (simp_all add: pty_ok_def)

context reporter begin

lemma esc_ok:
  assumes "pty_ok t" "t_state t = kPtyEsc"
  shows "ends pty_ok (PtyEsc inp t)"
proof -
  have z: "ends pty_ok (PtyReportPreferredVtIdentity inp t)"
    using assms by (auto simp: PtyReportPreferredVtIdentity_def reported_def intro!: report)
  have s: "pty_ok (PtySaveCursorPosition t)" "pty_ok (PtySetCodepage c t)" "pty_ok (PtySetXlat GetXlatAscii t)"
    "pty_ok (PtySetXlat GetXlatDoubleWidth t)" for c
    using styled_sound [OF assms(1)] styles [OF assms(1)] by (auto simp: sound_def)
  have x: "pty_ok (t\<lparr>t_x := 0\<rparr>)" using assms(1) by (simp add: pty_ok_def)
  have r: "ends pty_ok (PtyFullReset t)"
    unfolding PtyFullReset_def
    by (rule sound_ok [OF erase_ok]) (use assms(1) cell(5) [of "t_y t" "t_yn t" "t_x t" "t_xn t"] in \<open>simp_all add: pty_ok_def\<close>)
  have "int (length (fill 0 69 (nat (t_yn t * t_xn t)) (t_wcs t))) = t_yn t * t_xn t"
    using int_fill [of "t_wcs t" "t_yn t * t_xn t" 0 "t_yn t * t_xn t" 69] assms(1) cell(5) [of "t_y t" "t_yn t" "t_x t" "t_xn t"]
    by (simp add: pty_ok_def)
  then have "pty_ok (PtyScreenAlignmentDisplay t)"
    using assms(1) by (simp add: PtyScreenAlignmentDisplay_def pty_ok_def)
  then have h: "pty_ok (PtyEscHash t)" using assms(1) s by (simp add: PtyEscHash_def Let_def)
  show ?thesis
    unfolding PtyEsc_def Let_def
    using assms(1) x by (simp add: z s r h moves_ok sound_ok [OF index_ok(1)] sound_ok [OF index_ok(2)])
qed

lemma cntrl_ok: "pty_ok t \<Longrightarrow> ends pty_ok (PtyCntrl c t)"
proof -
  assume t: "pty_ok t"
  have "pty_ok (PtyBell t)" "pty_ok (PtyCarriageReturn t)"
    using styled_sound [OF t] styles [OF t] set_ok [OF t] by (auto simp: sound_def PtyCarriageReturn_def)
  moreover have "pty_ok (t\<lparr>t_x := max 0 (t_x t - 1)\<rparr>)" "pty_ok (t\<lparr>t_state := kPtyEsc, t_esc_i := 0\<rparr>)" "pty_ok (t\<lparr>t_state := kPtyCsi\<rparr>)"
    using t by (simp_all add: pty_ok_def)
  ultimately show ?thesis
    unfolding PtyCntrl_def using t
    by (simp add: sound_ok [OF index_ok(1)] sound_ok [OF index_ok(2)] sound_ok [OF newline_ok] sound_ok [OF tab_ok])
qed

lemma then_ok: "ends pty_ok r \<Longrightarrow> (\<And>t. pty_ok t \<Longrightarrow> pty_ok (f t)) \<Longrightarrow> ends pty_ok (step r (\<lambda>t. Done (f t)))"
  by (erule ends_step) simp

lemma write_ascii_ok: "pty_ok t \<Longrightarrow> ends pty_ok (write_ascii b t)"
proof -
  assume t: "pty_ok t"
  have "unat b < 128" if "b \<le> 0x7e" using that by (simp add: word_le_nat_alt)
  then have "\<not> length (t_xlat t) \<le> unat b" if "b \<le> 0x7e" using that t by (simp add: pty_ok_def not_le)
  then show ?thesis
    unfolding write_ascii_def Let_def using t by (simp add: sound_ok [OF glyph_ok] cntrl_ok state_ok)
qed

lemma write_byte_ok:
  assumes "pty_ok t"
  shows "ends pty_ok (write_byte w inp b t)"
proof (cases "t_state t")
  case kPtyAscii
  then show ?thesis using assms by (simp add: write_byte_def write_ascii_ok)
next
  case kPtyUtf8
  have c: "ends pty_ok (write_char w t)" if "pty_ok t" for t
    unfolding write_char_def Let_def using that
    by (intro then_ok) (simp_all add: cntrl_ok sound_ok [OF glyph_ok] state_ok)
  have "ends pty_ok (write_utf8 w b t)"
    unfolding write_utf8_def Let_def
    using assms by (auto intro!: ends_step [OF c] write_ascii_ok simp: state_ok)
  then show ?thesis using kPtyUtf8 by (simp add: write_byte_def)
next
  case kPtyEsc
  have "ends pty_ok (write_esc inp b t)"
    unfolding write_esc_def using assms kPtyEsc
    by (auto intro!: then_ok esc_ok simp: append_ok state_ok)
  then show ?thesis using kPtyEsc by (simp add: write_byte_def)
next
  case kPtyCsi
  have "ends pty_ok (write_csi inp b t)"
    unfolding write_csi_def Let_def using assms kPtyCsi
    by (auto intro!: then_ok csi_ok simp: append_ok state_ok)
  then show ?thesis using kPtyCsi by (simp add: write_byte_def)
qed

lemma write_bytes_ok: "pty_ok t \<Longrightarrow> i + n \<le> length bs \<Longrightarrow> ends pty_ok (write_from w inp (Bytes bs) n i t)"
proof (induction n arbitrary: i t)
  case (Suc n)
  then show ?case by (auto intro!: ends_step [OF write_byte_ok])
qed simp

end

section \<open>Echoing reports\<close>

text \<open>
  The bytes of a report, as they are echoed, are read in a state in which none of them reports again: they end, keep the terminal sound, and
  do not touch the input.
\<close>

primrec calm :: "(u32 \<Rightarrow> bool) \<Rightarrow> (u8 list \<Rightarrow> Pty \<Rightarrow> ended) \<Rightarrow> u8 list \<Rightarrow> Pty \<Rightarrow> bool" where
  "calm w inp [] t \<longleftrightarrow> pty_ok t"
| "calm w inp (b # bs) t \<longleftrightarrow>
     ends (\<lambda>t'. t_input t' = t_input t \<and> t_moves t' = t_moves t \<and> calm w inp bs t') (write_byte w inp b t)"

lemma calm_echo:
  assumes "calm w inp bs t" "t_moves t = m" "s + i + length bs \<le> length (t_input t)" "take (length bs) (drop (s + i) (t_input t)) = bs"
  shows "ends (\<lambda>t'. pty_ok t' \<and> length (t_input t') = length (t_input t)) (write_from w inp (Buffered m s) (length bs) i t)"
  using assms
proof (induction bs arbitrary: i t)
  case (Cons b bs)
  have len: "s + i < length (t_input t)" using Cons.prems(3) by simp
  then have "drop (s + i) (t_input t) = t_input t ! (s + i) # drop (s + Suc i) (t_input t)"
    by (simp add: Cons_nth_drop_Suc [symmetric])
  then have b: "t_input t ! (s + i) = b" "take (length bs) (drop (s + Suc i) (t_input t)) = bs" using Cons.prems(4) by simp_all
  have "ends (\<lambda>t'. pty_ok t' \<and> length (t_input t') = length (t_input t)) (write_from w inp (Buffered m s) (length bs) (Suc i) t')"
    if "t_input t' = t_input t \<and> t_moves t' = t_moves t \<and> calm w inp bs t'" for t'
    using Cons.IH [of t' "Suc i"] that Cons.prems(2,3) b(2) by simp
  then show ?case
    using Cons.prems(1,2) len b(1) by (auto intro: ends_step)
qed simp

lemma calm_ascii: "pty_ok t \<Longrightarrow> t_state t = kPtyAscii \<Longrightarrow> \<forall>b\<in>set bs. b = 0 \<or> 0x20 \<le> b \<and> b \<le> 0x7e \<Longrightarrow> calm w inp bs t"
proof (induction bs arbitrary: t)
  case (Cons b bs)
  have c: "calm w inp bs t'" if "sound t t'" for t'
    using Cons that by (intro Cons.IH) (simp_all add: sound_def kept_def)
  show ?case
  proof (cases "b = 0")
    case True
    then show ?thesis
      using c [OF sound_refl [OF Cons.prems(1)]] Cons.prems(2) by (simp add: write_byte_def write_ascii_def PtyCntrl_def)
  next
    case False
    then have b: "0x20 \<le> b" "b \<le> 0x7e" using Cons.prems(3) by auto
    then have "b \<le> 0x7f" "unat b < 128" by (simp_all add: word_le_nat_alt)
    then have "write_byte w inp b t =
        (let wc = t_xlat t ! unat b in if wc \<ge> 0 then PtyWriteGlyph (word_of_int wc) 1 t else PtyWriteGlyph (word_of_int (- wc)) 2 t)"
      using Cons.prems(1,2) b by (simp add: write_byte_def write_ascii_def pty_ok_def)
    moreover have "ends (\<lambda>t'. t_input t' = t_input t \<and> t_moves t' = t_moves t \<and> calm w inp bs t') (PtyWriteGlyph wc k t)" for wc k
      by (rule ends_mono [OF glyph_ok [OF Cons.prems(1)]]) (use c in \<open>simp add: sound_def kept_def\<close>)
    ultimately show ?thesis by (simp add: Let_def)
  qed
qed simp

lemma append_char:
  assumes "pty_ok t"
  shows "t_esc (PtyEscAppend c t) ! (t_esc_i (PtyEscAppend c t) - 1) = c"
  using assms by (auto simp: PtyEscAppend_def pty_ok_def Let_def nth_list_update)

lemma append_input [simp]: "t_input (PtyEscAppend c t) = t_input t" "t_moves (PtyEscAppend c t) = t_moves t"
  by (simp_all add: PtyEscAppend_def Let_def)

lemma calm_params:
  assumes "\<And>t. pty_ok t \<Longrightarrow> t_state t = kPtyCsi \<Longrightarrow> calm w inp bs t"
  shows "pty_ok t \<Longrightarrow> t_state t = kPtyCsi \<Longrightarrow> \<forall>b\<in>set ps. 0x30 \<le> b \<and> b \<le> 0x3f \<Longrightarrow> calm w inp (ps @ bs) t"
proof (induction ps arbitrary: t)
  case Nil
  then show ?case using assms by simp
next
  case (Cons b ps)
  have "calm w inp (ps @ bs) (PtyEscAppend b t)"
    using Cons.prems by (intro Cons.IH) (simp_all add: append_ok)
  then show ?case using Cons.prems by (simp add: write_byte_def write_csi_def Let_def)
qed

lemma calm_final_R: "pty_ok t \<Longrightarrow> t_state t = kPtyCsi \<Longrightarrow> calm w inp [82] t"
  using append_char [of t 82] append_ok [of t 82]
  by (simp add: write_byte_def write_csi_def Let_def PtyCsi_def) (simp add: pty_ok_def)

lemma decimal_digits: "b \<in> set (decimal n) \<Longrightarrow> 48 \<le> b \<and> b \<le> 57"
proof (induction n rule: decimal.induct)
  case (1 n)
  have d: "48 \<le> (48 + of_nat k :: u8) \<and> (48 + of_nat k :: u8) \<le> 57" if "k < 10" for k
  proof -
    have "(48 + of_nat k :: u8) = of_nat (48 + k)" by simp
    moreover have "unat (of_nat (48 + k) :: u8) = 48 + k" using that by (simp only: unsigned_of_nat) (simp add: take_bit_nat_eq_self)
    ultimately show ?thesis using that by (simp only: word_le_nat_alt) simp
  qed
  show ?case
  proof (cases "n < 10")
    case True
    then show ?thesis using "1.prems" d [of n] by (simp add: decimal.simps [of n])
  next
    case False
    then have "decimal n = decimal (n div 10) @ [48 + of_nat (n mod 10)]" by (simp add: decimal.simps [of n])
    then show ?thesis using "1.prems" "1.IH" [OF False] d [of "n mod 10"] by (auto simp del: of_nat_mod)
  qed
qed

lemma calm_status: "pty_ok t \<Longrightarrow> t_state t = kPtyCsi \<Longrightarrow> t_esc_i t = 0 \<Longrightarrow> calm w inp [48, 110] t"
proof -
  assume t: "pty_ok t" "t_state t = kPtyCsi" "t_esc_i t = 0"
  obtain a b c r where e: "t_esc t = a # b # c # r"
    using t(1) by (cases "t_esc t"; cases "tl (t_esc t)"; cases "tl (tl (t_esc t))") (auto simp: pty_ok_def)
  let ?t = "PtyEscAppend 110 (PtyEscAppend 48 t)"
  have "?t = t\<lparr>t_esc_i := 2, t_esc := 48 # 110 # 0 # r\<rparr>"
    by (simp add: PtyEscAppend_def Let_def t(3) e)
  moreover have "pty_ok ?t" using t(1) by (simp add: append_ok)
  ultimately show ?thesis
    using t(2) by (simp add: write_byte_def write_csi_def Let_def PtyCsi_def PtyCsiN_def PtyAtoi_def isdigit_def wrap_def state_ok)
qed

lemma calm_restart:
  assumes "\<And>t. pty_ok t \<Longrightarrow> t_state t = kPtyEsc \<Longrightarrow> t_esc_i t = 0 \<Longrightarrow> calm w inp bs t" "pty_ok t" "t_state t = kPtyCsi \<or> t_state t = kPtyEsc"
  shows "calm w inp (10 # 27 # bs) t"
proof -
  have "calm w inp (27 # bs) t'" if "pty_ok t'" "t_state t' = kPtyAscii" for t'
  proof -
    have "calm w inp bs (t'\<lparr>t_state := kPtyEsc, t_esc_i := 0\<rparr>)" using that by (intro assms(1)) (simp_all add: pty_ok_def)
    then show ?thesis using that by (simp add: write_byte_def write_ascii_def PtyCntrl_def)
  qed
  then show ?thesis
    using assms(2,3) by (auto simp: write_byte_def write_csi_def write_esc_def Let_def append_ok state_ok simp del: calm.simps(2) simp add: calm.simps(2) [of w inp 10])
qed

lemma calm_report:
  assumes "pty_ok t" "reported (t_state t) bs"
  shows "calm w inp bs t \<and> calm w inp (10 # bs) t"
proof -
  have quiet: "calm w inp (27 # bs) t" if "\<forall>b\<in>set bs. b = 0 \<or> 0x20 \<le> b \<and> b \<le> 0x7e" "t_state t = kPtyCsi \<or> t_state t = kPtyEsc" for bs
  proof -
    have "calm w inp bs (PtyEscAppend 27 t\<lparr>t_state := kPtyAscii\<rparr>)" "calm w inp bs (t\<lparr>t_state := kPtyAscii\<rparr>)"
      using assms(1) that(1) by (auto intro!: calm_ascii simp: append_ok state_ok)
    then show ?thesis using that(2) by (auto simp: write_byte_def write_csi_def write_esc_def Let_def)
  qed
  have csi: "calm w inp (91 # bs) t" if "\<And>t. pty_ok t \<Longrightarrow> t_state t = kPtyCsi \<Longrightarrow> t_esc_i t = 0 \<Longrightarrow> calm w inp bs t"
    "pty_ok t" "t_state t = kPtyEsc" "t_esc_i t = 0" for bs t
    using that(1) [of "t\<lparr>t_state := kPtyCsi\<rparr>"] that(2-4) by (simp add: write_byte_def write_esc_def state_ok)
  consider (status) "t_state t = kPtyCsi" "bs = [27, 91, 48, 110]"
    | (type) "t_state t = kPtyCsi" "bs = [27, 91, 63, 49]"
    | (place) r c where "t_state t = kPtyCsi" "bs = [27, 91] @ decimal r @ [59] @ decimal c @ [82]"
    | (identity) "t_state t = kPtyEsc" "bs = [27, 47, 90, 0]"
    using assms(2) unfolding reported_def by blast
  then show ?thesis
  proof cases
    case status
    then show ?thesis unfolding status(2)
      using assms(1) by (intro conjI quiet calm_restart csi calm_status) simp_all
  next
    case type
    have "calm w inp ([63, 49] @ []) t" if "pty_ok t" "t_state t = kPtyCsi" for t
      by (rule calm_params) (use that in simp_all)
    then show ?thesis unfolding type(2)
      using assms(1) type(1) by (intro conjI quiet calm_restart csi) simp_all
  next
    case place
    have "0x30 \<le> b \<and> b \<le> 0x3f" "0x20 \<le> b \<and> b \<le> 0x7e" if "b \<in> set (decimal n)" for b n
      using decimal_digits [OF that] by (simp_all add: word_le_nat_alt)
    then have d: "\<forall>b\<in>set (decimal r @ [59] @ decimal c). 0x30 \<le> b \<and> b \<le> 0x3f"
      "\<forall>b\<in>set (91 # decimal r @ [59] @ decimal c @ [82]). b = 0 \<or> 0x20 \<le> b \<and> b \<le> 0x7e" by auto
    have "calm w inp ((decimal r @ [59] @ decimal c) @ [82]) t" if "pty_ok t" "t_state t = kPtyCsi" for t
      by (rule calm_params [OF calm_final_R that d(1)])
    then have "calm w inp (10 # 27 # 91 # decimal r @ [59] @ decimal c @ [82]) t"
      using assms(1) place(1) by (intro calm_restart csi) simp_all
    moreover have "calm w inp (27 # 91 # decimal r @ [59] @ decimal c @ [82]) t" by (rule quiet [OF d(2)]) (simp add: place(1))
    ultimately show ?thesis unfolding place(2) by simp
  next
    case identity
    have e: "calm w inp [47, 90, 0] t" if t: "pty_ok t" "t_state t = kPtyEsc" "t_esc_i t = 0" for t
    proof -
      obtain a b c r where e: "t_esc t = a # b # c # r"
        using t(1) by (cases "t_esc t"; cases "tl (t_esc t)"; cases "tl (tl (t_esc t))") (auto simp: pty_ok_def)
      let ?t = "PtyEscAppend 90 (PtyEscAppend 47 t)"
      have "?t = t\<lparr>t_esc_i := 2, t_esc := 47 # 90 # 0 # r\<rparr>"
        by (simp add: PtyEscAppend_def Let_def t(3) e)
      moreover have "pty_ok ?t" using t(1) by (simp add: append_ok)
      moreover have "calm w inp [0] (?t\<lparr>t_state := kPtyAscii\<rparr>)" using t(1) by (intro calm_ascii) (simp_all add: append_ok state_ok)
      ultimately show ?thesis
        using t(2) by (simp add: write_byte_def write_esc_def PtyEsc_def)
    qed
    then show ?thesis unfolding identity(2)
      using assms(1) identity(1) by (intro conjI quiet calm_restart) simp_all
  qed
qed

lemma grow_input_ge: "8 \<le> m \<Longrightarrow> need \<le> grow_input need m \<and> m \<le> grow_input need m"
proof (induction need m rule: grow_input.induct)
  case (1 need m)
  then show ?case by (subst (1 2) grow_input.simps) auto
qed

lemma add_feeds_plain: "13 \<notin> set bs \<Longrightarrow> add_feeds False bs = bs"
  by (induction bs) auto

lemma length_add_feeds: "length (add_feeds cr bs) \<le> 2 * length bs"
proof (induction cr bs rule: add_feeds.induct)
  case (2 cr c cs)
  then show ?case by (cases cr) auto
qed simp

lemma add_feeds_report:
  assumes "reported s bs"
  shows "add_feeds cr bs = (if cr then 10 # bs else bs)"
proof -
  have d: "13 \<notin> set (decimal n)" for n using decimal_digits [of 13 n] by auto
  obtain rest where "bs = 27 # rest" "13 \<notin> set rest"
    using assms d unfolding reported_def by fastforce
  then show ?thesis by (simp add: add_feeds_plain)
qed

lemma length_overlay: "i + length xs \<le> length ys \<Longrightarrow> length (overlay i xs ys) = length ys"
  by (simp add: overlay_def)

lemma overlay_read: "i + length xs \<le> length ys \<Longrightarrow> take (length xs) (drop i (overlay i xs ys)) = xs"
  by (simp add: overlay_def)

lemma write_input_report:
  assumes "pty_ok t" "reported (t_state t) bs"
  shows "ends pty_ok (write_input w (Suc d) bs t)"
proof -
  let ?i = "t_input_i t" and ?n = "length bs" and ?m = "length (t_input t)"
  define t1 where "t1 = (if ?i + ?n * 2 + 1 > ?m
      then t\<lparr>t_input := t_input t @ replicate (grow_input (?i + ?n * 2 + 1) (max ?m 8) - ?m) 0, t_moves := t_moves t + 1\<rparr> else t)"
  have g: "?i + ?n * 2 + 1 \<le> grow_input (?i + ?n * 2 + 1) (max ?m 8)" by (simp add: grow_input_ge)
  have t1: "pty_ok t1" "t_state t1 = t_state t" "t_input_i t1 = ?i" "?i + ?n * 2 < length (t_input t1)"
    using assms(1) g by (auto simp: t1_def pty_ok_def)
  define cr where "cr = (?i \<noteq> 0 \<and> t_input t1 ! (?i - 1) = 13)"
  define ds where "ds = add_feeds cr bs"
  define t2 where "t2 = t1\<lparr>t_input := overlay ?i ds (t_input t1)\<rparr>"
  have ds: "?i + length ds \<le> length (t_input t1)" using length_add_feeds [of cr bs] t1(4) by (simp add: ds_def)
  have t2: "pty_ok t2" "t_state t2 = t_state t" "length (t_input t2) = length (t_input t1)"
    using t1 ds by (simp_all add: t2_def pty_ok_def length_overlay)
  have run: "write_input w (Suc d) bs t =
      step (if t_conf t2 AND kPtyNoecho = 0 then write_from w (write_input w d) (Buffered (t_moves t2) ?i) (length ds) 0 t2 else Done t2)
        (\<lambda>t. Done (t\<lparr>t_input_i := ?i + length ds\<rparr>))"
    by (simp only: write_input.simps PtyWriteInput_def Let_def t1_def [symmetric] cr_def [symmetric] ds_def [symmetric] t2_def [symmetric])
  have "calm w (write_input w d) ds t2"
    using calm_report [of t2 bs] t2 assms(2) by (simp add: ds_def add_feeds_report [OF assms(2)])
  then have "ends (\<lambda>t'. pty_ok t' \<and> length (t_input t') = length (t_input t2)) (write_from w (write_input w d) (Buffered (t_moves t2) ?i) (length ds) 0 t2)"
    by (rule calm_echo) (use ds t2(3) in \<open>simp_all add: t2_def overlay_read\<close>)
  then have "ends (\<lambda>t'. pty_ok t' \<and> length (t_input t') = length (t_input t2))
      (if t_conf t2 AND kPtyNoecho = 0 then write_from w (write_input w d) (Buffered (t_moves t2) ?i) (length ds) 0 t2 else Done t2)"
    using t2(1) by simp
  then show ?thesis
    unfolding run by (rule ends_step) (use ds t2(3) in \<open>simp add: pty_ok_def\<close>)
qed

interpretation terminal: reporter "write_input w (Suc d)" for w d
  by unfold_locales (rule write_input_report)


text \<open>The terminal as it is made.\<close>

lemma new_pty: "\<exists>t. NewPty = Done t \<and> pty_ok t \<and> t_yn t = 25 \<and> t_xn t = 80 \<and> t_y t = 0 \<and> t_x t = 0 \<and> t_state t = kPtyAscii \<and>
    t_conf t = 0 \<and> t_xlat t = GetXlatAscii \<and> t_esc t = replicate 64 0"
  by (simp add: NewPty_def PtyResize_def empty_pty_def Let_def PtySetX_def PtySetY_def copy_rows_def PtyFullReset_def PtyErase_def
      pty_ok_def length_fill)


end
